(* ===== verification/Prelude.thy ===== *)
theory Prelude
  imports Main "HOL-Library.Multiset" "HOL-Library.Char_ord" "HOL-Library.List_Lexorder"
    "HOL-Library.Option_ord" "HOL-Library.Product_Lexorder"
    "HOL-Library.Code_Target_Nat"
begin

text \<open>
  What every component of the development shares: the error values of \<^verbatim>\<open>src/src/error.rs\<close>,
  the results of fallible operations, Rust's \<open>u64\<close> arithmetic with its saturation, its checks and
  its wrap-around written out, the slice and iterator operations of the Rust standard library that
  the sources call (\<open>sort_by\<close>, \<open>min_by\<close>, \<open>max_by\<close>, \<open>rotate_left\<close>, \<open>rotate_right\<close>), the string
  operations they call, and the lemma collections the component proofs use.

  A Rust \<open>u64\<close> or \<open>usize\<close> is a \<open>nat\<close>; each operation says what happens past \<open>u64_max\<close>. A Rust string is a
  list of bytes, and the functions on characters treat the ASCII range, to which the identifiers,
  digests, hosts and paths of this program are restricted.
\<close>

section \<open>Types and errors\<close>

type_synonym uuid = nat
type_synonym byte = nat
type_synonym bytes = "byte list"
type_synonym instant = nat
type_synonym duration = nat

named_theorems u64_arith \<open>definitions of the machine integer operations\<close>
named_theorems result_defs \<open>definitions of the result combinators\<close>

text \<open>The variants of \<open>AppError\<close>; a library error that a variant wraps is kept as its text.\<close>

datatype app_error =
    BadRequest string
  | Unauthorized
  | Forbidden
  | RateLimited
  | NotFound string
  | Conflict string
  | Unavailable string
  | Upstream string
  | Integrity
  | Database string
  | Io string
  | Internal string

type_synonym 'a api_result = "app_error + 'a"

text \<open>\<open>AppError::status\<close> and \<open>AppError::code\<close>: the HTTP status and the machine-readable code.\<close>

fun app_error_status :: "app_error \<Rightarrow> nat" where
  "app_error_status (BadRequest _) = 400"
| "app_error_status Unauthorized = 401"
| "app_error_status Forbidden = 403"
| "app_error_status RateLimited = 429"
| "app_error_status (NotFound _) = 404"
| "app_error_status (Conflict _) = 409"
| "app_error_status (Unavailable _) = 503"
| "app_error_status (Upstream _) = 502"
| "app_error_status Integrity = 502"
| "app_error_status (Database _) = 500"
| "app_error_status (Io _) = 500"
| "app_error_status (Internal _) = 500"

fun app_error_code :: "app_error \<Rightarrow> string" where
  "app_error_code (BadRequest _) = ''bad_request''"
| "app_error_code Unauthorized = ''unauthorized''"
| "app_error_code Forbidden = ''forbidden''"
| "app_error_code RateLimited = ''rate_limited''"
| "app_error_code (NotFound _) = ''not_found''"
| "app_error_code (Conflict _) = ''conflict''"
| "app_error_code (Unavailable _) = ''unavailable''"
| "app_error_code (Upstream _) = ''upstream_error''"
| "app_error_code Integrity = ''integrity_error''"
| "app_error_code (Database _) = ''internal_error''"
| "app_error_code (Io _) = ''internal_error''"
| "app_error_code (Internal _) = ''internal_error''"

text \<open>The \<open>Display\<close> text of an error, from the \<open>thiserror\<close> attributes.\<close>

fun app_error_display :: "app_error \<Rightarrow> string" where
  "app_error_display (BadRequest m) = m"
| "app_error_display Unauthorized = ''authentication required''"
| "app_error_display Forbidden = ''access denied''"
| "app_error_display RateLimited = ''too many authentication attempts; try again later''"
| "app_error_display (NotFound r) = r @ '' not found''"
| "app_error_display (Conflict m) = m"
| "app_error_display (Unavailable m) = m"
| "app_error_display (Upstream m) = ''upstream request failed: '' @ m"
| "app_error_display Integrity = ''content integrity check failed''"
| "app_error_display (Database _) = ''database operation failed''"
| "app_error_display (Io _) = ''I/O operation failed''"
| "app_error_display (Internal _) = ''internal error''"

text \<open>\<open>IntoResponse for AppError\<close>: the status, the code and the message a client reads.\<close>

definition app_error_into_response :: "app_error \<Rightarrow> nat \<times> string \<times> string" where
  "app_error_into_response e =
     (let status = app_error_status e;
          message = (if status = 500 then ''The request could not be completed''
                     else app_error_display e)
      in (status, app_error_code e, message))"

text \<open>The \<open>?\<close> operator: the first error ends the computation.\<close>

definition result_bind :: "'e + 'a \<Rightarrow> ('a \<Rightarrow> 'e + 'b) \<Rightarrow> 'e + 'b" where
  [result_defs]: "result_bind r f = (case r of Inl e \<Rightarrow> Inl e | Inr x \<Rightarrow> f x)"

definition is_ok :: "'e + 'a \<Rightarrow> bool" where
  [result_defs]: "is_ok r = (case r of Inl _ \<Rightarrow> False | Inr _ \<Rightarrow> True)"

definition ok_or :: "'e \<Rightarrow> 'a option \<Rightarrow> 'e + 'a" where
  [result_defs]: "ok_or e x = (case x of None \<Rightarrow> Inl e | Some v \<Rightarrow> Inr v)"

section \<open>Machine integers\<close>

definition u64_max :: nat where
  [u64_arith]: "u64_max = 18446744073709551615"

definition i64_max :: nat where
  [u64_arith]: "i64_max = 9223372036854775807"

definition u64_saturating_add :: "nat \<Rightarrow> nat \<Rightarrow> nat" where
  [u64_arith]: "u64_saturating_add a b = min (a + b) u64_max"

definition u64_saturating_sub :: "nat \<Rightarrow> nat \<Rightarrow> nat" where
  [u64_arith]: "u64_saturating_sub a b = a - b"

definition u64_saturating_mul :: "nat \<Rightarrow> nat \<Rightarrow> nat" where
  [u64_arith]: "u64_saturating_mul a b = min (a * b) u64_max"

definition u64_checked_add :: "nat \<Rightarrow> nat \<Rightarrow> nat option" where
  [u64_arith]: "u64_checked_add a b = (if a + b \<le> u64_max then Some (a + b) else None)"

definition u64_checked_sub :: "nat \<Rightarrow> nat \<Rightarrow> nat option" where
  [u64_arith]: "u64_checked_sub a b = (if b \<le> a then Some (a - b) else None)"

definition u64_checked_mul :: "nat \<Rightarrow> nat \<Rightarrow> nat option" where
  [u64_arith]: "u64_checked_mul a b = (if a * b \<le> u64_max then Some (a * b) else None)"

text \<open>The plain \<open>+\<close> and \<open>-\<close> of a release build, which wrap around.\<close>

definition u64_wrapping_add :: "nat \<Rightarrow> nat \<Rightarrow> nat" where
  [u64_arith]: "u64_wrapping_add a b = (a + b) mod (u64_max + 1)"

definition u64_wrapping_sub :: "nat \<Rightarrow> nat \<Rightarrow> nat" where
  [u64_arith]: "u64_wrapping_sub a b = (a + (u64_max + 1) - b) mod (u64_max + 1)"

definition div_ceil :: "nat \<Rightarrow> nat \<Rightarrow> nat" where
  "div_ceil a b = (if a mod b = 0 then a div b else a div b + 1)"

definition SECOND :: nat where
  "SECOND = 1000000000"

definition clamp :: "'a::linorder \<Rightarrow> 'a \<Rightarrow> 'a \<Rightarrow> 'a" where
  "clamp lo hi x = (if x < lo then lo else if hi < x then hi else x)"

section \<open>Slices and iterators\<close>

text \<open>\<open>slice::sort_by\<close>: a stable sort; \<open>le a b\<close> is "the comparison of a with b is not Greater".\<close>

fun insert_by :: "('a \<Rightarrow> 'a \<Rightarrow> bool) \<Rightarrow> 'a \<Rightarrow> 'a list \<Rightarrow> 'a list" where
  "insert_by le x [] = [x]"
| "insert_by le x (y # ys) = (if le x y then x # y # ys else y # insert_by le x ys)"

fun sort_by :: "('a \<Rightarrow> 'a \<Rightarrow> bool) \<Rightarrow> 'a list \<Rightarrow> 'a list" where
  "sort_by le [] = []"
| "sort_by le (x # xs) = insert_by le x (sort_by le xs)"

text \<open>\<open>Iterator::min_by\<close> keeps the first of several minima, \<open>max_by\<close> the last of several maxima.\<close>

fun min_by :: "('a \<Rightarrow> 'a \<Rightarrow> bool) \<Rightarrow> 'a list \<Rightarrow> 'a option" where
  "min_by le [] = None"
| "min_by le (x # xs) = Some (foldl (\<lambda>best y. if le best y then best else y) x xs)"

fun max_by :: "('a \<Rightarrow> 'a \<Rightarrow> bool) \<Rightarrow> 'a list \<Rightarrow> 'a option" where
  "max_by le [] = None"
| "max_by le (x # xs) = Some (foldl (\<lambda>best y. if le best y then y else best) x xs)"

definition rotate_left :: "nat \<Rightarrow> 'a list \<Rightarrow> 'a list" where
  "rotate_left k xs = drop k xs @ take k xs"

text \<open>\<open>xs[..=k].rotate_right(1)\<close>: the element at \<open>k\<close> moves to the front.\<close>

definition promote :: "nat \<Rightarrow> 'a list \<Rightarrow> 'a list" where
  "promote k xs = (if k < length xs then xs ! k # take k xs @ drop (Suc k) xs else xs)"

fun position :: "('a \<Rightarrow> bool) \<Rightarrow> 'a list \<Rightarrow> nat option" where
  "position p [] = None"
| "position p (x # xs) = (if p x then Some 0 else map_option Suc (position p xs))"

section \<open>Strings\<close>

definition is_ascii_digit :: "char \<Rightarrow> bool" where
  "is_ascii_digit c = (CHR ''0'' \<le> c \<and> c \<le> CHR ''9'')"

definition is_ascii_lowercase :: "char \<Rightarrow> bool" where
  "is_ascii_lowercase c = (CHR ''a'' \<le> c \<and> c \<le> CHR ''z'')"

definition is_ascii_uppercase :: "char \<Rightarrow> bool" where
  "is_ascii_uppercase c = (CHR ''A'' \<le> c \<and> c \<le> CHR ''Z'')"

definition is_ascii_alphanumeric :: "char \<Rightarrow> bool" where
  "is_ascii_alphanumeric c = (is_ascii_digit c \<or> is_ascii_lowercase c \<or> is_ascii_uppercase c)"

definition is_ascii_hexdigit :: "char \<Rightarrow> bool" where
  "is_ascii_hexdigit c =
     (is_ascii_digit c \<or> CHR ''a'' \<le> c \<and> c \<le> CHR ''f'' \<or> CHR ''A'' \<le> c \<and> c \<le> CHR ''F'')"

definition is_whitespace :: "char \<Rightarrow> bool" where
  "is_whitespace c = (c = CHR '' '' \<or> c = CHR 0x09 \<or> c = CHR 0x0A \<or> c = CHR 0x0B
     \<or> c = CHR 0x0C \<or> c = CHR 0x0D)"

definition to_ascii_lowercase_char :: "char \<Rightarrow> char" where
  "to_ascii_lowercase_char c = (if is_ascii_uppercase c then char_of (of_char c + 32 :: nat) else c)"

definition to_ascii_lowercase :: "string \<Rightarrow> string" where
  "to_ascii_lowercase s = map to_ascii_lowercase_char s"

definition eq_ignore_ascii_case :: "string \<Rightarrow> string \<Rightarrow> bool" where
  "eq_ignore_ascii_case a b = (to_ascii_lowercase a = to_ascii_lowercase b)"

definition trim_matches :: "(char \<Rightarrow> bool) \<Rightarrow> string \<Rightarrow> string" where
  "trim_matches p s = rev (dropWhile p (rev (dropWhile p s)))"

definition trim :: "string \<Rightarrow> string" where
  "trim s = trim_matches is_whitespace s"

definition starts_with :: "string \<Rightarrow> string \<Rightarrow> bool" where
  "starts_with p s = (take (length p) s = p)"

definition strip_prefix :: "string \<Rightarrow> string \<Rightarrow> string option" where
  "strip_prefix p s = (if starts_with p s then Some (drop (length p) s) else None)"

definition strip_suffix :: "string \<Rightarrow> string \<Rightarrow> string option" where
  "strip_suffix p s = map_option rev (strip_prefix (rev p) (rev s))"

text \<open>The first occurrence of a pattern, as \<open>str::find\<close>; the last one, as \<open>str::rfind\<close>.\<close>

fun str_find :: "string \<Rightarrow> string \<Rightarrow> nat option" where
  "str_find p [] = (if p = [] then Some 0 else None)"
| "str_find p (c # s) =
     (if starts_with p (c # s) then Some 0 else map_option Suc (str_find p s))"

fun str_rfind :: "string \<Rightarrow> string \<Rightarrow> nat option" where
  "str_rfind p [] = (if p = [] then Some 0 else None)"
| "str_rfind p (c # s) =
     (case str_rfind p s of
        Some i \<Rightarrow> Some (Suc i)
      | None \<Rightarrow> if starts_with p (c # s) then Some 0 else None)"

definition str_contains :: "string \<Rightarrow> string \<Rightarrow> bool" where
  "str_contains p s = (str_find p s \<noteq> None)"

definition split_once :: "string \<Rightarrow> string \<Rightarrow> (string \<times> string) option" where
  "split_once p s = map_option (\<lambda>i. (take i s, drop (i + length p) s)) (str_find p s)"

definition rsplit_once :: "string \<Rightarrow> string \<Rightarrow> (string \<times> string) option" where
  "rsplit_once p s = map_option (\<lambda>i. (take i s, drop (i + length p) s)) (str_rfind p s)"

fun split_char :: "char \<Rightarrow> string \<Rightarrow> string list" where
  "split_char d [] = [[]]"
| "split_char d (c # s) =
     (if c = d then [] # split_char d s
      else case split_char d s of [] \<Rightarrow> [[c]] | w # ws \<Rightarrow> (c # w) # ws)"

text \<open>Decimal text: \<open>to_string\<close> of the integers, \<open>str::parse\<close> of \<open>u64\<close> (an optional plus sign, at least one
  digit, no overflow) and of \<open>bool\<close>.\<close>

fun nat_text :: "nat \<Rightarrow> string" where
  "nat_text n = (if n < 10 then [char_of (48 + n)] else nat_text (n div 10) @ [char_of (48 + n mod 10)])"

definition int_text :: "int \<Rightarrow> string" where
  "int_text i = (if i < 0 then CHR ''-'' # nat_text (nat (- i)) else nat_text (nat i))"

fun parse_nat :: "string \<Rightarrow> nat \<Rightarrow> nat option" where
  "parse_nat [] n = Some n"
| "parse_nat (c # s) n = (if is_ascii_digit c then parse_nat s (10 * n + (of_char c - 48)) else None)"

definition u64_parse :: "string \<Rightarrow> nat option" where
  "u64_parse s =
     (let digits = (case s of [] \<Rightarrow> [] | c # cs \<Rightarrow> if c = CHR ''+'' then cs else s)
      in if digits = [] then None
         else Option.bind (parse_nat digits 0) (\<lambda>n. if n \<le> u64_max then Some n else None))"

definition bool_text :: "bool \<Rightarrow> string" where
  "bool_text b = (if b then ''true'' else ''false'')"

definition bool_parse :: "string \<Rightarrow> bool option" where
  "bool_parse s = (if s = ''true'' then Some True else if s = ''false'' then Some False else None)"

section \<open>Lemmas on results and machine integers\<close>

lemma result_bind_Inr [simp]: "result_bind (Inr x) f = f x"
  by (simp add: result_bind_def)

lemma result_bind_Inl [simp]: "result_bind (Inl e) f = Inl e"
  by (simp add: result_bind_def)

lemma result_bind_eq_Inr [simp]:
  "(result_bind r f = Inr y) \<longleftrightarrow> (\<exists>x. r = Inr x \<and> f x = Inr y)"
  by (cases r) auto

lemma result_bind_eq_Inl:
  "(result_bind r f = Inl e) \<longleftrightarrow> r = Inl e \<or> (\<exists>x. r = Inr x \<and> f x = Inl e)"
  by (cases r) auto

lemma is_ok_simps [simp]: "is_ok (Inr x)" "\<not> is_ok (Inl e)"
  by (simp_all add: is_ok_def)

lemma ok_or_eq_Inr [simp]: "(ok_or e x = Inr v) \<longleftrightarrow> x = Some v"
  by (simp add: ok_or_def split: option.splits)

lemma clamp_bounds: "lo \<le> hi \<Longrightarrow> lo \<le> clamp lo hi x \<and> clamp lo hi x \<le> hi"
  by (auto simp: clamp_def)

lemma div_ceil_upper: "0 < b \<Longrightarrow> a \<le> div_ceil a b * b"
proof -
  assume "0 < b"
  then have "a div b * b + a mod b = a" and "a mod b < b" by simp_all
  then have "a \<le> a div b * b + b" and "a mod b = 0 \<longrightarrow> a \<le> a div b * b" by linarith+
  then show ?thesis by (simp only: div_ceil_def add_mult_distrib split: if_split) simp
qed

lemma div_ceil_lower: "0 < b \<Longrightarrow> 0 < a \<Longrightarrow> (div_ceil a b - 1) * b < a"
proof (cases "a mod b = 0")
  case True
  assume b: "0 < b" and a: "0 < a"
  have eq: "a div b * b = a" using True div_mult_mod_eq [of a b] by simp
  with a have "0 < a div b" by (metis mult_0 not_gr_zero)
  with b have "(a div b - 1) * b < a div b * b" by simp
  with True eq show ?thesis by (simp add: div_ceil_def)
next
  case False
  assume "0 < b"
  have "a div b * b < a" using False div_mult_mod_eq [of a b] by linarith
  with False show ?thesis by (simp add: div_ceil_def)
qed

lemma div_ceil_pos: "0 < b \<Longrightarrow> 0 < a \<Longrightarrow> 0 < div_ceil a b"
  using div_ceil_upper [of b a] by (metis le_zero_eq mult_0 not_gr_zero)

lemma div_ceil_le: "0 < b \<Longrightarrow> div_ceil a b \<le> a"
proof -
  assume b: "0 < b"
  show ?thesis
  proof (cases "a = 0")
    case False
    with b have "(div_ceil a b - 1) * b < a" by (intro div_ceil_lower) auto
    moreover have "(div_ceil a b - 1) * 1 \<le> (div_ceil a b - 1) * b"
      using b by (intro mult_le_mono2) simp
    ultimately show ?thesis by linarith
  qed (simp add: div_ceil_def)
qed

lemma u64_saturating_add_le [simp]: "u64_saturating_add a b \<le> u64_max"
  by (simp add: u64_saturating_add_def)

lemma u64_checked_sub_eq_Some [simp]:
  "(u64_checked_sub a b = Some c) \<longleftrightarrow> b \<le> a \<and> c = a - b"
  by (auto simp: u64_checked_sub_def)

lemma u64_checked_add_eq_Some [simp]:
  "(u64_checked_add a b = Some c) \<longleftrightarrow> a + b \<le> u64_max \<and> c = a + b"
  by (auto simp: u64_checked_add_def)

section \<open>Lemmas on slices\<close>

lemma mset_insert_by [simp]: "mset (insert_by le x ys) = add_mset x (mset ys)"
  by (induction ys) auto

lemma mset_sort_by [simp]: "mset (sort_by le xs) = mset xs"
  by (induction xs) auto

lemma set_insert_by [simp]: "set (insert_by le x ys) = insert x (set ys)"
  by (induction ys) auto

lemma set_sort_by [simp]: "set (sort_by le xs) = set xs"
  by (induction xs) auto

lemma length_sort_by [simp]: "length (sort_by le xs) = length xs"
  by (metis mset_sort_by size_mset)

lemma mset_rotate_left [simp]: "mset (rotate_left k xs) = mset xs"
  by (metis add.commute append_take_drop_id mset_append rotate_left_def)

lemma hd_map_rotate_left: "k < length xs \<Longrightarrow> hd (map f (rotate_left k xs)) = f (xs ! k)"
  by (simp add: rotate_left_def hd_append hd_drop_conv_nth hd_map)

lemma mset_promote [simp]: "mset (promote k xs) = mset xs"
proof (cases "k < length xs")
  case True
  then have "mset xs = mset (take k xs @ xs ! k # drop (Suc k) xs)"
    by (simp add: id_take_nth_drop [symmetric])
  with True show ?thesis by (simp add: promote_def)
qed (simp add: promote_def)

lemma promote_hd: "k < length xs \<Longrightarrow> hd (promote k xs) = xs ! k"
  by (simp add: promote_def)

lemma promote_filter:
  assumes "k < length xs"
  shows "filter (\<lambda>x. x \<noteq> xs ! k) (promote k xs) = filter (\<lambda>x. x \<noteq> xs ! k) xs"
proof -
  let ?P = "\<lambda>x. x \<noteq> xs ! k"
  have "filter ?P (take k xs @ xs ! k # drop (Suc k) xs) =
      filter ?P (take k xs) @ filter ?P (drop (Suc k) xs)"
    by simp
  then show ?thesis
    using assms by (simp add: promote_def id_take_nth_drop [symmetric])
qed

lemma position_Some:
  "position p xs = Some i \<Longrightarrow> i < length xs \<and> p (xs ! i) \<and> (\<forall>j<i. \<not> p (xs ! j))"
proof (induction xs arbitrary: i)
  case (Cons x xs)
  show ?case
  proof (cases "p x")
    case False
    with Cons.prems obtain j where "position p xs = Some j" "i = Suc j" by auto
    with Cons.IH [of j] False show ?thesis by (auto simp: less_Suc_eq_0_disj)
  qed (use Cons.prems in auto)
qed simp

lemma position_None: "position p xs = None \<longleftrightarrow> (\<forall>x \<in> set xs. \<not> p x)"
  by (induction xs) auto

lemma foldl_best_in:
  "foldl (\<lambda>best y. if P best y then best else y) x xs \<in> insert x (set xs)"
  by (induction xs arbitrary: x) auto

lemma min_by_None [simp]: "min_by le xs = None \<longleftrightarrow> xs = []"
  by (cases xs) auto

lemma min_by_in: "min_by le xs = Some x \<Longrightarrow> x \<in> set xs"
  by (cases xs) (use foldl_best_in in fastforce)+

lemma max_by_None [simp]: "max_by le xs = None \<longleftrightarrow> xs = []"
  by (cases xs) auto

lemma max_by_in: "max_by le xs = Some x \<Longrightarrow> x \<in> set xs"
proof (cases xs)
  case (Cons a ys)
  have "foldl (\<lambda>best y. if le best y then y else best) a ys \<in> insert a (set ys)"
    by (induction ys arbitrary: a) auto
  moreover assume "max_by le xs = Some x"
  ultimately show ?thesis using Cons by auto
qed simp

lemma set_rotate_left [simp]: "set (rotate_left k xs) = set xs"
  by (metis mset_rotate_left set_mset_mset)

lemma set_promote [simp]: "set (promote k xs) = set xs"
  by (metis mset_promote set_mset_mset)

section \<open>Lemmas on strings\<close>

lemma strip_prefix_eq_Some: "strip_prefix p s = Some e \<longleftrightarrow> s = p @ e"
  unfolding strip_prefix_def starts_with_def by (auto, metis append_take_drop_id)

lemma of_char_lower:
  "of_char (to_ascii_lowercase_char c) =
     (if 65 \<le> (of_char c :: nat) \<and> (of_char c :: nat) \<le> 90 then of_char c + 32 else (of_char c :: nat))"
  by (simp add: to_ascii_lowercase_char_def is_ascii_uppercase_def less_eq_char_def of_char_of)

lemma lower_char_idem [simp]: "to_ascii_lowercase_char (to_ascii_lowercase_char c) = to_ascii_lowercase_char c"
proof -
  have "(of_char (to_ascii_lowercase_char (to_ascii_lowercase_char c)) :: nat) = of_char (to_ascii_lowercase_char c)"
    by (simp add: of_char_lower)
  then show ?thesis by simp
qed

lemma lower_char_whitespace [simp]: "is_whitespace (to_ascii_lowercase_char c) = is_whitespace c"
proof -
  have "is_whitespace d \<longleftrightarrow> (of_char d :: nat) \<in> {32, 9, 10, 11, 12, 13}" for d
    unfolding is_whitespace_def by (simp flip: of_char_eq_iff [where 'a = nat])
  then show ?thesis by (auto simp: of_char_lower)
qed

lemma lower_idem [simp]: "to_ascii_lowercase (to_ascii_lowercase s) = to_ascii_lowercase s"
  by (simp add: to_ascii_lowercase_def)

lemma trim_lower: "trim (to_ascii_lowercase s) = to_ascii_lowercase (trim s)"
  by (simp add: trim_def trim_matches_def to_ascii_lowercase_def dropWhile_map rev_map comp_def)

lemma trim_idem [simp]: "trim (trim s) = trim s"
proof -
  let ?a = "dropWhile is_whitespace s"
  let ?t = "rev (dropWhile is_whitespace (rev ?a))"
  have "dropWhile is_whitespace ?t = ?t"
  proof (cases ?t)
    case Nil
    then show ?thesis by (simp only: dropWhile.simps)
  next
    case (Cons c cs)
    obtain r where "?a = ?t @ r"
      by (metis rev_append rev_rev_ident takeWhile_dropWhile_id)
    with Cons have "?a \<noteq> []" "hd ?a = c" by simp_all
    then have "\<not> is_whitespace c" using hd_dropWhile by blast
    with Cons show ?thesis by simp
  qed
  then show ?thesis by (simp add: trim_def trim_matches_def)
qed

declare nat_text.simps [simp del]

lemma digit_char:
  "d < 10 \<Longrightarrow> is_ascii_digit (char_of (48 + d)) \<and> (of_char (char_of (48 + d) :: char) :: nat) = 48 + d"
  by (simp add: is_ascii_digit_def less_eq_char_def of_char_of)

lemma parse_nat_append:
  "parse_nat (s @ t) n = Option.bind (parse_nat s n) (parse_nat t)"
  by (induction s arbitrary: n) auto

lemma parse_nat_text: "parse_nat (nat_text n) 0 = Some n"
proof (induction n rule: less_induct)
  case (less n)
  show ?case
  proof (cases "n < 10")
    case True
    with digit_char [of n] show ?thesis by (simp add: nat_text.simps [of n])
  next
    case False
    then have "parse_nat (nat_text (n div 10)) 0 = Some (n div 10)" using less.IH by simp
    moreover have "n mod 10 < 10" by simp
    ultimately show ?thesis
      using False digit_char [of "n mod 10"] by (simp add: nat_text.simps [of n] parse_nat_append)
  qed
qed

lemma nat_text_digits: "list_all is_ascii_digit (nat_text n) \<and> nat_text n \<noteq> []"
proof (induction n rule: less_induct)
  case (less n)
  have "n mod 10 < 10" by simp
  with less.IH [of "n div 10"] digit_char [of "n mod 10"] digit_char [of n] show ?case
    by (simp add: nat_text.simps [of n])
qed

lemma u64_parse_text [simp]: "n \<le> u64_max \<Longrightarrow> u64_parse (nat_text n) = Some n"
proof -
  assume n: "n \<le> u64_max"
  obtain c cs where eq: "nat_text n = c # cs" using nat_text_digits by (meson list.exhaust)
  then have "is_ascii_digit c" using nat_text_digits [of n] by simp
  then have "c \<noteq> CHR ''+''" by (auto simp: is_ascii_digit_def less_eq_char_def)
  moreover have "parse_nat (c # cs) 0 = Some n" using parse_nat_text [of n] eq by simp
  ultimately show ?thesis using n by (simp add: u64_parse_def eq del: parse_nat.simps)
qed

lemma bool_parse_text [simp]: "bool_parse (bool_text b) = Some b"
  by (simp add: bool_parse_def bool_text_def)

section \<open>Comparators\<close>

text \<open>
  The contract of a comparison closure handed to \<open>sort_by\<close>, \<open>min_by\<close> or \<open>max_by\<close>: a total preorder.
  Sorting and selection are proved correct once, against the contract.
\<close>

locale total_preorder =
  fixes le :: "'a \<Rightarrow> 'a \<Rightarrow> bool"
  assumes le_trans: "le a b \<Longrightarrow> le b c \<Longrightarrow> le a c"
    and le_total: "le a b \<or> le b a"
begin

lemma le_refl: "le a a"
  using le_total by blast

lemma sorted_insert_by: "sorted_wrt le ys \<Longrightarrow> sorted_wrt le (insert_by le x ys)"
proof (induction ys)
  case (Cons y ys)
  show ?case
  proof (cases "le x y")
    case True
    with Cons.prems show ?thesis by (auto intro: le_trans)
  next
    case False
    then have "le y x" using le_total by blast
    with False Cons show ?thesis by auto
  qed
qed simp

lemma sorted_sort_by: "sorted_wrt le (sort_by le xs)"
  by (induction xs) (auto intro: sorted_insert_by)

lemma foldl_min_le:
  "y = x \<or> y \<in> set xs \<Longrightarrow> le (foldl (\<lambda>best y. if le best y then best else y) x xs) y"
proof (induction xs arbitrary: x y)
  case Nil
  then show ?case using le_refl by auto
next
  case (Cons a xs)
  let ?n = "if le x a then x else a"
  have step: "le (foldl (\<lambda>best y. if le best y then best else y) ?n xs) z"
    if "z = ?n \<or> z \<in> set xs" for z
    using Cons.IH [OF that] .
  have "le ?n x \<and> le ?n a" using le_total le_refl by auto
  with step [of ?n] have "le (foldl (\<lambda>best y. if le best y then best else y) ?n xs) x"
    "le (foldl (\<lambda>best y. if le best y then best else y) ?n xs) a"
    using le_trans by blast+
  with step Cons.prems show ?case by auto
qed

lemma min_by_least: "min_by le xs = Some x \<Longrightarrow> y \<in> set xs \<Longrightarrow> le x y"
  by (cases xs) (auto intro: foldl_min_le)

end

text \<open>Comparing by a key in a linear order is such a comparator.\<close>

lemma total_preorder_key: "total_preorder (\<lambda>a b. (f a :: 'k::linorder) \<le> f b)"
  by unfold_locales auto

text \<open>\<open>then_with\<close>: a second comparator decides where the first says Equal.\<close>

definition then_with :: "('a \<Rightarrow> 'a \<Rightarrow> bool) \<Rightarrow> ('a \<Rightarrow> 'a \<Rightarrow> bool) \<Rightarrow> 'a \<Rightarrow> 'a \<Rightarrow> bool" where
  "then_with le1 le2 a b = (if le1 a b \<and> le1 b a then le2 a b else le1 a b)"

lemma total_preorder_then_with:
  assumes "total_preorder le1" and "total_preorder le2"
  shows "total_preorder (then_with le1 le2)"
proof -
  have t: "le1 a b \<Longrightarrow> le1 b c \<Longrightarrow> le1 a c" "le1 a b \<or> le1 b a"
    "le2 a b \<Longrightarrow> le2 b c \<Longrightarrow> le2 a c" "le2 a b \<or> le2 b a" for a b c
    using assms [unfolded total_preorder_def] by metis+
  show ?thesis
  proof
    fix a b c
    assume "then_with le1 le2 a b" and "then_with le1 le2 b c"
    then have "le1 a b" "le1 b c" "le1 b a \<longrightarrow> le2 a b" "le1 c b \<longrightarrow> le2 b c"
      by (simp_all add: then_with_def split: if_splits)
    then have "le1 a c" and "le1 c a \<longrightarrow> le2 a c"
      using t(1,3) by blast+
    then show "then_with le1 le2 a c" by (simp add: then_with_def)
  next
    fix a b
    show "then_with le1 le2 a b \<or> then_with le1 le2 b a"
      using t(2) [of a b] t(4) [of a b] by (simp add: then_with_def)
  qed
qed

section \<open>State machines\<close>

text \<open>
  The contract of a state machine and an invariant of it: every step keeps the invariant. A run keeps
  it then, whatever the interleaving of its steps.
\<close>

locale invariant_system =
  fixes step :: "'s \<Rightarrow> 's \<Rightarrow> bool" and inv :: "'s \<Rightarrow> bool"
  assumes inv_step: "inv s \<Longrightarrow> step s t \<Longrightarrow> inv t"
begin

lemma inv_run: "step\<^sup>*\<^sup>* s t \<Longrightarrow> inv s \<Longrightarrow> inv t"
  by (induction rule: rtranclp_induct) (auto intro: inv_step)

lemma run_from: "inv s \<Longrightarrow> step\<^sup>*\<^sup>* s t \<Longrightarrow> (\<And>u. inv u \<Longrightarrow> P u) \<Longrightarrow> P t"
  using inv_run by blast

end

text \<open>
  A system driven by operations: a step is one operation of the allowed kind, a run a list of them.
\<close>

locale operation_system =
  fixes exec :: "'op \<Rightarrow> 's \<Rightarrow> 's" and allowed :: "'op \<Rightarrow> bool" and inv :: "'s \<Rightarrow> bool"
  assumes inv_exec: "inv s \<Longrightarrow> allowed op \<Longrightarrow> inv (exec op s)"
begin

lemma inv_fold: "inv s \<Longrightarrow> list_all allowed ops \<Longrightarrow> inv (fold exec ops s)"
  by (induction ops arbitrary: s) (auto intro: inv_exec)

end

sublocale operation_system \<subseteq> operation_run: invariant_system "\<lambda>s t. \<exists>op. allowed op \<and> t = exec op s" inv
  by unfold_locales (auto intro: inv_exec)

end
