(* ===== verification/Float64.thy ===== *)
theory Float64
  imports Complex_Main Prelude
begin

text \<open>
  Rust's \<open>f64\<close>: IEEE 754 binary64 with round-to-nearest, ties to even, as exact rationals. A finite
  value is a sign and a magnitude, so that the two zeros stay apart, which \<open>f64::total_cmp\<close> can tell;
  every arithmetic operation rounds its exact result. There is one NaN: Rust leaves the sign and the
  payload of a computed NaN open, and no operation of the program depends on them. \<open>ln\<close> and \<open>ln_1p\<close>,
  whose precision Rust leaves open, are parameters of the definitions that use them.

  The lemmas give the linear order of \<open>total_cmp\<close> and what the capacity proofs need: rounding is
  monotone and exact on the integers up to \<open>2^53\<close>.
\<close>

datatype f64 = F64_NaN | F64_Inf bool | F64_Fin bool rat

section \<open>Rounding\<close>

fun nat_bits :: "nat \<Rightarrow> nat" where
  "nat_bits n = (if n = 0 then 0 else Suc (nat_bits (n div 2)))"

declare nat_bits.simps [simp del]

definition ilog2_rat :: "rat \<Rightarrow> int" where
  "ilog2_rat r =
     (let (n, d) = quotient_of r; k = int (nat_bits (nat n)) - int (nat_bits (nat d))
      in if 2 powi k \<le> r then k else k - 1)"

definition round_half_even :: "rat \<Rightarrow> int" where
  "round_half_even r =
     (let f = \<lfloor>r\<rfloor>; d = r - of_int f
      in if d < 1 / 2 then f else if 1 / 2 < d then f + 1 else if even f then f else f + 1)"

definition f64_quantum :: "rat \<Rightarrow> rat" where
  "f64_quantum m = 2 powi (max (ilog2_rat m - 52) (- 1074))"

definition f64_rnd :: "rat \<Rightarrow> rat" where
  "f64_rnd m = (if m = 0 then 0 else of_int (round_half_even (m / f64_quantum m)) * f64_quantum m)"

definition f64_round :: "bool \<Rightarrow> rat \<Rightarrow> f64" where
  "f64_round s m =
     (let v = f64_rnd m in if v \<noteq> 0 \<and> 1024 \<le> ilog2_rat v then F64_Inf s else F64_Fin s v)"

text \<open>The value of an exact signed rational; \<open>z\<close> is the sign a zero result takes.\<close>

definition f64_of_rat :: "bool \<Rightarrow> rat \<Rightarrow> f64" where
  "f64_of_rat z x = (if x = 0 then F64_Fin z 0 else f64_round (x < 0) \<bar>x\<bar>)"

definition f64_of_nat :: "nat \<Rightarrow> f64" where
  "f64_of_nat n = f64_of_rat False (of_nat n)"

definition f64_const :: "rat \<Rightarrow> f64" where
  "f64_const x = f64_of_rat False x"

section \<open>Arithmetic\<close>

definition f64_signed :: "bool \<Rightarrow> rat \<Rightarrow> rat" where
  "f64_signed s m = (if s then - m else m)"

fun f64_neg :: "f64 \<Rightarrow> f64" where
  "f64_neg F64_NaN = F64_NaN"
| "f64_neg (F64_Inf s) = F64_Inf (\<not> s)"
| "f64_neg (F64_Fin s m) = F64_Fin (\<not> s) m"

fun f64_add :: "f64 \<Rightarrow> f64 \<Rightarrow> f64" where
  "f64_add (F64_Fin s x) (F64_Fin t y) = f64_of_rat (s \<and> t) (f64_signed s x + f64_signed t y)"
| "f64_add (F64_Inf s) (F64_Inf t) = (if s = t then F64_Inf s else F64_NaN)"
| "f64_add (F64_Inf s) (F64_Fin _ _) = F64_Inf s"
| "f64_add (F64_Fin _ _) (F64_Inf t) = F64_Inf t"
| "f64_add _ _ = F64_NaN"

definition f64_sub :: "f64 \<Rightarrow> f64 \<Rightarrow> f64" where
  "f64_sub a b = f64_add a (f64_neg b)"

fun f64_mul :: "f64 \<Rightarrow> f64 \<Rightarrow> f64" where
  "f64_mul (F64_Fin s x) (F64_Fin t y) = f64_round (s \<noteq> t) (x * y)"
| "f64_mul (F64_Inf s) (F64_Inf t) = F64_Inf (s \<noteq> t)"
| "f64_mul (F64_Inf s) (F64_Fin t y) = (if y = 0 then F64_NaN else F64_Inf (s \<noteq> t))"
| "f64_mul (F64_Fin s x) (F64_Inf t) = (if x = 0 then F64_NaN else F64_Inf (s \<noteq> t))"
| "f64_mul _ _ = F64_NaN"

fun f64_div :: "f64 \<Rightarrow> f64 \<Rightarrow> f64" where
  "f64_div (F64_Fin s x) (F64_Fin t y) =
     (if y = 0 then (if x = 0 then F64_NaN else F64_Inf (s \<noteq> t)) else f64_round (s \<noteq> t) (x / y))"
| "f64_div (F64_Inf s) (F64_Inf t) = F64_NaN"
| "f64_div (F64_Inf s) (F64_Fin t y) = F64_Inf (s \<noteq> t)"
| "f64_div (F64_Fin s x) (F64_Inf t) = F64_Fin (s \<noteq> t) 0"
| "f64_div _ _ = F64_NaN"

text \<open>The operators \<open><\<close> and \<open><=\<close>, false on NaN.\<close>

fun f64_lt :: "f64 \<Rightarrow> f64 \<Rightarrow> bool" where
  "f64_lt (F64_Fin s x) (F64_Fin t y) = (f64_signed s x < f64_signed t y)"
| "f64_lt (F64_Inf s) (F64_Inf t) = (s \<and> \<not> t)"
| "f64_lt (F64_Inf s) (F64_Fin _ _) = s"
| "f64_lt (F64_Fin _ _) (F64_Inf t) = (\<not> t)"
| "f64_lt _ _ = False"

fun f64_le :: "f64 \<Rightarrow> f64 \<Rightarrow> bool" where
  "f64_le (F64_Fin s x) (F64_Fin t y) = (f64_signed s x \<le> f64_signed t y)"
| "f64_le (F64_Inf s) (F64_Inf t) = (s \<or> \<not> t)"
| "f64_le (F64_Inf s) (F64_Fin _ _) = s"
| "f64_le (F64_Fin _ _) (F64_Inf t) = (\<not> t)"
| "f64_le _ _ = False"

definition f64_max :: "f64 \<Rightarrow> f64 \<Rightarrow> f64" where
  "f64_max a b = (if a = F64_NaN then b else if b = F64_NaN then a else if f64_lt a b then b else a)"

definition f64_min :: "f64 \<Rightarrow> f64 \<Rightarrow> f64" where
  "f64_min a b = (if a = F64_NaN then b else if b = F64_NaN then a else if f64_lt b a then b else a)"

definition f64_clamp :: "f64 \<Rightarrow> f64 \<Rightarrow> f64 \<Rightarrow> f64" where
  "f64_clamp lo hi x = (let y = (if f64_lt x lo then lo else x) in if f64_lt hi y then hi else y)"

text \<open>\<open>powi(2)\<close> is the rounded square; \<open>Iterator::sum\<close> starts from \<open>-0.0\<close>; \<open>as u64\<close> saturates.\<close>

definition f64_square :: "f64 \<Rightarrow> f64" where
  "f64_square x = f64_mul x x"

definition f64_sum :: "f64 list \<Rightarrow> f64" where
  "f64_sum xs = foldl f64_add (F64_Fin True 0) xs"

fun f64_to_u64 :: "f64 \<Rightarrow> nat" where
  "f64_to_u64 F64_NaN = 0"
| "f64_to_u64 (F64_Inf s) = (if s then 0 else u64_max)"
| "f64_to_u64 (F64_Fin s m) = (if s then 0 else min (nat \<lfloor>m\<rfloor>) u64_max)"

fun f64_ceil :: "f64 \<Rightarrow> f64" where
  "f64_ceil (F64_Fin s m) = F64_Fin s (of_int (if s then \<lfloor>m\<rfloor> else \<lceil>m\<rceil>))"
| "f64_ceil x = x"

section \<open>The order of \<open>total_cmp\<close>\<close>

fun f64_key :: "f64 \<Rightarrow> nat \<times> rat \<times> nat" where
  "f64_key (F64_Inf True) = (0, 0, 0)"
| "f64_key (F64_Fin s m) = (1, f64_signed s m, if s then 0 else 1)"
| "f64_key (F64_Inf False) = (2, 0, 0)"
| "f64_key F64_NaN = (3, 0, 0)"

lemma f64_key_inj: "f64_key a = f64_key b \<Longrightarrow> a = b"
  by (cases a rule: f64_key.cases; cases b rule: f64_key.cases)
    (auto simp: f64_signed_def split: if_splits)

instantiation f64 :: linorder
begin

definition less_eq_f64 :: "f64 \<Rightarrow> f64 \<Rightarrow> bool" where
  "less_eq_f64 a b = (f64_key a \<le> f64_key b)"

definition less_f64 :: "f64 \<Rightarrow> f64 \<Rightarrow> bool" where
  "less_f64 a b = (f64_key a < f64_key b)"

instance
  by standard (auto simp: less_eq_f64_def less_f64_def dest: f64_key_inj)

end

section \<open>Rounding is monotone, and exact on small integers\<close>

lemma nat_bits_bounds: "0 < n \<Longrightarrow> 2 ^ (nat_bits n - 1) \<le> n \<and> n < 2 ^ nat_bits n \<and> 0 < nat_bits n"
proof (induction n rule: nat_bits.induct)
  case (1 n)
  show ?case
  proof (cases "n div 2 = 0")
    case True
    with 1 have "n = 1" by simp
    then show ?thesis by (simp add: nat_bits.simps)
  next
    case False
    let ?k = "nat_bits (n div 2)"
    from 1 False have IH: "2 ^ (?k - 1) \<le> n div 2 \<and> n div 2 < 2 ^ ?k \<and> 0 < ?k" by simp
    then have "2 * 2 ^ (?k - 1) \<le> n \<and> n < 2 * 2 ^ ?k" by linarith
    moreover have "2 * 2 ^ (?k - 1) = (2::nat) ^ ?k"
      using IH by (metis Suc_diff_1 power_Suc)
    ultimately show ?thesis using 1 by (simp add: nat_bits.simps [of n])
  qed
qed

lemma nat_bits_rat:
  assumes "0 < (n::int)"
  shows "2 powi (int (nat_bits (nat n)) - 1) \<le> (of_int n :: rat)"
    and "(of_int n :: rat) < 2 powi (int (nat_bits (nat n)))"
proof -
  let ?k = "nat_bits (nat n)"
  have b: "2 ^ (?k - 1) \<le> nat n" "nat n < 2 ^ ?k" "0 < ?k"
    using nat_bits_bounds [of "nat n"] assms by auto
  from b(1) have "int (2 ^ (?k - 1)) \<le> int (nat n)" by (simp only: of_nat_le_iff)
  moreover from b(2) have "int (nat n) < int (2 ^ ?k)" by (simp only: of_nat_less_iff)
  ultimately have "(2::int) ^ (?k - 1) \<le> n" "n < 2 ^ ?k" using assms by simp_all
  then have "(of_int (2 ^ (?k - 1)) :: rat) \<le> of_int n" "(of_int n :: rat) < of_int (2 ^ ?k)"
    by (simp_all only: of_int_le_iff of_int_less_iff)
  moreover have "int ?k - 1 = int (?k - 1)" using b(3) by simp
  ultimately show "2 powi (int ?k - 1) \<le> (of_int n :: rat)" "(of_int n :: rat) < 2 powi (int ?k)"
    by (simp_all only: power_int_of_nat of_int_power of_int_numeral)
qed

lemma ilog2_rat_bounds:
  assumes "0 < r"
  shows "2 powi ilog2_rat r \<le> r" and "r < 2 powi (ilog2_rat r + 1)"
proof -
  obtain n d where q: "quotient_of r = (n, d)" by (cases "quotient_of r")
  then have d: "0 < d" and r: "r = of_int n / of_int d"
    by (simp_all add: quotient_of_denom_pos quotient_of_div)
  with assms have n: "0 < n" by (simp add: zero_less_divide_iff)
  let ?a = "int (nat_bits (nat n))" and ?b = "int (nat_bits (nat d))"
  have "r < 2 powi ?a / 2 powi (?b - 1)"
    unfolding r using nat_bits_rat [OF n] nat_bits_rat [OF d] n d
    by (intro frac_less) auto
  also have "2 powi ?a / 2 powi (?b - 1) = (2::rat) powi (?a - ?b + 1)"
    by (subst power_int_diff [symmetric]) (simp_all add: algebra_simps)
  finally have hi: "r < 2 powi (?a - ?b + 1)" .
  have "(2::rat) powi (?a - ?b - 1) = 2 powi (?a - 1) / 2 powi ?b"
    by (subst power_int_diff [symmetric]) (simp_all add: algebra_simps)
  also have "\<dots> \<le> r"
    unfolding r using nat_bits_rat [OF n] nat_bits_rat [OF d] n d
    by (intro frac_le) auto
  finally have lo: "2 powi (?a - ?b - 1) \<le> r" .
  show "2 powi ilog2_rat r \<le> r" "r < 2 powi (ilog2_rat r + 1)"
    using hi lo by (auto simp: ilog2_rat_def q Let_def)
qed

lemma powi2_mono: "a \<le> b \<Longrightarrow> (2::rat) powi a \<le> 2 powi b"
  by (rule power_int_increasing) simp_all

lemma powi2_less_cancel: "(2::rat) powi a < 2 powi b \<Longrightarrow> a < b"
  by (metis linorder_not_le powi2_mono)

lemma ilog2_rat_mono:
  assumes "0 < x" and "x \<le> y"
  shows "ilog2_rat x \<le> ilog2_rat y"
proof -
  have "2 powi ilog2_rat x < (2::rat) powi (ilog2_rat y + 1)"
    using ilog2_rat_bounds [of x] ilog2_rat_bounds [of y] assms by linarith
  then show ?thesis by (auto dest: powi2_less_cancel)
qed

lemma round_half_even_int [simp]: "round_half_even (of_int k) = k"
  by (simp add: round_half_even_def)

lemma round_half_even_floor: "\<lfloor>x\<rfloor> \<le> round_half_even x \<and> round_half_even x \<le> \<lfloor>x\<rfloor> + 1"
  by (auto simp: round_half_even_def Let_def)

lemma round_half_even_mono:
  assumes "x \<le> y"
  shows "round_half_even x \<le> round_half_even y"
proof (cases "\<lfloor>x\<rfloor> = \<lfloor>y\<rfloor>")
  case True
  with assms show ?thesis by (auto simp: round_half_even_def Let_def)
next
  case False
  with floor_mono [OF assms] have "\<lfloor>x\<rfloor> + 1 \<le> \<lfloor>y\<rfloor>" by simp
  with round_half_even_floor [of x] round_half_even_floor [of y] show ?thesis by linarith
qed

lemma f64_quantum_pos [simp]: "0 < f64_quantum m"
  by (simp add: f64_quantum_def)

lemma f64_rnd_nonneg: "0 \<le> m \<Longrightarrow> 0 \<le> f64_rnd m"
proof -
  assume "0 \<le> m"
  then have "round_half_even 0 \<le> round_half_even (m / f64_quantum m)"
    by (intro round_half_even_mono divide_nonneg_pos) simp_all
  then have "0 \<le> round_half_even (m / f64_quantum m)"
    using round_half_even_int [of 0] by simp
  then show ?thesis by (simp add: f64_rnd_def less_imp_le)
qed

lemma powi2_int: "0 \<le> k \<Longrightarrow> (2::rat) powi k = of_int (2 ^ nat k)"
  by (simp add: power_int_def)

lemma f64_rnd_le_powi:
  assumes "0 < x" and "x \<le> 2 powi e" and "max (ilog2_rat x - 52) (- 1074) \<le> e"
  shows "f64_rnd x \<le> 2 powi e"
proof -
  let ?a = "max (ilog2_rat x - 52) (- 1074)"
  have q: "f64_quantum x = 2 powi ?a" by (simp add: f64_quantum_def)
  have e: "(2::rat) powi e / 2 powi ?a = of_int (2 ^ nat (e - ?a))"
    using assms(3) by (simp add: power_int_diff [symmetric] powi2_int)
  have "x / f64_quantum x \<le> of_int (2 ^ nat (e - ?a))"
    unfolding e [symmetric] q using assms(2) by (rule divide_right_mono) simp
  then have "round_half_even (x / f64_quantum x) \<le> 2 ^ nat (e - ?a)"
    by (metis round_half_even_int round_half_even_mono)
  then have "(of_int (round_half_even (x / f64_quantum x)) :: rat) \<le> 2 powi e / 2 powi ?a"
    unfolding e by (simp only: of_int_le_iff)
  then have "of_int (round_half_even (x / f64_quantum x)) * f64_quantum x \<le> 2 powi e"
    unfolding q by (simp add: pos_le_divide_eq)
  with assms(1) show ?thesis by (simp add: f64_rnd_def)
qed

lemma f64_rnd_ge_powi:
  assumes "0 < y" and "2 powi e \<le> y" and "max (ilog2_rat y - 52) (- 1074) \<le> e"
  shows "2 powi e \<le> f64_rnd y"
proof -
  let ?a = "max (ilog2_rat y - 52) (- 1074)"
  have q: "f64_quantum y = 2 powi ?a" by (simp add: f64_quantum_def)
  have e: "(2::rat) powi e / 2 powi ?a = of_int (2 ^ nat (e - ?a))"
    using assms(3) by (simp add: power_int_diff [symmetric] powi2_int)
  have "of_int (2 ^ nat (e - ?a)) \<le> y / f64_quantum y"
    unfolding e [symmetric] q using assms(2) by (rule divide_right_mono) simp
  then have "2 ^ nat (e - ?a) \<le> round_half_even (y / f64_quantum y)"
    by (metis round_half_even_int round_half_even_mono)
  then have "2 powi e / 2 powi ?a \<le> (of_int (round_half_even (y / f64_quantum y)) :: rat)"
    unfolding e by (simp only: of_int_le_iff)
  then have "2 powi e \<le> of_int (round_half_even (y / f64_quantum y)) * f64_quantum y"
    unfolding q by (simp add: pos_divide_le_eq)
  with assms(1) show ?thesis by (simp add: f64_rnd_def)
qed

theorem f64_rnd_mono:
  assumes "0 \<le> x" and "x \<le> y"
  shows "f64_rnd x \<le> f64_rnd y"
proof (cases "x = 0")
  case True
  with assms show ?thesis by (simp add: f64_rnd_def [of 0] f64_rnd_nonneg)
next
  case False
  with assms have x: "0 < x" and y: "0 < y" by auto
  note e = ilog2_rat_mono [OF x assms(2)]
  show ?thesis
  proof (cases "f64_quantum x = f64_quantum y")
    case True
    have "round_half_even (x / f64_quantum x) \<le> round_half_even (y / f64_quantum x)"
      using assms(2) by (intro round_half_even_mono divide_right_mono) (simp_all add: less_imp_le)
    with True x y show ?thesis by (simp add: f64_rnd_def mult_right_mono less_imp_le)
  next
    case False
    then have "max (ilog2_rat x - 52) (- 1074) \<noteq> max (ilog2_rat y - 52) (- 1074)"
      by (auto simp: f64_quantum_def)
    then have lt: "ilog2_rat x < ilog2_rat y" and sub: "- 1074 < ilog2_rat y - 52"
      using e by linarith+
    have "x \<le> 2 powi (ilog2_rat x + 1)" using ilog2_rat_bounds(2) [OF x] by simp
    also have "\<dots> \<le> 2 powi ilog2_rat y" using lt by (intro powi2_mono) simp
    finally have "f64_rnd x \<le> 2 powi ilog2_rat y"
      using lt sub by (intro f64_rnd_le_powi x) auto
    also have "\<dots> \<le> f64_rnd y"
      using ilog2_rat_bounds(1) [OF y] sub by (intro f64_rnd_ge_powi y) auto
    finally show ?thesis .
  qed
qed

lemma f64_rnd_exact:
  assumes "m = of_int k * f64_quantum m"
  shows "f64_rnd m = m"
proof -
  have "m / f64_quantum m = of_int k"
    using assms f64_quantum_pos [of m] by (metis less_irrefl nonzero_mult_div_cancel_right)
  then show ?thesis using assms by (simp add: f64_rnd_def)
qed

lemma f64_rnd_of_nat:
  assumes "n \<le> 2 ^ 53"
  shows "f64_rnd (of_nat n) = of_nat n"
proof (cases "0 < n \<and> n < 2 ^ 53")
  case True
  let ?r = "of_nat n :: rat" and ?e = "ilog2_rat (of_nat n)"
  have pos: "0 < ?r" using True by simp
  have "?r < of_nat (2 ^ 53)" using True by (simp only: of_nat_less_iff)
  then have "?r < 2 powi 53" by (simp only: power_int_numeral of_nat_power of_nat_numeral)
  with ilog2_rat_bounds(1) [OF pos] have "(2::rat) powi ?e < 2 powi 53" by linarith
  then have "?e < 53" by (rule powi2_less_cancel)
  then have hi: "?e \<le> 52" by simp
  have "(2::rat) powi 0 \<le> ?r" using True by simp
  then have "(2::rat) powi 0 < 2 powi (?e + 1)"
    using ilog2_rat_bounds(2) [OF pos] by (rule le_less_trans)
  then have "0 < ?e + 1" by (rule powi2_less_cancel)
  then have lo: "0 \<le> ?e" by simp
  have q: "f64_quantum ?r = 2 powi (?e - 52)" using lo by (simp add: f64_quantum_def)
  have "?r = of_int (int n * 2 ^ nat (52 - ?e)) * f64_quantum ?r"
  proof -
    have "(of_int (int n * 2 ^ nat (52 - ?e)) :: rat) = ?r * 2 powi (52 - ?e)"
      using hi by (simp add: powi2_int)
    moreover have "(2::rat) powi (52 - ?e) * 2 powi (?e - 52) = 1"
      by (subst power_int_add [symmetric]) simp_all
    ultimately show ?thesis by (simp only: q mult.assoc mult_1_right)
  qed
  then show ?thesis by (rule f64_rnd_exact)
next
  case False
  with assms consider "n = 0" | "n = 2 ^ 53" by force
  then show ?thesis
  proof cases
    case 2
    have r: "(of_nat n :: rat) = 2 powi 53" by (simp add: 2 power_int_def)
    have b: "(2::rat) powi ilog2_rat (2 powi 53) \<le> 2 powi 53"
      "(2::rat) powi 53 < 2 powi (ilog2_rat (2 powi 53) + 1)"
      by (rule ilog2_rat_bounds; simp)+
    have "(2::rat) powi 53 < 2 powi 54" by simp
    with b(1) have "(2::rat) powi ilog2_rat (2 powi 53) < 2 powi 54" by (rule le_less_trans)
    then have "ilog2_rat (2 powi 53) < 54" by (rule powi2_less_cancel)
    moreover have "53 < ilog2_rat (2 powi 53) + 1" using b(2) by (rule powi2_less_cancel)
    ultimately have "ilog2_rat (2 powi 53) = 53" by linarith
    then have q: "f64_quantum (of_nat n) = 2 powi 1" by (simp add: r f64_quantum_def)
    have "(of_nat n :: rat) = of_int (2 ^ 52) * f64_quantum (of_nat n)"
      unfolding q by (simp add: 2)
    then show ?thesis by (rule f64_rnd_exact)
  qed (simp add: f64_rnd_def)
qed

lemma f64_round_small:
  assumes "0 \<le> m" and "f64_rnd m \<le> of_nat n" and "n \<le> 2 ^ 53"
  shows "f64_round s m = F64_Fin s (f64_rnd m)"
proof -
  have "ilog2_rat v < 54" if "0 < v" and "v \<le> of_nat n" for v
  proof -
    have "(of_nat n :: rat) \<le> of_nat (2 ^ 53)" using assms(3) by (simp only: of_nat_le_iff)
    also have "\<dots> < 2 powi 54" by simp
    finally have "2 powi ilog2_rat v < (2::rat) powi 54"
      using ilog2_rat_bounds(1) [OF that(1)] that(2) by linarith
    then show ?thesis by (rule powi2_less_cancel)
  qed
  then have "f64_rnd m \<noteq> 0 \<longrightarrow> ilog2_rat (f64_rnd m) < 54"
    using assms(2) f64_rnd_nonneg [OF assms(1)] by auto
  then show ?thesis by (auto simp: f64_round_def Let_def)
qed

lemma f64_of_nat_small: "n \<le> 2 ^ 53 \<Longrightarrow> f64_of_nat n = F64_Fin False (of_nat n)"
  using f64_round_small [of "of_nat n" n False] f64_rnd_of_nat [of n]
  by (simp add: f64_of_nat_def f64_of_rat_def)

text \<open>Scaling a small integer by a fraction of at most one and truncating never exceeds it.\<close>

lemma f64_scale_le:
  assumes "n \<le> 2 ^ 53" and "w = F64_Fin False r" and "0 \<le> r" and "r \<le> 1"
  shows "f64_to_u64 (f64_mul (f64_of_nat n) w) \<le> n"
proof -
  have "f64_rnd (of_nat n * r) \<le> f64_rnd (of_nat n)"
    using assms(3,4) by (intro f64_rnd_mono mult_nonneg_nonneg mult_left_le) simp_all
  then have le: "f64_rnd (of_nat n * r) \<le> of_nat n"
    unfolding f64_rnd_of_nat [OF assms(1)] .
  have "f64_round False (of_nat n * r) = F64_Fin False (f64_rnd (of_nat n * r))"
    using assms(1,3) le by (intro f64_round_small [where n = n]) simp_all
  then have "f64_to_u64 (f64_mul (f64_of_nat n) w) = min (nat \<lfloor>f64_rnd (of_nat n * r)\<rfloor>) u64_max"
    unfolding f64_of_nat_small [OF assms(1)] by (simp add: assms(2))
  also have "\<dots> \<le> nat \<lfloor>f64_rnd (of_nat n * r)\<rfloor>" by simp
  also have "\<dots> \<le> n" using floor_mono [OF le] by simp
  finally show ?thesis .
qed

lemma ilog2_rat_powi [simp]: "ilog2_rat (2 powi e) = e"
proof -
  have "(2::rat) powi ilog2_rat (2 powi e) < 2 powi (e + 1)"
    using ilog2_rat_bounds(1) [of "2 powi e"] by (rule le_less_trans) (simp_all add: power_int_add)
  moreover have "(2::rat) powi e < 2 powi (ilog2_rat (2 powi e) + 1)"
    by (rule ilog2_rat_bounds(2)) simp
  ultimately have "ilog2_rat (2 powi e) < e + 1" "e < ilog2_rat (2 powi e) + 1"
    using powi2_less_cancel by blast+
  then show ?thesis by linarith
qed

lemma f64_rnd_powi:
  assumes "- 1022 \<le> e"
  shows "f64_rnd (2 powi e) = 2 powi e"
proof (rule f64_rnd_exact)
  have q: "f64_quantum (2 powi e) = 2 powi (e - 52)" using assms by (simp add: f64_quantum_def)
  have "(of_int (2 ^ 52) :: rat) = 2 powi 52" by (simp add: power_int_def)
  moreover have "(2::rat) powi e = 2 powi 52 * 2 powi (e - 52)"
    by (subst power_int_add [symmetric]) simp_all
  ultimately show "2 powi e = of_int (2 ^ 52) * f64_quantum (2 powi e)"
    unfolding q by simp
qed

lemma f64_round_finite:
  assumes "0 \<le> m" and "m \<le> 2 powi k" and "- 1022 \<le> k" and "k < 1024"
  shows "f64_round s m = F64_Fin s (f64_rnd m)" and "f64_rnd m \<le> 2 powi k"
proof -
  have le: "f64_rnd m \<le> 2 powi k" using f64_rnd_mono [OF assms(1,2)] f64_rnd_powi [OF assms(3)] by simp
  have "ilog2_rat (f64_rnd m) < 1024" if "f64_rnd m \<noteq> 0"
  proof -
    have "0 < f64_rnd m" using f64_rnd_nonneg [OF assms(1)] that by simp
    then have "2 powi ilog2_rat (f64_rnd m) \<le> (2::rat) powi k"
      using ilog2_rat_bounds(1) le by (meson order_trans)
    also have "\<dots> < 2 powi 1024" using assms(4) by (rule power_int_strict_increasing) simp
    finally show ?thesis by (rule powi2_less_cancel)
  qed
  then show "f64_round s m = F64_Fin s (f64_rnd m)" by (auto simp: f64_round_def Let_def)
  show "f64_rnd m \<le> 2 powi k" by (rule le)
qed

lemma f64_const_powi:
  assumes "- 1022 \<le> e" and "e < 1024"
  shows "f64_const (2 powi e) = F64_Fin False (2 powi e)"
proof -
  have "\<not> (2::rat) powi e < 0" by (simp add: not_less)
  then show ?thesis
    using f64_round_finite(1) [of "2 powi e" e False] f64_rnd_powi [OF assms(1)] assms
    by (simp add: f64_const_def f64_of_rat_def)
qed

text \<open>Constants between zero and one keep their order.\<close>

lemma f64_const_unit:
  assumes "0 < x" and "x \<le> 1"
  shows "f64_const x = F64_Fin False (f64_rnd x)"
  using f64_round_finite(1) [of x 0 False] assms by (simp add: f64_const_def f64_of_rat_def)

lemma f64_const_unit_le: "0 < x \<Longrightarrow> x \<le> y \<Longrightarrow> y \<le> 1 \<Longrightarrow> f64_le (f64_const x) (f64_const y)"
  using f64_rnd_mono [of x y] by (simp add: f64_const_unit f64_signed_def)

lemma f64_half_one: "f64_const (1 / 2) = F64_Fin False (1 / 2)" "f64_const 1 = F64_Fin False 1"
  using f64_const_powi [of "- 1"] f64_const_powi [of 0] by simp_all

text \<open>A quotient of two sums of natural numbers within \<open>u64\<close> and a positive summand is a number.\<close>

lemma f64_of_nat_u64:
  assumes "n \<le> u64_max"
  shows "\<exists>v. f64_of_nat n = F64_Fin False v \<and> 0 \<le> v \<and> v \<le> 2 powi 64"
proof (cases "n = 0")
  case False
  have "(of_nat n :: rat) \<le> of_nat (2 ^ 64)" using assms by (simp only: of_nat_le_iff) (simp add: u64_max_def)
  then have "(of_nat n :: rat) \<le> 2 powi 64" by (simp add: power_int_def)
  with False f64_round_finite(1) [of "of_nat n" 64 False] f64_round_finite(2) [of "of_nat n" 64]
    f64_rnd_nonneg [of "of_nat n"] show ?thesis
    by (simp add: f64_of_nat_def f64_of_rat_def)
qed (simp add: f64_of_nat_def f64_of_rat_def)

lemma f64_add_u64:
  assumes "n \<le> u64_max" and "e \<in> {0, 1}"
  shows "\<exists>v. f64_add (f64_of_nat n) (f64_const (2 powi e)) = F64_Fin False v \<and> 1 \<le> v"
proof -
  obtain w where w: "f64_of_nat n = F64_Fin False w" "0 \<le> w" "w \<le> 2 powi 64"
    using f64_of_nat_u64 [OF assms(1)] by blast
  have e: "(1::rat) \<le> 2 powi e" "(2::rat) powi e \<le> 2" using assms(2) by auto
  have "w + 2 powi e \<le> 2 powi 65" using w(3) e(2) by (simp add: power_int_def)
  then have "f64_round False (w + 2 powi e) = F64_Fin False (f64_rnd (w + 2 powi e))"
    using w(2) by (intro f64_round_finite(1) [where k = 65]) simp_all
  moreover have "1 \<le> f64_rnd (w + 2 powi e)"
    using f64_rnd_mono [of 1 "w + 2 powi e"] f64_rnd_of_nat [of 1] w(2) e(1) by simp
  moreover have "w + 2 powi e \<noteq> 0" "\<not> w + 2 powi e < 0" using w(2) e(1) by linarith+
  moreover have "f64_const (2 powi e) = F64_Fin False (2 powi e)"
    by (rule f64_const_powi) (use assms(2) in auto)
  ultimately show ?thesis
    by (simp add: w(1) f64_signed_def f64_of_rat_def del: One_nat_def)
qed

end
