(* ===== verification/Entities.thy ===== *)
theory Entities
  imports Prelude Float64
begin

text \<open>
  The rows of the database (\<^verbatim>\<open>src/src/db.rs\<close>) and the views that the components pass to each
  other. A UUID is an opaque key, a time stamp the number of nanoseconds since the epoch, an \<open>i64\<close> column
  an \<open>int\<close>.
\<close>

type_synonym timestamp = int

datatype scheduler_policy = Balanced | SpeedFirst

fun scheduler_policy_display :: "scheduler_policy \<Rightarrow> string" where
  "scheduler_policy_display Balanced = ''balanced''"
| "scheduler_policy_display SpeedFirst = ''speed-first''"

datatype cache_policy = CacheBalanced | Lru | Lfu

fun cache_policy_display :: "cache_policy \<Rightarrow> string" where
  "cache_policy_display CacheBalanced = ''balanced''"
| "cache_policy_display Lru = ''lru''"
| "cache_policy_display Lfu = ''lfu''"

record registry_route =
  rr_id :: uuid
  rr_key :: string
  rr_name :: string
  rr_canonical_registry :: string
  rr_path_prefix :: "string option"
  rr_repository_mode :: string
  rr_is_default :: bool
  rr_enabled :: bool
  rr_created_at :: timestamp
  rr_updated_at :: timestamp

record registry_route_summary =
  rs_id :: uuid
  rs_key :: string
  rs_name :: string
  rs_canonical_registry :: string
  rs_path_prefix :: "string option"
  rs_repository_mode :: string
  rs_enabled :: bool

record node_model =
  nd_id :: uuid
  nd_name :: string
  nd_url :: string
  nd_registry_route_id :: uuid
  nd_enabled :: bool
  nd_priority :: int
  nd_cf_preferred :: bool
  nd_connect_ip_type :: string
  nd_connect_ip :: "string option"
  nd_auth_mode :: string
  nd_auth_username :: "string option"
  nd_auth_header :: "string option"
  nd_auth_secret_enc :: "string option"
  nd_created_at :: timestamp
  nd_updated_at :: timestamp

record node_metric =
  nm_node_id :: uuid
  nm_healthy :: bool
  nm_latency_ms :: int
  nm_speed_bps :: int
  nm_success_rate :: f64
  nm_current_bps :: int
  nm_total_bytes :: int
  nm_last_checked_at :: "timestamp option"
  nm_last_error :: "string option"

record node_view =
  nv_node :: node_model
  nv_metric :: node_metric
  nv_score :: f64
  nv_auth_configured :: bool
  nv_route :: registry_route_summary
  nv_max_concurrency :: nat
  nv_live_bps :: nat

end
