(* ===== verification/Scheduling.thy ===== *)
theory Scheduling
  imports Entities "HOL-Library.Word"
begin

unbundle bit_operations_syntax

text \<open>
  \<^verbatim>\<open>src/src/scheduling.rs\<close>: the two node-ordering algorithms behind the trait
  \<open>SchedulerAlgorithm\<close>. The logarithm of \<open>f64\<close> is the parameter \<open>ln64\<close>. The trait is the locale
  \<open>scheduler_algorithm\<close>: what the executor relies on is that an algorithm returns every candidate exactly
  once, so that a strategy can neither drop a node nor invent one. Both algorithms are interpretations.
\<close>

section \<open>Data\<close>

record schedule_context =
  sx_sequence :: nat
  sx_blob_size :: nat
  sx_range_required :: bool
  sx_chunk :: "(nat \<times> nat) option"

record schedule_candidate =
  sd_node :: node_view
  sd_capacity_bps :: f64
  sd_latency_ms :: nat
  sd_success_rate :: f64
  sd_active :: nat
  sd_max_concurrency :: nat
  sd_measured :: bool
  sd_recently_recovered :: bool

section \<open>Costs\<close>

definition capacity_floor :: f64 where
  "capacity_floor = f64_const (256 * 1024)"

definition effective_capacity :: "schedule_candidate \<Rightarrow> f64" where
  "effective_capacity c =
     (let load = f64_add (f64_const 1)
                   (f64_div (f64_of_nat (sd_active c)) (f64_of_nat (max (sd_max_concurrency c) 1)))
      in f64_div (f64_mul (f64_max (sd_capacity_bps c) capacity_floor)
                    (f64_square (f64_clamp (f64_const (1 / 20)) (f64_const 1) (sd_success_rate c)))) load)"

definition request_bytes :: "schedule_context \<Rightarrow> nat" where
  "request_bytes context =
     (case sx_chunk context of
        Some (start, stop) \<Rightarrow> u64_saturating_add (u64_saturating_sub stop start) 1
      | None \<Rightarrow> max (sx_blob_size context) 1)"

definition projected_cost :: "schedule_candidate \<Rightarrow> schedule_context \<Rightarrow> f64" where
  "projected_cost c context =
     (let throughput = f64_max (sd_capacity_bps c) capacity_floor;
          reliability = f64_clamp (f64_const (1 / 20)) (f64_const 1) (sd_success_rate c);
          load = f64_div (f64_of_nat (sd_active c)) (f64_of_nat (max (sd_max_concurrency c) 1));
          queue = f64_add (f64_const 1) load;
          bytes = f64_of_nat (request_bytes context)
      in f64_add (f64_div (f64_of_nat (sd_latency_ms c)) (f64_const 1000))
           (f64_div (f64_mul queue bytes) (f64_mul (f64_mul throughput reliability) reliability)))"

section \<open>Rendezvous hashing\<close>

definition splitmix_absorb :: "64 word \<Rightarrow> char \<Rightarrow> 64 word" where
  "splitmix_absorb state byte =
     (let s = (state XOR word_of_nat (of_char byte)) * 0xbf58476d1ce4e5b9 in s XOR drop_bit 27 s)"

definition splitmix_finish :: "64 word \<Rightarrow> 64 word" where
  "splitmix_finish state =
     (let s0 = state + 0x9e3779b97f4a7c15;
          s1 = (s0 XOR drop_bit 30 s0) * 0xbf58476d1ce4e5b9;
          s2 = (s1 XOR drop_bit 27 s1) * 0x94d049bb133111eb
      in s2 XOR drop_bit 31 s2)"

definition rendezvous_unit :: "nat \<Rightarrow> schedule_candidate \<Rightarrow> f64" where
  "rendezvous_unit sequence c =
     (let state = splitmix_finish (foldl splitmix_absorb (word_of_nat sequence) (nd_url (nv_node (sd_node c))))
      in f64_clamp (f64_const (2 powi (- 1022))) (f64_const 1)
           (f64_div (f64_add (f64_of_nat (unat state)) (f64_const 1))
                    (f64_add (f64_of_nat u64_max) (f64_const 2))))"

section \<open>The algorithms\<close>

text \<open>The comparators, as "not Greater".\<close>

definition by_priority_url :: "schedule_candidate \<Rightarrow> schedule_candidate \<Rightarrow> bool" where
  "by_priority_url =
     then_with (\<lambda>l r. nd_priority (nv_node (sd_node l)) \<le> nd_priority (nv_node (sd_node r)))
               (\<lambda>l r. nd_url (nv_node (sd_node l)) \<le> nd_url (nv_node (sd_node r)))"

definition by_capacity :: "schedule_candidate \<Rightarrow> schedule_candidate \<Rightarrow> bool" where
  "by_capacity = then_with (\<lambda>l r. effective_capacity r \<le> effective_capacity l) by_priority_url"

definition by_projected_cost :: "schedule_context \<Rightarrow> schedule_candidate \<Rightarrow> schedule_candidate \<Rightarrow> bool" where
  "by_projected_cost context =
     then_with (\<lambda>l r. projected_cost l context \<le> projected_cost r context)
       (then_with (\<lambda>l r. rendezvous_unit (sx_sequence context) l \<le> rendezvous_unit (sx_sequence context) r)
          by_priority_url)"

definition explorable :: "schedule_candidate \<Rightarrow> bool" where
  "explorable c = (sd_active c = 0 \<and> 0 < sd_max_concurrency c \<and> (\<not> sd_measured c \<or> sd_recently_recovered c))"

definition promote_exploration :: "schedule_candidate list \<Rightarrow> nat \<Rightarrow> schedule_candidate list" where
  "promote_exploration candidates sequence =
     (if sequence mod 8 \<noteq> 0 \<or> \<not> (\<exists>c \<in> set candidates. sd_measured c) then candidates
      else
        case max_by (\<lambda>(_, l) (_, r). rendezvous_unit sequence l \<le> rendezvous_unit sequence r)
               (filter (\<lambda>(_, c). explorable c) (enumerate 0 candidates)) of
          None \<Rightarrow> candidates
        | Some (selected, _) \<Rightarrow> promote selected candidates)"

text \<open>The index that weighted rendezvous hashing selects in the sorted candidates.\<close>

definition rendezvous_winner :: "(f64 \<Rightarrow> f64) \<Rightarrow> nat \<Rightarrow> schedule_candidate list \<Rightarrow> nat" where
  "rendezvous_winner ln64 sequence candidates =
     (let max_capacity = f64_max (foldl f64_max (f64_const 0) (map effective_capacity candidates)) (f64_const 1);
          keyed = map (\<lambda>(index, c).
                    let weight = f64_max (f64_div (effective_capacity c) max_capacity) (f64_const (1 / 1000));
                        unit = rendezvous_unit sequence c
                    in (index, f64_div (f64_neg (ln64 unit)) weight)) (enumerate 0 candidates)
      in case min_by (\<lambda>l r. snd l \<le> snd r) keyed of None \<Rightarrow> 0 | Some (index, _) \<Rightarrow> index)"

definition current_order ::
  "(f64 \<Rightarrow> f64) \<Rightarrow> schedule_candidate list \<Rightarrow> schedule_context \<Rightarrow> scheduler_policy \<Rightarrow> node_view list" where
  "current_order ln64 candidates context policy =
     (let ordered =
        (case policy of
           Balanced \<Rightarrow>
             if \<exists>c \<in> set candidates. sd_measured c then
               (let sorted = sort_by by_capacity candidates
                in promote (rendezvous_winner ln64 (sx_sequence context) sorted) sorted)
             else if candidates \<noteq> [] then
               rotate_left (sx_sequence context mod length candidates) candidates
             else candidates
         | SpeedFirst \<Rightarrow> sort_by by_capacity candidates)
      in map sd_node (promote_exploration ordered (sx_sequence context)))"

definition projected_order ::
  "schedule_candidate list \<Rightarrow> schedule_context \<Rightarrow> scheduler_policy \<Rightarrow> node_view list" where
  "projected_order candidates context policy =
     map sd_node (promote_exploration (sort_by (by_projected_cost context) candidates) (sx_sequence context))"

text \<open>\<open>SchedulerAlgorithmKind\<close> selects the trait object.\<close>

datatype scheduler_algorithm_kind = Current | ProjectedCompletion

definition algorithm_name :: "scheduler_algorithm_kind \<Rightarrow> string" where
  "algorithm_name k = (case k of Current \<Rightarrow> ''current-balanced'' | ProjectedCompletion \<Rightarrow> ''projected-completion'')"

definition algorithm_order ::
  "(f64 \<Rightarrow> f64) \<Rightarrow> scheduler_algorithm_kind \<Rightarrow> schedule_candidate list \<Rightarrow> schedule_context \<Rightarrow> scheduler_policy
     \<Rightarrow> node_view list" where
  "algorithm_order ln64 k =
     (case k of Current \<Rightarrow> current_order ln64 | ProjectedCompletion \<Rightarrow> projected_order)"

section \<open>The contract of an algorithm\<close>

locale scheduler_algorithm =
  fixes order :: "schedule_candidate list \<Rightarrow> schedule_context \<Rightarrow> scheduler_policy \<Rightarrow> node_view list"
  assumes order_perm: "mset (order candidates context policy) = image_mset sd_node (mset candidates)"
begin

lemma order_set: "set (order candidates context policy) = sd_node ` set candidates"
  by (metis order_perm set_image_mset set_mset_mset)

lemma order_length: "length (order candidates context policy) = length candidates"
  by (metis order_perm size_image_mset size_mset)

lemma order_empty_iff: "order candidates context policy = [] \<longleftrightarrow> candidates = []"
  by (metis length_0_conv order_length)

lemma order_distinct:
  "distinct (map (nd_id \<circ> nv_node \<circ> sd_node) candidates) \<Longrightarrow>
     distinct (map (nd_id \<circ> nv_node) (order candidates context policy))"
proof -
  assume d: "distinct (map (nd_id \<circ> nv_node \<circ> sd_node) candidates)"
  have "mset (map (nd_id \<circ> nv_node) (order candidates context policy))
      = mset (map (nd_id \<circ> nv_node \<circ> sd_node) candidates)"
    by (simp add: order_perm multiset.map_comp comp_def)
  then show ?thesis by (metis d mset_eq_imp_distinct_iff)
qed

end

section \<open>Lemmas\<close>

lemma mset_promote_exploration [simp]: "mset (promote_exploration xs s) = mset xs"
  by (simp add: promote_exploration_def split: option.splits)

lemma length_promote_exploration [simp]: "length (promote_exploration xs s) = length xs"
  by (metis mset_promote_exploration size_mset)

lemma total_preorder_ge: "total_preorder (\<lambda>l r. (f r :: 'k::linorder) \<le> f l)"
  by unfold_locales auto

interpretation by_priority_url: total_preorder by_priority_url
  unfolding by_priority_url_def by (intro total_preorder_then_with total_preorder_key)

interpretation by_capacity: total_preorder by_capacity
  unfolding by_capacity_def
  by (intro total_preorder_then_with total_preorder_ge by_priority_url.total_preorder_axioms)

interpretation by_projected_cost: total_preorder "by_projected_cost ctx" for ctx
  unfolding by_projected_cost_def
  by (intro total_preorder_then_with total_preorder_key by_priority_url.total_preorder_axioms)

interpretation current: scheduler_algorithm "current_order ln64" for ln64
  by unfold_locales (simp add: current_order_def Let_def split: scheduler_policy.split)

interpretation projected: scheduler_algorithm projected_order
  by unfold_locales (simp add: projected_order_def)

interpretation selected: scheduler_algorithm "algorithm_order ln64 k" for ln64 k
  by (cases k)
    (simp_all add: algorithm_order_def current.scheduler_algorithm_axioms projected.scheduler_algorithm_axioms)

lemma explore_none:
  "sequence mod 8 \<noteq> 0 \<Longrightarrow> promote_exploration candidates sequence = candidates"
  by (simp add: promote_exploration_def)

lemma explore_some:
  assumes "sequence mod 8 = 0" and "\<exists>c \<in> set candidates. sd_measured c"
    and "\<exists>c \<in> set candidates. explorable c"
  shows "\<exists>i < length candidates. explorable (candidates ! i)
     \<and> promote_exploration candidates sequence = promote i candidates"
proof -
  let ?pool = "filter (\<lambda>(_, c). explorable c) (enumerate 0 candidates)"
  let ?le = "\<lambda>(_::nat, l) (_::nat, r). rendezvous_unit sequence l \<le> rendezvous_unit sequence r"
  from assms(3) obtain j where "j < length candidates" "explorable (candidates ! j)"
    by (auto simp: in_set_conv_nth)
  then have "(j, candidates ! j) \<in> set ?pool" by (auto simp: in_set_enumerate_eq)
  then have "?pool \<noteq> []" by (metis empty_iff empty_set)
  then obtain i c where sel: "max_by ?le ?pool = Some (i, c)" by (cases "max_by ?le ?pool") auto
  then have "(i, c) \<in> set ?pool" by (rule max_by_in)
  then have "i < length candidates" "c = candidates ! i" "explorable c"
    by (auto simp: in_set_enumerate_eq)
  with assms sel show ?thesis by (auto simp: promote_exploration_def)
qed

lemma rendezvous_winner_less:
  assumes "xs \<noteq> []"
  shows "rendezvous_winner ln64 sequence xs < length xs"
proof -
  have "i < length xs" if "min_by (\<lambda>l r. snd l \<le> snd r) (map f (enumerate 0 xs)) = Some (i, v)"
    and "\<And>j c. fst (f (j, c)) = j" for f :: "nat \<times> schedule_candidate \<Rightarrow> nat \<times> f64" and i v
  proof -
    from min_by_in [OF that(1)] obtain j c where "f (j, c) = (i, v)" "j < length xs"
      by (auto simp: in_set_enumerate_eq)
    with that(2) [of j c] show ?thesis by simp
  qed
  then show ?thesis
    using assms by (auto simp: rendezvous_winner_def Let_def split: option.splits prod.splits)
qed

lemma sorted_wrt_remove_nth:
  assumes "sorted_wrt P xs" and "k < length xs"
  shows "sorted_wrt P (take k xs @ drop (Suc k) xs)"
proof -
  have "sorted_wrt P (take k xs @ xs ! k # drop (Suc k) xs)"
    using assms by (simp add: id_take_nth_drop [symmetric])
  then show ?thesis by (simp add: sorted_wrt_append)
qed

lemma f64_clamp_bounds:
  assumes "x \<noteq> F64_NaN" and "f64_le lo hi" and "lo \<noteq> F64_NaN" "hi \<noteq> F64_NaN"
  shows "f64_le lo (f64_clamp lo hi x) \<and> f64_le (f64_clamp lo hi x) hi"
  using assms by (cases x; cases lo; cases hi) (auto simp: f64_clamp_def Let_def split: if_splits)

section \<open>Properties\<close>

text \<open>
  An algorithm only orders: whichever algorithm and policy is selected, the result holds every
  candidate node exactly as often as the candidates do, so that no strategy can drop a node from the
  failover sequence, repeat one or invent one; distinct nodes stay distinct.
\<close>

lemma order_is_permutation:
  "mset (algorithm_order ln64 k candidates ctx policy) = image_mset sd_node (mset candidates)
   \<and> (distinct (map (nd_id \<circ> nv_node \<circ> sd_node) candidates) \<longrightarrow>
        distinct (map (nd_id \<circ> nv_node) (algorithm_order ln64 k candidates ctx policy)))"
  using selected.order_perm selected.order_distinct by blast

definition example_node_view :: "uuid \<Rightarrow> string \<Rightarrow> node_view" where
  "example_node_view i u =
     \<lparr>nv_node = \<lparr>nd_id = i, nd_name = u, nd_url = u, nd_registry_route_id = 0, nd_enabled = True, nd_priority = 0,
        nd_cf_preferred = False, nd_connect_ip_type = ''auto'', nd_connect_ip = None, nd_auth_mode = ''none'',
        nd_auth_username = None, nd_auth_header = None, nd_auth_secret_enc = None, nd_created_at = 0,
        nd_updated_at = 0\<rparr>,
      nv_metric = \<lparr>nm_node_id = i, nm_healthy = True, nm_latency_ms = 10, nm_speed_bps = 0,
        nm_success_rate = F64_Fin False 1, nm_current_bps = 0, nm_total_bytes = 0,
        nm_last_checked_at = None, nm_last_error = None\<rparr>,
      nv_score = F64_Fin False 0, nv_auth_configured = False,
      nv_route = \<lparr>rs_id = 0, rs_key = ''docker'', rs_name = ''Docker'', rs_canonical_registry = ''docker.io'',
        rs_path_prefix = None, rs_repository_mode = ''strip-prefix'', rs_enabled = True\<rparr>,
      nv_max_concurrency = 2, nv_live_bps = 0\<rparr>"

definition example_candidate :: "uuid \<Rightarrow> string \<Rightarrow> bool \<Rightarrow> schedule_candidate" where
  "example_candidate i u measured =
     \<lparr>sd_node = example_node_view i u, sd_capacity_bps = F64_Fin False 0, sd_latency_ms = 10,
      sd_success_rate = F64_Fin False 1, sd_active = 0, sd_max_concurrency = 2, sd_measured = measured,
      sd_recently_recovered = False\<rparr>"

lemma example_candidate_simps [simp]:
  "sd_node (example_candidate i u m) = example_node_view i u" "sd_measured (example_candidate i u m) = m"
  by (simp_all add: example_candidate_def)

text \<open>
  Outside the exploration tickets the speed-first policy and the projected-completion algorithm return
  the candidates sorted by their documented keys (capacity descending, then priority, then URL; and
  projected cost, then rendezvous value, then priority, then URL); the balanced policy on measured nodes
  puts one winner first and keeps the sorted order for the fallbacks, and on unmeasured nodes it rotates,
  so that ticket \<open>s\<close> starts at candidate \<open>s mod n\<close>.
\<close>

lemma order_between_exploration_tickets:
  assumes "sx_sequence ctx mod 8 \<noteq> 0"
  shows "(\<exists>xs. current_order ln64 candidates ctx SpeedFirst = map sd_node xs
            \<and> sorted_wrt by_capacity xs \<and> mset xs = mset candidates)
       \<and> (\<exists>xs. projected_order candidates ctx policy = map sd_node xs
            \<and> sorted_wrt (by_projected_cost ctx) xs \<and> mset xs = mset candidates)
       \<and> ((\<exists>c \<in> set candidates. sd_measured c) \<longrightarrow>
            (\<exists>winner rest. current_order ln64 candidates ctx Balanced = sd_node winner # map sd_node rest
               \<and> sorted_wrt by_capacity rest \<and> mset (winner # rest) = mset candidates))
       \<and> (\<not> (\<exists>c \<in> set candidates. sd_measured c) \<and> candidates \<noteq> [] \<longrightarrow>
            hd (current_order ln64 candidates ctx Balanced)
              = sd_node (candidates ! (sx_sequence ctx mod length candidates)))"
proof (intro conjI impI)
  show "\<exists>xs. current_order ln64 candidates ctx SpeedFirst = map sd_node xs
      \<and> sorted_wrt by_capacity xs \<and> mset xs = mset candidates"
    by (rule exI [of _ "sort_by by_capacity candidates"])
      (simp add: current_order_def explore_none [OF assms] by_capacity.sorted_sort_by)
next
  show "\<exists>xs. projected_order candidates ctx policy = map sd_node xs
      \<and> sorted_wrt (by_projected_cost ctx) xs \<and> mset xs = mset candidates"
    by (rule exI [of _ "sort_by (by_projected_cost ctx) candidates"])
      (simp add: projected_order_def explore_none [OF assms] by_projected_cost.sorted_sort_by)
next
  assume m: "\<exists>c \<in> set candidates. sd_measured c"
  let ?s = "sort_by by_capacity candidates"
  have "?s \<noteq> []" using m by (metis empty_iff empty_set set_sort_by)
  then have k: "rendezvous_winner ln64 (sx_sequence ctx) ?s < length ?s" (is "?k < _")
    by (rule rendezvous_winner_less)
  have eq: "promote ?k ?s = ?s ! ?k # take ?k ?s @ drop (Suc ?k) ?s" using k by (simp add: promote_def)
  have "sorted_wrt by_capacity (take ?k ?s @ drop (Suc ?k) ?s)"
    using sorted_wrt_remove_nth [OF by_capacity.sorted_sort_by k] .
  moreover have "mset (?s ! ?k # take ?k ?s @ drop (Suc ?k) ?s) = mset candidates"
    by (metis eq mset_promote mset_sort_by)
  ultimately show "\<exists>winner rest. current_order ln64 candidates ctx Balanced = sd_node winner # map sd_node rest
      \<and> sorted_wrt by_capacity rest \<and> mset (winner # rest) = mset candidates"
    using m eq by (intro exI [of _ "?s ! ?k"] exI [of _ "take ?k ?s @ drop (Suc ?k) ?s"])
      (simp add: current_order_def explore_none [OF assms] Let_def)
next
  assume a: "\<not> (\<exists>c \<in> set candidates. sd_measured c) \<and> candidates \<noteq> []"
  then have "sx_sequence ctx mod length candidates < length candidates" by simp
  with a show "hd (current_order ln64 candidates ctx Balanced)
      = sd_node (candidates ! (sx_sequence ctx mod length candidates))"
    by (simp add: current_order_def explore_none [OF assms] hd_map_rotate_left)
qed

text \<open>
  One ticket in eight goes to exploration: on a sequence number divisible by eight, with a measured
  node among the candidates, an idle candidate that is unmeasured or recently recovered comes first
  whenever there is one, and the other candidates keep their relative order.
\<close>

lemma exploration_ticket:
  assumes "sequence mod 8 = 0" and "\<exists>c \<in> set candidates. sd_measured c"
    and "\<exists>c \<in> set candidates. explorable c"
  shows "explorable (hd (promote_exploration candidates sequence))
     \<and> mset (promote_exploration candidates sequence) = mset candidates
     \<and> filter (\<lambda>c. c \<noteq> hd (promote_exploration candidates sequence)) (promote_exploration candidates sequence)
       = filter (\<lambda>c. c \<noteq> hd (promote_exploration candidates sequence)) candidates"
  using explore_some [OF assms] promote_hd promote_filter by (metis mset_promote)

text \<open>
  The rendezvous value of a candidate is strictly positive and at most one, for every sequence number
  and every URL, so that its logarithm is finite.
\<close>

lemma rendezvous_unit_range:
  "f64_lt (f64_const 0) (rendezvous_unit sequence c) \<and> f64_le (rendezvous_unit sequence c) (f64_const 1)"
proof -
  have num: "\<exists>v. f64_add (f64_of_nat (unat s)) (f64_const 1) = F64_Fin False v" for s :: "64 word"
  proof -
    have "unat s < 2 ^ 64" using unsigned_less [of s] by simp
    then show ?thesis using f64_add_u64 [of "unat s" 0] by (auto simp: u64_max_def)
  qed
  obtain d where den: "f64_add (f64_of_nat u64_max) (f64_const 2) = F64_Fin False d" "1 \<le> d"
    using f64_add_u64 [of u64_max 1] by auto
  have lo: "f64_const (2 powi (- 1022)) = F64_Fin False (2 powi (- 1022))"
    by (rule f64_const_powi) simp_all
  have hi: "f64_const 1 = F64_Fin False 1" using f64_const_powi [of 0] by simp
  have le: "f64_le (f64_const (2 powi (- 1022))) (f64_const 1)"
    unfolding lo hi by (simp add: f64_signed_def)
  define st where "st = splitmix_finish (foldl splitmix_absorb (word_of_nat sequence) (nd_url (nv_node (sd_node c))))"
  define x where "x = f64_div (f64_add (f64_of_nat (unat st)) (f64_const 1))
      (f64_add (f64_of_nat u64_max) (f64_const 2))"
  obtain v where "f64_add (f64_of_nat (unat st)) (f64_const 1) = F64_Fin False v" using num by blast
  with den have "x \<noteq> F64_NaN" by (simp add: x_def f64_round_def Let_def)
  then have "f64_le (f64_const (2 powi (- 1022))) (rendezvous_unit sequence c)
      \<and> f64_le (rendezvous_unit sequence c) (f64_const 1)"
    unfolding rendezvous_unit_def Let_def st_def [symmetric] x_def [symmetric]
    by (rule f64_clamp_bounds) (use le lo hi in simp_all)
  moreover have "f64_lt (f64_const 0) y" if "f64_le (f64_const (2 powi (- 1022))) y" for y
    using that unfolding lo by (cases y) (auto simp: f64_const_def f64_of_rat_def f64_signed_def
        intro: less_le_trans [of 0 "2 powi (- 1022)"] simp del: power_int_minus)
  ultimately show ?thesis by blast
qed

end
