(* ===== verification/Blob_Planner.thy ===== *)
theory Blob_Planner
  imports Prelude Float64
begin

text \<open>
  \<^verbatim>\<open>src/src/blob_planner.rs\<close>: the pure choice between one request and a chunked download from
  several nodes. The definitions follow the file, and the lemmas say which plans can come out: the
  chunks of a plan cover the Blob within the configured bounds, a single request goes to the usable node
  with the least estimate, and each error has exactly its cause.
\<close>

section \<open>Data\<close>

record blob_meta =
  bm_digest :: string
  bm_size :: nat
  bm_media_type :: string

record node_snapshot =
  ns_url :: string
  ns_supports_range :: bool
  ns_max_concurrency :: nat
  ns_throughput_bps :: "nat option"
  ns_latency_ms :: "nat option"
  ns_success_rate :: f64
  ns_cooling :: bool

datatype download_strategy =
    CacheHit
  | SingleRequest string
  | MultiSourceChunked nat nat nat

record planner_config =
  pc_small_blob_threshold :: nat
  pc_min_chunk_size :: nat
  pc_max_chunk_size :: nat
  pc_min_parallel_benefit :: f64
  pc_max_concurrent_chunks :: nat
  pc_allow_unmeasured_parallel :: bool

definition MIB :: nat where
  "MIB = 1024 * 1024"

definition planner_config_default :: planner_config where
  "planner_config_default =
     \<lparr>pc_small_blob_threshold = 8 * MIB, pc_min_chunk_size = 2 * MIB, pc_max_chunk_size = 8 * MIB,
      pc_min_parallel_benefit = f64_const (6 / 5), pc_max_concurrent_chunks = 16,
      pc_allow_unmeasured_parallel = False\<rparr>"

datatype planner_error = NoUsableNodes | InvalidConfiguration

fun planner_error_display :: "planner_error \<Rightarrow> string" where
  "planner_error_display NoUsableNodes = ''no usable nodes available for Blob planning''"
| "planner_error_display InvalidConfiguration = ''invalid Blob planner configuration''"

section \<open>Estimates\<close>

definition estimated_time_ms :: "nat \<Rightarrow> node_snapshot \<Rightarrow> f64" where
  "estimated_time_ms sz node =
     (let throughput = f64_of_nat (max (case ns_throughput_bps node of Some v \<Rightarrow> v
                                          | None \<Rightarrow> 10 * 1024 * 1024) 1);
          latency = f64_of_nat (case ns_latency_ms node of Some v \<Rightarrow> v | None \<Rightarrow> 100)
      in f64_add latency (f64_div (f64_mul (f64_of_nat sz) (f64_const 1000)) throughput))"

text \<open>
  The order in which the benefit estimate takes the nodes: throughput first, highest first, then the
  least latency. The source sorts unstably; what the estimate reads of a node are the two keys.
\<close>

definition active_order :: "node_snapshot \<Rightarrow> node_snapshot \<Rightarrow> bool" where
  "active_order = then_with (\<lambda>l r. ns_throughput_bps r \<le> ns_throughput_bps l)
                            (\<lambda>l r. ns_latency_ms l \<le> ns_latency_ms r)"

definition estimated_benefit ::
  "nat \<Rightarrow> node_snapshot \<Rightarrow> node_snapshot list \<Rightarrow> nat \<Rightarrow> nat \<Rightarrow> f64 option" where
  "estimated_benefit sz best_single nodes chunk_size requested_concurrency =
     (if \<exists>node \<in> set nodes. ns_throughput_bps node = None \<or> ns_latency_ms node = None then None
      else
        let num_chunks = div_ceil sz chunk_size;
            concurrency = min requested_concurrency num_chunks;
            active_nodes = take concurrency (sort_by active_order nodes);
            single = estimated_time_ms sz best_single;
            aggregate_throughput =
              f64_sum (map f64_of_nat (List.map_filter ns_throughput_bps active_nodes))
        in
        if f64_le aggregate_throughput (f64_const 0) then None
        else
          let coordination_latency =
                f64_of_nat (foldl max 0 (List.map_filter ns_latency_ms active_nodes));
              waves = div_ceil num_chunks concurrency;
              multi = f64_add (f64_mul (f64_of_nat waves) coordination_latency)
                        (f64_div (f64_mul (f64_of_nat sz) (f64_const 1000)) aggregate_throughput)
          in Some (f64_div single (f64_max multi (f64_const 1))))"

section \<open>Planning\<close>

definition chunk_size :: "planner_config \<Rightarrow> nat \<Rightarrow> nat \<Rightarrow> nat" where
  "chunk_size config blob_size concurrency =
     (let target_chunks = max (u64_saturating_mul concurrency 4) 1;
          ideal = div_ceil blob_size target_chunks
      in clamp (pc_min_chunk_size config) (pc_max_chunk_size config)
           (u64_saturating_mul (div_ceil ideal MIB) MIB))"

definition single_plan :: "node_snapshot \<Rightarrow> download_strategy" where
  "single_plan node = SingleRequest (ns_url node)"

definition usable_node :: "node_snapshot \<Rightarrow> bool" where
  "usable_node node =
     (\<not> ns_cooling node \<and> 0 < ns_max_concurrency node \<and> f64_lt (f64_const 0) (ns_success_rate node)
      \<and> ns_url node \<noteq> [])"

definition faster_single :: "nat \<Rightarrow> node_snapshot \<Rightarrow> node_snapshot \<Rightarrow> bool" where
  "faster_single sz l r = (estimated_time_ms sz l \<le> estimated_time_ms sz r)"

definition requested_concurrency :: "planner_config \<Rightarrow> node_snapshot list \<Rightarrow> nat" where
  "requested_concurrency config range_nodes =
     min (foldl u64_wrapping_add 0 (map ns_max_concurrency range_nodes))
         (pc_max_concurrent_chunks config)"

definition invalid_request :: "planner_config \<Rightarrow> blob_meta \<Rightarrow> bool" where
  "invalid_request config blob =
     (bm_size blob = 0 \<or> pc_min_chunk_size config = 0
      \<or> pc_max_chunk_size config < pc_min_chunk_size config
      \<or> pc_max_concurrent_chunks config = 0
      \<or> f64_lt (pc_min_parallel_benefit config) (f64_const 1))"

definition plan ::
  "planner_config \<Rightarrow> blob_meta \<Rightarrow> bool \<Rightarrow> node_snapshot list \<Rightarrow> planner_error + download_strategy" where
  "plan config blob cached nodes =
     (if cached then Inr CacheHit
      else if invalid_request config blob then Inl InvalidConfiguration
      else
        let usable = filter usable_node nodes in
        case min_by (faster_single (bm_size blob)) usable of
          None \<Rightarrow> Inl NoUsableNodes
        | Some best_single \<Rightarrow>
            let range_nodes = filter ns_supports_range usable;
                concurrency = requested_concurrency config range_nodes
            in
            if bm_size blob < pc_small_blob_threshold config \<or> range_nodes = [] \<or> concurrency < 2
            then Inr (single_plan best_single)
            else
              let cs = chunk_size config (bm_size blob) concurrency;
                  num_chunks = div_ceil (bm_size blob) cs;
                  benefit = estimated_benefit (bm_size blob) best_single range_nodes cs concurrency
              in
              if (1 < length range_nodes \<or> \<not> ns_supports_range best_single)
                 \<and> \<not> pc_allow_unmeasured_parallel config
                 \<and> (case benefit of None \<Rightarrow> True
                      | Some value \<Rightarrow> f64_lt value (pc_min_parallel_benefit config))
              then Inr (single_plan best_single)
              else Inr (MultiSourceChunked cs num_chunks concurrency))"

section \<open>Lemmas\<close>

interpretation faster_single: total_preorder "faster_single sz" for sz
  unfolding faster_single_def by (rule total_preorder_key)

interpretation active_order: total_preorder active_order
proof -
  have "total_preorder (\<lambda>l r. ns_throughput_bps r \<le> ns_throughput_bps l)"
    by unfold_locales auto
  then show "total_preorder active_order"
    unfolding active_order_def by (rule total_preorder_then_with) (rule total_preorder_key)
qed

lemma chunk_size_bounds:
  "pc_min_chunk_size config \<le> pc_max_chunk_size config \<Longrightarrow>
     pc_min_chunk_size config \<le> chunk_size config n c \<and> chunk_size config n c \<le> pc_max_chunk_size config"
  by (simp add: chunk_size_def Let_def clamp_bounds)

lemma wrapping_sum_le: "foldl u64_wrapping_add k xs \<le> k + sum_list xs"
proof (induction xs arbitrary: k)
  case (Cons x xs)
  have "u64_wrapping_add k x \<le> k + x" by (simp add: u64_wrapping_add_def mod_less_eq_dividend)
  with Cons.IH [of "u64_wrapping_add k x"] show ?case by simp
qed simp

lemma plan_ok:
  "\<not> cached \<Longrightarrow> plan config blob cached nodes = Inr s \<Longrightarrow> \<not> invalid_request config blob"
  by (simp add: plan_def split: if_splits)

lemma plan_error_cases:
  "plan config blob cached nodes = Inl e \<longleftrightarrow>
     \<not> cached \<and> (if invalid_request config blob then e = InvalidConfiguration
                  else filter usable_node nodes = [] \<and> e = NoUsableNodes)"
  by (auto simp: plan_def Let_def filter_empty_conv split: option.splits)

lemma plan_multi_cases:
  assumes "plan config blob cached nodes = Inr (MultiSourceChunked cs n c)"
  shows "\<not> cached \<and> \<not> invalid_request config blob
     \<and> filter (\<lambda>x. usable_node x \<and> ns_supports_range x) nodes \<noteq> []
     \<and> pc_small_blob_threshold config \<le> bm_size blob
     \<and> c = requested_concurrency config (filter (\<lambda>x. usable_node x \<and> ns_supports_range x) nodes)
     \<and> 2 \<le> c \<and> cs = chunk_size config (bm_size blob) c \<and> n = div_ceil (bm_size blob) cs"
  using assms
  by (auto simp: plan_def Let_def single_plan_def filter_filter conj_commute
      simp del: filter_empty_conv split: if_splits option.splits)

lemma plan_multi_benefit:
  assumes "plan config blob cached nodes = Inr (MultiSourceChunked cs n c)"
    and "\<not> pc_allow_unmeasured_parallel config"
    and "1 < length (filter ns_supports_range (filter usable_node nodes))"
  shows "\<exists>best v. min_by (faster_single (bm_size blob)) (filter usable_node nodes) = Some best
     \<and> estimated_benefit (bm_size blob) best (filter ns_supports_range (filter usable_node nodes)) cs c = Some v
     \<and> \<not> f64_lt v (pc_min_parallel_benefit config)"
  using assms
  by (auto simp: plan_def Let_def single_plan_def simp del: filter_filter
      split: if_splits option.splits)

lemma plan_single_cases:
  assumes "plan config blob cached nodes = Inr (SingleRequest url)"
  obtains best where "min_by (faster_single (bm_size blob)) (filter usable_node nodes) = Some best"
    "url = ns_url best" "\<not> cached"
  using assms that by (auto simp: plan_def Let_def single_plan_def split: if_splits option.splits)

section \<open>Properties\<close>

text \<open>
  A chunked plan is executable: the Blob is not cached and not below the threshold, the chunk size
  is positive and within its configured bounds, the chunk count is the exact number of chunks of that
  size that cover the Blob (one fewer does not), and the concurrency is at least two and at most both
  the configured limit and what the usable Range-capable nodes offer together.
\<close>

lemma plan_chunks_cover_blob:
  assumes "plan config blob cached nodes = Inr (MultiSourceChunked cs n c)"
  shows "\<not> cached \<and> pc_small_blob_threshold config \<le> bm_size blob
     \<and> 0 < cs \<and> pc_min_chunk_size config \<le> cs \<and> cs \<le> pc_max_chunk_size config
     \<and> 0 < n \<and> bm_size blob \<le> n * cs \<and> (n - 1) * cs < bm_size blob
     \<and> 2 \<le> c \<and> c \<le> pc_max_concurrent_chunks config
     \<and> c \<le> sum_list (map ns_max_concurrency (filter (\<lambda>x. usable_node x \<and> ns_supports_range x) nodes))"
proof -
  let ?range = "filter (\<lambda>x. usable_node x \<and> ns_supports_range x) nodes"
  from plan_multi_cases [OF assms]
  have valid: "\<not> invalid_request config blob" and cs: "cs = chunk_size config (bm_size blob) c"
    and n: "n = div_ceil (bm_size blob) cs" and c: "c = requested_concurrency config ?range"
    and rest: "\<not> cached" "pc_small_blob_threshold config \<le> bm_size blob" "2 \<le> c" by auto
  from valid have pos: "0 < bm_size blob" "0 < pc_min_chunk_size config"
    "pc_min_chunk_size config \<le> pc_max_chunk_size config" by (auto simp: invalid_request_def)
  then have bounds: "pc_min_chunk_size config \<le> cs" "cs \<le> pc_max_chunk_size config" "0 < cs"
    using chunk_size_bounds [of config "bm_size blob" c] cs by auto
  have "c \<le> pc_max_concurrent_chunks config" "c \<le> sum_list (map ns_max_concurrency ?range)"
    using wrapping_sum_le [of 0 "map ns_max_concurrency ?range"] c
    by (simp_all add: requested_concurrency_def)
  with rest bounds pos n show ?thesis
    using div_ceil_upper div_ceil_lower div_ceil_pos by simp
qed

definition example_snapshot :: node_snapshot where
  "example_snapshot =
     \<lparr>ns_url = ''https://a'', ns_supports_range = True, ns_max_concurrency = 4, ns_throughput_bps = None,
      ns_latency_ms = None, ns_success_rate = F64_Inf False, ns_cooling = False\<rparr>"

definition example_blob :: blob_meta where
  "example_blob = \<lparr>bm_digest = ''d'', bm_size = 100 * MIB, bm_media_type = ''m''\<rparr>"

definition example_config :: planner_config where
  "example_config = planner_config_default\<lparr>pc_min_parallel_benefit := F64_Inf False\<rparr>"

lemmas example_plan_defs = example_snapshot_def example_blob_def example_config_def
  planner_config_default_def invalid_request_def usable_node_def requested_concurrency_def
  u64_arith chunk_size_def MIB_def clamp_def div_ceil_def f64_const_def f64_of_rat_def single_plan_def

lemma example_one [simp]: "f64_const 0 = F64_Fin False 0" "f64_lt (F64_Inf False) x = False"
  by (simp_all add: f64_const_def f64_of_rat_def) (cases x; simp)

lemma example_plan:
  "plan example_config example_blob False [example_snapshot]
     = Inr (MultiSourceChunked (7 * MIB) 15 4)"
  by (simp add: plan_def example_plan_defs)

text \<open>
  A single request goes to a usable node (not cooling, with capacity, a positive success rate and a
  URL) whose estimated time is the least of all usable nodes in the total order of \<open>f64\<close>.
\<close>

lemma plan_single_is_fastest:
  assumes "plan config blob cached nodes = Inr (SingleRequest url)"
  shows "\<exists>best \<in> set nodes. usable_node best \<and> ns_url best = url
     \<and> (\<forall>other \<in> set nodes. usable_node other \<longrightarrow>
            estimated_time_ms (bm_size blob) best \<le> estimated_time_ms (bm_size blob) other)"
proof -
  obtain best where best: "min_by (faster_single (bm_size blob)) (filter usable_node nodes) = Some best"
    and url: "url = ns_url best" by (rule plan_single_cases [OF assms])
  from min_by_in [OF best] have "best \<in> set nodes" "usable_node best" by auto
  with url faster_single.min_by_least [OF best] show ?thesis
    unfolding faster_single_def by auto
qed

text \<open>
  The planner fails exactly when it has to: on an uncached Blob, \<open>InvalidConfiguration\<close> is the answer
  to an empty Blob or unusable limits and to nothing else, \<open>NoUsableNodes\<close> the answer to a valid
  request with no usable node and to nothing else; a cached Blob is always a cache hit.
\<close>

lemma plan_errors_exact:
  "plan config blob True nodes = Inr CacheHit
   \<and> (plan config blob False nodes = Inl InvalidConfiguration \<longleftrightarrow> invalid_request config blob)
   \<and> (plan config blob False nodes = Inl NoUsableNodes \<longleftrightarrow>
        \<not> invalid_request config blob \<and> \<not> (\<exists>node \<in> set nodes. usable_node node))
   \<and> plan config blob False nodes \<noteq> Inr CacheHit"
  by (auto simp: plan_error_cases filter_empty_conv)
    (auto simp: plan_def Let_def single_plan_def split: if_splits option.splits)

text \<open>
  Without measurements the planner does not spend a Blob on speculative ranges: when several usable
  nodes support ranges and one of them has no throughput or no latency observation, the plan is a single
  request unless unmeasured parallelism is allowed.
\<close>

lemma unmeasured_nodes_stay_single:
  assumes "\<not> invalid_request config blob" and "\<not> pc_allow_unmeasured_parallel config"
    and "1 < length (filter ns_supports_range (filter usable_node nodes))"
    and "node \<in> set nodes" "usable_node node" "ns_supports_range node"
    and "ns_throughput_bps node = None \<or> ns_latency_ms node = None"
  shows "\<exists>url. plan config blob False nodes = Inr (SingleRequest url)"
proof (cases "plan config blob False nodes")
  case (Inl e)
  with assms show ?thesis by (auto simp: plan_error_cases filter_empty_conv)
next
  case (Inr s)
  show ?thesis
  proof (cases s)
    case CacheHit
    with Inr show ?thesis
      by (auto simp: plan_def Let_def single_plan_def split: if_splits option.splits)
  next
    case (MultiSourceChunked cs n c)
    with Inr plan_multi_benefit [OF _ assms(2,3)] obtain best v where
      "estimated_benefit (bm_size blob) best (filter ns_supports_range (filter usable_node nodes)) cs c
         = Some v" by blast
    with assms(4-7) show ?thesis by (auto simp: estimated_benefit_def split: if_splits)
  qed (use Inr in simp)
qed

end
