(* ===== verification/Resource_Budget.thy ===== *)
theory Resource_Budget
  imports Prelude
begin

text \<open>
  \<^verbatim>\<open>src/src/resource_budget.rs\<close>: the request slots of every upstream node (\<open>NodeCapacity\<close>, its
  leases and probe leases) and the byte budget of the Blob streams (\<open>StreamMemoryBudget\<close>). The
  operations are functions on the state; the tasks that call them interleave, so the component is a
  step relation with one rule per operation, and the limits are invariants of its runs.
\<close>

section \<open>Node capacity\<close>

definition MAX_NETWORK_REQUESTS :: nat where
  "MAX_NETWORK_REQUESTS = 64"

definition MAX_PROBES :: nat where
  "MAX_PROBES = 8"

definition STREAM_MEMORY_BYTES :: nat where
  "STREAM_MEMORY_BYTES = 64 * 1024 * 1024"

definition GLOBAL_STREAM_MEMORY_BYTES :: nat where
  "GLOBAL_STREAM_MEMORY_BYTES = 256 * 1024 * 1024"

text \<open>A semaphore is the number of permits it has left.\<close>

record node_capacity =
  nc_active :: "uuid \<rightharpoonup> nat"
  nc_requests :: nat
  nc_probes :: nat

record node_lease =
  nl_node_id :: uuid

definition node_capacity_default :: node_capacity where
  "node_capacity_default =
     \<lparr>nc_active = Map.empty, nc_requests = MAX_NETWORK_REQUESTS, nc_probes = MAX_PROBES\<rparr>"

definition node_capacity_active :: "node_capacity \<Rightarrow> uuid \<Rightarrow> nat" where
  "node_capacity_active cap node_id = (case nc_active cap node_id of None \<Rightarrow> 0 | Some v \<Rightarrow> v)"

text \<open>
  \<open>try_acquire\<close>: a refusal gives the request permit back (it is dropped on return) and leaves behind the
  entry that \<open>entry(node_id).or_insert(0)\<close> made.
\<close>

definition try_acquire ::
  "node_capacity \<Rightarrow> uuid \<Rightarrow> nat \<Rightarrow> node_capacity \<times> node_lease option" where
  "try_acquire cap node_id limit =
     (if nc_requests cap = 0 then (cap, None)
      else
        let active = node_capacity_active cap node_id in
        if limit \<le> active then (cap\<lparr>nc_active := (nc_active cap)(node_id \<mapsto> active)\<rparr>, None)
        else (cap\<lparr>nc_requests := nc_requests cap - 1,
                  nc_active := (nc_active cap)(node_id \<mapsto> active + 1)\<rparr>,
              Some \<lparr>nl_node_id = node_id\<rparr>))"

text \<open>\<open>Drop for NodeLease\<close>.\<close>

definition drop_node_lease :: "node_lease \<Rightarrow> node_capacity \<Rightarrow> node_capacity" where
  "drop_node_lease lease cap =
     (let cap' = (case nc_active cap (nl_node_id lease) of
                    None \<Rightarrow> cap
                  | Some v \<Rightarrow> cap\<lparr>nc_active := (nc_active cap)(nl_node_id lease \<mapsto> v - 1)\<rparr>)
      in cap'\<lparr>nc_requests := nc_requests cap' + 1\<rparr>)"

text \<open>
  \<open>acquire\<close>: one round of its loop, which waits for a change and tries again on \<open>Inr None\<close>; and the whole
  loop over the states that the other tasks leave behind, in the order in which it sees them.
\<close>

definition acquire_round ::
  "node_capacity \<Rightarrow> uuid \<Rightarrow> nat \<Rightarrow> (node_capacity \<times> node_lease option) api_result" where
  "acquire_round cap node_id limit =
     (if limit = 0 then Inl (Unavailable ''node request capacity is disabled'')
      else Inr (try_acquire cap node_id limit))"

fun acquire :: "node_capacity list \<Rightarrow> uuid \<Rightarrow> nat \<Rightarrow> (node_capacity \<times> node_lease) api_result option" where
  "acquire [] node_id limit =
     (if limit = 0 then Some (Inl (Unavailable ''node request capacity is disabled'')) else None)"
| "acquire (cap # later) node_id limit =
     (case acquire_round cap node_id limit of
        Inl e \<Rightarrow> Some (Inl e)
      | Inr (cap', Some lease) \<Rightarrow> Some (Inr (cap', lease))
      | Inr (_, None) \<Rightarrow> acquire later node_id limit)"

text \<open>
  Every task together: the leases alive, the probe tasks that hold a probe permit and wait for a node
  slot, and the probe leases alive. \<open>limit\<close> is the configured \<open>max_concurrency\<close> of each node.
\<close>

record capacity_system =
  cs_cap :: node_capacity
  cs_leases :: "node_lease multiset"
  cs_probe_waiting :: nat
  cs_probe_leases :: "node_lease multiset"

definition capacity_system_init :: capacity_system where
  "capacity_system_init =
     \<lparr>cs_cap = node_capacity_default, cs_leases = {#}, cs_probe_waiting = 0, cs_probe_leases = {#}\<rparr>"

inductive nc_step :: "(uuid \<Rightarrow> nat) \<Rightarrow> capacity_system \<Rightarrow> capacity_system \<Rightarrow> bool"
  for limit :: "uuid \<Rightarrow> nat" where
  acquired: "try_acquire (cs_cap s) n (limit n) = (cap', Some lease) \<Longrightarrow>
     nc_step limit s (s\<lparr>cs_cap := cap', cs_leases := add_mset lease (cs_leases s)\<rparr>)"
| refused: "try_acquire (cs_cap s) n (limit n) = (cap', None) \<Longrightarrow> nc_step limit s (s\<lparr>cs_cap := cap'\<rparr>)"
| released: "cs_leases s = add_mset lease rest \<Longrightarrow>
     nc_step limit s (s\<lparr>cs_cap := drop_node_lease lease (cs_cap s), cs_leases := rest\<rparr>)"
| probe_permit: "0 < nc_probes (cs_cap s) \<Longrightarrow>
     nc_step limit s (s\<lparr>cs_cap := (cs_cap s)\<lparr>nc_probes := nc_probes (cs_cap s) - 1\<rparr>,
                        cs_probe_waiting := cs_probe_waiting s + 1\<rparr>)"
| probe_acquired: "cs_probe_waiting s = Suc w \<Longrightarrow>
     try_acquire (cs_cap s) n (limit n) = (cap', Some lease) \<Longrightarrow>
     nc_step limit s (s\<lparr>cs_cap := cap', cs_probe_waiting := w,
                        cs_probe_leases := add_mset lease (cs_probe_leases s)\<rparr>)"
| probe_abandoned: "cs_probe_waiting s = Suc w \<Longrightarrow>
     nc_step limit s (s\<lparr>cs_cap := (cs_cap s)\<lparr>nc_probes := nc_probes (cs_cap s) + 1\<rparr>,
                        cs_probe_waiting := w\<rparr>)"
| probe_released: "cs_probe_leases s = add_mset lease rest \<Longrightarrow>
     nc_step limit s
       (s\<lparr>cs_cap := drop_node_lease lease ((cs_cap s)\<lparr>nc_probes := nc_probes (cs_cap s) + 1\<rparr>),
          cs_probe_leases := rest\<rparr>)"

section \<open>Stream memory\<close>

text \<open>
  A reservation is the stream it belongs to, its bytes, and the number of \<open>MemoryLease\<close> clones alive.
  \<open>acquire\<close> takes the permits of the stream first and those of the process second; a task between the
  two, which may be cancelled, is in \<open>ms_half\<close>.
\<close>

record memory_system =
  ms_local :: "nat \<Rightarrow> nat"
  ms_global :: nat
  ms_half :: "(nat \<times> nat) multiset"
  ms_leases :: "(nat \<times> nat \<times> nat) multiset"

definition memory_system_init :: memory_system where
  "memory_system_init =
     \<lparr>ms_local = (\<lambda>_. STREAM_MEMORY_BYTES), ms_global = GLOBAL_STREAM_MEMORY_BYTES,
      ms_half = {#}, ms_leases = {#}\<rparr>"

text \<open>The admission check of \<open>StreamMemoryBudget::acquire\<close>: \<open>u32::try_from\<close> and the stream's own limit.\<close>

definition memory_request :: "nat \<Rightarrow> nat api_result" where
  "memory_request b =
     ok_or (Upstream ''stream chunk exceeds its memory budget'')
       (if b < 2 ^ 32 then (if b \<le> STREAM_MEMORY_BYTES then Some b else None) else None)"

inductive ms_step :: "memory_system \<Rightarrow> memory_system \<Rightarrow> bool" where
  reserve_local: "memory_request n = Inr b \<Longrightarrow> b \<le> ms_local m i \<Longrightarrow>
     ms_step m (m\<lparr>ms_local := (ms_local m)(i := ms_local m i - b),
                  ms_half := add_mset (i, b) (ms_half m)\<rparr>)"
| reserve_global: "ms_half m = add_mset (i, b) rest \<Longrightarrow> b \<le> ms_global m \<Longrightarrow>
     ms_step m (m\<lparr>ms_global := ms_global m - b, ms_half := rest,
                  ms_leases := add_mset (i, b, 1) (ms_leases m)\<rparr>)"
| cancelled: "ms_half m = add_mset (i, b) rest \<Longrightarrow>
     ms_step m (m\<lparr>ms_local := (ms_local m)(i := ms_local m i + b), ms_half := rest\<rparr>)"
| cloned: "ms_leases m = add_mset (i, b, k) rest \<Longrightarrow>
     ms_step m (m\<lparr>ms_leases := add_mset (i, b, Suc k) rest\<rparr>)"
| dropped: "ms_leases m = add_mset (i, b, Suc (Suc k)) rest \<Longrightarrow>
     ms_step m (m\<lparr>ms_leases := add_mset (i, b, Suc k) rest\<rparr>)"
| dropped_last: "ms_leases m = add_mset (i, b, 1) rest \<Longrightarrow>
     ms_step m (m\<lparr>ms_local := (ms_local m)(i := ms_local m i + b), ms_global := ms_global m + b,
                  ms_leases := rest\<rparr>)"

section \<open>Invariants\<close>

definition leases_of :: "capacity_system \<Rightarrow> uuid \<Rightarrow> nat" where
  "leases_of s n = count (image_mset nl_node_id (cs_leases s + cs_probe_leases s)) n"

definition nc_inv :: "(uuid \<Rightarrow> nat) \<Rightarrow> capacity_system \<Rightarrow> bool" where
  "nc_inv limit s \<longleftrightarrow>
     nc_requests (cs_cap s) + size (cs_leases s) + size (cs_probe_leases s) = MAX_NETWORK_REQUESTS \<and>
     nc_probes (cs_cap s) + cs_probe_waiting s + size (cs_probe_leases s) = MAX_PROBES \<and>
     (\<forall>n. node_capacity_active (cs_cap s) n = leases_of s n) \<and>
     (\<forall>n. leases_of s n \<le> limit n)"

lemmas capacity_defs = node_capacity_active_def leases_of_def

lemma try_acquire_Some:
  "try_acquire cap n k = (cap', Some lease) \<Longrightarrow>
     0 < nc_requests cap \<and> nl_node_id lease = n \<and> node_capacity_active cap n < k \<and>
     nc_requests cap' = nc_requests cap - 1 \<and> nc_probes cap' = nc_probes cap \<and>
     node_capacity_active cap' = (node_capacity_active cap)(n := node_capacity_active cap n + 1)"
  by (auto simp: try_acquire_def node_capacity_active_def Let_def fun_eq_iff split: if_splits)

lemma try_acquire_None:
  "try_acquire cap n k = (cap', None) \<Longrightarrow>
     nc_requests cap' = nc_requests cap \<and> nc_probes cap' = nc_probes cap \<and>
     node_capacity_active cap' = node_capacity_active cap"
  by (auto simp: try_acquire_def node_capacity_active_def Let_def fun_eq_iff split: if_splits)

lemma drop_node_lease_fields [simp]:
  "nc_requests (drop_node_lease lease cap) = nc_requests cap + 1"
  "nc_probes (drop_node_lease lease cap) = nc_probes cap"
  "node_capacity_active (drop_node_lease lease cap) =
     (node_capacity_active cap)(nl_node_id lease := node_capacity_active cap (nl_node_id lease) - 1)"
  by (auto simp: drop_node_lease_def node_capacity_active_def Let_def fun_eq_iff split: option.splits)

lemma node_capacity_active_probes [simp]:
  "node_capacity_active (cap\<lparr>nc_probes := p\<rparr>) = node_capacity_active cap"
  by (simp add: node_capacity_active_def fun_eq_iff)

lemma nc_inv_init: "nc_inv limit capacity_system_init"
  by (simp add: nc_inv_def capacity_system_init_def node_capacity_default_def capacity_defs)

lemma nc_inv_step:
  assumes "nc_inv limit s" and "nc_step limit s t"
  shows "nc_inv limit t"
  using assms(2)
proof cases
  case (acquired n cap' lease)
  with assms(1) try_acquire_Some [OF acquired(2)] show ?thesis
    by (auto simp: nc_inv_def leases_of_def)
next
  case (refused n cap')
  with assms(1) try_acquire_None [OF refused(2)] show ?thesis
    by (auto simp: nc_inv_def leases_of_def)
next
  case (released lease rest)
  then have "leases_of s = (\<lambda>n. leases_of t n + (if n = nl_node_id lease then 1 else 0))"
    by (auto simp: leases_of_def fun_eq_iff)
  with assms(1) released show ?thesis by (auto simp: nc_inv_def) (metis add_leD1)
next
  case probe_permit
  with assms(1) show ?thesis by (auto simp: nc_inv_def leases_of_def)
next
  case (probe_acquired w n cap' lease)
  with assms(1) try_acquire_Some [OF probe_acquired(3)] show ?thesis
    by (auto simp: nc_inv_def leases_of_def)
next
  case (probe_abandoned w)
  with assms(1) show ?thesis by (auto simp: nc_inv_def leases_of_def)
next
  case (probe_released lease rest)
  then have "leases_of s = (\<lambda>n. leases_of t n + (if n = nl_node_id lease then 1 else 0))"
    by (auto simp: leases_of_def fun_eq_iff)
  with assms(1) probe_released show ?thesis by (auto simp: nc_inv_def) (metis add_leD1)
qed

interpretation capacity_run: invariant_system "nc_step limit" "nc_inv limit" for limit
  by unfold_locales (rule nc_inv_step)

lemma nc_reachable_inv: "(nc_step limit)\<^sup>*\<^sup>* capacity_system_init s \<Longrightarrow> nc_inv limit s"
  by (rule capacity_run.inv_run [OF _ nc_inv_init])

lemma try_acquire_free:
  "0 < nc_requests cap \<Longrightarrow> node_capacity_active cap n < k \<Longrightarrow>
     \<exists>cap' lease. try_acquire cap n k = (cap', Some lease)"
  by (simp add: try_acquire_def Let_def)

text \<open>The bytes of the reservations of stream \<open>i\<close>, and of all streams.\<close>

definition stream_bytes :: "memory_system \<Rightarrow> nat \<Rightarrow> nat" where
  "stream_bytes m i =
     (\<Sum>(j, b) \<in># ms_half m. if j = i then b else 0) + (\<Sum>(j, b, _) \<in># ms_leases m. if j = i then b else 0)"

definition leased_bytes :: "memory_system \<Rightarrow> nat" where
  "leased_bytes m = (\<Sum>(_, b, _) \<in># ms_leases m. b)"

definition ms_inv :: "memory_system \<Rightarrow> bool" where
  "ms_inv m \<longleftrightarrow>
     (\<forall>i. ms_local m i + stream_bytes m i = STREAM_MEMORY_BYTES) \<and>
     ms_global m + leased_bytes m = GLOBAL_STREAM_MEMORY_BYTES \<and>
     (\<forall>(_, _, k) \<in># ms_leases m. 0 < k)"

lemma ms_inv_init: "ms_inv memory_system_init"
  by (simp add: ms_inv_def memory_system_init_def stream_bytes_def leased_bytes_def)

lemma ms_step_conserves_local:
  "ms_step m m' \<Longrightarrow> ms_local m' i + stream_bytes m' i = ms_local m i + stream_bytes m i"
  by (cases rule: ms_step.cases) (auto simp: stream_bytes_def)

lemma ms_step_conserves_global:
  "ms_step m m' \<Longrightarrow> ms_global m' + leased_bytes m' = ms_global m + leased_bytes m"
  by (cases rule: ms_step.cases) (auto simp: leased_bytes_def)

lemma ms_inv_step:
  assumes "ms_inv m" and "ms_step m m'"
  shows "ms_inv m'"
proof -
  have "\<forall>(_, _, k) \<in># ms_leases m'. 0 < k"
    using assms(2,1) by cases (auto simp: ms_inv_def)
  then show ?thesis
    using assms ms_step_conserves_local ms_step_conserves_global by (simp add: ms_inv_def)
qed

interpretation memory_run: invariant_system ms_step ms_inv
  by unfold_locales (rule ms_inv_step)

lemma ms_reachable_inv: "ms_step\<^sup>*\<^sup>* memory_system_init m \<Longrightarrow> ms_inv m"
  by (rule memory_run.inv_run [OF _ ms_inv_init])

section \<open>Properties\<close>


definition witness_capacity_run :: capacity_system where
  "witness_capacity_run =
     capacity_system_init\<lparr>cs_cap := fst (try_acquire node_capacity_default 7 2),
       cs_leases := {#\<lparr>nl_node_id = 7\<rparr>#}\<rparr>"

lemma witness_capacity_run_step:
  "(nc_step (\<lambda>_. 2))\<^sup>*\<^sup>* capacity_system_init witness_capacity_run"
proof (rule r_into_rtranclp)
  have "try_acquire (cs_cap capacity_system_init) 7 ((\<lambda>_. 2) 7) =
      (fst (try_acquire node_capacity_default 7 2), Some \<lparr>nl_node_id = 7\<rparr>)"
    by (simp add: capacity_system_init_def try_acquire_def node_capacity_default_def
        node_capacity_active_def MAX_NETWORK_REQUESTS_def Let_def)
  from nc_step.acquired [OF this]
  show "nc_step (\<lambda>_. 2) capacity_system_init witness_capacity_run"
    by (simp add: witness_capacity_run_def capacity_system_init_def)
qed


text \<open>
  No slot leaks. When every lease is dropped and no probe is pending, the semaphores are back at
  their full size and a request to any node with a positive limit is admitted at once.
\<close>

lemma capacity_recovers:
  assumes "(nc_step limit)\<^sup>*\<^sup>* capacity_system_init s"
    and "cs_leases s = {#}" and "cs_probe_leases s = {#}" and "cs_probe_waiting s = 0"
    and "0 < limit n"
  shows "nc_requests (cs_cap s) = MAX_NETWORK_REQUESTS \<and> nc_probes (cs_cap s) = MAX_PROBES
     \<and> (\<exists>cap' lease. try_acquire (cs_cap s) n (limit n) = (cap', Some lease))"
proof -
  have "nc_inv limit s" using assms(1) by (rule nc_reachable_inv)
  with assms(2-5) have full: "nc_requests (cs_cap s) = MAX_NETWORK_REQUESTS"
    "nc_probes (cs_cap s) = MAX_PROBES" "node_capacity_active (cs_cap s) n < limit n"
    by (auto simp: nc_inv_def leases_of_def)
  then have "\<exists>cap' lease. try_acquire (cs_cap s) n (limit n) = (cap', Some lease)"
    by (intro try_acquire_free) (simp_all add: MAX_NETWORK_REQUESTS_def)
  with full show ?thesis by simp
qed



text \<open>
  The memory budget is conserved: in every reachable state the bytes reserved by one stream are at
  most 64 MiB and the bytes leased by all streams at most 256 MiB, and what is not reserved is available
  again, also after a cancellation between the two acquisitions and with any number of lease clones.
\<close>

lemma memory_never_exceeded:
  assumes "ms_step\<^sup>*\<^sup>* memory_system_init m"
  shows "stream_bytes m i \<le> STREAM_MEMORY_BYTES \<and> leased_bytes m \<le> GLOBAL_STREAM_MEMORY_BYTES
     \<and> ms_local m i = STREAM_MEMORY_BYTES - stream_bytes m i
     \<and> ms_global m = GLOBAL_STREAM_MEMORY_BYTES - leased_bytes m"
proof -
  have "ms_local m i + stream_bytes m i = STREAM_MEMORY_BYTES"
    "ms_global m + leased_bytes m = GLOBAL_STREAM_MEMORY_BYTES"
    using ms_reachable_inv [OF assms] by (simp_all add: ms_inv_def)
  then show ?thesis by linarith
qed

end
