(* ===== verification/Scheduler_Core.thy ===== *)
theory Scheduler_Core
  imports Scheduling Blob_Planner Resource_Budget
begin

text \<open>
  The pure part of \<^verbatim>\<open>src/src/scheduler.rs\<close>: the runtime limits, what a response says about a
  Blob, the split of a Blob into chunks and the digest check. A response is its status, its headers in
  order (names in lower case), the length that \<open>reqwest\<close> reports and the frames of its body, each of which
  is data or a transport error. SHA-256 and the parser of \<open>Content-Range\<close> are parameters.
\<close>

section \<open>Algorithm selection and runtime limits\<close>

definition algorithm_kind_parse :: "string \<Rightarrow> scheduler_algorithm_kind option" where
  "algorithm_kind_parse value =
     (if value = ''current-balanced'' \<or> value = ''current'' then Some Current
      else if value = ''projected-completion'' \<or> value = ''projected'' then Some ProjectedCompletion
      else None)"

fun algorithm_kind_as_str :: "scheduler_algorithm_kind \<Rightarrow> string" where
  "algorithm_kind_as_str Current = ''current-balanced''"
| "algorithm_kind_as_str ProjectedCompletion = ''projected-completion''"

record scheduler_runtime_config =
  sr_chunk_size :: nat
  sr_adaptive_chunking_enabled :: bool
  sr_automatic_concurrency_enabled :: bool
  sr_parallel_threshold :: nat
  sr_resumable_threshold :: nat
  sr_chunk_concurrency :: nat
  sr_scheduler_policy :: scheduler_policy

definition effective_concurrency :: "scheduler_runtime_config \<Rightarrow> nat \<Rightarrow> nat" where
  "effective_concurrency runtime node_capacity =
     (let node_capacity = max node_capacity 1 in
      if sr_automatic_concurrency_enabled runtime then min node_capacity 64
      else max (min (sr_chunk_concurrency runtime) node_capacity) 1)"

definition effective_chunk_size :: "scheduler_runtime_config \<Rightarrow> nat \<Rightarrow> nat \<Rightarrow> nat" where
  "effective_chunk_size runtime total_size node_capacity =
     (if \<not> sr_adaptive_chunking_enabled runtime then sr_chunk_size runtime
      else
        let parallelism = effective_concurrency runtime node_capacity;
            target_chunks = u64_saturating_mul parallelism 4;
            ideal = u64_saturating_add total_size (u64_saturating_sub target_chunks 1) div target_chunks
        in clamp (2 * MIB) (8 * MIB)
             (u64_saturating_mul (u64_saturating_add ideal (MIB - 1) div MIB) MIB))"

definition bounded_stream_concurrency :: "nat \<Rightarrow> nat \<Rightarrow> nat" where
  "bounded_stream_concurrency cs desired =
     (let memory_slots = max (STREAM_MEMORY_BYTES div max cs 1) 1 in max (min desired memory_slots) 1)"

record stream_download_config_t =
  st_chunk_size :: nat
  st_concurrency :: nat
  st_parallel_threshold :: nat

definition stream_download_config ::
  "scheduler_runtime_config \<Rightarrow> nat \<Rightarrow> nat \<Rightarrow> stream_download_config_t" where
  "stream_download_config runtime total_size node_capacity =
     (let cs = effective_chunk_size runtime total_size node_capacity in
      \<lparr>st_chunk_size = cs,
       st_concurrency = bounded_stream_concurrency cs (effective_concurrency runtime node_capacity),
       st_parallel_threshold = sr_parallel_threshold runtime\<rparr>)"

section \<open>Responses\<close>

type_synonym headers = "(string \<times> string) list"

record response =
  re_status :: nat
  re_headers :: headers
  re_content_length :: "nat option"
  re_body :: "(string + bytes) list"

text \<open>\<open>HeaderMap::get\<close> and \<open>get_all\<close>; \<open>HeaderValue::to_str\<close> accepts visible ASCII and tabs.\<close>

definition header_get_all :: "string \<Rightarrow> headers \<Rightarrow> string list" where
  "header_get_all name hs = map snd (filter (\<lambda>(n, _). n = name) hs)"

definition header_get :: "string \<Rightarrow> headers \<Rightarrow> string option" where
  "header_get name hs = map_of hs name"

definition to_str :: "string \<Rightarrow> string option" where
  "to_str v = (if list_all (\<lambda>c. 32 \<le> (of_char c :: nat) \<and> of_char c < (127 :: nat) \<or> of_char c = (9 :: nat)) v
               then Some v else None)"

definition header_str :: "string \<Rightarrow> headers \<Rightarrow> string option" where
  "header_str name hs = Option.bind (header_get name hs) to_str"

definition status_is_success :: "nat \<Rightarrow> bool" where
  "status_is_success s = (200 \<le> s \<and> s < 300)"

datatype content_range = CR_Bytes nat nat nat | CR_Other

record blob_capabilities =
  bc_size :: "nat option"
  bc_supports_range :: bool
  bc_media_type :: string

fun parse_digits :: "string \<Rightarrow> nat \<Rightarrow> nat option" where
  "parse_digits [] len = Some len"
| "parse_digits (c # cs) len =
     Option.bind (u64_checked_mul len 10) (\<lambda>l.
       Option.bind (u64_checked_add l (of_char c - 48)) (parse_digits cs))"

definition positive_content_length :: "headers \<Rightarrow> nat option" where
  "positive_content_length hs =
     (case header_get_all ''content-length'' hs of
        [value] \<Rightarrow>
          if value = [] \<or> \<not> list_all is_ascii_digit value then None
          else Option.bind (parse_digits value 0) (\<lambda>len. if 0 < len then Some len else None)
      | _ \<Rightarrow> None)"

definition identity_encoded :: "response \<Rightarrow> bool" where
  "identity_encoded r =
     (case header_str ''content-encoding'' (re_headers r) of
        None \<Rightarrow> True | Some v \<Rightarrow> eq_ignore_ascii_case v ''identity'')"

definition response_media_type :: "response \<Rightarrow> string" where
  "response_media_type r =
     (case header_str ''content-type'' (re_headers r) of None \<Rightarrow> ''application/octet-stream'' | Some v \<Rightarrow> v)"

definition capabilities_from_head :: "response \<Rightarrow> blob_capabilities option" where
  "capabilities_from_head r =
     map_option (\<lambda>sz. \<lparr>bc_size = Some sz,
         bc_supports_range = (identity_encoded r \<and>
           (case header_str ''accept-ranges'' (re_headers r) of
              None \<Rightarrow> False | Some v \<Rightarrow> eq_ignore_ascii_case v ''bytes'')),
         bc_media_type = response_media_type r\<rparr>)
       (positive_content_length (re_headers r))"

definition capabilities_from_probe ::
  "(string \<Rightarrow> content_range option) \<Rightarrow> response \<Rightarrow> blob_capabilities option" where
  "capabilities_from_probe parse_range r =
     (if re_status r = 206 then
        case Option.bind (header_str ''content-range'' (re_headers r)) parse_range of
          Some (CR_Bytes first_byte last_byte complete_length) \<Rightarrow>
            if first_byte \<noteq> 0 \<or> last_byte \<noteq> 0 then None
            else Some \<lparr>bc_size = Some complete_length, bc_supports_range = identity_encoded r,
                       bc_media_type = response_media_type r\<rparr>
        | _ \<Rightarrow> None
      else if status_is_success (re_status r) then
        Some \<lparr>bc_size = re_content_length r, bc_supports_range = False, bc_media_type = response_media_type r\<rparr>
      else None)"

definition content_range_matches ::
  "(string \<Rightarrow> content_range option) \<Rightarrow> headers \<Rightarrow> nat \<Rightarrow> nat \<Rightarrow> nat \<Rightarrow> bool" where
  "content_range_matches parse_range hs start stop tsize =
     (Option.bind (header_str ''content-range'' hs) parse_range = Some (CR_Bytes start stop tsize))"

section \<open>Chunks\<close>

record chunk =
  ch_index :: nat
  ch_start :: nat
  ch_end :: nat
  ch_total_size :: nat

text \<open>
  The \<open>while\<close> loop with its wrapping \<open>start + chunk_size - 1\<close>; not returning is \<open>None\<close>.
\<close>

partial_function (option) chunks_loop :: "nat \<Rightarrow> nat \<Rightarrow> nat \<Rightarrow> chunk list \<Rightarrow> chunk list option" where
  "chunks_loop tsize cs start result =
     (if start < tsize then
        chunks_loop tsize cs
          (u64_wrapping_add (min (u64_wrapping_sub (u64_wrapping_add start cs) 1) (tsize - 1)) 1)
          (result @ [\<lparr>ch_index = length result, ch_start = start,
                      ch_end = min (u64_wrapping_sub (u64_wrapping_add start cs) 1) (tsize - 1),
                      ch_total_size = tsize\<rparr>])
      else Some result)"

definition chunks :: "nat \<Rightarrow> nat \<Rightarrow> chunk list option" where
  "chunks tsize cs = chunks_loop tsize cs 0 []"

section \<open>Digests and sequence numbers\<close>

definition verify_content :: "(bytes \<Rightarrow> string) \<Rightarrow> bytes option \<Rightarrow> string \<Rightarrow> unit api_result" where
  "verify_content sha256_hex file expected_digest =
     (case strip_prefix ''sha256:'' expected_digest of
        None \<Rightarrow> Inl (BadRequest ''unsupported or invalid Blob digest'')
      | Some expected \<Rightarrow>
          if length expected = 64 \<and> list_all is_ascii_hexdigit expected then
            (case file of
               None \<Rightarrow> Inl (Io ''NotFound'')
             | Some content \<Rightarrow> if sha256_hex content = expected then Inr () else Inl Integrity)
          else Inl (BadRequest ''unsupported or invalid Blob digest''))"

definition u64_be_bytes :: "nat \<Rightarrow> bytes" where
  "u64_be_bytes n = map (\<lambda>i. n div 256 ^ (7 - i) mod 256) [0..<8]"

definition u64_from_be_bytes :: "bytes \<Rightarrow> nat" where
  "u64_from_be_bytes bs = foldl (\<lambda>n b. n * 256 + b) 0 bs"

definition sequence_for :: "(bytes \<Rightarrow> bytes) \<Rightarrow> string \<Rightarrow> nat \<Rightarrow> nat" where
  "sequence_for sha256 path part =
     (let input = map of_char path @ (if part \<noteq> 0 then [0] @ u64_be_bytes part else [])
      in u64_from_be_bytes (take 8 (sha256 input)))"

section \<open>Lemmas\<close>

lemma effective_concurrency_pos: "1 \<le> effective_concurrency runtime n"
  by (simp add: effective_concurrency_def Let_def)

lemma effective_concurrency_le: "effective_concurrency runtime n \<le> max n 1"
  by (simp add: effective_concurrency_def Let_def)

text \<open>The chunks of the specification: chunk \<open>i\<close> starts at \<open>i * cs\<close>.\<close>

definition spec_chunk :: "nat \<Rightarrow> nat \<Rightarrow> nat \<Rightarrow> chunk" where
  "spec_chunk tsize cs i =
     \<lparr>ch_index = i, ch_start = i * cs, ch_end = min ((i + 1) * cs) tsize - 1, ch_total_size = tsize\<rparr>"

lemma spec_chunk_simps [simp]:
  "ch_index (spec_chunk tsize cs i) = i" "ch_start (spec_chunk tsize cs i) = i * cs"
  "ch_end (spec_chunk tsize cs i) = min ((i + 1) * cs) tsize - 1"
  "ch_total_size (spec_chunk tsize cs i) = tsize"
  by (simp_all add: spec_chunk_def)

lemma chunk_index_less: "0 < cs \<Longrightarrow> k * cs < tsize \<longleftrightarrow> k < div_ceil tsize cs"
proof
  assume cs: "0 < cs" and k: "k * cs < tsize"
  have "tsize \<le> div_ceil tsize cs * cs" using cs by (rule div_ceil_upper)
  with k have "k * cs < div_ceil tsize cs * cs" by (rule less_le_trans)
  then show "k < div_ceil tsize cs" by simp
next
  assume cs: "0 < cs" and k: "k < div_ceil tsize cs"
  then have "0 < tsize" by (auto simp: div_ceil_def intro!: gr0I)
  with cs have "(div_ceil tsize cs - 1) * cs < tsize" by (intro div_ceil_lower)
  moreover have "k * cs \<le> (div_ceil tsize cs - 1) * cs" using k by (intro mult_le_mono1) simp
  ultimately show "k * cs < tsize" by linarith
qed

lemma chunk_end_exact:
  assumes "0 < cs" and "tsize + cs \<le> u64_max + 1" and "start < tsize"
  shows "min (u64_wrapping_sub (u64_wrapping_add start cs) 1) (tsize - 1) = min (start + cs) tsize - 1"
proof -
  have "u64_wrapping_add start cs = start + cs"
    using assms by (simp add: u64_wrapping_add_def)
  moreover have "u64_wrapping_sub (start + cs) 1 = start + cs - 1"
  proof -
    have "start + cs + (u64_max + 1) - 1 = (start + cs - 1) + (u64_max + 1)" using assms(1) by simp
    moreover have "start + cs - 1 < u64_max + 1" using assms by linarith
    ultimately show ?thesis by (simp only: u64_wrapping_sub_def mod_add_self2 mod_less)
  qed
  ultimately show ?thesis using assms by simp
qed

lemma chunks_loop_spec:
  assumes "0 < cs" and "tsize + cs \<le> u64_max + 1"
    and "k \<le> div_ceil tsize cs" and "length result = k"
  shows "chunks_loop tsize cs (min (k * cs) tsize) result
     = Some (result @ map (spec_chunk tsize cs) [k..<div_ceil tsize cs])"
  using assms(3,4)
proof (induction "div_ceil tsize cs - k" arbitrary: k result)
  case 0
  then have "k = div_ceil tsize cs" by simp
  then have "tsize \<le> k * cs" using div_ceil_upper [OF assms(1)] by simp
  then show ?case using \<open>k = div_ceil tsize cs\<close> by (subst chunks_loop.simps) simp
next
  case (Suc d)
  then have k: "k < div_ceil tsize cs" by simp
  then have lt: "k * cs < tsize" using chunk_index_less [OF assms(1)] by simp
  let ?e = "min (k * cs + cs) tsize - 1"
  have e: "min (u64_wrapping_sub (u64_wrapping_add (k * cs) cs) 1) (tsize - 1) = ?e"
    by (rule chunk_end_exact [OF assms(1,2) lt])
  have next': "u64_wrapping_add ?e 1 = min ((k + 1) * cs) tsize"
    using lt assms(1,2) by (simp add: u64_wrapping_add_def add.commute)
  have c: "\<lparr>ch_index = length result, ch_start = k * cs, ch_end = ?e, ch_total_size = tsize\<rparr>
      = spec_chunk tsize cs k"
    using Suc.prems by (simp add: spec_chunk_def add.commute)
  have "chunks_loop tsize cs (min (k * cs) tsize) result
      = chunks_loop tsize cs (min ((k + 1) * cs) tsize) (result @ [spec_chunk tsize cs k])"
    using lt by (subst chunks_loop.simps) (simp only: min_absorb1 [OF less_imp_le] e next' c if_True)
  also have "\<dots> = Some ((result @ [spec_chunk tsize cs k]) @ map (spec_chunk tsize cs) [k + 1..<div_ceil tsize cs])"
    using Suc k by (intro Suc.hyps(1)) auto
  also have "\<dots> = Some (result @ map (spec_chunk tsize cs) [k..<div_ceil tsize cs])"
    using k by (simp add: upt_conv_Cons)
  finally show ?case .
qed

lemma chunks_spec:
  "0 < cs \<Longrightarrow> tsize + cs \<le> u64_max + 1 \<Longrightarrow>
     chunks tsize cs = Some (map (spec_chunk tsize cs) [0..<div_ceil tsize cs])"
  using chunks_loop_spec [of cs tsize 0 "[]"] by (simp add: chunks_def)

lemma chunk_nonempty:
  "0 < cs \<Longrightarrow> k < div_ceil tsize cs \<Longrightarrow> k * cs \<le> min ((k + 1) * cs) tsize - 1 \<and> min ((k + 1) * cs) tsize - 1 < tsize"
  using chunk_index_less [of cs k tsize] by auto

lemma spec_chunks_ranges:
  assumes "0 < cs" and "k \<le> div_ceil tsize cs"
  shows "concat (map (\<lambda>i. [i * cs..<Suc (min ((i + 1) * cs) tsize - 1)]) [0..<k]) = [0..<min (k * cs) tsize]"
  using assms(2)
proof (induction k)
  case (Suc k)
  then have "k < div_ceil tsize cs" by simp
  then have lt: "k * cs < tsize" and ne: "k * cs \<le> min ((k + 1) * cs) tsize - 1"
    using chunk_index_less chunk_nonempty assms(1) by blast+
  have eq: "Suc (min ((k + 1) * cs) tsize - 1) = min (Suc k * cs) tsize" using lt assms(1) by auto
  have "[0..<min (Suc k * cs) tsize] = [0..<k * cs] @ [k * cs..<min (Suc k * cs) tsize]"
    using lt assms(1) upt_add_eq_append [of 0 "k * cs" "min (Suc k * cs) tsize - k * cs"]
    by (simp del: mult_Suc)
  moreover have "[0..<Suc k] = [0..<k] @ [k]" by simp
  ultimately show ?case using Suc eq lt by (simp del: mult_Suc upt_Suc)
qed simp

section \<open>Properties\<close>

text \<open>
  C23: Splitting a Blob into chunks ends and partitions it: for a positive chunk size, when the Blob and one
  chunk together fit into 64 bits, the loop returns chunks that are numbered in order, non-empty, at most
  the chunk size, and whose byte ranges concatenate to exactly the bytes 0 to the end, without gap or
  overlap; their number is the one the planner announced.
\<close>

theorem chunks_partition_blob:
  assumes "0 < cs" and "tsize + cs \<le> u64_max + 1"
  shows "\<exists>xs. chunks tsize cs = Some xs \<and> length xs = div_ceil tsize cs
     \<and> (\<forall>i < length xs. ch_index (xs ! i) = i \<and> ch_start (xs ! i) \<le> ch_end (xs ! i)
           \<and> ch_end (xs ! i) - ch_start (xs ! i) < cs \<and> ch_end (xs ! i) < tsize)
     \<and> concat (map (\<lambda>c. [ch_start c..<Suc (ch_end c)]) xs) = [0..<tsize]"
proof -
  let ?n = "div_ceil tsize cs"
  let ?xs = "map (spec_chunk tsize cs) [0..<?n]"
  have "min (?n * cs) tsize = tsize" using div_ceil_upper [OF assms(1)] by simp
  then have "concat (map (\<lambda>c. [ch_start c..<Suc (ch_end c)]) ?xs) = [0..<tsize]"
    using spec_chunks_ranges [OF assms(1), of ?n tsize] by (simp add: comp_def del: upt_Suc)
  moreover have "\<forall>i < length ?xs. ch_index (?xs ! i) = i \<and> ch_start (?xs ! i) \<le> ch_end (?xs ! i)
      \<and> ch_end (?xs ! i) - ch_start (?xs ! i) < cs \<and> ch_end (?xs ! i) < tsize"
    using chunk_nonempty [OF assms(1)] assms(1) by auto
  ultimately show ?thesis using chunks_spec [OF assms] by (intro exI [of _ ?xs]) simp
qed

theorem chunks_partition_blob_witness:
  "\<exists>xs. chunks 10 4 = Some xs \<and> length xs = 3
     \<and> concat (map (\<lambda>c. [ch_start c..<Suc (ch_end c)]) xs) = [0..<10]"
  using chunks_partition_blob [of 4 10] by (auto simp: u64_max_def div_ceil_def)

text \<open>
  The stream settings respect the memory budget: with adaptive chunking the chunk size is between 2 and
  8 MiB whatever the Blob and the nodes, the concurrency is at least one, and the chunks in flight together
  fit into the 64 MiB of one stream as soon as one chunk does.
\<close>

lemma stream_config_fits_budget:
  assumes "c = stream_download_config runtime total_size node_capacity"
  shows "(sr_adaptive_chunking_enabled runtime \<longrightarrow> 2 * MIB \<le> st_chunk_size c \<and> st_chunk_size c \<le> 8 * MIB)
     \<and> 1 \<le> st_concurrency c
     \<and> (st_chunk_size c \<le> STREAM_MEMORY_BYTES \<longrightarrow> st_concurrency c * st_chunk_size c \<le> STREAM_MEMORY_BYTES)"
proof -
  let ?cs = "effective_chunk_size runtime total_size node_capacity"
  have fields: "st_chunk_size c = ?cs"
    "st_concurrency c = bounded_stream_concurrency ?cs (effective_concurrency runtime node_capacity)"
    using assms by (simp_all add: stream_download_config_def Let_def)
  have "sr_adaptive_chunking_enabled runtime \<longrightarrow> 2 * MIB \<le> ?cs \<and> ?cs \<le> 8 * MIB"
    by (auto simp: effective_chunk_size_def Let_def intro!: clamp_bounds [THEN conjunct1] clamp_bounds [THEN conjunct2])
  moreover have "bounded_stream_concurrency ?cs d * ?cs \<le> STREAM_MEMORY_BYTES" if "?cs \<le> STREAM_MEMORY_BYTES" for d
  proof (cases "?cs = 0")
    case False
    then have "1 \<le> STREAM_MEMORY_BYTES div ?cs" using that by (simp add: div_greater_zero_iff Suc_le_eq)
    then have "bounded_stream_concurrency ?cs d \<le> STREAM_MEMORY_BYTES div ?cs"
      using False max_absorb1 [of 1 ?cs] by (simp add: bounded_stream_concurrency_def Let_def)
    then have "bounded_stream_concurrency ?cs d * ?cs \<le> STREAM_MEMORY_BYTES div ?cs * ?cs"
      by (rule mult_le_mono1)
    then show ?thesis using div_times_less_eq_dividend order_trans by blast
  qed simp
  ultimately show ?thesis
    unfolding fields by (simp add: bounded_stream_concurrency_def Let_def)
qed

end
