(* ===== verification/Node_Selection.thy ===== *)
theory Node_Selection
  imports Scheduling Resource_Budget
begin

text \<open>
  \<^verbatim>\<open>src/src/node_selection.rs\<close>: the speed windows, the cooldowns and the candidates handed to the
  ordering algorithm. Instants and durations are nanoseconds. An operation takes the reading of the
  monotonic clock as an argument. The exponential backoff of the \<open>backoff\<close> crate is a parameter: its
  initial state and \<open>next_backoff\<close>, which returns the next delay and the next state. The candidates go
  through the contract \<open>scheduler_algorithm\<close>, so the lemmas hold for both algorithms.
\<close>

section \<open>Data\<close>

definition SPEED_WINDOW :: duration where
  "SPEED_WINDOW = 60 * SECOND"

definition MAX_SPEED_SAMPLES :: nat where
  "MAX_SPEED_SAMPLES = 8"

record speed_sample =
  sa_at :: instant
  sa_bps :: f64

record 'b failure_state =
  fs_backoff :: 'b
  fs_cooldown_until :: instant

record 'b node_selector =
  se_speeds :: "uuid \<rightharpoonup> speed_sample list"
  se_capacity :: node_capacity
  se_failures :: "uuid \<rightharpoonup> 'b failure_state"
  se_recovered :: "uuid \<rightharpoonup> instant"
  se_algorithm :: scheduler_algorithm_kind

definition with_capacity :: "scheduler_algorithm_kind \<Rightarrow> node_capacity \<Rightarrow> 'b node_selector" where
  "with_capacity algorithm capacity =
     \<lparr>se_speeds = Map.empty, se_capacity = capacity, se_failures = Map.empty, se_recovered = Map.empty,
      se_algorithm = algorithm\<rparr>"

definition set_algorithm :: "'b node_selector \<Rightarrow> scheduler_algorithm_kind \<Rightarrow> 'b node_selector" where
  "set_algorithm sel algorithm = sel\<lparr>se_algorithm := algorithm\<rparr>"

section \<open>Speed windows\<close>

text \<open>\<open>duration_since\<close> is zero for an instant in the future.\<close>

definition window_prune :: "instant \<Rightarrow> speed_sample list \<Rightarrow> speed_sample list" where
  "window_prune now samples = dropWhile (\<lambda>s. SPEED_WINDOW < now - sa_at s) samples"

definition window_record :: "instant \<Rightarrow> f64 \<Rightarrow> speed_sample list \<Rightarrow> speed_sample list" where
  "window_record now bps samples =
     (let pruned = window_prune now (samples @ [\<lparr>sa_at = now, sa_bps = bps\<rparr>])
      in drop (length pruned - MAX_SPEED_SAMPLES) pruned)"

text \<open>The values that \<open>estimate\<close> averages: all but a clearly separated highest one.\<close>

definition trimmed_values :: "f64 list \<Rightarrow> f64 list" where
  "trimmed_values samples =
     (let values = sort samples in
      if 5 \<le> length values then
        let median = values ! (length values div 2);
            highest = last values
        in if f64_lt (f64_const 0) median \<and> f64_lt (f64_mul median (f64_const 4)) highest
           then butlast values else values
      else values)"

definition window_estimate :: "instant \<Rightarrow> speed_sample list \<Rightarrow> speed_sample list \<times> f64 option" where
  "window_estimate now samples =
     (let pruned = window_prune now samples in
      (pruned,
       if pruned = [] then None
       else let values = trimmed_values (map sa_bps pruned)
            in Some (f64_div (f64_sum values) (f64_of_nat (length values)))))"

section \<open>Observations and cooldowns\<close>

definition as_secs_f64 :: "duration \<Rightarrow> f64" where
  "as_secs_f64 d =
     f64_add (f64_of_nat (d div SECOND)) (f64_div (f64_of_nat (d mod SECOND)) (f64_of_nat SECOND))"

definition record_speed :: "uuid \<Rightarrow> instant \<Rightarrow> f64 \<Rightarrow> 'b node_selector \<Rightarrow> 'b node_selector" where
  "record_speed node_id now bps sel =
     sel\<lparr>se_speeds := (se_speeds sel)(node_id \<mapsto>
        window_record now bps (case se_speeds sel node_id of None \<Rightarrow> [] | Some w \<Rightarrow> w))\<rparr>"

text \<open>The first step of a success: a node that had failed is forgiven and marked as recovered.\<close>

definition forgive :: "uuid \<Rightarrow> instant \<Rightarrow> 'b node_selector \<Rightarrow> 'b node_selector" where
  "forgive node_id now sel =
     (if se_failures sel node_id \<noteq> None
      then sel\<lparr>se_failures := (se_failures sel)(node_id := None),
               se_recovered := (se_recovered sel)(node_id \<mapsto> now + 30 * SECOND)\<rparr>
      else sel)"

definition observe ::
  "'b \<Rightarrow> ('b \<Rightarrow> duration option \<times> 'b) \<Rightarrow> instant \<Rightarrow> uuid \<Rightarrow> nat \<Rightarrow> duration \<Rightarrow> bool
     \<Rightarrow> 'b node_selector \<Rightarrow> 'b node_selector" where
  "observe new_backoff next_backoff now node_id bytes elapsed success sel =
     (if success then
        let sel1 = forgive node_id now sel
        in if 0 < bytes \<and> f64_lt (f64_const 0) (as_secs_f64 elapsed)
           then record_speed node_id now (f64_div (f64_of_nat bytes) (as_secs_f64 elapsed)) sel1
           else sel1
      else
        let sel1 = record_speed node_id now (f64_const 0)
                     (sel\<lparr>se_recovered := (se_recovered sel)(node_id := None)\<rparr>);
            backoff = (case se_failures sel1 node_id of None \<Rightarrow> new_backoff | Some f \<Rightarrow> fs_backoff f);
            (next, backoff') = next_backoff backoff;
            delay = (case next of None \<Rightarrow> 10 * SECOND | Some d \<Rightarrow> d)
        in sel1\<lparr>se_failures := (se_failures sel1)(node_id \<mapsto>
                  \<lparr>fs_backoff = backoff', fs_cooldown_until = now + delay\<rparr>)\<rparr>)"

definition is_cooling :: "'b node_selector \<Rightarrow> instant \<Rightarrow> uuid \<Rightarrow> bool" where
  "is_cooling sel now node_id =
     (case se_failures sel node_id of None \<Rightarrow> False | Some f \<Rightarrow> now < fs_cooldown_until f)"

definition cooling_count :: "'b node_selector \<Rightarrow> instant \<Rightarrow> nat" where
  "cooling_count sel now = card {n \<in> dom (se_failures sel). is_cooling sel now n}"

section \<open>Candidates\<close>

definition measured_speed :: "instant \<Rightarrow> node_view \<Rightarrow> 'b node_selector \<Rightarrow> 'b node_selector \<times> f64" where
  "measured_speed now node sel =
     (let stored = f64_of_nat (nat (max (nm_speed_bps (nv_metric node)) 0)) in
      case se_speeds sel (nd_id (nv_node node)) of
        None \<Rightarrow> (sel, stored)
      | Some window \<Rightarrow>
          let (window', value) = window_estimate now window
          in (sel\<lparr>se_speeds := (se_speeds sel)(nd_id (nv_node node) \<mapsto> window')\<rparr>,
              case value of None \<Rightarrow> stored | Some v \<Rightarrow> v))"

definition schedule_candidate_of ::
  "instant \<Rightarrow> node_view \<Rightarrow> 'b node_selector \<Rightarrow> 'b node_selector \<times> schedule_candidate" where
  "schedule_candidate_of now node sel =
     (let (sel', speed) = measured_speed now node sel; node_id = nd_id (nv_node node) in
      (sel', \<lparr>sd_node = node, sd_capacity_bps = speed,
              sd_latency_ms = nat (max (nm_latency_ms (nv_metric node)) 0),
              sd_success_rate = nm_success_rate (nv_metric node),
              sd_active = node_capacity_active (se_capacity sel') node_id,
              sd_max_concurrency = nv_max_concurrency node,
              sd_measured = (se_speeds sel' node_id \<noteq> None \<or> 0 < nm_speed_bps (nv_metric node)),
              sd_recently_recovered = (case se_recovered sel' node_id of None \<Rightarrow> False | Some until \<Rightarrow> now < until)\<rparr>))"

fun schedule_candidates ::
  "instant \<Rightarrow> node_view list \<Rightarrow> 'b node_selector \<Rightarrow> 'b node_selector \<times> schedule_candidate list" where
  "schedule_candidates now [] sel = (sel, [])"
| "schedule_candidates now (node # nodes) sel =
     (let (sel1, c) = schedule_candidate_of now node sel;
          (sel2, cs) = schedule_candidates now nodes sel1
      in (sel2, c # cs))"

definition candidate_nodes :: "'b node_selector \<Rightarrow> instant \<Rightarrow> node_view list \<Rightarrow> node_view list" where
  "candidate_nodes sel now nodes =
     (let candidates = filter (\<lambda>n. nd_enabled (nv_node n) \<and> rs_enabled (nv_route n)) nodes;
          ready = filter (\<lambda>n. \<not> is_cooling sel now (nd_id (nv_node n))) candidates
      in if ready \<noteq> [] then ready else candidates)"

definition order_with_context ::
  "(f64 \<Rightarrow> f64) \<Rightarrow> instant \<Rightarrow> node_view list \<Rightarrow> schedule_context \<Rightarrow> scheduler_policy \<Rightarrow> 'b node_selector
     \<Rightarrow> 'b node_selector \<times> node_view list" where
  "order_with_context ln64 now nodes context policy sel =
     (let (sel', candidates) = schedule_candidates now (candidate_nodes sel now nodes) sel
      in (sel', algorithm_order ln64 (se_algorithm sel') candidates context policy))"

definition selector_try_acquire :: "uuid \<Rightarrow> nat \<Rightarrow> 'b node_selector \<Rightarrow> 'b node_selector \<times> node_lease option" where
  "selector_try_acquire node_id max_concurrency sel =
     (let (cap, lease) = try_acquire (se_capacity sel) node_id max_concurrency
      in (sel\<lparr>se_capacity := cap\<rparr>, lease))"

section \<open>Lemmas\<close>

text \<open>A window is well formed: at most eight samples, in the order of their instants, none after \<open>now\<close>.\<close>

definition window_ok :: "instant \<Rightarrow> speed_sample list \<Rightarrow> bool" where
  "window_ok now w \<longleftrightarrow> length w \<le> MAX_SPEED_SAMPLES \<and> sorted (map sa_at w) \<and> (\<forall>s \<in> set w. sa_at s \<le> now)"

definition selector_ok :: "instant \<Rightarrow> 'b node_selector \<Rightarrow> bool" where
  "selector_ok now sel \<longleftrightarrow> (\<forall>n w. se_speeds sel n = Some w \<longrightarrow> window_ok now w)"

lemma dropWhile_sorted:
  "sorted (map f xs) \<Longrightarrow> (\<And>x y. P y \<Longrightarrow> f x \<le> f y \<Longrightarrow> P x) \<Longrightarrow> dropWhile P xs = filter (\<lambda>x. \<not> P x) xs"
proof (induction xs)
  case (Cons x xs)
  show ?case
  proof (cases "P x")
    case False
    with Cons.prems have "\<forall>y \<in> set xs. \<not> P y" by auto
    with False show ?thesis by simp
  qed (use Cons in auto)
qed simp

lemma window_prune_filter:
  "window_ok now w \<Longrightarrow> window_prune now w = filter (\<lambda>s. now - sa_at s \<le> SPEED_WINDOW) w"
  unfolding window_prune_def window_ok_def
  by (subst dropWhile_sorted [where f = sa_at]) (auto simp: not_less)

lemma sorted_dropWhile_map: "sorted (map f xs) \<Longrightarrow> sorted (map f (dropWhile P xs))"
  by (metis dropWhile_eq_drop drop_map sorted_wrt_drop)

lemma window_ok_Nil [simp]: "window_ok now []"
  by (simp add: window_ok_def)

lemma window_ok_prune: "window_ok now w \<Longrightarrow> window_ok now (window_prune now w)"
  unfolding window_ok_def window_prune_def
  by (meson length_dropWhile_le order_trans set_dropWhileD sorted_dropWhile_map)

lemma window_ok_record:
  assumes "window_ok now w" and "now \<le> now'"
  shows "window_ok now' (window_record now' bps w)"
proof -
  let ?w = "w @ [\<lparr>sa_at = now', sa_bps = bps\<rparr>]"
  have s: "sorted (map sa_at ?w)" "\<forall>s \<in> set ?w. sa_at s \<le> now'"
    using assms by (auto simp: window_ok_def sorted_append)
  let ?p = "window_prune now' ?w"
  have p: "sorted (map sa_at ?p)" "\<forall>s \<in> set ?p. sa_at s \<le> now'"
    using s set_dropWhileD unfolding window_prune_def by (fast intro: sorted_dropWhile_map)+
  have "sorted (map sa_at (drop k ?p))" for k
    using p(1) by (metis drop_map sorted_wrt_drop)
  then show ?thesis
    using p(2) by (auto simp: window_ok_def window_record_def Let_def dest: in_set_dropD)
qed

lemma window_ok_later: "window_ok now w \<Longrightarrow> now \<le> now' \<Longrightarrow> window_ok now' w"
  by (auto simp: window_ok_def)

lemma record_speed_fields [simp]:
  "se_failures (record_speed n now bps sel) = se_failures sel"
  "se_recovered (record_speed n now bps sel) = se_recovered sel"
  "se_capacity (record_speed n now bps sel) = se_capacity sel"
  "se_algorithm (record_speed n now bps sel) = se_algorithm sel"
  by (simp_all add: record_speed_def)

lemma selector_ok_record:
  "selector_ok now sel \<Longrightarrow> now \<le> now' \<Longrightarrow> selector_ok now' (record_speed n now' bps sel)"
  unfolding selector_ok_def record_speed_def
  by (auto split: option.splits if_splits
      intro: window_ok_record window_ok_later window_ok_record [of 0 "[]"] simp: window_ok_def [of 0])

lemma selector_ok_speeds:
  "selector_ok now sel \<Longrightarrow> now \<le> now' \<Longrightarrow> se_speeds sel' = se_speeds sel \<Longrightarrow> selector_ok now' sel'"
  by (auto simp: selector_ok_def intro: window_ok_later)

lemma observe_ok:
  assumes "selector_ok now sel" and "now \<le> now'"
  shows "selector_ok now' (observe nb nx now' node_id bytes elapsed success sel)"
proof (cases success)
  case True
  have "selector_ok now' (forgive node_id now' sel)" "selector_ok now (forgive node_id now' sel)"
    by (rule selector_ok_speeds [OF assms(1)]; use assms in \<open>simp add: forgive_def\<close>)+
  with True assms selector_ok_record [of now "forgive node_id now' sel" now'] show ?thesis
    by (simp add: observe_def Let_def)
next
  case False
  let ?s = "record_speed node_id now' (f64_const 0) (sel\<lparr>se_recovered := (se_recovered sel)(node_id := None)\<rparr>)"
  have "selector_ok now (sel\<lparr>se_recovered := (se_recovered sel)(node_id := None)\<rparr>)"
    by (rule selector_ok_speeds [OF assms(1)]) simp_all
  then have "selector_ok now' ?s" using assms(2) by (rule selector_ok_record)
  with False show ?thesis
    by (auto simp: observe_def Let_def split: prod.splits elim!: selector_ok_speeds)
qed

lemma measured_speed_fields:
  assumes "measured_speed now node sel = (sel', v)"
  shows "se_capacity sel' = se_capacity sel" "se_failures sel' = se_failures sel"
    "se_recovered sel' = se_recovered sel" "se_algorithm sel' = se_algorithm sel"
  using assms by (auto simp: measured_speed_def Let_def split: option.splits prod.splits)

lemma measured_speed_ok:
  "selector_ok now sel \<Longrightarrow> measured_speed now node sel = (sel', v) \<Longrightarrow> selector_ok now sel'"
proof -
  assume ok: "selector_ok now sel" and m: "measured_speed now node sel = (sel', v)"
  have "fst (window_estimate now w) = window_prune now w" for w
    by (simp add: window_estimate_def Let_def)
  with m have "sel' = sel \<or> (\<exists>w. se_speeds sel (nd_id (nv_node node)) = Some w
      \<and> se_speeds sel' = (se_speeds sel)(nd_id (nv_node node) \<mapsto> window_prune now w))"
    by (auto simp: measured_speed_def Let_def split: option.splits prod.splits) (metis fst_conv)+
  with ok show ?thesis by (auto simp: selector_ok_def window_ok_prune split: if_splits)
qed

lemma schedule_candidates_spec:
  assumes "schedule_candidates now nodes sel = (sel', cs)"
  shows "map sd_node cs = nodes \<and> se_algorithm sel' = se_algorithm sel \<and> se_failures sel' = se_failures sel
    \<and> (selector_ok now sel \<longrightarrow> selector_ok now sel')"
  using assms
proof (induction nodes arbitrary: sel cs)
  case (Cons node nodes)
  obtain sel1 v where m: "measured_speed now node sel = (sel1, v)" by fastforce
  obtain cs1 where "schedule_candidates now nodes sel1 = (sel', cs1)"
    and "map sd_node cs = node # map sd_node cs1"
    using Cons.prems m by (auto simp: schedule_candidate_of_def Let_def split: prod.splits)
  with Cons.IH measured_speed_fields [OF m] measured_speed_ok [OF _ m] show ?case by auto
qed auto

lemma order_with_context_spec:
  assumes "order_with_context ln64 now nodes ctx policy sel = (sel', ns)"
  shows "mset ns = mset (candidate_nodes sel now nodes) \<and> se_failures sel' = se_failures sel
    \<and> (selector_ok now sel \<longrightarrow> selector_ok now sel')"
proof -
  obtain cs where c: "schedule_candidates now (candidate_nodes sel now nodes) sel = (sel', cs)"
    and ns: "ns = algorithm_order ln64 (se_algorithm sel') cs ctx policy"
    using assms by (auto simp: order_with_context_def Let_def split: prod.splits)
  have "mset ns = mset (map sd_node cs)" unfolding ns by (simp add: selected.order_perm)
  with schedule_candidates_spec [OF c] show ?thesis by simp
qed

section \<open>Properties\<close>

text \<open>
  C25: The failover sequence of a request: whichever algorithm is configured, it holds each enabled node
  of an enabled route that is not cooling exactly once, and cooling nodes only when every enabled node is
  cooling; so it is empty only when no node is enabled, and a disabled node is never contacted.
\<close>

theorem failover_sequence:
  assumes "order_with_context ln64 now nodes ctx policy sel = (sel', ns)"
  defines "enabled \<equiv> filter (\<lambda>n. nd_enabled (nv_node n) \<and> rs_enabled (nv_route n)) nodes"
  shows "mset ns = mset (if \<exists>n \<in> set enabled. \<not> is_cooling sel now (nd_id (nv_node n))
                          then filter (\<lambda>n. \<not> is_cooling sel now (nd_id (nv_node n))) enabled
                          else enabled)
     \<and> (ns = [] \<longleftrightarrow> enabled = [])"
proof -
  let ?ready = "filter (\<lambda>n. \<not> is_cooling sel now (nd_id (nv_node n))) enabled"
  have "candidate_nodes sel now nodes = (if ?ready \<noteq> [] then ?ready else enabled)"
    unfolding candidate_nodes_def Let_def enabled_def by simp
  moreover have "(?ready \<noteq> []) = (\<exists>n \<in> set enabled. \<not> is_cooling sel now (nd_id (nv_node n)))"
    by (simp add: filter_empty_conv)
  moreover have m: "mset ns = mset (candidate_nodes sel now nodes)"
    using order_with_context_spec [OF assms(1)] by blast
  moreover have "ns = [] \<longleftrightarrow> candidate_nodes sel now nodes = []"
    using m by (cases ns; cases "candidate_nodes sel now nodes") simp_all
  ultimately show ?thesis by auto
qed

definition example_selector :: "nat node_selector" where
  "example_selector = (with_capacity ProjectedCompletion node_capacity_default)\<lparr>se_failures :=
     [1 \<mapsto> \<lparr>fs_backoff = 0, fs_cooldown_until = 500\<rparr>]\<rparr>"

theorem failover_sequence_witness:
  "mset (snd (order_with_context id 100 [example_node_view 1 ''a'', example_node_view 2 ''b'']
      \<lparr>sx_sequence = 1, sx_blob_size = 0, sx_range_required = False, sx_chunk = None\<rparr> Balanced example_selector))
   = {#example_node_view 2 ''b''#}"
  using failover_sequence [of id 100 "[example_node_view 1 ''a'', example_node_view 2 ''b'']"
      "\<lparr>sx_sequence = 1, sx_blob_size = 0, sx_range_required = False, sx_chunk = None\<rparr>" Balanced example_selector,
      OF surjective_pairing]
  by (simp add: example_node_view_def is_cooling_def example_selector_def)

text \<open>
  Every operation keeps the speed windows well formed as the clock advances: at most eight samples per
  node, in chronological order, none from the future; and a speed estimate reads exactly the samples of
  the last sixty seconds, so it exists precisely when there is one.
\<close>

lemma speed_windows_well_formed:
  assumes "selector_ok now sel" and "now \<le> now'"
  shows "selector_ok now' (observe nb nx now' node_id bytes elapsed success sel)
     \<and> selector_ok now' (fst (order_with_context ln64 now' nodes ctx policy sel))
     \<and> (se_speeds sel n = Some w \<longrightarrow>
          fst (window_estimate now w) = filter (\<lambda>s. now - sa_at s \<le> SPEED_WINDOW) w
          \<and> (snd (window_estimate now w) = None \<longleftrightarrow> (\<forall>s \<in> set w. SPEED_WINDOW < now - sa_at s)))"
proof (intro conjI impI)
  show "selector_ok now' (observe nb nx now' node_id bytes elapsed success sel)"
    by (rule observe_ok [OF assms])
  have "selector_ok now' sel" using assms by (rule selector_ok_speeds) simp
  then show "selector_ok now' (fst (order_with_context ln64 now' nodes ctx policy sel))"
    using order_with_context_spec [OF surjective_pairing] by blast
next
  assume "se_speeds sel n = Some w"
  then have "window_ok now w" using assms(1) by (auto simp: selector_ok_def)
  then have w: "window_prune now w = filter (\<lambda>s. now - sa_at s \<le> SPEED_WINDOW) w"
    by (rule window_prune_filter)
  then show "fst (window_estimate now w) = filter (\<lambda>s. now - sa_at s \<le> SPEED_WINDOW) w"
    "snd (window_estimate now w) = None \<longleftrightarrow> (\<forall>s \<in> set w. SPEED_WINDOW < now - sa_at s)"
    by (auto simp: window_estimate_def Let_def filter_empty_conv not_le)
qed

text \<open>
  A failure makes its node cool for the delay that the backoff returns (ten seconds when it returns
  none) and ends its recovery mark; a success ends the cooldown, and marks the node as recovered for thirty
  seconds exactly when it had failed before; no other node is touched.
\<close>

lemma observe_cooldown:
  assumes "nx (case se_failures sel n of None \<Rightarrow> nb | Some f \<Rightarrow> fs_backoff f) = (d, b')"
  shows "(is_cooling (observe nb nx now n bytes elapsed False sel) t n
        \<longleftrightarrow> t < now + (case d of None \<Rightarrow> 10 * SECOND | Some delay \<Rightarrow> delay))
     \<and> se_recovered (observe nb nx now n bytes elapsed False sel) n = None
     \<and> \<not> is_cooling (observe nb nx now n bytes elapsed True sel) t n
     \<and> se_recovered (observe nb nx now n bytes elapsed True sel) n =
          (if se_failures sel n = None then se_recovered sel n else Some (now + 30 * SECOND))
     \<and> (m \<noteq> n \<longrightarrow> is_cooling (observe nb nx now n bytes elapsed success sel) t m = is_cooling sel t m
          \<and> se_speeds (observe nb nx now n bytes elapsed success sel) m = se_speeds sel m)"
proof -
  note defs = observe_def forgive_def Let_def is_cooling_def record_speed_def
  have "is_cooling (observe nb nx now n bytes elapsed success sel) t m = is_cooling sel t m
      \<and> se_speeds (observe nb nx now n bytes elapsed success sel) m = se_speeds sel m" if "m \<noteq> n"
    using that by (auto simp: defs split: prod.splits)
  moreover have "\<not> is_cooling (observe nb nx now n bytes elapsed True sel) t n
      \<and> se_recovered (observe nb nx now n bytes elapsed True sel) n =
          (if se_failures sel n = None then se_recovered sel n else Some (now + 30 * SECOND))"
    by (auto simp: defs)
  ultimately show ?thesis using assms by (simp add: defs)
qed

end
