(* ===== verification/Cache_Store.thy ===== *)
theory Cache_Store
  imports Entities
begin

text \<open>
  \<^verbatim>\<open>src/src/cache.rs\<close>, \<^verbatim>\<open>src/src/cache/object_store.rs\<close>,
  \<^verbatim>\<open>src/src/cache/repository.rs\<close> and the cache queries of \<^verbatim>\<open>src/src/db.rs\<close>: the index table, the object
  files, the buffered hit counts, the single-flight keys, admission with eviction, expiry and recovery at
  start. SHA-256 in hexadecimal, \<open>ln_1p\<close> and the clock are parameters. SQL statements and file operations
  succeed, apart from the overflow of SQL's \<open>SUM\<close> and from missing files, which the code handles itself.
\<close>

section \<open>Data\<close>

record cache_record =
  cr_key :: string
  cr_media_type :: string
  cr_path :: string
  cr_size_bytes :: int
  cr_digest :: "string option"
  cr_hit_count :: int
  cr_created_at :: timestamp
  cr_last_accessed_at :: timestamp

record cache_runtime_config =
  rc_partial_ttl :: duration
  rc_cache_ttl :: "duration option"
  rc_max_cache_bytes :: nat
  rc_cache_policy :: cache_policy
  rc_cache_high_watermark :: f64
  rc_cache_low_watermark :: f64
  rc_public_bearer_cache_enabled :: bool

record cached_object =
  co_key :: string
  co_path :: string
  co_size :: nat
  co_media_type :: string
  co_digest :: "string option"

record cache_aggregate =
  ag_entries :: nat
  ag_bytes :: nat
  ag_hits :: nat

text \<open>
  The store: the table in insertion order, the object files by path, the hits not yet written, the keys
  with a flight, and the counters of the admissions.
\<close>

record cache_store =
  ca_root :: string
  ca_entries :: "cache_record list"
  ca_objects :: "string \<rightharpoonup> bytes"
  ca_pending_hits :: "string \<rightharpoonup> nat"
  ca_active_flights :: "string set"
  ca_runtime :: cache_runtime_config
  ca_admissions_started :: nat
  ca_admissions_succeeded :: nat
  ca_admissions_failed :: nat
  ca_admitted_bytes :: nat

section \<open>Keys\<close>

definition string_bytes :: "string \<Rightarrow> bytes" where
  "string_bytes s = map of_char s"

definition valid_digest :: "string \<Rightarrow> bool" where
  "valid_digest digest =
     (starts_with ''sha256:'' digest \<and> length digest = 71 \<and> list_all is_ascii_hexdigit (drop 7 digest))"

definition public_identity :: "string \<Rightarrow> string" where
  "public_identity request_path =
     (let path = (case split_once ''?'' request_path of None \<Rightarrow> request_path | Some (p, _) \<Rightarrow> p) in
      case rsplit_once ''/blobs/'' path of
        None \<Rightarrow> request_path
      | Some (_, digest) \<Rightarrow> if valid_digest digest then digest else request_path)"

definition is_bearer :: "string \<Rightarrow> bool" where
  "is_bearer v = (7 \<le> length v \<and> eq_ignore_ascii_case (take 7 v) ''bearer '')"

definition effective_authorization :: "string option \<Rightarrow> bool \<Rightarrow> string option" where
  "effective_authorization authorization public_bearer_cache_enabled =
     (case authorization of None \<Rightarrow> None
      | Some v \<Rightarrow> if public_bearer_cache_enabled \<and> is_bearer v then None else Some v)"

text \<open>The bytes that are hashed into a key.\<close>

definition key_input :: "string \<Rightarrow> string \<Rightarrow> string option \<Rightarrow> bool \<Rightarrow> bytes" where
  "key_input cache_scope request_path authorization public_bearer_cache_enabled =
     string_bytes cache_scope @ [0] @ string_bytes (public_identity request_path) @ [0] @
     (case effective_authorization authorization public_bearer_cache_enabled of
        None \<Rightarrow> [] | Some v \<Rightarrow> string_bytes v)"

definition cache_key ::
  "(bytes \<Rightarrow> string) \<Rightarrow> string \<Rightarrow> string \<Rightarrow> string option \<Rightarrow> bool \<Rightarrow> string" where
  "cache_key sha256_hex cache_scope request_path authorization public_bearer_cache_enabled =
     sha256_hex (key_input cache_scope request_path authorization public_bearer_cache_enabled)"

definition request_key ::
  "(bytes \<Rightarrow> string) \<Rightarrow> cache_store \<Rightarrow> string \<Rightarrow> string \<Rightarrow> string option \<Rightarrow> bool \<Rightarrow> string" where
  "request_key sha256_hex s cache_scope request_path authorization public_route =
     cache_key sha256_hex cache_scope request_path authorization
       (public_route \<and> rc_public_bearer_cache_enabled (ca_runtime s))"

section \<open>Object files\<close>

definition object_path :: "cache_store \<Rightarrow> string \<Rightarrow> string" where
  "object_path s key = ca_root s @ ''/objects/'' @ take 2 key @ ''/'' @ key"

definition file_name :: "string \<Rightarrow> string" where
  "file_name path = (case rsplit_once ''/'' path of None \<Rightarrow> path | Some (_, name) \<Rightarrow> name)"

text \<open>\<open>ObjectStore::commit\<close> renames the temporary file over the object and returns its length.\<close>

definition commit :: "string \<Rightarrow> bytes \<Rightarrow> cache_store \<Rightarrow> cache_store \<times> nat" where
  "commit key content s =
     (s\<lparr>ca_objects := (ca_objects s)(object_path s key \<mapsto> content)\<rparr>, length content)"

definition remove_object :: "string \<Rightarrow> cache_store \<Rightarrow> cache_store" where
  "remove_object key s = s\<lparr>ca_objects := (ca_objects s)(object_path s key := None)\<rparr>"

definition remove_indexed_path :: "string \<Rightarrow> cache_store \<Rightarrow> cache_store" where
  "remove_indexed_path path s = s\<lparr>ca_objects := (ca_objects s)(path := None)\<rparr>"

text \<open>\<open>prune_orphans\<close> and \<open>remove_unindexed\<close>: what stays of the object directory.\<close>

definition prune_orphans :: "cache_store \<Rightarrow> cache_store" where
  "prune_orphans s =
     s\<lparr>ca_objects := (\<lambda>p. if file_name p \<in> ca_active_flights s then ca_objects s p else None)\<rparr>"

definition remove_unindexed :: "string set \<Rightarrow> cache_store \<Rightarrow> cache_store" where
  "remove_unindexed indexed s =
     s\<lparr>ca_objects := (\<lambda>p. if file_name p \<in> indexed then ca_objects s p else None)\<rparr>"

section \<open>The index\<close>

definition find_entry :: "string \<Rightarrow> cache_store \<Rightarrow> cache_record option" where
  "find_entry key s = List.find (\<lambda>e. cr_key e = key) (ca_entries s)"

definition delete_entry :: "string \<Rightarrow> cache_store \<Rightarrow> cache_store" where
  "delete_entry key s = s\<lparr>ca_entries := filter (\<lambda>e. cr_key e \<noteq> key) (ca_entries s)\<rparr>"

text \<open>\<open>insert_cache_entry\<close>: on a conflict the hit count and the creation time of the row stay.\<close>

definition insert_entry :: "cache_record \<Rightarrow> cache_store \<Rightarrow> cache_store" where
  "insert_entry r s =
     (if find_entry (cr_key r) s = None then s\<lparr>ca_entries := ca_entries s @ [r]\<rparr>
      else s\<lparr>ca_entries := map (\<lambda>e. if cr_key e = cr_key r
               then e\<lparr>cr_media_type := cr_media_type r, cr_path := cr_path r, cr_size_bytes := cr_size_bytes r,
                      cr_digest := cr_digest r, cr_last_accessed_at := cr_last_accessed_at r\<rparr>
               else e) (ca_entries s)\<rparr>)"

definition add_cache_hits :: "string \<Rightarrow> nat \<Rightarrow> timestamp \<Rightarrow> cache_store \<Rightarrow> cache_store" where
  "add_cache_hits key hits_n now s =
     s\<lparr>ca_entries := map (\<lambda>e. if cr_key e = key
         then e\<lparr>cr_hit_count := cr_hit_count e + int (min hits_n i64_max), cr_last_accessed_at := now\<rparr>
         else e) (ca_entries s)\<rparr>"

definition record_hit :: "string \<Rightarrow> timestamp \<Rightarrow> cache_store \<Rightarrow> cache_store" where
  "record_hit key now s =
     (let hits_n = u64_saturating_add (case ca_pending_hits s key of None \<Rightarrow> 0 | Some c \<Rightarrow> c) 1 in
      if 32 \<le> hits_n
      then add_cache_hits key hits_n now (s\<lparr>ca_pending_hits := (ca_pending_hits s)(key \<mapsto> 0)\<rparr>)
      else s\<lparr>ca_pending_hits := (ca_pending_hits s)(key \<mapsto> hits_n)\<rparr>)"

definition discard_pending_hits :: "string \<Rightarrow> cache_store \<Rightarrow> cache_store" where
  "discard_pending_hits key s = s\<lparr>ca_pending_hits := (ca_pending_hits s)(key := None)\<rparr>"

text \<open>\<open>flush_hits\<close>: the loop over the pending keys, each of which is written to its own row.\<close>

definition flush_entry :: "timestamp \<Rightarrow> (string \<rightharpoonup> nat) \<Rightarrow> cache_record \<Rightarrow> cache_record" where
  "flush_entry now pending e =
     (case pending (cr_key e) of
        Some hits_n \<Rightarrow> if 0 < hits_n
          then e\<lparr>cr_hit_count := cr_hit_count e + int (min hits_n i64_max), cr_last_accessed_at := now\<rparr>
          else e
      | None \<Rightarrow> e)"

definition flush_hits :: "timestamp \<Rightarrow> cache_store \<Rightarrow> cache_store" where
  "flush_hits now s =
     s\<lparr>ca_entries := map (flush_entry now (ca_pending_hits s)) (ca_entries s),
       ca_pending_hits := (\<lambda>k. case ca_pending_hits s k of
           Some hits_n \<Rightarrow> if 0 < hits_n then None else Some hits_n | None \<Rightarrow> None)\<rparr>"

definition entries_bytes :: "cache_record list \<Rightarrow> nat" where
  "entries_bytes entries = sum_list (map (\<lambda>e. nat (max (cr_size_bytes e) 0)) entries)"

definition entries_hits :: "cache_record list \<Rightarrow> nat" where
  "entries_hits entries = sum_list (map (\<lambda>e. nat (max (cr_hit_count e) 0)) entries)"

text \<open>\<open>aggregate\<close> flushes the hits first; SQL's integer \<open>SUM\<close> fails on overflow.\<close>

definition aggregate :: "timestamp \<Rightarrow> cache_store \<Rightarrow> cache_store \<times> cache_aggregate api_result" where
  "aggregate now s =
     (let s1 = flush_hits now s; bytes = entries_bytes (ca_entries s1); hits = entries_hits (ca_entries s1) in
      (s1, if i64_max < bytes \<or> i64_max < hits then Inl (Database ''integer overflow'')
           else Inr \<lparr>ag_entries = length (ca_entries s1), ag_bytes = bytes, ag_hits = hits\<rparr>))"

definition by_last_accessed :: "cache_record \<Rightarrow> cache_record \<Rightarrow> bool" where
  "by_last_accessed a b = (cr_last_accessed_at a \<le> cr_last_accessed_at b)"

definition by_hits :: "cache_record \<Rightarrow> cache_record \<Rightarrow> bool" where
  "by_hits = then_with (\<lambda>a b. cr_hit_count a \<le> cr_hit_count b) by_last_accessed"

definition eviction_candidates :: "string \<Rightarrow> nat \<Rightarrow> cache_store \<Rightarrow> cache_record list" where
  "eviction_candidates policy limit s =
     take (clamp 1 1024 limit)
       (sort_by (if policy = ''lfu'' then by_hits else by_last_accessed) (ca_entries s))"

definition expired_candidates :: "timestamp \<Rightarrow> nat \<Rightarrow> cache_store \<Rightarrow> cache_record list" where
  "expired_candidates cutoff limit s =
     take (clamp 1 1024 limit)
       (sort_by by_last_accessed (filter (\<lambda>e. cr_last_accessed_at e < cutoff) (ca_entries s)))"

definition list_entries :: "nat \<Rightarrow> timestamp \<Rightarrow> cache_store \<Rightarrow> cache_store \<times> cache_record list" where
  "list_entries limit now s =
     (let s1 = flush_hits now s in
      (s1, take (min limit 10000) (sort_by (\<lambda>a b. cr_last_accessed_at b \<le> cr_last_accessed_at a) (ca_entries s1))))"

definition cache_stats :: "timestamp \<Rightarrow> cache_store \<Rightarrow> cache_store \<times> cache_aggregate api_result" where
  "cache_stats now s = aggregate now s"

section \<open>Reading and removing\<close>

definition i64_as_u64 :: "int \<Rightarrow> nat" where
  "i64_as_u64 x = nat (x mod 2 ^ 64)"

definition cache_get :: "string \<Rightarrow> timestamp \<Rightarrow> cache_store \<Rightarrow> cache_store \<times> cached_object option" where
  "cache_get key now s =
     (case find_entry key s of
        None \<Rightarrow> (s, None)
      | Some entry \<Rightarrow>
          (case ca_objects s (cr_path entry) of
             Some content \<Rightarrow>
               if length content = i64_as_u64 (cr_size_bytes entry)
               then (record_hit key now s,
                     Some \<lparr>co_key = cr_key entry, co_path = cr_path entry, co_size = length content,
                           co_media_type = cr_media_type entry, co_digest = cr_digest entry\<rparr>)
               else (delete_entry key s, None)
           | None \<Rightarrow> (delete_entry key s, None)))"

text \<open>\<open>lock\<close> once the flight of the key is free, and the drop of the lease.\<close>

definition cache_lock :: "string \<Rightarrow> cache_store \<Rightarrow> cache_store" where
  "cache_lock key s = s\<lparr>ca_active_flights := insert key (ca_active_flights s)\<rparr>"

definition cache_unlock :: "string \<Rightarrow> cache_store \<Rightarrow> cache_store" where
  "cache_unlock key s = s\<lparr>ca_active_flights := ca_active_flights s - {key}\<rparr>"

definition remove_locked :: "string \<Rightarrow> cache_store \<Rightarrow> cache_store" where
  "remove_locked key s = delete_entry key (remove_object key s)"

definition valid_cache_key :: "string \<Rightarrow> bool" where
  "valid_cache_key key = (length key = 64 \<and> list_all is_ascii_hexdigit key)"

definition cache_remove :: "string \<Rightarrow> cache_store \<Rightarrow> cache_store api_result" where
  "cache_remove key s =
     (if \<not> valid_cache_key key then Inl (BadRequest ''invalid cache key'')
      else Inr (cache_unlock key (remove_locked key (discard_pending_hits key (cache_lock key s)))))"

section \<open>Eviction\<close>

definition retention_score :: "(f64 \<Rightarrow> f64) \<Rightarrow> cache_record \<Rightarrow> timestamp \<Rightarrow> cache_policy \<Rightarrow> f64" where
  "retention_score ln_1p entry now policy =
     (let age_hours = f64_div (f64_of_nat (nat (max ((now - cr_last_accessed_at entry) div 1000000000) 0)))
                        (f64_const 3600);
          hits = f64_of_nat (nat (max (cr_hit_count entry) 0));
          size_mib = f64_div (f64_of_nat (nat (max (cr_size_bytes entry) 0))) (f64_const (1024 * 1024))
      in case policy of
           Lru \<Rightarrow> f64_neg age_hours
         | Lfu \<Rightarrow> f64_sub (ln_1p hits) (f64_mul age_hours (f64_const (1 / 1000)))
         | CacheBalanced \<Rightarrow>
             f64_sub (f64_add (f64_div (f64_const 20) (f64_add (f64_const 1) (f64_div age_hours (f64_const 24))))
                              (f64_mul (ln_1p hits) (f64_const 3)))
                     (ln_1p size_mib))"

text \<open>
  The inner \<open>for\<close> of the eviction: the store, and the bytes freed and whether an entry was removed. An
  error leaves the entries removed before it removed.
\<close>

fun evict_entries ::
  "string \<Rightarrow> nat \<Rightarrow> cache_record list \<Rightarrow> nat \<Rightarrow> bool \<Rightarrow> cache_store
     \<Rightarrow> cache_store \<times> (nat \<times> bool) api_result" where
  "evict_entries protected_key need_to_free [] freed removed s = (s, Inr (freed, removed))"
| "evict_entries protected_key need_to_free (entry # entries) freed removed s =
     (if cr_key entry = protected_key \<or> cr_key entry \<in> ca_active_flights s
      then evict_entries protected_key need_to_free entries freed removed s
      else
        case cache_remove (cr_key entry) s of
          Inl e \<Rightarrow> (s, Inl e)
        | Inr s' \<Rightarrow>
            let freed' = u64_saturating_add freed (nat (max (cr_size_bytes entry) 0)) in
            if need_to_free \<le> freed' then (s', Inr (freed', True))
            else evict_entries protected_key need_to_free entries freed' True s')"

definition eviction_round ::
  "(f64 \<Rightarrow> f64) \<Rightarrow> string \<Rightarrow> nat \<Rightarrow> timestamp \<Rightarrow> nat \<Rightarrow> cache_store
     \<Rightarrow> cache_store \<times> (nat \<times> bool) api_result" where
  "eviction_round ln_1p protected_key need_to_free now freed s =
     (let policy = rc_cache_policy (ca_runtime s);
          entries = eviction_candidates (cache_policy_display policy) 512 s
      in evict_entries protected_key need_to_free
           (sort_by (\<lambda>a b. retention_score ln_1p a now policy \<le> retention_score ln_1p b now policy) entries)
           freed False s)"

text \<open>The inner \<open>for\<close> of \<open>cleanup_expired\<close>.\<close>

fun expire_entries ::
  "cache_record list \<Rightarrow> nat \<Rightarrow> bool \<Rightarrow> cache_store \<Rightarrow> cache_store \<times> (nat \<times> bool) api_result" where
  "expire_entries [] freed removed s = (s, Inr (freed, removed))"
| "expire_entries (entry # entries) freed removed s =
     (if cr_key entry \<in> ca_active_flights s then expire_entries entries freed removed s
      else
        case cache_remove (cr_key entry) s of
          Inl e \<Rightarrow> (s, Inl e)
        | Inr s' \<Rightarrow>
            expire_entries entries (u64_saturating_add freed (nat (max (cr_size_bytes entry) 0))) True s')"

section \<open>Lemmas on removal\<close>

text \<open>What a sequence of removals leaves: some of the rows, in order, and the objects of no other rows.\<close>

lemma delete_entry_simps [simp]:
  "ca_entries (delete_entry key s) = filter (\<lambda>e. cr_key e \<noteq> key) (ca_entries s)"
  "ca_objects (delete_entry key s) = ca_objects s"
  "ca_active_flights (delete_entry key s) = ca_active_flights s"
  "ca_runtime (delete_entry key s) = ca_runtime s"
  "ca_root (delete_entry key s) = ca_root s"
  by (simp_all add: delete_entry_def)

lemma cache_remove_fields:
  assumes "cache_remove key s = Inr s'"
  shows "ca_entries s' = filter (\<lambda>e. cr_key e \<noteq> key) (ca_entries s)"
    "ca_objects s' = (ca_objects s)(object_path s key := None)"
    "ca_active_flights s' = ca_active_flights s - {key}"
    "ca_runtime s' = ca_runtime s" "ca_root s' = ca_root s"
    "ca_pending_hits s' = (ca_pending_hits s)(key := None)"
    "valid_cache_key key"
  using assms
  by (auto simp: cache_remove_def cache_unlock_def remove_locked_def remove_object_def discard_pending_hits_def
      cache_lock_def delete_entry_def object_path_def split: if_splits)

lemma cache_remove_length_le:
  "cache_remove key s = Inr s' \<Longrightarrow> length (ca_entries s') \<le> length (ca_entries s)"
  by (simp add: cache_remove_fields(1))

lemma cache_remove_shrinks:
  assumes "cache_remove (cr_key e) s = Inr s'" and "e \<in> set (ca_entries s)"
  shows "length (ca_entries s') < length (ca_entries s)"
  unfolding cache_remove_fields(1) [OF assms(1)] using assms(2) by (auto intro: length_filter_less)

lemma evict_entries_length_le:
  "length (ca_entries (fst (evict_entries p need es f r s))) \<le> length (ca_entries s)"
proof (induction es arbitrary: f r s)
  case (Cons e es)
  then show ?case
    by (auto simp: Let_def cache_remove_length_le split: sum.split)
      (meson cache_remove_length_le order_trans)
qed simp

lemma expire_entries_length_le:
  "length (ca_entries (fst (expire_entries es f r s))) \<le> length (ca_entries s)"
proof (induction es arbitrary: f r s)
  case (Cons e es)
  then show ?case
    by (auto split: sum.split) (meson cache_remove_length_le order_trans)
qed simp

lemma evict_entries_length:
  assumes "evict_entries p need entries freed False s = (s', Inr (freed', True))"
    and "set entries \<subseteq> set (ca_entries s)"
  shows "length (ca_entries s') < length (ca_entries s)"
  using assms
proof (induction entries)
  case (Cons e es)
  show ?case
  proof (cases "cr_key e = p \<or> cr_key e \<in> ca_active_flights s")
    case False
    with Cons.prems obtain t where t: "cache_remove (cr_key e) s = Inr t" by (auto split: sum.splits)
    then have "length (ca_entries t) < length (ca_entries s)"
      using Cons.prems by (intro cache_remove_shrinks) auto
    moreover have "length (ca_entries s') \<le> length (ca_entries t)"
      using Cons.prems(1) False t evict_entries_length_le [of p need es _ True t]
      by (auto simp: Let_def split: if_splits) (metis fst_conv)
    ultimately show ?thesis by simp
  qed (use Cons in auto)
qed simp

lemma expire_entries_length:
  assumes "expire_entries entries freed False s = (s', Inr (freed', True))"
    and "set entries \<subseteq> set (ca_entries s)"
  shows "length (ca_entries s') < length (ca_entries s)"
  using assms
proof (induction entries)
  case (Cons e es)
  show ?case
  proof (cases "cr_key e \<in> ca_active_flights s")
    case False
    with Cons.prems obtain t where t: "cache_remove (cr_key e) s = Inr t" by (auto split: sum.splits)
    then have "length (ca_entries t) < length (ca_entries s)"
      using Cons.prems by (intro cache_remove_shrinks) auto
    moreover have "length (ca_entries s') \<le> length (ca_entries t)"
      using Cons.prems(1) False t expire_entries_length_le [of es _ True t]
      by auto (metis fst_conv)
    ultimately show ?thesis by simp
  qed (use Cons in auto)
qed simp

lemma eviction_round_length:
  assumes "eviction_round ln_1p p need now freed s = (s', Inr (freed', True))"
  shows "length (ca_entries s') < length (ca_entries s)"
proof -
  have "set (eviction_candidates policy n s) \<subseteq> set (ca_entries s)" for policy n
    by (auto simp: eviction_candidates_def dest: in_set_takeD)
  with assms show ?thesis
    unfolding eviction_round_def Let_def by (intro evict_entries_length [OF assms [unfolded eviction_round_def Let_def]]) simp
qed

lemma expire_round_length:
  assumes "expire_entries (expired_candidates cutoff n s) freed False s = (s', Inr (freed', True))"
  shows "length (ca_entries s') < length (ca_entries s)"
proof -
  have "set (expired_candidates cutoff n s) \<subseteq> set (ca_entries s)"
    by (auto simp: expired_candidates_def dest: in_set_takeD)
  with assms show ?thesis by (rule expire_entries_length)
qed

section \<open>Admission and maintenance\<close>

text \<open>The \<open>while\<close> of the eviction: it ends because a round that continues has removed a row.\<close>

function evict_loop ::
  "(f64 \<Rightarrow> f64) \<Rightarrow> string \<Rightarrow> nat \<Rightarrow> timestamp \<Rightarrow> nat \<Rightarrow> cache_store \<Rightarrow> cache_store \<times> nat api_result" where
  "evict_loop ln_1p protected_key need_to_free now freed s =
     (if need_to_free \<le> freed then (s, Inr freed)
      else if eviction_candidates (cache_policy_display (rc_cache_policy (ca_runtime s))) 512 s = []
      then (s, Inr freed)
      else
        case eviction_round ln_1p protected_key need_to_free now freed s of
          (s', Inl e) \<Rightarrow> (s', Inl e)
        | (s', Inr (freed', removed)) \<Rightarrow>
            if \<not> removed then (s', Inr freed')
            else evict_loop ln_1p protected_key need_to_free now freed' s')"
  by pat_completeness auto
termination
  by (relation "measure (\<lambda>(_, _, _, _, _, s). length (ca_entries s))") (auto intro: eviction_round_length [OF sym])

declare evict_loop.simps [simp del]

definition watermark_bytes :: "nat \<Rightarrow> f64 \<Rightarrow> nat" where
  "watermark_bytes max_cache_bytes w = f64_to_u64 (f64_mul (f64_of_nat max_cache_bytes) w)"

definition reserve_capacity_locked ::
  "(f64 \<Rightarrow> f64) \<Rightarrow> nat \<Rightarrow> string \<Rightarrow> timestamp \<Rightarrow> cache_store \<Rightarrow> cache_store \<times> unit api_result" where
  "reserve_capacity_locked ln_1p incoming protected_key now s =
     (let max_bytes = rc_max_cache_bytes (ca_runtime s) in
      if max_bytes < incoming then (s, Inl (BadRequest ''object exceeds the configured cache capacity''))
      else
        case aggregate now s of
          (s1, Inl e) \<Rightarrow> (s1, Inl e)
        | (s1, Inr agg) \<Rightarrow>
            let current = ag_bytes agg;
                high = watermark_bytes max_bytes (rc_cache_high_watermark (ca_runtime s))
            in
            if u64_saturating_add current incoming \<le> high then (s1, Inr ())
            else
              let target = watermark_bytes max_bytes (rc_cache_low_watermark (ca_runtime s));
                  need_to_free = u64_saturating_sub (u64_saturating_add current incoming) (max target incoming)
              in
              (case evict_loop ln_1p protected_key need_to_free now 0 s1 of
                 (s2, Inl e) \<Rightarrow> (s2, Inl e)
               | (s2, Inr freed) \<Rightarrow>
                   if freed < need_to_free
                   then (s2, Inl (BadRequest ''cache is full and no safe eviction candidates are available''))
                   else (s2, Inr ())))"

definition admit ::
  "(f64 \<Rightarrow> f64) \<Rightarrow> string \<Rightarrow> bytes \<Rightarrow> string \<Rightarrow> string option \<Rightarrow> timestamp \<Rightarrow> cache_store
     \<Rightarrow> cache_store \<times> cached_object api_result" where
  "admit ln_1p key content media_type digest now s =
     (let s0 = s\<lparr>ca_admissions_started := ca_admissions_started s + 1\<rparr> in
      case reserve_capacity_locked ln_1p (length content) key now s0 of
        (s1, Inl e) \<Rightarrow> (s1\<lparr>ca_admissions_failed := ca_admissions_failed s1 + 1\<rparr>, Inl e)
      | (s1, Inr _) \<Rightarrow>
          let (s2, sz) = commit key content s1;
              destination = object_path s2 key;
              s3 = insert_entry \<lparr>cr_key = key, cr_media_type = media_type, cr_path = destination,
                     cr_size_bytes = int (min sz i64_max), cr_digest = digest, cr_hit_count = 0,
                     cr_created_at = now, cr_last_accessed_at = now\<rparr> s2
          in (s3\<lparr>ca_admissions_succeeded := ca_admissions_succeeded s3 + 1,
                 ca_admitted_bytes := ca_admitted_bytes s3 + sz\<rparr>,
              Inr \<lparr>co_key = key, co_path = destination, co_size = sz, co_media_type = media_type,
                   co_digest = digest\<rparr>))"

function expire_loop :: "timestamp \<Rightarrow> nat \<Rightarrow> cache_store \<Rightarrow> cache_store \<times> nat api_result" where
  "expire_loop cutoff freed s =
     (let entries = expired_candidates cutoff 512 s in
      if entries = [] then (s, Inr freed)
      else
        case expire_entries entries freed False s of
          (s', Inl e) \<Rightarrow> (s', Inl e)
        | (s', Inr (freed', removed)) \<Rightarrow> if \<not> removed then (s', Inr freed') else expire_loop cutoff freed' s')"
  by pat_completeness auto
termination
  by (relation "measure (\<lambda>(_, _, s). length (ca_entries s))") (auto intro: expire_round_length [OF sym])

declare expire_loop.simps [simp del]

text \<open>\<open>chrono::Duration::from_std\<close> rejects a duration of more than \<open>i64::MAX\<close> milliseconds.\<close>

definition cleanup_expired :: "timestamp \<Rightarrow> cache_store \<Rightarrow> cache_store \<times> nat api_result" where
  "cleanup_expired now s =
     (case rc_cache_ttl (ca_runtime s) of
        None \<Rightarrow> (s, Inr 0)
      | Some ttl \<Rightarrow>
          let s1 = flush_hits now s in
          if i64_max * 1000000 < ttl then (s1, Inl (Internal ''out of range''))
          else expire_loop (now - int ttl) 0 s1)"

text \<open>\<open>clear_all\<close>: the maintenance lock is free when no writer holds its shared side.\<close>

fun clear_entries :: "cache_record list \<Rightarrow> nat \<Rightarrow> cache_store \<Rightarrow> cache_store \<times> nat" where
  "clear_entries [] freed s = (s, freed)"
| "clear_entries (entry # entries) freed s =
     (if cr_key entry \<in> ca_active_flights s then clear_entries entries freed s
      else clear_entries entries (u64_saturating_add freed (nat (max (cr_size_bytes entry) 0)))
             (delete_entry (cr_key entry) (discard_pending_hits (cr_key entry)
                (remove_indexed_path (cr_path entry) s))))"

definition clear_all :: "bool \<Rightarrow> cache_store \<Rightarrow> cache_store \<times> nat" where
  "clear_all maintenance_lock_free s =
     (if \<not> maintenance_lock_free then (s, 0)
      else let (s1, freed) = clear_entries (sort_by by_last_accessed (ca_entries s)) 0 s
           in (prune_orphans s1, freed))"

definition entry_file_valid :: "cache_store \<Rightarrow> cache_record \<Rightarrow> bool" where
  "entry_file_valid s entry =
     (case ca_objects s (cr_path entry) of
        None \<Rightarrow> False | Some content \<Rightarrow> length content = nat (max (cr_size_bytes entry) 0))"

definition reconcile_startup :: "cache_store \<Rightarrow> cache_store" where
  "reconcile_startup s =
     (let s1 = s\<lparr>ca_entries := filter (entry_file_valid s) (ca_entries s)\<rparr>
      in remove_unindexed (cr_key ` set (ca_entries s1)) s1)"

definition cache_update_runtime :: "cache_runtime_config \<Rightarrow> cache_store \<Rightarrow> cache_store" where
  "cache_update_runtime config s = s\<lparr>ca_runtime := config\<rparr>"

section \<open>The invariant of the store\<close>

text \<open>
  Keys are distinct and well formed, every row names the object file of its key, and sizes are in range.
\<close>

definition cache_ok :: "cache_store \<Rightarrow> bool" where
  "cache_ok s \<longleftrightarrow> distinct (map cr_key (ca_entries s)) \<and>
     (\<forall>e \<in> set (ca_entries s). valid_cache_key (cr_key e) \<and> cr_path e = object_path s (cr_key e)
        \<and> 0 \<le> cr_size_bytes e \<and> cr_size_bytes e \<le> int i64_max)"

text \<open>
  What a run of evictions that frees \<open>d\<close> bytes and must spare the key \<open>p\<close> may do.
\<close>

definition evicts :: "string \<Rightarrow> cache_store \<Rightarrow> nat \<Rightarrow> cache_store \<Rightarrow> bool" where
  "evicts p s d s' \<longleftrightarrow> cache_ok s'
     \<and> entries_bytes (ca_entries s) = entries_bytes (ca_entries s') + d
     \<and> ca_active_flights s' = ca_active_flights s \<and> ca_runtime s' = ca_runtime s \<and> ca_root s' = ca_root s
     \<and> set (ca_entries s') \<subseteq> set (ca_entries s)
     \<and> (\<forall>k. valid_cache_key k \<and> (k = p \<or> k \<in> ca_active_flights s) \<longrightarrow>
           find_entry k s' = find_entry k s
           \<and> ca_objects s' (object_path s k) = ca_objects s (object_path s k))"

lemma object_path_cong: "ca_root s' = ca_root s \<Longrightarrow> object_path s' = object_path s"
  by (simp add: object_path_def fun_eq_iff)

lemma object_path_inj:
  "length k = 64 \<Longrightarrow> length k' = 64 \<Longrightarrow> object_path s k = object_path s k' \<Longrightarrow> k = k'"
  by (simp add: object_path_def)

lemma find_filter: "(\<And>x. P x \<Longrightarrow> Q x) \<Longrightarrow> List.find P (filter Q xs) = List.find P xs"
  by (induction xs) auto

lemma entries_bytes_remove:
  "distinct (map cr_key es) \<Longrightarrow> e \<in> set es \<Longrightarrow>
     entries_bytes es = entries_bytes (filter (\<lambda>x. cr_key x \<noteq> cr_key e) es) + nat (max (cr_size_bytes e) 0)"
proof (induction es)
  case (Cons x es)
  show ?case
  proof (cases "x = e")
    case True
    with Cons.prems(1) have "cr_key e \<notin> cr_key ` set es" by simp
    then have "\<forall>y \<in> set es. cr_key y \<noteq> cr_key e" by (metis imageI)
    then have "filter (\<lambda>y. cr_key y \<noteq> cr_key e) es = es" by simp
    with True show ?thesis by (simp add: entries_bytes_def)
  next
    case False
    with Cons.prems have "e \<in> set es" "cr_key x \<noteq> cr_key e" by auto
    with Cons show ?thesis by (simp add: entries_bytes_def)
  qed
qed simp

lemma evicts_refl: "cache_ok s \<Longrightarrow> evicts p s 0 s"
  by (simp add: evicts_def)

lemma evicts_trans: "evicts p s d t \<Longrightarrow> evicts p t d' u \<Longrightarrow> evicts p s (d + d') u"
proof -
  assume st: "evicts p s d t" and tu: "evicts p t d' u"
  have "object_path t = object_path s" using st by (intro object_path_cong) (simp add: evicts_def)
  with st tu show ?thesis unfolding evicts_def by auto
qed

lemma evicts_remove:
  assumes "cache_ok s" and "cache_remove (cr_key e) s = Inr t" and "e \<in> set (ca_entries s)"
    and "cr_key e \<noteq> p" and "cr_key e \<notin> ca_active_flights s"
  shows "evicts p s (nat (max (cr_size_bytes e) 0)) t"
proof -
  note f = cache_remove_fields [OF assms(2)]
  have "cache_ok t" using assms(1) f
    by (auto simp: cache_ok_def object_path_cong [OF f(5)] intro: distinct_map_filter)
  moreover have "find_entry k t = find_entry k s \<and> ca_objects t (object_path s k) = ca_objects s (object_path s k)"
    if "valid_cache_key k" "k = p \<or> k \<in> ca_active_flights s" for k
  proof -
    have "k \<noteq> cr_key e" using that assms(4,5) by auto
    moreover have "object_path s k \<noteq> object_path s (cr_key e)"
      using object_path_inj that(1) f(7) \<open>k \<noteq> cr_key e\<close> by (auto simp: valid_cache_key_def)
    ultimately show ?thesis using f(1,2) by (auto simp: find_entry_def find_filter)
  qed
  ultimately show ?thesis
    using f entries_bytes_remove [of "ca_entries s" e] assms by (auto simp: evicts_def cache_ok_def)
qed

lemma cache_remove_ok:
  "cache_ok s \<Longrightarrow> e \<in> set (ca_entries s) \<Longrightarrow> \<exists>t. cache_remove (cr_key e) s = Inr t"
  by (auto simp: cache_ok_def cache_remove_def)

lemma evict_entries_spec:
  assumes "cache_ok s" and "set es \<subseteq> set (ca_entries s)" and "distinct (map cr_key es)"
    and "freed + entries_bytes (ca_entries s) \<le> u64_max"
  shows "\<exists>t d r. evict_entries p need es freed removed s = (t, Inr (freed + d, r)) \<and> evicts p s d t"
  using assms
proof (induction es arbitrary: freed removed s)
  case Nil
  then show ?case using evicts_refl by (intro exI [of _ s] exI [of _ 0]) auto
next
  case (Cons e es)
  show ?case
  proof (cases "cr_key e = p \<or> cr_key e \<in> ca_active_flights s")
    case True
    with Cons show ?thesis by auto
  next
    case False
    obtain t where t: "cache_remove (cr_key e) s = Inr t" using cache_remove_ok Cons.prems by (metis list.set_intros(1) subsetD)
    let ?d = "nat (max (cr_size_bytes e) 0)"
    have ev: "evicts p s ?d t" using evicts_remove t False Cons.prems by auto
    then have bytes: "entries_bytes (ca_entries s) = entries_bytes (ca_entries t) + ?d" and ok: "cache_ok t"
      by (auto simp: evicts_def)
    then have sat: "u64_saturating_add freed ?d = freed + ?d"
      using Cons.prems(4) by (simp add: u64_saturating_add_def)
    show ?thesis
    proof (cases "need \<le> freed + ?d")
      case True
      with False t sat ev show ?thesis by (auto simp: Let_def)
    next
      case less: False
      have "set es \<subseteq> set (ca_entries t)"
      proof
        fix x assume x: "x \<in> set es"
        then have "cr_key x \<in> cr_key ` set es" by (rule imageI)
        then have "cr_key x \<noteq> cr_key e" using Cons.prems(3) by auto
        then show "x \<in> set (ca_entries t)"
          unfolding cache_remove_fields(1) [OF t] using x Cons.prems(2) by auto
      qed
      with Cons.IH [of t "freed + ?d" True] ok Cons.prems bytes obtain u d r where
        "evict_entries p need es (freed + ?d) True t = (u, Inr (freed + ?d + d, r))" "evicts p t d u"
        by auto
      with evicts_trans [OF ev] False t sat less show ?thesis
        by (intro exI [of _ u] exI [of _ "?d + d"] exI [of _ r]) (auto simp: Let_def add.assoc)
    qed
  qed
qed

lemma sort_take_keys:
  assumes "distinct (map cr_key xs)"
  shows "distinct (map cr_key (sort_by le (take n (sort_by le' xs))))"
    and "set (sort_by le (take n (sort_by le' xs))) \<subseteq> set xs"
proof -
  have "mset (map cr_key (sort_by le' xs)) = mset (map cr_key xs)" by simp
  then have "distinct (map cr_key (sort_by le' xs))" using assms by (metis mset_eq_imp_distinct_iff)
  then have "distinct (map cr_key (take n (sort_by le' xs)))" by (simp add: take_map [symmetric])
  moreover have "mset (map cr_key (sort_by le ys)) = mset (map cr_key ys)" for ys by simp
  ultimately show "distinct (map cr_key (sort_by le (take n (sort_by le' xs))))"
    by (metis mset_eq_imp_distinct_iff)
  show "set (sort_by le (take n (sort_by le' xs))) \<subseteq> set xs" by (auto dest: in_set_takeD)
qed

lemma eviction_round_spec:
  assumes "cache_ok s" and "freed + entries_bytes (ca_entries s) \<le> u64_max"
  shows "\<exists>t d r. eviction_round ln_1p p need now freed s = (t, Inr (freed + d, r)) \<and> evicts p s d t"
  unfolding eviction_round_def Let_def eviction_candidates_def
  using assms by (intro evict_entries_spec sort_take_keys) (auto simp: cache_ok_def)

lemma evict_loop_spec:
  assumes "cache_ok s" and "freed + entries_bytes (ca_entries s) \<le> u64_max"
  shows "\<exists>t d. evict_loop ln_1p p need now freed s = (t, Inr (freed + d)) \<and> evicts p s d t"
  using assms
proof (induction ln_1p p need now freed s rule: evict_loop.induct)
  case (1 ln_1p p need now freed s)
  show ?case
  proof (cases "need \<le> freed \<or> eviction_candidates (cache_policy_display (rc_cache_policy (ca_runtime s))) 512 s = []")
    case True
    with 1 evicts_refl show ?thesis by (intro exI [of _ s] exI [of _ 0]) (auto simp: evict_loop.simps [of _ _ _ _ _ s])
  next
    case False
    obtain t d r where rd: "eviction_round ln_1p p need now freed s = (t, Inr (freed + d, r))" and ev: "evicts p s d t"
      using eviction_round_spec 1(2,3) by blast
    show ?thesis
    proof (cases r)
      case True
      have "cache_ok t" "freed + d + entries_bytes (ca_entries t) \<le> u64_max"
        using ev 1(3) by (auto simp: evicts_def)
      with 1(1) [OF _ _ rd [symmetric] refl refl] False True obtain u d' where
        "evict_loop ln_1p p need now (freed + d) t = (u, Inr (freed + d + d'))" "evicts p t d' u" by auto
      with evicts_trans [OF ev] rd False True show ?thesis
        by (intro exI [of _ u] exI [of _ "d + d'"]) (auto simp: evict_loop.simps [of _ _ _ _ _ s] add.assoc)
    next
      case no: False
      with rd ev False show ?thesis by (auto simp: evict_loop.simps [of _ _ _ _ _ s])
    qed
  qed
qed

section \<open>Admission\<close>

text \<open>Limits within which \<open>f64\<close> is exact on byte counts, and watermarks that are fractions.\<close>

definition fraction :: "f64 \<Rightarrow> bool" where
  "fraction w \<longleftrightarrow> (\<exists>r. w = F64_Fin False r \<and> 0 \<le> r \<and> r \<le> 1)"

definition runtime_ok :: "cache_runtime_config \<Rightarrow> bool" where
  "runtime_ok r \<longleftrightarrow> rc_max_cache_bytes r \<le> 2 ^ 53 \<and> fraction (rc_cache_high_watermark r)
     \<and> fraction (rc_cache_low_watermark r)"

lemma watermark_bytes_le: "n \<le> 2 ^ 53 \<Longrightarrow> fraction w \<Longrightarrow> watermark_bytes n w \<le> n"
  by (auto simp: watermark_bytes_def fraction_def intro: f64_scale_le)

lemma flush_hits_fields [simp]:
  "ca_objects (flush_hits now s) = ca_objects s" "ca_active_flights (flush_hits now s) = ca_active_flights s"
  "ca_runtime (flush_hits now s) = ca_runtime s" "ca_root (flush_hits now s) = ca_root s"
  by (simp_all add: flush_hits_def)

lemma flush_hits_entries:
  "\<exists>f. ca_entries (flush_hits now s) = map f (ca_entries s)
     \<and> (\<forall>e. cr_key (f e) = cr_key e \<and> cr_path (f e) = cr_path e \<and> cr_size_bytes (f e) = cr_size_bytes e)"
  by (rule exI [of _ "flush_entry now (ca_pending_hits s)"])
    (simp add: flush_hits_def flush_entry_def split: option.split)

lemma map_keeping_entries:
  assumes "\<forall>e. cr_key (f e) = cr_key e \<and> cr_path (f e) = cr_path e \<and> cr_size_bytes (f e) = cr_size_bytes e"
    and "ca_entries t = map f (ca_entries s)" and "ca_root t = ca_root s"
  shows "cache_ok t = cache_ok s" and "entries_bytes (ca_entries t) = entries_bytes (ca_entries s)"
    and "cr_key ` set (ca_entries t) = cr_key ` set (ca_entries s)"
  using assms object_path_cong [OF assms(3)]
  by (auto simp: cache_ok_def entries_bytes_def comp_def image_image)

lemma flush_hits_ok [simp]:
  "cache_ok (flush_hits now s) = cache_ok s"
  "entries_bytes (ca_entries (flush_hits now s)) = entries_bytes (ca_entries s)"
  "cr_key ` set (ca_entries (flush_hits now s)) = cr_key ` set (ca_entries s)"
  using flush_hits_entries [of now s] map_keeping_entries [of _ "flush_hits now s" s] by auto

lemma reserve_capacity_spec:
  assumes "cache_ok s" and "runtime_ok (ca_runtime s)"
    and "reserve_capacity_locked ln_1p incoming p now s = (t, r)"
  shows "\<exists>u d. (u = s \<or> u = flush_hits now s) \<and> evicts p u d t"
    and "r = Inr () \<Longrightarrow> entries_bytes (ca_entries t) + incoming \<le> rc_max_cache_bytes (ca_runtime s)"
proof -
  let ?max = "rc_max_cache_bytes (ca_runtime s)" and ?u = "flush_hits now s"
  let ?cur = "entries_bytes (ca_entries s)"
  let ?target = "watermark_bytes ?max (rc_cache_low_watermark (ca_runtime s))"
  let ?need = "u64_saturating_sub (u64_saturating_add ?cur incoming) (max ?target incoming)"
  have lim: "?max \<le> 2 ^ 53" "?target \<le> ?max" "watermark_bytes ?max (rc_cache_high_watermark (ca_runtime s)) \<le> ?max"
    using assms(2) by (auto simp: runtime_ok_def intro: watermark_bytes_le)
  have P: "(\<exists>u d. (u = s \<or> u = ?u) \<and> evicts p u d t)
      \<and> (r = Inr () \<longrightarrow> entries_bytes (ca_entries t) + incoming \<le> ?max)"
  proof (cases "incoming \<le> ?max \<and> snd (aggregate now s) = Inr \<lparr>ag_entries = length (ca_entries ?u),
      ag_bytes = ?cur, ag_hits = entries_hits (ca_entries ?u)\<rparr> \<and> ?cur \<le> i64_max")
    case False
    then have "t = s \<or> t = ?u" "r \<noteq> Inr ()"
      using assms(3) by (auto simp: reserve_capacity_locked_def aggregate_def Let_def split: if_splits)
    with assms(1) evicts_refl show ?thesis by (metis flush_hits_ok(1))
  next
    case ok: True
    then have agg: "aggregate now s = (?u, Inr \<lparr>ag_entries = length (ca_entries ?u), ag_bytes = ?cur,
        ag_hits = entries_hits (ca_entries ?u)\<rparr>)" and small: "incoming \<le> ?max" "?cur \<le> i64_max"
      by (auto simp: aggregate_def Let_def)
    have sum: "u64_saturating_add ?cur incoming = ?cur + incoming"
      using small lim(1) by (simp add: u64_saturating_add_def u64_max_def i64_max_def)
    show ?thesis
    proof (cases "?cur + incoming \<le> watermark_bytes ?max (rc_cache_high_watermark (ca_runtime s))")
      case True
      with assms(3) ok agg sum have "t = ?u"
        by (simp add: reserve_capacity_locked_def Let_def)
      with True lim(3) assms(1) evicts_refl [of ?u p] show ?thesis by auto
    next
      case False
      obtain v d where ev: "evict_loop ln_1p p ?need now 0 ?u = (v, Inr d)" "evicts p ?u d v"
        using evict_loop_spec [of ?u 0 ln_1p p ?need now] assms(1) small by (auto simp: u64_max_def i64_max_def)
      have tv: "t = v" "r = Inr () \<longrightarrow> ?need \<le> d"
        using assms(3) ok agg sum ev(1) False
        by (auto simp: reserve_capacity_locked_def Let_def split: if_splits)
      have "?cur = entries_bytes (ca_entries v) + d" using ev(2) by (simp add: evicts_def)
      with tv sum lim small have "r = Inr () \<longrightarrow> entries_bytes (ca_entries t) + incoming \<le> ?max"
        by (auto simp: u64_saturating_sub_def)
      with ev(2) tv(1) show ?thesis by blast
    qed
  qed
  show "\<exists>u d. (u = s \<or> u = flush_hits now s) \<and> evicts p u d t" using P by blast
  show "r = Inr () \<Longrightarrow> entries_bytes (ca_entries t) + incoming \<le> ?max" using P by blast
qed

lemma insert_entry_fields [simp]:
  "ca_objects (insert_entry e s) = ca_objects s" "ca_active_flights (insert_entry e s) = ca_active_flights s"
  "ca_runtime (insert_entry e s) = ca_runtime s" "ca_root (insert_entry e s) = ca_root s"
  by (simp_all add: insert_entry_def)

lemma insert_entry_bytes:
  "distinct (map cr_key (ca_entries s)) \<Longrightarrow>
     entries_bytes (ca_entries (insert_entry e s)) \<le> entries_bytes (ca_entries s) + nat (max (cr_size_bytes e) 0)"
proof -
  have upd: "entries_bytes (map (\<lambda>x. if cr_key x = cr_key e then f x else x) es)
      \<le> entries_bytes es + nat (max (cr_size_bytes e) 0)"
    if "distinct (map cr_key es)" and f: "\<And>x. cr_size_bytes (f x) = cr_size_bytes e" for es f
    using that(1)
  proof (induction es)
    case (Cons y es)
    show ?case
    proof (cases "cr_key y = cr_key e")
      case True
      with Cons.prems have "cr_key e \<notin> cr_key ` set es" by simp
      then have "\<forall>x \<in> set es. cr_key x \<noteq> cr_key e" by (metis imageI)
      then have "map (\<lambda>x. if cr_key x = cr_key e then f x else x) es = es" by (simp add: map_idI)
      with True f show ?thesis by (simp add: entries_bytes_def)
    qed (use Cons in \<open>simp add: entries_bytes_def\<close>)
  qed (simp add: entries_bytes_def)
  assume "distinct (map cr_key (ca_entries s))"
  then show ?thesis
    unfolding insert_entry_def by (auto simp: entries_bytes_def [of "_ @ _"] intro!: upd)
      (simp add: entries_bytes_def)
qed

lemma insert_entry_ok:
  assumes "cache_ok s" and "valid_cache_key (cr_key e)" and "cr_path e = object_path s (cr_key e)"
    and "0 \<le> cr_size_bytes e" and "cr_size_bytes e \<le> int i64_max"
  shows "cache_ok (insert_entry e s)"
proof -
  have op: "object_path (insert_entry e s) = object_path s" by (rule object_path_cong) simp
  show ?thesis
  proof (cases "find_entry (cr_key e) s = None")
    case True
    then have "cr_key e \<notin> cr_key ` set (ca_entries s)" by (auto simp: find_entry_def find_None_iff)
    with True assms op show ?thesis by (auto simp: cache_ok_def insert_entry_def object_path_def)
  next
    case False
    have "map cr_key (ca_entries (insert_entry e s)) = map cr_key (ca_entries s)"
      using False by (simp add: insert_entry_def)
    with assms op False show ?thesis by (auto simp: cache_ok_def insert_entry_def object_path_def)
  qed
qed

lemma find_map_key:
  "(\<And>x. cr_key (f x) = cr_key x) \<Longrightarrow>
     List.find (\<lambda>x. cr_key x = k) (map f es) = map_option f (List.find (\<lambda>x. cr_key x = k) es)"
  by (induction es) auto

lemma find_flush: "(find_entry k (flush_hits now s) = None) = (find_entry k s = None)"
  unfolding find_entry_def flush_hits_def
  by (simp, subst find_map_key) (simp_all add: flush_entry_def split: option.split)

lemma find_insert_entry:
  "\<exists>x. find_entry (cr_key e) (insert_entry e s) = Some x \<and> cr_key x = cr_key e \<and> cr_path x = cr_path e
     \<and> cr_size_bytes x = cr_size_bytes e \<and> cr_media_type x = cr_media_type e \<and> cr_digest x = cr_digest e"
proof (cases "find_entry (cr_key e) s")
  case None
  have "List.find P xs = None \<Longrightarrow> P x \<Longrightarrow> List.find P (xs @ [x]) = Some x" for P x and xs :: "cache_record list"
    by (induction xs) (auto split: if_splits)
  with None show ?thesis by (simp add: insert_entry_def find_entry_def)
next
  case (Some y)
  have "cr_key y = cr_key e" using Some by (auto simp: find_entry_def find_Some_iff)
  then show ?thesis
    using Some by (simp add: insert_entry_def) (simp add: find_entry_def, subst find_map_key, simp_all)
qed

lemma admit_ok_spec:
  assumes "cache_ok s" and "runtime_ok (ca_runtime s)" and "valid_cache_key key"
    and "admit ln_1p key content media_type digest now s = (t, Inr obj)"
  shows "cache_ok t" and "entries_bytes (ca_entries t) \<le> rc_max_cache_bytes (ca_runtime s)"
    and "ca_runtime t = ca_runtime s" and "ca_objects t (object_path s key) = Some content"
    and "\<exists>x. find_entry key t = Some x \<and> cr_key x = key \<and> cr_path x = object_path s key
      \<and> cr_size_bytes x = int (length content) \<and> cr_media_type x = media_type \<and> cr_digest x = digest"
    and "obj = \<lparr>co_key = key, co_path = object_path s key, co_size = length content,
      co_media_type = media_type, co_digest = digest\<rparr>"
    and "length content \<le> i64_max"
proof -
  let ?s0 = "s\<lparr>ca_admissions_started := ca_admissions_started s + 1\<rparr>"
  obtain u where res: "reserve_capacity_locked ln_1p (length content) key now ?s0 = (u, Inr ())"
    using assms(4) by (auto simp: admit_def Let_def split: prod.splits sum.splits)
  have "cache_ok ?s0 = cache_ok s" by (simp add: cache_ok_def object_path_def)
  then have ok0: "cache_ok ?s0" "runtime_ok (ca_runtime ?s0)" using assms by simp_all
  have bytes: "entries_bytes (ca_entries u) + length content \<le> rc_max_cache_bytes (ca_runtime s)"
    using reserve_capacity_spec(2) [OF ok0 res] by simp
  have u: "cache_ok u" "ca_runtime u = ca_runtime s" "ca_root u = ca_root s"
    using reserve_capacity_spec(1) [OF ok0 res] by (auto simp: evicts_def)
  show len: "length content \<le> i64_max"
    using bytes assms(2) by (simp add: runtime_ok_def i64_max_def)
  let ?u1 = "fst (commit key content u)"
  let ?e = "\<lparr>cr_key = key, cr_media_type = media_type, cr_path = object_path s key,
      cr_size_bytes = int (length content), cr_digest = digest, cr_hit_count = 0, cr_created_at = now,
      cr_last_accessed_at = now\<rparr>"
  have op: "object_path u = object_path s" "object_path ?u1 = object_path s"
    using u(3) by (simp_all add: object_path_def commit_def fun_eq_iff)
  have t: "t = (insert_entry ?e ?u1)\<lparr>ca_admissions_succeeded := ca_admissions_succeeded (insert_entry ?e ?u1) + 1,
      ca_admitted_bytes := ca_admitted_bytes (insert_entry ?e ?u1) + length content\<rparr>"
    and obj: "obj = \<lparr>co_key = key, co_path = object_path s key, co_size = length content,
      co_media_type = media_type, co_digest = digest\<rparr>"
    using assms(4) res len op by (simp_all add: admit_def Let_def commit_def min_absorb1)
  have u1: "cache_ok ?u1" "ca_entries ?u1 = ca_entries u"
    using u(1) op by (simp_all add: cache_ok_def commit_def)
  have "cache_ok (insert_entry ?e ?u1)"
    using u1(1) assms(3) op len by (intro insert_entry_ok) simp_all
  then show "cache_ok t" unfolding t by (simp add: cache_ok_def object_path_def)
  have "entries_bytes (ca_entries (insert_entry ?e ?u1)) \<le> entries_bytes (ca_entries u) + length content"
    using insert_entry_bytes [of ?u1 ?e] u1 by (simp add: cache_ok_def)
  then show "entries_bytes (ca_entries t) \<le> rc_max_cache_bytes (ca_runtime s)"
    unfolding t using bytes by simp
  show "ca_runtime t = ca_runtime s" unfolding t using u(2) by (simp add: commit_def)
  show "ca_objects t (object_path s key) = Some content" unfolding t using op by (simp add: commit_def)
  show "\<exists>x. find_entry key t = Some x \<and> cr_key x = key \<and> cr_path x = object_path s key
      \<and> cr_size_bytes x = int (length content) \<and> cr_media_type x = media_type \<and> cr_digest x = digest"
    using find_insert_entry [of ?e ?u1] unfolding t by (simp add: find_entry_def)
  show "obj = \<lparr>co_key = key, co_path = object_path s key, co_size = length content,
      co_media_type = media_type, co_digest = digest\<rparr>" by (rule obj)
qed

lemma admit_err_spec:
  assumes "cache_ok s" and "runtime_ok (ca_runtime s)"
    and "admit ln_1p key content media_type digest now s = (t, Inl e)"
  shows "cache_ok t" and "entries_bytes (ca_entries t) \<le> entries_bytes (ca_entries s)"
    and "ca_runtime t = ca_runtime s"
proof -
  let ?s0 = "s\<lparr>ca_admissions_started := ca_admissions_started s + 1\<rparr>"
  obtain u where res: "reserve_capacity_locked ln_1p (length content) key now ?s0 = (u, Inl e)"
    and t: "t = u\<lparr>ca_admissions_failed := ca_admissions_failed u + 1\<rparr>"
    using assms(3) by (auto simp: admit_def Let_def split: prod.splits sum.splits)
  have "cache_ok ?s0 = cache_ok s" by (simp add: cache_ok_def object_path_def)
  then have ok0: "cache_ok ?s0" "runtime_ok (ca_runtime ?s0)" using assms by simp_all
  have "cache_ok u \<and> entries_bytes (ca_entries u) \<le> entries_bytes (ca_entries s) \<and> ca_runtime u = ca_runtime s"
    using reserve_capacity_spec(1) [OF ok0 res] by (auto simp: evicts_def)
  then show "cache_ok t" "entries_bytes (ca_entries t) \<le> entries_bytes (ca_entries s)" "ca_runtime t = ca_runtime s"
    unfolding t by (simp_all add: cache_ok_def object_path_def)
qed

text \<open>Without any assumption on the store: an admission stores what it was given, a failed one adds nothing.\<close>

lemma admit_stores:
  assumes "admit ln_1p key content media_type digest now s = (t, Inr obj)"
  shows "ca_objects t (co_path obj) = Some content" and "co_size obj = length content"
    and "co_digest obj = digest" and "co_key obj = key"
  using assms by (auto simp: admit_def Let_def commit_def object_path_def split: prod.splits sum.splits)

lemma cache_remove_objects_le: "cache_remove key s = Inr t \<Longrightarrow> ca_objects t \<subseteq>\<^sub>m ca_objects s"
  by (simp add: cache_remove_fields map_le_def)

lemma evict_entries_objects_le: "ca_objects (fst (evict_entries p need es f r s)) \<subseteq>\<^sub>m ca_objects s"
proof (induction es arbitrary: f r s)
  case (Cons e es)
  then show ?case
    by (auto simp: Let_def cache_remove_objects_le split: sum.split)
      (meson cache_remove_objects_le map_le_trans)
qed simp

lemma evict_loop_objects_le: "ca_objects (fst (evict_loop ln_1p p need now freed s)) \<subseteq>\<^sub>m ca_objects s"
proof (induction ln_1p p need now freed s rule: evict_loop.induct)
  case (1 ln_1p p need now freed s)
  have rd: "ca_objects (fst (eviction_round ln_1p p need now freed s)) \<subseteq>\<^sub>m ca_objects s"
    unfolding eviction_round_def Let_def by (rule evict_entries_objects_le)
  with 1 show ?case
    by (subst evict_loop.simps) (auto split: prod.splits sum.splits, metis map_le_trans)
qed

lemma admit_err_objects_le:
  assumes "admit ln_1p key content media_type digest now s = (t, Inl e)"
  shows "ca_objects t \<subseteq>\<^sub>m ca_objects s"
proof -
  let ?s0 = "s\<lparr>ca_admissions_started := ca_admissions_started s + 1\<rparr>"
  obtain u where res: "reserve_capacity_locked ln_1p (length content) key now ?s0 = (u, Inl e)"
    and t: "ca_objects t = ca_objects u"
    using assms by (auto simp: admit_def Let_def split: prod.splits sum.splits)
  have "u = ?s0 \<or> u = flush_hits now ?s0 \<or> (\<exists>need. u = fst (evict_loop ln_1p key need now 0 (flush_hits now ?s0)))"
    using res by (simp add: reserve_capacity_locked_def aggregate_def Let_def split: if_splits prod.splits sum.splits)
      (metis fst_conv)+
  then have "ca_objects u \<subseteq>\<^sub>m ca_objects s"
    using evict_loop_objects_le [of ln_1p key _ now 0 "flush_hits now ?s0"] by auto
  then show ?thesis unfolding t .
qed

section \<open>Runs\<close>

text \<open>
  Every operation on a store whose configuration does not change, in any order. A flight that admits holds
  a key that \<open>cache_key\<close> made.
\<close>

inductive cache_step :: "(f64 \<Rightarrow> f64) \<Rightarrow> cache_store \<Rightarrow> cache_store \<Rightarrow> bool" for ln_1p where
  got: "cache_step ln_1p s (fst (cache_get key now s))"
| locked: "cache_step ln_1p s (cache_lock key s)"
| unlocked: "cache_step ln_1p s (cache_unlock key s)"
| admitted: "valid_cache_key key \<Longrightarrow> cache_step ln_1p s (fst (admit ln_1p key content media_type digest now s))"
| removed: "cache_remove key s = Inr t \<Longrightarrow> cache_step ln_1p s t"
| cleared: "cache_step ln_1p s (fst (clear_all free s))"
| expired: "cache_step ln_1p s (fst (cleanup_expired now s))"
| listed: "cache_step ln_1p s (fst (list_entries limit now s))"
| counted: "cache_step ln_1p s (fst (cache_stats now s))"
| restarted: "cache_step ln_1p s (reconcile_startup (s\<lparr>ca_pending_hits := Map.empty, ca_active_flights := {}\<rparr>))"

definition cache_inv :: "cache_store \<Rightarrow> bool" where
  "cache_inv s \<longleftrightarrow> cache_ok s \<and> runtime_ok (ca_runtime s)
     \<and> entries_bytes (ca_entries s) \<le> rc_max_cache_bytes (ca_runtime s)"

text \<open>An operation that only drops rows, or changes hits, keeps the invariant.\<close>

definition shrinks :: "cache_store \<Rightarrow> cache_store \<Rightarrow> bool" where
  "shrinks s t \<longleftrightarrow> ca_runtime t = ca_runtime s \<and> ca_root t = ca_root s \<and>
     (\<exists>f P. ca_entries t = map f (filter P (ca_entries s)) \<and>
        (\<forall>e. cr_key (f e) = cr_key e \<and> cr_path (f e) = cr_path e \<and> cr_size_bytes (f e) = cr_size_bytes e))"

lemma entries_bytes_filter: "entries_bytes (filter P es) \<le> entries_bytes es"
  by (induction es) (auto simp: entries_bytes_def)

lemma shrinks_inv:
  assumes "shrinks s t" and "cache_inv s"
  shows "cache_inv t"
proof -
  from assms(1) obtain f P where t: "ca_runtime t = ca_runtime s" "ca_root t = ca_root s"
    "ca_entries t = map f (filter P (ca_entries s))"
    "\<forall>e. cr_key (f e) = cr_key e \<and> cr_path (f e) = cr_path e \<and> cr_size_bytes (f e) = cr_size_bytes e"
    by (auto simp: shrinks_def)
  let ?u = "s\<lparr>ca_entries := filter P (ca_entries s)\<rparr>"
  have "cache_ok ?u" using assms(2)
    by (auto simp: cache_inv_def cache_ok_def object_path_def intro: distinct_map_filter)
  with map_keeping_entries(1,2) [of f t ?u] t have "cache_ok t"
    "entries_bytes (ca_entries t) = entries_bytes (filter P (ca_entries s))" by simp_all
  with assms(2) t(1) entries_bytes_filter [of P "ca_entries s"] show ?thesis
    by (simp add: cache_inv_def)
qed

lemma shrinks_filter:
  "ca_runtime t = ca_runtime s \<Longrightarrow> ca_root t = ca_root s \<Longrightarrow> ca_entries t = filter P (ca_entries s) \<Longrightarrow> shrinks s t"
  unfolding shrinks_def by (intro conjI exI [of _ id] exI [of _ P]) simp_all

lemma shrinks_map:
  "ca_runtime t = ca_runtime s \<Longrightarrow> ca_root t = ca_root s \<Longrightarrow> ca_entries t = map f (ca_entries s) \<Longrightarrow>
   (\<And>e. cr_key (f e) = cr_key e \<and> cr_path (f e) = cr_path e \<and> cr_size_bytes (f e) = cr_size_bytes e) \<Longrightarrow> shrinks s t"
  unfolding shrinks_def by (intro conjI exI [of _ f] exI [of _ "\<lambda>_. True"]) simp_all

lemma shrinks_refl: "ca_runtime t = ca_runtime s \<Longrightarrow> ca_root t = ca_root s \<Longrightarrow> ca_entries t = ca_entries s \<Longrightarrow> shrinks s t"
  by (rule shrinks_map [where f = id]) simp_all

lemma shrinks_trans:
  assumes "shrinks s t" and "shrinks t u"
  shows "shrinks s u"
proof -
  obtain f P where f: "ca_entries t = map f (filter P (ca_entries s))"
    "\<forall>e. cr_key (f e) = cr_key e \<and> cr_path (f e) = cr_path e \<and> cr_size_bytes (f e) = cr_size_bytes e"
    using assms(1) unfolding shrinks_def by blast
  obtain g Q where g: "ca_entries u = map g (filter Q (ca_entries t))"
    "\<forall>e. cr_key (g e) = cr_key e \<and> cr_path (g e) = cr_path e \<and> cr_size_bytes (g e) = cr_size_bytes e"
    using assms(2) unfolding shrinks_def by blast
  have "ca_entries u = map (g \<circ> f) (filter (\<lambda>e. P e \<and> Q (f e)) (ca_entries s))"
    unfolding g(1) f(1) by (simp add: filter_map comp_def conj_commute)
  with assms f(2) g(2) show ?thesis unfolding shrinks_def
    by (intro conjI exI [of _ "g \<circ> f"] exI [of _ "\<lambda>e. P e \<and> Q (f e)"]) simp_all
qed

lemma shrinks_delete: "shrinks s (delete_entry key s)"
  by (rule shrinks_filter) simp_all

lemma shrinks_remove: "cache_remove key s = Inr t \<Longrightarrow> shrinks s t"
  by (rule shrinks_filter) (simp_all add: cache_remove_fields)

lemma shrinks_record_hit: "shrinks s (record_hit key now s)"
proof (cases "32 \<le> u64_saturating_add (case ca_pending_hits s key of None \<Rightarrow> 0 | Some c \<Rightarrow> c) 1")
  case True
  then show ?thesis
    by (intro shrinks_map [where f = "\<lambda>e. if cr_key e = key then e\<lparr>cr_hit_count := cr_hit_count e
          + int (min (u64_saturating_add (case ca_pending_hits s key of None \<Rightarrow> 0 | Some c \<Rightarrow> c) 1) i64_max),
          cr_last_accessed_at := now\<rparr> else e"])
      (simp_all add: record_hit_def add_cache_hits_def Let_def)
qed (simp add: record_hit_def Let_def shrinks_refl)

lemma shrinks_flush: "shrinks s (flush_hits now s)"
  by (rule shrinks_map [where f = "flush_entry now (ca_pending_hits s)"])
    (simp_all add: flush_hits_def flush_entry_def split: option.split)

lemma shrinks_get: "shrinks s (fst (cache_get key now s))"
  using shrinks_delete shrinks_record_hit shrinks_refl [of s s]
  by (simp add: cache_get_def split: option.splits)

lemma shrinks_clear_entries: "shrinks s (fst (clear_entries es freed s))"
proof (induction es arbitrary: freed s)
  case (Cons e es)
  let ?t = "delete_entry (cr_key e) (discard_pending_hits (cr_key e) (remove_indexed_path (cr_path e) s))"
  have "shrinks s ?t"
    by (rule shrinks_filter [where P = "\<lambda>x. cr_key x \<noteq> cr_key e"])
      (simp_all add: discard_pending_hits_def remove_indexed_path_def)
  with Cons show ?case by (auto intro: shrinks_trans)
qed (simp add: shrinks_refl)

lemma shrinks_expire_entries: "shrinks s (fst (expire_entries es freed removed s))"
proof (induction es arbitrary: freed removed s)
  case (Cons e es)
  then show ?case by (auto simp: shrinks_refl split: sum.split intro: shrinks_trans [OF shrinks_remove])
qed (simp add: shrinks_refl)

lemma shrinks_expire_loop: "shrinks s (fst (expire_loop cutoff freed s))"
proof (induction cutoff freed s rule: expire_loop.induct)
  case (1 cutoff freed s)
  have rd: "shrinks s (fst (expire_entries (expired_candidates cutoff 512 s) freed False s))"
    by (rule shrinks_expire_entries)
  with 1 show ?case
    by (subst expire_loop.simps)
      (auto simp: Let_def shrinks_refl split: prod.splits sum.splits intro: shrinks_trans)
qed

lemma cache_inv_step:
  assumes "cache_inv s" and "cache_step ln_1p s t"
  shows "cache_inv t"
  using assms(2)
proof cases
  case (got key now)
  then show ?thesis using assms(1) shrinks_get shrinks_inv by blast
next
  case (locked key)
  then have "shrinks s t" by (intro shrinks_refl) (simp_all add: cache_lock_def)
  then show ?thesis using assms(1) by (rule shrinks_inv)
next
  case (unlocked key)
  then have "shrinks s t" by (intro shrinks_refl) (simp_all add: cache_unlock_def)
  then show ?thesis using assms(1) by (rule shrinks_inv)
next
  case (admitted key content media_type digest now)
  obtain u r where a: "admit ln_1p key content media_type digest now s = (u, r)" by fastforce
  with admitted have "t = u" by simp
  have ok: "cache_ok s" "runtime_ok (ca_runtime s)" using assms(1) by (simp_all add: cache_inv_def)
  show ?thesis
  proof (cases r)
    case (Inl e)
    from admit_err_spec [OF ok a [unfolded Inl]] assms(1) \<open>t = u\<close> show ?thesis by (simp add: cache_inv_def)
  next
    case (Inr obj)
    from admit_ok_spec(1-3) [OF ok admitted(2) a [unfolded Inr]] assms(1) \<open>t = u\<close> show ?thesis
      by (simp add: cache_inv_def)
  qed
next
  case (removed key)
  then show ?thesis using assms(1) shrinks_remove shrinks_inv by blast
next
  case (cleared free)
  have "shrinks u (prune_orphans u)" for u by (rule shrinks_refl) (simp_all add: prune_orphans_def)
  then have "shrinks s t" unfolding cleared clear_all_def
    by (auto simp: shrinks_refl Let_def split: prod.split intro: shrinks_trans)
      (metis fst_conv shrinks_clear_entries shrinks_trans)
  then show ?thesis using assms(1) by (rule shrinks_inv)
next
  case (expired now)
  have "shrinks s t" unfolding expired cleanup_expired_def
    by (auto simp: shrinks_refl Let_def shrinks_flush split: option.split
        intro: shrinks_trans [OF shrinks_flush shrinks_expire_loop])
  then show ?thesis using assms(1) by (rule shrinks_inv)
next
  case (listed limit now)
  have "shrinks s t" unfolding listed by (simp add: list_entries_def Let_def shrinks_flush)
  then show ?thesis using assms(1) by (rule shrinks_inv)
next
  case (counted now)
  have "shrinks s t" unfolding counted by (simp add: cache_stats_def aggregate_def Let_def shrinks_flush)
  then show ?thesis using assms(1) by (rule shrinks_inv)
next
  case restarted
  let ?s = "s\<lparr>ca_pending_hits := Map.empty, ca_active_flights := {}\<rparr>"
  have "shrinks s t" unfolding restarted
    by (rule shrinks_filter [where P = "entry_file_valid ?s"])
      (simp_all add: reconcile_startup_def remove_unindexed_def Let_def)
  then show ?thesis using assms(1) by (rule shrinks_inv)
qed

interpretation cache_run: invariant_system "cache_step ln_1p" cache_inv for ln_1p
  by unfold_locales (rule cache_inv_step)

text \<open>The file name of an object path is its key.\<close>

lemma starts_with_slash: "starts_with ''/'' s \<longleftrightarrow> s \<noteq> [] \<and> hd s = CHR ''/''"
  by (cases s) (auto simp: starts_with_def)

lemma str_rfind_no_slash: "CHR ''/'' \<notin> set s \<Longrightarrow> str_rfind ''/'' s = None"
  by (induction s) (auto simp: starts_with_slash)

lemma str_rfind_last_slash: "CHR ''/'' \<notin> set k \<Longrightarrow> str_rfind ''/'' (a @ ''/'' @ k) = Some (length a)"
  by (induction a) (auto simp: starts_with_slash str_rfind_no_slash)

lemma file_name_last: "CHR ''/'' \<notin> set k \<Longrightarrow> file_name (a @ ''/'' @ k) = k"
  by (simp add: file_name_def rsplit_once_def str_rfind_last_slash del: append.simps)

lemma list_all_hexdigit_no_slash: "list_all is_ascii_hexdigit k \<Longrightarrow> CHR ''/'' \<notin> set k"
  by (auto simp: list_all_iff is_ascii_hexdigit_def is_ascii_digit_def)

section \<open>Properties\<close>

text \<open>
  C3: The disk cache stays within its capacity: from a store within its limit, every sequence of reads,
  admissions, removals, expiries, clearings and restarts leaves the indexed bytes at most \<open>max_cache_bytes\<close>,
  with one row per key and every row naming the object file of its key; for limits up to \<open>2^53\<close> bytes and
  watermarks that are fractions of it.
\<close>

theorem cache_capacity_bounded:
  assumes "(cache_step ln_1p)\<^sup>*\<^sup>* s t" and "cache_inv s"
  shows "entries_bytes (ca_entries t) \<le> rc_max_cache_bytes (ca_runtime t)
     \<and> distinct (map cr_key (ca_entries t))
     \<and> (\<forall>e \<in> set (ca_entries t). cr_path e = object_path t (cr_key e))"
  using cache_run.inv_run [OF assms] by (simp add: cache_inv_def cache_ok_def)

definition example_cache :: cache_store where
  "example_cache =
     \<lparr>ca_root = ''c'', ca_entries = [], ca_objects = Map.empty, ca_pending_hits = Map.empty,
      ca_active_flights = {},
      ca_runtime = \<lparr>rc_partial_ttl = 0, rc_cache_ttl = None, rc_max_cache_bytes = 100, rc_cache_policy = Lru,
        rc_cache_high_watermark = F64_Fin False 1, rc_cache_low_watermark = F64_Fin False 1,
        rc_public_bearer_cache_enabled = False\<rparr>,
      ca_admissions_started = 0, ca_admissions_succeeded = 0, ca_admissions_failed = 0, ca_admitted_bytes = 0\<rparr>"

lemma example_cache_inv: "cache_inv example_cache"
  by (simp add: cache_inv_def cache_ok_def runtime_ok_def fraction_def entries_bytes_def example_cache_def)

theorem cache_capacity_bounded_witness:
  "entries_bytes (ca_entries (fst (admit id (replicate 64 CHR ''a'') [1, 2, 3] ''m'' None 5 example_cache)))
     \<le> rc_max_cache_bytes (ca_runtime (fst (admit id (replicate 64 CHR ''a'') [1, 2, 3] ''m'' None 5 example_cache)))"
proof -
  have "valid_cache_key (replicate 64 CHR ''a'')" by (simp add: valid_cache_key_def list_all_iff is_ascii_hexdigit_def)
  then have "cache_step id example_cache (fst (admit id (replicate 64 CHR ''a'') [1, 2, 3] ''m'' None 5 example_cache))"
    by (rule cache_step.admitted)
  then have run: "(cache_step id)\<^sup>*\<^sup>* example_cache (fst (admit id (replicate 64 CHR ''a'') [1, 2, 3] ''m'' None 5 example_cache))"
    by (rule r_into_rtranclp)
  from cache_capacity_bounded [OF run example_cache_inv] show ?thesis by blast
qed

text \<open>
  C9: Admission and lookup round trip: after a successful admission a lookup of the key is a hit, it
  returns the object the admission returned, with the media type and digest of the admission, and the file
  at its path holds exactly the admitted bytes.
\<close>

theorem admit_get_roundtrip:
  assumes "cache_ok s" and "runtime_ok (ca_runtime s)" and "valid_cache_key key"
    and "admit ln_1p key content media_type digest now s = (t, Inr obj)"
  shows "snd (cache_get key now' t) = Some obj
     \<and> ca_objects (fst (cache_get key now' t)) (co_path obj) = Some content
     \<and> co_size obj = length content \<and> co_media_type obj = media_type \<and> co_digest obj = digest"
proof -
  note a = admit_ok_spec [OF assms]
  obtain x where x: "find_entry key t = Some x" "cr_key x = key" "cr_path x = object_path s key"
    "cr_size_bytes x = int (length content)" "cr_media_type x = media_type" "cr_digest x = digest"
    using a(5) by blast
  have "length content < 2 ^ 64" using a(7) by (simp add: i64_max_def)
  then have "i64_as_u64 (int (length content)) = length content"
    by (simp add: i64_as_u64_def nat_mod_distrib)
  moreover have "ca_objects (record_hit key now' t) = ca_objects t"
    by (simp add: record_hit_def add_cache_hits_def Let_def)
  ultimately show ?thesis using x a(4,6) by (simp add: cache_get_def)
qed

text \<open>An admission into an empty store below its high watermark.\<close>

lemma example_admit:
  "\<exists>t obj. admit id key [1, 2, 3] media_type digest 5 (example_cache\<lparr>ca_active_flights := flights\<rparr>) = (t, Inr obj)"
proof -
  let ?e = "example_cache\<lparr>ca_active_flights := flights\<rparr>"
  let ?s = "?e\<lparr>ca_admissions_started := ca_admissions_started ?e + 1\<rparr>"
  have n: "f64_of_nat 100 = F64_Fin False 100" using f64_of_nat_small [of 100] by simp
  have "f64_round False (100 * 1) = F64_Fin False 100"
    using f64_round_small [of 100 100 False] f64_rnd_of_nat [of 100] by simp
  then have "watermark_bytes 100 (F64_Fin False 1) = 100" by (simp add: watermark_bytes_def n u64_max_def)
  then have "reserve_capacity_locked id 3 key 5 ?s = (flush_hits 5 ?s, Inr ())"
    by (simp add: reserve_capacity_locked_def aggregate_def Let_def example_cache_def flush_hits_def
        entries_bytes_def entries_hits_def u64_arith)
  then show ?thesis by (simp add: admit_def Let_def commit_def numeral_3_eq_3)
qed

theorem admit_get_roundtrip_witness:
  "\<exists>t obj. admit id (replicate 64 CHR ''a'') [1, 2, 3] ''m'' None 5 example_cache = (t, Inr obj)
     \<and> snd (cache_get (replicate 64 CHR ''a'') 9 t) = Some obj \<and> co_size obj = 3"
proof -
  obtain t obj where a: "admit id (replicate 64 CHR ''a'') [1, 2, 3] ''m'' None 5 example_cache = (t, Inr obj)"
    using example_admit [of "replicate 64 CHR ''a''" "''m''" None "{}"]
    by (auto simp: example_cache_def)
  have "valid_cache_key (replicate 64 CHR ''a'')" by (simp add: valid_cache_key_def list_all_iff is_ascii_hexdigit_def)
  moreover have "cache_ok example_cache" "runtime_ok (ca_runtime example_cache)"
    using example_cache_inv by (simp_all add: cache_inv_def)
  ultimately show ?thesis using a admit_get_roundtrip [OF _ _ _ a, of 9] by auto
qed

text \<open>
  C12: Admission is safe for concurrent downloads: whatever it evicts, and whether it succeeds or not, the
  object file of every other key with a flight in progress is untouched and its row stays.
\<close>

theorem admission_spares_active_flights:
  assumes "cache_ok s" and "runtime_ok (ca_runtime s)" and "valid_cache_key key"
    and "k \<in> ca_active_flights s" and "valid_cache_key k" and "k \<noteq> key"
    and "admit ln_1p key content media_type digest now s = (t, r)"
  shows "ca_objects t (object_path s k) = ca_objects s (object_path s k)
     \<and> (find_entry k t = None \<longleftrightarrow> find_entry k s = None)"
proof -
  let ?s0 = "s\<lparr>ca_admissions_started := ca_admissions_started s + 1\<rparr>"
  obtain u q where res: "reserve_capacity_locked ln_1p (length content) key now ?s0 = (u, q)" by fastforce
  have "cache_ok ?s0 = cache_ok s" by (simp add: cache_ok_def object_path_def)
  then have ok0: "cache_ok ?s0" "runtime_ok (ca_runtime ?s0)" using assms by simp_all
  obtain v d where v: "v = ?s0 \<or> v = flush_hits now ?s0" and ev: "evicts key v d u"
    using reserve_capacity_spec(1) [OF ok0 res] by blast
  have same: "object_path v = object_path s" "object_path u = object_path s" "ca_active_flights v = ca_active_flights s"
    "ca_objects v = ca_objects s"
    using v ev by (auto simp: object_path_def fun_eq_iff evicts_def)
  have flushed: "(find_entry k v = None) = (find_entry k s = None)"
    using v find_flush [of k now ?s0] by (auto simp: find_entry_def)
  have u: "find_entry k u = find_entry k v" "ca_objects u (object_path s k) = ca_objects s (object_path s k)"
    using ev assms(4,5) same unfolding evicts_def by auto
  have ne: "object_path s k \<noteq> object_path s key"
    using object_path_inj assms(3,5,6) by (auto simp: valid_cache_key_def)
  have find: "find_entry k (insert_entry e w) = None \<longleftrightarrow> find_entry k w = None" if "cr_key e = key" for e w
    using that assms(6) by (auto simp: insert_entry_def find_entry_def find_None_iff)
  show ?thesis
  proof (cases q)
    case (Inl e)
    with assms(7) res u flushed show ?thesis by (auto simp: admit_def Let_def find_entry_def)
  next
    case (Inr x)
    with assms(7) res u flushed ne same find show ?thesis
      by (auto simp: admit_def Let_def commit_def find_entry_def)
  qed
qed

theorem admission_spares_active_flights_witness:
  "ca_objects (fst (admit id (replicate 64 CHR ''a'') [1, 2, 3] ''m'' None 5
      (cache_lock (replicate 64 CHR ''b'') example_cache))) (object_path example_cache (replicate 64 CHR ''b'')) = None"
proof -
  let ?s = "cache_lock (replicate 64 CHR ''b'') example_cache"
  have "cache_inv ?s" using example_cache_inv cache_inv_step cache_step.locked by blast
  then have "cache_ok ?s" "runtime_ok (ca_runtime ?s)" by (simp_all add: cache_inv_def)
  then have "ca_objects (fst (admit id (replicate 64 CHR ''a'') [1, 2, 3] ''m'' None 5 ?s))
      (object_path ?s (replicate 64 CHR ''b'')) = ca_objects ?s (object_path ?s (replicate 64 CHR ''b''))"
    using admission_spares_active_flights [of ?s "replicate 64 CHR ''a''" "replicate 64 CHR ''b''" id "[1, 2, 3]"
        "''m''" None 5 "fst (admit id (replicate 64 CHR ''a'') [1, 2, 3] ''m'' None 5 ?s)"
        "snd (admit id (replicate 64 CHR ''a'') [1, 2, 3] ''m'' None 5 ?s)"]
    by (simp add: valid_cache_key_def list_all_iff is_ascii_hexdigit_def cache_lock_def)
  then show ?thesis by (simp add: cache_lock_def example_cache_def object_path_def)
qed

lemma string_bytes_inj: "string_bytes a = string_bytes b \<longleftrightarrow> a = b"
  unfolding string_bytes_def by (rule inj_eq) (metis inj_mapI inj_of_char)

lemma append_sep_inj:
  "z \<notin> set a \<Longrightarrow> z \<notin> set b \<Longrightarrow> a @ z # x = b @ z # y \<longleftrightarrow> a = b \<and> x = y"
proof (induction a arbitrary: b)
  case Nil
  then show ?case by (cases b) auto
next
  case (Cons c a)
  then show ?case by (cases b) auto
qed

text \<open>
  C13: Cache keys separate what must not be shared: two requests hash the same input exactly when they have
  the same scope, the same identity (the Blob digest when the path names one, whatever the repository and
  the query, and else the path) and the same authorization, where a bearer token counts as none only on
  routes for which public bearer caching is enabled. Scopes and paths contain no NUL byte.
\<close>

theorem cache_key_isolation:
  assumes "0 \<notin> set (string_bytes scope)" "0 \<notin> set (string_bytes scope')"
    and "0 \<notin> set (string_bytes (public_identity path))" "0 \<notin> set (string_bytes (public_identity path'))"
  shows "key_input scope path auth pub = key_input scope' path' auth' pub' \<longleftrightarrow>
     scope = scope' \<and> public_identity path = public_identity path'
     \<and> (case effective_authorization auth pub of None \<Rightarrow> [] | Some v \<Rightarrow> v)
       = (case effective_authorization auth' pub' of None \<Rightarrow> [] | Some v \<Rightarrow> v)"
proof -
  have auth: "(case effective_authorization a p of None \<Rightarrow> [] | Some v \<Rightarrow> string_bytes v)
      = string_bytes (case effective_authorization a p of None \<Rightarrow> [] | Some v \<Rightarrow> v)" for a p
    by (simp add: string_bytes_def split: option.split)
  show ?thesis
    unfolding key_input_def auth using assms by (simp add: append_sep_inj string_bytes_inj)
qed

theorem cache_key_isolation_witness:
  "key_input ''r1'' ''/v2/a/x'' (Some ''Basic q'') True \<noteq> key_input ''r1'' ''/v2/a/x'' None True
   \<and> key_input ''r1'' ''/v2/a/x'' (Some ''Bearer q'') True = key_input ''r1'' ''/v2/a/x'' None True"
proof -
  have b: "is_bearer ''Bearer q''" "\<not> is_bearer ''Basic q''" by code_simp+
  have i: "0 \<notin> set (string_bytes ''r1'')" "0 \<notin> set (string_bytes (public_identity ''/v2/a/x''))"
    by code_simp+
  show ?thesis
    using cache_key_isolation [OF i(1) i(1) i(2) i(2), of "Some ''Basic q''" True None True]
      cache_key_isolation [OF i(1) i(1) i(2) i(2), of "Some ''Bearer q''" True None True] b
    by (simp add: effective_authorization_def)
qed

text \<open>
  Recovery at start leaves an index and an object directory that agree: every row kept has its file with
  the recorded size, every object file kept belongs to a row, and no row with a valid file is lost.
\<close>

lemma reconcile_agrees:
  assumes "cache_ok s"
  shows "(\<forall>e \<in> set (ca_entries (reconcile_startup s)). \<exists>content.
            ca_objects (reconcile_startup s) (cr_path e) = Some content
            \<and> int (length content) = cr_size_bytes e)
     \<and> (\<forall>p. ca_objects (reconcile_startup s) p \<noteq> None \<longrightarrow>
            file_name p \<in> cr_key ` set (ca_entries (reconcile_startup s)))
     \<and> set (ca_entries (reconcile_startup s)) = {e \<in> set (ca_entries s). entry_file_valid s e}"
proof -
  have name: "file_name (cr_path e) = cr_key e" if "e \<in> set (ca_entries s)" for e
  proof -
    have "cr_path e = (ca_root s @ ''/objects/'' @ take 2 (cr_key e)) @ ''/'' @ cr_key e"
      and "list_all is_ascii_hexdigit (cr_key e)"
      using that assms by (auto simp: cache_ok_def object_path_def valid_cache_key_def)
    then show ?thesis using file_name_last by (metis list_all_hexdigit_no_slash)
  qed
  have sz: "int (length content) = cr_size_bytes e"
    if "e \<in> set (ca_entries s)" "length content = nat (max (cr_size_bytes e) 0)" for e and content :: bytes
    using that assms by (auto simp: cache_ok_def)
  show ?thesis
    using name sz
    by (auto simp: reconcile_startup_def remove_unindexed_def Let_def entry_file_valid_def
        split: option.splits if_splits)
qed

end
