(* ===== verification/Blob_Fetch.thy ===== *)
theory Blob_Fetch
  imports Scheduler_Core Node_Selection Cache_Store
begin

text \<open>
  The executor of \<^verbatim>\<open>src/src/scheduler.rs\<close>: capability detection, the chunked, whole and resumed
  downloads, the recovery from a wrong digest, and \<open>fetch_blob\<close> around them.

  The environment record holds what the executor does not control: the answer to the n-th upstream request
  (\<open>UpstreamService::send\<close> and the network behind it, any behaviour at all), the clock, the requests of
  other tasks that free node slots while a loop waits, the order in which concurrent probes and chunks
  complete, and the library functions (SHA-256, the \<open>Content-Range\<close> parser, the texts of a status and of a
  UUID, the backoff, the logarithm). The world record is the state: selector, temporary files, counters, the
  log of the transfers reported to the node service, the capability cache and the disk cache. The loops that
  wait for capacity take fuel, the number of rounds; \<open>None\<close> is a download that has not returned yet. File
  operations do not fail, except on missing files.
\<close>

section \<open>Environment and world\<close>

datatype http_method = GET | HEAD

datatype range_mode = Suppress | ForwardClient | Exact nat nat

record fetch_request =
  rq_path :: string
  rq_headers :: headers

record 'b fetch_env =
  fe_send :: "nat \<Rightarrow> node_view \<Rightarrow> http_method \<Rightarrow> fetch_request \<Rightarrow> range_mode \<Rightarrow> response api_result"
  fe_now :: "nat \<Rightarrow> instant"
  fe_elapsed :: "nat \<Rightarrow> duration"
  fe_utc :: "nat \<Rightarrow> timestamp"
  fe_wait :: "nat \<Rightarrow> node_capacity \<Rightarrow> node_capacity"
  fe_lock_wait :: "nat \<Rightarrow> cache_store \<Rightarrow> cache_store"
  fe_probe_order :: "node_view list \<Rightarrow> node_view list"
  fe_probe_timeout :: "nat \<Rightarrow> bool"
  fe_capability_kept :: "nat \<Rightarrow> bool"
  fe_completion :: "chunk list \<Rightarrow> chunk list"
  fe_sha256 :: "bytes \<Rightarrow> bytes"
  fe_sha256_hex :: "bytes \<Rightarrow> string"
  fe_parse_range :: "string \<Rightarrow> content_range option"
  fe_status_text :: "nat \<Rightarrow> string"
  fe_uuid_text :: "uuid \<Rightarrow> string"
  fe_ln :: "f64 \<Rightarrow> f64"
  fe_ln_1p :: "f64 \<Rightarrow> f64"
  fe_new_backoff :: 'b
  fe_next_backoff :: "'b \<Rightarrow> duration option \<times> 'b"

text \<open>The files of the partial directory of a key: the object, and one part per byte range.\<close>

datatype temp_path = Partial_Object string | Part string nat nat nat

fun temp_key :: "temp_path \<Rightarrow> string" where
  "temp_key (Partial_Object key) = key"
| "temp_key (Part key _ _ _) = key"

record 'b fetch_world =
  fw_selector :: "'b node_selector"
  fw_files :: "temp_path \<rightharpoonup> bytes"
  fw_tick :: nat
  fw_parallel_blobs :: nat
  fw_resume_attempts :: nat
  fw_retry_attempts :: nat
  fw_last_chunk_size :: nat
  fw_transfers :: "(uuid \<times> nat \<times> bool) list"
  fw_live_bytes :: "(uuid \<times> nat) list"
  fw_capabilities :: "(uuid \<times> int \<times> string) \<rightharpoonup> blob_capabilities"
  fw_cache :: cache_store

definition file_len :: "temp_path \<Rightarrow> 'b fetch_world \<Rightarrow> nat option" where
  "file_len p w = map_option length (fw_files w p)"

definition remove_file :: "temp_path \<Rightarrow> 'b fetch_world \<Rightarrow> 'b fetch_world" where
  "remove_file p w = w\<lparr>fw_files := (fw_files w)(p := None)\<rparr>"

definition record_retry :: "'b fetch_world \<Rightarrow> 'b fetch_world" where
  "record_retry w = w\<lparr>fw_retry_attempts := fw_retry_attempts w + 1\<rparr>"

definition record_resume :: "'b fetch_world \<Rightarrow> 'b fetch_world" where
  "record_resume w = w\<lparr>fw_resume_attempts := fw_resume_attempts w + 1\<rparr>"

definition record_parallel_blob :: "nat \<Rightarrow> 'b fetch_world \<Rightarrow> 'b fetch_world" where
  "record_parallel_blob cs w =
     w\<lparr>fw_parallel_blobs := fw_parallel_blobs w + 1, fw_last_chunk_size := cs\<rparr>"

definition record_transfer :: "uuid \<Rightarrow> nat \<Rightarrow> bool \<Rightarrow> 'b fetch_world \<Rightarrow> 'b fetch_world" where
  "record_transfer node_id n success w = w\<lparr>fw_transfers := fw_transfers w @ [(node_id, n, success)]\<rparr>"

definition observe_node :: "'b fetch_env \<Rightarrow> uuid \<Rightarrow> nat \<Rightarrow> bool \<Rightarrow> 'b fetch_world \<Rightarrow> 'b fetch_world" where
  "observe_node env node_id n success w =
     w\<lparr>fw_selector := observe (fe_new_backoff env) (fe_next_backoff env) (fe_now env (fw_tick w)) node_id n
         (fe_elapsed env (fw_tick w)) success (fw_selector w)\<rparr>"

definition ordered_nodes_with_context ::
  "'b fetch_env \<Rightarrow> node_view list \<Rightarrow> schedule_context \<Rightarrow> scheduler_policy \<Rightarrow> 'b fetch_world
     \<Rightarrow> 'b fetch_world \<times> node_view list" where
  "ordered_nodes_with_context env nodes context policy w =
     (let (sel, ns) = order_with_context (fe_ln env) (fe_now env (fw_tick w)) nodes context policy (fw_selector w)
      in (w\<lparr>fw_selector := sel\<rparr>, ns))"

definition upstream_send ::
  "'b fetch_env \<Rightarrow> node_view \<Rightarrow> http_method \<Rightarrow> fetch_request \<Rightarrow> range_mode \<Rightarrow> 'b fetch_world
     \<Rightarrow> 'b fetch_world \<times> response api_result" where
  "upstream_send env node method rq rmode w =
     (w\<lparr>fw_tick := fw_tick w + 1\<rparr>, fe_send env (fw_tick w) node method rq rmode)"

text \<open>A wait for capacity: time passes and other tasks change the slots.\<close>

definition capacity_wait :: "'b fetch_env \<Rightarrow> 'b fetch_world \<Rightarrow> 'b fetch_world" where
  "capacity_wait env w =
     w\<lparr>fw_tick := fw_tick w + 1,
       fw_selector := (fw_selector w)\<lparr>se_capacity := fe_wait env (fw_tick w) (se_capacity (fw_selector w))\<rparr>\<rparr>"

section \<open>Receiving a body\<close>

text \<open>
  The loop shared by \<open>stream_response_to_file\<close> and \<open>append_response_to_file\<close>: the content written so far,
  the lengths reported as live bytes, and the result.
\<close>

fun receive_frames ::
  "(string + bytes) list \<Rightarrow> nat option \<Rightarrow> nat \<Rightarrow> bytes \<Rightarrow> nat list \<Rightarrow> bytes \<times> nat list \<times> unit api_result" where
  "receive_frames [] expected received content live =
     (content, live, case expected of
        None \<Rightarrow> Inr () | Some e \<Rightarrow> if e \<noteq> received then Inl Integrity else Inr ())"
| "receive_frames (Inl e # frames) expected received content live = (content, live, Inl (Upstream e))"
| "receive_frames (Inr frame # frames) expected received content live =
     (let received' = u64_saturating_add received (length frame) in
      if (case expected of None \<Rightarrow> False | Some e \<Rightarrow> e < received') then (content, live, Inl Integrity)
      else receive_frames frames expected received' (content @ frame) (live @ [length frame]))"

definition write_received ::
  "temp_path \<Rightarrow> uuid \<Rightarrow> bytes \<Rightarrow> response \<Rightarrow> nat option \<Rightarrow> 'b fetch_world \<Rightarrow> 'b fetch_world \<times> unit api_result" where
  "write_received destination node_id initial r expected w =
     (let (content, live, result) = receive_frames (re_body r) expected 0 initial []
      in (w\<lparr>fw_files := (fw_files w)(destination \<mapsto> content),
            fw_live_bytes := fw_live_bytes w @ map (Pair node_id) live\<rparr>, result))"

definition stream_response_to_file ::
  "response \<Rightarrow> temp_path \<Rightarrow> nat option \<Rightarrow> uuid \<Rightarrow> 'b fetch_world \<Rightarrow> 'b fetch_world \<times> unit api_result" where
  "stream_response_to_file r destination expected node_id w = write_received destination node_id [] r expected w"

definition append_response_to_file ::
  "response \<Rightarrow> temp_path \<Rightarrow> nat \<Rightarrow> uuid \<Rightarrow> 'b fetch_world \<Rightarrow> 'b fetch_world \<times> unit api_result" where
  "append_response_to_file r destination expected node_id w =
     (case fw_files w destination of
        None \<Rightarrow> (w, Inl (Io ''NotFound''))
      | Some content \<Rightarrow> write_received destination node_id content r (Some expected) w)"

section \<open>The loop over the nodes\<close>

text \<open>
  The body of the three download loops is the same: skip a node without a free slot, transfer, report the
  outcome, return on success, and on an error count a retry, drop a file that failed its integrity check and
  go on. A transfer either ends the whole download (\<open>Stop\<close>) or is one attempt that started from a file of
  the given length.
\<close>

datatype attempt = Stop "unit api_result" | Attempted nat "unit api_result"

datatype loop_exit = Returned "unit api_result" | Exhausted bool "app_error option"

definition release_lease :: "node_lease \<Rightarrow> 'b fetch_world \<Rightarrow> 'b fetch_world" where
  "release_lease lease w =
     w\<lparr>fw_selector := (fw_selector w)\<lparr>se_capacity := drop_node_lease lease (se_capacity (fw_selector w))\<rparr>\<rparr>"

definition settle_attempt ::
  "'b fetch_env \<Rightarrow> temp_path \<Rightarrow> node_lease \<Rightarrow> uuid \<Rightarrow> nat \<Rightarrow> bool \<Rightarrow> 'b fetch_world \<Rightarrow> 'b fetch_world" where
  "settle_attempt env destination lease node_id existing success w =
     (let n = (case file_len destination w of None \<Rightarrow> 0 | Some l \<Rightarrow> u64_saturating_sub l existing)
      in record_transfer node_id n success (release_lease lease (observe_node env node_id n success w)))"

definition after_error :: "temp_path \<Rightarrow> app_error \<Rightarrow> 'b fetch_world \<Rightarrow> 'b fetch_world" where
  "after_error destination e w =
     (let w' = record_retry w in if e = Integrity then remove_file destination w' else w')"

fun try_nodes ::
  "'b fetch_env \<Rightarrow> temp_path \<Rightarrow> (node_view \<Rightarrow> 'b fetch_world \<Rightarrow> 'b fetch_world \<times> attempt) \<Rightarrow> node_view list
     \<Rightarrow> bool \<Rightarrow> app_error option \<Rightarrow> 'b fetch_world \<Rightarrow> 'b fetch_world \<times> loop_exit" where
  "try_nodes env destination transfer [] attempted last_error w = (w, Exhausted attempted last_error)"
| "try_nodes env destination transfer (node # nodes) attempted last_error w =
     (case selector_try_acquire (nd_id (nv_node node)) (nv_max_concurrency node) (fw_selector w) of
        (sel, None) \<Rightarrow>
          try_nodes env destination transfer nodes attempted last_error (w\<lparr>fw_selector := sel\<rparr>)
      | (sel, Some lease) \<Rightarrow>
          (case transfer node (w\<lparr>fw_selector := sel\<rparr>) of
             (w1, Stop r) \<Rightarrow> (release_lease lease w1, Returned r)
           | (w1, Attempted existing (Inr _)) \<Rightarrow>
               (settle_attempt env destination lease (nd_id (nv_node node)) existing True w1, Returned (Inr ()))
           | (w1, Attempted existing (Inl e)) \<Rightarrow>
               try_nodes env destination transfer nodes True (Some e)
                 (after_error destination e
                    (settle_attempt env destination lease (nd_id (nv_node node)) existing False w1))))"

text \<open>
  One \<open>loop\<close>: it repeats after a wait as long as no node had a free slot. \<open>prepare\<close> is the head of the loop
  body, which gives the candidates or returns.
\<close>

fun group_loop ::
  "nat \<Rightarrow> 'b fetch_env \<Rightarrow> temp_path \<Rightarrow> ('b fetch_world \<Rightarrow> 'b fetch_world \<times> (unit api_result + node_view list))
     \<Rightarrow> (node_view \<Rightarrow> 'b fetch_world \<Rightarrow> 'b fetch_world \<times> attempt) \<Rightarrow> app_error option \<Rightarrow> 'b fetch_world
     \<Rightarrow> ('b fetch_world \<times> loop_exit) option" where
  "group_loop 0 env destination prepare transfer last_error w = None"
| "group_loop (Suc fuel) env destination prepare transfer last_error w =
     (case prepare w of
        (w1, Inl r) \<Rightarrow> Some (w1, Returned r)
      | (w1, Inr candidates) \<Rightarrow>
          (case try_nodes env destination transfer candidates False last_error w1 of
             (w2, Exhausted False last_error') \<Rightarrow>
               group_loop fuel env destination prepare transfer last_error' (capacity_wait env w2)
           | (w2, exit) \<Rightarrow> Some (w2, exit)))"

fun groups_loop ::
  "nat \<Rightarrow> 'b fetch_env \<Rightarrow> temp_path
     \<Rightarrow> (node_view list \<Rightarrow> 'b fetch_world \<Rightarrow> 'b fetch_world \<times> (unit api_result + node_view list))
     \<Rightarrow> (node_view \<Rightarrow> 'b fetch_world \<Rightarrow> 'b fetch_world \<times> attempt) \<Rightarrow> node_view list list \<Rightarrow> app_error option
     \<Rightarrow> 'b fetch_world \<Rightarrow> ('b fetch_world \<times> loop_exit) option" where
  "groups_loop fuel env destination prepare transfer [] last_error w = Some (w, Exhausted False last_error)"
| "groups_loop fuel env destination prepare transfer (grp # grps) last_error w =
     (if grp = [] then groups_loop fuel env destination prepare transfer grps last_error w
      else
        case group_loop fuel env destination (prepare grp) transfer last_error w of
          None \<Rightarrow> None
        | Some (w1, Returned r) \<Rightarrow> Some (w1, Returned r)
        | Some (w1, Exhausted _ last_error') \<Rightarrow>
            groups_loop fuel env destination prepare transfer grps last_error' w1)"

text \<open>The end of a download: the result, or the last error, or the message for no attempt at all.\<close>

definition finish_loop :: "string \<Rightarrow> 'b fetch_world \<times> loop_exit \<Rightarrow> 'b fetch_world \<times> unit api_result" where
  "finish_loop message e =
     (fst e, case snd e of
        Returned r \<Rightarrow> r
      | Exhausted _ (Some err) \<Rightarrow> Inl err
      | Exhausted _ None \<Rightarrow> Inl (Upstream message))"

section \<open>Chunks\<close>

definition chunk_transfer ::
  "'b fetch_env \<Rightarrow> fetch_request \<Rightarrow> chunk \<Rightarrow> temp_path \<Rightarrow> node_view \<Rightarrow> 'b fetch_world \<Rightarrow> 'b fetch_world \<times> attempt" where
  "chunk_transfer env rq chunk destination node w =
     (let existing = (case file_len destination w of None \<Rightarrow> 0 | Some l \<Rightarrow> l);
          cs = ch_end chunk - ch_start chunk + 1
      in
      if cs < existing then (remove_file destination w, Attempted existing (Inl Integrity))
      else
        let start = ch_start chunk + existing in
        if ch_end chunk < start then (w, Attempted existing (Inr ()))
        else
          case upstream_send env node GET rq (Exact start (ch_end chunk)) w of
            (w1, Inl e) \<Rightarrow> (w1, Attempted existing (Inl e))
          | (w1, Inr r) \<Rightarrow>
              if re_status r \<noteq> 206 then
                (w1, Attempted existing (Inl (Upstream
                   (nd_name (nv_node node) @ '' ignored Range with status '' @ fe_status_text env (re_status r)))))
              else
                let expected = ch_end chunk - start + 1 in
                if re_content_length r \<noteq> Some expected then (w1, Attempted existing (Inl Integrity))
                else if \<not> content_range_matches (fe_parse_range env) (re_headers r) start (ch_end chunk)
                            (ch_total_size chunk)
                then (w1, Attempted existing (Inl Integrity))
                else
                  let (w2, result) =
                    (if 0 < existing
                     then append_response_to_file r destination expected (nd_id (nv_node node)) w1
                     else stream_response_to_file r destination (Some expected) (nd_id (nv_node node)) w1)
                  in (w2, Attempted existing result))"

definition download_chunk ::
  "nat \<Rightarrow> 'b fetch_env \<Rightarrow> node_view list \<Rightarrow> fetch_request \<Rightarrow> chunk \<Rightarrow> temp_path \<Rightarrow> scheduler_policy \<Rightarrow> 'b fetch_world
     \<Rightarrow> ('b fetch_world \<times> unit api_result) option" where
  "download_chunk fuel env nodes rq chunk destination policy w =
     map_option (finish_loop ''all nodes failed a chunk'')
       (group_loop fuel env destination
          (\<lambda>w. apsnd Inr (ordered_nodes_with_context env nodes
             \<lparr>sx_sequence = sequence_for (fe_sha256 env) (rq_path rq) (ch_index chunk),
              sx_blob_size = ch_total_size chunk, sx_range_required = True,
              sx_chunk = Some (ch_start chunk, ch_end chunk)\<rparr> policy w))
          (chunk_transfer env rq chunk destination) None w)"

definition part_path :: "string \<Rightarrow> chunk \<Rightarrow> temp_path" where
  "part_path key chunk = Part key (ch_total_size chunk) (ch_start chunk) (ch_end chunk)"

text \<open>
  The chunk tasks, in the order in which they complete. They work on files of their own, so a run is
  determined by that order and the answers they get; every task runs to its end before the results are read.
\<close>

definition chunk_task ::
  "nat \<Rightarrow> 'b fetch_env \<Rightarrow> node_view list \<Rightarrow> fetch_request \<Rightarrow> string \<Rightarrow> scheduler_policy \<Rightarrow> chunk \<Rightarrow> 'b fetch_world
     \<Rightarrow> ('b fetch_world \<times> unit api_result) option" where
  "chunk_task fuel env nodes rq key policy chunk w =
     (if file_len (part_path key chunk) w = Some (ch_end chunk - ch_start chunk + 1) then Some (w, Inr ())
      else download_chunk fuel env nodes rq chunk (part_path key chunk) policy w)"

fun run_chunks ::
  "nat \<Rightarrow> 'b fetch_env \<Rightarrow> node_view list \<Rightarrow> fetch_request \<Rightarrow> string \<Rightarrow> scheduler_policy \<Rightarrow> chunk list \<Rightarrow> 'b fetch_world
     \<Rightarrow> ('b fetch_world \<times> (chunk \<times> unit api_result) list) option" where
  "run_chunks fuel env nodes rq key policy [] w = Some (w, [])"
| "run_chunks fuel env nodes rq key policy (chunk # cs) w =
     (case chunk_task fuel env nodes rq key policy chunk w of
        None \<Rightarrow> None
      | Some (w1, r) \<Rightarrow>
          map_option (apsnd (Cons (chunk, r))) (run_chunks fuel env nodes rq key policy cs w1))"

text \<open>The first error in completion order; else the part of each index.\<close>

fun collect_parts :: "string \<Rightarrow> (chunk \<times> unit api_result) list \<Rightarrow> temp_path option list \<Rightarrow> temp_path option list api_result" where
  "collect_parts key [] ordered = Inr ordered"
| "collect_parts key ((chunk, Inl e) # results) ordered = Inl e"
| "collect_parts key ((chunk, Inr _) # results) ordered =
     collect_parts key results (ordered[ch_index chunk := Some (part_path key chunk)])"

fun merge_parts ::
  "temp_path \<Rightarrow> temp_path option list \<Rightarrow> bytes \<Rightarrow> 'b fetch_world \<Rightarrow> 'b fetch_world \<times> unit api_result" where
  "merge_parts merged [] output w = (w\<lparr>fw_files := (fw_files w)(merged \<mapsto> output)\<rparr>, Inr ())"
| "merge_parts merged (None # paths) output w =
     (w\<lparr>fw_files := (fw_files w)(merged \<mapsto> output)\<rparr>, Inl Integrity)"
| "merge_parts merged (Some path # paths) output w =
     (case fw_files w path of
        None \<Rightarrow> (w\<lparr>fw_files := (fw_files w)(merged \<mapsto> output)\<rparr>, Inl (Io ''NotFound''))
      | Some content \<Rightarrow> merge_parts merged paths (output @ content) w)"

definition download_parallel ::
  "nat \<Rightarrow> 'b fetch_env \<Rightarrow> node_view list \<Rightarrow> fetch_request \<Rightarrow> nat \<Rightarrow> string \<Rightarrow> scheduler_runtime_config \<Rightarrow> 'b fetch_world
     \<Rightarrow> ('b fetch_world \<times> unit api_result) option" where
  "download_parallel fuel env nodes rq total_size key runtime w =
     (case chunks total_size (sr_chunk_size runtime) of
        None \<Rightarrow> None
      | Some cs \<Rightarrow>
          map_option (\<lambda>(w1, results).
              case collect_parts key results (replicate (length cs) None) of
                Inl e \<Rightarrow> (w1, Inl e)
              | Inr ordered \<Rightarrow> merge_parts (Partial_Object key) ordered [] w1)
            (run_chunks fuel env nodes rq key (sr_scheduler_policy runtime) (fe_completion env cs) w))"

section \<open>Whole and resumed downloads\<close>

definition whole_transfer ::
  "'b fetch_env \<Rightarrow> fetch_request \<Rightarrow> temp_path \<Rightarrow> nat option \<Rightarrow> node_view \<Rightarrow> 'b fetch_world \<Rightarrow> 'b fetch_world \<times> attempt" where
  "whole_transfer env rq destination total_size node w =
     (let existing =
        (case total_size of
           None \<Rightarrow> None
         | Some tsize \<Rightarrow>
             if 0 < tsize then
               (case file_len destination w of
                  None \<Rightarrow> None | Some l \<Rightarrow> if l < tsize then Some l else None)
             else None);
          from = (case existing of None \<Rightarrow> 0 | Some l \<Rightarrow> l);
          rmode = (case (existing, total_size) of
                     (Some offset, Some tsize) \<Rightarrow> (if 0 < tsize then Exact offset (tsize - 1) else Suppress)
                   | _ \<Rightarrow> Suppress)
      in
      case upstream_send env node GET rq rmode w of
        (w1, Inl e) \<Rightarrow> (w1, Attempted from (Inl e))
      | (w1, Inr r) \<Rightarrow>
          if \<not> status_is_success (re_status r) then
            (w1, Attempted from (Inl (Upstream
               (nd_name (nv_node node) @ '' returned '' @ fe_status_text env (re_status r)))))
          else
            (case existing of
               Some start \<Rightarrow>
                 (case total_size of
                    None \<Rightarrow> (w1, Attempted from (Inl Integrity))
                  | Some tsize \<Rightarrow>
                      if tsize = 0 then (w1, Attempted from (Inl Integrity))
                      else if re_status r \<noteq> 206
                           \<or> \<not> content_range_matches (fe_parse_range env) (re_headers r) start (tsize - 1) tsize
                      then (w1, Attempted from (Inl Integrity))
                      else
                        let (w2, result) =
                          append_response_to_file r destination (tsize - 1 - start + 1) (nd_id (nv_node node)) w1
                        in (w2, Attempted from result))
             | None \<Rightarrow>
                 let (w2, result) =
                   stream_response_to_file r destination (re_content_length r) (nd_id (nv_node node)) w1
                 in (w2, Attempted from result)))"

definition whole_prepare ::
  "'b fetch_env \<Rightarrow> fetch_request \<Rightarrow> nat option \<Rightarrow> scheduler_policy \<Rightarrow> node_view list \<Rightarrow> 'b fetch_world
     \<Rightarrow> 'b fetch_world \<times> (unit api_result + node_view list)" where
  "whole_prepare env rq total_size policy nodes w =
     (let tsize = (case total_size of None \<Rightarrow> 0 | Some n \<Rightarrow> n) in
      apsnd Inr (ordered_nodes_with_context env nodes
        \<lparr>sx_sequence = sequence_for (fe_sha256 env) (rq_path rq) tsize, sx_blob_size = tsize,
         sx_range_required = False, sx_chunk = None\<rparr> policy w))"

definition download_whole ::
  "nat \<Rightarrow> 'b fetch_env \<Rightarrow> node_view list \<Rightarrow> node_view list \<Rightarrow> fetch_request \<Rightarrow> temp_path \<Rightarrow> nat option
     \<Rightarrow> scheduler_policy \<Rightarrow> 'b fetch_world \<Rightarrow> ('b fetch_world \<times> unit api_result) option" where
  "download_whole fuel env nodes pending_nodes rq destination total_size policy w =
     map_option (finish_loop ''all nodes failed'')
       (groups_loop fuel env destination (whole_prepare env rq total_size policy)
          (whole_transfer env rq destination total_size) [nodes, pending_nodes] None w)"

definition resume_offset :: "temp_path \<Rightarrow> 'b fetch_world \<Rightarrow> nat" where
  "resume_offset destination w = (case file_len destination w of None \<Rightarrow> 0 | Some l \<Rightarrow> l)"

definition resume_transfer ::
  "'b fetch_env \<Rightarrow> fetch_request \<Rightarrow> temp_path \<Rightarrow> nat \<Rightarrow> node_view \<Rightarrow> 'b fetch_world \<Rightarrow> 'b fetch_world \<times> attempt" where
  "resume_transfer env rq destination total_size node w =
     (let offset = resume_offset destination w in
      if total_size \<le> offset then
        (w, Stop (if offset = total_size then Inr () else Inl Integrity))
      else
        case upstream_send env node GET rq (Exact offset (total_size - 1)) w of
          (w1, Inl e) \<Rightarrow> (w1, Attempted offset (Inl e))
        | (w1, Inr r) \<Rightarrow>
            if re_status r \<noteq> 206
               \<or> \<not> content_range_matches (fe_parse_range env) (re_headers r) offset (total_size - 1) total_size
            then (w1, Attempted offset (Inl Integrity))
            else
              let (w2, result) =
                (if offset = 0
                 then stream_response_to_file r destination (Some total_size) (nd_id (nv_node node)) w1
                 else append_response_to_file r destination (total_size - offset) (nd_id (nv_node node)) w1)
              in (w2, Attempted offset result))"

definition resume_prepare ::
  "'b fetch_env \<Rightarrow> fetch_request \<Rightarrow> temp_path \<Rightarrow> nat \<Rightarrow> scheduler_policy \<Rightarrow> node_view list \<Rightarrow> 'b fetch_world
     \<Rightarrow> 'b fetch_world \<times> (unit api_result + node_view list)" where
  "resume_prepare env rq destination total_size policy nodes w =
     (let offset = resume_offset destination w in
      if total_size \<le> offset then (w, Inl (Inr ()))
      else apsnd Inr (ordered_nodes_with_context env nodes
        \<lparr>sx_sequence = sequence_for (fe_sha256 env) (rq_path rq) offset, sx_blob_size = total_size,
         sx_range_required = True, sx_chunk = Some (offset, total_size - 1)\<rparr> policy w))"

definition download_resume ::
  "nat \<Rightarrow> 'b fetch_env \<Rightarrow> node_view list \<Rightarrow> node_view list \<Rightarrow> fetch_request \<Rightarrow> nat \<Rightarrow> temp_path
     \<Rightarrow> scheduler_policy \<Rightarrow> 'b fetch_world \<Rightarrow> ('b fetch_world \<times> unit api_result) option" where
  "download_resume fuel env nodes pending_nodes rq total_size destination policy w =
     map_option (finish_loop ''all nodes failed resume'')
       (groups_loop fuel env destination (resume_prepare env rq destination total_size policy)
          (resume_transfer env rq destination total_size) [nodes, pending_nodes] None (record_resume w))"

definition verify_file :: "'b fetch_env \<Rightarrow> temp_path \<Rightarrow> string \<Rightarrow> 'b fetch_world \<Rightarrow> unit api_result" where
  "verify_file env path expected_digest w = verify_content (fe_sha256_hex env) (fw_files w path) expected_digest"

fun recover_loop ::
  "nat \<Rightarrow> 'b fetch_env \<Rightarrow> node_view list \<Rightarrow> fetch_request \<Rightarrow> temp_path \<Rightarrow> string \<Rightarrow> nat option \<Rightarrow> scheduler_policy
     \<Rightarrow> app_error option \<Rightarrow> 'b fetch_world \<Rightarrow> ('b fetch_world \<times> unit api_result) option" where
  "recover_loop fuel env [] rq destination expected_digest total_size policy last_error w =
     Some (w, Inl (case last_error of None \<Rightarrow> Integrity | Some e \<Rightarrow> e))"
| "recover_loop fuel env (node # nodes) rq destination expected_digest total_size policy last_error w =
     (case download_whole fuel env [node] [] rq destination total_size policy w of
        None \<Rightarrow> None
      | Some (w1, r) \<Rightarrow>
          (case (case r of Inr _ \<Rightarrow> verify_file env destination expected_digest w1 | Inl e \<Rightarrow> Inl e) of
             Inr _ \<Rightarrow> Some (w1, Inr ())
           | Inl e \<Rightarrow>
               recover_loop fuel env nodes rq destination expected_digest total_size policy (Some e)
                 (record_retry (remove_file destination
                    (record_transfer (nd_id (nv_node node)) 0 False
                       (observe_node env (nd_id (nv_node node)) 0 False w1))))))"

definition recover_verified_blob ::
  "nat \<Rightarrow> 'b fetch_env \<Rightarrow> node_view list \<Rightarrow> fetch_request \<Rightarrow> temp_path \<Rightarrow> string \<Rightarrow> nat option \<Rightarrow> scheduler_policy
     \<Rightarrow> 'b fetch_world \<Rightarrow> ('b fetch_world \<times> unit api_result) option" where
  "recover_verified_blob fuel env nodes rq destination expected_digest total_size policy w =
     (let tsize = (case total_size of None \<Rightarrow> 0 | Some n \<Rightarrow> n);
          (w1, candidates) = ordered_nodes_with_context env nodes
            \<lparr>sx_sequence = sequence_for (fe_sha256 env) (rq_path rq) tsize, sx_blob_size = tsize,
             sx_range_required = False, sx_chunk = None\<rparr> policy w
      in recover_loop fuel env candidates rq destination expected_digest total_size policy None w1)"

section \<open>Capability detection\<close>

definition capability_key :: "node_view \<Rightarrow> fetch_request \<Rightarrow> uuid \<times> int \<times> string" where
  "capability_key node rq = (nd_id (nv_node node), nd_updated_at (nv_node node) div 1000000, rq_path rq)"

definition detect_node_capabilities ::
  "'b fetch_env \<Rightarrow> node_view \<Rightarrow> fetch_request \<Rightarrow> 'b fetch_world \<Rightarrow> 'b fetch_world \<times> blob_capabilities api_result" where
  "detect_node_capabilities env node rq w =
     (case (if fe_capability_kept env (fw_tick w) then fw_capabilities w (capability_key node rq) else None) of
        Some value \<Rightarrow> (w, Inr value)
      | None \<Rightarrow>
          let (w2, result) =
            (if nv_max_concurrency node = 0 then (w, Inl (Unavailable ''node request capacity is disabled''))
             else
               case upstream_send env node HEAD rq Suppress w of
                 (w1, Inl e) \<Rightarrow> (w1, Inl e)
               | (w1, Inr r) \<Rightarrow>
                   (case (if status_is_success (re_status r) then capabilities_from_head r else None) of
                      Some caps \<Rightarrow> (w1, Inr caps)
                    | None \<Rightarrow>
                        (case upstream_send env node GET rq (Exact 0 0) w1 of
                           (w1', Inl e) \<Rightarrow> (w1', Inl e)
                         | (w1', Inr probe) \<Rightarrow>
                             (w1', ok_or (Upstream (nd_name (nv_node node)
                                     @ '' does not expose Blob length or Range metadata''))
                                   (capabilities_from_probe (fe_parse_range env) probe)))));
              w3 = (case result of
                      Inr value \<Rightarrow> w2\<lparr>fw_capabilities := (fw_capabilities w2)(capability_key node rq \<mapsto> value)\<rparr>
                    | Inl _ \<Rightarrow> w2)
          in (record_transfer (nd_id (nv_node node)) 0 (is_ok result) w3, result))"

record detected_capabilities =
  dc_size :: "nat option"
  dc_media_type :: string
  dc_nodes :: "node_view list"
  dc_range_nodes :: "node_view list"
  dc_pending_nodes :: "node_view list"
  dc_fallback_nodes :: "node_view list"

record detect_state =
  ds_last_error :: "app_error option"
  ds_baseline :: "blob_capabilities option"
  ds_compatible :: "(node_view \<times> blob_capabilities) list"
  ds_observed :: "uuid list"
  ds_deadline :: bool

text \<open>
  The probe loop over the nodes in the order in which their probes complete; once the deadline is set, a
  probe that completes after it ends the loop.
\<close>

fun detect_loop ::
  "'b fetch_env \<Rightarrow> nat \<Rightarrow> fetch_request \<Rightarrow> node_view list \<Rightarrow> detect_state \<Rightarrow> 'b fetch_world \<Rightarrow> 'b fetch_world \<times> detect_state" where
  "detect_loop env parallel_threshold rq [] ds w = (w, ds)"
| "detect_loop env parallel_threshold rq (node # nodes) ds w =
     (if ds_deadline ds \<and> fe_probe_timeout env (fw_tick w) then (w, ds)
      else
        let (w1, result) = detect_node_capabilities env node rq w;
            ds1 = ds\<lparr>ds_observed := ds_observed ds @ [nd_id (nv_node node)]\<rparr>
        in
        case result of
          Inl e \<Rightarrow> detect_loop env parallel_threshold rq nodes (ds1\<lparr>ds_last_error := Some e\<rparr>) (record_retry w1)
        | Inr value \<Rightarrow>
            if (case ds_baseline ds1 of None \<Rightarrow> True | Some previous \<Rightarrow> bc_size previous = bc_size value) then
              let ds2 = ds1\<lparr>ds_baseline := (case ds_baseline ds1 of None \<Rightarrow> Some value | Some b \<Rightarrow> Some b),
                            ds_compatible := ds_compatible ds1 @ [(node, value)]\<rparr>
              in
              case Option.bind (ds_baseline ds2) bc_size of
                None \<Rightarrow> (w1, ds2)
              | Some sz \<Rightarrow>
                  if sz < parallel_threshold then (w1, ds2)
                  else detect_loop env parallel_threshold rq nodes (ds2\<lparr>ds_deadline := True\<rparr>) w1
            else detect_loop env parallel_threshold rq nodes ds1 w1)"

definition detect_capabilities ::
  "'b fetch_env \<Rightarrow> scheduler_runtime_config \<Rightarrow> node_view list \<Rightarrow> fetch_request \<Rightarrow> 'b fetch_world
     \<Rightarrow> 'b fetch_world \<times> detected_capabilities api_result" where
  "detect_capabilities env runtime nodes rq w =
     (let (w1, ds) = detect_loop env (sr_parallel_threshold runtime) rq (fe_probe_order env nodes)
            \<lparr>ds_last_error = None, ds_baseline = None, ds_compatible = [], ds_observed = [], ds_deadline = False\<rparr> w
      in
      case ds_baseline ds of
        None \<Rightarrow> (w1, Inl (case ds_last_error ds of
                   None \<Rightarrow> Upstream ''capability detection failed'' | Some e \<Rightarrow> e))
      | Some baseline \<Rightarrow>
          let compatible_nodes = map fst (ds_compatible ds);
              pending = filter (\<lambda>n. nd_id (nv_node n) \<notin> set (ds_observed ds)) nodes
          in (w1, Inr \<lparr>dc_size = bc_size baseline, dc_media_type = bc_media_type baseline,
                        dc_nodes = compatible_nodes,
                        dc_range_nodes = map fst (filter (\<lambda>(_, c). bc_supports_range c) (ds_compatible ds)),
                        dc_pending_nodes = pending,
                        dc_fallback_nodes = compatible_nodes @ pending\<rparr>))"

section \<open>Fetching a Blob\<close>

definition snapshot_of :: "'b fetch_env \<Rightarrow> 'b fetch_world \<Rightarrow> uuid set \<Rightarrow> node_view \<Rightarrow> node_snapshot" where
  "snapshot_of env w range_ids node =
     \<lparr>ns_url = nd_url (nv_node node),
      ns_supports_range = (nd_id (nv_node node) \<in> range_ids),
      ns_max_concurrency = nv_max_concurrency node,
      ns_throughput_bps = (let s = nm_speed_bps (nv_metric node) in if 0 < s then Some (nat s) else None),
      ns_latency_ms = (let l = nm_latency_ms (nv_metric node) in
         if nm_last_checked_at (nv_metric node) \<noteq> None \<and> 0 < l then Some (nat l) else None),
      ns_success_rate = nm_success_rate (nv_metric node),
      ns_cooling = is_cooling (fw_selector w) (fe_now env (fw_tick w)) (nd_id (nv_node node))\<rparr>"

definition planner_config_of :: "scheduler_runtime_config \<Rightarrow> nat \<Rightarrow> planner_config" where
  "planner_config_of runtime node_capacity =
     planner_config_default
       \<lparr>pc_small_blob_threshold := sr_parallel_threshold runtime,
        pc_max_concurrent_chunks := effective_concurrency runtime (max node_capacity 1),
        pc_allow_unmeasured_parallel := sr_parallel_threshold runtime < 1024 * 1024,
        pc_min_chunk_size := (if sr_adaptive_chunking_enabled runtime
                              then pc_min_chunk_size planner_config_default else sr_chunk_size runtime),
        pc_max_chunk_size := (if sr_adaptive_chunking_enabled runtime
                              then pc_max_chunk_size planner_config_default else sr_chunk_size runtime)\<rparr>"

definition choose_plan ::
  "'b fetch_env \<Rightarrow> scheduler_runtime_config \<Rightarrow> string option \<Rightarrow> detected_capabilities \<Rightarrow> 'b fetch_world
     \<Rightarrow> download_strategy api_result" where
  "choose_plan env runtime expected_digest detected w =
     (let sz = (case dc_size detected of None \<Rightarrow> 0 | Some n \<Rightarrow> n);
          node_capacity = sum_list (map nv_max_concurrency (dc_range_nodes detected));
          range_ids = (nd_id \<circ> nv_node) ` set (dc_range_nodes detected);
          snapshots = map (snapshot_of env w range_ids) (dc_nodes detected)
      in
      if sz = 0 then
        (case dc_nodes detected of
           [] \<Rightarrow> Inl (Internal ''index out of bounds'')
         | node # _ \<Rightarrow> Inr (SingleRequest (nd_url (nv_node node))))
      else
        case plan (planner_config_of runtime node_capacity)
               \<lparr>bm_digest = (case expected_digest of None \<Rightarrow> [] | Some d \<Rightarrow> d), bm_size = sz,
                bm_media_type = dc_media_type detected\<rparr> False snapshots of
          Inr p \<Rightarrow> Inr p
        | Inl NoUsableNodes \<Rightarrow>
            (case dc_nodes detected of
               [] \<Rightarrow> Inl (Unavailable ''no compatible nodes'')
             | node # _ \<Rightarrow> Inr (SingleRequest (nd_url (nv_node node))))
        | Inl InvalidConfiguration \<Rightarrow> Inl (Internal ''invalid Blob planner configuration''))"

definition rotate_to :: "string \<Rightarrow> node_view list \<Rightarrow> node_view list" where
  "rotate_to preferred nodes =
     (case position (\<lambda>n. nd_url (nv_node n) = preferred) nodes of
        None \<Rightarrow> nodes | Some index \<Rightarrow> rotate_left index nodes)"

text \<open>The transfer itself: the chunked download with its fallback, the resumption, or the whole download.\<close>

definition download_blob ::
  "nat \<Rightarrow> 'b fetch_env \<Rightarrow> scheduler_runtime_config \<Rightarrow> detected_capabilities \<Rightarrow> download_strategy \<Rightarrow> string \<Rightarrow> fetch_request
     \<Rightarrow> 'b fetch_world \<Rightarrow> ('b fetch_world \<times> unit api_result) option" where
  "download_blob fuel env runtime detected strategy key rq w =
     (let sz = (case dc_size detected of None \<Rightarrow> 0 | Some n \<Rightarrow> n);
          merged = Partial_Object key;
          policy = sr_scheduler_policy runtime;
          fallback_nodes = (case strategy of
                              SingleRequest preferred \<Rightarrow> rotate_to preferred (dc_nodes detected)
                            | _ \<Rightarrow> dc_nodes detected)
      in
      case strategy of
        MultiSourceChunked cs _ _ \<Rightarrow>
          (case download_parallel fuel env (dc_range_nodes detected) rq sz key (runtime\<lparr>sr_chunk_size := cs\<rparr>)
                  (record_parallel_blob cs w) of
             None \<Rightarrow> None
           | Some (w1, Inr _) \<Rightarrow> Some (w1, Inr ())
           | Some (w1, Inl _) \<Rightarrow>
               download_whole fuel env fallback_nodes (dc_pending_nodes detected) rq merged (dc_size detected) policy
                 (remove_file merged w1))
      | _ \<Rightarrow>
          if dc_range_nodes detected \<noteq> [] \<and> sr_resumable_threshold runtime \<le> sz
             \<and> (case file_len merged w of None \<Rightarrow> False | Some l \<Rightarrow> 0 < l \<and> l < sz)
          then download_resume fuel env (dc_range_nodes detected) (dc_pending_nodes detected) rq sz merged policy w
          else download_whole fuel env fallback_nodes (dc_pending_nodes detected) rq merged (dc_size detected)
                 policy w)"

text \<open>The length check and the digest check after the transfer, each with the recovery from other nodes.\<close>

definition check_length ::
  "nat \<Rightarrow> 'b fetch_env \<Rightarrow> scheduler_runtime_config \<Rightarrow> detected_capabilities \<Rightarrow> string option \<Rightarrow> string \<Rightarrow> fetch_request
     \<Rightarrow> 'b fetch_world \<Rightarrow> ('b fetch_world \<times> unit api_result) option" where
  "check_length fuel env runtime detected expected_digest key rq w =
     (case file_len (Partial_Object key) w of
        None \<Rightarrow> Some (w, Inl (Io ''NotFound''))
      | Some actual_size \<Rightarrow>
          if (case dc_size detected of None \<Rightarrow> False | Some expected \<Rightarrow> actual_size \<noteq> expected) then
            (case expected_digest of
               Some digest \<Rightarrow>
                 if 1 < length (dc_fallback_nodes detected) then
                   recover_verified_blob fuel env (dc_fallback_nodes detected) rq (Partial_Object key) digest
                     (dc_size detected) (sr_scheduler_policy runtime) w
                 else Some (w, Inl Integrity)
             | None \<Rightarrow> Some (w, Inl Integrity))
          else Some (w, Inr ()))"

definition check_digest ::
  "nat \<Rightarrow> 'b fetch_env \<Rightarrow> scheduler_runtime_config \<Rightarrow> detected_capabilities \<Rightarrow> string option \<Rightarrow> string \<Rightarrow> fetch_request
     \<Rightarrow> 'b fetch_world \<Rightarrow> ('b fetch_world \<times> unit api_result) option" where
  "check_digest fuel env runtime detected expected_digest key rq w =
     (case expected_digest of
        None \<Rightarrow> Some (w, Inr ())
      | Some digest \<Rightarrow>
          (case verify_file env (Partial_Object key) digest w of
             Inr _ \<Rightarrow> Some (w, Inr ())
           | Inl e \<Rightarrow>
               if length (dc_fallback_nodes detected) < 2 then Some (w, Inl e)
               else recover_verified_blob fuel env (dc_fallback_nodes detected) rq (Partial_Object key) digest
                      (dc_size detected) (sr_scheduler_policy runtime) w))"

text \<open>Admission of the downloaded file: the rename takes it away, and a success drops the partial directory.\<close>

definition admit_partial ::
  "'b fetch_env \<Rightarrow> detected_capabilities \<Rightarrow> string option \<Rightarrow> string \<Rightarrow> 'b fetch_world
     \<Rightarrow> 'b fetch_world \<times> cached_object api_result" where
  "admit_partial env detected expected_digest key w =
     (case fw_files w (Partial_Object key) of
        None \<Rightarrow> (w, Inl (Io ''NotFound''))
      | Some content \<Rightarrow>
          (case admit (fe_ln_1p env) key content (dc_media_type detected) expected_digest
                  (fe_utc env (fw_tick w)) (fw_cache w) of
             (cache, Inl e) \<Rightarrow> (w\<lparr>fw_cache := cache\<rparr>, Inl e)
           | (cache, Inr object) \<Rightarrow>
               (w\<lparr>fw_cache := cache,
                  fw_files := (\<lambda>p. if temp_key p = key then None else fw_files w p)\<rparr>, Inr object)))"

definition fetch_uncached ::
  "nat \<Rightarrow> 'b fetch_env \<Rightarrow> scheduler_runtime_config \<Rightarrow> string \<Rightarrow> fetch_request \<Rightarrow> string option \<Rightarrow> node_view list
     \<Rightarrow> 'b fetch_world \<Rightarrow> ('b fetch_world \<times> cached_object api_result) option" where
  "fetch_uncached fuel env runtime key rq expected_digest nodes w =
     (case detect_capabilities env runtime nodes rq w of
        (w1, Inl e) \<Rightarrow> Some (w1, Inl e)
      | (w1, Inr detected) \<Rightarrow>
          (case choose_plan env runtime expected_digest detected w1 of
             Inl e \<Rightarrow> Some (w1, Inl e)
           | Inr strategy \<Rightarrow>
               (case download_blob fuel env runtime detected strategy key rq w1 of
                  None \<Rightarrow> None
                | Some (w2, Inl e) \<Rightarrow> Some (w2, Inl e)
                | Some (w2, Inr _) \<Rightarrow>
                    (case check_length fuel env runtime detected expected_digest key rq w2 of
                       None \<Rightarrow> None
                     | Some (w3, Inl e) \<Rightarrow> Some (w3, Inl e)
                     | Some (w3, Inr _) \<Rightarrow>
                         (case check_digest fuel env runtime detected expected_digest key rq w3 of
                            None \<Rightarrow> None
                          | Some (w4, Inl e) \<Rightarrow> Some (w4, Inl e)
                          | Some (w4, Inr _) \<Rightarrow>
                              Some (admit_partial env detected expected_digest key w4))))))"

record blob_fetch_result =
  br_object :: cached_object
  br_cache_hit :: bool

definition with_cache :: "(cache_store \<Rightarrow> cache_store) \<Rightarrow> 'b fetch_world \<Rightarrow> 'b fetch_world" where
  "with_cache f w = w\<lparr>fw_cache := f (fw_cache w)\<rparr>"

definition blob_request_key :: "'b fetch_env \<Rightarrow> 'b fetch_world \<Rightarrow> fetch_request \<Rightarrow> node_view \<Rightarrow> node_view list \<Rightarrow> string" where
  "blob_request_key env w rq first nodes =
     (let authorization = header_str ''authorization'' (rq_headers rq);
          public_route = list_all (\<lambda>n. nd_auth_mode (nv_node n) = ''none'' \<and> nd_auth_secret_enc (nv_node n) = None) nodes
      in request_key (fe_sha256_hex env) (fw_cache w) (fe_uuid_text env (rs_id (nv_route first)))
           (rq_path rq) authorization public_route)"

text \<open>The part of \<open>fetch_blob\<close> that holds the single-flight lock of the key.\<close>

definition fetch_flight ::
  "nat \<Rightarrow> 'b fetch_env \<Rightarrow> scheduler_runtime_config \<Rightarrow> string \<Rightarrow> fetch_request \<Rightarrow> string option \<Rightarrow> node_view list
     \<Rightarrow> 'b fetch_world \<Rightarrow> ('b fetch_world \<times> blob_fetch_result api_result) option" where
  "fetch_flight fuel env runtime key rq expected_digest nodes w =
     (let w1 = with_cache (cache_lock key \<circ> fe_lock_wait env (fw_tick w)) w;
          (cache, hit) = cache_get key (fe_utc env (fw_tick w1)) (fw_cache w1);
          w2 = w1\<lparr>fw_cache := cache\<rparr>
      in
      case hit of
        Some object \<Rightarrow>
          Some (with_cache (cache_unlock key) w2, Inr \<lparr>br_object = object, br_cache_hit = True\<rparr>)
      | None \<Rightarrow>
          map_option (\<lambda>(w3, r). (with_cache (cache_unlock key) w3,
              case r of Inl e \<Rightarrow> Inl e | Inr object \<Rightarrow> Inr \<lparr>br_object = object, br_cache_hit = False\<rparr>))
            (fetch_uncached fuel env runtime key rq expected_digest nodes w2))"

definition fetch_blob ::
  "nat \<Rightarrow> 'b fetch_env \<Rightarrow> scheduler_runtime_config \<Rightarrow> fetch_request \<Rightarrow> string option \<Rightarrow> node_view list
     \<Rightarrow> 'b fetch_world \<Rightarrow> ('b fetch_world \<times> blob_fetch_result api_result) option" where
  "fetch_blob fuel env runtime rq expected_digest nodes w =
     (case nodes of
        [] \<Rightarrow> Some (w, Inl (Unavailable ''resolved Registry route has no enabled nodes''))
      | first # _ \<Rightarrow>
          let key = blob_request_key env w rq first nodes;
              (cache, hit) = cache_get key (fe_utc env (fw_tick w)) (fw_cache w);
              w1 = w\<lparr>fw_cache := cache\<rparr>
          in
          case hit of
            Some object \<Rightarrow> Some (w1, Inr \<lparr>br_object = object, br_cache_hit = True\<rparr>)
          | None \<Rightarrow> fetch_flight fuel env runtime key rq expected_digest nodes w1)"

end
