(* ===== verification/Blob_Fetch_Proofs.thy ===== *)
theory Blob_Fetch_Proofs
  imports Blob_Fetch "HOL-Library.Sublist"
begin

text \<open>
  The correctness of the Blob executor. The three download loops share the contract
  \<open>download_invariant\<close>: a predicate on the files and the cache that every transfer keeps holds after the
  loop, and what a successful transfer establishes holds when the loop succeeds. It is interpreted on the
  chunked, the whole and the resumed download.
\<close>

section \<open>The contract of a download loop\<close>

locale download_invariant =
  fixes env :: "'b fetch_env" and destination :: temp_path
    and prepare :: "node_view list \<Rightarrow> 'b fetch_world \<Rightarrow> 'b fetch_world \<times> (unit api_result + node_view list)"
    and transfer :: "node_view \<Rightarrow> 'b fetch_world \<Rightarrow> 'b fetch_world \<times> attempt"
    and P :: "'b fetch_world \<Rightarrow> bool" and Q :: "'b fetch_world \<Rightarrow> bool"
  assumes P_cong: "fw_files w' = fw_files w \<Longrightarrow> fw_cache w' = fw_cache w \<Longrightarrow> P w \<Longrightarrow> P w'"
    and Q_cong: "fw_files w' = fw_files w \<Longrightarrow> fw_cache w' = fw_cache w \<Longrightarrow> Q w \<Longrightarrow> Q w'"
    and P_remove: "P w \<Longrightarrow> P (remove_file destination w)"
    and transfer_keeps: "P w \<Longrightarrow> P (fst (transfer node w))"
    and transfer_ok: "P w \<Longrightarrow> transfer node w = (w', Attempted n (Inr ())) \<Longrightarrow> Q w'"
    and transfer_stop_ok: "P w \<Longrightarrow> transfer node w = (w', Stop (Inr ())) \<Longrightarrow> Q w'"
    and prepare_files: "fw_files (fst (prepare g w)) = fw_files w"
    and prepare_cache: "fw_cache (fst (prepare g w)) = fw_cache w"
    and prepare_ok: "P w \<Longrightarrow> prepare g w = (w', Inl (Inr ())) \<Longrightarrow> Q w'"
begin

lemma P_selector: "P w \<Longrightarrow> P (w\<lparr>fw_selector := s\<rparr>)"
  by (rule P_cong) simp_all

lemma P_settle: "P w \<Longrightarrow> P (settle_attempt env destination lease node_id n ok w)"
  by (rule P_cong) (simp_all add: settle_attempt_def record_transfer_def release_lease_def observe_node_def Let_def)

lemma Q_settle: "Q w \<Longrightarrow> Q (settle_attempt env destination lease node_id n ok w)"
  by (rule Q_cong) (simp_all add: settle_attempt_def record_transfer_def release_lease_def observe_node_def Let_def)

lemma P_after_error: "P w \<Longrightarrow> P (after_error destination e w)"
proof -
  assume "P w"
  then have "P (record_retry w)" by (rule P_cong [rotated 2]) (simp_all add: record_retry_def)
  then show ?thesis by (simp add: after_error_def Let_def P_remove)
qed

lemma P_release: "P w \<Longrightarrow> P (release_lease lease w)"
  by (rule P_cong) (simp_all add: release_lease_def)

lemma Q_release: "Q w \<Longrightarrow> Q (release_lease lease w)"
  by (rule Q_cong) (simp_all add: release_lease_def)

lemma P_wait: "P w \<Longrightarrow> P (capacity_wait env w)"
  by (rule P_cong) (simp_all add: capacity_wait_def)

lemma try_nodes_keeps:
  assumes "P w" and "try_nodes env destination transfer ns attempted last_error w = (w', exit)"
  shows "P w' \<and> (exit = Returned (Inr ()) \<longrightarrow> Q w')"
  using assms
proof (induction ns arbitrary: attempted last_error w)
  case (Cons node ns)
  obtain sel lease where acq: "selector_try_acquire (nd_id (nv_node node)) (nv_max_concurrency node) (fw_selector w)
      = (sel, lease)" by fastforce
  have P1: "P (w\<lparr>fw_selector := sel\<rparr>)" using Cons.prems(1) by (rule P_selector)
  show ?case
  proof (cases lease)
    case None
    with acq Cons.prems(2) Cons.IH [OF P1, of attempted last_error] show ?thesis by simp
  next
    case (Some l)
    obtain w1 a where tr: "transfer node (w\<lparr>fw_selector := sel\<rparr>) = (w1, a)" by fastforce
    have Pw1: "P w1" using transfer_keeps [OF P1, of node] tr by simp
    show ?thesis
    proof (cases a)
      case (Stop r)
      with acq Some tr Cons.prems(2) have "w' = release_lease l w1" "exit = Returned r" by simp_all
      moreover have "r = Inr () \<longrightarrow> Q w1" using transfer_stop_ok [OF P1] tr Stop by blast
      ultimately show ?thesis using Pw1 P_release Q_release by auto
    next
      case (Attempted n r)
      show ?thesis
      proof (cases r)
        case (Inl e)
        have "P (after_error destination e (settle_attempt env destination l (nd_id (nv_node node)) n False w1))"
          using Pw1 by (intro P_after_error P_settle)
        from Cons.IH [OF this, of True "Some e"] Inl Attempted acq Some tr Cons.prems(2) show ?thesis by simp
      next
        case (Inr u)
        with Attempted tr have "Q w1" using transfer_ok [OF P1] by auto
        with Inr Attempted acq Some tr Cons.prems(2) Pw1 show ?thesis
          using P_settle Q_settle by auto
      qed
    qed
  qed
qed auto

lemma group_loop_keeps:
  assumes "P w" and "group_loop fuel env destination (prepare g) transfer last_error w = Some (w', exit)"
  shows "P w' \<and> (exit = Returned (Inr ()) \<longrightarrow> Q w')"
  using assms
proof (induction fuel arbitrary: last_error w)
  case (Suc fuel)
  obtain w1 c where pr: "prepare g w = (w1, c)" by fastforce
  have P1: "P w1"
    using P_cong [OF _ _ Suc.prems(1), of w1] prepare_files [of g w] prepare_cache [of g w] pr by simp
  show ?case
  proof (cases c)
    case (Inl r)
    with pr Suc.prems P1 prepare_ok show ?thesis by auto
  next
    case (Inr ns)
    obtain w2 e2 where tn: "try_nodes env destination transfer ns False last_error w1 = (w2, e2)" by fastforce
    note kept = try_nodes_keeps [OF P1 tn]
    show ?thesis
    proof (cases "\<exists>l. e2 = Exhausted False l")
      case True
      with kept P_wait have "P (capacity_wait env w2)" by blast
      with True Suc.IH [OF this] Suc.prems(2) pr Inr tn show ?thesis by auto
    next
      case False
      then have "w' = w2 \<and> exit = e2"
        using Suc.prems(2) pr Inr tn by (cases e2) (auto split: bool.splits)
      with kept show ?thesis by simp
    qed
  qed
qed auto

lemma groups_loop_keeps:
  assumes "P w" and "groups_loop fuel env destination prepare transfer gs last_error w = Some (w', exit)"
  shows "P w' \<and> (exit = Returned (Inr ()) \<longrightarrow> Q w')"
  using assms
proof (induction gs arbitrary: last_error w)
  case (Cons g gs)
  show ?case
  proof (cases "g = []")
    case False
    with Cons.prems(2) obtain w1 e1 where
      gl: "group_loop fuel env destination (prepare g) transfer last_error w = Some (w1, e1)"
      by (auto split: option.splits)
    note kept = group_loop_keeps [OF Cons.prems(1) gl]
    show ?thesis
    proof (cases e1)
      case (Returned r)
      with gl False Cons.prems(2) kept show ?thesis by simp
    next
      case (Exhausted b l)
      with gl False Cons.prems(2) Cons.IH [of w1 l] kept show ?thesis by simp
    qed
  qed (use Cons.IH [OF Cons.prems(1), of last_error] Cons.prems(2) in simp)
qed auto

end

lemma finish_loop_ok: "finish_loop m (w, e) = (w', Inr ()) \<longleftrightarrow> w' = w \<and> e = Returned (Inr ())"
  by (auto simp: finish_loop_def split: loop_exit.splits option.splits)

lemma finish_loop_fst: "finish_loop m (w, e) = (w', r) \<Longrightarrow> w' = w"
  by (simp add: finish_loop_def)

lemma ordered_nodes_fields [simp]:
  "fw_files (fst (ordered_nodes_with_context env ns ctx policy w)) = fw_files w"
  "fw_cache (fst (ordered_nodes_with_context env ns ctx policy w)) = fw_cache w"
  by (simp_all add: ordered_nodes_with_context_def Let_def split: prod.split)

lemma remove_file_fields [simp]:
  "fw_files (remove_file p w) = (fw_files w)(p := None)" "fw_cache (remove_file p w) = fw_cache w"
  by (simp_all add: remove_file_def)

section \<open>The cache is not touched by a transfer\<close>

lemma write_received_cache [simp]: "fw_cache (fst (write_received d i init r e w)) = fw_cache w"
  by (simp add: write_received_def split: prod.split)

lemma stream_response_cache [simp]: "fw_cache (fst (stream_response_to_file r d e i w)) = fw_cache w"
  by (simp add: stream_response_to_file_def)

lemma append_response_cache [simp]: "fw_cache (fst (append_response_to_file r d e i w)) = fw_cache w"
  by (simp add: append_response_to_file_def split: option.split)

lemma upstream_send_fields [simp]:
  "fw_cache (fst (upstream_send env node m rq rmode w)) = fw_cache w"
  "fw_files (fst (upstream_send env node m rq rmode w)) = fw_files w"
  by (simp_all add: upstream_send_def)

lemma upstream_send_eq:
  "upstream_send env node m rq rmode w = (w1, a) \<Longrightarrow> fw_cache w1 = fw_cache w \<and> fw_files w1 = fw_files w"
  by (auto simp: upstream_send_def)

lemma chunk_transfer_cache: "fw_cache (fst (chunk_transfer env rq c d node w)) = fw_cache w"
  by (auto simp: chunk_transfer_def Let_def dest: upstream_send_eq split: prod.splits sum.splits)
    (metis append_response_cache stream_response_cache fst_conv upstream_send_eq)+

lemma append_response_eq_cache:
  "append_response_to_file r d e i w = (w1, x) \<Longrightarrow> fw_cache w1 = fw_cache w"
  using append_response_cache [of r d e i w] by simp

lemma stream_response_eq_cache:
  "stream_response_to_file r d e i w = (w1, x) \<Longrightarrow> fw_cache w1 = fw_cache w"
  using stream_response_cache [of r d e i w] by simp

lemmas response_eqs = upstream_send_eq append_response_eq_cache stream_response_eq_cache

lemma whole_transfer_cache: "fw_cache (fst (whole_transfer env rq d ts node w)) = fw_cache w"
  unfolding whole_transfer_def Let_def upstream_send_def
  by (simp split: sum.split option.split prod.split) (auto dest: response_eqs)

lemma resume_transfer_cache: "fw_cache (fst (resume_transfer env rq d ts node w)) = fw_cache w"
  unfolding resume_transfer_def Let_def upstream_send_def
  by (simp split: sum.split option.split prod.split) (auto dest: response_eqs)

lemma whole_prepare_fields [simp]:
  "fw_files (fst (whole_prepare env rq ts policy g w)) = fw_files w"
  "fw_cache (fst (whole_prepare env rq ts policy g w)) = fw_cache w"
  by (simp_all add: whole_prepare_def Let_def apsnd_def map_prod_def split: prod.split)
    (metis fst_conv ordered_nodes_fields)+

lemma resume_prepare_fields [simp]:
  "fw_files (fst (resume_prepare env rq d ts policy g w)) = fw_files w"
  "fw_cache (fst (resume_prepare env rq d ts policy g w)) = fw_cache w"
  by (simp_all add: resume_prepare_def Let_def apsnd_def map_prod_def split: prod.split)
    (metis fst_conv ordered_nodes_fields)+

text \<open>The downloads leave the cache alone, whatever the upstream does.\<close>

interpretation whole_cache: download_invariant env d "whole_prepare env rq ts policy" "whole_transfer env rq d ts"
  "\<lambda>w. fw_cache w = c" "\<lambda>_. True" for env d rq ts policy c
  by unfold_locales (simp_all add: whole_transfer_cache)

interpretation resume_cache: download_invariant env d "resume_prepare env rq d ts policy" "resume_transfer env rq d ts"
  "\<lambda>w. fw_cache w = c" "\<lambda>_. True" for env d rq ts policy c
  by unfold_locales (simp_all add: resume_transfer_cache)

definition chunk_prepare ::
  "'b fetch_env \<Rightarrow> fetch_request \<Rightarrow> chunk \<Rightarrow> scheduler_policy \<Rightarrow> node_view list \<Rightarrow> 'b fetch_world
     \<Rightarrow> 'b fetch_world \<times> (unit api_result + node_view list)" where
  "chunk_prepare env rq chunk policy nodes w =
     apsnd Inr (ordered_nodes_with_context env nodes
       \<lparr>sx_sequence = sequence_for (fe_sha256 env) (rq_path rq) (ch_index chunk),
        sx_blob_size = ch_total_size chunk, sx_range_required = True,
        sx_chunk = Some (ch_start chunk, ch_end chunk)\<rparr> policy w)"

lemma chunk_prepare_fields [simp]:
  "fw_files (fst (chunk_prepare env rq c policy g w)) = fw_files w"
  "fw_cache (fst (chunk_prepare env rq c policy g w)) = fw_cache w"
  by (simp_all add: chunk_prepare_def apsnd_def map_prod_def split: prod.split)
    (metis fst_conv ordered_nodes_fields)+

lemma download_chunk_loop:
  "download_chunk fuel env nodes rq c d policy w =
     map_option (finish_loop ''all nodes failed a chunk'')
       (group_loop fuel env d (chunk_prepare env rq c policy nodes) (chunk_transfer env rq c d) None w)"
  by (simp add: download_chunk_def chunk_prepare_def [abs_def])

interpretation chunk_cache: download_invariant env d "chunk_prepare env rq c policy" "chunk_transfer env rq c d"
  "\<lambda>w. fw_cache w = s" "\<lambda>_. True" for env d rq c policy s
  by unfold_locales (simp_all add: chunk_transfer_cache)

lemma download_whole_cache:
  assumes "download_whole fuel env ns ps rq d ts policy w = Some (w', r)"
  shows "fw_cache w' = fw_cache w"
proof -
  obtain w1 e where g: "groups_loop fuel env d (whole_prepare env rq ts policy) (whole_transfer env rq d ts) [ns, ps]
      None w = Some (w1, e)" and f: "finish_loop ''all nodes failed'' (w1, e) = (w', r)"
    using assms by (auto simp: download_whole_def)
  show ?thesis using whole_cache.groups_loop_keeps [OF refl g] finish_loop_fst [OF f] by simp
qed

lemma download_resume_cache:
  assumes "download_resume fuel env ns ps rq ts d policy w = Some (w', r)"
  shows "fw_cache w' = fw_cache w"
proof -
  obtain w1 e where g: "groups_loop fuel env d (resume_prepare env rq d ts policy) (resume_transfer env rq d ts) [ns, ps]
      None (record_resume w) = Some (w1, e)" and f: "finish_loop ''all nodes failed resume'' (w1, e) = (w', r)"
    using assms by (auto simp: download_resume_def)
  show ?thesis
    using resume_cache.groups_loop_keeps [OF refl g] finish_loop_fst [OF f] by (simp add: record_resume_def)
qed

lemma download_chunk_cache:
  assumes "download_chunk fuel env ns rq c d policy w = Some (w', r)"
  shows "fw_cache w' = fw_cache w"
proof -
  obtain w1 e where g: "group_loop fuel env d (chunk_prepare env rq c policy ns) (chunk_transfer env rq c d) None w
      = Some (w1, e)" and f: "finish_loop ''all nodes failed a chunk'' (w1, e) = (w', r)"
    using assms by (auto simp: download_chunk_loop)
  show ?thesis using chunk_cache.group_loop_keeps [OF refl g] finish_loop_fst [OF f] by simp
qed

lemma run_chunks_cache:
  "run_chunks fuel env ns rq key policy cs w = Some (w', rs) \<Longrightarrow> fw_cache w' = fw_cache w"
proof (induction cs arbitrary: w rs)
  case (Cons c cs)
  then obtain w1 r rs1 where t: "chunk_task fuel env ns rq key policy c w = Some (w1, r)"
    and rest: "run_chunks fuel env ns rq key policy cs w1 = Some (w', rs1)" by (auto split: option.splits)
  have "fw_cache w1 = fw_cache w"
    using t download_chunk_cache by (auto simp: chunk_task_def split: if_splits)
  with Cons.IH [OF rest] show ?case by simp
qed simp

lemma merge_parts_cache [simp]: "fw_cache (fst (merge_parts m ps out w)) = fw_cache w"
  by (induction m ps out w rule: merge_parts.induct) (auto split: option.split)

lemma download_parallel_cache:
  assumes "download_parallel fuel env ns rq sz key runtime w = Some (w', r)"
  shows "fw_cache w' = fw_cache w"
proof -
  obtain cs w1 rs where run: "run_chunks fuel env ns rq key (sr_scheduler_policy runtime) (fe_completion env cs) w
      = Some (w1, rs)"
    and res: "(w', r) = (case collect_parts key rs (replicate (length cs) None) of
                Inl e \<Rightarrow> (w1, Inl e) | Inr ordered \<Rightarrow> merge_parts (Partial_Object key) ordered [] w1)"
    using assms by (auto simp: download_parallel_def split: option.splits)
  have "fw_cache w' = fw_cache w1"
    using res merge_parts_cache by (auto split: sum.splits) (metis fst_conv merge_parts_cache)
  with run_chunks_cache [OF run] show ?thesis by simp
qed

lemma recover_loop_cache:
  "recover_loop fuel env ns rq d digest ts policy lerr w = Some (w', r) \<Longrightarrow> fw_cache w' = fw_cache w"
proof (induction ns arbitrary: lerr w)
  case (Cons n ns)
  then obtain w1 r1 where dw: "download_whole fuel env [n] [] rq d ts policy w = Some (w1, r1)"
    by (auto split: option.splits)
  note c = download_whole_cache [OF dw]
  show ?case
  proof (cases "case r1 of Inr _ \<Rightarrow> verify_file env d digest w1 | Inl e \<Rightarrow> Inl e")
    case (Inl e)
    with Cons.prems dw Cons.IH [of "Some e"] c show ?thesis
      by (simp add: record_retry_def record_transfer_def observe_node_def)
  next
    case (Inr u)
    with Cons.prems dw c show ?thesis by simp
  qed
qed simp

lemma recover_verified_blob_cache:
  assumes "recover_verified_blob fuel env ns rq d digest ts policy w = Some (w', r)"
  shows "fw_cache w' = fw_cache w"
proof -
  define ctx where "ctx = \<lparr>sx_sequence = sequence_for (fe_sha256 env) (rq_path rq) (case ts of None \<Rightarrow> 0 | Some n \<Rightarrow> n),
      sx_blob_size = (case ts of None \<Rightarrow> 0 | Some n \<Rightarrow> n), sx_range_required = False, sx_chunk = None\<rparr>"
  obtain w1 cs where o: "ordered_nodes_with_context env ns ctx policy w = (w1, cs)" by fastforce
  with assms have "recover_loop fuel env cs rq d digest ts policy None w1 = Some (w', r)"
    by (simp add: recover_verified_blob_def Let_def ctx_def [symmetric])
  then show ?thesis using recover_loop_cache o by (metis fst_conv ordered_nodes_fields(2))
qed

lemma detect_node_cache [simp]: "fw_cache (fst (detect_node_capabilities env node rq w)) = fw_cache w"
  by (auto simp: detect_node_capabilities_def Let_def record_transfer_def upstream_send_def
      split: option.splits prod.splits sum.splits if_splits)

lemma detect_loop_cache [simp]: "fw_cache (fst (detect_loop env th rq ns ds w)) = fw_cache w"
proof (induction ns arbitrary: ds w)
  case (Cons n ns)
  obtain w1 r where d: "detect_node_capabilities env n rq w = (w1, r)" by fastforce
  then have "fw_cache w1 = fw_cache w" using detect_node_cache [of env n rq w] by simp
  with Cons.IH d show ?case
    by (auto simp: Let_def record_retry_def split: sum.split option.split)
qed simp

lemma detect_capabilities_cache:
  "detect_capabilities env runtime ns rq w = (w1, r) \<Longrightarrow> fw_cache w1 = fw_cache w"
proof -
  assume a: "detect_capabilities env runtime ns rq w = (w1, r)"
  let ?ds = "\<lparr>ds_last_error = None, ds_baseline = None, ds_compatible = [], ds_observed = [], ds_deadline = False\<rparr>"
  obtain w2 ds where l: "detect_loop env (sr_parallel_threshold runtime) rq (fe_probe_order env ns) ?ds w = (w2, ds)"
    by fastforce
  with a have "w1 = w2" by (auto simp: detect_capabilities_def Let_def split: option.splits)
  then show ?thesis using detect_loop_cache [of env _ rq _ ?ds w] l by (metis fst_conv)
qed

lemma download_blob_cache:
  "download_blob fuel env runtime detected strategy key rq w = Some (w', r) \<Longrightarrow> fw_cache w' = fw_cache w"
  by (auto simp: download_blob_def Let_def record_parallel_blob_def split: download_strategy.splits option.splits
      prod.splits sum.splits if_splits dest!: download_parallel_cache download_whole_cache download_resume_cache)

lemma check_length_cache:
  "check_length fuel env runtime detected digest key rq w = Some (w', r) \<Longrightarrow> fw_cache w' = fw_cache w"
  by (auto simp: check_length_def split: option.splits if_splits dest!: recover_verified_blob_cache)

lemma check_digest_cache:
  "check_digest fuel env runtime detected digest key rq w = Some (w', r) \<Longrightarrow> fw_cache w' = fw_cache w"
  by (auto simp: check_digest_def split: option.splits if_splits sum.splits dest!: recover_verified_blob_cache)

section \<open>What an admitted file is\<close>

lemma verify_content_ok:
  "verify_content h file digest = Inr () \<longleftrightarrow>
     (\<exists>content. file = Some content \<and> digest = ''sha256:'' @ h content
        \<and> length (h content) = 64 \<and> list_all is_ascii_hexdigit (h content))"
proof -
  have none: "strip_prefix ''sha256:'' digest = None \<Longrightarrow> digest \<noteq> ''sha256:'' @ e" for e
    by (metis option.distinct(1) strip_prefix_eq_Some)
  show ?thesis
  proof (cases "strip_prefix ''sha256:'' digest")
    case None
    with none show ?thesis by (simp add: verify_content_def)
  next
    case (Some e)
    then have "digest = ''sha256:'' @ e" by (simp only: strip_prefix_eq_Some)
    with Some show ?thesis by (auto simp: verify_content_def split: option.splits)
  qed
qed

lemma recover_loop_verified:
  "recover_loop fuel env ns rq d digest ts policy lerr w = Some (w', Inr ()) \<Longrightarrow> verify_file env d digest w' = Inr ()"
proof (induction ns arbitrary: lerr w)
  case (Cons n ns)
  then obtain w1 r1 where dw: "download_whole fuel env [n] [] rq d ts policy w = Some (w1, r1)"
    by (auto split: option.splits)
  show ?case
  proof (cases "case r1 of Inr _ \<Rightarrow> verify_file env d digest w1 | Inl e \<Rightarrow> Inl e")
    case (Inl e)
    with Cons.prems dw Cons.IH [of "Some e"] show ?thesis by simp
  next
    case (Inr u)
    with Cons.prems dw show ?thesis by (auto split: sum.splits)
  qed
qed simp

lemma check_digest_verified:
  assumes "check_digest fuel env runtime detected (Some digest) key rq w = Some (w', Inr ())"
  shows "verify_file env (Partial_Object key) digest w' = Inr ()"
proof (cases "verify_file env (Partial_Object key) digest w")
  case (Inl e)
  then show ?thesis
    using assms recover_loop_verified
    by (auto simp: check_digest_def recover_verified_blob_def Let_def split: if_splits prod.splits)
next
  case (Inr u)
  then show ?thesis using assms by (simp add: check_digest_def)
qed

lemma fetch_uncached_stages:
  assumes "fetch_uncached fuel env runtime key rq digest nodes w = Some (w', Inr obj)"
  obtains detected w3 w4 where
    "check_digest fuel env runtime detected digest key rq w3 = Some (w4, Inr ())"
    "admit_partial env detected digest key w4 = (w', Inr obj)"
  using assms that
  by (auto simp: fetch_uncached_def split: prod.splits sum.splits option.splits)

lemma fetch_uncached_verified:
  assumes "fetch_uncached fuel env runtime key rq (Some digest) nodes w = Some (w', Inr obj)"
  shows "\<exists>content. ca_objects (fw_cache w') (co_path obj) = Some content
     \<and> digest = ''sha256:'' @ fe_sha256_hex env content \<and> co_size obj = length content \<and> co_digest obj = Some digest"
proof -
  obtain detected w3 w4 where cd: "check_digest fuel env runtime detected (Some digest) key rq w3 = Some (w4, Inr ())"
    and ad: "admit_partial env detected (Some digest) key w4 = (w', Inr obj)"
    by (rule fetch_uncached_stages [OF assms])
  obtain content where c: "fw_files w4 (Partial_Object key) = Some content"
    "digest = ''sha256:'' @ fe_sha256_hex env content"
    using check_digest_verified [OF cd] by (auto simp: verify_file_def verify_content_ok)
  obtain cache where a: "admit (fe_ln_1p env) key content (dc_media_type detected) (Some digest)
      (fe_utc env (fw_tick w4)) (fw_cache w4) = (cache, Inr obj)" "fw_cache w' = cache"
    using ad c(1) by (auto simp: admit_partial_def split: prod.splits sum.splits)
  from admit_stores [OF a(1)] a(2) c(2) show ?thesis by auto
qed

lemma fetch_uncached_failed:
  assumes "fetch_uncached fuel env runtime key rq digest nodes w = Some (w', Inl e)"
  shows "ca_objects (fw_cache w') \<subseteq>\<^sub>m ca_objects (fw_cache w)"
proof -
  obtain w1 d where det: "detect_capabilities env runtime nodes rq w = (w1, d)" by fastforce
  note c1 = detect_capabilities_cache [OF det]
  show ?thesis
  proof (cases "\<exists>detected strategy w2 w3 w4. d = Inr detected
      \<and> download_blob fuel env runtime detected strategy key rq w1 = Some (w2, Inr ())
      \<and> check_length fuel env runtime detected digest key rq w2 = Some (w3, Inr ())
      \<and> check_digest fuel env runtime detected digest key rq w3 = Some (w4, Inr ())
      \<and> admit_partial env detected digest key w4 = (w', Inl e)")
    case True
    then obtain detected strategy w2 w3 w4 where
      st: "download_blob fuel env runtime detected strategy key rq w1 = Some (w2, Inr ())"
      "check_length fuel env runtime detected digest key rq w2 = Some (w3, Inr ())"
      "check_digest fuel env runtime detected digest key rq w3 = Some (w4, Inr ())"
      and ad: "admit_partial env detected digest key w4 = (w', Inl e)" by blast
    have "fw_cache w4 = fw_cache w"
      using download_blob_cache [OF st(1)] check_length_cache [OF st(2)] check_digest_cache [OF st(3)] c1 by simp
    moreover have "ca_objects (fw_cache w') \<subseteq>\<^sub>m ca_objects (fw_cache w4)"
      using ad admit_err_objects_le by (auto simp: admit_partial_def split: option.splits prod.splits sum.splits)
    ultimately show ?thesis by simp
  next
    case False
    then have "fw_cache w' = fw_cache w"
      using assms det c1
      by (auto simp: fetch_uncached_def split: sum.splits option.splits prod.splits
          dest!: download_blob_cache check_length_cache check_digest_cache)
    then show ?thesis by simp
  qed
qed

section \<open>The loops return\<close>

text \<open>
  A loop goes on waiting only while no candidate has a free slot: with a free slot the first round ends it, with or without success. If every
  wait ends with a free slot (the loop is woken by a released lease), two rounds are enough. More rounds do not change the outcome.
\<close>

definition free_slot :: "'b fetch_world \<Rightarrow> node_view \<Rightarrow> bool" where
  "free_slot w n \<longleftrightarrow>
     0 < nc_requests (se_capacity (fw_selector w))
     \<and> node_capacity_active (se_capacity (fw_selector w)) (nd_id (nv_node n)) < nv_max_concurrency n"

lemma try_nodes_attempted: "snd (try_nodes env d transfer ns True e w) \<noteq> Exhausted False e'"
  by (induction ns arbitrary: e w) (auto split: prod.splits option.splits attempt.splits sum.splits)

lemma try_nodes_free:
  "n \<in> set ns \<Longrightarrow> free_slot w n \<Longrightarrow> snd (try_nodes env d transfer ns False e w) \<noteq> Exhausted False e'"
proof (induction ns arbitrary: w)
  case (Cons m ns)
  obtain cap lease where acq: "try_acquire (se_capacity (fw_selector w)) (nd_id (nv_node m)) (nv_max_concurrency m) = (cap, lease)"
    by fastforce
  show ?case
  proof (cases lease)
    case None
    have "n \<noteq> m"
      using acq None Cons.prems(2) try_acquire_free [of "se_capacity (fw_selector w)" "nd_id (nv_node n)" "nv_max_concurrency n"]
      by (auto simp: free_slot_def)
    with Cons.prems have "n \<in> set ns" by simp
    moreover have "free_slot (w\<lparr>fw_selector := (fw_selector w)\<lparr>se_capacity := cap\<rparr>\<rparr>) n"
      using Cons.prems(2) try_acquire_None acq None by (simp add: free_slot_def)
    ultimately show ?thesis using Cons.IH acq None by (simp add: selector_try_acquire_def)
  next
    case (Some l)
    with acq try_nodes_attempted [of env d transfer ns] show ?thesis
      by (auto simp: selector_try_acquire_def split: prod.splits attempt.splits sum.splits)
  qed
qed simp

lemma group_loop_returns:
  assumes "prepare w = (w1, Inr cs)" and "n \<in> set cs" and "free_slot w1 n"
  shows "\<exists>x. group_loop (Suc fuel) env d prepare transfer e w = Some x"
proof -
  obtain w2 r where "try_nodes env d transfer cs False e w1 = (w2, r)" by fastforce
  moreover from this have "r \<noteq> Exhausted False e'" for e' using try_nodes_free [OF assms(2,3), of env d transfer e e'] by simp
  ultimately show ?thesis using assms(1) by (cases r) (auto split: bool.splits)
qed

lemma group_loop_woken:
  assumes "\<And>w. \<exists>w1 cs n. prepare w = (w1, Inr cs) \<and> n \<in> set cs \<and> (woken w \<longrightarrow> free_slot w1 n)"
    and "\<And>w. woken (capacity_wait env w)"
  shows "\<exists>x. group_loop (Suc (Suc fuel)) env d prepare transfer e w = Some x"
proof -
  obtain w1 cs where p: "prepare w = (w1, Inr cs)" using assms(1) by blast
  obtain w2 r where t: "try_nodes env d transfer cs False e w1 = (w2, r)" by fastforce
  show ?thesis
  proof (cases "\<exists>e'. r = Exhausted False e'")
    case True
    then obtain e' where "r = Exhausted False e'" ..
    moreover obtain w3 cs' n where "prepare (capacity_wait env w2) = (w3, Inr cs')" "n \<in> set cs'" "free_slot w3 n"
      using assms(1) [of "capacity_wait env w2"] assms(2) [of w2] by blast
    ultimately show ?thesis
      using p t group_loop_returns [of prepare "capacity_wait env w2" w3 cs' n fuel env d transfer e'] by simp
  next
    case False
    with p t show ?thesis by (cases r) (auto split: bool.splits)
  qed
qed

lemma group_loop_more_fuel:
  "group_loop fuel env d prepare transfer e w = Some x \<Longrightarrow> group_loop (fuel + k) env d prepare transfer e w = Some x"
  by (induction fuel arbitrary: e w) (auto split: prod.splits sum.splits loop_exit.splits bool.splits)

section \<open>A download from a single node\<close>

lemma schedule_candidates_capacity:
  "schedule_candidates now ns sel = (sel', cs) \<Longrightarrow> se_capacity sel' = se_capacity sel"
proof (induction ns arbitrary: sel cs)
  case (Cons n ns)
  obtain s1 v where m: "measured_speed now n sel = (s1, v)" by fastforce
  obtain cs1 where "schedule_candidates now ns s1 = (sel', cs1)"
    using Cons.prems m by (auto simp: schedule_candidate_of_def Let_def split: prod.splits)
  with Cons.IH measured_speed_fields(1) [OF m] show ?case by simp
qed simp

lemma single_candidate:
  assumes "nd_enabled (nv_node n)" and "rs_enabled (nv_route n)"
  shows "\<exists>sel. ordered_nodes_with_context env [n] ctx policy w = (w\<lparr>fw_selector := sel\<rparr>, [n])
     \<and> se_capacity sel = se_capacity (fw_selector w)"
proof -
  obtain sel ns where o: "order_with_context (fe_ln env) (fe_now env (fw_tick w)) [n] ctx policy (fw_selector w) = (sel, ns)"
    by fastforce
  have "candidate_nodes s now [n] = [n]" for s :: "'a node_selector" and now using assms by (simp add: candidate_nodes_def)
  with order_with_context_spec [OF o] have "mset ns = {#n#}" by simp
  moreover have "se_capacity sel = se_capacity (fw_selector w)"
  proof -
    obtain cs where "schedule_candidates (fe_now env (fw_tick w)) (candidate_nodes (fw_selector w)
        (fe_now env (fw_tick w)) [n]) (fw_selector w) = (sel, cs)"
      using o by (auto simp: order_with_context_def Let_def split: prod.splits)
    then show ?thesis by (rule schedule_candidates_capacity)
  qed
  ultimately show ?thesis using o by (auto simp: ordered_nodes_with_context_def)
qed

lemma single_whole:
  assumes "nd_enabled (nv_node n)" and "rs_enabled (nv_route n)"
    and "0 < nc_requests (se_capacity (fw_selector w))"
    and "node_capacity_active (se_capacity (fw_selector w)) (nd_id (nv_node n)) < nv_max_concurrency n"
    and "fe_send env (fw_tick w) n GET rq Suppress = Inr r" and "status_is_success (re_status r)"
    and "receive_frames (re_body r) (re_content_length r) 0 [] [] = (content, live, Inr ())"
  shows "\<exists>w'. download_whole (Suc fuel) env [n] ps rq d None policy w = Some (w', Inr ())
     \<and> fw_files w' = (fw_files w)(d \<mapsto> content) \<and> fw_cache w' = fw_cache w"
proof -
  let ?ctx = "\<lparr>sx_sequence = sequence_for (fe_sha256 env) (rq_path rq) 0, sx_blob_size = 0,
      sx_range_required = False, sx_chunk = None\<rparr>"
  obtain sel where "ordered_nodes_with_context env [n] ?ctx policy w = (w\<lparr>fw_selector := sel\<rparr>, [n])"
    and cap: "se_capacity sel = se_capacity (fw_selector w)"
    using single_candidate [OF assms(1,2), of env ?ctx policy w] by blast
  then have o: "whole_prepare env rq None policy [n] w = (w\<lparr>fw_selector := sel\<rparr>, Inr [n])"
    by (simp add: whole_prepare_def)
  obtain cap' lease where "try_acquire (se_capacity sel) (nd_id (nv_node n)) (nv_max_concurrency n) = (cap', Some lease)"
    using try_acquire_free [of "se_capacity sel"] assms(3,4) cap by metis
  then have a: "selector_try_acquire (nd_id (nv_node n)) (nv_max_concurrency n) sel = (sel\<lparr>se_capacity := cap'\<rparr>, Some lease)"
    by (simp add: selector_try_acquire_def)
  let ?w1 = "w\<lparr>fw_selector := sel\<lparr>se_capacity := cap'\<rparr>\<rparr>"
  obtain w2 where tr: "whole_transfer env rq d None n ?w1 = (w2, Attempted 0 (Inr ()))"
    and f: "fw_files w2 = (fw_files w)(d \<mapsto> content)" "fw_cache w2 = fw_cache w"
    using assms(5-7)
    by (auto simp: whole_transfer_def upstream_send_def stream_response_to_file_def write_received_def)
  let ?w3 = "settle_attempt env d lease (nd_id (nv_node n)) 0 True w2"
  have "try_nodes env d (whole_transfer env rq d None) [n] False None (w\<lparr>fw_selector := sel\<rparr>) = (?w3, Returned (Inr ()))"
    using a tr by simp
  then have "groups_loop (Suc fuel) env d (whole_prepare env rq None policy) (whole_transfer env rq d None) [[n], ps] None w
      = Some (?w3, Returned (Inr ()))"
    using o by simp
  then have "download_whole (Suc fuel) env [n] ps rq d None policy w = Some (?w3, Inr ())"
    by (simp add: download_whole_def finish_loop_def)
  moreover have "fw_files ?w3 = fw_files w2" "fw_cache ?w3 = fw_cache w2"
    by (simp_all add: settle_attempt_def record_transfer_def release_lease_def observe_node_def Let_def)
  ultimately show ?thesis using f by auto
qed

lemma fetch_flight_miss:
  assumes "fetch_flight fuel env runtime key rq digest nodes w = Some (w', Inr res)" and "\<not> br_cache_hit res"
  obtains w3 w4 obj where "fetch_uncached fuel env runtime key rq digest nodes w3 = Some (w4, Inr obj)"
    and "w' = with_cache (cache_unlock key) w4" and "br_object res = obj"
proof -
  let ?w1 = "with_cache (cache_lock key \<circ> fe_lock_wait env (fw_tick w)) w"
  obtain cache hit where g: "cache_get key (fe_utc env (fw_tick ?w1)) (fw_cache ?w1) = (cache, hit)" by fastforce
  have none: "hit = None" using assms g by (cases hit) (auto simp: fetch_flight_def Let_def)
  obtain w4 r where f: "fetch_uncached fuel env runtime key rq digest nodes (?w1\<lparr>fw_cache := cache\<rparr>) = Some (w4, r)"
    and w': "w' = with_cache (cache_unlock key) w4"
    and r: "(case r of Inl e \<Rightarrow> Inl e | Inr object \<Rightarrow> Inr \<lparr>br_object = object, br_cache_hit = False\<rparr>) = Inr res"
    using assms(1) g none by (auto simp: fetch_flight_def Let_def)
  from r obtain obj where "r = Inr obj" "br_object res = obj" by (cases r) auto
  with f w' that show ?thesis by blast
qed

section \<open>Properties: integrity\<close>

text \<open>
  C2: No unverified content is served: when a Blob request with an expected digest succeeds without a cache
  hit, the object it returns is a file of the cache whose SHA-256 is exactly the expected digest and whose
  length is the reported size. This holds for every behaviour of the upstream nodes and the network (wrong
  lengths, wrong ranges, truncated, corrupted or endless bodies, errors), for every stale partial file left
  by an earlier attempt, every order of completion, and on every path: chunked, whole, resumed and recovered.
\<close>

theorem fetched_blob_verified:
  assumes "fetch_blob fuel env runtime rq (Some digest) nodes w = Some (w', Inr res)"
    and "\<not> br_cache_hit res"
  shows "\<exists>content. ca_objects (fw_cache w') (co_path (br_object res)) = Some content
     \<and> digest = ''sha256:'' @ fe_sha256_hex env content
     \<and> co_size (br_object res) = length content \<and> co_digest (br_object res) = Some digest"
proof -
  obtain key w2 where fl: "fetch_flight fuel env runtime key rq (Some digest) nodes w2 = Some (w', Inr res)"
    using assms by (auto simp: fetch_blob_def Let_def split: list.splits prod.splits option.splits)
  obtain w3 w4 obj where f: "fetch_uncached fuel env runtime key rq (Some digest) nodes w3 = Some (w4, Inr obj)"
    and w': "w' = with_cache (cache_unlock key) w4" and res: "br_object res = obj"
    using fl assms(2) by (rule fetch_flight_miss)
  have "ca_objects (fw_cache w') = ca_objects (fw_cache w4)"
    by (simp add: w' with_cache_def cache_unlock_def)
  with fetch_uncached_verified [OF f] res show ?thesis by simp
qed

definition example_send :: "nat \<Rightarrow> node_view \<Rightarrow> http_method \<Rightarrow> fetch_request \<Rightarrow> range_mode \<Rightarrow> response api_result" where
  "example_send n node method rq rmode =
     (if method = HEAD
      then Inr \<lparr>re_status = 404, re_headers = [], re_content_length = None, re_body = []\<rparr>
      else Inr \<lparr>re_status = 200, re_headers = [], re_content_length = None, re_body = [Inr [1, 2, 3]]\<rparr>)"

definition example_env :: "nat fetch_env" where
  "example_env =
     \<lparr>fe_send = example_send, fe_now = id, fe_elapsed = (\<lambda>_. 0), fe_utc = (\<lambda>_. 5), fe_wait = (\<lambda>_ c. c),
      fe_lock_wait = (\<lambda>_ c. c), fe_probe_order = id, fe_probe_timeout = (\<lambda>_. False), fe_capability_kept = (\<lambda>_. False),
      fe_completion = id, fe_sha256 = (\<lambda>_. replicate 32 1), fe_sha256_hex = (\<lambda>_. replicate 64 CHR ''a''),
      fe_parse_range = (\<lambda>_. None), fe_status_text = (\<lambda>_. []), fe_uuid_text = (\<lambda>_. ''r''), fe_ln = id, fe_ln_1p = id,
      fe_new_backoff = 0, fe_next_backoff = (\<lambda>b. (Some 250, b + 1))\<rparr>"

definition example_world :: "nat fetch_world" where
  "example_world =
     \<lparr>fw_selector = with_capacity ProjectedCompletion node_capacity_default, fw_files = Map.empty, fw_tick = 0,
      fw_parallel_blobs = 0, fw_resume_attempts = 0, fw_retry_attempts = 0, fw_last_chunk_size = 0,
      fw_transfers = [], fw_live_bytes = [], fw_capabilities = Map.empty, fw_cache = example_cache\<rparr>"

definition example_request :: fetch_request where
  "example_request = \<lparr>rq_path = ''/v2/a/blobs/x'', rq_headers = []\<rparr>"

definition example_runtime :: scheduler_runtime_config where
  "example_runtime =
     \<lparr>sr_chunk_size = 4, sr_adaptive_chunking_enabled = False, sr_automatic_concurrency_enabled = True,
      sr_parallel_threshold = 100, sr_resumable_threshold = 100, sr_chunk_concurrency = 4,
      sr_scheduler_policy = Balanced\<rparr>"

lemma example_detect:
  "\<exists>w1. detect_capabilities example_env example_runtime [example_node_view 1 ''a''] example_request w = (w1, Inr
      \<lparr>dc_size = None, dc_media_type = ''application/octet-stream'', dc_nodes = [example_node_view 1 ''a''],
       dc_range_nodes = [], dc_pending_nodes = [], dc_fallback_nodes = [example_node_view 1 ''a'']\<rparr>)
     \<and> fw_selector w1 = fw_selector w \<and> fw_cache w1 = fw_cache w"
  by (simp add: detect_capabilities_def detect_node_capabilities_def upstream_send_def example_env_def example_send_def
      example_node_view_def capabilities_from_probe_def status_is_success_def response_media_type_def header_str_def
      header_get_def ok_or_def record_transfer_def Let_def)

text \<open>A whole run of \<open>fetch_uncached\<close> on the example: probe, plan, download, both checks and admission.\<close>

lemma example_fetch:
  assumes "fw_selector w = with_capacity ProjectedCompletion node_capacity_default" and "fw_files w = Map.empty"
    and "fw_cache w = example_cache\<lparr>ca_active_flights := flights\<rparr>"
  shows "\<exists>w' obj. fetch_uncached 1 example_env example_runtime key example_request
      (Some (''sha256:'' @ replicate 64 CHR ''a'')) [example_node_view 1 ''a''] w = Some (w', Inr obj)"
proof -
  let ?n = "example_node_view 1 ''a''" and ?digest = "''sha256:'' @ replicate 64 CHR ''a''"
  let ?det = "\<lparr>dc_size = None, dc_media_type = ''application/octet-stream'', dc_nodes = [?n],
      dc_range_nodes = [], dc_pending_nodes = [], dc_fallback_nodes = [?n]\<rparr>"
  obtain w1 where det: "detect_capabilities example_env example_runtime [?n] example_request w = (w1, Inr ?det)"
    and w1: "fw_selector w1 = fw_selector w" "fw_cache w1 = fw_cache w"
    using example_detect by blast
  have plan: "choose_plan example_env example_runtime (Some ?digest) ?det w1 = Inr (SingleRequest ''a'')"
    by (simp add: choose_plan_def example_node_view_def)
  have cap: "0 < nc_requests (se_capacity (fw_selector w1))"
    "node_capacity_active (se_capacity (fw_selector w1)) (nd_id (nv_node ?n)) < nv_max_concurrency ?n"
    using w1(1) assms(1) by (simp_all add: with_capacity_def node_capacity_default_def node_capacity_active_def
        MAX_NETWORK_REQUESTS_def example_node_view_def)
  let ?r = "\<lparr>re_status = 200, re_headers = [], re_content_length = None, re_body = [Inr [1, 2, 3]]\<rparr> :: response"
  obtain w2 where dw: "download_whole (Suc 0) example_env [?n] [] example_request (Partial_Object key) None Balanced w1
      = Some (w2, Inr ())" and w2: "fw_files w2 (Partial_Object key) = Some [1, 2, 3]" "fw_cache w2 = fw_cache w1"
    using single_whole [of ?n w1 example_env example_request ?r "[1, 2, 3]" "[3]" 0 "[]" "Partial_Object key" Balanced] cap
    by (auto simp: example_env_def example_send_def status_is_success_def example_node_view_def u64_arith)
  have dl: "download_blob 1 example_env example_runtime ?det (SingleRequest ''a'') key example_request w1 = Some (w2, Inr ())"
    using dw by (simp add: download_blob_def rotate_to_def rotate_left_def example_runtime_def example_node_view_def Let_def)
  have cl: "check_length 1 example_env example_runtime ?det (Some ?digest) key example_request w2 = Some (w2, Inr ())"
    using w2(1) by (simp add: check_length_def file_len_def)
  have "verify_file example_env (Partial_Object key) ?digest w2 = Inr ()"
    unfolding verify_file_def verify_content_ok using w2(1)
    by (simp add: example_env_def list_all_iff is_ascii_hexdigit_def)
  then have cd: "check_digest 1 example_env example_runtime ?det (Some ?digest) key example_request w2 = Some (w2, Inr ())"
    by (simp add: check_digest_def)
  obtain t obj where "admit id key [1, 2, 3] ''application/octet-stream'' (Some ?digest) 5
      (example_cache\<lparr>ca_active_flights := flights\<rparr>) = (t, Inr obj)"
    using example_admit by blast
  then have "\<exists>w'. admit_partial example_env ?det (Some ?digest) key w2 = (w', Inr obj)"
    using w2 w1 assms(3) by (simp add: admit_partial_def example_env_def)
  with det plan dl cl cd show ?thesis by (auto simp: fetch_uncached_def)
qed

theorem fetched_blob_verified_witness:
  "\<exists>w' res content. fetch_blob 1 example_env example_runtime example_request (Some (''sha256:'' @ replicate 64 CHR ''a''))
       [example_node_view 1 ''a''] example_world = Some (w', Inr res)
     \<and> ca_objects (fw_cache w') (co_path (br_object res)) = Some content
     \<and> ''sha256:'' @ replicate 64 CHR ''a'' = ''sha256:'' @ fe_sha256_hex example_env content"
proof -
  let ?n = "example_node_view 1 ''a''" and ?digest = "''sha256:'' @ replicate 64 CHR ''a''"
  let ?key = "blob_request_key example_env example_world example_request ?n [?n]"
  let ?w3 = "example_world\<lparr>fw_cache := example_cache\<lparr>ca_active_flights := {?key}\<rparr>\<rparr>"
  obtain w4 obj where f: "fetch_uncached 1 example_env example_runtime ?key example_request (Some ?digest) [?n] ?w3
      = Some (w4, Inr obj)"
    using example_fetch [of ?w3 "{?key}" ?key] by (auto simp: example_world_def)
  have miss: "cache_get ?key now (example_cache\<lparr>ca_active_flights := F\<rparr>) = (example_cache\<lparr>ca_active_flights := F\<rparr>, None)" for now F
    by (simp add: cache_get_def find_entry_def example_cache_def)
  have lock: "with_cache (cache_lock ?key \<circ> fe_lock_wait example_env (fw_tick example_world)) example_world = ?w3"
    by (simp add: with_cache_def cache_lock_def example_env_def example_world_def example_cache_def)
  have "fetch_flight 1 example_env example_runtime ?key example_request (Some ?digest) [?n] example_world
      = Some (with_cache (cache_unlock ?key) w4, Inr \<lparr>br_object = obj, br_cache_hit = False\<rparr>)"
    unfolding fetch_flight_def Let_def lock using f miss [of _ "{?key}"] by (simp add: example_world_def)
  moreover have "cache_get ?key (fe_utc example_env 0) example_cache = (example_cache, None)"
    using miss [of _ "{}"] by (simp add: example_cache_def)
  ultimately have "fetch_blob 1 example_env example_runtime example_request (Some ?digest) [?n] example_world
      = Some (with_cache (cache_unlock ?key) w4, Inr \<lparr>br_object = obj, br_cache_hit = False\<rparr>)"
    by (simp add: fetch_blob_def Let_def example_world_def)
  with fetched_blob_verified [OF this] show ?thesis by auto
qed

text \<open>
  A failed fetch leaves nothing behind in the cache: when the fetch of a Blob ends with an error, whatever
  the error and whenever it occurs, every object of the cache afterwards was there before with the same
  content (an admission that failed may have evicted some).
\<close>

lemma failed_fetch_adds_nothing:
  assumes "fetch_uncached fuel env runtime key rq digest nodes w = Some (w', Inl e)"
    and "ca_objects (fw_cache w') p = Some content"
  shows "ca_objects (fw_cache w) p = Some content"
  using fetch_uncached_failed [OF assms(1)] assms(2) by (auto simp: map_le_def dom_def)

end
