(* ===== verification/Parallel_Download.thy ===== *)
theory Parallel_Download
  imports Blob_Fetch_Proofs
begin

text \<open>
  The chunked download reconstructs the Blob: an interpretation of the contract of the download loops with
  the invariant that the part file of a chunk is a prefix of its byte range. It holds for nodes that may
  fail, truncate, answer with other statuses or other ranges, but that deliver the bytes of the Blob when
  they answer a range request with a matching \<open>Content-Range\<close>.
\<close>

section \<open>Bodies\<close>

text \<open>The data of a body up to its first transport error.\<close>

fun delivered :: "(string + bytes) list \<Rightarrow> bytes" where
  "delivered [] = []"
| "delivered (Inl e # frames) = []"
| "delivered (Inr frame # frames) = frame @ delivered frames"

lemma receive_frames_spec:
  assumes "receive_frames frames expected received content live = (c, l, r)" and "received \<le> u64_max"
  shows "\<exists>d. c = content @ d \<and> prefix d (delivered frames)
     \<and> (r = Inr () \<longrightarrow> d = delivered frames \<and> (\<forall>e. expected = Some e \<longrightarrow> min (received + length d) u64_max = e))"
  using assms
proof (induction frames expected received content live rule: receive_frames.induct)
  case (1 expected received content live)
  then show ?case by (auto split: option.splits if_splits)
next
  case (2 e frames expected received content live)
  then show ?case by auto
next
  case (3 frame frames expected received content live)
  let ?rec = "u64_saturating_add received (length frame)"
  show ?case
  proof (cases "case expected of None \<Rightarrow> False | Some e \<Rightarrow> e < ?rec")
    case True
    with 3(2) show ?thesis by (auto simp: Let_def)
  next
    case False
    with 3(2) have rest: "receive_frames frames expected ?rec (content @ frame) (live @ [length frame]) = (c, l, r)"
      by (simp add: Let_def)
    obtain d where d: "c = (content @ frame) @ d" "prefix d (delivered frames)"
      "r = Inr () \<longrightarrow> d = delivered frames \<and> (\<forall>e. expected = Some e \<longrightarrow> min (?rec + length d) u64_max = e)"
      using 3(1) [OF refl False rest] by auto
    have "min (?rec + length d) u64_max = min (received + length (frame @ d)) u64_max"
      by (simp add: u64_saturating_add_def min_def)
    with d show ?thesis by (intro exI [of _ "frame @ d"]) auto
  qed
qed

text \<open>The bytes \<open>a\<close> to \<open>b\<close> of a Blob, both inclusive.\<close>

definition slice :: "bytes \<Rightarrow> nat \<Rightarrow> nat \<Rightarrow> bytes" where
  "slice content a b = take (Suc b - a) (drop a content)"

lemma length_slice: "a \<le> b \<Longrightarrow> b < length content \<Longrightarrow> length (slice content a b) = b - a + 1"
  by (simp add: slice_def)

lemma slice_split: "a + k \<le> b \<Longrightarrow> slice content a b = take k (slice content a b) @ slice content (a + k) b"
proof -
  assume "a + k \<le> b"
  then have "drop k (slice content a b) = slice content (a + k) b"
    by (simp add: slice_def drop_take add.commute)
  then show ?thesis by (metis append_take_drop_id)
qed

text \<open>
  A node is honest about \<open>content\<close> when a partial response whose \<open>Content-Range\<close> names the requested range
  delivers a prefix of those bytes; it may break off, and any other answer is allowed.
\<close>

definition honest_upstream :: "'b fetch_env \<Rightarrow> fetch_request \<Rightarrow> bytes \<Rightarrow> bool" where
  "honest_upstream env rq content \<longleftrightarrow>
     (\<forall>n node a b r. fe_send env n node GET rq (Exact a b) = Inr r \<and> re_status r = 206
        \<and> content_range_matches (fe_parse_range env) (re_headers r) a b (length content)
        \<longrightarrow> prefix (delivered (re_body r)) (slice content a b))"

section \<open>One chunk\<close>

text \<open>The chunk lies in the Blob; its part file is a prefix of its range; nothing else has changed.\<close>

definition chunk_in :: "bytes \<Rightarrow> chunk \<Rightarrow> bool" where
  "chunk_in content c \<longleftrightarrow> ch_start c \<le> ch_end c \<and> ch_end c < length content \<and> ch_total_size c = length content"

definition part_prefix :: "bytes \<Rightarrow> chunk \<Rightarrow> temp_path \<Rightarrow> (temp_path \<rightharpoonup> bytes) \<Rightarrow> 'b fetch_world \<Rightarrow> bool" where
  "part_prefix content c d others w \<longleftrightarrow>
     (\<forall>f. fw_files w d = Some f \<longrightarrow> prefix f (slice content (ch_start c) (ch_end c)))
     \<and> (\<forall>p. p \<noteq> d \<longrightarrow> fw_files w p = others p)"

definition part_done :: "bytes \<Rightarrow> chunk \<Rightarrow> temp_path \<Rightarrow> 'b fetch_world \<Rightarrow> bool" where
  "part_done content c d w \<longleftrightarrow> fw_files w d = Some (slice content (ch_start c) (ch_end c))"

lemma write_received_prefix:
  assumes "chunk_in content c" and "length content \<le> u64_max"
    and "prefix i (slice content (ch_start c) (ch_end c))" and "ch_start c + length i \<le> ch_end c"
    and "prefix (delivered (re_body r)) (slice content (ch_start c + length i) (ch_end c))"
    and "write_received d node_id i r (Some (ch_end c - (ch_start c + length i) + 1)) w = (w', res)"
  shows "\<exists>f. fw_files w' = (fw_files w)(d \<mapsto> f) \<and> prefix f (slice content (ch_start c) (ch_end c))
     \<and> (res = Inr () \<longrightarrow> f = slice content (ch_start c) (ch_end c))"
proof -
  let ?s = "slice content (ch_start c) (ch_end c)" and ?t = "slice content (ch_start c + length i) (ch_end c)"
  let ?e = "ch_end c - (ch_start c + length i) + 1"
  obtain f l where rf: "receive_frames (re_body r) (Some ?e) 0 i [] = (f, l, res)"
    and w': "fw_files w' = (fw_files w)(d \<mapsto> f)"
    using assms(6) by (auto simp: write_received_def split: prod.splits)
  obtain x where x: "f = i @ x" "prefix x (delivered (re_body r))"
    "res = Inr () \<longrightarrow> x = delivered (re_body r) \<and> min (length x) u64_max = ?e"
    using receive_frames_spec [OF rf] by auto
  have "i = take (length i) ?s" using assms(3) by (auto simp: prefix_def)
  then have s: "?s = i @ ?t" using slice_split [OF assms(4), of content] by simp
  have px: "prefix x ?t" using x(2) assms(5) by (rule prefix_order.trans)
  have "length ?t = ?e" using length_slice assms(1,4) by (simp add: chunk_in_def)
  moreover have "length x \<le> length ?t" using px by (rule prefix_length_le)
  ultimately have "res = Inr () \<longrightarrow> length x = length ?t" using x(3) assms(1,2) by (auto simp: chunk_in_def)
  with px have "res = Inr () \<longrightarrow> x = ?t" by (metis append_eq_conv_conj prefix_def take_all_iff order_refl)
  with w' x(1) s px show ?thesis by auto
qed

lemma chunk_transfer_part:
  assumes "honest_upstream env rq content" and "chunk_in content c" and "length content \<le> u64_max"
    and "part_prefix content c d others w" and "chunk_transfer env rq c d node w = (w', Attempted n res)"
  shows "part_prefix content c d others w' \<and> (res = Inr () \<longrightarrow> part_done content c d w')"
proof -
  let ?s = "slice content (ch_start c) (ch_end c)" and ?cs = "ch_end c - ch_start c + 1"
  obtain i where i: "fw_files w d = Some i \<or> fw_files w d = None \<and> i = []" and pi: "prefix i ?s"
    using assms(4) by (cases "fw_files w d") (auto simp: part_prefix_def)
  have ex: "(case file_len d w of None \<Rightarrow> 0 | Some l \<Rightarrow> l) = length i" using i by (auto simp: file_len_def)
  have ls: "length ?s = ?cs" using assms(2) length_slice by (simp add: chunk_in_def)
  then have le: "length i \<le> ?cs" using prefix_length_le [OF pi] by simp
  show ?thesis
  proof (cases "ch_end c < ch_start c + length i")
    case True
    then have "length i = length ?s" using le ls assms(2) unfolding chunk_in_def by linarith
    then have "i = ?s" using pi by (metis append_eq_conv_conj prefix_def take_all_iff order_refl)
    moreover have "w' = w" using assms(5) True le ex by (simp add: chunk_transfer_def Let_def not_less)
    moreover have "i \<noteq> []" using \<open>length i = length ?s\<close> ls by auto
    ultimately show ?thesis using i assms(4) by (auto simp: part_done_def)
  next
    case False
    let ?st = "ch_start c + length i" and ?w1 = "w\<lparr>fw_tick := fw_tick w + 1\<rparr>"
    have p1: "part_prefix content c d others ?w1" using assms(4) by (simp add: part_prefix_def)
    show ?thesis
    proof (cases "w' = ?w1 \<and> res \<noteq> Inr ()")
      case True
      with p1 show ?thesis by simp
    next
      case changed: False
      then obtain r where send: "fe_send env (fw_tick w) node GET rq (Exact ?st (ch_end c)) = Inr r"
        and ok: "re_status r = 206" "content_range_matches (fe_parse_range env) (re_headers r) ?st (ch_end c) (ch_total_size c)"
        and wr: "(if 0 < length i then append_response_to_file r d (ch_end c - ?st + 1) (nd_id (nv_node node)) ?w1
            else stream_response_to_file r d (Some (ch_end c - ?st + 1)) (nd_id (nv_node node)) ?w1) = (w', res)"
        using assms(5) False le ex
        by (auto simp: chunk_transfer_def upstream_send_def Let_def not_less split: sum.splits if_splits prod.splits)
      have pd: "prefix (delivered (re_body r)) (slice content ?st (ch_end c))"
        using assms(1,2) send ok unfolding honest_upstream_def chunk_in_def by metis
      have "write_received d (nd_id (nv_node node)) i r (Some (ch_end c - ?st + 1)) ?w1 = (w', res)"
        using wr i by (auto simp: append_response_to_file_def stream_response_to_file_def split: if_splits)
      from write_received_prefix [OF assms(2,3) pi _ pd this] False obtain f where
        "fw_files w' = (fw_files w)(d \<mapsto> f)" "prefix f ?s" "res = Inr () \<longrightarrow> f = ?s" by auto
      with assms(4) show ?thesis by (auto simp: part_prefix_def part_done_def)
    qed
  qed
qed

lemma chunk_transfer_attempted: "\<exists>w' n res. chunk_transfer env rq c d node w = (w', Attempted n res)"
  by (auto simp: chunk_transfer_def Let_def split: prod.split sum.split)

text \<open>The loop of \<open>download_chunk\<close> under the contract: prefixes stay prefixes, success is the whole range.\<close>

lemma part_invariant:
  fixes env :: "'b fetch_env"
  assumes "honest_upstream env rq content" and "chunk_in content c" and "length content \<le> u64_max"
  shows "download_invariant d (chunk_prepare env rq c policy) (chunk_transfer env rq c d)
     (part_prefix content c d others) (part_done content c d)"
proof
  fix w :: "'b fetch_world" and node
  assume p: "part_prefix content c d others w"
  obtain w' n res where tr: "chunk_transfer env rq c d node w = (w', Attempted n res)"
    using chunk_transfer_attempted by blast
  show "part_prefix content c d others (fst (chunk_transfer env rq c d node w))"
    using chunk_transfer_part [OF assms p tr] tr by simp
next
  fix w w' :: "'b fetch_world" and node n
  assume "part_prefix content c d others w" "chunk_transfer env rq c d node w = (w', Attempted n (Inr ()))"
  then show "part_done content c d w'" using chunk_transfer_part [OF assms] by blast
next
  fix w w' :: "'b fetch_world" and node
  assume "chunk_transfer env rq c d node w = (w', Stop (Inr ()))"
  then show "part_done content c d w'" using chunk_transfer_attempted [of env rq c d node w] by auto
next
  fix g and w w' :: "'b fetch_world"
  assume "chunk_prepare env rq c policy g w = (w', Inl (Inr ()))"
  then show "part_done content c d w'" by (auto simp: chunk_prepare_def apsnd_def map_prod_def split: prod.splits)
qed (auto simp: part_prefix_def part_done_def remove_file_def)

lemma download_chunk_part:
  assumes "honest_upstream env rq content" and "chunk_in content c" and "length content \<le> u64_max"
    and "part_prefix content c d others w" and "download_chunk fuel env ns rq c d policy w = Some (w', r)"
  shows "part_prefix content c d others w' \<and> (r = Inr () \<longrightarrow> part_done content c d w')"
proof -
  obtain w1 e where g: "group_loop fuel env d (chunk_prepare env rq c policy ns) (chunk_transfer env rq c d) None w
      = Some (w1, e)" and f: "finish_loop ''all nodes failed a chunk'' (w1, e) = (w', r)"
    using assms(5) by (auto simp: download_chunk_loop)
  from download_invariant.group_loop_keeps [OF part_invariant [OF assms(1-3)] assms(4) g]
  show ?thesis using finish_loop_ok f finish_loop_fst [OF f] by metis
qed

section \<open>All chunks\<close>

definition parts_prefix :: "bytes \<Rightarrow> string \<Rightarrow> chunk list \<Rightarrow> 'b fetch_world \<Rightarrow> bool" where
  "parts_prefix content key cs w \<longleftrightarrow>
     (\<forall>c \<in> set cs. \<forall>f. fw_files w (part_path key c) = Some f \<longrightarrow> prefix f (slice content (ch_start c) (ch_end c)))"

lemma part_path_inj:
  "part_path key c = part_path key c' \<Longrightarrow> ch_start c = ch_start c' \<and> ch_end c = ch_end c'"
  by (simp add: part_path_def)

lemma chunk_task_part:
  assumes "honest_upstream env rq content" and "chunk_in content c" and "length content \<le> u64_max"
    and "parts_prefix content key cs w" and "c \<in> set cs"
    and "chunk_task fuel env ns rq key policy c w = Some (w', r)"
  shows "parts_prefix content key cs w' \<and> (r = Inr () \<longrightarrow> part_done content c (part_path key c) w')
     \<and> (\<forall>p. p \<noteq> part_path key c \<longrightarrow> fw_files w' p = fw_files w p)"
proof (cases "file_len (part_path key c) w = Some (ch_end c - ch_start c + 1)")
  case True
  then obtain f where f: "fw_files w (part_path key c) = Some f" "length f = ch_end c - ch_start c + 1"
    by (auto simp: file_len_def)
  have "prefix f (slice content (ch_start c) (ch_end c))" using assms(4,5) f(1) by (auto simp: parts_prefix_def)
  moreover have "length f = length (slice content (ch_start c) (ch_end c))"
    using f(2) length_slice assms(2) by (simp add: chunk_in_def)
  ultimately have "f = slice content (ch_start c) (ch_end c)"
    by (metis append_eq_conv_conj prefix_def take_all_iff order_refl)
  with True f assms(4,6) show ?thesis by (auto simp: chunk_task_def part_done_def)
next
  case False
  have p: "part_prefix content c (part_path key c) (fw_files w) w"
    using assms(4,5) by (auto simp: part_prefix_def parts_prefix_def)
  have "download_chunk fuel env ns rq c (part_path key c) policy w = Some (w', r)"
    using assms(6) False by (simp add: chunk_task_def)
  from download_chunk_part [OF assms(1-3) p this]
  have kept: "part_prefix content c (part_path key c) (fw_files w) w'"
    "r = Inr () \<longrightarrow> part_done content c (part_path key c) w'" by blast+
  have "parts_prefix content key cs w'"
    unfolding parts_prefix_def
  proof (intro ballI allI impI)
    fix c' f assume c': "c' \<in> set cs" and f: "fw_files w' (part_path key c') = Some f"
    show "prefix f (slice content (ch_start c') (ch_end c'))"
    proof (cases "part_path key c' = part_path key c")
      case True
      with f kept(1) part_path_inj [OF True] show ?thesis by (auto simp: part_prefix_def)
    next
      case False
      with f kept(1) c' assms(4) show ?thesis by (auto simp: part_prefix_def parts_prefix_def)
    qed
  qed
  with kept show ?thesis by (auto simp: part_prefix_def)
qed

lemma run_chunks_parts:
  assumes "honest_upstream env rq content" and "length content \<le> u64_max"
    and "\<forall>c \<in> set cs. chunk_in content c" and "distinct (map ch_start cs)"
    and "parts_prefix content key all w" and "set cs \<subseteq> set all"
    and "run_chunks fuel env ns rq key policy cs w = Some (w', rs)"
  shows "map fst rs = cs \<and> (\<forall>(c, r) \<in> set rs. r = Inr () \<longrightarrow> part_done content c (part_path key c) w')
     \<and> parts_prefix content key all w'
     \<and> (\<forall>p. p \<notin> part_path key ` set cs \<longrightarrow> fw_files w' p = fw_files w p)"
  using assms(3-7)
proof (induction cs arbitrary: w rs)
  case (Cons c cs)
  obtain w1 r rs1 where t: "chunk_task fuel env ns rq key policy c w = Some (w1, r)"
    and rest: "run_chunks fuel env ns rq key policy cs w1 = Some (w', rs1)" and rs: "rs = (c, r) # rs1"
    using Cons.prems(5) by (auto split: option.splits)
  have c1: "parts_prefix content key all w1" "r = Inr () \<longrightarrow> part_done content c (part_path key c) w1"
    "\<forall>p. p \<noteq> part_path key c \<longrightarrow> fw_files w1 p = fw_files w p"
    using chunk_task_part [OF assms(1) _ assms(2) Cons.prems(3) _ t] Cons.prems by auto
  have ih: "map fst rs1 = cs" "\<forall>(c, r) \<in> set rs1. r = Inr () \<longrightarrow> part_done content c (part_path key c) w'"
    "parts_prefix content key all w'" "\<forall>p. p \<notin> part_path key ` set cs \<longrightarrow> fw_files w' p = fw_files w1 p"
    using Cons.IH [OF _ _ c1(1) _ rest] Cons.prems by auto
  have "part_path key c \<notin> part_path key ` set cs"
  proof
    assume "part_path key c \<in> part_path key ` set cs"
    then obtain c' where "c' \<in> set cs" "ch_start c' = ch_start c" using part_path_inj by (metis image_iff)
    then show False using Cons.prems(2) by (metis distinct.simps(2) image_eqI list.set_map list.simps(9))
  qed
  then have "fw_files w' (part_path key c) = fw_files w1 (part_path key c)" using ih(4) by blast
  then have "r = Inr () \<longrightarrow> part_done content c (part_path key c) w'" using c1(2) by (simp add: part_done_def)
  with ih c1 rs show ?case by auto
qed simp

lemma collect_parts_ok:
  assumes "collect_parts key rs ordered = Inr result" and "distinct (map (ch_index \<circ> fst) rs)"
    and "\<forall>(c, r) \<in> set rs. ch_index c < length ordered"
  shows "length result = length ordered \<and> (\<forall>(c, r) \<in> set rs. r = Inr () \<and> result ! ch_index c = Some (part_path key c))
     \<and> (\<forall>k < length ordered. k \<notin> (ch_index \<circ> fst) ` set rs \<longrightarrow> result ! k = ordered ! k)"
  using assms
proof (induction key rs ordered rule: collect_parts.induct)
  case (3 key c u rs ordered)
  let ?o = "ordered[ch_index c := Some (part_path key c)]"
  have ih: "length result = length ?o" "\<forall>(c, r) \<in> set rs. r = Inr () \<and> result ! ch_index c = Some (part_path key c)"
    "\<forall>k < length ?o. k \<notin> (ch_index \<circ> fst) ` set rs \<longrightarrow> result ! k = ?o ! k"
    using 3(1) 3(2-4) by auto
  have "ch_index c \<notin> (ch_index \<circ> fst) ` set rs" using 3(3) by (auto simp: image_comp)
  then have "result ! ch_index c = Some (part_path key c)" using ih(3) 3(4) by auto
  with ih show ?case by (auto simp: nth_list_update)
qed auto

lemma merge_parts_ok:
  assumes "\<forall>x \<in> set (zip paths bodies). fw_files w (fst x) = Some (snd x)" and "length paths = length bodies"
  shows "merge_parts m (map Some paths) out w
     = (w\<lparr>fw_files := (fw_files w)(m \<mapsto> out @ concat bodies)\<rparr>, Inr ())"
  using assms
proof (induction paths arbitrary: out bodies)
  case (Cons p ps)
  then show ?case by (cases bodies) (auto cong: if_cong)
qed simp

lemma slice_nth: "b < length content \<Longrightarrow> slice content a b = map ((!) content) [a..<Suc b]"
  by (rule nth_equalityI) (auto simp: slice_def simp del: upt_Suc)

lemma spec_chunks_content:
  assumes "0 < cs"
  shows "concat (map (\<lambda>c. slice content (ch_start c) (ch_end c))
      (map (spec_chunk (length content) cs) [0..<div_ceil (length content) cs])) = content"
proof -
  let ?n = "div_ceil (length content) cs"
  let ?r = "\<lambda>i. [i * cs..<Suc (min ((i + 1) * cs) (length content) - 1)]"
  have "map (\<lambda>c. slice content (ch_start c) (ch_end c)) (map (spec_chunk (length content) cs) [0..<?n])
      = map (\<lambda>i. map ((!) content) (?r i)) [0..<?n]"
    using chunk_nonempty [OF assms] by (auto simp: slice_nth simp del: upt_Suc)
  then have "concat (map (\<lambda>c. slice content (ch_start c) (ch_end c)) (map (spec_chunk (length content) cs) [0..<?n]))
      = map ((!) content) (concat (map ?r [0..<?n]))"
    by (simp only: map_concat map_map comp_def)
  also have "concat (map ?r [0..<?n]) = [0..<length content]"
    using spec_chunks_ranges [OF assms, of ?n "length content"] div_ceil_upper [OF assms, of "length content"] by simp
  finally show ?thesis by (simp add: map_nth)
qed

lemma spec_chunk_in: "0 < cs \<Longrightarrow> k < div_ceil (length content) cs \<Longrightarrow> chunk_in content (spec_chunk (length content) cs k)"
  using chunk_nonempty [of cs k "length content"] by (simp add: chunk_in_def)

lemma spec_chunks_distinct:
  assumes "0 < cs" and "mset ys = mset (map (spec_chunk n cs) [0..<m])"
  shows "distinct (map ch_start ys)" "distinct (map ch_index ys)"
proof -
  have "mset (map f ys) = mset (map f (map (spec_chunk n cs) [0..<m]))" for f using assms(2) by (simp only: mset_map)
  moreover have "distinct (map ch_start (map (spec_chunk n cs) [0..<m]))"
    using assms(1) by (simp add: distinct_map inj_on_def)
  moreover have "distinct (map ch_index (map (spec_chunk n cs) [0..<m]))" by (simp add: distinct_map inj_on_def)
  ultimately show "distinct (map ch_start ys)" "distinct (map ch_index ys)" by (metis mset_eq_imp_distinct_iff)+
qed

section \<open>Property: reconstruction\<close>

text \<open>Every part file of the Blob under this key is a prefix of the byte range it is named after.\<close>

definition parts_of :: "bytes \<Rightarrow> string \<Rightarrow> 'b fetch_world \<Rightarrow> bool" where
  "parts_of content key w \<longleftrightarrow>
     (\<forall>a b f. fw_files w (Part key (length content) a b) = Some f \<longrightarrow> prefix f (slice content a b))"

lemma parts_of_prefix: "parts_of content key w \<Longrightarrow> \<forall>c \<in> set cs. chunk_in content c \<Longrightarrow> parts_prefix content key cs w"
  by (auto simp: parts_of_def parts_prefix_def part_path_def chunk_in_def)

lemma parts_of_kept:
  assumes "parts_of content key w" and "parts_prefix content key cs w'"
    and "\<forall>p. p \<notin> part_path key ` set cs \<longrightarrow> fw_files w' p = fw_files w p"
  shows "parts_of content key w'"
  unfolding parts_of_def
proof (intro allI impI)
  fix a b f assume f: "fw_files w' (Part key (length content) a b) = Some f"
  show "prefix f (slice content a b)"
  proof (cases "Part key (length content) a b \<in> part_path key ` set cs")
    case True
    then obtain c where "c \<in> set cs" "Part key (length content) a b = part_path key c" by auto
    with assms(2) f show ?thesis by (auto simp: parts_prefix_def part_path_def)
  next
    case False
    with assms(1,3) f show ?thesis by (auto simp: parts_of_def)
  qed
qed

text \<open>The files after the chunk tasks and the merge.\<close>

lemma merge_chunks:
  assumes "cs = map (spec_chunk (length content) size') [0..<div_ceil (length content) size']" and "0 < size'"
    and "mset (map fst rs) = mset cs"
    and "\<forall>(c, r) \<in> set rs. r = Inr () \<longrightarrow> part_done content c (part_path key c) w"
    and "collect_parts key rs (replicate (length cs) None) = Inr ordered"
  shows "merge_parts (Partial_Object key) ordered [] w
     = (w\<lparr>fw_files := (fw_files w)(Partial_Object key \<mapsto> content)\<rparr>, Inr ())"
proof -
  let ?body = "\<lambda>c. slice content (ch_start c) (ch_end c)"
  have set_eq: "fst ` set rs = set cs" using assms(3) by (metis set_map set_mset_mset)
  have "distinct (map (ch_index \<circ> fst) rs)"
    using spec_chunks_distinct(2) [OF assms(2), of "map fst rs"] assms(1,3) by simp
  moreover have "\<forall>(c, r) \<in> set rs. ch_index c < length (replicate (length cs) None)"
    using set_eq assms(1) by force
  ultimately have c: "length ordered = length cs"
    "\<forall>(c, r) \<in> set rs. r = Inr () \<and> ordered ! ch_index c = Some (part_path key c)"
    using collect_parts_ok [OF assms(5)] by auto
  have ord: "ordered = map Some (map (part_path key) cs)"
  proof (rule nth_equalityI)
    fix k assume "k < length ordered"
    then have k: "cs ! k \<in> set cs" "ch_index (cs ! k) = k" "k < length cs" using c(1) assms(1) by auto
    then obtain r where "(cs ! k, r) \<in> set rs" using set_eq by force
    with c(2) k show "ordered ! k = map Some (map (part_path key) cs) ! k" by auto
  qed (simp add: c(1))
  have "fw_files w (part_path key x) = Some (?body x)" if "x \<in> set cs" for x
  proof -
    from that obtain r where "(x, r) \<in> set rs" using set_eq by force
    with c(2) assms(4) show ?thesis by (auto simp: part_done_def)
  qed
  then have "\<forall>x \<in> set (zip (map (part_path key) cs) (map ?body cs)). fw_files w (fst x) = Some (snd x)"
    by (auto simp: zip_map1 zip_map2 set_zip in_set_conv_nth)
  from merge_parts_ok [OF this, of "Partial_Object key" "[]"] ord spec_chunks_content [OF assms(2), of content] assms(1)
  show ?thesis by simp
qed

text \<open>
  C6: The chunked download reconstructs the Blob. Take any Blob, any positive chunk size that fits with it
  into 64 bits, nodes that may fail, answer with other statuses or ranges or break off in the middle of a
  body, but that deliver bytes of the Blob when they confirm the requested range, any order in which the
  chunks complete, and part files left by earlier attempts that are prefixes of their ranges. If the
  download reports success, the merged file is the Blob byte for byte; and whether it succeeds or fails,
  the part files it leaves are again prefixes of their ranges, so the next attempt can resume from them.
\<close>

theorem parallel_download_reconstructs:
  assumes "honest_upstream env rq content" and "0 < sr_chunk_size runtime"
    and "length content + sr_chunk_size runtime \<le> u64_max + 1"
    and "\<forall>cs. mset (fe_completion env cs) = mset cs"
    and "parts_of content key w"
    and "download_parallel fuel env nodes rq (length content) key runtime w = Some (w', r)"
  shows "(r = Inr () \<longrightarrow> fw_files w' (Partial_Object key) = Some content) \<and> parts_of content key w'"
proof -
  let ?cs = "map (spec_chunk (length content) (sr_chunk_size runtime)) [0..<div_ceil (length content) (sr_chunk_size runtime)]"
  let ?ys = "fe_completion env ?cs"
  obtain w1 rs where run: "run_chunks fuel env nodes rq key (sr_scheduler_policy runtime) ?ys w = Some (w1, rs)"
    and res: "(case collect_parts key rs (replicate (length ?cs) None) of Inl e \<Rightarrow> (w1, Inl e)
      | Inr ordered \<Rightarrow> merge_parts (Partial_Object key) ordered [] w1) = (w', r)"
    using assms(6) chunks_spec [OF assms(2,3)] by (auto simp: download_parallel_def)
  have perm: "mset ?ys = mset ?cs" using assms(4) by blast
  have inside: "\<forall>c \<in> set ?ys. chunk_in content c"
    using spec_chunk_in [OF assms(2)] mset_eq_setD [OF perm] by auto
  have parts: "map fst rs = ?ys" "\<forall>(c, r) \<in> set rs. r = Inr () \<longrightarrow> part_done content c (part_path key c) w1"
    "parts_prefix content key ?ys w1" "\<forall>p. p \<notin> part_path key ` set ?ys \<longrightarrow> fw_files w1 p = fw_files w p"
    using run_chunks_parts [OF assms(1) _ inside spec_chunks_distinct(1) [OF assms(2) perm]
        parts_of_prefix [OF assms(5) inside] subset_refl run] assms(2,3) by auto
  have kept: "parts_of content key w1" by (rule parts_of_kept [OF assms(5) parts(3,4)])
  show ?thesis
  proof (cases "collect_parts key rs (replicate (length ?cs) None)")
    case (Inl e)
    with res kept show ?thesis by auto
  next
    case (Inr ordered)
    with merge_chunks [OF refl assms(2) _ parts(2) Inr] parts(1) perm res kept
    show ?thesis by (auto simp: parts_of_def)
  qed
qed

text \<open>A restarted download: the parts of the first attempt are complete, the nodes answer without ranges.\<close>

theorem parallel_download_reconstructs_witness:
  "\<exists>w'. download_parallel 1 example_env [] example_request 6 ''k'' example_runtime
       (example_world\<lparr>fw_files := [Part ''k'' 6 0 3 \<mapsto> [1, 2, 3, 4], Part ''k'' 6 4 5 \<mapsto> [5, 6]]\<rparr>) = Some (w', Inr ())
     \<and> fw_files w' (Partial_Object ''k'') = Some [1, 2, 3, 4, 5, 6]"
proof -
  let ?w = "example_world\<lparr>fw_files := [Part ''k'' 6 0 3 \<mapsto> [1, 2, 3, 4], Part ''k'' 6 4 5 \<mapsto> [5, 6]]\<rparr>"
  let ?content = "[1, 2, 3, 4, 5, 6] :: bytes"
  have "chunks 6 4 = Some [spec_chunk 6 4 0, spec_chunk 6 4 1]"
    using chunks_spec [of 4 6] by (simp add: u64_max_def div_ceil_def)
  then obtain w' where run: "download_parallel 1 example_env [] example_request 6 ''k'' example_runtime ?w = Some (w', Inr ())"
    by (simp add: download_parallel_def example_env_def example_runtime_def chunk_task_def file_len_def part_path_def)
  have honest: "honest_upstream example_env example_request ?content"
    by (auto simp: honest_upstream_def example_env_def example_send_def split: if_splits)
  have parts: "parts_of ?content ''k'' ?w" by (auto simp: parts_of_def slice_def split: if_splits)
  have six: "length ?content = 6" and order: "\<forall>cs. mset (fe_completion example_env cs) = mset cs"
    and cs: "sr_chunk_size example_runtime = 4"
    by (simp_all add: example_env_def example_runtime_def)
  have "fw_files w' (Partial_Object ''k'') = Some ?content"
    using parallel_download_reconstructs [OF honest _ _ order parts, of example_runtime, unfolded six cs, OF _ _ run]
    by (simp add: u64_max_def)
  with run show ?thesis by blast
qed

end
