(* ===== verification/Job_Tables.thy ===== *)
theory Job_Tables
  imports Entities
begin

text \<open>
  The tables of the image tools and the statements on them: \<open>image_jobs\<close>, \<open>image_job_owners\<close>,
  \<open>image_job_lineage\<close> and \<open>image_sync_rules\<close> with their triggers and foreign keys
  (\<^verbatim>\<open>src/src/db.rs\<close>), and the owned updates of \<^verbatim>\<open>src/src/image_tools/job_store.rs\<close>.

  A statement or transaction is one step on the tables. The columns that hold enumerations hold their text,
  as in the database; \<open>job_status\<close> is the type the service parses them into. The clock reading is an
  argument.
\<close>

section \<open>Rows\<close>

record image_job =
  ij_id :: uuid
  ij_kind :: string
  ij_status :: string
  ij_source_ref :: string
  ij_source_node_id :: "uuid option"
  ij_source_credential_id :: "uuid option"
  ij_destination_ref :: "string option"
  ij_destination_credential_id :: "uuid option"
  ij_platform_os :: string
  ij_platform_arch :: string
  ij_output_format :: "string option"
  ij_resolved_digest :: "string option"
  ij_index_digest :: "string option"
  ij_stage :: string
  ij_progress_bytes :: int
  ij_total_bytes :: int
  ij_artifact_path :: "string option"
  ij_artifact_name :: "string option"
  ij_error :: "string option"
  ij_idempotency_key :: "string option"
  ij_cancel_requested :: bool
  ij_lease_until :: "timestamp option"
  ij_created_at :: timestamp
  ij_updated_at :: timestamp
  ij_started_at :: "timestamp option"
  ij_finished_at :: "timestamp option"

record image_sync_rule =
  sy_id :: uuid
  sy_name :: string
  sy_enabled :: bool
  sy_source_ref :: string
  sy_source_node_id :: "uuid option"
  sy_source_credential_id :: "uuid option"
  sy_destination_ref :: string
  sy_destination_credential_id :: uuid
  sy_platform_os :: string
  sy_platform_arch :: string
  sy_cron :: string
  sy_timezone :: string
  sy_last_digest :: "string option"
  sy_last_run_at :: "timestamp option"
  sy_next_run_at :: "timestamp option"
  sy_created_at :: timestamp
  sy_updated_at :: timestamp

record job_tables =
  jt_jobs :: "image_job list"
  jt_owners :: "uuid \<rightharpoonup> uuid \<times> int"
  jt_lineage :: "uuid \<rightharpoonup> uuid \<times> timestamp option \<times> string"
  jt_rules :: "image_sync_rule list"
  jt_nodes :: "uuid list"
  jt_credentials :: "uuid list"

datatype job_status = Pending | Running | Completed | Skipped | Failed | Cancelled

definition job_status_parse :: "string \<Rightarrow> job_status option" where
  "job_status_parse v =
     (if v = ''pending'' then Some Pending
      else if v = ''running'' then Some Running
      else if v = ''completed'' then Some Completed
      else if v = ''skipped'' then Some Skipped
      else if v = ''failed'' then Some Failed
      else if v = ''cancelled'' then Some Cancelled
      else None)"

fun job_status_as_str :: "job_status \<Rightarrow> string" where
  "job_status_as_str Pending = ''pending''"
| "job_status_as_str Running = ''running''"
| "job_status_as_str Completed = ''completed''"
| "job_status_as_str Skipped = ''skipped''"
| "job_status_as_str Failed = ''failed''"
| "job_status_as_str Cancelled = ''cancelled''"

fun can_transition_to :: "job_status \<Rightarrow> job_status \<Rightarrow> bool" where
  "can_transition_to Pending Running = True"
| "can_transition_to Pending Cancelled = True"
| "can_transition_to Running Completed = True"
| "can_transition_to Running Skipped = True"
| "can_transition_to Running Failed = True"
| "can_transition_to Running Cancelled = True"
| "can_transition_to Failed Pending = True"
| "can_transition_to Cancelled Pending = True"
| "can_transition_to Skipped Pending = True"
| "can_transition_to _ _ = False"

section \<open>Statements\<close>

definition find_job :: "uuid \<Rightarrow> job_tables \<Rightarrow> image_job option" where
  "find_job job T = find (\<lambda>j. ij_id j = job) (jt_jobs T)"

definition opt_in :: "uuid option \<Rightarrow> uuid list \<Rightarrow> bool" where
  "opt_in x xs = (case x of None \<Rightarrow> True | Some v \<Rightarrow> v \<in> set xs)"

text \<open>The triggers \<open>trg_image_jobs_validate_insert\<close> and \<open>trg_image_jobs_validate_update\<close>.\<close>

definition job_row_valid :: "job_tables \<Rightarrow> image_job \<Rightarrow> bool" where
  "job_row_valid T j \<longleftrightarrow>
     ij_kind j \<in> {''export'', ''extract'', ''copy''}
     \<and> ij_status j \<in> {''pending'', ''running'', ''completed'', ''skipped'', ''failed'', ''cancelled''}
     \<and> 0 \<le> ij_progress_bytes j \<and> 0 \<le> ij_total_bytes j
     \<and> (0 < ij_total_bytes j \<longrightarrow> ij_progress_bytes j \<le> ij_total_bytes j)
     \<and> opt_in (ij_source_node_id j) (jt_nodes T) \<and> opt_in (ij_source_credential_id j) (jt_credentials T)
     \<and> opt_in (ij_destination_credential_id j) (jt_credentials T)"

text \<open>An \<open>UPDATE\<close> with its filter and changes: the number of rows, or the error of the trigger and no change.\<close>

definition update_jobs ::
  "(image_job \<Rightarrow> bool) \<Rightarrow> (image_job \<Rightarrow> image_job) \<Rightarrow> job_tables \<Rightarrow> job_tables \<times> nat api_result" where
  "update_jobs filt changes T =
     (if list_all (\<lambda>j. filt j \<longrightarrow> job_row_valid T (changes j)) (jt_jobs T)
      then (T\<lparr>jt_jobs := map (\<lambda>j. if filt j then changes j else j) (jt_jobs T)\<rparr>,
            Inr (length (filter filt (jt_jobs T))))
      else (T, Inl (Database ''invalid image job'')))"

text \<open>An \<open>INSERT\<close>: primary key, unique idempotency key, trigger.\<close>

definition insert_job :: "image_job \<Rightarrow> job_tables \<Rightarrow> job_tables \<times> image_job api_result" where
  "insert_job j T =
     (if list_ex (\<lambda>i. ij_id i = ij_id j) (jt_jobs T)
         \<or> ij_idempotency_key j \<noteq> None
           \<and> list_ex (\<lambda>i. ij_idempotency_key i = ij_idempotency_key j) (jt_jobs T)
      then (T, Inl (Database ''UNIQUE constraint failed''))
      else if \<not> job_row_valid T j then (T, Inl (Database ''invalid image job''))
      else (T\<lparr>jt_jobs := jt_jobs T @ [j]\<rparr>, Inr j))"

text \<open>A \<open>DELETE\<close> of a job; its owner and lineage rows go with it.\<close>

definition delete_job :: "uuid \<Rightarrow> job_tables \<Rightarrow> job_tables" where
  "delete_job job T =
     T\<lparr>jt_jobs := filter (\<lambda>j. ij_id j \<noteq> job) (jt_jobs T),
       jt_owners := (jt_owners T)(job := None), jt_lineage := (jt_lineage T)(job := None)\<rparr>"

definition claim_image_job ::
  "uuid \<Rightarrow> uuid \<Rightarrow> timestamp \<Rightarrow> timestamp \<Rightarrow> job_tables \<Rightarrow> job_tables \<times> int option api_result" where
  "claim_image_job job worker_id now lease T =
     (let attempt = min ((case jt_owners T job of None \<Rightarrow> 0 | Some (_, a) \<Rightarrow> a) + 1) (int i64_max) in
      case update_jobs (\<lambda>j. ij_id j = job \<and> ij_status j = ''pending'')
             (\<lambda>j. j\<lparr>ij_status := ''running'', ij_stage := ''resolving'', ij_lease_until := Some lease,
                  ij_started_at := Some now, ij_updated_at := now\<rparr>) T of
        (_, Inl e) \<Rightarrow> (T, Inl e)
      | (T1, Inr n) \<Rightarrow>
          if n \<noteq> 1 then (T1, Inr None)
          else (T1\<lparr>jt_owners := (jt_owners T1)(job \<mapsto> (worker_id, attempt))\<rparr>, Inr (Some attempt)))"

text \<open>The \<open>WHERE\<close> clause of every owned statement.\<close>

definition owned :: "uuid \<Rightarrow> uuid \<Rightarrow> int \<Rightarrow> job_tables \<Rightarrow> image_job \<Rightarrow> bool" where
  "owned job worker_id attempt T j \<longleftrightarrow>
     ij_id j = job \<and> ij_status j = ''running'' \<and> jt_owners T job = Some (worker_id, attempt)"

definition finish_image_job_owned ::
  "uuid \<Rightarrow> uuid \<Rightarrow> int \<Rightarrow> string \<Rightarrow> string option \<Rightarrow> timestamp \<Rightarrow> bool \<Rightarrow> job_tables \<Rightarrow> job_tables \<times> bool api_result" where
  "finish_image_job_owned job worker_id attempt status err now cancel_requested T =
     (case update_jobs (\<lambda>j. owned job worker_id attempt T j \<and> ij_cancel_requested j = cancel_requested)
             (\<lambda>j. j\<lparr>ij_status := status, ij_error := err, ij_lease_until := None,
                  ij_finished_at := Some now, ij_updated_at := now\<rparr>) T of
        (_, Inl e) \<Rightarrow> (T, Inl e)
      | (T1, Inr n) \<Rightarrow>
          if n \<noteq> 1 then (T1, Inr False)
          else
            let digest = Option.bind (find_job job T1) ij_resolved_digest;
                T2 = (if status = ''completed''
                      then T1\<lparr>jt_rules := map (\<lambda>r. if map_option fst (jt_lineage T1 job) = Some (sy_id r)
                             then r\<lparr>sy_last_digest := digest, sy_last_run_at := Some now, sy_updated_at := now\<rparr>
                             else r) (jt_rules T1)\<rparr>
                      else T1)
            in (T2\<lparr>jt_owners := (if jt_owners T2 job = Some (worker_id, attempt)
                   then (jt_owners T2)(job := None) else jt_owners T2)\<rparr>, Inr True))"

definition owned_update ::
  "uuid \<Rightarrow> uuid \<Rightarrow> int \<Rightarrow> (image_job \<Rightarrow> image_job) \<Rightarrow> job_tables \<Rightarrow> job_tables \<times> bool api_result" where
  "owned_update job worker_id attempt changes T =
     (case update_jobs (owned job worker_id attempt T) changes T of
        (T1, Inl e) \<Rightarrow> (T1, Inl e)
      | (T1, Inr n) \<Rightarrow> (T1, Inr (n = 1)))"

definition renew_image_job ::
  "uuid \<Rightarrow> uuid \<Rightarrow> int \<Rightarrow> timestamp \<Rightarrow> timestamp \<Rightarrow> job_tables \<Rightarrow> job_tables \<times> bool api_result" where
  "renew_image_job job worker_id attempt now lease T =
     owned_update job worker_id attempt (\<lambda>j. j\<lparr>ij_lease_until := Some lease, ij_updated_at := now\<rparr>) T"

definition update_image_job_manifest_owned ::
  "uuid \<Rightarrow> uuid \<Rightarrow> int \<Rightarrow> string \<Rightarrow> string option \<Rightarrow> int \<Rightarrow> timestamp \<Rightarrow> job_tables \<Rightarrow> job_tables \<times> bool api_result" where
  "update_image_job_manifest_owned job worker_id attempt digest index_digest total_bytes now T =
     owned_update job worker_id attempt
       (\<lambda>j. j\<lparr>ij_resolved_digest := Some digest, ij_index_digest := index_digest,
            ij_total_bytes := total_bytes, ij_updated_at := now\<rparr>) T"

definition update_image_job_progress_owned ::
  "uuid \<Rightarrow> uuid \<Rightarrow> int \<Rightarrow> string \<Rightarrow> int \<Rightarrow> int \<Rightarrow> timestamp \<Rightarrow> timestamp \<Rightarrow> job_tables
     \<Rightarrow> job_tables \<times> bool api_result" where
  "update_image_job_progress_owned job worker_id attempt stage progress_bytes total_bytes lease now T =
     owned_update job worker_id attempt
       (\<lambda>j. j\<lparr>ij_stage := stage, ij_progress_bytes := progress_bytes, ij_total_bytes := total_bytes,
            ij_updated_at := now, ij_lease_until := Some lease\<rparr>) T"

definition update_image_job_stage_owned ::
  "uuid \<Rightarrow> uuid \<Rightarrow> int \<Rightarrow> string \<Rightarrow> timestamp \<Rightarrow> timestamp \<Rightarrow> job_tables \<Rightarrow> job_tables \<times> bool api_result" where
  "update_image_job_stage_owned job worker_id attempt stage lease now T =
     owned_update job worker_id attempt
       (\<lambda>j. j\<lparr>ij_stage := stage, ij_updated_at := now, ij_lease_until := Some lease\<rparr>) T"

definition update_image_job_artifact_owned ::
  "uuid \<Rightarrow> uuid \<Rightarrow> int \<Rightarrow> string \<Rightarrow> string \<Rightarrow> timestamp \<Rightarrow> job_tables \<Rightarrow> job_tables \<times> bool api_result" where
  "update_image_job_artifact_owned job worker_id attempt artifact_path artifact_name now T =
     owned_update job worker_id attempt
       (\<lambda>j. j\<lparr>ij_artifact_path := Some artifact_path, ij_artifact_name := Some artifact_name,
            ij_updated_at := now\<rparr>) T"

section \<open>The job store of a worker\<close>

definition MINUTE :: int where
  "MINUTE = 60000000000"

definition JOB_LEASE_MINUTES :: int where
  "JOB_LEASE_MINUTES = 10"

definition lease_until :: "timestamp \<Rightarrow> timestamp" where
  "lease_until now = now + JOB_LEASE_MINUTES * MINUTE"

record job_store =
  js_worker_id :: uuid
  js_active_attempts :: "uuid \<rightharpoonup> int"

definition activate :: "uuid \<Rightarrow> int \<Rightarrow> job_store \<Rightarrow> job_store" where
  "activate job attempt S = S\<lparr>js_active_attempts := (js_active_attempts S)(job \<mapsto> attempt)\<rparr>"

definition deactivate :: "uuid \<Rightarrow> job_store \<Rightarrow> job_store" where
  "deactivate job S = S\<lparr>js_active_attempts := (js_active_attempts S)(job := None)\<rparr>"

definition claim_selected ::
  "uuid \<Rightarrow> timestamp \<Rightarrow> job_store \<Rightarrow> job_tables \<Rightarrow> (job_store \<times> job_tables) \<times> (image_job \<times> int) option api_result" where
  "claim_selected job now S T =
     (case claim_image_job job (js_worker_id S) now (lease_until now) T of
        (T1, Inl e) \<Rightarrow> ((S, T1), Inl e)
      | (T1, Inr None) \<Rightarrow> ((S, T1), Inr None)
      | (T1, Inr (Some attempt)) \<Rightarrow>
          (case find_job job T1 of
             None \<Rightarrow> ((S, T1), Inl (NotFound ''image job''))
           | Some j \<Rightarrow> ((activate job attempt S, T1), Inr (Some (j, attempt)))))"

definition by_created_at :: "image_job \<Rightarrow> image_job \<Rightarrow> bool" where
  "by_created_at a b = (ij_created_at a \<le> ij_created_at b)"

definition claim_next ::
  "timestamp \<Rightarrow> job_store \<Rightarrow> job_tables \<Rightarrow> (job_store \<times> job_tables) \<times> (image_job \<times> int) option api_result" where
  "claim_next now S T =
     (case sort_by by_created_at (filter (\<lambda>j. ij_status j = ''pending'') (jt_jobs T)) of
        [] \<Rightarrow> ((S, T), Inr None)
      | j # _ \<Rightarrow> claim_selected (ij_id j) now S T)"

definition renew :: "uuid \<Rightarrow> int \<Rightarrow> timestamp \<Rightarrow> job_store \<Rightarrow> job_tables \<Rightarrow> job_tables \<times> bool api_result" where
  "renew job attempt now S T = renew_image_job job (js_worker_id S) attempt now (lease_until now) T"

definition owns :: "uuid \<Rightarrow> int \<Rightarrow> job_store \<Rightarrow> job_tables \<Rightarrow> bool" where
  "owns job attempt S T = (jt_owners T job = Some (js_worker_id S, attempt))"

definition ownership_result :: "bool \<Rightarrow> unit api_result" where
  "ownership_result updated = (if updated then Inr () else Inl (Conflict ''image job ownership has changed''))"

definition as_i64 :: "nat \<Rightarrow> int" where
  "as_i64 n = int (min n i64_max)"

text \<open>
  The four updates: under the active attempt of the job they are fenced by the owner row; without one they
  update the row alone.
\<close>

definition fenced ::
  "uuid \<Rightarrow> job_store \<Rightarrow> (int \<Rightarrow> job_tables \<Rightarrow> job_tables \<times> bool api_result)
     \<Rightarrow> (job_tables \<Rightarrow> job_tables \<times> nat api_result) \<Rightarrow> job_tables \<Rightarrow> job_tables \<times> unit api_result" where
  "fenced job S owned_statement statement T =
     (case js_active_attempts S job of
        Some attempt \<Rightarrow>
          (case owned_statement attempt T of
             (T1, Inl e) \<Rightarrow> (T1, Inl e)
           | (T1, Inr updated) \<Rightarrow> (T1, ownership_result updated))
      | None \<Rightarrow>
          (case statement T of
             (T1, Inl e) \<Rightarrow> (T1, Inl e)
           | (T1, Inr _) \<Rightarrow> (T1, Inr ())))"

definition update_manifest ::
  "uuid \<Rightarrow> string \<Rightarrow> string option \<Rightarrow> nat \<Rightarrow> timestamp \<Rightarrow> job_store \<Rightarrow> job_tables \<Rightarrow> job_tables \<times> unit api_result" where
  "update_manifest job manifest_digest index_digest total_bytes now S =
     fenced job S
       (\<lambda>attempt. update_image_job_manifest_owned job (js_worker_id S) attempt manifest_digest index_digest
          (as_i64 total_bytes) now)
       (update_jobs (\<lambda>j. ij_id j = job)
          (\<lambda>j. j\<lparr>ij_resolved_digest := Some manifest_digest, ij_index_digest := index_digest,
               ij_total_bytes := as_i64 total_bytes\<rparr>))"

definition update_progress ::
  "uuid \<Rightarrow> string \<Rightarrow> nat \<Rightarrow> nat \<Rightarrow> timestamp \<Rightarrow> job_store \<Rightarrow> job_tables \<Rightarrow> job_tables \<times> unit api_result" where
  "update_progress job stage current tsize now S =
     fenced job S
       (\<lambda>attempt. update_image_job_progress_owned job (js_worker_id S) attempt stage (as_i64 current)
          (as_i64 tsize) (lease_until now) now)
       (update_jobs (\<lambda>j. ij_id j = job \<and> ij_status j = ''running'')
          (\<lambda>j. j\<lparr>ij_stage := stage, ij_progress_bytes := as_i64 current, ij_total_bytes := as_i64 tsize,
               ij_updated_at := now, ij_lease_until := Some (lease_until now)\<rparr>))"

definition update_stage ::
  "uuid \<Rightarrow> string \<Rightarrow> timestamp \<Rightarrow> job_store \<Rightarrow> job_tables \<Rightarrow> job_tables \<times> unit api_result" where
  "update_stage job stage now S =
     fenced job S
       (\<lambda>attempt. update_image_job_stage_owned job (js_worker_id S) attempt stage (lease_until now) now)
       (update_jobs (\<lambda>j. ij_id j = job \<and> ij_status j = ''running'')
          (\<lambda>j. j\<lparr>ij_stage := stage, ij_updated_at := now, ij_lease_until := Some (lease_until now)\<rparr>))"

definition update_artifact ::
  "uuid \<Rightarrow> string \<Rightarrow> string \<Rightarrow> timestamp \<Rightarrow> job_store \<Rightarrow> job_tables \<Rightarrow> job_tables \<times> unit api_result" where
  "update_artifact job path name now S =
     fenced job S
       (\<lambda>attempt. update_image_job_artifact_owned job (js_worker_id S) attempt path name now)
       (update_jobs (\<lambda>j. ij_id j = job)
          (\<lambda>j. j\<lparr>ij_artifact_path := Some path, ij_artifact_name := Some name\<rparr>))"

definition is_cancelled :: "uuid \<Rightarrow> job_tables \<Rightarrow> bool" where
  "is_cancelled job T = (case find_job job T of None \<Rightarrow> False | Some j \<Rightarrow> ij_cancel_requested j)"

end
