(* ===== verification/Artifact_Store.thy ===== *)
theory Artifact_Store
  imports Prelude
begin

text \<open>
  The storage of the image tools (\<^verbatim>\<open>src/src/image_tools/artifacts.rs\<close>): job directories with their OCI
  layouts, the Blobs that the layouts of several jobs share, and the partial files of writers.

  A file system below the store's root is the list of its regular files, a path being the list of its
  components. The lock files are empty and are left out; a shared Blob is written under the shared lock of
  the collector, so a collection happens between writes. \<open>ut\<close> is the text of a UUID.
\<close>

section \<open>Files\<close>

type_synonym path = "string list"
type_synonym store_files = "(path \<times> bytes) list"

definition has_file :: "path \<Rightarrow> store_files \<Rightarrow> bool" where
  "has_file p fs = (\<exists>f \<in> set fs. fst f = p)"

definition put_file :: "path \<Rightarrow> bytes \<Rightarrow> store_files \<Rightarrow> store_files" where
  "put_file p content fs = filter (\<lambda>f. fst f \<noteq> p) fs @ [(p, content)]"

definition drop_file :: "path \<Rightarrow> store_files \<Rightarrow> store_files" where
  "drop_file p fs = filter (\<lambda>f. fst f \<noteq> p) fs"

definition under :: "path \<Rightarrow> path \<Rightarrow> bool" where
  "under directory p = (take (length directory) p = directory)"

section \<open>Operations\<close>

definition job_root :: "(uuid \<Rightarrow> string) \<Rightarrow> uuid \<Rightarrow> path" where
  "job_root ut job = [''jobs'', ut job]"

definition shared_blob_name :: "string \<Rightarrow> string option" where
  "shared_blob_name digest =
     (case strip_prefix ''sha256:'' digest of
        Some v \<Rightarrow> if length v = 64 \<and> list_all is_ascii_hexdigit v then Some v else None
      | None \<Rightarrow> None)"

definition shared_blob_path :: "string \<Rightarrow> path api_result" where
  "shared_blob_path digest =
     (case shared_blob_name digest of
        Some v \<Rightarrow> Inr [''blobs'', ''sha256'', v]
      | None \<Rightarrow> Inl (BadRequest ''only sha256 image blobs are supported''))"

record blob_write_guard =
  bg_temporary :: path
  bg_destination :: path

definition begin_blob_write :: "(uuid \<Rightarrow> string) \<Rightarrow> uuid \<Rightarrow> string \<Rightarrow> blob_write_guard api_result" where
  "begin_blob_write ut job_id digest =
     (case shared_blob_path digest of
        Inl e \<Rightarrow> Inl e
      | Inr destination \<Rightarrow>
          Inr \<lparr>bg_temporary = [''partials'', ut job_id @ ''-'' @ last destination], bg_destination = destination\<rparr>)"

text \<open>Dropping the guard removes the partial file.\<close>

definition drop_guard :: "blob_write_guard \<Rightarrow> store_files \<Rightarrow> store_files" where
  "drop_guard g fs = drop_file (bg_temporary g) fs"

definition commit_blob :: "blob_write_guard \<Rightarrow> store_files \<Rightarrow> store_files \<times> path api_result" where
  "commit_blob g fs =
     (if has_file (bg_destination g) fs then (drop_guard g fs, Inr (bg_destination g))
      else
        case map_of fs (bg_temporary g) of
          None \<Rightarrow> (drop_guard g fs, Inl (Io ''NotFound''))
        | Some content \<Rightarrow> (put_file (bg_destination g) content (drop_guard g fs), Inr (bg_destination g)))"

definition write_blob_bytes ::
  "(uuid \<Rightarrow> string) \<Rightarrow> uuid \<Rightarrow> string \<Rightarrow> bytes \<Rightarrow> store_files \<Rightarrow> store_files \<times> path api_result" where
  "write_blob_bytes ut job_id digest content fs =
     (case begin_blob_write ut job_id digest of
        Inl e \<Rightarrow> (fs, Inl e)
      | Inr g \<Rightarrow> commit_blob g (put_file (bg_temporary g) content fs))"

definition remove_job :: "(uuid \<Rightarrow> string) \<Rightarrow> uuid \<Rightarrow> store_files \<Rightarrow> store_files" where
  "remove_job ut job fs = filter (\<lambda>f. \<not> under (job_root ut job) (fst f)) fs"

text \<open>The Blobs of a layout are links to shared ones and are not counted again.\<close>

definition is_layout_blob :: "path \<Rightarrow> bool" where
  "is_layout_blob parts =
     (6 \<le> length parts \<and> parts ! 0 = ''jobs'' \<and> parts ! 2 = ''layout'' \<and> parts ! 3 = ''blobs''
      \<and> parts ! 4 = ''sha256'')"

fun storage_usage :: "store_files \<Rightarrow> nat \<Rightarrow> nat" where
  "storage_usage [] acc = acc"
| "storage_usage ((p, content) # fs) acc =
     storage_usage fs (if is_layout_blob p then acc else u64_saturating_add acc (length content))"

definition usage :: "store_files \<Rightarrow> nat" where
  "usage fs = storage_usage fs 0"

text \<open>The names of the files directly in \<open>layout/blobs/sha256\<close> of a job directory.\<close>

definition layout_entry :: "path \<Rightarrow> string option" where
  "layout_entry p =
     (if length p = 6 \<and> is_layout_blob p then Some (p ! 5) else None)"

definition referenced :: "store_files \<Rightarrow> string list" where
  "referenced fs = List.map_filter (layout_entry \<circ> fst) fs"

definition shared_entry :: "path \<Rightarrow> string option" where
  "shared_entry p = (if length p = 3 \<and> p ! 0 = ''blobs'' \<and> p ! 1 = ''sha256'' then Some (p ! 2) else None)"

definition gc_shared_blobs_sync :: "store_files \<Rightarrow> store_files" where
  "gc_shared_blobs_sync fs =
     filter (\<lambda>f. case shared_entry (fst f) of None \<Rightarrow> True | Some n \<Rightarrow> n \<in> set (referenced fs)) fs"

definition cleanup_partials_sync :: "store_files \<Rightarrow> store_files" where
  "cleanup_partials_sync fs = filter (\<lambda>f. \<not> under [''partials''] (fst f)) fs"

definition gc_shared_blobs :: "store_files \<Rightarrow> store_files" where
  "gc_shared_blobs fs = cleanup_partials_sync (gc_shared_blobs_sync fs)"

section \<open>Lemmas\<close>

lemma layout_entry_Some: "layout_entry p = Some n \<longleftrightarrow> (\<exists>j. p = [''jobs'', j, ''layout'', ''blobs'', ''sha256'', n])"
  by (auto simp: layout_entry_def is_layout_blob_def length_Suc_conv numeral_eq_Suc)

lemma shared_entry_Some: "shared_entry p = Some n \<longleftrightarrow> p = [''blobs'', ''sha256'', n]"
  by (auto simp: shared_entry_def length_Suc_conv numeral_eq_Suc)

lemma in_referenced:
  "n \<in> set (referenced fs) \<longleftrightarrow> (\<exists>j c. ([''jobs'', j, ''layout'', ''blobs'', ''sha256'', n], c) \<in> set fs)"
proof -
  have "n \<in> set (referenced fs) \<longleftrightarrow> (\<exists>f \<in> set fs. layout_entry (fst f) = Some n)"
    by (induction fs) (auto simp: referenced_def map_filter_simps split: option.splits)
  then show ?thesis by (force simp: layout_entry_Some)
qed

lemma gc_subset: "set (gc_shared_blobs fs) \<subseteq> set fs"
  by (auto simp: gc_shared_blobs_def gc_shared_blobs_sync_def cleanup_partials_sync_def)

lemma gc_keeps:
  "f \<in> set (gc_shared_blobs fs) \<longleftrightarrow>
     f \<in> set fs \<and> \<not> under [''partials''] (fst f)
     \<and> (\<forall>n. fst f = [''blobs'', ''sha256'', n] \<longrightarrow> n \<in> set (referenced fs))"
proof -
  have "(case shared_entry p of None \<Rightarrow> True | Some n \<Rightarrow> n \<in> S) \<longleftrightarrow> (\<forall>n. p = [''blobs'', ''sha256'', n] \<longrightarrow> n \<in> S)" for p S
    unfolding shared_entry_Some [symmetric] by (simp split: option.split)
  then show ?thesis by (auto simp: gc_shared_blobs_def gc_shared_blobs_sync_def cleanup_partials_sync_def)
qed

lemma referenced_gc: "set (referenced (gc_shared_blobs fs)) = set (referenced fs)"
  by (auto simp: in_referenced gc_keeps under_def)

lemma storage_usage_sum:
  "acc \<le> u64_max \<Longrightarrow>
     storage_usage fs acc = min (acc + sum_list (map (\<lambda>f. if is_layout_blob (fst f) then 0 else length (snd f)) fs)) u64_max"
  by (induction fs acc rule: storage_usage.induct) (auto simp: u64_saturating_add_def)

lemma usage_sum: "usage fs = min (sum_list (map (\<lambda>f. if is_layout_blob (fst f) then 0 else length (snd f)) fs)) u64_max"
  by (simp add: usage_def storage_usage_sum)

lemma usage_filter: "usage (filter P fs) \<le> usage fs"
  unfolding usage_sum by (induction fs) auto

lemma usage_gc: "usage (gc_shared_blobs fs) \<le> usage fs"
  unfolding gc_shared_blobs_def gc_shared_blobs_sync_def cleanup_partials_sync_def
  by (rule order_trans [OF usage_filter usage_filter])

lemma under_root_iff: "under (job_root ut job) p \<longleftrightarrow> (\<exists>rest. p = ''jobs'' # ut job # rest)"
  by (cases p; cases "tl p") (auto simp: under_def job_root_def)

end
