(* ===== verification/Image_Jobs.thy ===== *)
theory Image_Jobs
  imports Job_Tables Artifact_Store
begin

text \<open>
  The job service of \<^verbatim>\<open>src/src/image_tools.rs\<close>: creation of jobs by clients and by sync rules, the
  completion, cancellation, retry and removal of jobs, recovery of abandoned ones, and the
  storage quota.

  Between two statements of a handler other tasks may run: \<open>other n\<close> is what they do to the tables at the
  n-th such point, any function at all. The environment record holds the library functions (image
  references, cron, time zones, the text of a UUID). The work of a job and the
  worker's tick are in \<open>Image_Pipeline\<close>.
\<close>

section \<open>Kinds, inputs and validation\<close>

datatype job_kind = Export | Extract | Copy

definition job_kind_parse :: "string \<Rightarrow> job_kind option" where
  "job_kind_parse v =
     (if v = ''export'' then Some Export else if v = ''extract'' then Some Extract
      else if v = ''copy'' then Some Copy else None)"

fun job_kind_as_str :: "job_kind \<Rightarrow> string" where
  "job_kind_as_str Export = ''export''"
| "job_kind_as_str Extract = ''extract''"
| "job_kind_as_str Copy = ''copy''"

record job_input =
  ji_kind :: string
  ji_source_ref :: string
  ji_source_node_id :: "uuid option"
  ji_source_credential_id :: "uuid option"
  ji_destination_ref :: "string option"
  ji_destination_credential_id :: "uuid option"
  ji_platform_os :: string
  ji_platform_arch :: string
  ji_output_format :: "string option"

record sync_rule_input =
  ri_name :: string
  ri_enabled :: bool
  ri_source_ref :: string
  ri_source_node_id :: "uuid option"
  ri_source_credential_id :: "uuid option"
  ri_destination_ref :: string
  ri_destination_credential_id :: uuid
  ri_platform_os :: string
  ri_platform_arch :: string
  ri_cron :: string
  ri_timezone :: string

record ('s, 'z) job_env =
  je_reference_ok :: "string \<Rightarrow> bool"
  je_parse_schedule :: "string \<Rightarrow> 's option"
  je_parse_timezone :: "string \<Rightarrow> 'z option"
  je_upcoming :: "'s \<Rightarrow> 'z \<Rightarrow> timestamp \<Rightarrow> timestamp option"
  je_uuid_text :: "uuid \<Rightarrow> string"

definition validate_job :: "('s, 'z) job_env \<Rightarrow> job_input \<Rightarrow> unit api_result" where
  "validate_job env input =
     (if job_kind_parse (ji_kind input) = None
      then Inl (BadRequest ''job kind must be export, extract, or copy'')
      else if 1024 < length (ji_source_ref input) \<or> \<not> je_reference_ok env (ji_source_ref input)
      then Inl (BadRequest ''invalid source image reference'')
      else if ji_source_node_id input \<noteq> None \<and> ji_source_credential_id input \<noteq> None
      then Inl (BadRequest ''choose either a source acceleration node or a direct source credential'')
      else if ji_kind input = ''copy''
        \<and> (ji_destination_ref input = None \<or> ji_destination_credential_id input = None)
      then Inl (BadRequest ''copy jobs require destination_ref and destination_credential_id'')
      else if ji_platform_os input \<notin> {''linux'', ''windows''}
        \<or> ji_platform_arch input \<notin> {''amd64'', ''arm64'', ''arm'', ''386''}
      then Inl (BadRequest ''unsupported image platform'')
      else Inr ())"

definition pending_job :: "uuid \<Rightarrow> job_input \<Rightarrow> job_kind \<Rightarrow> string option \<Rightarrow> timestamp \<Rightarrow> image_job" where
  "pending_job new_id input kind idempotency_key now =
     \<lparr>ij_id = new_id, ij_kind = job_kind_as_str kind, ij_status = job_status_as_str Pending,
      ij_source_ref = ji_source_ref input, ij_source_node_id = ji_source_node_id input,
      ij_source_credential_id = ji_source_credential_id input, ij_destination_ref = ji_destination_ref input,
      ij_destination_credential_id = ji_destination_credential_id input, ij_platform_os = ji_platform_os input,
      ij_platform_arch = ji_platform_arch input, ij_output_format = ji_output_format input,
      ij_resolved_digest = None, ij_index_digest = None, ij_stage = ''queued'', ij_progress_bytes = 0,
      ij_total_bytes = 0, ij_artifact_path = None, ij_artifact_name = None, ij_error = None,
      ij_idempotency_key = idempotency_key, ij_cancel_requested = False, ij_lease_until = None,
      ij_created_at = now, ij_updated_at = now, ij_started_at = None, ij_finished_at = None\<rparr>"

definition next_run :: "('s, 'z) job_env \<Rightarrow> string \<Rightarrow> string \<Rightarrow> timestamp \<Rightarrow> timestamp api_result" where
  "next_run env expression timezone now =
     (case je_parse_schedule env expression of
        None \<Rightarrow> Inl (BadRequest ''invalid Cron expression'')
      | Some schedule \<Rightarrow>
          (case je_parse_timezone env timezone of
             None \<Rightarrow> Inl (BadRequest ''invalid IANA timezone'')
           | Some tz \<Rightarrow>
               ok_or (BadRequest ''Cron expression has no future occurrence'') (je_upcoming env schedule tz now)))"

definition rule_job_input ::
  "string \<Rightarrow> uuid option \<Rightarrow> uuid option \<Rightarrow> string \<Rightarrow> uuid \<Rightarrow> string \<Rightarrow> string \<Rightarrow> job_input" where
  "rule_job_input source_ref source_node_id source_credential_id destination_ref destination_credential_id os arch =
     \<lparr>ji_kind = ''copy'', ji_source_ref = source_ref, ji_source_node_id = source_node_id,
      ji_source_credential_id = source_credential_id, ji_destination_ref = Some destination_ref,
      ji_destination_credential_id = Some destination_credential_id, ji_platform_os = os,
      ji_platform_arch = arch, ji_output_format = None\<rparr>"

definition validate_rule :: "('s, 'z) job_env \<Rightarrow> sync_rule_input \<Rightarrow> timestamp \<Rightarrow> sync_rule_input api_result" where
  "validate_rule env input now =
     (if trim (ri_name input) = [] \<or> 80 < length (ri_name input)
      then Inl (BadRequest ''sync rule name must be 1-80 characters'')
      else
        result_bind (validate_job env (rule_job_input (ri_source_ref input) (ri_source_node_id input)
            (ri_source_credential_id input) (ri_destination_ref input) (ri_destination_credential_id input)
            (ri_platform_os input) (ri_platform_arch input)))
          (\<lambda>_. result_bind (next_run env (ri_cron input) (ri_timezone input) now) (\<lambda>_. Inr input)))"

definition safe_error :: "app_error \<Rightarrow> string" where
  "safe_error e =
     (case e of
        BadRequest message \<Rightarrow> take 500 message
      | Upstream _ \<Rightarrow> ''upstream Registry request failed; check server logs''
      | Integrity \<Rightarrow> ''image content integrity check failed''
      | _ \<Rightarrow> ''image task failed; check server logs'')"

section \<open>Transitions\<close>

definition transition_update ::
  "job_status \<Rightarrow> job_status \<Rightarrow> timestamp \<Rightarrow> string option
     \<Rightarrow> ((image_job \<Rightarrow> bool) \<times> (image_job \<Rightarrow> image_job)) api_result" where
  "transition_update from to now err =
     (if \<not> can_transition_to from to then Inl (BadRequest ''illegal image job transition'')
      else Inr
        (\<lambda>j. ij_status j = job_status_as_str from,
         \<lambda>j. let c = j\<lparr>ij_status := job_status_as_str to,
                     ij_stage := (case to of Pending \<Rightarrow> ''queued'' | Running \<Rightarrow> ''resolving'' | _ \<Rightarrow> job_status_as_str to),
                     ij_error := err, ij_updated_at := now\<rparr>
              in case to of
                   Running \<Rightarrow> c\<lparr>ij_started_at := Some now, ij_finished_at := None,
                     ij_lease_until := Some (lease_until now), ij_cancel_requested := False\<rparr>
                 | Pending \<Rightarrow> c\<lparr>ij_progress_bytes := 0, ij_total_bytes := 0, ij_started_at := None,
                     ij_finished_at := None, ij_lease_until := None, ij_cancel_requested := False\<rparr>
                 | _ \<Rightarrow> c\<lparr>ij_finished_at := Some now, ij_lease_until := None,
                     ij_cancel_requested := (to = Cancelled)\<rparr>))"

text \<open>A transition statement with a further filter.\<close>

definition exec_transition ::
  "job_status \<Rightarrow> job_status \<Rightarrow> timestamp \<Rightarrow> string option \<Rightarrow> (image_job \<Rightarrow> bool) \<Rightarrow> job_tables
     \<Rightarrow> job_tables \<times> nat api_result" where
  "exec_transition from to now err filt T =
     (case transition_update from to now err of
        Inl e \<Rightarrow> (T, Inl e)
      | Inr (by_status, changes) \<Rightarrow> update_jobs (\<lambda>j. by_status j \<and> filt j) changes T)"

definition abandoned_lease :: "timestamp \<Rightarrow> image_job \<Rightarrow> bool" where
  "abandoned_lease now j = (case ij_lease_until j of None \<Rightarrow> True | Some l \<Rightarrow> l \<le> now)"

definition recover_cancelled :: "timestamp \<Rightarrow> job_tables \<Rightarrow> job_tables \<times> nat api_result" where
  "recover_cancelled now =
     exec_transition Running Cancelled now None (\<lambda>j. ij_cancel_requested j \<and> abandoned_lease now j)"

definition recover_pending :: "timestamp \<Rightarrow> job_tables \<Rightarrow> job_tables \<times> nat api_result" where
  "recover_pending now =
     update_jobs (\<lambda>j. ij_status j = ''running'' \<and> \<not> ij_cancel_requested j \<and> abandoned_lease now j)
       (\<lambda>j. j\<lparr>ij_status := ''pending'', ij_stage := ''recovered'', ij_error := None,
            ij_cancel_requested := False, ij_lease_until := None, ij_started_at := None,
            ij_finished_at := None, ij_updated_at := now\<rparr>)"

definition recover_abandoned_jobs ::
  "(nat \<Rightarrow> job_tables \<Rightarrow> job_tables) \<Rightarrow> timestamp \<Rightarrow> job_tables \<Rightarrow> job_tables \<times> nat api_result" where
  "recover_abandoned_jobs other now T =
     (if \<not> list_ex (\<lambda>j. ij_status j = ''running'' \<and> abandoned_lease now j) (jt_jobs T) then (T, Inr 0)
      else
        case recover_cancelled now (other 0 T) of
          (T1, Inl e) \<Rightarrow> (T1, Inl e)
        | (T1, Inr cancelled) \<Rightarrow>
            (case recover_pending now (other 1 T1) of
               (T2, Inl e) \<Rightarrow> (T2, Inl e)
             | (T2, Inr recovered) \<Rightarrow> (T2, Inr (cancelled + recovered))))"

section \<open>Creation\<close>

definition find_by_key :: "string \<Rightarrow> job_tables \<Rightarrow> image_job option" where
  "find_by_key key T = find (\<lambda>j. ij_idempotency_key j = Some key) (jt_jobs T)"

definition create_job ::
  "('s, 'z) job_env \<Rightarrow> (nat \<Rightarrow> job_tables \<Rightarrow> job_tables) \<Rightarrow> job_input \<Rightarrow> string option \<Rightarrow> uuid \<Rightarrow> timestamp
     \<Rightarrow> job_tables \<Rightarrow> job_tables \<times> image_job api_result" where
  "create_job env other input idempotency_key new_id now T =
     (case validate_job env input of
        Inl e \<Rightarrow> (T, Inl e)
      | Inr _ \<Rightarrow>
          (case job_kind_parse (ji_kind input) of
             None \<Rightarrow> (T, Inl (BadRequest ''unsupported image job kind''))
           | Some kind \<Rightarrow>
               (case Option.bind idempotency_key (\<lambda>key. find_by_key key T) of
                  Some existing \<Rightarrow> (T, Inr existing)
                | None \<Rightarrow>
                    (case insert_job (pending_job new_id input kind idempotency_key now) (other 0 T) of
                       (T1, Inr model) \<Rightarrow> (T1, Inr model)
                     | (T1, Inl e) \<Rightarrow>
                         (case Option.bind idempotency_key (\<lambda>key. find_by_key key (other 1 T1)) of
                            Some existing \<Rightarrow> (other 1 T1, Inr existing)
                          | None \<Rightarrow> (if idempotency_key = None then T1 else other 1 T1, Inl e))))))"

definition find_rule :: "uuid \<Rightarrow> job_tables \<Rightarrow> image_sync_rule option" where
  "find_rule rule_id T = find (\<lambda>r. sy_id r = rule_id) (jt_rules T)"

text \<open>The triggers of \<open>image_sync_rules\<close>.\<close>

definition rule_row_valid :: "job_tables \<Rightarrow> image_sync_rule \<Rightarrow> bool" where
  "rule_row_valid T r \<longleftrightarrow>
     trim (sy_name r) \<noteq> [] \<and> trim (sy_source_ref r) \<noteq> [] \<and> trim (sy_destination_ref r) \<noteq> []
     \<and> opt_in (sy_source_node_id r) (jt_nodes T) \<and> opt_in (sy_source_credential_id r) (jt_credentials T)
     \<and> sy_destination_credential_id r \<in> set (jt_credentials T)"

definition update_rule_row ::
  "uuid \<Rightarrow> (image_sync_rule \<Rightarrow> image_sync_rule) \<Rightarrow> job_tables \<Rightarrow> job_tables \<times> unit api_result" where
  "update_rule_row rule_id changes T =
     (if list_all (\<lambda>r. sy_id r = rule_id \<longrightarrow> rule_row_valid T (changes r)) (jt_rules T)
      then (T\<lparr>jt_rules := map (\<lambda>r. if sy_id r = rule_id then changes r else r) (jt_rules T)\<rparr>, Inr ())
      else (T, Inl (Database ''invalid image sync rule'')))"

definition timestamp_millis :: "timestamp \<Rightarrow> int" where
  "timestamp_millis t = t div 1000000"

definition rule_key :: "('s, 'z) job_env \<Rightarrow> uuid \<Rightarrow> timestamp option \<Rightarrow> timestamp \<Rightarrow> string" where
  "rule_key env rule_id scheduled_for now =
     ''sync-rule:'' @ je_uuid_text env rule_id @ '':''
       @ int_text (timestamp_millis (case scheduled_for of None \<Rightarrow> now | Some t \<Rightarrow> t))"

definition insert_rule_job ::
  "image_job \<Rightarrow> uuid \<Rightarrow> timestamp option \<Rightarrow> string \<Rightarrow> job_tables \<Rightarrow> job_tables \<times> image_job api_result" where
  "insert_rule_job job rule_id scheduled_for trigger T =
     (case insert_job job T of
        (_, Inl e) \<Rightarrow> (T, Inl e)
      | (T1, Inr j) \<Rightarrow> (T1\<lparr>jt_lineage := (jt_lineage T1)(ij_id j \<mapsto> (rule_id, scheduled_for, trigger))\<rparr>, Inr j))"

text \<open>One immediate transaction; an error rolls it back.\<close>

definition create_rule_job ::
  "('s, 'z) job_env \<Rightarrow> uuid \<Rightarrow> timestamp option \<Rightarrow> string \<Rightarrow> uuid \<Rightarrow> timestamp \<Rightarrow> job_tables
     \<Rightarrow> job_tables \<times> image_job option api_result" where
  "create_rule_job env rule_id scheduled_for trigger new_id now T =
     (case find_rule rule_id T of
        None \<Rightarrow> (T, Inl (NotFound ''sync rule''))
      | Some rule \<Rightarrow>
          if trigger = ''schedule''
             \<and> (\<not> sy_enabled rule \<or> sy_next_run_at rule \<noteq> scheduled_for
                \<or> (case sy_next_run_at rule of None \<Rightarrow> True | Some nx \<Rightarrow> now < nx))
          then (T, Inr None)
          else
            let input = rule_job_input (sy_source_ref rule) (sy_source_node_id rule) (sy_source_credential_id rule)
                  (sy_destination_ref rule) (sy_destination_credential_id rule) (sy_platform_os rule)
                  (sy_platform_arch rule);
                key = (if trigger = ''schedule'' then Some (rule_key env (sy_id rule) scheduled_for now) else None)
            in
            case validate_job env input of
              Inl e \<Rightarrow> (T, Inl e)
            | Inr _ \<Rightarrow>
                (case (case Option.bind key (\<lambda>k. find_by_key k T) of
                         Some existing \<Rightarrow> (T, Inr existing)
                       | None \<Rightarrow> insert_rule_job (pending_job new_id input Copy key now) (sy_id rule) scheduled_for
                           trigger T) of
                   (_, Inl e) \<Rightarrow> (T, Inl e)
                 | (T1, Inr job) \<Rightarrow>
                     if trigger = ''schedule'' then
                       (case next_run env (sy_cron rule) (sy_timezone rule) now of
                          Inl e \<Rightarrow> (T, Inl e)
                        | Inr nxt \<Rightarrow>
                            (case update_rule_row (sy_id rule)
                                    (\<lambda>r. r\<lparr>sy_next_run_at := Some nxt, sy_updated_at := now\<rparr>) T1 of
                               (_, Inl e) \<Rightarrow> (T, Inl e)
                             | (T2, Inr _) \<Rightarrow> (T2, Inr (Some job))))
                     else (T1, Inr (Some job))))"

definition due_rules :: "timestamp \<Rightarrow> job_tables \<Rightarrow> image_sync_rule list" where
  "due_rules now T =
     filter (\<lambda>r. sy_enabled r \<and> (case sy_next_run_at r of None \<Rightarrow> False | Some nx \<Rightarrow> nx \<le> now)) (jt_rules T)"

fun enqueue_rules ::
  "('s, 'z) job_env \<Rightarrow> (nat \<Rightarrow> uuid) \<Rightarrow> timestamp \<Rightarrow> image_sync_rule list \<Rightarrow> nat \<Rightarrow> job_tables \<Rightarrow> job_tables \<times> unit api_result" where
  "enqueue_rules env new_id now [] n T = (T, Inr ())"
| "enqueue_rules env new_id now (rule # rules) n T =
     (case create_rule_job env (sy_id rule)
             (case sy_next_run_at rule of None \<Rightarrow> Some now | Some nx \<Rightarrow> Some nx) ''schedule'' (new_id n) now T of
        (T1, Inl e) \<Rightarrow> (T1, Inl e)
      | (T1, Inr _) \<Rightarrow> enqueue_rules env new_id now rules (Suc n) T1)"

definition enqueue_due_rules ::
  "('s, 'z) job_env \<Rightarrow> (nat \<Rightarrow> uuid) \<Rightarrow> timestamp \<Rightarrow> job_tables \<Rightarrow> job_tables \<times> unit api_result" where
  "enqueue_due_rules env new_id now T = enqueue_rules env new_id now (due_rules now T) 0 T"

definition create_rule ::
  "('s, 'z) job_env \<Rightarrow> sync_rule_input \<Rightarrow> uuid \<Rightarrow> timestamp \<Rightarrow> job_tables \<Rightarrow> job_tables \<times> image_sync_rule api_result" where
  "create_rule env input new_id now T =
     (case result_bind (validate_rule env input now) (\<lambda>i. next_run env (ri_cron i) (ri_timezone i) now) of
        Inl e \<Rightarrow> (T, Inl e)
      | Inr nxt \<Rightarrow>
          let rule = \<lparr>sy_id = new_id, sy_name = ri_name input, sy_enabled = ri_enabled input,
                sy_source_ref = ri_source_ref input, sy_source_node_id = ri_source_node_id input,
                sy_source_credential_id = ri_source_credential_id input,
                sy_destination_ref = ri_destination_ref input,
                sy_destination_credential_id = ri_destination_credential_id input,
                sy_platform_os = ri_platform_os input, sy_platform_arch = ri_platform_arch input,
                sy_cron = ri_cron input, sy_timezone = ri_timezone input, sy_last_digest = None,
                sy_last_run_at = None, sy_next_run_at = Some nxt, sy_created_at = now, sy_updated_at = now\<rparr>
          in if list_ex (\<lambda>r. sy_id r = new_id) (jt_rules T) then (T, Inl (Database ''UNIQUE constraint failed''))
             else if \<not> rule_row_valid T rule then (T, Inl (Database ''invalid image sync rule''))
             else (T\<lparr>jt_rules := jt_rules T @ [rule]\<rparr>, Inr rule))"

definition update_rule ::
  "('s, 'z) job_env \<Rightarrow> uuid \<Rightarrow> sync_rule_input \<Rightarrow> timestamp \<Rightarrow> job_tables \<Rightarrow> job_tables \<times> unit api_result" where
  "update_rule env rule_id input now T =
     (case validate_rule env input now of
        Inl e \<Rightarrow> (T, Inl e)
      | Inr _ \<Rightarrow>
          (case find_rule rule_id T of
             None \<Rightarrow> (T, Inl (NotFound ''sync rule''))
           | Some _ \<Rightarrow>
               (case next_run env (ri_cron input) (ri_timezone input) now of
                  Inl e \<Rightarrow> (T, Inl e)
                | Inr nxt \<Rightarrow>
                    update_rule_row rule_id
                      (\<lambda>r. r\<lparr>sy_name := ri_name input, sy_enabled := ri_enabled input,
                         sy_source_ref := ri_source_ref input, sy_source_node_id := ri_source_node_id input,
                         sy_source_credential_id := ri_source_credential_id input,
                         sy_destination_ref := ri_destination_ref input,
                         sy_destination_credential_id := ri_destination_credential_id input,
                         sy_platform_os := ri_platform_os input, sy_platform_arch := ri_platform_arch input,
                         sy_cron := ri_cron input, sy_timezone := ri_timezone input,
                         sy_next_run_at := Some nxt, sy_updated_at := now\<rparr>) T)))"

text \<open>Deleting a rule deletes the lineage rows that refer to it.\<close>

definition delete_rule :: "uuid \<Rightarrow> job_tables \<Rightarrow> job_tables" where
  "delete_rule rule_id T =
     T\<lparr>jt_rules := filter (\<lambda>r. sy_id r \<noteq> rule_id) (jt_rules T),
       jt_lineage := (\<lambda>j. case jt_lineage T j of
          None \<Rightarrow> None | Some (r, rest) \<Rightarrow> if r = rule_id then None else Some (r, rest))\<rparr>"

definition run_rule ::
  "('s, 'z) job_env \<Rightarrow> uuid \<Rightarrow> uuid \<Rightarrow> timestamp \<Rightarrow> job_tables \<Rightarrow> job_tables \<times> image_job api_result" where
  "run_rule env rule_id new_id now T =
     (case create_rule_job env rule_id None ''manual'' new_id now T of
        (T1, r) \<Rightarrow> (T1, result_bind r (ok_or (NotFound ''sync rule''))))"

section \<open>Completion\<close>

datatype job_outcome = Outcome_Completed | Outcome_Skipped

definition finish_target :: "bool \<Rightarrow> job_outcome api_result \<Rightarrow> job_status \<times> string option" where
  "finish_target cancel_requested result =
     (if cancel_requested then (Cancelled, None)
      else case result of
             Inr Outcome_Completed \<Rightarrow> (Completed, None)
           | Inr Outcome_Skipped \<Rightarrow> (Skipped, None)
           | Inl e \<Rightarrow> (Failed, Some (safe_error e)))"

definition finish_job ::
  "(nat \<Rightarrow> job_tables \<Rightarrow> job_tables) \<Rightarrow> uuid \<Rightarrow> int \<Rightarrow> job_outcome api_result \<Rightarrow> timestamp \<Rightarrow> job_store \<Rightarrow> job_tables
     \<Rightarrow> job_tables \<times> unit api_result" where
  "finish_job other job attempt result now S T =
     (if \<not> owns job attempt S T then (T, Inl (Conflict ''image job ownership has changed''))
      else
        let T1 = other 0 T in
        case find_job job T1 of
          None \<Rightarrow> (T1, Inl (NotFound ''image job''))
        | Some current \<Rightarrow>
            let (target, err) = finish_target (ij_cancel_requested current) result in
            case finish_image_job_owned job (js_worker_id S) attempt (job_status_as_str target) err now
                   (ij_cancel_requested current) (other 1 T1) of
              (T2, Inl e) \<Rightarrow> (T2, Inl e)
            | (T2, Inr finished) \<Rightarrow>
                (T2, if finished then Inr ()
                     else Inl (BadRequest ''image job is no longer in a finishable state'')))"

definition check_cancelled :: "uuid \<Rightarrow> job_store \<Rightarrow> job_tables \<Rightarrow> unit api_result" where
  "check_cancelled job S T =
     (if (case js_active_attempts S job of None \<Rightarrow> False | Some attempt \<Rightarrow> \<not> owns job attempt S T)
      then Inl (Conflict ''image job lease was lost'')
      else if is_cancelled job T then Inl (BadRequest ''image job was cancelled'')
      else Inr ())"

definition copy_already_completed :: "image_job \<Rightarrow> string \<Rightarrow> job_tables \<Rightarrow> bool" where
  "copy_already_completed job digest T =
     list_ex (\<lambda>j. ij_id j \<noteq> ij_id job \<and> ij_kind j = ''copy'' \<and> ij_status j = ''completed''
        \<and> ij_source_ref j = ij_source_ref job
        \<and> ij_destination_ref job \<noteq> None \<and> ij_destination_ref j = ij_destination_ref job
        \<and> ij_resolved_digest j = Some digest) (jt_jobs T)"

section \<open>Cancellation, retry and removal\<close>

definition cancel_running :: "uuid \<Rightarrow> timestamp \<Rightarrow> job_tables \<Rightarrow> job_tables \<times> nat api_result" where
  "cancel_running job now =
     update_jobs (\<lambda>j. ij_id j = job \<and> ij_status j = ''running'')
       (\<lambda>j. j\<lparr>ij_cancel_requested := True, ij_updated_at := now\<rparr>)"

definition cancel_pending :: "uuid \<Rightarrow> timestamp \<Rightarrow> job_tables \<Rightarrow> job_tables \<times> nat api_result" where
  "cancel_pending job now = exec_transition Pending Cancelled now None (\<lambda>j. ij_id j = job)"

text \<open>
  The loop retries while another task has moved the job between the read and the update; fuel counts its
  rounds, and \<open>None\<close> is a loop that has not returned yet.
\<close>

fun cancel_job_from_status ::
  "nat \<Rightarrow> (nat \<Rightarrow> job_tables \<Rightarrow> job_tables) \<Rightarrow> (nat \<Rightarrow> timestamp) \<Rightarrow> nat \<Rightarrow> uuid \<Rightarrow> job_status \<Rightarrow> job_tables
     \<Rightarrow> (job_tables \<times> unit api_result) option" where
  "cancel_job_from_status 0 other clock n job status T = None"
| "cancel_job_from_status (Suc fuel) other clock n job status T =
     (let now = clock n; T0 = other (2 * n) T in
      case (case status of
              Pending \<Rightarrow> Some (cancel_pending job now T0)
            | Running \<Rightarrow> Some (cancel_running job now T0)
            | _ \<Rightarrow> None) of
        None \<Rightarrow> Some (T, Inl (BadRequest ''image job cannot be cancelled''))
      | Some (T1, Inl e) \<Rightarrow> Some (T1, Inl e)
      | Some (T1, Inr rows) \<Rightarrow>
          if rows = 1 then Some (T1, Inr ())
          else
            let T2 = other (2 * n + 1) T1 in
            case find_job job T2 of
              None \<Rightarrow> Some (T2, Inl (NotFound ''image job''))
            | Some model \<Rightarrow>
                if ij_status model = job_status_as_str Running \<and> ij_cancel_requested model then Some (T2, Inr ())
                else
                  (case job_status_parse (ij_status model) of
                     None \<Rightarrow> Some (T2, Inl (BadRequest ''image job has an unknown status''))
                   | Some status' \<Rightarrow> cancel_job_from_status fuel other clock (Suc n) job status' T2))"

definition cancel_job ::
  "nat \<Rightarrow> (nat \<Rightarrow> job_tables \<Rightarrow> job_tables) \<Rightarrow> (nat \<Rightarrow> timestamp) \<Rightarrow> uuid \<Rightarrow> job_tables
     \<Rightarrow> (job_tables \<times> unit api_result) option" where
  "cancel_job fuel other clock job T =
     (case find_job job T of
        None \<Rightarrow> Some (T, Inl (NotFound ''image job''))
      | Some model \<Rightarrow>
          (case job_status_parse (ij_status model) of
             None \<Rightarrow> Some (T, Inl (BadRequest ''image job has an unknown status''))
           | Some status \<Rightarrow> cancel_job_from_status fuel other clock 0 job status T))"

definition retry_job ::
  "(nat \<Rightarrow> job_tables \<Rightarrow> job_tables) \<Rightarrow> timestamp \<Rightarrow> uuid \<Rightarrow> job_tables \<Rightarrow> job_tables \<times> image_job api_result" where
  "retry_job other now job T =
     (case find_job job T of
        None \<Rightarrow> (T, Inl (NotFound ''image job''))
      | Some model \<Rightarrow>
          (case job_status_parse (ij_status model) of
             None \<Rightarrow> (T, Inl (BadRequest ''image job has an unknown status''))
           | Some status \<Rightarrow>
               if \<not> can_transition_to status Pending then (T, Inl (BadRequest ''image job cannot be retried''))
               else
                 (case exec_transition status Pending now None (\<lambda>j. ij_id j = job) (other 0 T) of
                    (T1, Inl e) \<Rightarrow> (T1, Inl e)
                  | (T1, Inr rows) \<Rightarrow>
                      let T2 = other 1 T1 in
                      if rows \<noteq> 1 then
                        (T2, if find_job job T2 = None then Inl (NotFound ''image job'')
                             else Inl (BadRequest ''image job cannot be retried''))
                      else (T2, ok_or (NotFound ''image job'') (find_job job T2)))))"

text \<open>The service of one process: its tables, storage, job store and runtime settings.\<close>

record image_service =
  im_tables :: job_tables
  im_files :: store_files
  im_store :: job_store
  im_max_export_bytes :: nat
  im_export_ttl :: int
  im_last_cleanup :: instant

definition clear_storage_row :: "uuid \<Rightarrow> job_tables \<Rightarrow> job_tables \<times> nat api_result" where
  "clear_storage_row job =
     update_jobs (\<lambda>j. ij_id j = job)
       (\<lambda>j. j\<lparr>ij_artifact_path := None, ij_artifact_name := None, ij_idempotency_key := None\<rparr>)"

definition remove_job_storage ::
  "(uuid \<Rightarrow> string) \<Rightarrow> uuid \<Rightarrow> image_service \<Rightarrow> image_service \<times> unit api_result" where
  "remove_job_storage ut job s =
     (let s1 = s\<lparr>im_files := remove_job ut job (im_files s)\<rparr> in
      case clear_storage_row job (im_tables s1) of
        (T, Inl e) \<Rightarrow> (s1\<lparr>im_tables := T\<rparr>, Inl e)
      | (T, Inr _) \<Rightarrow> (s1\<lparr>im_tables := T\<rparr>, Inr ()))"

definition purge_job :: "(uuid \<Rightarrow> string) \<Rightarrow> uuid \<Rightarrow> image_service \<Rightarrow> image_service \<times> unit api_result" where
  "purge_job ut job s =
     (case find_job job (im_tables s) of
        None \<Rightarrow> (s, Inl (NotFound ''image job''))
      | Some j \<Rightarrow>
          (case job_status_parse (ij_status j) of
             None \<Rightarrow> (s, Inl (BadRequest ''image job has an unknown status''))
           | Some status \<Rightarrow>
               if status \<in> {Pending, Running} then (s, Inl (BadRequest ''running image jobs must be cancelled first''))
               else
                 (case remove_job_storage ut job s of
                    (s1, Inl e) \<Rightarrow> (s1, Inl e)
                  | (s1, Inr _) \<Rightarrow> (s1\<lparr>im_tables := delete_job job (im_tables s1)\<rparr>, Inr ()))))"

section \<open>Storage quota\<close>

definition terminal_status :: "string \<Rightarrow> bool" where
  "terminal_status v = (v \<in> {''completed'', ''failed'', ''cancelled'', ''skipped''})"

definition by_finished_at :: "image_job \<Rightarrow> image_job \<Rightarrow> bool" where
  "by_finished_at a b = (ij_finished_at a \<le> ij_finished_at b)"

definition expired_jobs :: "timestamp \<Rightarrow> job_tables \<Rightarrow> image_job list" where
  "expired_jobs cutoff T =
     sort_by by_finished_at
       (filter (\<lambda>j. terminal_status (ij_status j)
          \<and> (case ij_finished_at j of None \<Rightarrow> False | Some f \<Rightarrow> f < cutoff)) (jt_jobs T))"

definition terminal_jobs :: "job_tables \<Rightarrow> image_job list" where
  "terminal_jobs T = sort_by by_finished_at (filter (\<lambda>j. terminal_status (ij_status j)) (jt_jobs T))"

fun remove_expired ::
  "(uuid \<Rightarrow> string) \<Rightarrow> uuid option \<Rightarrow> image_job list \<Rightarrow> image_service \<Rightarrow> image_service \<times> unit api_result" where
  "remove_expired ut protected_job [] s = (s, Inr ())"
| "remove_expired ut protected_job (j # js) s =
     (if Some (ij_id j) \<noteq> protected_job then
        (case remove_job_storage ut (ij_id j) s of
           (s1, Inl e) \<Rightarrow> (s1, Inl e)
         | (s1, Inr _) \<Rightarrow> remove_expired ut protected_job js s1)
      else remove_expired ut protected_job js s)"

fun remove_until_fits ::
  "(uuid \<Rightarrow> string) \<Rightarrow> uuid option \<Rightarrow> image_job list \<Rightarrow> image_service \<Rightarrow> image_service \<times> unit api_result" where
  "remove_until_fits ut protected_job [] s = (s, Inr ())"
| "remove_until_fits ut protected_job (j # js) s =
     (if Some (ij_id j) = protected_job then remove_until_fits ut protected_job js s
      else
        case remove_job_storage ut (ij_id j) s of
          (s1, Inl e) \<Rightarrow> (s1, Inl e)
        | (s1, Inr _) \<Rightarrow>
            let s2 = s1\<lparr>im_files := gc_shared_blobs (im_files s1)\<rparr> in
            if usage (im_files s2) \<le> im_max_export_bytes s2 then (s2, Inr ())
            else remove_until_fits ut protected_job js s2)"

definition clean_now ::
  "(uuid \<Rightarrow> string) \<Rightarrow> uuid option \<Rightarrow> timestamp \<Rightarrow> image_service \<Rightarrow> image_service \<times> unit api_result" where
  "clean_now ut protected_job now s =
     (case remove_expired ut protected_job (expired_jobs (now - im_export_ttl s) (im_tables s)) s of
        (s1, Inl e) \<Rightarrow> (s1, Inl e)
      | (s1, Inr _) \<Rightarrow>
          let s2 = s1\<lparr>im_files := gc_shared_blobs (im_files s1)\<rparr> in
          if usage (im_files s2) \<le> im_max_export_bytes s2 then (s2, Inr ())
          else remove_until_fits ut protected_job (terminal_jobs (im_tables s2)) s2)"

definition cleanup_storage ::
  "(uuid \<Rightarrow> string) \<Rightarrow> uuid option \<Rightarrow> instant \<Rightarrow> timestamp \<Rightarrow> image_service \<Rightarrow> image_service \<times> unit api_result" where
  "cleanup_storage ut protected_job clock now s =
     (if protected_job = None then
        (if clock - im_last_cleanup s < 60000000000 then (s, Inr ())
         else clean_now ut protected_job now (s\<lparr>im_last_cleanup := clock\<rparr>))
      else clean_now ut protected_job now s)"

definition enforce_storage_quota ::
  "(uuid \<Rightarrow> string) \<Rightarrow> uuid \<Rightarrow> instant \<Rightarrow> timestamp \<Rightarrow> image_service \<Rightarrow> image_service \<times> unit api_result" where
  "enforce_storage_quota ut job clock now s =
     (case cleanup_storage ut (Some job) clock now s of
        (s1, Inl e) \<Rightarrow> (s1, Inl e)
      | (s1, Inr _) \<Rightarrow>
          if usage (im_files s1) \<le> im_max_export_bytes s1 then (s1, Inr ())
          else
            (case remove_job_storage ut job s1 of
               (s2, Inl e) \<Rightarrow> (s2, Inl e)
             | (s2, Inr _) \<Rightarrow>
                 (s2\<lparr>im_files := gc_shared_blobs (im_files s2)\<rparr>,
                  Inl (BadRequest ''image tools storage exceeds DONKEY_MAX_EXPORT_BYTES''))))"

section \<open>Statements on the tables of the service\<close>

definition on_tables ::
  "(job_store \<Rightarrow> job_tables \<Rightarrow> job_tables \<times> 'a api_result) \<Rightarrow> image_service \<Rightarrow> image_service \<times> 'a api_result" where
  "on_tables f s = (case f (im_store s) (im_tables s) of (T, r) \<Rightarrow> (s\<lparr>im_tables := T\<rparr>, r))"

section \<open>Referenced nodes and credentials\<close>

definition active_status :: "string \<Rightarrow> bool" where
  "active_status v = (v \<in> {''pending'', ''running''})"

text \<open>
  Deleting a credential: the handler's check, then the statement with its two triggers, which check again
  and clear the references of finished jobs. Deleting a node works the same way.
\<close>

definition credential_in_use :: "uuid \<Rightarrow> job_tables \<Rightarrow> bool" where
  "credential_in_use c T =
     (list_ex (\<lambda>r. sy_destination_credential_id r = c \<or> sy_source_credential_id r = Some c) (jt_rules T)
      \<or> list_ex (\<lambda>j. active_status (ij_status j)
           \<and> (ij_destination_credential_id j = Some c \<or> ij_source_credential_id j = Some c)) (jt_jobs T))"

definition delete_credential_row :: "uuid \<Rightarrow> job_tables \<Rightarrow> job_tables \<times> unit api_result" where
  "delete_credential_row c T =
     (if credential_in_use c T
      then (T, Inl (Database ''credential is referenced by an active job or sync rule''))
      else
        case update_jobs (\<lambda>j. ij_source_credential_id j = Some c) (\<lambda>j. j\<lparr>ij_source_credential_id := None\<rparr>)
               (T\<lparr>jt_credentials := filter (\<lambda>x. x \<noteq> c) (jt_credentials T)\<rparr>) of
          (_, Inl e) \<Rightarrow> (T, Inl e)
        | (T1, Inr _) \<Rightarrow>
            (case update_jobs (\<lambda>j. ij_destination_credential_id j = Some c)
                    (\<lambda>j. j\<lparr>ij_destination_credential_id := None\<rparr>) T1 of
               (_, Inl e) \<Rightarrow> (T, Inl e)
             | (T2, Inr _) \<Rightarrow> (T2, Inr ())))"

definition delete_credential ::
  "(nat \<Rightarrow> job_tables \<Rightarrow> job_tables) \<Rightarrow> uuid \<Rightarrow> job_tables \<Rightarrow> job_tables \<times> unit api_result" where
  "delete_credential other c T =
     (if credential_in_use c T then (T, Inl (BadRequest ''credential is used by an active job or sync rule''))
      else delete_credential_row c (other 0 T))"

definition node_in_use :: "uuid \<Rightarrow> job_tables \<Rightarrow> bool" where
  "node_in_use n T =
     (list_ex (\<lambda>r. sy_source_node_id r = Some n) (jt_rules T)
      \<or> list_ex (\<lambda>j. active_status (ij_status j) \<and> ij_source_node_id j = Some n) (jt_jobs T))"

definition delete_node_row :: "uuid \<Rightarrow> job_tables \<Rightarrow> job_tables \<times> unit api_result" where
  "delete_node_row n T =
     (if node_in_use n T then (T, Inl (Database ''node is referenced by an active job or sync rule''))
      else
        case update_jobs (\<lambda>j. ij_source_node_id j = Some n) (\<lambda>j. j\<lparr>ij_source_node_id := None\<rparr>)
               (T\<lparr>jt_nodes := filter (\<lambda>x. x \<noteq> n) (jt_nodes T)\<rparr>) of
          (_, Inl e) \<Rightarrow> (T, Inl e)
        | (T1, Inr _) \<Rightarrow> (T1, Inr ()))"

end
