(* ===== verification/Image_Job_Proofs.thy ===== *)
theory Image_Job_Proofs
  imports Image_Jobs
begin

text \<open>
  The life of an image job under any interleaving of statements: the operations that handlers, workers and
  triggers execute, the invariant they keep, and the properties of ownership, cancellation and recovery.
\<close>

section \<open>Operations\<close>

text \<open>The statements and transactions on the tables, one constructor each.\<close>

datatype job_op =
    Op_Create uuid job_input job_kind "string option" timestamp
  | Op_Rule_Job uuid "timestamp option" string uuid timestamp
  | Op_Claim uuid uuid timestamp
  | Op_Renew uuid uuid int timestamp
  | Op_Manifest job_store uuid string "string option" nat timestamp
  | Op_Progress job_store uuid string nat nat timestamp
  | Op_Stage job_store uuid string timestamp
  | Op_Artifact job_store uuid string string timestamp
  | Op_Finish uuid uuid int bool "job_outcome api_result" timestamp
  | Op_Recover_Cancelled timestamp
  | Op_Recover_Pending timestamp
  | Op_Cancel_Pending uuid timestamp
  | Op_Cancel_Running uuid timestamp
  | Op_Retry uuid job_status timestamp
  | Op_Clear_Storage uuid
  | Op_Delete uuid
  | Op_Delete_Rule uuid
  | Op_Delete_Credential uuid
  | Op_Delete_Node uuid

fun job_exec :: "('s, 'z) job_env \<Rightarrow> job_op \<Rightarrow> job_tables \<Rightarrow> job_tables" where
  "job_exec env (Op_Create new_id input kind key now) T = fst (insert_job (pending_job new_id input kind key now) T)"
| "job_exec env (Op_Rule_Job rule_id scheduled_for trigger new_id now) T =
     fst (create_rule_job env rule_id scheduled_for trigger new_id now T)"
| "job_exec env (Op_Claim job worker_id now) T = fst (claim_image_job job worker_id now (lease_until now) T)"
| "job_exec env (Op_Renew job worker_id attempt now) T =
     fst (renew_image_job job worker_id attempt now (lease_until now) T)"
| "job_exec env (Op_Manifest S job digest index_digest n now) T = fst (update_manifest job digest index_digest n now S T)"
| "job_exec env (Op_Progress S job stage current n now) T = fst (update_progress job stage current n now S T)"
| "job_exec env (Op_Stage S job stage now) T = fst (update_stage job stage now S T)"
| "job_exec env (Op_Artifact S job path name now) T = fst (update_artifact job path name now S T)"
| "job_exec env (Op_Finish job worker_id attempt cancel result now) T =
     (let (target, err) = finish_target cancel result
      in fst (finish_image_job_owned job worker_id attempt (job_status_as_str target) err now cancel T))"
| "job_exec env (Op_Recover_Cancelled now) T = fst (recover_cancelled now T)"
| "job_exec env (Op_Recover_Pending now) T = fst (recover_pending now T)"
| "job_exec env (Op_Cancel_Pending job now) T = fst (cancel_pending job now T)"
| "job_exec env (Op_Cancel_Running job now) T = fst (cancel_running job now T)"
| "job_exec env (Op_Retry job from now) T = fst (exec_transition from Pending now None (\<lambda>j. ij_id j = job) T)"
| "job_exec env (Op_Clear_Storage job) T = fst (clear_storage_row job T)"
| "job_exec env (Op_Delete job) T = delete_job job T"
| "job_exec env (Op_Delete_Rule rule_id) T = delete_rule rule_id T"
| "job_exec env (Op_Delete_Credential c) T = fst (delete_credential_row c T)"
| "job_exec env (Op_Delete_Node n) T = fst (delete_node_row n T)"

section \<open>The invariant\<close>

text \<open>What the columns of a row say in each status; \<open>has_owner\<close> is whether it has an owner row.\<close>

definition job_shape :: "bool \<Rightarrow> image_job \<Rightarrow> bool" where
  "job_shape has_owner j =
     (case job_status_parse (ij_status j) of
        None \<Rightarrow> False
      | Some Pending \<Rightarrow> \<not> ij_cancel_requested j \<and> ij_lease_until j = None \<and> ij_started_at j = None
          \<and> ij_finished_at j = None \<and> ij_error j = None
      | Some Running \<Rightarrow> has_owner \<and> ij_lease_until j \<noteq> None \<and> ij_started_at j \<noteq> None
          \<and> ij_finished_at j = None \<and> ij_error j = None
      | Some Failed \<Rightarrow> \<not> ij_cancel_requested j \<and> ij_lease_until j = None \<and> ij_finished_at j \<noteq> None
          \<and> ij_error j \<noteq> None
      | Some Cancelled \<Rightarrow> ij_cancel_requested j \<and> ij_lease_until j = None \<and> ij_finished_at j \<noteq> None
          \<and> ij_error j = None
      | Some _ \<Rightarrow> \<not> ij_cancel_requested j \<and> ij_lease_until j = None \<and> ij_finished_at j \<noteq> None
          \<and> ij_error j = None)"

definition keys :: "image_job list \<Rightarrow> string list" where
  "keys js = List.map_filter ij_idempotency_key js"

definition tables_ok :: "job_tables \<Rightarrow> bool" where
  "tables_ok T \<longleftrightarrow>
     distinct (map ij_id (jt_jobs T)) \<and> distinct (keys (jt_jobs T))
     \<and> (\<forall>j \<in> set (jt_jobs T). job_row_valid T j \<and> job_shape (jt_owners T (ij_id j) \<noteq> None) j)
     \<and> (\<forall>i. jt_owners T i \<noteq> None \<longrightarrow> i \<in> ij_id ` set (jt_jobs T))"

lemma keys_map_same: "(\<And>j. j \<in> set js \<Longrightarrow> ij_idempotency_key (f j) = ij_idempotency_key j) \<Longrightarrow> keys (map f js) = keys js"
  by (induction js) (auto simp: keys_def map_filter_simps split: option.splits)

lemma keys_subset: "set (keys (map f js)) \<subseteq> set (keys js)"
  if "\<And>j. j \<in> set js \<Longrightarrow> ij_idempotency_key (f j) \<in> {None, ij_idempotency_key j}"
  using that by (induction js) (fastforce simp: keys_def map_filter_simps split: option.splits)+

lemma keys_map_distinct:
  assumes "\<And>j. j \<in> set js \<Longrightarrow> ij_idempotency_key (f j) \<in> {None, ij_idempotency_key j}" and "distinct (keys js)"
  shows "distinct (keys (map f js))"
  using assms
proof (induction js)
  case (Cons j js)
  have sub: "set (keys (map f js)) \<subseteq> set (keys js)" using keys_subset Cons.prems(1) by auto
  have dist: "distinct (keys (map f js))" using Cons by (auto simp: keys_def map_filter_simps split: option.splits)
  consider "ij_idempotency_key (f j) = None" | "ij_idempotency_key (f j) = ij_idempotency_key j"
    using Cons.prems(1) by fastforce
  then show ?case
    using sub dist Cons.prems(2) by cases (auto simp: keys_def map_filter_simps split: option.splits)
qed (simp add: keys_def map_filter_simps)

lemma job_status_parse_lit [simp]:
  "job_status_parse ''pending'' = Some Pending" "job_status_parse ''running'' = Some Running"
  "job_status_parse ''completed'' = Some Completed" "job_status_parse ''skipped'' = Some Skipped"
  "job_status_parse ''failed'' = Some Failed" "job_status_parse ''cancelled'' = Some Cancelled"
  by (simp_all add: job_status_parse_def)

lemma job_status_parse_as_str [simp]: "job_status_parse (job_status_as_str s) = Some s"
  by (cases s) simp_all

lemma job_status_parse_Some: "job_status_parse v = Some s \<Longrightarrow> v = job_status_as_str s"
  by (auto simp: job_status_parse_def split: if_splits)

text \<open>Only a running row depends on its owner row.\<close>

lemma job_shape_owner:
  "job_shape b j \<Longrightarrow> (ij_status j = ''running'' \<Longrightarrow> b \<Longrightarrow> b') \<Longrightarrow> job_shape b' j"
  by (auto simp: job_shape_def dest!: job_status_parse_Some split: option.splits job_status.splits)

text \<open>
  A change of rows, possibly with a change of the owner rows in the same transaction, keeps the invariant when
  the rows keep their id, keep or lose their key and have the right shape.
\<close>

lemma map_jobs_ok:
  assumes ok: "tables_ok T" and jobs: "jt_jobs T' = map f (jt_jobs T)"
    and rows: "\<And>j. j \<in> set (jt_jobs T) \<Longrightarrow> ij_id (f j) = ij_id j
          \<and> ij_idempotency_key (f j) \<in> {None, ij_idempotency_key j}
          \<and> job_row_valid T' (f j) \<and> job_shape (jt_owners T' (ij_id j) \<noteq> None) (f j)"
    and dom: "\<And>i. jt_owners T' i \<noteq> None \<Longrightarrow> i \<in> ij_id ` set (jt_jobs T)"
  shows "tables_ok T'"
proof -
  have ids: "map ij_id (jt_jobs T') = map ij_id (jt_jobs T)" using jobs rows by auto
  then have "distinct (map ij_id (jt_jobs T'))" using ok by (simp only: tables_ok_def)
  moreover have "distinct (keys (jt_jobs T'))"
    unfolding jobs by (rule keys_map_distinct) (use rows ok in \<open>auto simp: tables_ok_def\<close>)
  moreover have "\<forall>j \<in> set (jt_jobs T'). job_row_valid T' j \<and> job_shape (jt_owners T' (ij_id j) \<noteq> None) j"
    using rows by (simp add: jobs)
  moreover have "ij_id ` set (jt_jobs T') = ij_id ` set (jt_jobs T)" using ids by (metis set_map)
  ultimately show ?thesis unfolding tables_ok_def using dom by simp
qed

lemma tables_ok_row:
  "tables_ok T \<Longrightarrow> j \<in> set (jt_jobs T) \<Longrightarrow> job_row_valid T j \<and> job_shape (jt_owners T (ij_id j) \<noteq> None) j"
  unfolding tables_ok_def by blast

lemma tables_ok_dom: "tables_ok T \<Longrightarrow> jt_owners T i \<noteq> None \<Longrightarrow> i \<in> ij_id ` set (jt_jobs T)"
  unfolding tables_ok_def by blast

lemma job_row_valid_cong:
  "jt_nodes T' = jt_nodes T \<Longrightarrow> jt_credentials T' = jt_credentials T \<Longrightarrow> job_row_valid T' = job_row_valid T"
  by (rule ext) (simp add: job_row_valid_def)

lemma update_jobs_Inr:
  assumes "update_jobs filt changes T = (T', Inr n)"
  shows "T' = T\<lparr>jt_jobs := map (\<lambda>j. if filt j then changes j else j) (jt_jobs T)\<rparr>"
    and "n = length (filter filt (jt_jobs T))"
    and "\<And>j. j \<in> set (jt_jobs T) \<Longrightarrow> filt j \<Longrightarrow> job_row_valid T (changes j)"
  using assms by (auto simp: update_jobs_def list_all_iff split: if_splits)

lemma update_jobs_Inl: "update_jobs filt changes T = (T', Inl e) \<Longrightarrow> T' = T"
  by (auto simp: update_jobs_def split: if_splits)

lemma update_jobs_owners_ok:
  assumes ok: "tables_ok T" and upd: "update_jobs filt changes T = (T', Inr n)"
    and rows: "\<And>j. j \<in> set (jt_jobs T) \<Longrightarrow> filt j \<Longrightarrow> job_shape (jt_owners T (ij_id j) \<noteq> None) j \<Longrightarrow>
          ij_id (changes j) = ij_id j \<and> ij_idempotency_key (changes j) \<in> {None, ij_idempotency_key j}
          \<and> job_shape (owners (ij_id j) \<noteq> None) (changes j)"
    and others: "\<And>j. j \<in> set (jt_jobs T) \<Longrightarrow> \<not> filt j \<Longrightarrow> ij_status j = ''running'' \<Longrightarrow>
          jt_owners T (ij_id j) \<noteq> None \<Longrightarrow> owners (ij_id j) \<noteq> None"
    and dom: "\<And>i. owners i \<noteq> None \<Longrightarrow> i \<in> ij_id ` set (jt_jobs T)"
  shows "tables_ok (T'\<lparr>jt_owners := owners\<rparr>)"
proof (rule map_jobs_ok [OF ok, where f = "\<lambda>j. if filt j then changes j else j"])
  fix j assume j: "j \<in> set (jt_jobs T)"
  have old: "job_row_valid T j" "job_shape (jt_owners T (ij_id j) \<noteq> None) j" using tables_ok_row [OF ok j] by blast+
  have cong: "job_row_valid (T'\<lparr>jt_owners := owners\<rparr>) = job_row_valid T"
    by (rule job_row_valid_cong) (simp_all add: update_jobs_Inr(1) [OF upd])
  have "\<not> filt j \<Longrightarrow> job_shape (owners (ij_id j) \<noteq> None) j"
    by (rule job_shape_owner [OF old(2)]) (use others [OF j] in blast)
  with old(1) rows [OF j _ old(2)] update_jobs_Inr(3) [OF upd j]
  show "ij_id (if filt j then changes j else j) = ij_id j
      \<and> ij_idempotency_key (if filt j then changes j else j) \<in> {None, ij_idempotency_key j}
      \<and> job_row_valid (T'\<lparr>jt_owners := owners\<rparr>) (if filt j then changes j else j)
      \<and> job_shape (jt_owners (T'\<lparr>jt_owners := owners\<rparr>) (ij_id j) \<noteq> None) (if filt j then changes j else j)"
    by (simp add: cong)
qed (use update_jobs_Inr(1) [OF upd] dom in auto)

lemma update_jobs_ok:
  assumes ok: "tables_ok T"
    and rows: "\<And>j. j \<in> set (jt_jobs T) \<Longrightarrow> filt j \<Longrightarrow> job_shape (jt_owners T (ij_id j) \<noteq> None) j \<Longrightarrow>
          ij_id (changes j) = ij_id j \<and> ij_idempotency_key (changes j) \<in> {None, ij_idempotency_key j}
          \<and> job_shape (jt_owners T (ij_id j) \<noteq> None) (changes j)"
  shows "tables_ok (fst (update_jobs filt changes T))"
proof (cases "update_jobs filt changes T")
  case (Pair T' r)
  show ?thesis
  proof (cases r)
    case (Inr n)
    have "T'\<lparr>jt_owners := jt_owners T\<rparr> = T'" by (simp add: update_jobs_Inr(1) [OF Pair [unfolded Inr]])
    moreover have "tables_ok (T'\<lparr>jt_owners := jt_owners T\<rparr>)"
      by (rule update_jobs_owners_ok [OF ok Pair [unfolded Inr] rows]) (use tables_ok_dom [OF ok] in auto)
    ultimately show ?thesis using Pair by simp
  next
    case (Inl e)
    with Pair ok show ?thesis using update_jobs_Inl [OF Pair [unfolded Inl]] by simp
  qed
qed

section \<open>Every operation keeps the invariant\<close>

lemma owned_update_ok:
  assumes "tables_ok T"
    and "\<And>j b. ij_status j = ''running'' \<Longrightarrow> job_shape b j \<Longrightarrow>
          ij_id (changes j) = ij_id j \<and> ij_idempotency_key (changes j) = ij_idempotency_key j \<and> job_shape b (changes j)"
  shows "tables_ok (fst (owned_update job worker_id attempt changes T))"
proof -
  have "fst (owned_update job worker_id attempt changes T) = fst (update_jobs (owned job worker_id attempt T) changes T)"
    by (simp add: owned_update_def split: prod.split sum.split)
  moreover have "tables_ok (fst (update_jobs (owned job worker_id attempt T) changes T))"
    by (rule update_jobs_ok [OF assms(1)]) (use assms(2) in \<open>auto simp: owned_def\<close>)
  ultimately show ?thesis by simp
qed

lemma fst_fenced:
  "fst (fenced job S f g T) = (case js_active_attempts S job of Some a \<Rightarrow> fst (f a T) | None \<Rightarrow> fst (g T))"
  by (auto simp: fenced_def split: option.split prod.split sum.split)

lemma fenced_ok:
  "(\<And>a. tables_ok (fst (f a T))) \<Longrightarrow> tables_ok (fst (g T)) \<Longrightarrow> tables_ok (fst (fenced job S f g T))"
  by (simp add: fst_fenced split: option.split)

lemma renew_ok: "tables_ok T \<Longrightarrow> tables_ok (fst (renew_image_job job worker_id attempt now lease T))"
  unfolding renew_image_job_def by (rule owned_update_ok) (auto simp: job_shape_def)

lemma update_manifest_ok: "tables_ok T \<Longrightarrow> tables_ok (fst (update_manifest job d i n now S T))"
  unfolding update_manifest_def update_image_job_manifest_owned_def
  by (intro fenced_ok owned_update_ok update_jobs_ok) (auto simp: job_shape_def split: option.splits job_status.splits)

lemma update_progress_ok: "tables_ok T \<Longrightarrow> tables_ok (fst (update_progress job stage c n now S T))"
  unfolding update_progress_def update_image_job_progress_owned_def
  by (intro fenced_ok owned_update_ok update_jobs_ok) (auto simp: job_shape_def)

lemma update_stage_ok: "tables_ok T \<Longrightarrow> tables_ok (fst (update_stage job stage now S T))"
  unfolding update_stage_def update_image_job_stage_owned_def
  by (intro fenced_ok owned_update_ok update_jobs_ok) (auto simp: job_shape_def)

lemma update_artifact_ok: "tables_ok T \<Longrightarrow> tables_ok (fst (update_artifact job path name now S T))"
  unfolding update_artifact_def update_image_job_artifact_owned_def
  by (intro fenced_ok owned_update_ok update_jobs_ok) (auto simp: job_shape_def split: option.splits job_status.splits)

lemma exec_transition_ok:
  assumes "tables_ok T" and "err = None \<longleftrightarrow> to \<noteq> Failed" and "to \<noteq> Running"
  shows "tables_ok (fst (exec_transition from to now err filt T))"
proof (cases "can_transition_to from to")
  case True
  then have "exec_transition from to now err filt T = update_jobs (\<lambda>j. ij_status j = job_status_as_str from \<and> filt j)
      (snd (projr (transition_update from to now err))) T"
    by (simp add: exec_transition_def transition_update_def)
  moreover have "job_shape b (snd (projr (transition_update from to now err)) j)
      \<and> ij_id (snd (projr (transition_update from to now err)) j) = ij_id j
      \<and> ij_idempotency_key (snd (projr (transition_update from to now err)) j) = ij_idempotency_key j" for b j
    using True assms(2,3) by (cases to) (simp_all add: transition_update_def job_shape_def Let_def)
  ultimately show ?thesis by (auto intro!: update_jobs_ok [OF assms(1)])
next
  case False
  with assms(1) show ?thesis by (simp add: exec_transition_def transition_update_def)
qed

text \<open>A statement on one id changes one row or nothing.\<close>

lemma id_filter:
  "distinct (map ij_id js) \<Longrightarrow> filter (\<lambda>j. ij_id j = job \<and> P j) js = []
     \<or> (\<exists>j \<in> set js. ij_id j = job \<and> P j \<and> filter (\<lambda>j. ij_id j = job \<and> P j) js = [j])"
proof (induction js)
  case (Cons j js)
  then show ?case by (auto simp: filter_empty_conv)
qed simp

lemma update_by_id:
  assumes "distinct (map ij_id (jt_jobs T))" and "update_jobs (\<lambda>j. ij_id j = job \<and> P j) changes T = (T', Inr n)"
  obtains (none) "n = 0" "T' = T" "\<And>j. j \<in> set (jt_jobs T) \<Longrightarrow> ij_id j = job \<Longrightarrow> \<not> P j"
  | (one) j where "n = 1" "j \<in> set (jt_jobs T)" "ij_id j = job" "P j"
proof -
  have map_id: "map (\<lambda>j. if ij_id j = job \<and> P j then changes j else j) (jt_jobs T) = jt_jobs T"
    if "filter (\<lambda>j. ij_id j = job \<and> P j) (jt_jobs T) = []"
    using that by (intro map_idI) (auto simp: filter_empty_conv)
  show thesis
    using id_filter [OF assms(1), of job P]
  proof
    assume "filter (\<lambda>j. ij_id j = job \<and> P j) (jt_jobs T) = []"
    then show thesis using none update_jobs_Inr(1,2) [OF assms(2)] map_id by (auto simp: filter_empty_conv)
  qed (use one update_jobs_Inr(2) [OF assms(2)] in auto)
qed

lemma tables_ok_ids: "tables_ok T \<Longrightarrow> distinct (map ij_id (jt_jobs T))"
  by (simp add: tables_ok_def)

lemma claim_ok:
  assumes "tables_ok T"
  shows "tables_ok (fst (claim_image_job job worker_id now lease T))"
proof (cases "update_jobs (\<lambda>j. ij_id j = job \<and> ij_status j = ''pending'')
    (\<lambda>j. j\<lparr>ij_status := ''running'', ij_stage := ''resolving'', ij_lease_until := Some lease,
       ij_started_at := Some now, ij_updated_at := now\<rparr>) T")
  case (Pair T' r)
  show ?thesis
  proof (cases r)
    case (Inr n)
    note upd = Pair [unfolded Inr]
    from tables_ok_ids [OF assms] upd show ?thesis
    proof (cases rule: update_by_id)
      case none
      with assms upd show ?thesis by (simp add: claim_image_job_def)
    next
      case (one j)
      let ?owners = "(jt_owners T)(job \<mapsto> (worker_id, min ((case jt_owners T job of None \<Rightarrow> 0 | Some (_, a) \<Rightarrow> a) + 1) (int i64_max)))"
      have "tables_ok (T'\<lparr>jt_owners := ?owners\<rparr>)"
        by (rule update_jobs_owners_ok [OF assms upd])
          (use one tables_ok_dom [OF assms] in \<open>auto simp: job_shape_def split: if_splits\<close>)
      moreover have "jt_owners T' = jt_owners T" by (simp add: update_jobs_Inr(1) [OF upd])
      ultimately show ?thesis using one(1) upd by (simp add: claim_image_job_def Let_def)
    qed
  next
    case (Inl e)
    with Pair assms show ?thesis by (simp add: claim_image_job_def)
  qed
qed

lemma finish_result:
  assumes "update_jobs (\<lambda>j. owned job worker_id attempt T j \<and> ij_cancel_requested j = cancel)
      (\<lambda>j. j\<lparr>ij_status := status, ij_error := err, ij_lease_until := None,
         ij_finished_at := Some now, ij_updated_at := now\<rparr>) T = (T', Inr 1)"
    and "jt_owners T job = Some (worker_id, attempt)"
  shows "\<exists>rules. finish_image_job_owned job worker_id attempt status err now cancel T
     = (T'\<lparr>jt_rules := rules, jt_owners := (jt_owners T)(job := None)\<rparr>, Inr True)"
proof -
  have same: "jt_owners T' = jt_owners T" "T'\<lparr>jt_rules := jt_rules T'\<rparr> = T'"
    by (simp_all add: update_jobs_Inr(1) [OF assms(1)])
  show ?thesis
  proof (cases "status = ''completed''")
    case True
    define rules where "rules = map (\<lambda>r. if map_option fst (jt_lineage T' job) = Some (sy_id r)
      then r\<lparr>sy_last_digest := Option.bind (find_job job T') ij_resolved_digest, sy_last_run_at := Some now,
        sy_updated_at := now\<rparr> else r) (jt_rules T')"
    show ?thesis
      using assms same(1) by (intro exI [of _ rules]) (simp add: True finish_image_job_owned_def Let_def rules_def)
  next
    case False
    then show ?thesis
      by (intro exI [of _ "jt_rules T'"]) (simp add: finish_image_job_owned_def assms same Let_def)
  qed
qed

lemma tables_ok_rules: "tables_ok (T\<lparr>jt_owners := y\<rparr>) \<Longrightarrow> tables_ok (T\<lparr>jt_rules := x, jt_owners := y\<rparr>)"
  unfolding tables_ok_def by (simp add: job_row_valid_def)

lemma finish_ok:
  assumes "tables_ok T" and "finish_target cancel result = (target, err)"
  shows "tables_ok (fst (finish_image_job_owned job worker_id attempt (job_status_as_str target) err now cancel T))"
proof (cases "update_jobs (\<lambda>j. owned job worker_id attempt T j \<and> ij_cancel_requested j = cancel)
    (\<lambda>j. j\<lparr>ij_status := job_status_as_str target, ij_error := err, ij_lease_until := None,
       ij_finished_at := Some now, ij_updated_at := now\<rparr>) T")
  case (Pair T' r)
  show ?thesis
  proof (cases r)
    case (Inr n)
    note upd = Pair [unfolded Inr]
    have upd': "update_jobs (\<lambda>j. ij_id j = job \<and> ij_status j = ''running'' \<and> jt_owners T job = Some (worker_id, attempt)
        \<and> ij_cancel_requested j = cancel) (\<lambda>j. j\<lparr>ij_status := job_status_as_str target, ij_error := err,
        ij_lease_until := None, ij_finished_at := Some now, ij_updated_at := now\<rparr>) T = (T', Inr n)"
      using upd by (simp add: owned_def conj_assoc)
    from tables_ok_ids [OF assms(1)] upd' show ?thesis
    proof (cases rule: update_by_id)
      case none
      with assms upd show ?thesis by (simp add: finish_image_job_owned_def)
    next
      case (one j)
      have shape: "job_shape False (i\<lparr>ij_status := job_status_as_str target, ij_error := err, ij_lease_until := None,
          ij_finished_at := Some now, ij_updated_at := now\<rparr>)" if "ij_cancel_requested i = cancel" for i
        using that assms(2)
        by (auto simp: finish_target_def job_shape_def split: if_splits sum.splits job_outcome.splits)
      have "tables_ok (T'\<lparr>jt_owners := (jt_owners T)(job := None)\<rparr>)"
      proof (rule update_jobs_owners_ok [OF assms(1) upd'])
        fix i assume "i \<in> set (jt_jobs T)" "\<not> (ij_id i = job \<and> ij_status i = ''running''
          \<and> jt_owners T job = Some (worker_id, attempt) \<and> ij_cancel_requested i = cancel)"
          "ij_status i = ''running''" "jt_owners T (ij_id i) \<noteq> None"
        moreover from this one have "ij_id i \<noteq> job"
          using tables_ok_ids [OF assms(1)] by (metis (no_types, lifting) distinct_map inj_on_def)
        ultimately show "((jt_owners T)(job := None)) (ij_id i) \<noteq> None" by simp
      qed (use shape tables_ok_dom [OF assms(1)] in \<open>auto split: if_splits\<close>)
      then show ?thesis
        using finish_result [OF upd [unfolded one(1)]] one(4) tables_ok_rules by auto
    qed
  next
    case (Inl e)
    with Pair assms show ?thesis by (simp add: finish_image_job_owned_def)
  qed
qed

lemma recover_pending_ok: "tables_ok T \<Longrightarrow> tables_ok (fst (recover_pending now T))"
  unfolding recover_pending_def by (rule update_jobs_ok) (auto simp: job_shape_def)

lemma cancel_running_ok: "tables_ok T \<Longrightarrow> tables_ok (fst (cancel_running job now T))"
  unfolding cancel_running_def by (rule update_jobs_ok) (auto simp: job_shape_def)

lemma clear_storage_ok: "tables_ok T \<Longrightarrow> tables_ok (fst (clear_storage_row job T))"
  unfolding clear_storage_row_def
  by (rule update_jobs_ok) (auto simp: job_shape_def split: option.splits job_status.splits)

lemma keys_filter: "distinct (keys js) \<Longrightarrow> distinct (keys (filter P js)) \<and> set (keys (filter P js)) \<subseteq> set (keys js)"
  by (induction js) (auto simp: keys_def map_filter_simps split: option.splits)

lemma delete_job_ok:
  assumes "tables_ok T"
  shows "tables_ok (delete_job job T)"
proof -
  let ?js = "filter (\<lambda>j. ij_id j \<noteq> job) (jt_jobs T)"
  have "distinct (map ij_id ?js)" "distinct (keys ?js)"
    using assms keys_filter by (simp_all add: tables_ok_def distinct_map_filter)
  moreover have "\<forall>j \<in> set ?js. job_row_valid T j \<and> job_shape (((jt_owners T)(job := None)) (ij_id j) \<noteq> None) j"
    using tables_ok_row [OF assms] by simp
  moreover have "i \<in> ij_id ` set ?js" if "((jt_owners T)(job := None)) i \<noteq> None" for i
    using that tables_ok_dom [OF assms, of i] by (auto split: if_splits)
  moreover have "job_row_valid (delete_job job T) = job_row_valid T"
    by (rule job_row_valid_cong) (simp_all add: delete_job_def)
  ultimately show ?thesis unfolding tables_ok_def by (simp add: delete_job_def)
qed

lemma delete_rule_ok: "tables_ok T \<Longrightarrow> tables_ok (delete_rule r T)"
  by (simp add: tables_ok_def delete_rule_def job_row_valid_def)

lemma opt_in_filter: "opt_in x xs \<Longrightarrow> x \<noteq> Some c \<Longrightarrow> opt_in x (filter (\<lambda>y. y \<noteq> c) xs)"
  by (cases x) (simp_all add: opt_in_def)

lemma opt_in_None [simp]: "opt_in None xs"
  by (simp add: opt_in_def)

lemma job_shape_references [simp]:
  "job_shape b (j\<lparr>ij_source_node_id := x\<rparr>) = job_shape b j"
  "job_shape b (j\<lparr>ij_source_credential_id := x\<rparr>) = job_shape b j"
  "job_shape b (j\<lparr>ij_destination_credential_id := x\<rparr>) = job_shape b j"
  by (simp_all add: job_shape_def split: option.split job_status.split)

lemma delete_node_ok:
  assumes "tables_ok T"
  shows "tables_ok (fst (delete_node_row n T))"
proof (cases "delete_node_row n T")
  case (Pair T1 r)
  show ?thesis
  proof (cases "T1 = T")
    case False
    then have upd: "\<exists>k. update_jobs (\<lambda>j. ij_source_node_id j = Some n) (\<lambda>j. j\<lparr>ij_source_node_id := None\<rparr>)
        (T\<lparr>jt_nodes := filter (\<lambda>x. x \<noteq> n) (jt_nodes T)\<rparr>) = (T1, Inr k)"
      using Pair by (auto simp: delete_node_row_def split: if_splits prod.splits sum.splits)
    then have T1: "T1 = T\<lparr>jt_nodes := filter (\<lambda>x. x \<noteq> n) (jt_nodes T),
        jt_jobs := map (\<lambda>j. if ij_source_node_id j = Some n then j\<lparr>ij_source_node_id := None\<rparr> else j) (jt_jobs T)\<rparr>"
      using update_jobs_Inr(1) by fastforce
    have "tables_ok T1"
    proof (rule map_jobs_ok [OF assms])
      fix j assume "j \<in> set (jt_jobs T)"
      from tables_ok_row [OF assms this]
      show "ij_id (if ij_source_node_id j = Some n then j\<lparr>ij_source_node_id := None\<rparr> else j) = ij_id j
        \<and> ij_idempotency_key (if ij_source_node_id j = Some n then j\<lparr>ij_source_node_id := None\<rparr> else j)
            \<in> {None, ij_idempotency_key j}
        \<and> job_row_valid T1 (if ij_source_node_id j = Some n then j\<lparr>ij_source_node_id := None\<rparr> else j)
        \<and> job_shape (jt_owners T1 (ij_id j) \<noteq> None)
            (if ij_source_node_id j = Some n then j\<lparr>ij_source_node_id := None\<rparr> else j)"
        by (cases "ij_source_node_id j = Some n") (simp_all add: T1 job_row_valid_def opt_in_filter)
    qed (use tables_ok_dom [OF assms] in \<open>auto simp: T1\<close>)
    with Pair show ?thesis by simp
  qed (use assms Pair in simp)
qed

text \<open>Both references of a row are cleared, or the deletion fails.\<close>

lemma delete_credential_row_cases:
  assumes "delete_credential_row c T = (T', r)"
  shows "T' = T \<and> (\<exists>e. r = Inl e) \<or>
     T' = T\<lparr>jt_credentials := filter (\<lambda>x. x \<noteq> c) (jt_credentials T), jt_jobs := map (\<lambda>j. j\<lparr>
        ij_source_credential_id := (if ij_source_credential_id j = Some c then None else ij_source_credential_id j),
        ij_destination_credential_id :=
          (if ij_destination_credential_id j = Some c then None else ij_destination_credential_id j)\<rparr>) (jt_jobs T)\<rparr>"
proof (cases "\<exists>e. r = Inl e")
  case True
  then show ?thesis using assms by (auto simp: delete_credential_row_def split: if_splits prod.splits sum.splits)
next
  case False
  then obtain T1 n1 n2 where u1: "update_jobs (\<lambda>j. ij_source_credential_id j = Some c)
      (\<lambda>j. j\<lparr>ij_source_credential_id := None\<rparr>) (T\<lparr>jt_credentials := filter (\<lambda>x. x \<noteq> c) (jt_credentials T)\<rparr>) = (T1, Inr n1)"
    and u2: "update_jobs (\<lambda>j. ij_destination_credential_id j = Some c)
      (\<lambda>j. j\<lparr>ij_destination_credential_id := None\<rparr>) T1 = (T', Inr n2)"
    using assms by (auto simp: delete_credential_row_def split: if_splits prod.splits sum.splits)
  show ?thesis
    unfolding update_jobs_Inr(1) [OF u2] update_jobs_Inr(1) [OF u1] by auto
qed

lemma delete_credential_ok:
  assumes "tables_ok T"
  shows "tables_ok (fst (delete_credential_row c T))"
proof (cases "delete_credential_row c T")
  case (Pair T' r)
  let ?f = "\<lambda>j. j\<lparr>
        ij_source_credential_id := (if ij_source_credential_id j = Some c then None else ij_source_credential_id j),
        ij_destination_credential_id :=
          (if ij_destination_credential_id j = Some c then None else ij_destination_credential_id j)\<rparr>"
  have "tables_ok T'" if T': "T' = T\<lparr>jt_credentials := filter (\<lambda>x. x \<noteq> c) (jt_credentials T), jt_jobs := map ?f (jt_jobs T)\<rparr>"
  proof (rule map_jobs_ok [OF assms, where f = ?f])
    fix j assume "j \<in> set (jt_jobs T)"
    from tables_ok_row [OF assms this]
    show "ij_id (?f j) = ij_id j \<and> ij_idempotency_key (?f j) \<in> {None, ij_idempotency_key j}
        \<and> job_row_valid T' (?f j) \<and> job_shape (jt_owners T' (ij_id j) \<noteq> None) (?f j)"
      by (simp add: T' job_row_valid_def opt_in_filter)
  qed (use tables_ok_dom [OF assms] in \<open>auto simp: T'\<close>)
  with delete_credential_row_cases [OF Pair] assms Pair show ?thesis by auto
qed

lemma keys_append_one: "keys (js @ [j]) = keys js @ (case ij_idempotency_key j of None \<Rightarrow> [] | Some k \<Rightarrow> [k])"
  by (induction js) (auto simp: keys_def map_filter_simps split: option.splits)

lemma in_keys: "k \<in> set (keys js) \<longleftrightarrow> (\<exists>j \<in> set js. ij_idempotency_key j = Some k)"
  by (induction js) (auto simp: keys_def map_filter_simps split: option.splits)

lemma pending_job_shape: "job_shape b (pending_job new_id input kind key now)"
  by (simp add: job_shape_def pending_job_def)

lemma insert_job_ok:
  assumes "tables_ok T" and "job_shape False j"
  shows "tables_ok (fst (insert_job j T))"
proof (cases "\<exists>j'. snd (insert_job j T) = Inr j'")
  case True
  then have new: "ij_id j \<notin> ij_id ` set (jt_jobs T)" "job_row_valid T j"
    "ij_idempotency_key j = None \<or> ij_idempotency_key j \<notin> ij_idempotency_key ` set (jt_jobs T)"
    "fst (insert_job j T) = T\<lparr>jt_jobs := jt_jobs T @ [j]\<rparr>"
    by (auto simp: insert_job_def list_ex_iff split: if_splits)
  have "distinct (keys (jt_jobs T @ [j]))"
    using assms(1) new(3) by (force simp: tables_ok_def keys_append_one in_keys split: option.splits)
  moreover have "job_row_valid (T\<lparr>jt_jobs := x\<rparr>) = job_row_valid T" for x by (rule job_row_valid_cong) simp_all
  moreover have "job_shape b j" for b by (rule job_shape_owner [OF assms(2)]) simp
  ultimately show ?thesis using assms(1) new unfolding tables_ok_def by auto
next
  case False
  then have "fst (insert_job j T) = T" by (auto simp: insert_job_def split: if_splits)
  with assms show ?thesis by simp
qed

lemma tables_ok_lineage: "tables_ok T \<Longrightarrow> tables_ok (T\<lparr>jt_lineage := x\<rparr>)"
  unfolding tables_ok_def by (simp add: job_row_valid_def)

lemma tables_ok_rules_only: "tables_ok T \<Longrightarrow> tables_ok (T\<lparr>jt_rules := x\<rparr>)"
  unfolding tables_ok_def by (simp add: job_row_valid_def)

text \<open>The transaction that creates a job for a rule inserts a pending job or nothing; jobs stay otherwise.\<close>

lemma create_rule_job_keeps:
  assumes base: "P T" and ins: "\<And>input key. P (fst (insert_job (pending_job new_id input Copy key now) T))"
    and lineage: "\<And>U x. P U \<Longrightarrow> P (U\<lparr>jt_lineage := x\<rparr>)" and rules: "\<And>U x. P U \<Longrightarrow> P (U\<lparr>jt_rules := x\<rparr>)"
  shows "P (fst (create_rule_job env rule_id scheduled_for trigger new_id now T))"
proof -
  have rule_row: "P (fst (update_rule_row r f U))" if "P U" for r f U
    using that rules by (simp add: update_rule_row_def)
  have step: "P (fst (case p of (_, Inl e) \<Rightarrow> (T, Inl e) | (T1, Inr job) \<Rightarrow> k T1 job))"
    if "P (fst p)" and "\<And>T1 job. P T1 \<Longrightarrow> P (fst (k T1 job))"
    for p :: "job_tables \<times> 'x api_result" and k :: "job_tables \<Rightarrow> 'x \<Rightarrow> job_tables \<times> image_job option api_result"
    using that base by (cases p; cases "snd p") auto
  have existing: "P (fst (case x of Some existing \<Rightarrow> (T, Inr existing)
      | None \<Rightarrow> insert_rule_job (pending_job new_id input Copy key now) r scheduled_for trigger T))" for x input key r
    using ins [of input key] base lineage by (auto simp: insert_rule_job_def split: option.split prod.split sum.split)
  have last: "P (fst (if b then (case nr of Inl e \<Rightarrow> (T, Inl e) | Inr nxt \<Rightarrow>
      (case update_rule_row rid (f nxt) T1 of (_, Inl e) \<Rightarrow> (T, Inl e) | (T2, Inr _) \<Rightarrow> (T2, Inr (Some job))))
      else (T1, Inr (Some job))))" if "P T1" for b rid f T1 job and nr :: "timestamp api_result"
    using that base rule_row [OF that]
    by (auto split: sum.split prod.split) (metis fst_conv)
  show ?thesis
    unfolding create_rule_job_def Let_def
    by (split option.split, intro conjI allI impI, simp add: base, split if_split, intro conjI impI, simp add: base,
        split sum.split, intro conjI allI impI, simp add: base, rule step, rule existing, rule last)
qed

lemma create_rule_job_ok:
  "tables_ok T \<Longrightarrow> tables_ok (fst (create_rule_job env rule_id scheduled_for trigger new_id now T))"
  by (rule create_rule_job_keeps) (simp_all add: insert_job_ok pending_job_shape tables_ok_lineage tables_ok_rules_only)

theorem job_exec_ok: "tables_ok T \<Longrightarrow> tables_ok (job_exec env op T)"
proof (induction op)
  case (Op_Finish job worker_id attempt cancel result now)
  then show ?case using finish_ok by (cases "finish_target cancel result") simp
next
  case (Op_Retry job st now)
  then show ?case by (simp add: exec_transition_ok)
qed (simp_all add: insert_job_ok pending_job_shape create_rule_job_ok claim_ok renew_ok update_manifest_ok
    update_progress_ok update_stage_ok update_artifact_ok recover_cancelled_def cancel_pending_def exec_transition_ok
    recover_pending_ok cancel_running_ok clear_storage_ok delete_job_ok delete_rule_ok delete_credential_ok
    delete_node_ok)

interpretation job_run: operation_system "job_exec env" "\<lambda>_. True" tables_ok for env
  by unfold_locales (simp add: job_exec_ok)

section \<open>How a row evolves\<close>

text \<open>A relation between the row of an id before and after a statement.\<close>

lemma find_job_map:
  assumes "jt_jobs T' = map f (jt_jobs T)" and "\<And>j. j \<in> set (jt_jobs T) \<Longrightarrow> ij_id (f j) = ij_id j"
  shows "find_job job T' = map_option f (find_job job T)"
proof -
  have "find (\<lambda>j. ij_id j = job) (map f js) = map_option f (find (\<lambda>j. ij_id j = job) js)"
    if "\<And>j. j \<in> set js \<Longrightarrow> ij_id (f j) = ij_id j" for js
    using that by (induction js) auto
  from this [OF assms(2)] show ?thesis by (simp add: find_job_def assms(1))
qed

lemma find_job_in: "find_job job T = Some j \<Longrightarrow> j \<in> set (jt_jobs T) \<and> ij_id j = job"
  by (auto simp: find_job_def find_Some_iff)

lemma update_jobs_rel:
  assumes "\<And>j. j \<in> set (jt_jobs T) \<Longrightarrow> filt j \<Longrightarrow> ij_id (changes j) = ij_id j \<and> R j (changes j)"
    and "\<And>j. j \<in> set (jt_jobs T) \<Longrightarrow> R j j"
  shows "rel_option R (find_job job T) (find_job job (fst (update_jobs filt changes T)))"
proof (cases "update_jobs filt changes T")
  case (Pair T' r)
  have self: "rel_option R (find_job job T) (find_job job T)"
    using assms(2) find_job_in by (cases "find_job job T") auto
  show ?thesis
  proof (cases r)
    case (Inr n)
    from update_jobs_Inr(1) [OF Pair [unfolded Inr]]
    have "find_job job T' = map_option (\<lambda>j. if filt j then changes j else j) (find_job job T)"
      using assms(1) by (intro find_job_map) auto
    with assms find_job_in Pair show ?thesis by (cases "find_job job T") auto
  next
    case (Inl e)
    with Pair self show ?thesis using update_jobs_Inl [OF Pair [unfolded Inl]] by simp
  qed
qed

text \<open>The same for the statements built from it.\<close>

lemma owned_update_rel:
  assumes "\<And>j. ij_status j = ''running'' \<Longrightarrow> ij_id (changes j) = ij_id j \<and> R j (changes j)" and "\<And>j. R j j"
  shows "rel_option R (find_job job' T) (find_job job' (fst (owned_update job w a changes T)))"
proof -
  have "fst (owned_update job w a changes T) = fst (update_jobs (owned job w a T) changes T)"
    by (simp add: owned_update_def split: prod.split sum.split)
  then show ?thesis using update_jobs_rel [of T "owned job w a T" changes R job'] assms by (simp add: owned_def)
qed

lemma fenced_rel:
  assumes "\<And>a. rel_option R (find_job job' T) (find_job job' (fst (f a T)))"
    and "rel_option R (find_job job' T) (find_job job' (fst (g T)))"
  shows "rel_option R (find_job job' T) (find_job job' (fst (fenced job S f g T)))"
  using assms by (simp add: fst_fenced split: option.split)

lemma exec_transition_rel:
  assumes "\<And>j. j \<in> set (jt_jobs T) \<Longrightarrow> ij_status j = job_status_as_str from \<Longrightarrow> can_transition_to from to \<Longrightarrow> filt j \<Longrightarrow>
      R j (snd (projr (transition_update from to now err)) j)" and "\<And>j. R j j"
  shows "rel_option R (find_job job T) (find_job job (fst (exec_transition from to now err filt T)))"
proof (cases "can_transition_to from to")
  case True
  then have eq: "exec_transition from to now err filt T = update_jobs (\<lambda>j. ij_status j = job_status_as_str from \<and> filt j)
      (snd (projr (transition_update from to now err))) T"
    by (simp add: exec_transition_def transition_update_def)
  have "ij_id (snd (projr (transition_update from to now err)) j) = ij_id j" for j
    using True by (cases to) (simp_all add: transition_update_def Let_def)
  then show ?thesis unfolding eq by (intro update_jobs_rel) (use assms True in auto)
next
  case False
  then have "fst (exec_transition from to now err filt T) = T" by (simp add: exec_transition_def transition_update_def)
  with assms(2) show ?thesis by (cases "find_job job T") simp_all
qed

lemma insert_job_find:
  assumes "find_job job T \<noteq> None"
  shows "find_job job (fst (insert_job j T)) = find_job job T"
proof -
  have "find P (xs @ ys) = find P xs" if "find P xs \<noteq> None" for P :: "image_job \<Rightarrow> bool" and xs ys
    using that by (induction xs) auto
  with assms show ?thesis by (simp add: insert_job_def find_job_def)
qed

lemma insert_job_find_None:
  assumes "find_job job T = None" and "find_job job (fst (insert_job j T)) = Some j'"
  shows "j' = j"
proof -
  have "find P (xs @ [y]) = (if P y then Some y else None)" if "find P xs = None" for P :: "image_job \<Rightarrow> bool" and xs y
    using that by (induction xs) (auto split: if_splits)
  with assms show ?thesis by (auto simp: insert_job_def find_job_def split: if_splits)
qed

end
