(* ===== verification/Image_Job_Life.thy ===== *)
theory Image_Job_Life
  imports Image_Job_Proofs
begin

text \<open>
  The abstract specification of a job's life and the refinement: whatever statements interleave, the row of a
  job moves along the abstract life cycle only. On it rest the properties of cancellation; the fencing of
  stale workers is proved beside it.
\<close>

section \<open>The abstract life cycle\<close>

text \<open>
  A job is absent, or has a status and a cancellation request. The flag of a step says whether a worker may
  claim the job in it.
\<close>

datatype life = Absent | Life job_status bool

inductive life_step :: "bool \<Rightarrow> life \<Rightarrow> life \<Rightarrow> bool" for claiming where
  create: "life_step claiming Absent (Life Pending False)"
| claim: "claiming \<Longrightarrow> life_step claiming (Life Pending False) (Life Running False)"
| request: "life_step claiming (Life Running c) (Life Running True)"
| finish: "s \<in> {Completed, Skipped, Failed} \<Longrightarrow> life_step claiming (Life Running False) (Life s False)"
| cancel: "life_step claiming (Life Running True) (Life Cancelled True)"
| withdraw: "life_step claiming (Life Pending False) (Life Cancelled True)"
| recover: "life_step claiming (Life Running False) (Life Pending False)"
| retry: "s \<in> {Failed, Skipped, Cancelled} \<Longrightarrow> life_step claiming (Life s c) (Life Pending False)"
| purge: "life_step claiming (Life s c) Absent"

inductive_cases life_from_cancelling: "life_step k (Life Running True) l"
inductive_cases life_from_completed: "life_step k (Life Completed c) l"
inductive_cases life_to_running: "life_step k l (Life Running c)"

definition life_row :: "image_job \<Rightarrow> life" where
  "life_row j = (case job_status_parse (ij_status j) of None \<Rightarrow> Absent | Some s \<Rightarrow> Life s (ij_cancel_requested j))"

definition life_of :: "uuid \<Rightarrow> job_tables \<Rightarrow> life" where
  "life_of job T = (case find_job job T of None \<Rightarrow> Absent | Some j \<Rightarrow> life_row j)"

definition moves :: "bool \<Rightarrow> life \<Rightarrow> life \<Rightarrow> bool" where
  "moves k l l' \<longleftrightarrow> l = l' \<or> life_step k l l'"

lemma moves_refl [simp]: "moves k l l"
  by (simp add: moves_def)

lemma movesI: "life_step k l l' \<Longrightarrow> moves k l l'"
  by (simp add: moves_def)

section \<open>Refinement\<close>

lemma life_of_rel:
  "rel_option (\<lambda>i j. moves k (life_row i) (life_row j)) (find_job job T) (find_job job T') \<Longrightarrow>
     moves k (life_of job T) (life_of job T')"
  by (cases "find_job job T"; cases "find_job job T'") (auto simp: life_of_def)

text \<open>Statements that leave status and request alone do not move a job.\<close>

lemma life_row_same: "ij_status j = ij_status i \<Longrightarrow> ij_cancel_requested j = ij_cancel_requested i \<Longrightarrow> life_row j = life_row i"
  by (simp add: life_row_def split: option.split)

lemma life_row_update [simp]:
  "life_row (j\<lparr>ij_resolved_digest := x0\<rparr>) = life_row j"
  "life_row (j\<lparr>ij_index_digest := x1\<rparr>) = life_row j"
  "life_row (j\<lparr>ij_total_bytes := x2\<rparr>) = life_row j"
  "life_row (j\<lparr>ij_stage := x3\<rparr>) = life_row j"
  "life_row (j\<lparr>ij_progress_bytes := x4\<rparr>) = life_row j"
  "life_row (j\<lparr>ij_updated_at := x5\<rparr>) = life_row j"
  "life_row (j\<lparr>ij_lease_until := x6\<rparr>) = life_row j"
  "life_row (j\<lparr>ij_artifact_path := x7\<rparr>) = life_row j"
  "life_row (j\<lparr>ij_artifact_name := x8\<rparr>) = life_row j"
  "life_row (j\<lparr>ij_idempotency_key := x9\<rparr>) = life_row j"
  "life_row (j\<lparr>ij_source_node_id := x10\<rparr>) = life_row j"
  "life_row (j\<lparr>ij_source_credential_id := x11\<rparr>) = life_row j"
  "life_row (j\<lparr>ij_destination_credential_id := x12\<rparr>) = life_row j"
  by (rule life_row_same; simp)+

lemma life_meta:
  "moves k (life_of job' T) (life_of job' (fst (renew_image_job job w a now lease T)))"
  "moves k (life_of job' T) (life_of job' (fst (update_manifest job d i n now S T)))"
  "moves k (life_of job' T) (life_of job' (fst (update_progress job stage c n now S T)))"
  "moves k (life_of job' T) (life_of job' (fst (update_stage job stage now S T)))"
  "moves k (life_of job' T) (life_of job' (fst (update_artifact job path name now S T)))"
  "moves k (life_of job' T) (life_of job' (fst (clear_storage_row job T)))"
  unfolding renew_image_job_def update_manifest_def update_image_job_manifest_owned_def update_progress_def
    update_image_job_progress_owned_def update_stage_def update_image_job_stage_owned_def update_artifact_def
    update_image_job_artifact_owned_def clear_storage_row_def
  by (rule life_of_rel, (rule fenced_rel)?; (intro owned_update_rel update_jobs_rel)?; simp)+

lemma life_transition:
  assumes "\<And>j. j \<in> set (jt_jobs T) \<Longrightarrow> ij_status j = job_status_as_str from \<Longrightarrow> can_transition_to from to \<Longrightarrow> filt j \<Longrightarrow>
      moves k (Life from (ij_cancel_requested j)) (Life to (to = Cancelled))" and "to \<noteq> Running"
  shows "moves k (life_of job T) (life_of job (fst (exec_transition from to now err filt T)))"
proof (rule life_of_rel, rule exec_transition_rel)
  fix j assume j: "j \<in> set (jt_jobs T)" "ij_status j = job_status_as_str from" "can_transition_to from to" "filt j"
  have "life_row (snd (projr (transition_update from to now err)) j) = Life to (to = Cancelled)"
    using j(3) assms(2) by (cases to) (simp_all add: transition_update_def life_row_def Let_def)
  with assms(1) [OF j] j(2) show "moves k (life_row j) (life_row (snd (projr (transition_update from to now err)) j))"
    by (simp add: life_row_def)
qed simp

lemma claim_jobs:
  "jt_jobs (fst (claim_image_job job w now lease T)) = jt_jobs
      (fst (update_jobs (\<lambda>j. ij_id j = job \<and> ij_status j = ''pending'')
         (\<lambda>j. j\<lparr>ij_status := ''running'', ij_stage := ''resolving'', ij_lease_until := Some lease,
            ij_started_at := Some now, ij_updated_at := now\<rparr>) T))"
  by (auto simp: claim_image_job_def Let_def dest!: update_jobs_Inl split: prod.split sum.split)

lemma life_claim:
  assumes "tables_ok T"
  shows "moves (job' = job) (life_of job' T) (life_of job' (fst (claim_image_job job w now lease T)))"
proof -
  let ?f = "\<lambda>j. j\<lparr>ij_status := ''running'', ij_stage := ''resolving'', ij_lease_until := Some lease,
      ij_started_at := Some now, ij_updated_at := now\<rparr>"
  let ?R = "\<lambda>i j. ij_id i = job' \<longrightarrow> moves (job' = job) (life_row i) (life_row j)"
  have "?R j (?f j)" if "j \<in> set (jt_jobs T)" "ij_id j = job \<and> ij_status j = ''pending''" for j
    using tables_ok_row [OF assms that(1)] that(2)
    by (auto simp: life_row_def job_shape_def intro: movesI life_step.claim)
  then have "rel_option ?R (find_job job' T) (find_job job' (fst (claim_image_job job w now lease T)))"
    unfolding find_job_def claim_jobs unfolding find_job_def [symmetric]
    by (intro update_jobs_rel) auto
  moreover have "rel_option (\<lambda>i j. moves (job' = job) (life_row i) (life_row j)) x y"
    if "rel_option ?R x y" and "\<And>i. x = Some i \<Longrightarrow> ij_id i = job'" for x y
    using that by (cases x; cases y) auto
  ultimately show ?thesis using find_job_in by (intro life_of_rel) blast
qed

lemma finish_jobs:
  "jt_jobs (fst (finish_image_job_owned job w a status err now cancel T))
     = jt_jobs (fst (update_jobs (\<lambda>j. owned job w a T j \<and> ij_cancel_requested j = cancel)
         (\<lambda>j. j\<lparr>ij_status := status, ij_error := err, ij_lease_until := None,
            ij_finished_at := Some now, ij_updated_at := now\<rparr>) T))"
  by (auto simp: finish_image_job_owned_def Let_def dest!: update_jobs_Inl split: prod.split sum.split)

lemma life_finish:
  assumes "finish_target cancel result = (target, err)"
  shows "moves k (life_of job' T)
     (life_of job' (fst (finish_image_job_owned job w a (job_status_as_str target) err now cancel T)))"
proof (rule life_of_rel)
  have "moves k (life_row j) (life_row (j\<lparr>ij_status := job_status_as_str target, ij_error := err, ij_lease_until := None,
      ij_finished_at := Some now, ij_updated_at := now\<rparr>))"
    if "ij_status j = ''running''" "ij_cancel_requested j = cancel" for j
    using that assms
    by (auto simp: life_row_def finish_target_def intro: movesI life_step.finish life_step.cancel
        split: if_splits sum.splits job_outcome.splits)
  then show "rel_option (\<lambda>i j. moves k (life_row i) (life_row j)) (find_job job' T)
      (find_job job' (fst (finish_image_job_owned job w a (job_status_as_str target) err now cancel T)))"
    unfolding find_job_def finish_jobs unfolding find_job_def [symmetric]
    by (intro update_jobs_rel) (auto simp: owned_def)
qed

lemma life_recover: "moves k (life_of job' T) (life_of job' (fst (recover_pending now T)))"
  unfolding recover_pending_def
  by (rule life_of_rel, rule update_jobs_rel) (auto simp: life_row_def intro: movesI life_step.recover)

lemma life_cancel_running: "moves k (life_of job' T) (life_of job' (fst (cancel_running job now T)))"
  unfolding cancel_running_def
  by (rule life_of_rel, rule update_jobs_rel) (auto simp: life_row_def intro: movesI life_step.request)

lemma life_insert:
  assumes "life_row j = Life Pending False"
  shows "moves k (life_of job' T) (life_of job' (fst (insert_job j T)))"
proof (cases "find_job job' T")
  case None
  show ?thesis
  proof (cases "find_job job' (fst (insert_job j T))")
    case (Some j')
    with None assms insert_job_find_None [OF None Some] show ?thesis
      by (simp add: life_of_def movesI life_step.create)
  qed (simp add: life_of_def None)
next
  case (Some i)
  then show ?thesis using insert_job_find [of job' T j] by (simp add: life_of_def)
qed

lemma life_pending: "life_row (pending_job new_id input kind key now) = Life Pending False"
  by (simp add: life_row_def pending_job_def)

lemma life_delete:
  assumes "tables_ok T"
  shows "moves k (life_of job' T) (life_of job' (delete_job job T))"
proof (cases "job' = job")
  case True
  then have "find_job job' (delete_job job T) = None" by (auto simp: find_job_def delete_job_def find_None_iff)
  then show ?thesis
    by (cases "find_job job' T") (auto simp: life_of_def life_row_def intro: movesI life_step.purge split: option.split)
next
  case False
  have "find (\<lambda>j. ij_id j = job') (filter (\<lambda>j. ij_id j \<noteq> job) js) = find (\<lambda>j. ij_id j = job') js" for js :: "image_job list"
    using False by (induction js) auto
  then show ?thesis by (simp add: life_of_def find_job_def delete_job_def)
qed

lemma life_delete_references:
  "moves k (life_of job' T) (life_of job' (fst (delete_credential_row c T)))"
  "moves k (life_of job' T) (life_of job' (fst (delete_node_row n T)))"
proof -
  obtain T1 r where del: "delete_credential_row c T = (T1, r)" by fastforce
  from delete_credential_row_cases [OF del]
  show "moves k (life_of job' T) (life_of job' (fst (delete_credential_row c T)))"
  proof
    assume "T1 = T\<lparr>jt_credentials := filter (\<lambda>x. x \<noteq> c) (jt_credentials T), jt_jobs := map (\<lambda>j. j\<lparr>
        ij_source_credential_id := (if ij_source_credential_id j = Some c then None else ij_source_credential_id j),
        ij_destination_credential_id :=
          (if ij_destination_credential_id j = Some c then None else ij_destination_credential_id j)\<rparr>) (jt_jobs T)\<rparr>"
    then have "find_job job' T1 = map_option (\<lambda>j. j\<lparr>
        ij_source_credential_id := (if ij_source_credential_id j = Some c then None else ij_source_credential_id j),
        ij_destination_credential_id :=
          (if ij_destination_credential_id j = Some c then None else ij_destination_credential_id j)\<rparr>) (find_job job' T)"
      by (intro find_job_map) auto
    with del show ?thesis by (cases "find_job job' T") (simp_all add: life_of_def)
  qed (use del in simp)
  have "rel_option (\<lambda>i j. moves k (life_row i) (life_row j)) (find_job job' U) (find_job job'
      (fst (update_jobs (\<lambda>j. ij_source_node_id j = Some n) (\<lambda>j. j\<lparr>ij_source_node_id := None\<rparr>) U)))" for U
    by (rule update_jobs_rel) auto
  from life_of_rel [OF this, of "T\<lparr>jt_nodes := filter (\<lambda>x. x \<noteq> n) (jt_nodes T)\<rparr>"]
  show "moves k (life_of job' T) (life_of job' (fst (delete_node_row n T)))"
    by (auto simp: delete_node_row_def life_of_def find_job_def split: prod.splits sum.splits)
qed

lemma life_retry: "moves k (life_of job T) (life_of job (fst (exec_transition st Pending now None filt T)))"
  by (rule life_transition) (auto intro: movesI life_step.retry elim: can_transition_to.elims)

lemma life_recover_cancelled: "moves k (life_of job T) (life_of job (fst (recover_cancelled now T)))"
  unfolding recover_cancelled_def by (rule life_transition) (auto intro: movesI life_step.cancel)

lemma life_cancel_pending:
  assumes "tables_ok T"
  shows "moves k (life_of job' T) (life_of job' (fst (cancel_pending job now T)))"
  unfolding cancel_pending_def
proof (rule life_transition)
  fix j assume j: "j \<in> set (jt_jobs T)" "ij_status j = job_status_as_str Pending"
  with tables_ok_row [OF assms j(1)] have "\<not> ij_cancel_requested j" by (auto simp: job_shape_def)
  then show "moves k (Life Pending (ij_cancel_requested j)) (Life Cancelled (Cancelled = Cancelled))"
    by (simp add: movesI life_step.withdraw)
qed simp

lemma life_delete_rule: "life_of job (delete_rule r T) = life_of job T"
  by (simp add: life_of_def find_job_def delete_rule_def)

text \<open>The refinement of one operation.\<close>

definition claims :: "uuid \<Rightarrow> job_op \<Rightarrow> bool" where
  "claims job op = (case op of Op_Claim job' _ _ \<Rightarrow> job = job' | _ \<Rightarrow> False)"

lemma job_exec_life:
  assumes "tables_ok T"
  shows "moves (claims job op) (life_of job T) (life_of job (job_exec env op T))"
proof (cases op)
  case (Op_Finish j w a cancel result now)
  then show ?thesis using life_finish by (cases "finish_target cancel result") simp
next
  case (Op_Rule_Job r s trigger new_id now)
  have "moves False (life_of job T) (life_of job (fst (create_rule_job env r s trigger new_id now T)))"
  proof (rule create_rule_job_keeps [where P = "\<lambda>U. moves False (life_of job T) (life_of job U)"])
    show "moves False (life_of job T) (life_of job (fst (insert_job (pending_job new_id input Copy key now) T)))" for input key
      by (rule life_insert [OF life_pending])
  qed (simp_all add: life_of_def find_job_def)
  with Op_Rule_Job show ?thesis by (simp add: claims_def)
next
  case (Op_Claim job' w now)
  with life_claim [OF assms] show ?thesis by (simp add: claims_def)
qed (simp_all only: job_exec.simps assms life_meta life_recover life_cancel_running life_insert life_pending
    life_delete life_delete_references life_retry life_recover_cancelled life_cancel_pending life_delete_rule moves_refl)

section \<open>Ownership\<close>

text \<open>A worker holds a job with an attempt token when the job runs and the owner row names both.\<close>

definition holds :: "uuid \<Rightarrow> uuid \<Rightarrow> int \<Rightarrow> job_tables \<Rightarrow> bool" where
  "holds job worker_id attempt T \<longleftrightarrow>
     jt_owners T job = Some (worker_id, attempt) \<and> (\<exists>c. life_of job T = Life Running c)"

lemma job_status_parse_running: "job_status_parse v = Some Running \<longleftrightarrow> v = ''running''"
  by (auto simp: job_status_parse_def)

lemma life_of_running: "life_of job T = Life Running c \<longleftrightarrow>
    (\<exists>j. find_job job T = Some j \<and> ij_status j = ''running'' \<and> ij_cancel_requested j = c)"
  by (auto simp: life_of_def life_row_def job_status_parse_running split: option.splits)

lemma find_job_mem:
  assumes "tables_ok T" and "j \<in> set (jt_jobs T)"
  shows "find_job (ij_id j) T = Some j"
proof -
  have "find (\<lambda>i. ij_id i = ij_id j) js = Some j" if "distinct (map ij_id js)" "j \<in> set js" for js
    using that by (induction js) auto
  with assms show ?thesis by (auto simp: find_job_def tables_ok_def)
qed

text \<open>Only a claim makes a job run, and only a claim installs an owner.\<close>

lemma unowned_no_rows:
  assumes "tables_ok T" and "\<not> holds job w a T"
  shows "filter (owned job w a T) (jt_jobs T) = []"
proof -
  have "False" if "j \<in> set (jt_jobs T)" "owned job w a T j" for j
    using that find_job_mem [OF assms(1) that(1)] assms(2) by (auto simp: holds_def owned_def life_of_running)
  then show ?thesis by (auto simp: filter_empty_conv)
qed

lemma update_jobs_none: "filter filt (jt_jobs T) = [] \<Longrightarrow> update_jobs filt changes T = (T, Inr 0)"
proof -
  assume none: "filter filt (jt_jobs T) = []"
  then have "map (\<lambda>j. if filt j then changes j else j) (jt_jobs T) = jt_jobs T"
    by (intro map_idI) (auto simp: filter_empty_conv)
  with none show ?thesis by (simp add: update_jobs_def list_all_iff filter_empty_conv)
qed

lemma owned_update_stale:
  "tables_ok T \<Longrightarrow> \<not> holds job w a T \<Longrightarrow> owned_update job w a changes T = (T, Inr False)"
  by (simp add: owned_update_def update_jobs_none unowned_no_rows)

lemma finish_stale:
  assumes "tables_ok T" and "\<not> holds job w a T"
  shows "finish_image_job_owned job w a status err now cancel T = (T, Inr False)"
proof -
  have "filter (\<lambda>j. owned job w a T j \<and> ij_cancel_requested j = cancel) (jt_jobs T) = []"
    using unowned_no_rows [OF assms] by (auto simp: filter_empty_conv)
  then show ?thesis by (simp add: finish_image_job_owned_def update_jobs_none)
qed

lemma owners_update [simp]: "jt_owners (fst (update_jobs filt changes T)) = jt_owners T"
  by (simp add: update_jobs_def)

lemma owners_statements [simp]:
  "jt_owners (fst (owned_update job w a changes T)) = jt_owners T"
  "jt_owners (fst (exec_transition st to now err filt T)) = jt_owners T"
  "jt_owners (fst (insert_job j T)) = jt_owners T"
  "jt_owners (fst (delete_node_row n T)) = jt_owners T"
  "jt_owners (fst (create_rule_job env r s trigger new_id now T)) = jt_owners T"
proof -
  show "jt_owners (fst (owned_update job w a changes T)) = jt_owners T"
    using owners_update [of "owned job w a T" changes T]
    by (auto simp: owned_update_def simp del: owners_update split: prod.split sum.split)
  show "jt_owners (fst (exec_transition st to now err filt T)) = jt_owners T"
    by (simp add: exec_transition_def split: sum.split prod.split)
  show ins: "jt_owners (fst (insert_job j T)) = jt_owners T" for j by (simp add: insert_job_def)
  show "jt_owners (fst (delete_node_row n T)) = jt_owners T"
    using owners_update [of "\<lambda>j. ij_source_node_id j = Some n" "\<lambda>j. j\<lparr>ij_source_node_id := None\<rparr>"
        "T\<lparr>jt_nodes := filter (\<lambda>x. x \<noteq> n) (jt_nodes T)\<rparr>"]
    by (auto simp: delete_node_row_def simp del: owners_update split: prod.split sum.split)
  show "jt_owners (fst (create_rule_job env r s trigger new_id now T)) = jt_owners T"
    by (rule create_rule_job_keeps [where P = "\<lambda>U. jt_owners U = jt_owners T"]) (simp_all add: ins)
qed

lemma owners_fenced:
  "(\<And>a. jt_owners (fst (f a T)) = jt_owners T) \<Longrightarrow> jt_owners (fst (g T)) = jt_owners T \<Longrightarrow>
     jt_owners (fst (fenced job S f g T)) = jt_owners T"
  by (simp add: fst_fenced split: option.split)

lemma owners_finish:
  "jt_owners (fst (finish_image_job_owned job w a status err now cancel T)) i \<in> {None, jt_owners T i}"
  using owners_update [of "\<lambda>j. owned job w a T j \<and> ij_cancel_requested j = cancel"
      "\<lambda>j. j\<lparr>ij_status := status, ij_error := err, ij_lease_until := None, ij_finished_at := Some now,
         ij_updated_at := now\<rparr>" T]
  by (auto simp: finish_image_job_owned_def Let_def simp del: owners_update split: prod.split sum.split)

lemma owners_delete_credential: "jt_owners (fst (delete_credential_row c T)) = jt_owners T"
proof -
  obtain T' r where "delete_credential_row c T = (T', r)" by fastforce
  with delete_credential_row_cases [OF this] show ?thesis by auto
qed

lemma owners_claim:
  assumes "jt_owners (fst (claim_image_job job w now lease T)) i = Some (w', a)"
  shows "jt_owners T i = Some (w', a) \<or> i = job \<and> w' = w"
  using assms owners_update [of "\<lambda>j. ij_id j = job \<and> ij_status j = ''pending''"
      "\<lambda>j. j\<lparr>ij_status := ''running'', ij_stage := ''resolving'', ij_lease_until := Some lease,
         ij_started_at := Some now, ij_updated_at := now\<rparr>" T]
  by (auto simp: claim_image_job_def Let_def simp del: owners_update split: prod.splits sum.splits if_splits)

lemma job_exec_owner:
  assumes "jt_owners (job_exec env op T) job = Some (w, a)"
  shows "jt_owners T job = Some (w, a) \<or> (\<exists>now. op = Op_Claim job w now)"
proof (cases op)
  case (Op_Claim j w' now)
  with owners_claim [of j w' now "lease_until now" T job w a] assms show ?thesis by auto
next
  case (Op_Finish j w' a' cancel result now)
  with owners_finish [of j w' a' "job_status_as_str (fst (finish_target cancel result))" "snd (finish_target cancel result)"
      now cancel T job] assms show ?thesis by (auto simp: case_prod_beta)
qed (use assms in \<open>auto simp: renew_image_job_def update_manifest_def update_image_job_manifest_owned_def
    update_progress_def update_image_job_progress_owned_def update_stage_def update_image_job_stage_owned_def
    update_artifact_def update_image_job_artifact_owned_def owners_fenced recover_cancelled_def recover_pending_def
    cancel_pending_def cancel_running_def clear_storage_row_def delete_job_def delete_rule_def
    owners_delete_credential split: if_splits\<close>)

lemma claim_cases:
  assumes "tables_ok T"
  shows "fst (claim_image_job job w now lease T) = T
     \<or> (\<exists>attempt. jt_owners (fst (claim_image_job job w now lease T)) job = Some (w, attempt))"
proof (cases "update_jobs (\<lambda>j. ij_id j = job \<and> ij_status j = ''pending'')
      (\<lambda>j. j\<lparr>ij_status := ''running'', ij_stage := ''resolving'', ij_lease_until := Some lease,
         ij_started_at := Some now, ij_updated_at := now\<rparr>) T")
  case (Pair T' r)
  show ?thesis
  proof (cases r)
    case (Inl e)
    with Pair show ?thesis by (simp add: claim_image_job_def)
  next
    case (Inr n)
    from tables_ok_ids [OF assms] Pair [unfolded Inr] show ?thesis
      by (cases rule: update_by_id) (use Pair Inr in \<open>auto simp: claim_image_job_def Let_def\<close>)
  qed
qed

text \<open>A token that is not held is not held after any operation but a new claim by the same worker.\<close>

lemma job_exec_stale:
  assumes "tables_ok T" and "\<not> holds job w a T" and "\<And>now. op \<noteq> Op_Claim job w now"
  shows "\<not> holds job w a (job_exec env op T)"
proof
  assume h: "holds job w a (job_exec env op T)"
  then obtain c where o: "jt_owners (job_exec env op T) job = Some (w, a)"
    and l: "life_of job (job_exec env op T) = Life Running c" by (auto simp: holds_def)
  have owner: "jt_owners T job = Some (w, a)" using job_exec_owner [OF o] assms(3) by blast
  have "moves (claims job op) (life_of job T) (Life Running c)" using job_exec_life [OF assms(1), of job op env] l by simp
  then have "(\<exists>c'. life_of job T = Life Running c') \<or> claims job op"
    by (auto simp: moves_def elim: life_to_running)
  with owner assms(2) have "claims job op" by (auto simp: holds_def)
  then obtain w' now where op: "op = Op_Claim job w' now" by (auto simp: claims_def split: job_op.splits)
  with assms(3) have "w' \<noteq> w" by blast
  with claim_cases [OF assms(1), of job w' now "lease_until now"] o h assms(2) op show False by auto
qed

end
