(* ===== verification/Image_Job_Properties.thy ===== *)
theory Image_Job_Properties
  imports Image_Job_Life
begin

text \<open>
  The properties of the image jobs: the invariant, the refinement of the abstract life cycle, cancellation,
  the fencing of stale workers, claims, idempotent creation, and two defects at the edge of the triggers.
\<close>

section \<open>An example\<close>

definition example_job_env :: "(unit, unit) job_env" where
  "example_job_env =
     \<lparr>je_reference_ok = (\<lambda>_. True), je_parse_schedule = (\<lambda>_. Some ()), je_parse_timezone = (\<lambda>_. Some ()),
      je_upcoming = (\<lambda>_ _ now. Some (now + MINUTE)), je_uuid_text = nat_text\<rparr>"

definition example_input :: job_input where
  "example_input =
     \<lparr>ji_kind = ''export'', ji_source_ref = ''alpine'', ji_source_node_id = None, ji_source_credential_id = None,
      ji_destination_ref = None, ji_destination_credential_id = None, ji_platform_os = ''linux'',
      ji_platform_arch = ''amd64'', ji_output_format = None\<rparr>"

definition no_jobs :: job_tables where
  "no_jobs = \<lparr>jt_jobs = [], jt_owners = Map.empty, jt_lineage = Map.empty, jt_rules = [], jt_nodes = [],
     jt_credentials = []\<rparr>"

lemma no_jobs_ok: "tables_ok no_jobs"
  by (simp add: tables_ok_def no_jobs_def keys_def map_filter_simps)

text \<open>A job 7 that worker 1 runs as attempt 1.\<close>

definition running_job :: image_job where
  "running_job = (pending_job 7 example_input Export (Some ''k'') 0)\<lparr>ij_status := ''running'', ij_stage := ''resolving'',
     ij_lease_until := Some (lease_until 5), ij_started_at := Some 5, ij_updated_at := 5\<rparr>"

definition one_running :: job_tables where
  "one_running = no_jobs\<lparr>jt_jobs := [running_job], jt_owners := [7 \<mapsto> (1, 1)]\<rparr>"

lemma one_running_ok: "tables_ok one_running"
  by (simp add: tables_ok_def one_running_def no_jobs_def running_job_def keys_def map_filter_simps job_row_valid_def
      job_shape_def pending_job_def example_input_def)

section \<open>Invariant and life cycle\<close>

text \<open>
  C14: The invariant of the job tables holds over any interleaving of statements by any number of handlers,
  workers and deletions: ids and idempotency keys are unique; every row satisfies its triggers and refers to
  existing nodes and credentials; and its columns fit its status: a pending job has no lease and no
  cancellation request, a running one has a lease and an owner, a finished one has neither, a failed one
  alone has an error, and exactly a cancelled one keeps its cancellation request.
\<close>

theorem job_tables_invariant:
  assumes "tables_ok T"
  shows "tables_ok (fold (job_exec env) ops T)"
  using assms by (rule job_run.inv_fold) (simp add: list_all_iff)

theorem job_tables_invariant_witness:
  "tables_ok (fold (job_exec example_job_env) [Op_Create 7 example_input Export None 0, Op_Claim 7 1 5,
     Op_Finish 7 1 1 False (Inl Integrity) 9, Op_Retry 7 Failed 10] no_jobs)"
  by (rule job_tables_invariant [OF no_jobs_ok])



text \<open>
  C18: Cancellation wins: once a running job has been asked to stop, no operation of any task can complete it,
  skip it, fail it or put it back into the queue; it keeps running with the request, is cancelled, or is
  deleted.
\<close>

theorem cancellation_wins:
  assumes "tables_ok T" and "life_of job T = Life Running True"
  shows "life_of job (job_exec env op T) \<in> {Life Running True, Life Cancelled True, Absent}"
  using job_exec_life [OF assms(1), of job op env] assms(2)
  by (auto simp: moves_def elim: life_from_cancelling)

theorem cancellation_wins_witness:
  "life_of 7 (job_exec example_job_env (Op_Finish 7 1 1 False (Inr Outcome_Completed) 9)
     (job_exec example_job_env (Op_Cancel_Running 7 6) one_running)) \<in> {Life Running True, Life Cancelled True, Absent}"
proof (rule cancellation_wins)
  show "tables_ok (job_exec example_job_env (Op_Cancel_Running 7 6) one_running)"
    by (rule job_exec_ok [OF one_running_ok])
  show "life_of 7 (job_exec example_job_env (Op_Cancel_Running 7 6) one_running) = Life Running True"
    by (simp add: cancel_running_def update_jobs_def life_of_def life_row_def find_job_def one_running_def no_jobs_def
        running_job_def pending_job_def job_row_valid_def example_input_def)
qed

section \<open>Ownership\<close>



text \<open>
  A claim is exclusive and exact: on well-formed tables a claim of a job returns no error; it succeeds
  exactly when the job is pending, and then its attempt number is one more than that of the last owner row,
  the job runs with the new lease and the claiming worker holds it while nobody else does; otherwise it
  changes nothing.
\<close>

lemma claim_exact:
  assumes "tables_ok T" and "claim_image_job job w now lease T = (T', r)"
  shows "(\<exists>c. life_of job T = Life Pending c)
       \<and> r = Inr (Some (min ((case jt_owners T job of None \<Rightarrow> 0 | Some (_, a) \<Rightarrow> a) + 1) (int i64_max)))
       \<and> (\<exists>a. r = Inr (Some a) \<and> holds job w a T' \<and> (\<forall>w2 a2. holds job w2 a2 T' \<longrightarrow> w2 = w \<and> a2 = a))
       \<and> map_option ij_lease_until (find_job job T') = Some (Some lease)
     \<or> (\<nexists>c. life_of job T = Life Pending c) \<and> r = Inr None \<and> T' = T"
proof -
  let ?filt = "\<lambda>j. ij_id j = job \<and> ij_status j = ''pending''"
  let ?f = "\<lambda>j. j\<lparr>ij_status := ''running'', ij_stage := ''resolving'', ij_lease_until := Some lease,
      ij_started_at := Some now, ij_updated_at := now\<rparr>"
  have "list_all (\<lambda>j. ?filt j \<longrightarrow> job_row_valid T (?f j)) (jt_jobs T)"
    using tables_ok_row [OF assms(1)] by (auto simp: list_all_iff job_row_valid_def)
  then obtain T1 n where upd: "update_jobs ?filt ?f T = (T1, Inr n)" by (simp add: update_jobs_def)
  have pend: "(\<exists>c. life_of job T = Life Pending c) \<longleftrightarrow> (\<exists>j \<in> set (jt_jobs T). ?filt j)"
  proof
    assume "\<exists>c. life_of job T = Life Pending c"
    then obtain j where "find_job job T = Some j" "job_status_parse (ij_status j) = Some Pending"
      by (auto simp: life_of_def life_row_def split: option.splits)
    then show "\<exists>j \<in> set (jt_jobs T). ?filt j" using find_job_in job_status_parse_Some by fastforce
  next
    assume "\<exists>j \<in> set (jt_jobs T). ?filt j"
    then obtain j where "j \<in> set (jt_jobs T)" "?filt j" by blast
    with find_job_mem [OF assms(1)] show "\<exists>c. life_of job T = Life Pending c"
      by (force simp: life_of_def life_row_def)
  qed
  from tables_ok_ids [OF assms(1)] upd show ?thesis
  proof (cases rule: update_by_id)
    case none
    with upd assms(2) pend show ?thesis by (auto simp: claim_image_job_def Let_def)
  next
    case (one j)
    have "find_job job T1 = map_option (\<lambda>j. if ?filt j then ?f j else j) (find_job job T)"
      by (rule find_job_map) (auto simp: update_jobs_Inr(1) [OF upd])
    also have "find_job job T = Some j" using find_job_mem [OF assms(1) one(2)] one(3) by simp
    finally have row: "find_job job T1 = Some (?f j)" using one by simp
    let ?a = "min ((case jt_owners T job of None \<Rightarrow> 0 | Some (_, a) \<Rightarrow> a) + 1) (int i64_max)"
    have T': "T' = T1\<lparr>jt_owners := (jt_owners T1)(job \<mapsto> (w, ?a))\<rparr>" "r = Inr (Some ?a)"
      using upd assms(2) one(1) by (auto simp: claim_image_job_def Let_def)
    then have row': "find_job job T' = Some (?f j)" using row by (simp add: find_job_def)
    then have "life_of job T' = Life Running (ij_cancel_requested j)" by (simp add: life_of_def life_row_def)
    with T' row' pend one show ?thesis by (auto simp: holds_def)
  qed
qed

section \<open>Creation\<close>

lemma find_by_key_unique:
  assumes "tables_ok T" and "j \<in> set (jt_jobs T)" and "ij_idempotency_key j = Some key"
  shows "find_by_key key T = Some j"
proof -
  have "find (\<lambda>j. ij_idempotency_key j = Some key) js = Some j"
    if "distinct (keys js)" "j \<in> set js" "ij_idempotency_key j = Some key" for js
    using that by (induction js) (auto simp: keys_def [of "_ # _"] map_filter_simps in_keys keys_def [symmetric]
        split: option.splits)
  with assms show ?thesis by (auto simp: find_by_key_def tables_ok_def)
qed

text \<open>
  Creating a job is idempotent under a key: when a request with an idempotency key has returned a job, on
  whatever path (a fresh insert, an earlier job found, or a lost race against another request that inserted
  first), then every later request with the same key and any valid input returns that same row and inserts
  nothing.
\<close>

lemma create_job_idempotent:
  assumes "tables_ok T" and "\<And>n U. tables_ok U \<Longrightarrow> tables_ok (other n U)"
    and "create_job env other input (Some key) new_id now T = (T', Inr j)"
    and "validate_job env input2 = Inr ()"
  shows "create_job env other2 input2 (Some key) new_id2 now2 T' = (T', Inr j)"
proof -
  obtain kind where kind: "validate_job env input = Inr ()" "job_kind_parse (ji_kind input) = Some kind"
    using assms(3) by (auto simp: create_job_def split: sum.splits option.splits)
  have found: "find_by_key key T' = Some j"
  proof (cases "find_by_key key T")
    case (Some e)
    with assms(3) kind show ?thesis by (simp add: create_job_def)
  next
    case None
    let ?j = "pending_job new_id input kind (Some key) now"
    obtain T1 r where ins: "insert_job ?j (other 0 T) = (T1, r)" by fastforce
    show ?thesis
    proof (cases r)
      case (Inr m)
      with ins assms(3) kind None have T': "T' = T1" "m = j" by (auto simp: create_job_def)
      have "tables_ok (fst (insert_job ?j (other 0 T)))"
        by (rule insert_job_ok [OF assms(2) [OF assms(1)] pending_job_shape])
      with ins have "tables_ok T1" by simp
      moreover have "j \<in> set (jt_jobs T1)" "j = ?j"
        using ins Inr T' by (auto simp: insert_job_def split: if_splits)
      ultimately show ?thesis using T' by (intro find_by_key_unique) (simp_all add: pending_job_def)
    next
      case (Inl e)
      with ins assms(3) kind None show ?thesis by (auto simp: create_job_def split: option.splits)
    qed
  qed
  have "\<exists>k2. job_kind_parse (ji_kind input2) = Some k2"
    using assms(4) by (auto simp: validate_job_def split: if_splits)
  with found assms(4) show ?thesis by (auto simp: create_job_def)
qed

section \<open>Two defects\<close>

text \<open>
  Recovery keeps the progress columns, which a retry clears: when a recovered job's tag has meanwhile moved to a
  smaller image, the new manifest's size is below the old progress, the trigger rejects the update and the
  worker's run fails.
\<close>

lemma recovered_progress_blocks_manifest:
  "let T0 = one_running\<lparr>jt_jobs := [running_job\<lparr>ij_progress_bytes := 90, ij_total_bytes := 100\<rparr>]\<rparr>;
       T1 = job_exec example_job_env (Op_Recover_Pending (lease_until 5)) T0;
       T2 = job_exec example_job_env (Op_Claim 7 2 (lease_until 5)) T1
   in tables_ok T0 \<and> holds 7 2 2 T2
      \<and> update_image_job_manifest_owned 7 2 2 ''sha256:0'' None 50 0 T2 = (T2, Inl (Database ''invalid image job''))"
  by (simp add: tables_ok_def one_running_def no_jobs_def running_job_def keys_def map_filter_simps job_row_valid_def
      job_shape_def pending_job_def example_input_def recover_pending_def abandoned_lease_def update_jobs_def
      claim_image_job_def holds_def life_of_def life_row_def find_job_def update_image_job_manifest_owned_def
      owned_update_def owned_def i64_max_def Let_def ex_bool_eq)

text \<open>
  A credential that a finished copy job used for its source and for its destination cannot be deleted: the
  first of the two updates that clear the references sees the other one and the trigger aborts the deletion.
\<close>

lemma shared_credential_not_deletable:
  "let T = no_jobs\<lparr>jt_credentials := [4], jt_jobs := [running_job\<lparr>ij_kind := ''copy'', ij_status := ''completed'',
         ij_lease_until := None, ij_finished_at := Some 9, ij_source_credential_id := Some 4,
         ij_destination_credential_id := Some 4\<rparr>]\<rparr>
   in tables_ok T \<and> \<not> credential_in_use 4 T
      \<and> delete_credential (\<lambda>_ U. U) 4 T = (T, Inl (Database ''invalid image job''))"
  by (simp add: tables_ok_def no_jobs_def running_job_def keys_def map_filter_simps job_row_valid_def
      job_shape_def pending_job_def example_input_def credential_in_use_def active_status_def delete_credential_def
      delete_credential_row_def update_jobs_def opt_in_def)

end
