(* ===== verification/Image_Storage.thy ===== *)
theory Image_Storage
  imports Image_Job_Properties
begin

text \<open>
  The storage quota of the image tools: what a cleanup removes and what it must not touch.
\<close>

section \<open>Kept storage\<close>

text \<open>
  The files of the jobs in \<open>X\<close> and the shared Blobs that their layouts refer to are kept.
\<close>

definition keeps :: "(uuid \<Rightarrow> string) \<Rightarrow> uuid set \<Rightarrow> store_files \<Rightarrow> store_files \<Rightarrow> bool" where
  "keeps ut X fs fs' \<longleftrightarrow>
     (\<forall>f \<in> set fs. \<forall>x \<in> X. under (job_root ut x) (fst f) \<longrightarrow> f \<in> set fs')
     \<and> (\<forall>x \<in> X. \<forall>n b c. (job_root ut x @ [''layout'', ''blobs'', ''sha256'', n], b) \<in> set fs \<longrightarrow>
          ([''blobs'', ''sha256'', n], c) \<in> set fs \<longrightarrow> ([''blobs'', ''sha256'', n], c) \<in> set fs')"

lemma keeps_refl: "keeps ut X fs fs"
  by (simp add: keeps_def)

lemma under_layout: "under (job_root ut x) (job_root ut x @ rest)"
  by (simp add: under_def)

lemma keeps_trans: "keeps ut X a b \<Longrightarrow> keeps ut X b c \<Longrightarrow> keeps ut X a c"
  unfolding keeps_def using under_layout by (metis fst_conv)

lemma keeps_remove_job:
  assumes "inj ut" and "j \<notin> X"
  shows "keeps ut X fs (remove_job ut j fs)"
proof -
  have "\<not> under (job_root ut j) p" if "under (job_root ut x) p" "x \<in> X" for x p
    using that assms by (auto simp: under_root_iff inj_eq)
  then show ?thesis by (auto simp: keeps_def remove_job_def under_root_iff)
qed

lemma keeps_gc: "keeps ut X fs (gc_shared_blobs fs)"
proof -
  have "f \<in> set (gc_shared_blobs fs)" if "f \<in> set fs" "under (job_root ut x) (fst f)" for f x
    using that by (auto simp: gc_keeps under_root_iff) (simp add: under_def)
  moreover have "([''blobs'', ''sha256'', n], c) \<in> set (gc_shared_blobs fs)"
    if "(job_root ut x @ [''layout'', ''blobs'', ''sha256'', n], b) \<in> set fs" "([''blobs'', ''sha256'', n], c) \<in> set fs"
    for x n b c
  proof -
    have "n \<in> set (referenced fs)" using that(1) by (auto simp: in_referenced job_root_def)
    with that(2) show ?thesis by (simp add: gc_keeps) (simp add: under_def)
  qed
  ultimately show ?thesis by (auto simp: keeps_def)
qed

section \<open>Removing the storage of jobs\<close>

lemma remove_job_storage_files: "im_files (fst (remove_job_storage ut j s)) = remove_job ut j (im_files s)"
  by (simp add: remove_job_storage_def Let_def split: prod.split sum.split)

lemma remove_job_storage_max: "im_max_export_bytes (fst (remove_job_storage ut j s)) = im_max_export_bytes s"
  by (simp add: remove_job_storage_def Let_def split: prod.split sum.split)

text \<open>The rows keep their ids and statuses.\<close>

definition statuses :: "image_service \<Rightarrow> (uuid \<times> string) list" where
  "statuses s = map (\<lambda>j. (ij_id j, ij_status j)) (jt_jobs (im_tables s))"

lemma clear_storage_row_statuses:
  "map (\<lambda>j. (ij_id j, ij_status j)) (jt_jobs (fst (clear_storage_row job T))) = map (\<lambda>j. (ij_id j, ij_status j)) (jt_jobs T)"
  by (auto simp: clear_storage_row_def update_jobs_def)

lemma remove_job_storage_statuses: "statuses (fst (remove_job_storage ut j s)) = statuses s"
  using clear_storage_row_statuses [of j "im_tables s"]
  by (auto simp: statuses_def remove_job_storage_def Let_def split: prod.split sum.split)

lemma remove_expired_keeps:
  assumes "inj ut" and "\<And>j. j \<in> set js \<Longrightarrow> Some (ij_id j) = protected_job \<or> ij_id j \<notin> X"
    and "remove_expired ut protected_job js s = (s', r)"
  shows "keeps ut X (im_files s) (im_files s') \<and> statuses s' = statuses s
     \<and> im_max_export_bytes s' = im_max_export_bytes s \<and> set (im_files s') \<subseteq> set (im_files s)"
  using assms(2,3)
proof (induction js arbitrary: s)
  case (Cons j js)
  show ?case
  proof (cases "Some (ij_id j) = protected_job")
    case True
    with Cons show ?thesis by auto
  next
    case False
    obtain s1 r1 where rm: "remove_job_storage ut (ij_id j) s = (s1, r1)" by fastforce
    have s1: "im_files s1 = remove_job ut (ij_id j) (im_files s)" "statuses s1 = statuses s"
      "im_max_export_bytes s1 = im_max_export_bytes s"
      using rm remove_job_storage_files [of ut "ij_id j" s] remove_job_storage_statuses [of ut "ij_id j" s]
        remove_job_storage_max [of ut "ij_id j" s] by auto
    have k: "keeps ut X (im_files s) (im_files s1)" "set (im_files s1) \<subseteq> set (im_files s)"
      using Cons.prems(1) False keeps_remove_job [OF assms(1)] s1 by (auto simp: remove_job_def)
    show ?thesis
    proof (cases r1)
      case (Inl e)
      with Cons.prems False rm s1 k show ?thesis by auto
    next
      case (Inr u)
      with Cons.prems False rm have "remove_expired ut protected_job js s1 = (s', r)" by simp
      from Cons.IH [OF _ this] Cons.prems(1) s1 k keeps_trans show ?thesis by fastforce
    qed
  qed
qed (simp add: keeps_refl)

lemma remove_until_fits_keeps:
  assumes "inj ut" and "\<And>j. j \<in> set js \<Longrightarrow> Some (ij_id j) = protected_job \<or> ij_id j \<notin> X"
    and "remove_until_fits ut protected_job js s = (s', r)"
  shows "keeps ut X (im_files s) (im_files s') \<and> statuses s' = statuses s
     \<and> im_max_export_bytes s' = im_max_export_bytes s \<and> set (im_files s') \<subseteq> set (im_files s)
     \<and> (r = Inr () \<longrightarrow> usage (im_files s') \<le> im_max_export_bytes s'
          \<or> (\<forall>j \<in> set js. Some (ij_id j) \<noteq> protected_job \<longrightarrow>
               (\<forall>f \<in> set (im_files s'). \<not> under (job_root ut (ij_id j)) (fst f))))"
  using assms(2,3)
proof (induction js arbitrary: s)
  case (Cons j js)
  show ?case
  proof (cases "Some (ij_id j) = protected_job")
    case True
    with Cons show ?thesis by auto
  next
    case False
    obtain s1 r1 where rm: "remove_job_storage ut (ij_id j) s = (s1, r1)" by fastforce
    have s1: "im_files s1 = remove_job ut (ij_id j) (im_files s)" "statuses s1 = statuses s"
      "im_max_export_bytes s1 = im_max_export_bytes s"
      using rm remove_job_storage_files [of ut "ij_id j" s] remove_job_storage_statuses [of ut "ij_id j" s]
        remove_job_storage_max [of ut "ij_id j" s] by auto
    have k1: "keeps ut X (im_files s) (im_files s1)" "set (im_files s1) \<subseteq> set (im_files s)"
      using Cons.prems(1) False keeps_remove_job [OF assms(1)] s1 by (auto simp: remove_job_def)
    show ?thesis
    proof (cases r1)
      case (Inl e)
      with Cons.prems False rm s1 k1 show ?thesis by auto
    next
      case (Inr u)
      let ?s2 = "s1\<lparr>im_files := gc_shared_blobs (im_files s1)\<rparr>"
      have k: "keeps ut X (im_files s) (im_files ?s2)" "set (im_files ?s2) \<subseteq> set (im_files s)"
        "statuses ?s2 = statuses s" "im_max_export_bytes ?s2 = im_max_export_bytes s"
        using keeps_trans [OF k1(1) keeps_gc] gc_subset k1(2) s1 by (auto simp: statuses_def)
      have gone: "\<forall>f \<in> set (im_files ?s2). \<not> under (job_root ut (ij_id j)) (fst f)"
        using s1(1) gc_subset by (fastforce simp: remove_job_def)
      show ?thesis
      proof (cases "usage (im_files ?s2) \<le> im_max_export_bytes ?s2")
        case True
        with Cons.prems(2) False rm Inr have "s' = ?s2" by (auto simp: Let_def)
        with True k show ?thesis by simp
      next
        case unfit: False
        with Cons.prems(2) False rm Inr have "remove_until_fits ut protected_job js ?s2 = (s', r)" by (simp add: Let_def)
        from Cons.IH [OF _ this] Cons.prems(1) k gone keeps_trans show ?thesis by fastforce
      qed
    qed
  qed
qed (simp add: keeps_refl)

section \<open>Cleanup\<close>

definition spared_jobs :: "uuid option \<Rightarrow> job_tables \<Rightarrow> uuid set" where
  "spared_jobs protected_job T =
     {x. protected_job = Some x \<or> (\<exists>j \<in> set (jt_jobs T). ij_id j = x \<and> active_status (ij_status j))}"

lemma terminal_not_spared:
  assumes "distinct (map fst (statuses s))" and "(x, st) \<in> set (statuses s)" and "terminal_status st"
    and "protected_job \<noteq> Some x"
  shows "x \<notin> spared_jobs protected_job (im_tables s)"
proof
  assume "x \<in> spared_jobs protected_job (im_tables s)"
  then obtain st' where "(x, st') \<in> set (statuses s)" "active_status st'"
    using assms(4) by (auto simp: spared_jobs_def statuses_def)
  moreover from this have "st' = st" using assms(1,2) by (metis eq_key_imp_eq_value)
  ultimately show False using assms(3) by (auto simp: active_status_def terminal_status_def)
qed

lemma spared_jobs_statuses: "statuses s' = statuses s \<Longrightarrow> spared_jobs p (im_tables s') = spared_jobs p (im_tables s)"
proof -
  have "spared_jobs p (im_tables s) = {x. p = Some x \<or> (\<exists>y \<in> set (statuses s). fst y = x \<and> active_status (snd y))}" for s
    by (force simp: spared_jobs_def statuses_def)
  then show "statuses s' = statuses s \<Longrightarrow> ?thesis" by simp
qed

lemma clean_now_spec:
  assumes "inj ut" and "distinct (map ij_id (jt_jobs (im_tables s)))"
    and "clean_now ut protected_job now s = (s', r)"
  shows "keeps ut (spared_jobs protected_job (im_tables s)) (im_files s) (im_files s')
     \<and> statuses s' = statuses s \<and> im_max_export_bytes s' = im_max_export_bytes s
     \<and> (r = Inr () \<longrightarrow> usage (im_files s') \<le> im_max_export_bytes s'
          \<or> (\<forall>(x, st) \<in> set (statuses s). terminal_status st \<longrightarrow> Some x \<noteq> protected_job \<longrightarrow>
               (\<forall>f \<in> set (im_files s'). \<not> under (job_root ut x) (fst f))))"
proof -
  let ?X = "spared_jobs protected_job (im_tables s)"
  have dist: "distinct (map fst (statuses s))" using assms(2) by (simp add: statuses_def comp_def)
  have sub: "Some (ij_id j) = protected_job \<or> ij_id j \<notin> ?X" if "j \<in> set (jt_jobs T)" "terminal_status (ij_status j)"
    "map (\<lambda>j. (ij_id j, ij_status j)) (jt_jobs T) = statuses s" for j T
  proof -
    have "(ij_id j, ij_status j) \<in> set (statuses s)" unfolding that(3) [symmetric] using that(1) by force
    from terminal_not_spared [OF dist this that(2), of protected_job] show ?thesis by auto
  qed
  obtain s1 r1 where ex: "remove_expired ut protected_job (expired_jobs (now - im_export_ttl s) (im_tables s)) s = (s1, r1)"
    by fastforce
  have "Some (ij_id j) = protected_job \<or> ij_id j \<notin> ?X" if "j \<in> set (expired_jobs (now - im_export_ttl s) (im_tables s))" for j
    using that by (intro sub [of j "im_tables s"]) (auto simp: expired_jobs_def statuses_def)
  from remove_expired_keeps [OF assms(1) this ex]
  have e: "keeps ut ?X (im_files s) (im_files s1)" "statuses s1 = statuses s" "im_max_export_bytes s1 = im_max_export_bytes s"
    by blast+
  show ?thesis
  proof (cases r1)
    case (Inl err)
    with ex assms(3) e show ?thesis by (auto simp: clean_now_def)
  next
    case (Inr u)
    let ?s2 = "s1\<lparr>im_files := gc_shared_blobs (im_files s1)\<rparr>"
    have k2: "keeps ut ?X (im_files s) (im_files ?s2)" using keeps_trans [OF e(1) keeps_gc] by simp
    show ?thesis
    proof (cases "usage (im_files ?s2) \<le> im_max_export_bytes ?s2")
      case True
      with ex Inr assms(3) have "s' = ?s2" by (auto simp: clean_now_def Let_def)
      with True k2 e show ?thesis by (simp add: statuses_def)
    next
      case False
      have st1: "map (\<lambda>j. (ij_id j, ij_status j)) (jt_jobs (im_tables s1)) = statuses s" using e(2) by (simp add: statuses_def)
      have tj: "Some (ij_id j) = protected_job \<or> ij_id j \<notin> ?X" if "j \<in> set (terminal_jobs (im_tables ?s2))" for j
        using that st1 by (intro sub [of j "im_tables s1"]) (auto simp: terminal_jobs_def)
      have run: "remove_until_fits ut protected_job (terminal_jobs (im_tables ?s2)) ?s2 = (s', r)"
        using ex Inr assms(3) False by (simp add: clean_now_def Let_def)
      note u = remove_until_fits_keeps [OF assms(1) tj run]
      have mem: "\<exists>j \<in> set (terminal_jobs (im_tables ?s2)). ij_id j = x"
        if "(x, st) \<in> set (statuses s)" "terminal_status st" for x st
        using that unfolding st1 [symmetric] by (force simp: terminal_jobs_def)
      have "statuses ?s2 = statuses s" "im_max_export_bytes ?s2 = im_max_export_bytes s" using e by (simp_all add: statuses_def)
      with u k2 keeps_trans mem show ?thesis by (fastforce simp: case_prod_beta)
    qed
  qed
qed

lemma cleanup_storage_spec:
  assumes "inj ut" and "distinct (map ij_id (jt_jobs (im_tables s)))"
    and "cleanup_storage ut protected_job clock now s = (s', r)"
  shows "keeps ut (spared_jobs protected_job (im_tables s)) (im_files s) (im_files s')
     \<and> im_max_export_bytes s' = im_max_export_bytes s"
proof -
  have "clean_now ut protected_job now u = (s', r) \<Longrightarrow> im_tables u = im_tables s \<Longrightarrow> im_files u = im_files s \<Longrightarrow>
      im_max_export_bytes u = im_max_export_bytes s \<Longrightarrow> ?thesis" for u
    using clean_now_spec [OF assms(1), of u protected_job now s' r] assms(2) by simp
  then show ?thesis
    using assms(3) by (auto simp: cleanup_storage_def keeps_refl split: if_splits)
qed

section \<open>Properties\<close>

text \<open>
  C36: A cleanup never touches storage in use: whatever is expired or over the quota, every file of a pending or
  running job and of the protected job stays, and so does every shared Blob that the layout of such a job
  refers to, even when other jobs that share it are removed.
\<close>

theorem cleanup_spares_active_jobs:
  assumes "inj ut" and "distinct (map ij_id (jt_jobs (im_tables s)))"
    and "cleanup_storage ut protected_job clock now s = (s', r)"
    and "x \<in> spared_jobs protected_job (im_tables s)"
  shows "(\<forall>f \<in> set (im_files s). under (job_root ut x) (fst f) \<longrightarrow> f \<in> set (im_files s'))
     \<and> (\<forall>n b c. (job_root ut x @ [''layout'', ''blobs'', ''sha256'', n], b) \<in> set (im_files s) \<longrightarrow>
          ([''blobs'', ''sha256'', n], c) \<in> set (im_files s) \<longrightarrow> ([''blobs'', ''sha256'', n], c) \<in> set (im_files s'))"
  using cleanup_storage_spec [OF assms(1-3)] assms(4) unfolding keeps_def by blast

definition example_text :: "uuid \<Rightarrow> string" where
  "example_text n = replicate n CHR ''x''"

lemma example_text_inj: "inj example_text"
  by (metis example_text_def injI length_replicate)

text \<open>Job 7 runs, job 2 has completed; both layouts refer to the same Blob, and nothing may be stored.\<close>

definition example_service :: image_service where
  "example_service =
     \<lparr>im_tables = one_running\<lparr>jt_jobs := [running_job, running_job\<lparr>ij_id := 2, ij_status := ''completed'',
         ij_lease_until := None, ij_finished_at := Some 6\<rparr>]\<rparr>,
      im_files = [(job_root example_text 7 @ [''layout'', ''blobs'', ''sha256'', ''b''], [1]),
        (job_root example_text 2 @ [''layout'', ''blobs'', ''sha256'', ''b''], [1]),
        (job_root example_text 2 @ [''export.tar''], [1, 2, 3]), ([''blobs'', ''sha256'', ''b''], [1])],
      im_store = \<lparr>js_worker_id = 1, js_active_attempts = Map.empty\<rparr>, im_max_export_bytes = 1, im_export_ttl = 0,
      im_last_cleanup = 0\<rparr>"

lemma example_service_ids: "distinct (map ij_id (jt_jobs (im_tables example_service)))"
  by (simp add: example_service_def one_running_def no_jobs_def running_job_def pending_job_def)

theorem cleanup_spares_active_jobs_witness:
  "\<exists>s' r. cleanup_storage example_text None 60000000000 100 example_service = (s', r)
     \<and> ([''blobs'', ''sha256'', ''b''], [1]) \<in> set (im_files s')"
proof -
  obtain s' r where c: "cleanup_storage example_text None 60000000000 100 example_service = (s', r)" by fastforce
  have "7 \<in> spared_jobs None (im_tables example_service)"
    by (simp add: spared_jobs_def example_service_def one_running_def no_jobs_def running_job_def pending_job_def
        active_status_def)
  from cleanup_spares_active_jobs [OF example_text_inj example_service_ids c this] c
  show ?thesis by (auto simp: example_service_def)
qed

text \<open>
  The quota holds: when the check after a job's work succeeds, the storage in use is within the limit;
  when it fails although a cleanup ran, the whole storage of the job itself has been removed; and a cleanup
  ends within the limit or with no file left of any finished job but the protected one.
\<close>

lemma storage_quota_enforced:
  assumes "inj ut" and "distinct (map ij_id (jt_jobs (im_tables s)))"
    and "enforce_storage_quota ut job clock now s = (s', r)"
    and "clean_now ut protected_job now s = (t, Inr ())"
  shows "(r = Inr () \<longrightarrow> usage (im_files s') \<le> im_max_export_bytes s)
     \<and> (r = Inl (BadRequest ''image tools storage exceeds DONKEY_MAX_EXPORT_BYTES'') \<longrightarrow>
          (\<exists>s1 u. cleanup_storage ut (Some job) clock now s = (s1, Inr u)) \<longrightarrow>
          (\<forall>f \<in> set (im_files s'). \<not> under (job_root ut job) (fst f)))
     \<and> (usage (im_files t) \<le> im_max_export_bytes s
        \<or> (\<forall>j \<in> set (jt_jobs (im_tables s)). terminal_status (ij_status j) \<longrightarrow> Some (ij_id j) \<noteq> protected_job \<longrightarrow>
             (\<forall>f \<in> set (im_files t). \<not> under (job_root ut (ij_id j)) (fst f))))"
proof -
  obtain s1 r1 where c: "cleanup_storage ut (Some job) clock now s = (s1, r1)" by fastforce
  have max: "im_max_export_bytes s1 = im_max_export_bytes s" using cleanup_storage_spec [OF assms(1,2) c] by blast
  have ok: "r = Inr () \<longrightarrow> usage (im_files s') \<le> im_max_export_bytes s"
    using assms(3) c max by (auto simp: enforce_storage_quota_def split: sum.splits prod.splits if_splits)
  obtain s2 r2 where rm: "remove_job_storage ut job s1 = (s2, r2)" by fastforce
  have files2: "im_files s2 = remove_job ut job (im_files s1)" using rm remove_job_storage_files [of ut job s1] by simp
  have gone: "\<forall>f \<in> set (gc_shared_blobs (im_files s2)) \<union> set (im_files s2). \<not> under (job_root ut job) (fst f)"
    using files2 gc_subset by (fastforce simp: remove_job_def)
  have bad: "r = Inl (BadRequest ''image tools storage exceeds DONKEY_MAX_EXPORT_BYTES'') \<longrightarrow>
      (\<exists>s1 u. cleanup_storage ut (Some job) clock now s = (s1, Inr u)) \<longrightarrow>
      (\<forall>f \<in> set (im_files s'). \<not> under (job_root ut job) (fst f))"
    using assms(3) c rm gone by (auto simp: enforce_storage_quota_def split: sum.splits if_splits)
  show ?thesis using ok bad clean_now_spec [OF assms(1,2,4)] by (force simp: statuses_def)
qed

end
