(* ===== verification/Net_Address.thy ===== *)
theory Net_Address
  imports Prelude "HOL-Library.Word"
begin

text \<open>
  What the components use of the network types of the Rust standard library: \<open>IpAddr\<close> and \<open>SocketAddr\<close> with
  their parsers (\<open>FromStr\<close>), which \<^verbatim>\<open>src/src/security.rs\<close>, \<^verbatim>\<open>src/src/registry_routes.rs\<close> and
  \<^verbatim>\<open>src/src/config.rs\<close> call; and the operations of a URL of the \<open>url\<close> crate as a record of parameters, with
  the documented laws the components rely on.
\<close>

unbundle bit_operations_syntax

section \<open>Addresses\<close>

datatype ip_addr = IpV4 "32 word" | IpV6 "128 word"

fun is_unspecified :: "ip_addr \<Rightarrow> bool" where
  "is_unspecified (IpV4 a) = (a = 0)"
| "is_unspecified (IpV6 a) = (a = 0)"

fun is_loopback :: "ip_addr \<Rightarrow> bool" where
  "is_loopback (IpV4 a) = (drop_bit 24 a = 127)"
| "is_loopback (IpV6 a) = (a = 1)"

text \<open>\<open>Ipv6Addr::to_ipv4_mapped\<close>: the addresses \<open>::ffff:a.b.c.d\<close>.\<close>

definition to_ipv4_mapped :: "128 word \<Rightarrow> (32 word) option" where
  "to_ipv4_mapped a = (if drop_bit 32 a = 0xFFFF then Some (ucast a) else None)"

definition ipv4_of_octets :: "nat list \<Rightarrow> 32 word" where
  "ipv4_of_octets os = of_nat (foldl (\<lambda>n d. 256 * n + d) 0 os)"

definition ipv6_of_groups :: "nat list \<Rightarrow> 128 word" where
  "ipv6_of_groups gs = of_nat (foldl (\<lambda>n d. 65536 * n + d) 0 gs)"

section \<open>Parsers\<close>

definition to_digit :: "nat \<Rightarrow> char \<Rightarrow> nat option" where
  "to_digit radix c =
     (let v = (if is_ascii_digit c then of_char c - 48
               else if is_ascii_lowercase c then of_char c - 87
               else if is_ascii_uppercase c then of_char c - 55 else radix)
      in if v < radix then Some v else None)"

text \<open>The digits of a number below \<open>bound\<close>, at most \<open>most\<close> of them; \<open>None\<close> on overflow.\<close>

fun read_digits :: "nat \<Rightarrow> nat \<Rightarrow> nat option \<Rightarrow> nat \<Rightarrow> nat \<Rightarrow> string \<Rightarrow> (nat \<times> nat \<times> string) option" where
  "read_digits radix bound most acc seen [] = Some (acc, seen, [])"
| "read_digits radix bound most acc seen (c # s) =
     (case to_digit radix c of
        None \<Rightarrow> Some (acc, seen, c # s)
      | Some d \<Rightarrow>
          let acc' = acc * radix + d in
          if bound < acc' then None
          else if (case most of None \<Rightarrow> False | Some k \<Rightarrow> k < Suc seen) then None
          else read_digits radix bound most acc' (Suc seen) s)"

definition read_number :: "nat \<Rightarrow> nat \<Rightarrow> nat option \<Rightarrow> bool \<Rightarrow> string \<Rightarrow> (nat \<times> string) option" where
  "read_number radix bound most allow_zero_prefix s =
     (case read_digits radix bound most 0 0 s of
        None \<Rightarrow> None
      | Some (n, seen, rest) \<Rightarrow>
          if seen = 0 then None
          else if \<not> allow_zero_prefix \<and> take 1 s = ''0'' \<and> 1 < seen then None
          else Some (n, rest))"

definition read_given_char :: "char \<Rightarrow> string \<Rightarrow> string option" where
  "read_given_char c s = (case s of [] \<Rightarrow> None | d # ds \<Rightarrow> if d = c then Some ds else None)"

definition read_separator ::
  "char \<Rightarrow> nat \<Rightarrow> (string \<Rightarrow> ('a \<times> string) option) \<Rightarrow> string \<Rightarrow> ('a \<times> string) option" where
  "read_separator sep index inner s =
     (if 0 < index then Option.bind (read_given_char sep s) inner else inner s)"

fun read_octets :: "nat \<Rightarrow> nat \<Rightarrow> string \<Rightarrow> (nat list \<times> string) option" where
  "read_octets 0 index s = Some ([], s)"
| "read_octets (Suc k) index s =
     Option.bind (read_separator CHR ''.'' index (read_number 10 255 (Some 3) False) s) (\<lambda>(n, rest).
       Option.bind (read_octets k (Suc index) rest) (\<lambda>(ns, rest'). Some (n # ns, rest')))"

definition read_ipv4_addr :: "string \<Rightarrow> (nat list \<times> string) option" where
  "read_ipv4_addr s = read_octets 4 0 s"

text \<open>The groups of an IPv6 address up to a limit, and whether they end in an embedded IPv4 address.\<close>

fun read_groups :: "nat \<Rightarrow> nat \<Rightarrow> string \<Rightarrow> nat list \<times> bool \<times> string" where
  "read_groups 0 index s = ([], False, s)"
| "read_groups (Suc k) index s =
     (case (if 0 < k then read_separator CHR '':'' index read_ipv4_addr s else None) of
        Some (os, rest) \<Rightarrow> ([256 * os ! 0 + os ! 1, 256 * os ! 2 + os ! 3], True, rest)
      | None \<Rightarrow>
          (case read_separator CHR '':'' index (read_number 16 65535 (Some 4) True) s of
             None \<Rightarrow> ([], False, s)
           | Some (g, rest) \<Rightarrow>
               let (gs, v4, rest') = read_groups k (Suc index) rest in (g # gs, v4, rest')))"

definition read_ipv6_addr :: "string \<Rightarrow> (nat list \<times> string) option" where
  "read_ipv6_addr s =
     (let (head, head_ipv4, rest) = read_groups 8 0 s in
      if length head = 8 then Some (head, rest)
      else if head_ipv4 then None
      else Option.bind (read_given_char CHR '':'' rest) (\<lambda>rest.
           Option.bind (read_given_char CHR '':'' rest) (\<lambda>rest.
             let (back, _, rest') = read_groups (8 - (length head + 1)) 0 rest
             in Some (head @ replicate (8 - length head - length back) 0 @ back, rest'))))"

definition read_ip_addr :: "string \<Rightarrow> (ip_addr \<times> string) option" where
  "read_ip_addr s =
     (case read_ipv4_addr s of
        Some (os, rest) \<Rightarrow> Some (IpV4 (ipv4_of_octets os), rest)
      | None \<Rightarrow> map_option (\<lambda>(gs, rest). (IpV6 (ipv6_of_groups gs), rest)) (read_ipv6_addr s))"

text \<open>\<open>Parser::parse_with\<close>: the whole text must be read.\<close>

definition parse_with :: "(string \<Rightarrow> ('a \<times> string) option) \<Rightarrow> string \<Rightarrow> 'a option" where
  "parse_with inner s = (case inner s of Some (v, []) \<Rightarrow> Some v | _ \<Rightarrow> None)"

definition parse_ipv4 :: "string \<Rightarrow> (32 word) option" where
  "parse_ipv4 s = map_option ipv4_of_octets (parse_with read_ipv4_addr s)"

definition parse_ipv6 :: "string \<Rightarrow> (128 word) option" where
  "parse_ipv6 s = map_option ipv6_of_groups (parse_with read_ipv6_addr s)"

definition parse_ip :: "string \<Rightarrow> ip_addr option" where
  "parse_ip s = parse_with read_ip_addr s"

definition read_port :: "string \<Rightarrow> (nat \<times> string) option" where
  "read_port s = Option.bind (read_given_char CHR '':'' s) (read_number 10 65535 None True)"

definition read_scope_id :: "string \<Rightarrow> (nat \<times> string) option" where
  "read_scope_id s = Option.bind (read_given_char CHR ''%'' s) (read_number 10 4294967295 None True)"

definition read_socket_addr_v4 :: "string \<Rightarrow> ((ip_addr \<times> nat) \<times> string) option" where
  "read_socket_addr_v4 s =
     Option.bind (read_ipv4_addr s) (\<lambda>(os, rest).
       map_option (\<lambda>(port, rest'). ((IpV4 (ipv4_of_octets os), port), rest')) (read_port rest))"

definition read_socket_addr_v6 :: "string \<Rightarrow> ((ip_addr \<times> nat) \<times> string) option" where
  "read_socket_addr_v6 s =
     Option.bind (read_given_char CHR ''['' s) (\<lambda>s.
     Option.bind (read_ipv6_addr s) (\<lambda>(gs, rest).
     let rest = (case read_scope_id rest of None \<Rightarrow> rest | Some (_, rest') \<Rightarrow> rest') in
     Option.bind (read_given_char CHR '']'' rest) (\<lambda>rest.
       map_option (\<lambda>(port, rest'). ((IpV6 (ipv6_of_groups gs), port), rest')) (read_port rest))))"

definition parse_socket_addr :: "string \<Rightarrow> (ip_addr \<times> nat) option" where
  "parse_socket_addr s =
     parse_with (\<lambda>s. case read_socket_addr_v4 s of Some r \<Rightarrow> Some r | None \<Rightarrow> read_socket_addr_v6 s) s"

section \<open>URLs\<close>

text \<open>
  The operations of \<open>url::Url\<close> that the components call. \<open>url_laws\<close> states what the crate documents of them:
  a setter changes its own component only, and sets it to the value given. A path that came out of a
  URL, with a slash appended, is set as it is.
\<close>

record 'u url_ops =
  url_parse :: "string \<Rightarrow> 'u option"
  url_as_str :: "'u \<Rightarrow> string"
  url_scheme :: "'u \<Rightarrow> string"
  url_username :: "'u \<Rightarrow> string"
  url_password :: "'u \<Rightarrow> string option"
  url_host_str :: "'u \<Rightarrow> string option"
  url_port_or_known_default :: "'u \<Rightarrow> nat option"
  url_path :: "'u \<Rightarrow> string"
  url_query :: "'u \<Rightarrow> string option"
  url_fragment :: "'u \<Rightarrow> string option"
  url_set_fragment :: "string option \<Rightarrow> 'u \<Rightarrow> 'u"
  url_set_query :: "string option \<Rightarrow> 'u \<Rightarrow> 'u"
  url_set_path :: "string \<Rightarrow> 'u \<Rightarrow> 'u"
  url_join :: "'u \<Rightarrow> string \<Rightarrow> 'u option"

definition same_authority :: "'u url_ops \<Rightarrow> 'u \<Rightarrow> 'u \<Rightarrow> bool" where
  "same_authority U u v \<longleftrightarrow>
     url_scheme U u = url_scheme U v \<and> url_username U u = url_username U v
     \<and> url_password U u = url_password U v \<and> url_host_str U u = url_host_str U v
     \<and> url_port_or_known_default U u = url_port_or_known_default U v"

definition url_laws :: "'u url_ops \<Rightarrow> bool" where
  "url_laws U \<longleftrightarrow>
     (\<forall>u. same_authority U (url_set_fragment U None u) u \<and> url_fragment U (url_set_fragment U None u) = None
        \<and> url_path U (url_set_fragment U None u) = url_path U u
        \<and> url_query U (url_set_fragment U None u) = url_query U u)
     \<and> (\<forall>u. same_authority U (url_set_query U None u) u \<and> url_query U (url_set_query U None u) = None
        \<and> url_path U (url_set_query U None u) = url_path U u
        \<and> url_fragment U (url_set_query U None u) = url_fragment U u)
     \<and> (\<forall>u. let v = url_set_path U (url_path U u @ ''/'') u in
          same_authority U v u \<and> url_path U v = url_path U u @ ''/''
          \<and> url_query U v = url_query U u \<and> url_fragment U v = url_fragment U u)"

text \<open>A URL as the record of its parts, with which the laws can be met.\<close>

record plain_url =
  pu_scheme :: string
  pu_host :: string
  pu_port :: nat
  pu_path :: string
  pu_query :: "string option"
  pu_fragment :: "string option"

definition plain_url_ops :: "(string \<Rightarrow> plain_url option) \<Rightarrow> plain_url url_ops" where
  "plain_url_ops parse =
     \<lparr>url_parse = parse,
      url_as_str = (\<lambda>u. pu_scheme u @ ''://'' @ pu_host u @ '':'' @ nat_text (pu_port u) @ pu_path u),
      url_scheme = pu_scheme, url_username = (\<lambda>_. ''''), url_password = (\<lambda>_. None),
      url_host_str = (\<lambda>u. Some (pu_host u)), url_port_or_known_default = (\<lambda>u. Some (pu_port u)),
      url_path = pu_path, url_query = pu_query, url_fragment = pu_fragment,
      url_set_fragment = (\<lambda>f u. u\<lparr>pu_fragment := f\<rparr>), url_set_query = (\<lambda>q u. u\<lparr>pu_query := q\<rparr>),
      url_set_path = (\<lambda>p u. u\<lparr>pu_path := p\<rparr>), url_join = (\<lambda>u p. Some (u\<lparr>pu_path := pu_path u @ p\<rparr>))\<rparr>"

lemma plain_url_laws: "url_laws (plain_url_ops parse)"
  by (simp add: url_laws_def plain_url_ops_def same_authority_def Let_def)

section \<open>Lemmas\<close>

lemma set_path_trailing_slash:
  assumes "url_laws U"
  shows "\<exists>p. url_path U (url_set_path U (url_path U u @ ''/'') u) = p @ ''/''"
  using assms unfolding url_laws_def Let_def by blast

end
