(* ===== verification/Configuration.thy ===== *)
theory Configuration
  imports Entities Net_Address
begin

text \<open>
  \<^verbatim>\<open>src/src/config.rs\<close>: the configuration, how it is read from the environment and how the settings
  persisted by the administration interface override it at start. The environment is a function from
  variable names; the text forms of \<open>f64\<close>, of durations (\<open>humantime\<close>) and of URLs are parameters.
  A secret or a path is its text, a duration its number of nanoseconds.
\<close>

section \<open>Data\<close>

record oidc_config =
  oc_issuer :: string
  oc_client_id :: string
  oc_client_secret :: string
  oc_redirect_url :: string
  oc_display_name :: string

record connect_remap =
  cm_source :: string
  cm_target :: string

record config =
  cf_admin_addr :: "ip_addr \<times> nat"
  cf_registry_addr :: "ip_addr \<times> nat"
  cf_data_dir :: string
  cf_database_url :: string
  cf_tls_cert :: "string option"
  cf_tls_key :: "string option"
  cf_admin_auth :: "string option"
  cf_initial_admin_username :: "string option"
  cf_initial_admin_password :: "string option"
  cf_admin_external_tls :: bool
  cf_admin_external_loopback :: bool
  cf_session_ttl :: duration
  cf_oidc :: "oidc_config option"
  cf_registry_auth :: "string option"
  cf_proxy_auth :: "string option"
  cf_credential_key :: "string option"
  cf_registry_external_tls :: bool
  cf_connect_allow :: "string list"
  cf_connect_remap :: "connect_remap list"
  cf_allow_private_upstreams :: bool
  cf_allow_insecure_upstreams :: bool
  cf_chunk_size :: nat
  cf_adaptive_chunking_enabled :: bool
  cf_automatic_concurrency_enabled :: bool
  cf_chunk_concurrency :: nat
  cf_parallel_threshold :: nat
  cf_resumable_threshold :: nat
  cf_scheduler_policy :: scheduler_policy
  cf_scheduler_algorithm :: string
  cf_upstream_timeout :: duration
  cf_stream_fallback_timeout :: duration
  cf_partial_ttl :: duration
  cf_health_interval :: duration
  cf_max_cache_bytes :: nat
  cf_cache_policy :: cache_policy
  cf_cache_high_watermark :: f64
  cf_cache_low_watermark :: f64
  cf_cache_ttl :: "duration option"
  cf_public_bearer_cache_enabled :: bool
  cf_max_export_bytes :: nat
  cf_export_ttl :: duration
  cf_pull_logging_enabled :: bool
  cf_pull_log_retention_days :: nat
  cf_pull_log_max_entries :: nat

text \<open>An \<open>anyhow\<close> error: a context \<open>invalid KEY\<close> around a parse error, a \<open>bail!\<close> text, a bare parse error.\<close>

datatype config_error = Invalid string | Bail string | Parse_Error string

type_synonym environment = "string \<Rightarrow> string option"

record 'u text_forms =
  tf_f64_parse :: "string \<Rightarrow> f64 option"
  tf_f64_text :: "f64 \<Rightarrow> string"
  tf_duration :: "string \<Rightarrow> duration option"
  tf_url :: "'u url_ops"

section \<open>Reading variables\<close>

definition env_or :: "environment \<Rightarrow> string \<Rightarrow> string \<Rightarrow> string" where
  "env_or env key dflt = (case env key of None \<Rightarrow> dflt | Some v \<Rightarrow> v)"

definition filter_option :: "('a \<Rightarrow> bool) \<Rightarrow> 'a option \<Rightarrow> 'a option" where
  "filter_option p x = (case x of None \<Rightarrow> None | Some v \<Rightarrow> if p v then Some v else None)"

definition context_invalid :: "string \<Rightarrow> 'a option \<Rightarrow> config_error + 'a" where
  "context_invalid key r = (case r of None \<Rightarrow> Inl (Invalid key) | Some v \<Rightarrow> Inr v)"

definition bail_if :: "bool \<Rightarrow> string \<Rightarrow> config_error + unit" where
  "bail_if b message = (if b then Inl (Bail message) else Inr ())"

definition parse_addr :: "environment \<Rightarrow> string \<Rightarrow> string \<Rightarrow> config_error + (ip_addr \<times> nat)" where
  "parse_addr env key dflt = context_invalid key (parse_socket_addr (env_or env key dflt))"

definition optional_path :: "environment \<Rightarrow> string \<Rightarrow> string option" where
  "optional_path env key = filter_option (\<lambda>v. v \<noteq> []) (env key)"

definition optional_secret :: "environment \<Rightarrow> string \<Rightarrow> string option" where
  "optional_secret env key = filter_option (\<lambda>v. trim v \<noteq> []) (env key)"

definition optional_string :: "environment \<Rightarrow> string \<Rightarrow> string option" where
  "optional_string env key = filter_option (\<lambda>v. trim v \<noteq> []) (env key)"

definition oidc_config_env :: "'u text_forms \<Rightarrow> environment \<Rightarrow> config_error + oidc_config option" where
  "oidc_config_env tf env =
     (let issuer = optional_string env ''DONKEY_OIDC_ISSUER'';
          client_id = optional_string env ''DONKEY_OIDC_CLIENT_ID'';
          client_secret = optional_secret env ''DONKEY_OIDC_CLIENT_SECRET'';
          redirect_url = optional_string env ''DONKEY_OIDC_REDIRECT_URL'';
          configured = [issuer \<noteq> None, client_id \<noteq> None, client_secret \<noteq> None, redirect_url \<noteq> None]
      in
      if list_ex (\<lambda>v. v) configured \<and> \<not> list_all (\<lambda>v. v) configured
      then Inl (Bail ''DONKEY_OIDC_ISSUER, CLIENT_ID, CLIENT_SECRET and REDIRECT_URL must be configured together'')
      else case issuer of
        None \<Rightarrow> Inr None
      | Some issuer \<Rightarrow>
          result_bind (context_invalid ''DONKEY_OIDC_ISSUER'' (url_parse (tf_url tf) issuer)) (\<lambda>issuer_url.
          result_bind (context_invalid ''DONKEY_OIDC_REDIRECT_URL''
              (url_parse (tf_url tf) (case redirect_url of None \<Rightarrow> '''' | Some v \<Rightarrow> v))) (\<lambda>redirect.
          if url_scheme (tf_url tf) issuer_url \<noteq> ''https'' \<or> url_scheme (tf_url tf) redirect \<noteq> ''https''
          then Inl (Bail ''OIDC issuer and redirect URL must use HTTPS'')
          else
            let display_name = env_or env ''DONKEY_OIDC_DISPLAY_NAME'' ''Single sign-on'' in
            if trim display_name = [] \<or> 80 < length display_name
            then Inl (Bail ''DONKEY_OIDC_DISPLAY_NAME must be 1-80 characters'')
            else Inr (Some \<lparr>oc_issuer = issuer, oc_client_id = (case client_id of None \<Rightarrow> '''' | Some v \<Rightarrow> v),
                   oc_client_secret = the client_secret, oc_redirect_url = url_as_str (tf_url tf) redirect,
                   oc_display_name = display_name\<rparr>))))"

definition csv :: "environment \<Rightarrow> string \<Rightarrow> string list" where
  "csv env key =
     map to_ascii_lowercase (filter (\<lambda>v. v \<noteq> []) (map trim (split_char CHR '','' (env_or env key ''''))))"

definition bool_env :: "environment \<Rightarrow> string \<Rightarrow> bool \<Rightarrow> config_error + bool" where
  "bool_env env key dflt =
     (case env key of None \<Rightarrow> Inr dflt | Some v \<Rightarrow> context_invalid key (bool_parse v))"

definition duration_env :: "'u text_forms \<Rightarrow> environment \<Rightarrow> string \<Rightarrow> string \<Rightarrow> config_error + duration" where
  "duration_env tf env key dflt = context_invalid key (tf_duration tf (env_or env key dflt))"

definition optional_duration_env ::
  "'u text_forms \<Rightarrow> environment \<Rightarrow> string \<Rightarrow> config_error + duration option" where
  "optional_duration_env tf env key =
     (case filter_option (\<lambda>v. trim v \<noteq> []) (env key) of
        None \<Rightarrow> Inr None
      | Some v \<Rightarrow> result_bind (context_invalid key (tf_duration tf v)) (\<lambda>d. Inr (Some d)))"

definition cache_policy_env :: "environment \<Rightarrow> config_error + cache_policy" where
  "cache_policy_env env =
     (let v = to_ascii_lowercase (env_or env ''DONKEY_CACHE_POLICY'' ''balanced'') in
      if v = ''balanced'' then Inr CacheBalanced
      else if v = ''lru'' then Inr Lru
      else if v = ''lfu'' then Inr Lfu
      else Inl (Bail ''DONKEY_CACHE_POLICY must be balanced, lru, or lfu''))"

definition scheduler_policy_env :: "environment \<Rightarrow> config_error + scheduler_policy" where
  "scheduler_policy_env env =
     (let v = to_ascii_lowercase (env_or env ''DONKEY_SCHEDULER_POLICY'' ''balanced'') in
      if v = ''balanced'' then Inr Balanced
      else if v = ''speed-first'' \<or> v = ''speed'' then Inr SpeedFirst
      else Inl (Bail ''DONKEY_SCHEDULER_POLICY must be balanced or speed-first''))"

definition scheduler_algorithm_env :: "environment \<Rightarrow> config_error + string" where
  "scheduler_algorithm_env env =
     (let v = to_ascii_lowercase (env_or env ''DONKEY_SCHEDULER_ALGORITHM'' ''current-balanced'') in
      if v \<in> {''current-balanced'', ''current'', ''projected-completion'', ''projected''}
      then Inr (if v = ''current'' then ''current-balanced''
                else if v = ''projected'' then ''projected-completion'' else v)
      else Inl (Bail ''DONKEY_SCHEDULER_ALGORITHM must be current-balanced or projected-completion''))"

definition f64_is_finite :: "f64 \<Rightarrow> bool" where
  "f64_is_finite x = (case x of F64_Fin _ _ \<Rightarrow> True | _ \<Rightarrow> False)"

definition f64_env ::
  "'u text_forms \<Rightarrow> environment \<Rightarrow> string \<Rightarrow> f64 \<Rightarrow> f64 \<Rightarrow> f64 \<Rightarrow> config_error + f64" where
  "f64_env tf env key dflt lo hi =
     result_bind (context_invalid key (tf_f64_parse tf (env_or env key (tf_f64_text tf dflt)))) (\<lambda>v.
       if \<not> f64_is_finite v \<or> \<not> (f64_le lo v \<and> f64_le v hi)
       then Inl (Bail (key @ '' must be between '' @ tf_f64_text tf lo @ '' and '' @ tf_f64_text tf hi))
       else Inr v)"

definition u64_env :: "environment \<Rightarrow> string \<Rightarrow> nat \<Rightarrow> nat \<Rightarrow> nat \<Rightarrow> config_error + nat" where
  "u64_env env key dflt lo hi =
     result_bind (context_invalid key (u64_parse (env_or env key (nat_text dflt)))) (\<lambda>v.
       if \<not> (lo \<le> v \<and> v \<le> hi)
       then Inl (Bail (key @ '' must be between '' @ nat_text lo @ '' and '' @ nat_text hi))
       else Inr v)"

text \<open>\<open>usize\<close> is 64 bits wide.\<close>

definition usize_env :: "environment \<Rightarrow> string \<Rightarrow> nat \<Rightarrow> nat \<Rightarrow> nat \<Rightarrow> config_error + nat" where
  [simp]: "usize_env env key dflt lo hi = u64_env env key dflt lo hi"

definition parse_remap :: "string \<Rightarrow> config_error + connect_remap" where
  "parse_remap entry =
     (case split_once ''='' entry of
        None \<Rightarrow> Inl (Bail (''invalid CONNECT remap '' @ entry))
      | Some (source, target) \<Rightarrow>
          if source = [] \<or> target = [] \<or> \<not> str_contains '':'' source \<or> \<not> str_contains '':'' target
          then Inl (Bail ''CONNECT remap must use source:port=target:port'')
          else Inr \<lparr>cm_source = to_ascii_lowercase source, cm_target = target\<rparr>)"

text \<open>\<open>collect\<close> into a \<open>Result\<close>: the first error ends it.\<close>

fun collect_results :: "('e + 'a) list \<Rightarrow> 'e + 'a list" where
  "collect_results [] = Inr []"
| "collect_results (r # rs) =
     result_bind r (\<lambda>x. result_bind (collect_results rs) (\<lambda>xs. Inr (x # xs)))"

definition parse_remaps :: "string \<Rightarrow> config_error + connect_remap list" where
  "parse_remaps raw =
     collect_results (map parse_remap
       (filter (\<lambda>v. v \<noteq> []) (map trim (split_char CHR '','' raw))))"

section \<open>Reading the configuration\<close>

definition path_join :: "string \<Rightarrow> string \<Rightarrow> string" where
  "path_join dir file =
     (if dir = [] then file else if List.last dir = CHR ''/'' then dir @ file else dir @ ''/'' @ file)"

text \<open>The variables that do not depend on the others, read in the order of the struct's fields.\<close>

definition config_fields ::
  "'u text_forms \<Rightarrow> environment \<Rightarrow> string \<Rightarrow> string \<Rightarrow> string option \<Rightarrow> string option \<Rightarrow> f64 \<Rightarrow> f64
     \<Rightarrow> string option \<Rightarrow> string option \<Rightarrow> oidc_config option \<Rightarrow> duration \<Rightarrow> config_error + config" where
  "config_fields tf env data_dir database_url tls_cert tls_key high low username password oidc session_ttl =
     result_bind (parse_addr env ''DONKEY_ADMIN_ADDR'' ''127.0.0.1:5003'') (\<lambda>admin_addr.
     result_bind (parse_addr env ''DONKEY_REGISTRY_ADDR'' ''0.0.0.0:5443'') (\<lambda>registry_addr.
     result_bind (bool_env env ''DONKEY_ADMIN_EXTERNAL_TLS'' False) (\<lambda>admin_external_tls.
     result_bind (bool_env env ''DONKEY_ADMIN_EXTERNAL_LOOPBACK'' False) (\<lambda>admin_external_loopback.
     result_bind (bool_env env ''DONKEY_REGISTRY_EXTERNAL_TLS'' False) (\<lambda>registry_external_tls.
     result_bind (parse_remaps (env_or env ''DONKEY_CONNECT_REMAP'' '''')) (\<lambda>connect_remap.
     result_bind (bool_env env ''DONKEY_ALLOW_PRIVATE_UPSTREAMS'' False) (\<lambda>allow_private_upstreams.
     result_bind (bool_env env ''DONKEY_ALLOW_INSECURE_UPSTREAMS'' False) (\<lambda>allow_insecure_upstreams.
     result_bind (u64_env env ''DONKEY_CHUNK_SIZE'' (2 * 1024 * 1024) (256 * 1024) (32 * 1024 * 1024)) (\<lambda>chunk_size.
     result_bind (bool_env env ''DONKEY_ADAPTIVE_CHUNKING_ENABLED'' True) (\<lambda>adaptive_chunking_enabled.
     result_bind (bool_env env ''DONKEY_AUTOMATIC_CONCURRENCY_ENABLED'' True) (\<lambda>automatic_concurrency_enabled.
     result_bind (usize_env env ''DONKEY_CHUNK_CONCURRENCY'' 32 1 64) (\<lambda>chunk_concurrency.
     result_bind (u64_env env ''DONKEY_PARALLEL_THRESHOLD'' (8 * 1024 * 1024) (1024 * 1024) (1024 * 1024 * 1024)) (\<lambda>parallel_threshold.
     result_bind (u64_env env ''DONKEY_RESUMABLE_THRESHOLD'' (8 * 1024 * 1024) (1024 * 1024) u64_max) (\<lambda>resumable_threshold.
     result_bind (scheduler_policy_env env) (\<lambda>scheduler_policy.
     result_bind (scheduler_algorithm_env env) (\<lambda>scheduler_algorithm.
     result_bind (duration_env tf env ''DONKEY_UPSTREAM_TIMEOUT'' ''30s'') (\<lambda>upstream_timeout.
     result_bind (duration_env tf env ''DONKEY_STREAM_FALLBACK_TIMEOUT'' ''10s'') (\<lambda>stream_fallback_timeout.
     result_bind (duration_env tf env ''DONKEY_PARTIAL_TTL'' ''1h'') (\<lambda>partial_ttl.
     result_bind (duration_env tf env ''DONKEY_HEALTH_INTERVAL'' ''60s'') (\<lambda>health_interval.
     result_bind (u64_env env ''DONKEY_MAX_CACHE_BYTES'' (50 * 1024 * 1024 * 1024) (64 * 1024 * 1024) u64_max) (\<lambda>max_cache_bytes.
     result_bind (cache_policy_env env) (\<lambda>cache_policy.
     result_bind (optional_duration_env tf env ''DONKEY_CACHE_TTL'') (\<lambda>cache_ttl.
     result_bind (bool_env env ''DONKEY_PUBLIC_BEARER_CACHE_ENABLED'' False) (\<lambda>public_bearer_cache_enabled.
     result_bind (u64_env env ''DONKEY_MAX_EXPORT_BYTES'' (20 * 1024 * 1024 * 1024) (64 * 1024 * 1024) u64_max) (\<lambda>max_export_bytes.
     result_bind (duration_env tf env ''DONKEY_EXPORT_TTL'' ''7d'') (\<lambda>export_ttl.
     result_bind (bool_env env ''DONKEY_PULL_LOGGING_ENABLED'' True) (\<lambda>pull_logging_enabled.
     result_bind (u64_env env ''DONKEY_PULL_LOG_RETENTION_DAYS'' 30 1 3650) (\<lambda>pull_log_retention_days.
     result_bind (u64_env env ''DONKEY_PULL_LOG_MAX_ENTRIES'' 10000 100 1000000) (\<lambda>pull_log_max_entries.
     Inr
        \<lparr>cf_admin_addr = admin_addr, cf_registry_addr = registry_addr, cf_data_dir = data_dir,
         cf_database_url = database_url, cf_tls_cert = tls_cert, cf_tls_key = tls_key,
         cf_admin_auth = optional_secret env ''DONKEY_ADMIN_AUTH'',
         cf_initial_admin_username = username, cf_initial_admin_password = password,
         cf_admin_external_tls = admin_external_tls,
         cf_admin_external_loopback = admin_external_loopback, cf_session_ttl = session_ttl,
         cf_oidc = oidc, cf_registry_auth = optional_secret env ''DONKEY_REGISTRY_AUTH'',
         cf_proxy_auth = optional_secret env ''DONKEY_PROXY_AUTH'',
         cf_credential_key = optional_secret env ''DONKEY_CREDENTIAL_KEY'',
         cf_registry_external_tls = registry_external_tls,
         cf_connect_allow = csv env ''DONKEY_CONNECT_ALLOW'', cf_connect_remap = connect_remap,
         cf_allow_private_upstreams = allow_private_upstreams,
         cf_allow_insecure_upstreams = allow_insecure_upstreams, cf_chunk_size = chunk_size,
         cf_adaptive_chunking_enabled = adaptive_chunking_enabled,
         cf_automatic_concurrency_enabled = automatic_concurrency_enabled,
         cf_chunk_concurrency = chunk_concurrency, cf_parallel_threshold = parallel_threshold,
         cf_resumable_threshold = resumable_threshold, cf_scheduler_policy = scheduler_policy,
         cf_scheduler_algorithm = scheduler_algorithm, cf_upstream_timeout = upstream_timeout,
         cf_stream_fallback_timeout = stream_fallback_timeout, cf_partial_ttl = partial_ttl,
         cf_health_interval = health_interval, cf_max_cache_bytes = max_cache_bytes,
         cf_cache_policy = cache_policy, cf_cache_high_watermark = high, cf_cache_low_watermark = low,
         cf_cache_ttl = cache_ttl, cf_public_bearer_cache_enabled = public_bearer_cache_enabled,
         cf_max_export_bytes = max_export_bytes, cf_export_ttl = export_ttl,
         cf_pull_logging_enabled = pull_logging_enabled,
         cf_pull_log_retention_days = pull_log_retention_days,
         cf_pull_log_max_entries = pull_log_max_entries\<rparr>)))))))))))))))))))))))))))))"

definition from_env :: "'u text_forms \<Rightarrow> environment \<Rightarrow> config_error + config" where
  "from_env tf env =
     (let data_dir = env_or env ''DONKEY_DATA_DIR'' ''./data'';
          database_url = (case env ''DONKEY_DATABASE_URL'' of
            Some v \<Rightarrow> v | None \<Rightarrow> ''sqlite://'' @ path_join data_dir ''donkey.db'' @ ''?mode=rwc'');
          tls_cert = optional_path env ''DONKEY_TLS_CERT'';
          tls_key = optional_path env ''DONKEY_TLS_KEY'';
          username = optional_string env ''DONKEY_INITIAL_ADMIN_USERNAME'';
          password = optional_secret env ''DONKEY_INITIAL_ADMIN_PASSWORD''
      in
      result_bind (bail_if ((tls_cert \<noteq> None) \<noteq> (tls_key \<noteq> None))
          ''DONKEY_TLS_CERT and DONKEY_TLS_KEY must be configured together'') (\<lambda>_.
      result_bind (f64_env tf env ''DONKEY_CACHE_HIGH_WATERMARK'' (f64_const (9 / 10)) (f64_const (1 / 2)) (f64_const 1))
        (\<lambda>high.
      result_bind (f64_env tf env ''DONKEY_CACHE_LOW_WATERMARK'' (f64_const (4 / 5)) (f64_const (1 / 10)) (f64_const (99 / 100)))
        (\<lambda>low.
      result_bind (bail_if (f64_le high low)
          ''DONKEY_CACHE_LOW_WATERMARK must be lower than DONKEY_CACHE_HIGH_WATERMARK'') (\<lambda>_.
      result_bind (bail_if ((username \<noteq> None) \<noteq> (password \<noteq> None))
          ''DONKEY_INITIAL_ADMIN_USERNAME and DONKEY_INITIAL_ADMIN_PASSWORD must be configured together'') (\<lambda>_.
      result_bind (bail_if (case username of None \<Rightarrow> False | Some v \<Rightarrow> 80 < length v \<or> trim v = [])
          ''DONKEY_INITIAL_ADMIN_USERNAME must be 1-80 characters'') (\<lambda>_.
      result_bind (bail_if (case password of None \<Rightarrow> False | Some v \<Rightarrow> \<not> (12 \<le> length v \<and> length v \<le> 1024))
          ''DONKEY_INITIAL_ADMIN_PASSWORD must be 12-1024 bytes'') (\<lambda>_.
      result_bind (oidc_config_env tf env) (\<lambda>oidc.
      result_bind (duration_env tf env ''DONKEY_SESSION_TTL'' ''7d'') (\<lambda>session_ttl.
      result_bind (bail_if (\<not> (5 * 60 * SECOND \<le> session_ttl \<and> session_ttl \<le> 90 * 24 * 60 * 60 * SECOND))
          ''DONKEY_SESSION_TTL must be between 5m and 90d'') (\<lambda>_.
      result_bind (config_fields tf env data_dir database_url tls_cert tls_key high low username password oidc
          session_ttl) (\<lambda>config.
      result_bind (bail_if (is_unspecified (fst (cf_admin_addr config)) \<and> cf_admin_auth config = None
            \<and> cf_initial_admin_username config = None \<and> cf_oidc config = None)
          ''an admin authentication method is required when DONKEY_ADMIN_ADDR listens on all interfaces'') (\<lambda>_.
      result_bind (bail_if (cf_registry_auth config \<noteq> None \<and> cf_tls_cert config = None
            \<and> \<not> cf_registry_external_tls config)
          ''Registry Basic auth requires TLS or DONKEY_REGISTRY_EXTERNAL_TLS=true'') (\<lambda>_.
        Inr config))))))))))))))"

text \<open>\<open>Config::for_test\<close>: the configuration of the tests and of the examples below.\<close>

definition for_test :: "string \<Rightarrow> config" where
  "for_test data_dir =
     \<lparr>cf_admin_addr = (IpV4 0x7F000001, 0), cf_registry_addr = (IpV4 0x7F000001, 0), cf_data_dir = data_dir,
      cf_database_url = ''sqlite://'' @ path_join data_dir ''test.db'' @ ''?mode=rwc'',
      cf_tls_cert = None, cf_tls_key = None, cf_admin_auth = None, cf_initial_admin_username = None,
      cf_initial_admin_password = None, cf_admin_external_tls = False, cf_admin_external_loopback = False,
      cf_session_ttl = 7 * 24 * 60 * 60 * SECOND, cf_oidc = None, cf_registry_auth = None, cf_proxy_auth = None,
      cf_credential_key = None, cf_registry_external_tls = False, cf_connect_allow = [], cf_connect_remap = [],
      cf_allow_private_upstreams = True, cf_allow_insecure_upstreams = True, cf_chunk_size = 512 * 1024,
      cf_adaptive_chunking_enabled = False, cf_automatic_concurrency_enabled = False, cf_chunk_concurrency = 4,
      cf_parallel_threshold = 1024 * 1024, cf_resumable_threshold = 8 * 1024 * 1024,
      cf_scheduler_policy = Balanced, cf_scheduler_algorithm = ''current-balanced'',
      cf_upstream_timeout = 5 * SECOND, cf_stream_fallback_timeout = 10 * SECOND, cf_partial_ttl = 3600 * SECOND,
      cf_health_interval = 60 * SECOND, cf_max_cache_bytes = 1024 * 1024 * 1024, cf_cache_policy = CacheBalanced,
      cf_cache_high_watermark = f64_const (9 / 10), cf_cache_low_watermark = f64_const (8 / 10),
      cf_cache_ttl = None, cf_public_bearer_cache_enabled = False, cf_max_export_bytes = 1024 * 1024 * 1024,
      cf_export_ttl = 7 * 24 * 60 * 60 * SECOND, cf_pull_logging_enabled = True, cf_pull_log_retention_days = 30,
      cf_pull_log_max_entries = 10000\<rparr>"

text \<open>\<open>admin_auth_value\<close>, \<open>registry_auth_value\<close> and \<open>proxy_auth_value\<close> expose the secrets as they are.\<close>

definition admin_secret_transport_is_secure :: "config \<Rightarrow> bool" where
  "admin_secret_transport_is_secure c \<longleftrightarrow>
     cf_admin_external_tls c \<or> cf_admin_external_loopback c \<or> is_loopback (fst (cf_admin_addr c))"

section \<open>Persisted settings\<close>

definition parsed :: "'a option \<Rightarrow> string \<Rightarrow> config_error + 'a" where
  "parsed r value = (case r of None \<Rightarrow> Inl (Parse_Error value) | Some v \<Rightarrow> Inr v)"

definition ttl_of_secs :: "nat \<Rightarrow> duration option" where
  "ttl_of_secs v = (if 0 < v then Some (v * SECOND) else None)"

text \<open>One row of the table: the \<open>match\<close> of \<open>apply_runtime_overrides\<close>, whose last arm ignores unknown keys.\<close>

definition apply_setting :: "'u text_forms \<Rightarrow> string \<times> string \<Rightarrow> config \<Rightarrow> config_error + config" where
  "apply_setting tf setting c =
    (let key = fst setting; value = snd setting in
     if key = ''chunk_size'' then
       result_bind (parsed (u64_parse value) value) (\<lambda>v. Inr (c\<lparr>cf_chunk_size := v\<rparr>))
     else
     if key = ''adaptive_chunking_enabled'' then
       result_bind (parsed (bool_parse value) value) (\<lambda>v. Inr (c\<lparr>cf_adaptive_chunking_enabled := v\<rparr>))
     else
     if key = ''automatic_concurrency_enabled'' then
       result_bind (parsed (bool_parse value) value) (\<lambda>v. Inr (c\<lparr>cf_automatic_concurrency_enabled := v\<rparr>))
     else
     if key = ''chunk_concurrency'' then
       result_bind (parsed (u64_parse value) value) (\<lambda>v. Inr (c\<lparr>cf_chunk_concurrency := v\<rparr>))
     else
     if key = ''parallel_threshold'' then
       result_bind (parsed (u64_parse value) value) (\<lambda>v. Inr (c\<lparr>cf_parallel_threshold := v\<rparr>))
     else
     if key = ''resumable_threshold'' then
       result_bind (parsed (u64_parse value) value) (\<lambda>v. Inr (c\<lparr>cf_resumable_threshold := v\<rparr>))
     else
     if key = ''scheduler_policy'' then
       (if value = ''balanced'' then Inr (c\<lparr>cf_scheduler_policy := Balanced\<rparr>)
        else if value = ''speed-first'' then Inr (c\<lparr>cf_scheduler_policy := SpeedFirst\<rparr>)
        else Inl (Bail ''invalid persisted scheduler_policy''))
     else
     if key = ''scheduler_algorithm'' then
       (if value \<noteq> ''current-balanced'' \<and> value \<noteq> ''projected-completion''
        then Inl (Bail ''invalid persisted scheduler_algorithm'')
        else Inr (c\<lparr>cf_scheduler_algorithm := value\<rparr>))
     else
     if key = ''upstream_timeout_seconds'' then
       result_bind (parsed (u64_parse value) value) (\<lambda>v. Inr (c\<lparr>cf_upstream_timeout := v * SECOND\<rparr>))
     else
     if key = ''stream_fallback_timeout_seconds'' then
       result_bind (parsed (u64_parse value) value) (\<lambda>v. Inr (c\<lparr>cf_stream_fallback_timeout := v * SECOND\<rparr>))
     else
     if key = ''partial_ttl_seconds'' then
       result_bind (parsed (u64_parse value) value) (\<lambda>v. Inr (c\<lparr>cf_partial_ttl := v * SECOND\<rparr>))
     else
     if key = ''max_cache_bytes'' then
       result_bind (parsed (u64_parse value) value) (\<lambda>v. Inr (c\<lparr>cf_max_cache_bytes := v\<rparr>))
     else
     if key = ''cache_policy'' then
       (if value = ''balanced'' then Inr (c\<lparr>cf_cache_policy := CacheBalanced\<rparr>)
        else if value = ''lru'' then Inr (c\<lparr>cf_cache_policy := Lru\<rparr>)
        else if value = ''lfu'' then Inr (c\<lparr>cf_cache_policy := Lfu\<rparr>)
        else Inl (Bail ''invalid persisted cache_policy''))
     else
     if key = ''cache_high_watermark'' then
       result_bind (parsed (tf_f64_parse tf value) value) (\<lambda>v. Inr (c\<lparr>cf_cache_high_watermark := v\<rparr>))
     else
     if key = ''cache_low_watermark'' then
       result_bind (parsed (tf_f64_parse tf value) value) (\<lambda>v. Inr (c\<lparr>cf_cache_low_watermark := v\<rparr>))
     else
     if key = ''cache_ttl_seconds'' then
       result_bind (parsed (u64_parse value) value) (\<lambda>v. Inr (c\<lparr>cf_cache_ttl := ttl_of_secs v\<rparr>))
     else
     if key = ''public_bearer_cache_enabled'' then
       result_bind (parsed (bool_parse value) value) (\<lambda>v. Inr (c\<lparr>cf_public_bearer_cache_enabled := v\<rparr>))
     else
     if key = ''health_interval_seconds'' then
       result_bind (parsed (u64_parse value) value) (\<lambda>v. Inr (c\<lparr>cf_health_interval := v * SECOND\<rparr>))
     else
     if key = ''max_export_bytes'' then
       result_bind (parsed (u64_parse value) value) (\<lambda>v. Inr (c\<lparr>cf_max_export_bytes := v\<rparr>))
     else
     if key = ''export_ttl_seconds'' then
       result_bind (parsed (u64_parse value) value) (\<lambda>v. Inr (c\<lparr>cf_export_ttl := v * SECOND\<rparr>))
     else
     if key = ''pull_logging_enabled'' then
       result_bind (parsed (bool_parse value) value) (\<lambda>v. Inr (c\<lparr>cf_pull_logging_enabled := v\<rparr>))
     else
     if key = ''pull_log_retention_days'' then
       result_bind (parsed (u64_parse value) value) (\<lambda>v. Inr (c\<lparr>cf_pull_log_retention_days := v\<rparr>))
     else
     if key = ''pull_log_max_entries'' then
       result_bind (parsed (u64_parse value) value) (\<lambda>v. Inr (c\<lparr>cf_pull_log_max_entries := v\<rparr>))
     else
     Inr c)"

fun apply_settings :: "'u text_forms \<Rightarrow> (string \<times> string) list \<Rightarrow> config \<Rightarrow> config_error + config" where
  "apply_settings tf [] c = Inr c"
| "apply_settings tf (r # rs) c = result_bind (apply_setting tf r c) (apply_settings tf rs)"

definition settings_in_range :: "config \<Rightarrow> bool" where
  "settings_in_range c \<longleftrightarrow>
     256 * 1024 \<le> cf_chunk_size c \<and> cf_chunk_size c \<le> 32 * 1024 * 1024
     \<and> 1 \<le> cf_chunk_concurrency c \<and> cf_chunk_concurrency c \<le> 64
     \<and> 1024 * 1024 \<le> cf_parallel_threshold c \<and> cf_parallel_threshold c \<le> u64_max
     \<and> 1024 * 1024 \<le> cf_resumable_threshold c \<and> cf_resumable_threshold c \<le> u64_max
     \<and> cf_upstream_timeout c \<noteq> 0 \<and> cf_stream_fallback_timeout c \<noteq> 0 \<and> cf_partial_ttl c \<noteq> 0
     \<and> 64 * 1024 * 1024 \<le> cf_max_cache_bytes c \<and> 64 * 1024 * 1024 \<le> cf_max_export_bytes c
     \<and> 1 \<le> cf_pull_log_retention_days c \<and> cf_pull_log_retention_days c \<le> 3650
     \<and> 100 \<le> cf_pull_log_max_entries c \<and> cf_pull_log_max_entries c \<le> 1000000"

definition apply_runtime_overrides ::
  "'u text_forms \<Rightarrow> (string \<times> string) list \<Rightarrow> config \<Rightarrow> config_error + config" where
  "apply_runtime_overrides tf settings c =
     result_bind (apply_settings tf settings c) (\<lambda>c.
       if f64_le (cf_cache_high_watermark c) (cf_cache_low_watermark c)
       then Inl (Bail ''persisted cache watermarks are invalid'')
       else if settings \<noteq> [] \<and> \<not> settings_in_range c
       then Inl (Bail ''persisted runtime settings are out of range'')
       else Inr c)"

section \<open>What an accepted configuration satisfies\<close>

text \<open>The part the persisted settings never change.\<close>

definition listeners_protected :: "config \<Rightarrow> bool" where
  "listeners_protected c \<longleftrightarrow>
     (cf_tls_cert c = None \<longleftrightarrow> cf_tls_key c = None)
     \<and> (is_unspecified (fst (cf_admin_addr c)) \<longrightarrow>
          cf_admin_auth c \<noteq> None \<or> cf_initial_admin_username c \<noteq> None \<or> cf_oidc c \<noteq> None)
     \<and> (cf_registry_auth c \<noteq> None \<longrightarrow> cf_tls_cert c \<noteq> None \<or> cf_registry_external_tls c)
     \<and> (cf_initial_admin_username c = None \<longleftrightarrow> cf_initial_admin_password c = None)
     \<and> (\<forall>p. cf_initial_admin_password c = Some p \<longrightarrow> 12 \<le> length p \<and> length p \<le> 1024)
     \<and> 300 * SECOND \<le> cf_session_ttl c \<and> cf_session_ttl c \<le> 7776000 * SECOND"

definition limits_in_range :: "config \<Rightarrow> bool" where
  "limits_in_range c \<longleftrightarrow>
     256 * 1024 \<le> cf_chunk_size c \<and> cf_chunk_size c \<le> 32 * 1024 * 1024
     \<and> 1 \<le> cf_chunk_concurrency c \<and> cf_chunk_concurrency c \<le> 64
     \<and> 1024 * 1024 \<le> cf_parallel_threshold c \<and> cf_parallel_threshold c \<le> u64_max
     \<and> 1024 * 1024 \<le> cf_resumable_threshold c \<and> cf_resumable_threshold c \<le> u64_max
     \<and> 64 * 1024 * 1024 \<le> cf_max_cache_bytes c \<and> 64 * 1024 * 1024 \<le> cf_max_export_bytes c
     \<and> 1 \<le> cf_pull_log_retention_days c \<and> cf_pull_log_retention_days c \<le> 3650
     \<and> 100 \<le> cf_pull_log_max_entries c \<and> cf_pull_log_max_entries c \<le> 1000000"

lemma context_invalid_Inr [simp]: "context_invalid key r = Inr v \<longleftrightarrow> r = Some v"
  by (simp add: context_invalid_def split: option.splits)

lemma bail_if_Inr [simp]: "bail_if b m = Inr u \<longleftrightarrow> \<not> b"
  by (simp add: bail_if_def)

lemma u64_env_Inr [simp]:
  "u64_env env key d lo hi = Inr v \<longleftrightarrow> u64_parse (env_or env key (nat_text d)) = Some v \<and> lo \<le> v \<and> v \<le> hi"
  by (auto simp: u64_env_def split: if_splits)

lemma config_fields_limits:
  assumes "config_fields tf env dir db cert key high low user pass oidc ttl = Inr c"
  shows "limits_in_range c \<and> cf_tls_cert c = cert \<and> cf_tls_key c = key
    \<and> cf_initial_admin_username c = user \<and> cf_initial_admin_password c = pass \<and> cf_oidc c = oidc
    \<and> cf_session_ttl c = ttl \<and> cf_cache_high_watermark c = high \<and> cf_cache_low_watermark c = low"
  using assms unfolding config_fields_def result_bind_eq_Inr usize_env_def u64_env_Inr sum.inject
  by (elim exE conjE, hypsubst) (simp add: limits_in_range_def u64_max_def)

lemma from_env_accepts:
  assumes "from_env tf env = Inr c"
  shows "limits_in_range c \<and> listeners_protected c
    \<and> \<not> f64_le (cf_cache_high_watermark c) (cf_cache_low_watermark c)"
  using assms unfolding from_env_def Let_def result_bind_eq_Inr bail_if_Inr sum.inject
  by (elim exE conjE)
    (drule config_fields_limits, auto simp: listeners_protected_def split: option.splits)

lemma parsed_Inr [simp]: "parsed r v = Inr x \<longleftrightarrow> r = Some x"
  by (simp add: parsed_def split: option.splits)

definition protected_part :: "config \<Rightarrow> _" where
  "protected_part c =
     (cf_admin_addr c, cf_tls_cert c, cf_tls_key c, cf_admin_auth c, cf_oidc c, cf_registry_auth c,
      cf_registry_external_tls c, cf_initial_admin_username c, cf_initial_admin_password c, cf_session_ttl c)"

lemma apply_setting_protected:
  "apply_setting tf r c = Inr c' \<Longrightarrow> protected_part c' = protected_part c"
  unfolding apply_setting_def Let_def
  by (simp only: result_bind_eq_Inr parsed_Inr sum.inject sum.simps split: if_split_asm)
    ((elim exE conjE)?, hypsubst?, simp (no_asm) add: protected_part_def)+

lemma apply_settings_part:
  "apply_settings tf rs c = Inr c' \<Longrightarrow> protected_part c' = protected_part c"
  by (induction rs arbitrary: c) (auto dest: apply_setting_protected)

lemma apply_settings_protected:
  "apply_settings tf rs c = Inr c' \<Longrightarrow> listeners_protected c' = listeners_protected c"
  using apply_settings_part [of tf rs c c'] by (simp add: protected_part_def listeners_protected_def)

text \<open>A concrete environment, with the text forms it needs.\<close>

definition sample_forms :: "plain_url text_forms" where
  "sample_forms =
     \<lparr>tf_f64_parse = (\<lambda>s. if s = ''1'' then Some (f64_const 1) else if s = ''0.5'' then Some (f64_const (1 / 2)) else None),
      tf_f64_text = (\<lambda>x. if x = f64_const 1 then ''1'' else ''0.5''),
      tf_duration = (\<lambda>s. if s = ''7d'' then Some (7 * 24 * 3600 * SECOND) else Some (30 * SECOND)),
      tf_url = plain_url_ops (\<lambda>_. None)\<rparr>"

definition sample_env :: environment where
  "sample_env = [''DONKEY_CACHE_HIGH_WATERMARK'' \<mapsto> ''1'', ''DONKEY_CACHE_LOW_WATERMARK'' \<mapsto> ''0.5'',
     ''DONKEY_ADMIN_ADDR'' \<mapsto> ''0.0.0.0:5003'', ''DONKEY_ADMIN_AUTH'' \<mapsto> ''operator:secret'']"

lemma sample_from_env: "\<exists>c. from_env sample_forms sample_env = Inr c"
proof -
  have addr: "parse_socket_addr ''0.0.0.0:5003'' = Some (IpV4 0, 5003)"
    "parse_socket_addr ''0.0.0.0:5443'' = Some (IpV4 0, 5443)" by code_simp+
  have water: "f64_le (f64_const (1 / 10)) (f64_const (1 / 2))" "f64_le (f64_const (1 / 2)) (f64_const (99 / 100))"
    by (simp_all add: f64_const_unit_le)
  have low: "to_ascii_lowercase ''balanced'' = ''balanced''"
    "to_ascii_lowercase ''current-balanced'' = ''current-balanced''" by code_simp+
  have env: "sample_env ''DONKEY_TLS_CERT'' = None" "sample_env ''DONKEY_TLS_KEY'' = None"
    "sample_env ''DONKEY_INITIAL_ADMIN_USERNAME'' = None" "sample_env ''DONKEY_INITIAL_ADMIN_PASSWORD'' = None"
    "sample_env ''DONKEY_OIDC_ISSUER'' = None" "sample_env ''DONKEY_OIDC_CLIENT_ID'' = None"
    "sample_env ''DONKEY_OIDC_CLIENT_SECRET'' = None" "sample_env ''DONKEY_OIDC_REDIRECT_URL'' = None"
    "sample_env ''DONKEY_SESSION_TTL'' = None" "sample_env ''DONKEY_CACHE_HIGH_WATERMARK'' = Some ''1''"
    "sample_env ''DONKEY_CACHE_LOW_WATERMARK'' = Some ''0.5''"
    by (simp_all add: sample_env_def)
  have trims: "trim ''operator:secret'' = ''operator:secret''" "trim [] = []" by code_simp+
  have fields: "\<exists>c. config_fields sample_forms sample_env d db None None h l None None None t = Inr c
      \<and> cf_admin_auth c = Some ''operator:secret'' \<and> cf_registry_auth c = None" for d db h l t
    unfolding config_fields_def sample_forms_def sample_env_def parse_addr_def bool_env_def duration_env_def
      optional_duration_env_def cache_policy_env_def scheduler_policy_env_def scheduler_algorithm_env_def
      parse_remaps_def usize_env_def u64_env_def
    by (simp add: env_or_def addr low context_invalid_def u64_max_def filter_option_def optional_secret_def trims)
  have none: "optional_path sample_env ''DONKEY_TLS_CERT'' = None" "optional_path sample_env ''DONKEY_TLS_KEY'' = None"
    "optional_string sample_env ''DONKEY_INITIAL_ADMIN_USERNAME'' = None"
    "optional_secret sample_env ''DONKEY_INITIAL_ADMIN_PASSWORD'' = None" "oidc_config_env sample_forms sample_env = Inr None"
    using env by (simp_all add: optional_path_def optional_string_def optional_secret_def filter_option_def
      oidc_config_env_def)
  have high: "f64_env sample_forms sample_env ''DONKEY_CACHE_HIGH_WATERMARK'' (f64_const (9 / 10)) (f64_const (1 / 2))
      (f64_const 1) = Inr (f64_const 1)"
    using env by (simp add: f64_env_def env_or_def sample_forms_def context_invalid_def f64_half_one f64_is_finite_def
        f64_signed_def)
  have low: "f64_env sample_forms sample_env ''DONKEY_CACHE_LOW_WATERMARK'' (f64_const (4 / 5)) (f64_const (1 / 10))
      (f64_const (99 / 100)) = Inr (f64_const (1 / 2))"
    using env water by (simp add: f64_env_def env_or_def sample_forms_def context_invalid_def f64_half_one f64_is_finite_def)
  have ttl: "duration_env sample_forms sample_env ''DONKEY_SESSION_TTL'' ''7d'' = Inr (7 * 24 * 3600 * SECOND)"
    using env by (simp add: duration_env_def env_or_def sample_forms_def context_invalid_def)
  have "\<not> f64_le (f64_const 1) (f64_const (1 / 2))" by (simp add: f64_half_one f64_signed_def)
  then show ?thesis
    unfolding from_env_def Let_def none high low ttl
    using fields by (simp add: bail_if_def SECOND_def) (metis option.distinct(1))
qed



end
