(* ===== verification/Runtime_Settings.thy ===== *)
theory Runtime_Settings
  imports Configuration
begin

text \<open>
  The runtime settings of the administration interface: the handlers of \<^verbatim>\<open>src/src/api.rs\<close> that validate,
  persist, reload and export them, over the \<open>runtime_settings\<close> table of \<^verbatim>\<open>src/src/db.rs\<close>. The table is the
  list of its rows in the order of insertion, in which SQLite returns them.
\<close>

section \<open>Data\<close>

record runtime_settings_input =
  ri_chunk_size :: nat
  ri_adaptive_chunking_enabled :: bool
  ri_automatic_concurrency_enabled :: bool
  ri_chunk_concurrency :: nat
  ri_parallel_threshold :: nat
  ri_resumable_threshold :: nat
  ri_scheduler_policy :: string
  ri_scheduler_algorithm :: string
  ri_upstream_timeout_seconds :: nat
  ri_stream_fallback_timeout_seconds :: nat
  ri_partial_ttl_seconds :: nat
  ri_max_cache_bytes :: nat
  ri_cache_policy :: string
  ri_cache_high_watermark :: f64
  ri_cache_low_watermark :: f64
  ri_cache_ttl_seconds :: "nat option"
  ri_public_bearer_cache_enabled :: bool
  ri_health_interval_seconds :: nat
  ri_max_export_bytes :: nat
  ri_export_ttl_seconds :: nat
  ri_pull_logging_enabled :: bool
  ri_pull_log_retention_days :: nat
  ri_pull_log_max_entries :: nat

text \<open>The widths of the struct's fields: every number is a \<open>u64\<close>.\<close>

definition input_fits :: "runtime_settings_input \<Rightarrow> bool" where
  "input_fits i \<longleftrightarrow>
     list_all (\<lambda>n. n \<le> u64_max)
       ([ri_chunk_size i, ri_chunk_concurrency i, ri_parallel_threshold i, ri_resumable_threshold i,
         ri_upstream_timeout_seconds i, ri_stream_fallback_timeout_seconds i, ri_partial_ttl_seconds i,
         ri_max_cache_bytes i, ri_health_interval_seconds i, ri_max_export_bytes i, ri_export_ttl_seconds i,
         ri_pull_log_retention_days i, ri_pull_log_max_entries i]
        @ (case ri_cache_ttl_seconds i of None \<Rightarrow> [] | Some n \<Rightarrow> [n]))"

section \<open>Handlers\<close>

definition f64_in :: "f64 \<Rightarrow> f64 \<Rightarrow> f64 \<Rightarrow> bool" where
  "f64_in lo hi x \<longleftrightarrow> f64_le lo x \<and> f64_le x hi"

definition nat_in :: "nat \<Rightarrow> nat \<Rightarrow> nat \<Rightarrow> bool" where
  "nat_in lo hi x \<longleftrightarrow> lo \<le> x \<and> x \<le> hi"

definition validate_runtime_settings :: "runtime_settings_input \<Rightarrow> unit api_result" where
  "validate_runtime_settings i =
     (if \<not> nat_in (256 * 1024) (32 * 1024 * 1024) (ri_chunk_size i)
         \<or> \<not> nat_in 1 64 (ri_chunk_concurrency i)
         \<or> \<not> nat_in (1024 * 1024) u64_max (ri_parallel_threshold i)
         \<or> \<not> nat_in (1024 * 1024) u64_max (ri_resumable_threshold i)
         \<or> \<not> nat_in 1 3600 (ri_upstream_timeout_seconds i)
         \<or> \<not> nat_in 1 3600 (ri_stream_fallback_timeout_seconds i)
         \<or> \<not> nat_in 60 (7 * 24 * 3600) (ri_partial_ttl_seconds i)
         \<or> \<not> nat_in (64 * 1024 * 1024) u64_max (ri_max_cache_bytes i)
         \<or> \<not> f64_in (f64_const (1 / 2)) (f64_const 1) (ri_cache_high_watermark i)
         \<or> \<not> f64_in (f64_const (1 / 10)) (f64_const (99 / 100)) (ri_cache_low_watermark i)
         \<or> f64_le (ri_cache_high_watermark i) (ri_cache_low_watermark i)
         \<or> \<not> nat_in 1 86400 (ri_health_interval_seconds i)
         \<or> ri_max_export_bytes i < 64 * 1024 * 1024
         \<or> \<not> nat_in 60 (365 * 24 * 3600) (ri_export_ttl_seconds i)
         \<or> \<not> nat_in 1 3650 (ri_pull_log_retention_days i)
         \<or> \<not> nat_in 100 1000000 (ri_pull_log_max_entries i)
      then Inl (BadRequest ''runtime settings are out of range'')
      else if ri_scheduler_policy i \<notin> {''balanced'', ''speed-first''}
         \<or> ri_scheduler_algorithm i \<notin> {''current-balanced'', ''projected-completion''}
         \<or> ri_cache_policy i \<notin> {''balanced'', ''lru'', ''lfu''}
      then Inl (BadRequest ''runtime settings contain an invalid policy'')
      else Inr ())"

definition runtime_setting_values ::
  "'u text_forms \<Rightarrow> runtime_settings_input \<Rightarrow> (string \<times> string) list" where
  "runtime_setting_values tf i =
     [(''chunk_size'', nat_text (ri_chunk_size i)),
      (''adaptive_chunking_enabled'', bool_text (ri_adaptive_chunking_enabled i)),
      (''automatic_concurrency_enabled'', bool_text (ri_automatic_concurrency_enabled i)),
      (''chunk_concurrency'', nat_text (ri_chunk_concurrency i)),
      (''parallel_threshold'', nat_text (ri_parallel_threshold i)),
      (''resumable_threshold'', nat_text (ri_resumable_threshold i)),
      (''scheduler_policy'', ri_scheduler_policy i),
      (''scheduler_algorithm'', ri_scheduler_algorithm i),
      (''upstream_timeout_seconds'', nat_text (ri_upstream_timeout_seconds i)),
      (''stream_fallback_timeout_seconds'', nat_text (ri_stream_fallback_timeout_seconds i)),
      (''partial_ttl_seconds'', nat_text (ri_partial_ttl_seconds i)),
      (''max_cache_bytes'', nat_text (ri_max_cache_bytes i)),
      (''cache_policy'', ri_cache_policy i),
      (''cache_high_watermark'', tf_f64_text tf (ri_cache_high_watermark i)),
      (''cache_low_watermark'', tf_f64_text tf (ri_cache_low_watermark i)),
      (''cache_ttl_seconds'', nat_text (case ri_cache_ttl_seconds i of None \<Rightarrow> 0 | Some n \<Rightarrow> n)),
      (''public_bearer_cache_enabled'', bool_text (ri_public_bearer_cache_enabled i)),
      (''health_interval_seconds'', nat_text (ri_health_interval_seconds i)),
      (''max_export_bytes'', nat_text (ri_max_export_bytes i)),
      (''export_ttl_seconds'', nat_text (ri_export_ttl_seconds i)),
      (''pull_logging_enabled'', bool_text (ri_pull_logging_enabled i)),
      (''pull_log_retention_days'', nat_text (ri_pull_log_retention_days i)),
      (''pull_log_max_entries'', nat_text (ri_pull_log_max_entries i))]"

text \<open>\<open>INSERT ... ON CONFLICT(key) DO UPDATE\<close> and the transaction that replaces all rows.\<close>

fun upsert_setting :: "string \<times> string \<Rightarrow> (string \<times> string) list \<Rightarrow> (string \<times> string) list" where
  "upsert_setting r [] = [r]"
| "upsert_setting r (t # ts) = (if fst t = fst r then r # ts else t # upsert_setting r ts)"

definition replace_runtime_settings ::
  "(string \<times> string) list \<Rightarrow> (string \<times> string) list \<Rightarrow> (string \<times> string) list" where
  "replace_runtime_settings settings table = fold upsert_setting settings []"

definition load_runtime_settings :: "(string \<times> string) list \<Rightarrow> (string \<times> string) list" where
  "load_runtime_settings table = table"

definition persist_runtime ::
  "'u text_forms \<Rightarrow> runtime_settings_input \<Rightarrow> (string \<times> string) list
     \<Rightarrow> (string \<times> string) list \<times> unit api_result" where
  "persist_runtime tf i table =
     (case validate_runtime_settings i of
        Inl e \<Rightarrow> (table, Inl e)
      | Inr _ \<Rightarrow> (replace_runtime_settings (runtime_setting_values tf i) table, Inr ()))"

definition config_error_text :: "config_error \<Rightarrow> string" where
  "config_error_text e =
     (case e of Invalid key \<Rightarrow> ''invalid '' @ key | Bail m \<Rightarrow> m | Parse_Error v \<Rightarrow> ''invalid value '' @ v)"

definition effective_config ::
  "'u text_forms \<Rightarrow> config \<Rightarrow> (string \<times> string) list \<Rightarrow> config api_result" where
  "effective_config tf config table =
     (case apply_runtime_overrides tf (load_runtime_settings table) config of
        Inl e \<Rightarrow> Inl (Internal (config_error_text e)) | Inr c \<Rightarrow> Inr c)"

text \<open>\<open>update_runtime\<close> up to the configuration it applies to the running components.\<close>

definition update_runtime ::
  "'u text_forms \<Rightarrow> config \<Rightarrow> runtime_settings_input \<Rightarrow> (string \<times> string) list
     \<Rightarrow> (string \<times> string) list \<times> config api_result" where
  "update_runtime tf config i table =
     (case persist_runtime tf i table of
        (table', Inl e) \<Rightarrow> (table', Inl e)
      | (table', Inr _) \<Rightarrow> (table', effective_config tf config table'))"

text \<open>The settings of \<open>export_runtime\<close>, read back from a configuration; \<open>as_secs\<close> drops the fraction.\<close>

definition as_secs :: "duration \<Rightarrow> nat" where
  "as_secs d = d div SECOND"

definition exported_settings :: "config \<Rightarrow> runtime_settings_input" where
  "exported_settings c =
     \<lparr>ri_chunk_size = cf_chunk_size c,
      ri_adaptive_chunking_enabled = cf_adaptive_chunking_enabled c,
      ri_automatic_concurrency_enabled = cf_automatic_concurrency_enabled c,
      ri_chunk_concurrency = cf_chunk_concurrency c,
      ri_parallel_threshold = cf_parallel_threshold c,
      ri_resumable_threshold = cf_resumable_threshold c,
      ri_scheduler_policy = scheduler_policy_display (cf_scheduler_policy c),
      ri_scheduler_algorithm = cf_scheduler_algorithm c,
      ri_upstream_timeout_seconds = as_secs (cf_upstream_timeout c),
      ri_stream_fallback_timeout_seconds = as_secs (cf_stream_fallback_timeout c),
      ri_partial_ttl_seconds = as_secs (cf_partial_ttl c),
      ri_max_cache_bytes = cf_max_cache_bytes c,
      ri_cache_policy = cache_policy_display (cf_cache_policy c),
      ri_cache_high_watermark = cf_cache_high_watermark c,
      ri_cache_low_watermark = cf_cache_low_watermark c,
      ri_cache_ttl_seconds = map_option as_secs (cf_cache_ttl c),
      ri_public_bearer_cache_enabled = cf_public_bearer_cache_enabled c,
      ri_health_interval_seconds = as_secs (cf_health_interval c),
      ri_max_export_bytes = cf_max_export_bytes c,
      ri_export_ttl_seconds = as_secs (cf_export_ttl c),
      ri_pull_logging_enabled = cf_pull_logging_enabled c,
      ri_pull_log_retention_days = cf_pull_log_retention_days c,
      ri_pull_log_max_entries = cf_pull_log_max_entries c\<rparr>"

section \<open>Lemmas\<close>

lemma upsert_new: "r \<notin> fst ` set ts \<Longrightarrow> upsert_setting (r, v) ts = ts @ [(r, v)]"
  by (induction ts) auto

lemma fold_upsert_distinct:
  "distinct (map fst (ts @ rs)) \<Longrightarrow> fold upsert_setting rs ts = ts @ rs"
proof (induction rs arbitrary: ts)
  case (Cons r rs)
  obtain k v where r: "r = (k, v)" by fastforce
  with Cons.prems have "upsert_setting r ts = ts @ [r]" by (simp add: upsert_new)
  with Cons.IH [of "ts @ [r]"] Cons.prems show ?case by simp
qed simp

lemma replace_values: "replace_runtime_settings (runtime_setting_values tf i) table = runtime_setting_values tf i"
  unfolding replace_runtime_settings_def
  by (subst fold_upsert_distinct) (simp_all add: runtime_setting_values_def)

lemma as_secs_SECOND [simp]: "as_secs (n * SECOND) = n"
  by (simp add: as_secs_def SECOND_def)

lemma apply_setting_rows:
  "u64_parse v = Some n0 \<Longrightarrow> apply_setting tf (''chunk_size'', v) c = Inr (c\<lparr>cf_chunk_size := n0\<rparr>)"
  "bool_parse v = Some n1 \<Longrightarrow> apply_setting tf (''adaptive_chunking_enabled'', v) c = Inr (c\<lparr>cf_adaptive_chunking_enabled := n1\<rparr>)"
  "bool_parse v = Some n2 \<Longrightarrow> apply_setting tf (''automatic_concurrency_enabled'', v) c = Inr (c\<lparr>cf_automatic_concurrency_enabled := n2\<rparr>)"
  "u64_parse v = Some n3 \<Longrightarrow> apply_setting tf (''chunk_concurrency'', v) c = Inr (c\<lparr>cf_chunk_concurrency := n3\<rparr>)"
  "u64_parse v = Some n4 \<Longrightarrow> apply_setting tf (''parallel_threshold'', v) c = Inr (c\<lparr>cf_parallel_threshold := n4\<rparr>)"
  "u64_parse v = Some n5 \<Longrightarrow> apply_setting tf (''resumable_threshold'', v) c = Inr (c\<lparr>cf_resumable_threshold := n5\<rparr>)"
  "u64_parse v = Some n6 \<Longrightarrow> apply_setting tf (''upstream_timeout_seconds'', v) c = Inr (c\<lparr>cf_upstream_timeout := n6 * SECOND\<rparr>)"
  "u64_parse v = Some n7 \<Longrightarrow> apply_setting tf (''stream_fallback_timeout_seconds'', v) c = Inr (c\<lparr>cf_stream_fallback_timeout := n7 * SECOND\<rparr>)"
  "u64_parse v = Some n8 \<Longrightarrow> apply_setting tf (''partial_ttl_seconds'', v) c = Inr (c\<lparr>cf_partial_ttl := n8 * SECOND\<rparr>)"
  "u64_parse v = Some n9 \<Longrightarrow> apply_setting tf (''max_cache_bytes'', v) c = Inr (c\<lparr>cf_max_cache_bytes := n9\<rparr>)"
  "tf_f64_parse tf v = Some n10 \<Longrightarrow> apply_setting tf (''cache_high_watermark'', v) c = Inr (c\<lparr>cf_cache_high_watermark := n10\<rparr>)"
  "tf_f64_parse tf v = Some n11 \<Longrightarrow> apply_setting tf (''cache_low_watermark'', v) c = Inr (c\<lparr>cf_cache_low_watermark := n11\<rparr>)"
  "u64_parse v = Some n12 \<Longrightarrow> apply_setting tf (''cache_ttl_seconds'', v) c = Inr (c\<lparr>cf_cache_ttl := ttl_of_secs n12\<rparr>)"
  "bool_parse v = Some n13 \<Longrightarrow> apply_setting tf (''public_bearer_cache_enabled'', v) c = Inr (c\<lparr>cf_public_bearer_cache_enabled := n13\<rparr>)"
  "u64_parse v = Some n14 \<Longrightarrow> apply_setting tf (''health_interval_seconds'', v) c = Inr (c\<lparr>cf_health_interval := n14 * SECOND\<rparr>)"
  "u64_parse v = Some n15 \<Longrightarrow> apply_setting tf (''max_export_bytes'', v) c = Inr (c\<lparr>cf_max_export_bytes := n15\<rparr>)"
  "u64_parse v = Some n16 \<Longrightarrow> apply_setting tf (''export_ttl_seconds'', v) c = Inr (c\<lparr>cf_export_ttl := n16 * SECOND\<rparr>)"
  "bool_parse v = Some n17 \<Longrightarrow> apply_setting tf (''pull_logging_enabled'', v) c = Inr (c\<lparr>cf_pull_logging_enabled := n17\<rparr>)"
  "u64_parse v = Some n18 \<Longrightarrow> apply_setting tf (''pull_log_retention_days'', v) c = Inr (c\<lparr>cf_pull_log_retention_days := n18\<rparr>)"
  "u64_parse v = Some n19 \<Longrightarrow> apply_setting tf (''pull_log_max_entries'', v) c = Inr (c\<lparr>cf_pull_log_max_entries := n19\<rparr>)"
  by (simp_all add: apply_setting_def parsed_def)

text \<open>The policies a validated input can name.\<close>

definition policy_of :: "string \<Rightarrow> scheduler_policy" where
  "policy_of s = (if s = ''balanced'' then Balanced else SpeedFirst)"

definition cache_policy_of :: "string \<Rightarrow> cache_policy" where
  "cache_policy_of s = (if s = ''balanced'' then CacheBalanced else if s = ''lru'' then Lru else Lfu)"

lemma apply_setting_policies:
  "p \<in> {''balanced'', ''speed-first''} \<Longrightarrow>
     apply_setting tf (''scheduler_policy'', p) c = Inr (c\<lparr>cf_scheduler_policy := policy_of p\<rparr>)"
  "a \<in> {''current-balanced'', ''projected-completion''} \<Longrightarrow>
     apply_setting tf (''scheduler_algorithm'', a) c = Inr (c\<lparr>cf_scheduler_algorithm := a\<rparr>)"
  "q \<in> {''balanced'', ''lru'', ''lfu''} \<Longrightarrow>
     apply_setting tf (''cache_policy'', q) c = Inr (c\<lparr>cf_cache_policy := cache_policy_of q\<rparr>)"
  by (auto simp: apply_setting_def policy_of_def cache_policy_of_def)

lemma policy_text:
  "p \<in> {''balanced'', ''speed-first''} \<Longrightarrow> scheduler_policy_display (policy_of p) = p"
  "q \<in> {''balanced'', ''lru'', ''lfu''} \<Longrightarrow> cache_policy_display (cache_policy_of q) = q"
  by (auto simp: policy_of_def cache_policy_of_def)

lemma validate_ok:
  "validate_runtime_settings i = Inr () \<longleftrightarrow>
     nat_in (256 * 1024) (32 * 1024 * 1024) (ri_chunk_size i) \<and> nat_in 1 64 (ri_chunk_concurrency i)
     \<and> nat_in (1024 * 1024) u64_max (ri_parallel_threshold i)
     \<and> nat_in (1024 * 1024) u64_max (ri_resumable_threshold i)
     \<and> nat_in 1 3600 (ri_upstream_timeout_seconds i) \<and> nat_in 1 3600 (ri_stream_fallback_timeout_seconds i)
     \<and> nat_in 60 (7 * 24 * 3600) (ri_partial_ttl_seconds i)
     \<and> nat_in (64 * 1024 * 1024) u64_max (ri_max_cache_bytes i)
     \<and> f64_in (f64_const (1 / 2)) (f64_const 1) (ri_cache_high_watermark i)
     \<and> f64_in (f64_const (1 / 10)) (f64_const (99 / 100)) (ri_cache_low_watermark i)
     \<and> \<not> f64_le (ri_cache_high_watermark i) (ri_cache_low_watermark i)
     \<and> nat_in 1 86400 (ri_health_interval_seconds i) \<and> 64 * 1024 * 1024 \<le> ri_max_export_bytes i
     \<and> nat_in 60 (365 * 24 * 3600) (ri_export_ttl_seconds i)
     \<and> nat_in 1 3650 (ri_pull_log_retention_days i) \<and> nat_in 100 1000000 (ri_pull_log_max_entries i)
     \<and> ri_scheduler_policy i \<in> {''balanced'', ''speed-first''}
     \<and> ri_scheduler_algorithm i \<in> {''current-balanced'', ''projected-completion''}
     \<and> ri_cache_policy i \<in> {''balanced'', ''lru'', ''lfu''}"
  unfolding validate_runtime_settings_def by (auto simp: not_less)

text \<open>What a validated input makes of a configuration.\<close>

definition with_settings :: "runtime_settings_input \<Rightarrow> config \<Rightarrow> config" where
  "with_settings i c =
     c\<lparr>cf_chunk_size := ri_chunk_size i, cf_adaptive_chunking_enabled := ri_adaptive_chunking_enabled i,
       cf_automatic_concurrency_enabled := ri_automatic_concurrency_enabled i,
       cf_chunk_concurrency := ri_chunk_concurrency i, cf_parallel_threshold := ri_parallel_threshold i,
       cf_resumable_threshold := ri_resumable_threshold i,
       cf_scheduler_policy := policy_of (ri_scheduler_policy i),
       cf_scheduler_algorithm := ri_scheduler_algorithm i,
       cf_upstream_timeout := ri_upstream_timeout_seconds i * SECOND,
       cf_stream_fallback_timeout := ri_stream_fallback_timeout_seconds i * SECOND,
       cf_partial_ttl := ri_partial_ttl_seconds i * SECOND, cf_max_cache_bytes := ri_max_cache_bytes i,
       cf_cache_policy := cache_policy_of (ri_cache_policy i),
       cf_cache_high_watermark := ri_cache_high_watermark i, cf_cache_low_watermark := ri_cache_low_watermark i,
       cf_cache_ttl := map_option (\<lambda>n. n * SECOND) (filter_option (\<lambda>n. 0 < n) (ri_cache_ttl_seconds i)),
       cf_public_bearer_cache_enabled := ri_public_bearer_cache_enabled i,
       cf_health_interval := ri_health_interval_seconds i * SECOND,
       cf_max_export_bytes := ri_max_export_bytes i, cf_export_ttl := ri_export_ttl_seconds i * SECOND,
       cf_pull_logging_enabled := ri_pull_logging_enabled i,
       cf_pull_log_retention_days := ri_pull_log_retention_days i,
       cf_pull_log_max_entries := ri_pull_log_max_entries i\<rparr>"

lemma apply_settings_values:
  assumes "validate_runtime_settings i = Inr ()" and "input_fits i"
    and "tf_f64_parse tf (tf_f64_text tf (ri_cache_high_watermark i)) = Some (ri_cache_high_watermark i)"
    and "tf_f64_parse tf (tf_f64_text tf (ri_cache_low_watermark i)) = Some (ri_cache_low_watermark i)"
  shows "apply_settings tf (runtime_setting_values tf i) c = Inr (with_settings i c)"
proof -
  have fits: "ri_chunk_size i \<le> u64_max" "ri_chunk_concurrency i \<le> u64_max"
    "ri_parallel_threshold i \<le> u64_max" "ri_resumable_threshold i \<le> u64_max"
    "ri_upstream_timeout_seconds i \<le> u64_max" "ri_stream_fallback_timeout_seconds i \<le> u64_max"
    "ri_partial_ttl_seconds i \<le> u64_max" "ri_max_cache_bytes i \<le> u64_max"
    "ri_health_interval_seconds i \<le> u64_max" "ri_max_export_bytes i \<le> u64_max"
    "ri_export_ttl_seconds i \<le> u64_max" "ri_pull_log_retention_days i \<le> u64_max"
    "ri_pull_log_max_entries i \<le> u64_max"
    and ttl: "(case ri_cache_ttl_seconds i of None \<Rightarrow> 0 | Some n \<Rightarrow> n) \<le> u64_max"
    using assms(2) by (auto simp: input_fits_def split: option.splits)
  have "ttl_of_secs (case ri_cache_ttl_seconds i of None \<Rightarrow> 0 | Some n \<Rightarrow> n)
    = map_option (\<lambda>n. n * SECOND) (filter_option (\<lambda>n. 0 < n) (ri_cache_ttl_seconds i))"
    by (simp add: filter_option_def ttl_of_secs_def split: option.splits)
  with assms(1) fits ttl assms(3,4) show ?thesis
    unfolding runtime_setting_values_def validate_ok
    by (simp only: apply_settings.simps apply_setting_rows apply_setting_policies u64_parse_text
        bool_parse_text result_bind_Inr with_settings_def)
qed

lemma settings_in_range_with:
  "validate_runtime_settings i = Inr () \<Longrightarrow> settings_in_range (with_settings i c)"
  unfolding validate_ok settings_in_range_def with_settings_def
  by (simp add: nat_in_def SECOND_def)

lemma exported_with_settings:
  assumes "validate_runtime_settings i = Inr ()"
  shows "exported_settings (with_settings i c) =
    i\<lparr>ri_cache_ttl_seconds := filter_option (\<lambda>n. 0 < n) (ri_cache_ttl_seconds i)\<rparr>"
proof -
  have "map_option as_secs (map_option (\<lambda>n. n * SECOND) x) = x" for x by (cases x) simp_all
  with assms policy_text show ?thesis
    unfolding validate_ok by (simp add: exported_settings_def with_settings_def)
qed

lemma validate_ttl: "validate_runtime_settings (i\<lparr>ri_cache_ttl_seconds := t\<rparr>) = validate_runtime_settings i"
  by (simp add: validate_runtime_settings_def)

lemma effective_config_values:
  assumes "validate_runtime_settings i = Inr ()" and "input_fits i"
    and "tf_f64_parse tf (tf_f64_text tf (ri_cache_high_watermark i)) = Some (ri_cache_high_watermark i)"
    and "tf_f64_parse tf (tf_f64_text tf (ri_cache_low_watermark i)) = Some (ri_cache_low_watermark i)"
  shows "effective_config tf c (runtime_setting_values tf i) = Inr (with_settings i c)"
proof -
  have "\<not> f64_le (cf_cache_high_watermark (with_settings i c)) (cf_cache_low_watermark (with_settings i c))"
    using assms(1) unfolding validate_ok by (simp add: with_settings_def)
  then show ?thesis
    using assms apply_settings_values [OF assms] settings_in_range_with [OF assms(1)]
    by (simp add: effective_config_def apply_runtime_overrides_def load_runtime_settings_def)
qed

text \<open>A concrete input.\<close>

definition sample_settings :: runtime_settings_input where
  "sample_settings =
     \<lparr>ri_chunk_size = 2097152, ri_adaptive_chunking_enabled = True, ri_automatic_concurrency_enabled = False,
      ri_chunk_concurrency = 8, ri_parallel_threshold = 8388608, ri_resumable_threshold = 8388608,
      ri_scheduler_policy = ''speed-first'', ri_scheduler_algorithm = ''projected-completion'',
      ri_upstream_timeout_seconds = 30, ri_stream_fallback_timeout_seconds = 10, ri_partial_ttl_seconds = 3600,
      ri_max_cache_bytes = 1073741824, ri_cache_policy = ''lru'', ri_cache_high_watermark = f64_const 1,
      ri_cache_low_watermark = f64_const (1 / 2), ri_cache_ttl_seconds = Some 0,
      ri_public_bearer_cache_enabled = False, ri_health_interval_seconds = 60, ri_max_export_bytes = 1073741824,
      ri_export_ttl_seconds = 604800, ri_pull_logging_enabled = True, ri_pull_log_retention_days = 30,
      ri_pull_log_max_entries = 10000\<rparr>"

section \<open>Properties\<close>

text \<open>
  C38: Runtime settings survive a restart. When the administration interface accepts settings, it persists
  them as text, and reading the table back succeeds with whatever environment configuration the process
  starts from: the configuration then exports exactly the accepted settings, with a zero cache lifetime
  meaning none, it is within the documented ranges, the exported settings are accepted again, and the
  settings that are not runtime settings are those of the environment.
\<close>

theorem settings_survive_restart:
  assumes "validate_runtime_settings i = Inr ()" and "input_fits i"
    and "tf_f64_parse tf (tf_f64_text tf (ri_cache_high_watermark i)) = Some (ri_cache_high_watermark i)"
    and "tf_f64_parse tf (tf_f64_text tf (ri_cache_low_watermark i)) = Some (ri_cache_low_watermark i)"
  shows "\<exists>rows. fst (update_runtime tf c i table) = rows \<and> persist_runtime tf i table = (rows, Inr ())
    \<and> (\<forall>base. \<exists>c'. effective_config tf base rows = Inr c'
         \<and> exported_settings c' = i\<lparr>ri_cache_ttl_seconds := filter_option (\<lambda>n. 0 < n) (ri_cache_ttl_seconds i)\<rparr>
         \<and> validate_runtime_settings (exported_settings c') = Inr () \<and> settings_in_range c'
         \<and> cf_allow_private_upstreams c' = cf_allow_private_upstreams base
         \<and> cf_allow_insecure_upstreams c' = cf_allow_insecure_upstreams base
         \<and> cf_registry_auth c' = cf_registry_auth base \<and> cf_admin_auth c' = cf_admin_auth base
         \<and> cf_tls_cert c' = cf_tls_cert base \<and> cf_admin_addr c' = cf_admin_addr base)"
proof -
  let ?rows = "runtime_setting_values tf i"
  have persist: "persist_runtime tf i table = (?rows, Inr ())"
    using assms(1) by (simp add: persist_runtime_def replace_values)
  then have "fst (update_runtime tf c i table) = ?rows" by (simp add: update_runtime_def)
  moreover have "validate_runtime_settings (exported_settings (with_settings i base)) = Inr ()" for base
    using assms(1) by (simp add: exported_with_settings validate_ttl)
  moreover have "cf_allow_private_upstreams (with_settings i base) = cf_allow_private_upstreams base
    \<and> cf_allow_insecure_upstreams (with_settings i base) = cf_allow_insecure_upstreams base
    \<and> cf_registry_auth (with_settings i base) = cf_registry_auth base
    \<and> cf_admin_auth (with_settings i base) = cf_admin_auth base
    \<and> cf_tls_cert (with_settings i base) = cf_tls_cert base
    \<and> cf_admin_addr (with_settings i base) = cf_admin_addr base" for base
    by (simp add: with_settings_def)
  ultimately show ?thesis
    using persist effective_config_values [OF assms] exported_with_settings [OF assms(1)]
      settings_in_range_with [OF assms(1)] by metis
qed

theorem settings_survive_restart_witness:
  "\<exists>rows. persist_runtime sample_forms sample_settings [] = (rows, Inr ())
    \<and> (\<forall>base. \<exists>c'. effective_config sample_forms base rows = Inr c'
         \<and> exported_settings c' = sample_settings\<lparr>ri_cache_ttl_seconds := None\<rparr>)"
proof -
  have ok: "validate_runtime_settings sample_settings = Inr ()"
    unfolding validate_ok f64_in_def sample_settings_def
    by (simp add: nat_in_def u64_max_def f64_const_unit_le) (simp add: f64_half_one f64_signed_def)
  have fits: "input_fits sample_settings" by (simp add: input_fits_def sample_settings_def u64_max_def)
  have high: "tf_f64_parse sample_forms (tf_f64_text sample_forms (ri_cache_high_watermark sample_settings))
      = Some (ri_cache_high_watermark sample_settings)" by (simp add: sample_forms_def sample_settings_def)
  have low: "tf_f64_parse sample_forms (tf_f64_text sample_forms (ri_cache_low_watermark sample_settings))
      = Some (ri_cache_low_watermark sample_settings)"
    by (simp add: sample_forms_def sample_settings_def f64_half_one)
  have "filter_option (\<lambda>n. 0 < n) (ri_cache_ttl_seconds sample_settings) = None"
    by (simp add: sample_settings_def filter_option_def)
  with settings_survive_restart [OF ok fits high low, of undefined "[]"] show ?thesis by metis
qed

end
