(* ===== verification/Registry_Routes.thy ===== *)
theory Registry_Routes
  imports Entities Net_Address
begin

text \<open>
  \<^verbatim>\<open>src/src/registry_routes.rs\<close>: the routes from path prefixes to canonical registries, with the
  constraints the schema of \<^verbatim>\<open>src/src/db.rs\<close> puts on the \<open>registry_routes\<close> table. A statement is one step on
  the tables. Between the queries of an operation and its write other requests may write, so each
  operation takes the tables its queries read besides those it writes to. The authority parser of the
  \<open>http\<close> crate is a parameter: the host and the port of a text.
\<close>

section \<open>Data\<close>

datatype repository_mode = DockerHubLibrary | Passthrough

definition repository_mode_parse :: "string \<Rightarrow> repository_mode api_result" where
  "repository_mode_parse value =
     (if value = ''docker_hub_library'' then Inr DockerHubLibrary
      else if value = ''passthrough'' then Inr Passthrough
      else Inl (BadRequest ''unsupported repository mode''))"

fun repository_mode_as_str :: "repository_mode \<Rightarrow> string" where
  "repository_mode_as_str DockerHubLibrary = ''docker_hub_library''"
| "repository_mode_as_str Passthrough = ''passthrough''"

definition DOCKER_HUB_ROUTE_ID :: uuid where
  "DOCKER_HUB_ROUTE_ID = 0x4f6a9e7b2d174b6a9b4f7e76b8d8a001"

definition GHCR_ROUTE_ID :: uuid where
  "GHCR_ROUTE_ID = 0x4f6a9e7b2d174b6a9b4f7e76b8d8a002"

definition DOCKER_HUB_ROUTE_KEY :: string where
  "DOCKER_HUB_ROUTE_KEY = ''dockerhub''"

definition GHCR_ROUTE_KEY :: string where
  "GHCR_ROUTE_KEY = ''ghcr''"

record registry_route_input =
  in_key :: string
  in_name :: string
  in_canonical_registry :: string
  in_path_prefix :: "string option"
  in_repository_mode :: string
  in_is_default :: bool
  in_enabled :: bool

record normalized_route_input =
  nr_key :: string
  nr_name :: string
  nr_canonical_registry :: string
  nr_path_prefix :: "string option"
  nr_repository_mode :: repository_mode
  nr_is_default :: bool
  nr_enabled :: bool

record pull_event =
  pe_id :: uuid
  pe_registry_route_id :: uuid
  pe_repository :: string
  pe_reference :: string
  pe_resolved_digest :: "string option"
  pe_status_code :: int
  pe_created_at :: timestamp

text \<open>The tables around the routes: the nodes and the pull events refer to them.\<close>

record route_tables =
  rt_routes :: "registry_route list"
  rt_nodes :: "node_model list"
  rt_pulls :: "pull_event list"

section \<open>Constraint errors\<close>

text \<open>A database error by the class \<open>sql_err\<close> puts it in, and \<open>AppError::map_constraint\<close>.\<close>

datatype db_error = UniqueConstraintViolation | ForeignKeyConstraintViolation | OtherDbErr string

fun map_constraint :: "string \<Rightarrow> string \<Rightarrow> db_error \<Rightarrow> app_error" where
  "map_constraint unique_message foreign_key_message UniqueConstraintViolation = Conflict unique_message"
| "map_constraint unique_message foreign_key_message ForeignKeyConstraintViolation = Conflict foreign_key_message"
| "map_constraint unique_message foreign_key_message (OtherDbErr e) = Database e"

section \<open>Normalisation\<close>

definition identifier_char :: "char \<Rightarrow> bool" where
  "identifier_char b \<longleftrightarrow> is_ascii_lowercase b \<or> is_ascii_digit b \<or> b = CHR ''-'' \<or> b = CHR ''_''"

definition normalize_identifier :: "string \<Rightarrow> string \<Rightarrow> string api_result" where
  "normalize_identifier value label =
     (let normalized = to_ascii_lowercase (trim value);
          valid_first = (case normalized of [] \<Rightarrow> False | b # _ \<Rightarrow> is_ascii_alphanumeric b)
      in
      if \<not> valid_first \<or> 32 < length normalized \<or> \<not> list_all identifier_char (tl normalized)
      then Inl (BadRequest (label @ '' must match [a-z0-9][a-z0-9_-]{0,31}''))
      else Inr normalized)"

type_synonym authority_parser = "string \<Rightarrow> (string \<times> nat option) option"

definition valid_label :: "string \<Rightarrow> bool" where
  "valid_label label \<longleftrightarrow>
     label \<noteq> [] \<and> length label \<le> 63 \<and> is_ascii_alphanumeric (hd label) \<and> is_ascii_alphanumeric (List.last label)
     \<and> list_all (\<lambda>b. is_ascii_alphanumeric b \<or> b = CHR ''-'') label"

definition valid_registry_host :: "string \<Rightarrow> bool" where
  "valid_registry_host host =
     (case Option.bind (strip_prefix ''['' host) (strip_suffix '']'') of
        Some inner \<Rightarrow> parse_ipv6 inner \<noteq> None
      | None \<Rightarrow>
          parse_ipv4 host \<noteq> None
          \<or> host \<noteq> [] \<and> length host \<le> 253 \<and> list_all valid_label (split_char CHR ''.'' host))"

definition AUTHORITY_ERROR :: app_error where
  "AUTHORITY_ERROR = BadRequest ''canonical Registry must be a lowercase host[:port] with no scheme or path''"

definition is_ascii_whitespace :: "char \<Rightarrow> bool" where
  "is_ascii_whitespace c \<longleftrightarrow> is_whitespace c \<and> c \<noteq> CHR 0x0B"

definition normalize_registry_authority :: "authority_parser \<Rightarrow> string \<Rightarrow> string api_result" where
  "normalize_registry_authority parse value =
     (let normalized = to_ascii_lowercase (trim value) in
      if normalized = [] \<or> 261 < length normalized
         \<or> list_ex (\<lambda>b. is_ascii_whitespace b \<or> b \<in> set ''/?#@'') normalized
      then Inl AUTHORITY_ERROR
      else case parse normalized of
        None \<Rightarrow> Inl AUTHORITY_ERROR
      | Some (host, port) \<Rightarrow>
          if port = Some 0 \<or> \<not> valid_registry_host host then Inl AUTHORITY_ERROR
          else Inr (if normalized \<in> {''docker.io'', ''index.docker.io'', ''registry-1.docker.io''}
                    then ''docker.io'' else normalized))"

definition normalize_prefix :: "string option \<Rightarrow> string option api_result" where
  "normalize_prefix prefix =
     (case prefix of
        None \<Rightarrow> Inr None
      | Some value \<Rightarrow>
          if trim value = [] then Inr None
          else result_bind (normalize_identifier (trim value) ''Registry route path prefix'') (\<lambda>v. Inr (Some v)))"

definition normalize_input ::
  "authority_parser \<Rightarrow> registry_route_input \<Rightarrow> normalized_route_input api_result" where
  "normalize_input parse input =
     result_bind (normalize_identifier (in_key input) ''Registry route key'') (\<lambda>key.
     let name = trim (in_name input) in
     if name = [] \<or> 80 < length name then Inl (BadRequest ''name must be between 1 and 80 characters'')
     else
     result_bind (normalize_registry_authority parse (in_canonical_registry input)) (\<lambda>canonical_registry.
     result_bind (normalize_prefix (in_path_prefix input)) (\<lambda>path_prefix.
     if in_is_default input \<noteq> (path_prefix = None)
     then Inl (BadRequest ''only the default Registry route may omit a path prefix'')
     else
     result_bind (repository_mode_parse (in_repository_mode input)) (\<lambda>mode.
       Inr \<lparr>nr_key = key, nr_name = name, nr_canonical_registry = canonical_registry,
            nr_path_prefix = path_prefix, nr_repository_mode = mode, nr_is_default = in_is_default input,
            nr_enabled = in_enabled input\<rparr>))))"

section \<open>Statements\<close>

definition find_route :: "uuid \<Rightarrow> route_tables \<Rightarrow> registry_route option" where
  "find_route route_id T = find (\<lambda>r. rr_id r = route_id) (rt_routes T)"

text \<open>The primary key, the unique key and the two partial unique indexes.\<close>

definition clashes :: "registry_route \<Rightarrow> registry_route \<Rightarrow> bool" where
  "clashes r s \<longleftrightarrow>
     rr_id r = rr_id s \<or> rr_key r = rr_key s
     \<or> rr_path_prefix r \<noteq> None \<and> rr_path_prefix r = rr_path_prefix s
     \<or> rr_is_default r \<and> rr_is_default s"

definition insert_route :: "registry_route \<Rightarrow> route_tables \<Rightarrow> route_tables \<times> (db_error + unit)" where
  "insert_route r T =
     (if list_ex (clashes r) (rt_routes T) then (T, Inl UniqueConstraintViolation)
      else (T\<lparr>rt_routes := rt_routes T @ [r]\<rparr>, Inr ()))"

definition update_route :: "registry_route \<Rightarrow> route_tables \<Rightarrow> route_tables \<times> (db_error + registry_route)" where
  "update_route r T =
     (case find_route (rr_id r) T of
        None \<Rightarrow> (T, Inl (OtherDbErr ''None of the records are updated''))
      | Some old \<Rightarrow>
          let new = r\<lparr>rr_created_at := rr_created_at old\<rparr> in
          if list_ex (\<lambda>s. rr_id s \<noteq> rr_id r \<and> clashes new s) (rt_routes T)
          then (T, Inl UniqueConstraintViolation)
          else (T\<lparr>rt_routes := map (\<lambda>s. if rr_id s = rr_id r then new else s) (rt_routes T)\<rparr>, Inr new))"

text \<open>The foreign key of the nodes restricts the deletion; the trigger removes the route's pull events.\<close>

definition delete_route_row :: "uuid \<Rightarrow> route_tables \<Rightarrow> route_tables \<times> (db_error + nat)" where
  "delete_route_row route_id T =
     (if list_ex (\<lambda>r. rr_id r = route_id) (rt_routes T) then
        if list_ex (\<lambda>n. nd_registry_route_id n = route_id) (rt_nodes T)
        then (T, Inl ForeignKeyConstraintViolation)
        else (T\<lparr>rt_routes := filter (\<lambda>r. rr_id r \<noteq> route_id) (rt_routes T),
               rt_pulls := filter (\<lambda>e. pe_registry_route_id e \<noteq> route_id) (rt_pulls T)\<rparr>, Inr 1)
      else (T, Inr 0))"

definition count_nodes_for_route :: "uuid \<Rightarrow> route_tables \<Rightarrow> nat" where
  "count_nodes_for_route route_id T = length (filter (\<lambda>n. nd_registry_route_id n = route_id) (rt_nodes T))"

section \<open>The service\<close>

type_synonym registry_route_view = registry_route

definition route_view :: "registry_route \<Rightarrow> registry_route_view" where
  "route_view r = r"

definition route_summary :: "registry_route \<Rightarrow> registry_route_summary" where
  "route_summary r =
     \<lparr>rs_id = rr_id r, rs_key = rr_key r, rs_name = rr_name r, rs_canonical_registry = rr_canonical_registry r,
      rs_path_prefix = rr_path_prefix r, rs_repository_mode = rr_repository_mode r, rs_enabled = rr_enabled r\<rparr>"

definition list_routes :: "route_tables \<Rightarrow> registry_route_view list" where
  "list_routes T =
     map route_view (sort_by (then_with (\<lambda>a b. rr_is_default b \<le> rr_is_default a) (\<lambda>a b. rr_key a \<le> rr_key b))
       (rt_routes T))"

definition get_route :: "uuid \<Rightarrow> route_tables \<Rightarrow> registry_route api_result" where
  "get_route route_id T = ok_or (NotFound ''Registry route'') (find_route route_id T)"

definition by_path_prefix :: "string \<Rightarrow> route_tables \<Rightarrow> registry_route option" where
  "by_path_prefix prefix T = find (\<lambda>r. rr_path_prefix r = Some prefix) (rt_routes T)"

definition default_route :: "route_tables \<Rightarrow> registry_route api_result" where
  "default_route T =
     ok_or (Unavailable ''default Registry route is not configured'') (find rr_is_default (rt_routes T))"

definition ROUTE_CONFIGURATION_CONFLICT :: string where
  "ROUTE_CONFIGURATION_CONFLICT = ''Registry route conflicts with existing configuration''"

definition ROUTE_IN_USE_CONFLICT :: string where
  "ROUTE_IN_USE_CONFLICT = ''Registry route is in use by one or more nodes''"

definition map_route_write_error :: "db_error \<Rightarrow> app_error" where
  "map_route_write_error = map_constraint ROUTE_CONFIGURATION_CONFLICT ''Registry route reference conflict''"

definition reject_conflicts :: "normalized_route_input \<Rightarrow> uuid option \<Rightarrow> route_tables \<Rightarrow> unit api_result" where
  "reject_conflicts input excluding T =
     (let others = filter (\<lambda>r. excluding \<noteq> Some (rr_id r)) (rt_routes T) in
      if list_ex (\<lambda>r. rr_key r = nr_key input) others
      then Inl (Conflict ''Registry route key already exists'')
      else if nr_path_prefix input \<noteq> None \<and> list_ex (\<lambda>r. rr_path_prefix r = nr_path_prefix input) others
      then Inl (Conflict ''Registry route path prefix already exists'')
      else if nr_is_default input \<and> list_ex rr_is_default others
      then Inl (Conflict ''a default Registry route already exists'')
      else Inr ())"

definition route_of_input ::
  "uuid \<Rightarrow> timestamp \<Rightarrow> timestamp \<Rightarrow> normalized_route_input \<Rightarrow> registry_route" where
  "route_of_input route_id created updated input =
     \<lparr>rr_id = route_id, rr_key = nr_key input, rr_name = nr_name input,
      rr_canonical_registry = nr_canonical_registry input, rr_path_prefix = nr_path_prefix input,
      rr_repository_mode = repository_mode_as_str (nr_repository_mode input),
      rr_is_default = nr_is_default input, rr_enabled = nr_enabled input,
      rr_created_at = created, rr_updated_at = updated\<rparr>"

text \<open>\<open>seen\<close> is the state of the tables that the queries read; a fresh UUID and the clock are arguments.\<close>

definition create_route ::
  "authority_parser \<Rightarrow> route_tables \<Rightarrow> uuid \<Rightarrow> timestamp \<Rightarrow> registry_route_input \<Rightarrow> route_tables
     \<Rightarrow> route_tables \<times> registry_route_view api_result" where
  "create_route parse seen fresh now input T =
     (case result_bind (normalize_input parse input) (\<lambda>n.
             result_bind (reject_conflicts n None seen) (\<lambda>_. Inr n)) of
        Inl e \<Rightarrow> (T, Inl e)
      | Inr n \<Rightarrow>
          let route = route_of_input fresh now now n in
          (case insert_route route T of
             (T', Inl e) \<Rightarrow> (T', Inl (map_route_write_error e))
           | (T', Inr _) \<Rightarrow> (T', Inr (route_view route))))"

definition renames_builtin :: "uuid \<Rightarrow> normalized_route_input \<Rightarrow> bool" where
  "renames_builtin route_id n \<longleftrightarrow>
     route_id = DOCKER_HUB_ROUTE_ID \<and> nr_key n \<noteq> DOCKER_HUB_ROUTE_KEY
     \<or> route_id = GHCR_ROUTE_ID \<and> nr_key n \<noteq> GHCR_ROUTE_KEY"

definition update_service_route ::
  "authority_parser \<Rightarrow> route_tables \<Rightarrow> uuid \<Rightarrow> timestamp \<Rightarrow> registry_route_input \<Rightarrow> route_tables
     \<Rightarrow> route_tables \<times> registry_route_view api_result" where
  "update_service_route parse seen route_id now input T =
     (case result_bind (normalize_input parse input) (\<lambda>n.
           result_bind (get_route route_id seen) (\<lambda>route.
             if renames_builtin route_id n
             then Inl (BadRequest ''built-in Registry route keys cannot be changed'')
             else result_bind (reject_conflicts n (Some route_id) seen) (\<lambda>_. Inr (route, n)))) of
        Inl e \<Rightarrow> (T, Inl e)
      | Inr (route, n) \<Rightarrow>
          (case update_route (route_of_input (rr_id route) (rr_created_at route) now n) T of
             (T', Inl e) \<Rightarrow> (T', Inl (map_route_write_error e))
           | (T', Inr r) \<Rightarrow> (T', Inr (route_view r))))"

definition delete_route ::
  "route_tables \<Rightarrow> uuid \<Rightarrow> route_tables \<Rightarrow> route_tables \<times> unit api_result" where
  "delete_route seen route_id T =
     (case get_route route_id seen of
        Inl e \<Rightarrow> (T, Inl e)
      | Inr route \<Rightarrow>
          if route_id \<in> {DOCKER_HUB_ROUTE_ID, GHCR_ROUTE_ID}
          then (T, Inl (BadRequest ''built-in Registry routes may be disabled but not deleted''))
          else if count_nodes_for_route route_id seen \<noteq> 0 then (T, Inl (Conflict ROUTE_IN_USE_CONFLICT))
          else
            (case delete_route_row (rr_id route) T of
               (T', Inl e) \<Rightarrow> (T', Inl (map_constraint ROUTE_CONFIGURATION_CONFLICT ROUTE_IN_USE_CONFLICT e))
             | (T', Inr n) \<Rightarrow> (T', if n = 0 then Inl (NotFound ''Registry route'') else Inr ())))"

definition docker_hub_route :: "timestamp \<Rightarrow> registry_route" where
  "docker_hub_route now =
     \<lparr>rr_id = DOCKER_HUB_ROUTE_ID, rr_key = DOCKER_HUB_ROUTE_KEY, rr_name = ''Docker Hub'',
      rr_canonical_registry = ''docker.io'', rr_path_prefix = None,
      rr_repository_mode = repository_mode_as_str DockerHubLibrary, rr_is_default = True, rr_enabled = True,
      rr_created_at = now, rr_updated_at = now\<rparr>"

definition ghcr_route :: "timestamp \<Rightarrow> registry_route" where
  "ghcr_route now =
     \<lparr>rr_id = GHCR_ROUTE_ID, rr_key = GHCR_ROUTE_KEY, rr_name = ''GitHub Container Registry'',
      rr_canonical_registry = ''ghcr.io'', rr_path_prefix = Some ''ghcr'',
      rr_repository_mode = repository_mode_as_str Passthrough, rr_is_default = False, rr_enabled = True,
      rr_created_at = now, rr_updated_at = now\<rparr>"

definition seed_builtin :: "registry_route \<Rightarrow> route_tables \<Rightarrow> route_tables \<times> (db_error + unit)" where
  "seed_builtin route T =
     (if list_ex (\<lambda>r. rr_key r = rr_key route) (rt_routes T) then (T, Inr ()) else insert_route route T)"

definition seed_builtins :: "timestamp \<Rightarrow> route_tables \<Rightarrow> route_tables \<times> (db_error + unit)" where
  "seed_builtins now T =
     (case seed_builtin (docker_hub_route now) T of
        (T', Inl e) \<Rightarrow> (T', Inl e)
      | (T', Inr _) \<Rightarrow> seed_builtin (ghcr_route now) T')"

section \<open>Operations and their invariant\<close>

datatype route_op =
    CreateRoute route_tables uuid timestamp registry_route_input
  | UpdateRoute route_tables uuid timestamp registry_route_input
  | DeleteRoute route_tables uuid
  | SeedRoutes timestamp

fun route_exec :: "authority_parser \<Rightarrow> route_op \<Rightarrow> route_tables \<Rightarrow> route_tables" where
  "route_exec parse (CreateRoute seen fresh now input) T = fst (create_route parse seen fresh now input T)"
| "route_exec parse (UpdateRoute seen route_id now input) T =
     fst (update_service_route parse seen route_id now input T)"
| "route_exec parse (DeleteRoute seen route_id) T = fst (delete_route seen route_id T)"
| "route_exec parse (SeedRoutes now) T = fst (seed_builtins now T)"

definition no_clash :: "registry_route list \<Rightarrow> bool" where
  "no_clash rs = sorted_wrt (\<lambda>r s. \<not> clashes r s) rs"

definition default_exact :: "registry_route \<Rightarrow> bool" where
  "default_exact r \<longleftrightarrow> (rr_is_default r \<longleftrightarrow> rr_path_prefix r = None)"

definition builtin_key :: "registry_route \<Rightarrow> bool" where
  "builtin_key r \<longleftrightarrow>
     (rr_id r = DOCKER_HUB_ROUTE_ID \<longrightarrow> rr_key r = DOCKER_HUB_ROUTE_KEY)
     \<and> (rr_id r = GHCR_ROUTE_ID \<longrightarrow> rr_key r = GHCR_ROUTE_KEY)"

definition has_route :: "uuid \<Rightarrow> route_tables \<Rightarrow> bool" where
  "has_route route_id T \<longleftrightarrow> route_id \<in> rr_id ` set (rt_routes T)"

definition routes_ok :: "route_tables \<Rightarrow> bool" where
  "routes_ok T \<longleftrightarrow>
     no_clash (rt_routes T) \<and> list_all default_exact (rt_routes T) \<and> list_all builtin_key (rt_routes T)
     \<and> has_route DOCKER_HUB_ROUTE_ID T \<and> has_route GHCR_ROUTE_ID T
     \<and> list_all (\<lambda>n. has_route (nd_registry_route_id n) T) (rt_nodes T)
     \<and> list_all (\<lambda>e. has_route (pe_registry_route_id e) T) (rt_pulls T)"

lemma clashes_sym: "clashes r s = clashes s r"
  unfolding clashes_def by metis

lemma no_clash_append: "no_clash (rs @ [r]) \<longleftrightarrow> no_clash rs \<and> \<not> list_ex (clashes r) rs"
  by (auto simp: no_clash_def sorted_wrt_append list_ex_iff clashes_sym)

lemma no_clash_filter: "no_clash rs \<Longrightarrow> no_clash (filter p rs)"
  by (simp add: no_clash_def sorted_wrt_filter)

lemma no_clash_replace:
  assumes "no_clash rs" and "\<not> list_ex (\<lambda>s. rr_id s \<noteq> rr_id new \<and> clashes new s) rs"
  shows "no_clash (map (\<lambda>s. if rr_id s = rr_id new then new else s) rs)"
  using assms
proof (induction rs)
  case (Cons r rs)
  then have tl: "no_clash (map (\<lambda>s. if rr_id s = rr_id new then new else s) rs)"
    and apart: "\<forall>s \<in> set rs. \<not> clashes r s" and new: "\<forall>s \<in> set (r # rs). rr_id s \<noteq> rr_id new \<longrightarrow> \<not> clashes new s"
    by (auto simp: no_clash_def list_ex_iff)
  have ids: "\<forall>s \<in> set rs. rr_id s \<noteq> rr_id r" using apart by (auto simp: clashes_def)
  define f where "f = (\<lambda>s. if rr_id s = rr_id new then new else s)"
  have "\<not> clashes (f r) (f s)" if "s \<in> set rs" for s
    using apart new ids that clashes_sym by (auto simp: f_def)
  with tl show ?case unfolding f_def [symmetric] by (auto simp: no_clash_def)
qed (simp add: no_clash_def)

lemma no_clash_unique:
  "no_clash rs \<Longrightarrow> r \<in> set rs \<Longrightarrow> s \<in> set rs \<Longrightarrow> clashes r s \<Longrightarrow> r = s"
  by (induction rs) (auto simp: no_clash_def clashes_sym)

lemma no_clash_ids: "no_clash rs \<Longrightarrow> distinct (map rr_id rs)"
  by (induction rs) (auto simp: no_clash_def clashes_def)

lemma normalize_input_default: "normalize_input parse i = Inr n \<Longrightarrow> nr_is_default n \<longleftrightarrow> nr_path_prefix n = None"
  unfolding normalize_input_def Let_def by (auto split: if_splits)

lemma find_route_id: "find_route route_id T = Some r \<Longrightarrow> rr_id r = route_id \<and> r \<in> set (rt_routes T)"
  unfolding find_route_def by (metis (mono_tags, lifting) find_Some_iff nth_mem)

lemma insert_route_ok:
  assumes "routes_ok T" and "default_exact r" and "builtin_key r \<or> rr_id r \<in> {DOCKER_HUB_ROUTE_ID, GHCR_ROUTE_ID}"
  shows "routes_ok (fst (insert_route r T))"
proof (cases "list_ex (clashes r) (rt_routes T)")
  case False
  then have "\<not> has_route (rr_id r) T" by (auto simp: has_route_def list_ex_iff clashes_def)
  with assms have "builtin_key r" by (auto simp: routes_ok_def)
  with False assms show ?thesis
    by (auto simp: insert_route_def routes_ok_def no_clash_append has_route_def list_all_iff)
qed (simp add: insert_route_def assms)

lemma update_route_ok:
  assumes "routes_ok T" and "default_exact r" and "builtin_key r"
  shows "routes_ok (fst (update_route r T))"
proof (cases "find_route (rr_id r) T")
  case (Some old)
  let ?new = "r\<lparr>rr_created_at := rr_created_at old\<rparr>"
  let ?rs = "map (\<lambda>s. if rr_id s = rr_id ?new then ?new else s) (rt_routes T)"
  have new: "default_exact ?new" "builtin_key ?new" using assms(2,3) by (simp_all add: default_exact_def builtin_key_def)
  show ?thesis
  proof (cases "list_ex (\<lambda>s. rr_id s \<noteq> rr_id r \<and> clashes ?new s) (rt_routes T)")
    case True
    with Some assms show ?thesis by (simp add: update_route_def Let_def)
  next
    case False
    then have "no_clash ?rs" using assms(1) by (intro no_clash_replace) (auto simp: routes_ok_def)
    moreover have "map rr_id ?rs = map rr_id (rt_routes T)" by simp
    then have "rr_id ` set ?rs = rr_id ` set (rt_routes T)" by (metis set_map)
    moreover have "list_all default_exact ?rs" "list_all builtin_key ?rs"
      using assms(1) new by (auto simp: routes_ok_def list_all_iff)
    ultimately show ?thesis
      using Some False assms(1) by (simp add: update_route_def Let_def routes_ok_def has_route_def)
  qed
qed (simp add: update_route_def assms)

lemma delete_route_row_ok:
  assumes "routes_ok T" and "route_id \<notin> {DOCKER_HUB_ROUTE_ID, GHCR_ROUTE_ID}"
  shows "routes_ok (fst (delete_route_row route_id T))"
proof -
  let ?rs = "filter (\<lambda>r. rr_id r \<noteq> route_id) (rt_routes T)"
  have "rr_id ` set ?rs = rr_id ` set (rt_routes T) - {route_id}" by auto
  moreover have "list_all default_exact ?rs" "list_all builtin_key ?rs" "no_clash ?rs"
    using assms(1) by (auto simp: routes_ok_def list_all_iff no_clash_filter)
  ultimately show ?thesis
    using assms by (auto simp: delete_route_row_def routes_ok_def has_route_def list_all_iff list_ex_iff)
qed

lemma create_route_ok: "routes_ok T \<Longrightarrow> routes_ok (fst (create_route parse seen fresh now input T))"
proof -
  assume T: "routes_ok T"
  show ?thesis
  proof (cases "result_bind (normalize_input parse input) (\<lambda>n. result_bind (reject_conflicts n None seen) (\<lambda>_. Inr n))")
    case (Inr n)
    then have "nr_is_default n \<longleftrightarrow> nr_path_prefix n = None" by (auto dest: normalize_input_default)
    then have "routes_ok (fst (insert_route (route_of_input fresh now now n) T))"
      using T by (intro insert_route_ok) (auto simp: default_exact_def route_of_input_def builtin_key_def)
    with Inr show ?thesis by (auto simp: create_route_def Let_def split: prod.splits sum.splits)
  qed (simp add: create_route_def T)
qed

lemma update_service_route_ok:
  "routes_ok T \<Longrightarrow> routes_ok (fst (update_service_route parse seen route_id now input T))"
proof -
  assume T: "routes_ok T"
  let ?r = "result_bind (normalize_input parse input) (\<lambda>n. result_bind (get_route route_id seen) (\<lambda>route.
     if renames_builtin route_id n then Inl (BadRequest ''built-in Registry route keys cannot be changed'')
     else result_bind (reject_conflicts n (Some route_id) seen) (\<lambda>_. Inr (route, n))))"
  show ?thesis
  proof (cases ?r)
    case (Inr rn)
    obtain route n where rn: "rn = (route, n)" by fastforce
    with Inr have n: "normalize_input parse input = Inr n" "find_route route_id seen = Some route"
      "\<not> renames_builtin route_id n"
      by (auto simp: get_route_def split: if_splits)
    let ?new = "route_of_input (rr_id route) (rr_created_at route) now n"
    have "rr_id route = route_id" using find_route_id [OF n(2)] by simp
    then have "builtin_key ?new" using n(3) by (auto simp: builtin_key_def renames_builtin_def route_of_input_def)
    moreover have "default_exact ?new"
      using normalize_input_default [OF n(1)] by (simp add: default_exact_def route_of_input_def)
    ultimately have "routes_ok (fst (update_route ?new T))" using T by (intro update_route_ok)
    with Inr rn show ?thesis
      by (auto simp: update_service_route_def split: prod.splits sum.splits)
  qed (simp add: update_service_route_def T)
qed

lemma delete_route_ok: "routes_ok T \<Longrightarrow> routes_ok (fst (delete_route seen route_id T))"
  using delete_route_row_ok [of T route_id]
  by (auto simp: delete_route_def get_route_def dest: find_route_id split: sum.splits prod.splits)

lemma seed_builtins_present: "routes_ok T \<Longrightarrow> seed_builtins now T = (T, Inr ())"
proof -
  assume ok: "routes_ok T"
  have "list_ex (\<lambda>r. rr_key r = DOCKER_HUB_ROUTE_KEY) (rt_routes T)"
    "list_ex (\<lambda>r. rr_key r = GHCR_ROUTE_KEY) (rt_routes T)"
    using ok by (auto simp: routes_ok_def has_route_def list_all_iff list_ex_iff builtin_key_def)
  then show ?thesis
    by (simp add: seed_builtins_def seed_builtin_def docker_hub_route_def ghcr_route_def)
qed

definition empty_tables :: route_tables where
  "empty_tables = \<lparr>rt_routes = [], rt_nodes = [], rt_pulls = []\<rparr>"

definition seeded :: "timestamp \<Rightarrow> route_tables" where
  "seeded now = fst (seed_builtins now empty_tables)"

lemmas builtin_defs = docker_hub_route_def ghcr_route_def DOCKER_HUB_ROUTE_ID_def GHCR_ROUTE_ID_def
  DOCKER_HUB_ROUTE_KEY_def GHCR_ROUTE_KEY_def

lemma seeded_rows: "seeded now = \<lparr>rt_routes = [docker_hub_route now, ghcr_route now], rt_nodes = [], rt_pulls = []\<rparr>"
  by (simp add: seeded_def empty_tables_def seed_builtins_def seed_builtin_def insert_route_def clashes_def
      builtin_defs)

lemma seeded_ok: "routes_ok (seeded now)"
  by (simp add: seeded_rows routes_ok_def no_clash_def clashes_def default_exact_def builtin_key_def has_route_def)
    (simp add: builtin_defs)

lemma route_exec_ok: "routes_ok T \<Longrightarrow> routes_ok (route_exec parse op T)"
  by (cases op) (simp_all add: create_route_ok update_service_route_ok delete_route_ok seed_builtins_present)

interpretation route_run: operation_system "route_exec parse" "\<lambda>_. True" routes_ok for parse
  by unfold_locales (rule route_exec_ok)

lemma reachable_ok: "routes_ok (fold (route_exec parse) ops (seeded now))"
  by (rule route_run.inv_fold [OF seeded_ok]) (simp add: list_all_iff)

section \<open>Normal forms\<close>

lemma normalize_identifier_stable:
  assumes "normalize_identifier v l = Inr k"
  shows "normalize_identifier k l' = Inr k \<and> k \<noteq> [] \<and> trim k = k"
proof -
  from assms have k: "k = to_ascii_lowercase (trim v)" and ne: "k \<noteq> []"
    by (auto simp: normalize_identifier_def Let_def split: if_splits list.splits)
  have "to_ascii_lowercase (trim k) = k" unfolding k by (simp add: trim_lower)
  moreover have "trim k = k" unfolding k by (simp add: trim_lower)
  ultimately show ?thesis
    using assms ne by (auto simp: normalize_identifier_def Let_def k [symmetric] split: if_splits)
qed

lemma normalize_registry_authority_stable:
  assumes "parse ''docker.io'' = Some (''docker.io'', None)"
    and "normalize_registry_authority parse v = Inr a"
  shows "normalize_registry_authority parse a = Inr a"
proof -
  let ?n = "to_ascii_lowercase (trim v)"
  have same: "to_ascii_lowercase (trim ?n) = ?n" by (simp add: trim_lower)
  have hub: "normalize_registry_authority parse ''docker.io'' = Inr ''docker.io''"
  proof -
    have "to_ascii_lowercase (trim ''docker.io'') = ''docker.io''" by code_simp
    moreover have "valid_registry_host ''docker.io''" by code_simp
    moreover have "\<not> list_ex (\<lambda>b. is_ascii_whitespace b \<or> b \<in> set ''/?#@'') ''docker.io''" by code_simp
    ultimately show ?thesis using assms(1) by (simp add: normalize_registry_authority_def)
  qed
  show ?thesis
  proof (cases "?n \<in> {''docker.io'', ''index.docker.io'', ''registry-1.docker.io''}")
    case True
    with assms(2) have "a = ''docker.io''"
      by (auto simp: normalize_registry_authority_def Let_def split: if_splits option.splits prod.splits)
    with hub show ?thesis by simp
  next
    case False
    with assms(2) have a: "a = ?n"
      by (auto simp: normalize_registry_authority_def Let_def split: if_splits option.splits prod.splits)
    have "normalize_registry_authority parse ?n = normalize_registry_authority parse v"
      by (simp add: normalize_registry_authority_def same)
    with a assms(2) show ?thesis by simp
  qed
qed

lemma repository_mode_round_trip: "repository_mode_parse (repository_mode_as_str m) = Inr m"
  by (cases m) (simp_all add: repository_mode_parse_def)

definition input_of :: "normalized_route_input \<Rightarrow> registry_route_input" where
  "input_of n =
     \<lparr>in_key = nr_key n, in_name = nr_name n, in_canonical_registry = nr_canonical_registry n,
      in_path_prefix = nr_path_prefix n, in_repository_mode = repository_mode_as_str (nr_repository_mode n),
      in_is_default = nr_is_default n, in_enabled = nr_enabled n\<rparr>"

lemma normalize_prefix_stable:
  assumes "normalize_prefix p = Inr q"
  shows "normalize_prefix q = Inr q"
proof (cases q)
  case (Some k)
  with assms obtain v where "normalize_identifier v ''Registry route path prefix'' = Inr k"
    by (auto simp: normalize_prefix_def split: option.splits if_splits)
  from normalize_identifier_stable [OF this] Some show ?thesis by (simp add: normalize_prefix_def)
qed (simp add: normalize_prefix_def)

lemma normalize_input_stable:
  assumes "parse ''docker.io'' = Some (''docker.io'', None)" and "normalize_input parse i = Inr n"
  shows "normalize_input parse (input_of n) = Inr n"
proof -
  from assms(2) obtain mode where
    key: "normalize_identifier (in_key i) ''Registry route key'' = Inr (nr_key n)"
    and name: "nr_name n = trim (in_name i)" "nr_name n \<noteq> []" "length (nr_name n) \<le> 80"
    and reg: "normalize_registry_authority parse (in_canonical_registry i) = Inr (nr_canonical_registry n)"
    and pre: "normalize_prefix (in_path_prefix i) = Inr (nr_path_prefix n)"
    and dfl: "nr_is_default n = (nr_path_prefix n = None)"
    by (auto simp: normalize_input_def Let_def not_less split: if_splits)
  have "trim (nr_name n) = nr_name n" by (simp add: name(1))
  with key name reg pre dfl normalize_identifier_stable [OF key] normalize_prefix_stable [OF pre]
    normalize_registry_authority_stable [OF assms(1) reg] show ?thesis
    by (simp add: normalize_input_def input_of_def repository_mode_round_trip Let_def)
qed

text \<open>A row as the input that saves it, and a row that saving that input leaves as it is.\<close>

definition route_input :: "registry_route \<Rightarrow> registry_route_input" where
  "route_input r =
     \<lparr>in_key = rr_key r, in_name = rr_name r, in_canonical_registry = rr_canonical_registry r,
      in_path_prefix = rr_path_prefix r, in_repository_mode = rr_repository_mode r,
      in_is_default = rr_is_default r, in_enabled = rr_enabled r\<rparr>"

definition route_normal :: "authority_parser \<Rightarrow> registry_route \<Rightarrow> bool" where
  "route_normal parse r =
     (case normalize_input parse (route_input r) of
        Inl _ \<Rightarrow> False | Inr n \<Rightarrow> route_of_input (rr_id r) (rr_created_at r) (rr_updated_at r) n = r)"

lemma route_of_input_normal:
  assumes "parse ''docker.io'' = Some (''docker.io'', None)" and "normalize_input parse i = Inr n"
  shows "route_normal parse (route_of_input k c u n)"
proof -
  have "route_input (route_of_input k c u n) = input_of n"
    by (simp add: route_input_def route_of_input_def input_of_def)
  with normalize_input_stable [OF assms] show ?thesis by (simp add: route_normal_def) (simp add: route_of_input_def)
qed

lemma route_normal_created: "route_normal parse (r\<lparr>rr_created_at := c\<rparr>) = route_normal parse r"
  by (cases r) (auto simp: route_normal_def route_input_def route_of_input_def split: sum.splits)

lemma route_exec_normal:
  assumes "parse ''docker.io'' = Some (''docker.io'', None)" and "routes_ok T"
    and "list_all (route_normal parse) (rt_routes T)"
  shows "list_all (route_normal parse) (rt_routes (route_exec parse op T))"
proof (cases op)
  case (CreateRoute seen fresh now input)
  have "list_all (route_normal parse) (rt_routes (fst (insert_route (route_of_input fresh now now n) T)))"
    if "normalize_input parse input = Inr n" for n
    using assms(3) route_of_input_normal [where parse = parse, OF assms(1) that] by (simp add: insert_route_def)
  with CreateRoute assms(3) show ?thesis
    by (auto simp: create_route_def Let_def split: sum.splits prod.splits)
next
  case (UpdateRoute seen route_id now input)
  have "list_all (route_normal parse) (rt_routes T')"
    if "normalize_input parse input = Inr n" and "update_route (route_of_input k c now n) T = (T', res)" for n k c T' res
    using assms(3) that(2) route_of_input_normal [where parse = parse, OF assms(1) that(1)]
    by (auto simp: update_route_def Let_def list_all_iff route_normal_created split: option.splits if_splits)
  with UpdateRoute assms(3) show ?thesis
    by (auto simp: update_service_route_def split: sum.splits prod.splits if_splits)
next
  case (DeleteRoute seen route_id)
  with assms(3) show ?thesis
    by (auto simp: delete_route_def delete_route_row_def list_all_iff split: sum.splits prod.splits)
next
  case (SeedRoutes now)
  with assms(2,3) show ?thesis by (simp add: seed_builtins_present)
qed

lemma builtin_normal:
  assumes "parse ''docker.io'' = Some (''docker.io'', None)" and "parse ''ghcr.io'' = Some (''ghcr.io'', None)"
  shows "route_normal parse (docker_hub_route now)" and "route_normal parse (ghcr_route now)"
proof -
  have words: "to_ascii_lowercase (trim ''dockerhub'') = ''dockerhub''" "to_ascii_lowercase (trim ''ghcr'') = ''ghcr''"
    "to_ascii_lowercase (trim ''docker.io'') = ''docker.io''" "to_ascii_lowercase (trim ''ghcr.io'') = ''ghcr.io''"
    "trim ''Docker Hub'' = ''Docker Hub''" "trim ''GitHub Container Registry'' = ''GitHub Container Registry''"
    "trim ''ghcr'' = ''ghcr''"
    by code_simp+
  have ids: "is_ascii_alphanumeric CHR ''d''" "list_all identifier_char ''ockerhub''"
    "is_ascii_alphanumeric CHR ''g''" "list_all identifier_char ''hcr''" by code_simp+
  have hosts: "valid_registry_host ''docker.io''" "valid_registry_host ''ghcr.io''"
    "\<not> list_ex (\<lambda>b. is_ascii_whitespace b \<or> b \<in> set ''/?#@'') ''docker.io''"
    "\<not> list_ex (\<lambda>b. is_ascii_whitespace b \<or> b \<in> set ''/?#@'') ''ghcr.io''" by code_simp+
  have auth: "normalize_registry_authority parse ''docker.io'' = Inr ''docker.io''"
    "normalize_registry_authority parse ''ghcr.io'' = Inr ''ghcr.io''"
    using assms words hosts by (simp_all add: normalize_registry_authority_def)
  have key: "normalize_identifier ''dockerhub'' l = Inr ''dockerhub''" "normalize_identifier ''ghcr'' l = Inr ''ghcr''" for l
    using words ids by (simp_all add: normalize_identifier_def)
  show "route_normal parse (docker_hub_route now)"
    by (simp add: route_normal_def route_input_def docker_hub_route_def normalize_input_def DOCKER_HUB_ROUTE_KEY_def
        key auth words normalize_prefix_def repository_mode_parse_def route_of_input_def)
  show "route_normal parse (ghcr_route now)"
    by (simp add: route_normal_def route_input_def ghcr_route_def normalize_input_def GHCR_ROUTE_KEY_def
        key auth words normalize_prefix_def repository_mode_parse_def route_of_input_def)
qed

lemma fold_normal:
  assumes "parse ''docker.io'' = Some (''docker.io'', None)"
  shows "routes_ok T \<Longrightarrow> list_all (route_normal parse) (rt_routes T) \<Longrightarrow>
    list_all (route_normal parse) (rt_routes (fold (route_exec parse) ops T))"
  by (induction ops arbitrary: T) (simp_all add: route_exec_ok route_exec_normal [where parse = parse, OF assms])

lemma filter_le_1: "(\<And>r s. r \<in> set rs \<Longrightarrow> s \<in> set rs \<Longrightarrow> p r \<Longrightarrow> p s \<Longrightarrow> r = s) \<Longrightarrow> distinct rs \<Longrightarrow> length (filter p rs) \<le> 1"
  by (induction rs) (auto simp: filter_empty_conv)

lemma routes_ok_facts:
  assumes "routes_ok T"
  shows "distinct (map rr_id (rt_routes T)) \<and> distinct (map rr_key (rt_routes T))
    \<and> length (filter (\<lambda>r. rr_path_prefix r = Some p) (rt_routes T)) \<le> 1
    \<and> length (filter rr_is_default (rt_routes T)) \<le> 1
    \<and> list_all (\<lambda>r. rr_is_default r = (rr_path_prefix r = None)) (rt_routes T)
    \<and> map_option rr_key (find_route DOCKER_HUB_ROUTE_ID T) = Some ''dockerhub''
    \<and> map_option rr_key (find_route GHCR_ROUTE_ID T) = Some ''ghcr''
    \<and> list_all (\<lambda>n. find_route (nd_registry_route_id n) T \<noteq> None) (rt_nodes T)
    \<and> list_all (\<lambda>e. find_route (pe_registry_route_id e) T \<noteq> None) (rt_pulls T)
    \<and> seed_builtins later T = (T, Inr ())"
proof -
  note ok = assms
  then have nc: "no_clash (rt_routes T)" by (simp add: routes_ok_def)
  note same = no_clash_unique [OF nc]
  have dist: "distinct (map rr_id (rt_routes T))" by (rule no_clash_ids [OF nc])
  then have rows: "distinct (rt_routes T)" by (simp add: distinct_map)
  have "inj_on rr_key (set (rt_routes T))" by (rule inj_onI) (auto intro: same simp: clashes_def)
  with rows have "distinct (map rr_key (rt_routes T))" by (simp add: distinct_map)
  moreover have "length (filter (\<lambda>r. rr_path_prefix r = Some p) (rt_routes T)) \<le> 1"
    by (rule filter_le_1 [OF _ rows]) (rule same, auto simp: clashes_def)
  moreover have "length (filter rr_is_default (rt_routes T)) \<le> 1"
    by (rule filter_le_1 [OF _ rows]) (rule same, auto simp: clashes_def)
  moreover have found: "find_route k T \<noteq> None \<longleftrightarrow> has_route k T" for k
    by (auto simp: find_route_def has_route_def find_None_iff)
  have "\<exists>r. find_route k T = Some r \<and> rr_id r = k \<and> builtin_key r" if "has_route k T" for k
    using that found [of k] find_route_id ok by (fastforce simp: routes_ok_def list_all_iff)
  then have key: "map_option rr_key (find_route DOCKER_HUB_ROUTE_ID T) = Some DOCKER_HUB_ROUTE_KEY"
    "map_option rr_key (find_route GHCR_ROUTE_ID T) = Some GHCR_ROUTE_KEY"
    using ok unfolding routes_ok_def builtin_key_def by fastforce+
  have "map_option rr_key (find_route DOCKER_HUB_ROUTE_ID T) = Some ''dockerhub''"
    "map_option rr_key (find_route GHCR_ROUTE_ID T) = Some ''ghcr''"
    using key by (simp_all add: DOCKER_HUB_ROUTE_KEY_def GHCR_ROUTE_KEY_def)
  ultimately show ?thesis
    using ok dist found seed_builtins_present [OF ok] by (simp add: routes_ok_def default_exact_def list_all_iff)
qed

section \<open>Properties\<close>


text \<open>
  Every stored route is in normal form: after any sequence of administration requests, saving a route
  again with the values it is listed with is accepted by the validation and writes the very same row.
  Relied on of the \<open>http\<close> crate: its authority parser accepts the two built-in registry names.
\<close>

lemma stored_routes_are_normal:
  assumes "parse ''docker.io'' = Some (''docker.io'', None)" and "parse ''ghcr.io'' = Some (''ghcr.io'', None)"
  shows "list_all (route_normal parse) (rt_routes (fold (route_exec parse) ops (seeded now)))"
  using fold_normal [where parse = parse, OF assms(1) seeded_ok] builtin_normal [OF assms] by (simp add: seeded_rows)

end
