(* ===== verification/Security.thy ===== *)
theory Security
  imports Configuration
begin

text \<open>
  \<^verbatim>\<open>src/src/security.rs\<close>: which upstream addresses the proxy may connect to. URLs are validated, their hosts
  resolved, and the resolved addresses pinned into the client. The resolver (\<open>lookup_host\<close>, \<open>None\<close> when the
  lookup fails) and the URL operations are parameters.
\<close>

section \<open>Denied networks\<close>

datatype ip_net = Net4 "32 word" nat | Net6 "128 word" nat

text \<open>\<open>IpNet::contains\<close>: the same family, and the same bits under the mask.\<close>

fun net_contains :: "ip_net \<Rightarrow> ip_addr \<Rightarrow> bool" where
  "net_contains (Net4 net len) (IpV4 a) = (drop_bit (32 - len) a = drop_bit (32 - len) net)"
| "net_contains (Net6 net len) (IpV6 a) = (drop_bit (128 - len) a = drop_bit (128 - len) net)"
| "net_contains _ _ = False"

definition DENIED_NETWORKS :: "ip_net list" where
  "DENIED_NETWORKS =
     [Net4 0x00000000 8, Net4 0x0A000000 8, Net4 0x64400000 10, Net4 0x7F000000 8,
      Net4 0xA9FE0000 16, Net4 0xAC100000 12, Net4 0xC0000000 24, Net4 0xC0000200 24,
      Net4 0xC0A80000 16, Net4 0xC6120000 15, Net4 0xC6336400 24, Net4 0xCB007100 24,
      Net4 0xE0000000 4, Net4 0xF0000000 4,
      Net6 0 128, Net6 1 128,
      Net6 0x0064FF9B000100000000000000000000 48,
      Net6 0x01000000000000000000000000000000 64,
      Net6 0x20010000000000000000000000000000 23,
      Net6 0x20010DB8000000000000000000000000 32,
      Net6 0x20020000000000000000000000000000 16,
      Net6 0xFC000000000000000000000000000000 7,
      Net6 0xFE800000000000000000000000000000 10,
      Net6 0xFF000000000000000000000000000000 8]"

definition denied :: "ip_addr \<Rightarrow> bool" where
  "denied ip = list_ex (\<lambda>net. net_contains net ip) DENIED_NETWORKS"

definition is_non_public :: "ip_addr \<Rightarrow> bool" where
  "is_non_public ip =
     (case ip of
        IpV6 a \<Rightarrow> (case to_ipv4_mapped a of Some v4 \<Rightarrow> denied (IpV4 v4) | None \<Rightarrow> denied ip)
      | IpV4 _ \<Rightarrow> denied ip)"

section \<open>Connection overrides\<close>

definition bad_label :: "string \<Rightarrow> bool" where
  "bad_label label \<longleftrightarrow>
     label = [] \<or> 63 < length label \<or> hd label = CHR ''-'' \<or> List.last label = CHR ''-''
     \<or> \<not> list_all (\<lambda>b. is_ascii_alphanumeric b \<or> b = CHR ''-'') label"

definition strip_dot :: "string \<Rightarrow> string" where
  "strip_dot value = (case strip_suffix ''.'' value of None \<Rightarrow> value | Some host \<Rightarrow> host)"

definition validate_connect_target_syntax :: "string \<Rightarrow> string \<Rightarrow> unit api_result" where
  "validate_connect_target_syntax raw target_type =
     (let value = trim raw in
      if value = [] \<or> 253 < length value \<or> list_ex is_whitespace value
      then Inl (BadRequest ''connect_ip must be an IP address or hostname'')
      else if parse_ip value \<noteq> None then
        (if target_type \<noteq> ''ip'' then Inl (BadRequest ''connect_ip_type does not match target'') else Inr ())
      else if target_type \<noteq> ''domain'' then Inl (BadRequest ''connect_ip_type does not match target'')
      else
        let host = strip_dot value in
        if host = [] \<or> list_ex (\<lambda>c. c \<in> set ''/:@[]?#%'') host \<or> list_ex bad_label (split_char CHR ''.'' host)
        then Inl (BadRequest ''connect_ip must be an IP address or hostname'')
        else Inr ())"

type_synonym resolver = "string \<Rightarrow> nat \<Rightarrow> ip_addr list option"

text \<open>The loop both functions run over the resolved addresses: refuse, or keep each address once.\<close>

fun pin_addresses :: "bool \<Rightarrow> app_error \<Rightarrow> ip_addr list \<Rightarrow> ip_addr list \<Rightarrow> ip_addr list api_result" where
  "pin_addresses allow_private e unique [] = Inr unique"
| "pin_addresses allow_private e unique (ip # ips) =
     (if \<not> allow_private \<and> is_non_public ip then Inl e
      else pin_addresses allow_private e (if ip \<in> set unique then unique else unique @ [ip]) ips)"

definition resolve_connect_target ::
  "resolver \<Rightarrow> string \<Rightarrow> string \<Rightarrow> nat \<Rightarrow> config \<Rightarrow> ip_addr list api_result" where
  "resolve_connect_target lookup raw target_type port config =
     result_bind (validate_connect_target_syntax raw target_type) (\<lambda>_.
     let value = trim raw in
     result_bind
       (case parse_ip value of
          Some ip \<Rightarrow> Inr [ip]
        | None \<Rightarrow>
            ok_or (BadRequest ''connect_ip DNS lookup failed'')
              (lookup (to_ascii_lowercase (strip_dot value)) port)) (\<lambda>addresses.
     result_bind (pin_addresses (cf_allow_private_upstreams config)
         (BadRequest ''private connect_ip is disabled'') [] addresses) (\<lambda>unique.
       if unique = [] then Inl (BadRequest ''connect_ip DNS returned no addresses'') else Inr unique)))"

section \<open>Upstream URLs\<close>

record 'u validated_upstream =
  vu_url :: 'u
  vu_addresses :: "ip_addr list"

definition validate_url ::
  "'u url_ops \<Rightarrow> resolver \<Rightarrow> string \<Rightarrow> config \<Rightarrow> bool \<Rightarrow> 'u validated_upstream api_result" where
  "validate_url U lookup raw config normalize_base =
     (if 2048 < length raw then Inl (BadRequest ''upstream URL is too long'')
      else
     result_bind (ok_or (BadRequest ''invalid upstream URL'') (url_parse U raw)) (\<lambda>url.
      if url_username U url \<noteq> '''' \<or> url_password U url \<noteq> None
      then Inl (BadRequest ''credentials are not allowed in upstream URLs'')
      else if \<not> (url_scheme U url = ''https''
                  \<or> url_scheme U url = ''http'' \<and> cf_allow_insecure_upstreams config)
      then Inl (BadRequest ''upstream must use HTTPS'')
      else
     result_bind (ok_or (BadRequest ''upstream URL has no host'') (url_host_str U url)) (\<lambda>host_str.
      let host = to_ascii_lowercase host_str;
          url = url_set_fragment U None url;
          url = (if normalize_base then
                   let url = url_set_query U None url in
                   if List.last (''x'' @ url_path U url) \<noteq> CHR ''/''
                   then url_set_path U (url_path U url @ ''/'') url else url
                 else url)
      in
     result_bind (ok_or (BadRequest ''upstream has no usable port'') (url_port_or_known_default U url)) (\<lambda>port.
     result_bind (ok_or (BadRequest ''upstream DNS lookup failed'') (lookup host port)) (\<lambda>answer.
     result_bind (pin_addresses (cf_allow_private_upstreams config)
         (BadRequest ''private or reserved upstream addresses are disabled'') [] answer) (\<lambda>addresses.
      if addresses = [] then Inl (BadRequest ''upstream DNS returned no addresses'')
      else Inr \<lparr>vu_url = url, vu_addresses = addresses\<rparr>))))))"

definition validate_upstream ::
  "'u url_ops \<Rightarrow> resolver \<Rightarrow> string \<Rightarrow> config \<Rightarrow> 'u validated_upstream api_result" where
  "validate_upstream U lookup raw config = validate_url U lookup raw config True"

definition validate_target_url ::
  "'u url_ops \<Rightarrow> resolver \<Rightarrow> string \<Rightarrow> config \<Rightarrow> 'u validated_upstream api_result" where
  "validate_target_url U lookup raw config = validate_url U lookup raw config False"

text \<open>
  What \<open>client_for\<close> builds from a validated upstream: the timeouts and the addresses that the host is
  resolved to, so that no later lookup takes place; redirects are not followed.
\<close>

record pinned_client =
  pc_timeout :: duration
  pc_connect_timeout :: duration
  pc_host :: string
  pc_socket_addrs :: "(ip_addr \<times> nat) list"

definition client_for :: "'u url_ops \<Rightarrow> 'u validated_upstream \<Rightarrow> duration \<Rightarrow> pinned_client api_result" where
  "client_for U upstream timeout =
     result_bind (ok_or (BadRequest ''upstream URL has no host'') (url_host_str U (vu_url upstream))) (\<lambda>host.
       let port = (case url_port_or_known_default U (vu_url upstream) of None \<Rightarrow> 443 | Some p \<Rightarrow> p) in
       Inr \<lparr>pc_timeout = timeout, pc_connect_timeout = min timeout (10 * SECOND), pc_host = host,
            pc_socket_addrs = map (\<lambda>ip. (ip, port)) (vu_addresses upstream)\<rparr>)"

section \<open>Lemmas\<close>

lemma pin_addresses_Inr:
  "pin_addresses allow e unique ips = Inr r \<Longrightarrow> distinct unique \<Longrightarrow>
     distinct r \<and> set r = set unique \<union> set ips \<and> (allow \<or> (\<forall>ip \<in> set ips. \<not> is_non_public ip))"
  by (induction ips arbitrary: unique) (auto split: if_splits)

lemma pin_addresses_public:
  "allow \<or> (\<forall>ip \<in> set ips. \<not> is_non_public ip) \<Longrightarrow> \<exists>r. pin_addresses allow e unique ips = Inr r"
  by (induction ips arbitrary: unique) auto

lemma div_eq_range: "0 < (k::nat) \<Longrightarrow> x div k = q \<longleftrightarrow> q * k \<le> x \<and> x < (q + 1) * k"
proof
  assume k: "0 < k"
  show "q * k \<le> x \<and> x < (q + 1) * k" if "x div k = q"
    using k dividend_less_div_times [of k x] that by (auto simp: algebra_simps)
  show "x div k = q" if "q * k \<le> x \<and> x < (q + 1) * k"
    using that by (intro div_nat_eqI) (auto simp: algebra_simps)
qed

lemma drop_bit_range:
  fixes a net :: "'a::len word"
  shows "drop_bit k a = drop_bit k net \<longleftrightarrow>
    unat net div 2 ^ k * 2 ^ k \<le> unat a \<and> unat a < (unat net div 2 ^ k + 1) * 2 ^ k"
proof -
  have "drop_bit k a = drop_bit k net \<longleftrightarrow> unat a div 2 ^ k = unat net div 2 ^ k"
    by (metis unat_drop_bit_eq drop_bit_eq_div word_unat_eq_iff)
  then show ?thesis by (simp add: div_eq_range)
qed

text \<open>A dotted quad as a number.\<close>

definition quad :: "nat \<Rightarrow> nat \<Rightarrow> nat \<Rightarrow> nat \<Rightarrow> nat" where
  "quad a b c d = ((a * 256 + b) * 256 + c) * 256 + d"

text \<open>The reserved IPv4 ranges, from their first to their last address.\<close>

definition RESERVED_RANGES :: "(nat \<times> nat) list" where
  "RESERVED_RANGES =
     [(quad 0 0 0 0, quad 0 255 255 255), (quad 10 0 0 0, quad 10 255 255 255),
      (quad 100 64 0 0, quad 100 127 255 255), (quad 127 0 0 0, quad 127 255 255 255),
      (quad 169 254 0 0, quad 169 254 255 255), (quad 172 16 0 0, quad 172 31 255 255),
      (quad 192 0 0 0, quad 192 0 0 255), (quad 192 0 2 0, quad 192 0 2 255),
      (quad 192 168 0 0, quad 192 168 255 255), (quad 198 18 0 0, quad 198 19 255 255),
      (quad 198 51 100 0, quad 198 51 100 255), (quad 203 0 113 0, quad 203 0 113 255),
      (quad 224 0 0 0, quad 255 255 255 255)]"

definition reserved :: "32 word \<Rightarrow> bool" where
  "reserved a = list_ex (\<lambda>(lo, hi). lo \<le> unat a \<and> unat a \<le> hi) RESERVED_RANGES"

lemma net4_range:
  "net_contains (Net4 net len) (IpV4 a) \<longleftrightarrow>
     unat net div 2 ^ (32 - len) * 2 ^ (32 - len) \<le> unat a
     \<and> unat a \<le> unat net div 2 ^ (32 - len) * 2 ^ (32 - len) + (2 ^ (32 - len) - 1)"
proof -
  have bound: "x < (q + 1) * k \<longleftrightarrow> x \<le> q * k + (k - 1)" if "0 < k" for x q k :: nat
    using that by (auto simp: algebra_simps)
  show ?thesis by (simp only: net_contains.simps drop_bit_range bound [OF zero_less_power [OF zero_less_numeral]])
qed

lemma denied_v4: "denied (IpV4 a) = reserved a"
proof -
  have top: "3758096384 \<le> x \<and> x \<le> 4026531839 \<or> 4026531840 \<le> x \<and> x \<le> 4294967295
      \<longleftrightarrow> 3758096384 \<le> x \<and> x \<le> 4294967295" for x :: nat
    by auto
  have v6: "net_contains (Net6 net len) (IpV4 a) = False" for net len by simp
  show ?thesis
    unfolding denied_def DENIED_NETWORKS_def reserved_def RESERVED_RANGES_def quad_def
    by (simp del: net_contains.simps add: net4_range v6) (simp only: top [symmetric] disj_assoc)
qed

text \<open>The IPv6 form \<open>::ffff:a.b.c.d\<close> of an IPv4 address.\<close>

definition ipv4_mapped :: "32 word \<Rightarrow> 128 word" where
  "ipv4_mapped a = 0xFFFF00000000 OR ucast a"

lemma to_ipv4_mapped_mapped: "to_ipv4_mapped (ipv4_mapped a) = Some a"
proof -
  have "drop_bit 32 (ucast a :: 128 word) = 0"
    by (rule bit_word_eqI) (auto simp: bit_drop_bit_eq bit_ucast_iff dest: bit_imp_le_length)
  then have "drop_bit 32 (ipv4_mapped a) = 0xFFFF"
    by (simp add: ipv4_mapped_def drop_bit_or)
  moreover have "(0xFFFF00000000 :: 128 word) = push_bit 32 0xFFFF" by simp
  then have "ucast (ipv4_mapped a) = a"
    unfolding ipv4_mapped_def by (intro bit_word_eqI) (simp only: bit_ucast_iff bit_or_iff bit_push_bit_iff, simp)
  ultimately show ?thesis by (simp add: to_ipv4_mapped_def)
qed

definition normal_base :: "'u url_ops \<Rightarrow> bool \<Rightarrow> 'u \<Rightarrow> 'u" where
  "normal_base U normalize_base url =
     (let url = url_set_fragment U None url in
      if normalize_base then
        let url = url_set_query U None url in
        if List.last (''x'' @ url_path U url) \<noteq> CHR ''/''
        then url_set_path U (url_path U url @ ''/'') url else url
      else url)"

lemma last_slash: "List.last (''x'' @ p) = CHR ''/'' \<Longrightarrow> \<exists>q. p = q @ ''/''"
  by (cases p rule: rev_cases) auto

lemma normal_base_keeps:
  assumes "url_laws U"
  shows "same_authority U (normal_base U b u) u \<and> url_fragment U (normal_base U b u) = None
    \<and> (b \<longrightarrow> url_query U (normal_base U b u) = None \<and> (\<exists>q. url_path U (normal_base U b u) = q @ ''/''))"
proof -
  let ?v = "url_set_query U None (url_set_fragment U None u)"
  have v: "same_authority U ?v u \<and> url_query U ?v = None \<and> url_fragment U ?v = None"
    "same_authority U (url_set_fragment U None u) u \<and> url_fragment U (url_set_fragment U None u) = None"
    using assms unfolding url_laws_def same_authority_def by metis+
  have w: "same_authority U (url_set_path U (url_path U ?v @ ''/'') ?v) ?v
    \<and> url_path U (url_set_path U (url_path U ?v @ ''/'') ?v) = url_path U ?v @ ''/''
    \<and> url_query U (url_set_path U (url_path U ?v @ ''/'') ?v) = None
    \<and> url_fragment U (url_set_path U (url_path U ?v @ ''/'') ?v) = None"
    using assms v unfolding url_laws_def Let_def by metis
  show ?thesis
    using v w last_slash [of "url_path U ?v"]
    unfolding normal_base_def Let_def same_authority_def by (cases b) auto
qed

lemma validate_url_Inr:
  assumes "validate_url U lookup raw config b = Inr v"
  obtains u host port answer where "length raw \<le> 2048" and "url_parse U raw = Some u"
    and "url_username U u = ''''" and "url_password U u = None"
    and "url_scheme U u = ''https'' \<or> url_scheme U u = ''http'' \<and> cf_allow_insecure_upstreams config"
    and "url_host_str U u = Some host" and "vu_url v = normal_base U b u"
    and "url_port_or_known_default U (vu_url v) = Some port"
    and "lookup (to_ascii_lowercase host) port = Some answer"
    and "pin_addresses (cf_allow_private_upstreams config)
       (BadRequest ''private or reserved upstream addresses are disabled'') [] answer = Inr (vu_addresses v)"
    and "vu_addresses v \<noteq> []"
  using assms unfolding validate_url_def
  by (auto simp: Let_def normal_base_def not_less split: if_splits)

section \<open>Properties\<close>

text \<open>
  C19: Server-side request forgery is ruled out by construction. When an upstream URL is accepted and private
  upstreams are disabled, the addresses are exactly the resolver's answer for the URL's own host and
  port, there is at least one, none of them twice and none of them private or reserved (an IPv4 address written as
  an IPv6 one included); the URL has no credentials and no fragment, uses HTTPS unless insecure upstreams
  are enabled, and a node URL is normalised to a base without a query that ends in a slash. The
  client built from it connects to those addresses and that port only.
\<close>

theorem upstream_addresses_pinned:
  assumes "url_laws U" and "validate_url U lookup raw config base = Inr v"
  shows "\<exists>host port answer.
      url_host_str U (vu_url v) = Some host \<and> url_port_or_known_default U (vu_url v) = Some port
    \<and> lookup (to_ascii_lowercase host) port = Some answer
    \<and> set (vu_addresses v) = set answer \<and> distinct (vu_addresses v) \<and> vu_addresses v \<noteq> []
    \<and> (\<not> cf_allow_private_upstreams config \<longrightarrow> list_all (\<lambda>ip. \<not> is_non_public ip) (vu_addresses v))
    \<and> url_username U (vu_url v) = '''' \<and> url_password U (vu_url v) = None \<and> url_fragment U (vu_url v) = None
    \<and> (url_scheme U (vu_url v) = ''https''
        \<or> url_scheme U (vu_url v) = ''http'' \<and> cf_allow_insecure_upstreams config)
    \<and> (base \<longrightarrow> url_query U (vu_url v) = None \<and> (\<exists>q. url_path U (vu_url v) = q @ ''/''))
    \<and> client_for U v timeout = Inr \<lparr>pc_timeout = timeout, pc_connect_timeout = min timeout (10 * SECOND),
         pc_host = host, pc_socket_addrs = map (\<lambda>ip. (ip, port)) (vu_addresses v)\<rparr>"
proof -
  from assms(2) obtain u host port answer where
    u: "url_username U u = ''''" "url_password U u = None" "url_host_str U u = Some host"
      "url_scheme U u = ''https'' \<or> url_scheme U u = ''http'' \<and> cf_allow_insecure_upstreams config"
    and v: "vu_url v = normal_base U base u" "url_port_or_known_default U (vu_url v) = Some port"
    and dns: "lookup (to_ascii_lowercase host) port = Some answer"
    and pin: "pin_addresses (cf_allow_private_upstreams config)
       (BadRequest ''private or reserved upstream addresses are disabled'') [] answer = Inr (vu_addresses v)"
    and some: "vu_addresses v \<noteq> []"
    by (rule validate_url_Inr)
  from normal_base_keeps [OF assms(1), of base u] v(1) u have
    url: "url_host_str U (vu_url v) = Some host" "url_username U (vu_url v) = ''''"
      "url_password U (vu_url v) = None" "url_fragment U (vu_url v) = None"
      "url_scheme U (vu_url v) = ''https''
        \<or> url_scheme U (vu_url v) = ''http'' \<and> cf_allow_insecure_upstreams config"
      "base \<longrightarrow> url_query U (vu_url v) = None \<and> (\<exists>q. url_path U (vu_url v) = q @ ''/'')"
    unfolding same_authority_def by simp_all
  moreover have "set (vu_addresses v) = set answer" "distinct (vu_addresses v)"
    "\<not> cf_allow_private_upstreams config \<longrightarrow> list_all (\<lambda>ip. \<not> is_non_public ip) (vu_addresses v)"
    using pin_addresses_Inr [OF pin] by (auto simp: list_all_iff)
  moreover have "client_for U v timeout = Inr \<lparr>pc_timeout = timeout,
      pc_connect_timeout = min timeout (10 * SECOND), pc_host = host,
      pc_socket_addrs = map (\<lambda>ip. (ip, port)) (vu_addresses v)\<rparr>"
    using url(1) v(2) by (simp add: client_for_def)
  ultimately show ?thesis using v(2) dns some by blast
qed

text \<open>
  The address filter is exact. An IPv4 address is refused, written plainly or as an IPv4-mapped IPv6
  address, exactly when it lies in one of the reserved ranges that the source lists by prefix; so a
  literal connection override into such a range is refused when private upstreams are disabled, and
  every other literal IPv4 address is accepted and pinned alone.
\<close>

lemma reserved_ranges_refused:
  assumes "parse_ip (trim raw) = Some ip" and "ip = IpV4 a \<or> ip = IpV6 (ipv4_mapped a)"
    and "validate_connect_target_syntax raw ''ip'' = Inr ()" and "\<not> cf_allow_private_upstreams config"
  shows "is_non_public ip = reserved a
    \<and> resolve_connect_target lookup raw ''ip'' port config =
        (if reserved a then Inl (BadRequest ''private connect_ip is disabled'') else Inr [ip])"
proof -
  have "is_non_public ip = reserved a"
    using assms(2) by (auto simp: is_non_public_def to_ipv4_mapped_mapped denied_v4)
  with assms show ?thesis by (simp add: resolve_connect_target_def Let_def)
qed

theorem upstream_addresses_pinned_witness:
  "\<exists>config v.
     validate_upstream (plain_url_ops (\<lambda>_. Some \<lparr>pu_scheme = ''https'', pu_host = ''registry.example'',
         pu_port = 443, pu_path = ''/mirror'', pu_query = Some ''q'', pu_fragment = None\<rparr>))
       (\<lambda>host port. if host = ''registry.example'' \<and> port = 443 then Some [IpV4 0x01010101, IpV4 0x01010101] else None)
       ''https://registry.example/mirror?q'' config = Inr v
     \<and> \<not> cf_allow_private_upstreams config \<and> vu_addresses v = [IpV4 0x01010101]
     \<and> pu_path (vu_url v) = ''/mirror/''"
proof -
  let ?url = "\<lparr>pu_scheme = ''https'', pu_host = ''registry.example'', pu_port = 443, pu_path = ''/mirror'',
    pu_query = Some ''q'', pu_fragment = None\<rparr>"
  let ?U = "plain_url_ops (\<lambda>_. Some ?url)"
  let ?dns = "\<lambda>host port. if host = ''registry.example'' \<and> port = (443 :: nat)
    then Some [IpV4 0x01010101, IpV4 0x01010101] else None"
  let ?v = "\<lparr>vu_url = \<lparr>pu_scheme = ''https'', pu_host = ''registry.example'', pu_port = 443,
    pu_path = ''/mirror/'', pu_query = None, pu_fragment = None\<rparr>, vu_addresses = [IpV4 0x01010101]\<rparr>"
  have "\<not> cf_allow_private_upstreams (undefined\<lparr>cf_allow_private_upstreams := False\<rparr>)" by simp
  then obtain c :: config where c: "\<not> cf_allow_private_upstreams c" by blast
  have host: "to_ascii_lowercase ''registry.example'' = ''registry.example''" by code_simp
  have pub: "\<not> is_non_public (IpV4 0x01010101)" by code_simp
  have ok: "validate_url ?U ?dns ''https://registry.example/mirror?q'' c True = Inr ?v"
    by (simp add: validate_url_def plain_url_ops_def Let_def host pub)
  from upstream_addresses_pinned [OF plain_url_laws ok, of 0] ok c show ?thesis
    unfolding validate_upstream_def by (intro exI [of _ c] exI [of _ ?v]) simp
qed

end
