(* ===== verification/Credentials.thy ===== *)
theory Credentials
  imports Configuration
begin

text \<open>
  \<^verbatim>\<open>src/src/crypto.rs\<close>: the secrets of upstream nodes at rest. AES-256-GCM, base64, hexadecimal and UTF-8
  decoding are parameters; \<open>crypto_laws\<close> states what they document. The nonce of an encryption is an argument.
\<close>

record crypto_ops =
  cy_seal :: "bytes \<Rightarrow> bytes \<Rightarrow> bytes \<Rightarrow> bytes option"
  cy_open :: "bytes \<Rightarrow> bytes \<Rightarrow> bytes \<Rightarrow> bytes option"
  cy_base64 :: "bytes \<Rightarrow> string"
  cy_base64_decode :: "string \<Rightarrow> bytes option"
  cy_hex_decode :: "string \<Rightarrow> bytes option"
  cy_utf8 :: "bytes \<Rightarrow> string option"

definition as_bytes :: "string \<Rightarrow> bytes" where
  "as_bytes s = map of_char s"

text \<open>
  What is relied on: opening with the key and nonce of a sealed text gives the text back, a sealed
  text is not empty (it carries a tag), base64 and UTF-8 can be read back.
\<close>

definition octets :: "bytes \<Rightarrow> bool" where
  "octets b = list_all (\<lambda>x. x < 256) b"

definition crypto_laws :: "crypto_ops \<Rightarrow> bool" where
  "crypto_laws Y \<longleftrightarrow>
     (\<forall>k n m c. octets m \<longrightarrow> cy_seal Y k n m = Some c \<longrightarrow> cy_open Y k n c = Some m \<and> c \<noteq> [] \<and> octets c)
     \<and> (\<forall>b. octets b \<longrightarrow> cy_base64_decode Y (cy_base64 Y b) = Some b)
     \<and> (\<forall>s. cy_utf8 Y (as_bytes s) = Some s)"

text \<open>Operations that meet the laws, without the secrecy.\<close>

definition plain_crypto :: crypto_ops where
  "plain_crypto =
     \<lparr>cy_seal = (\<lambda>k n m. Some (0 # m)), cy_open = (\<lambda>k n c. Some (tl c)), cy_base64 = map char_of,
      cy_base64_decode = (\<lambda>s. Some (map of_char s)), cy_hex_decode = (\<lambda>s. Some (map of_char s)),
      cy_utf8 = (\<lambda>b. Some (map char_of b))\<rparr>"

lemma octets_as_bytes [simp]: "octets (as_bytes s)"
  using range_nat_of_char by (force simp: octets_def as_bytes_def list_all_iff)

lemma plain_crypto_laws: "crypto_laws plain_crypto"
proof -
  have "map of_char (map char_of b :: string) = b" if "octets b" for b :: bytes
    using that by (induction b) (simp_all add: octets_def)
  then show ?thesis
    by (simp add: crypto_laws_def plain_crypto_def octets_def as_bytes_def)
qed

text \<open>A cipher holds its key, or nothing when no master key is configured.\<close>

type_synonym credential_cipher = "bytes option"

definition cipher_from_config :: "crypto_ops \<Rightarrow> config \<Rightarrow> credential_cipher api_result" where
  "cipher_from_config Y config =
     (case cf_credential_key config of
        None \<Rightarrow> Inr None
      | Some raw \<Rightarrow>
          result_bind
            (if length raw = 64 \<and> list_all is_ascii_hexdigit raw
             then ok_or (BadRequest ''invalid credential master key'') (cy_hex_decode Y raw)
             else ok_or (BadRequest ''credential master key must be 32-byte base64 or 64-char hex'')
                    (cy_base64_decode Y raw)) (\<lambda>key.
          if length key \<noteq> 32
          then Inl (BadRequest ''credential master key must contain exactly 32 bytes'')
          else Inr (Some key)))"

definition is_configured :: "credential_cipher \<Rightarrow> bool" where
  "is_configured cipher \<longleftrightarrow> cipher \<noteq> None"

definition encrypt :: "crypto_ops \<Rightarrow> credential_cipher \<Rightarrow> bytes \<Rightarrow> string \<Rightarrow> string api_result" where
  "encrypt Y cipher nonce plaintext =
     result_bind (ok_or (BadRequest ''DONKEY_CREDENTIAL_KEY is required for upstream credentials'') cipher) (\<lambda>key.
     result_bind (ok_or (Internal ''credential encryption failed'') (cy_seal Y key nonce (as_bytes plaintext)))
       (\<lambda>ciphertext. Inr (cy_base64 Y (nonce @ ciphertext))))"

definition decrypt :: "crypto_ops \<Rightarrow> credential_cipher \<Rightarrow> string \<Rightarrow> string api_result" where
  "decrypt Y cipher encoded =
     result_bind (ok_or (BadRequest ''DONKEY_CREDENTIAL_KEY is required to read upstream credentials'') cipher) (\<lambda>key.
     result_bind (ok_or (Internal ''credential ciphertext is invalid'') (cy_base64_decode Y encoded)) (\<lambda>sealed.
     if length sealed \<le> 12 then Inl (Internal ''credential ciphertext is truncated'')
     else
       result_bind (ok_or (Internal ''credential decryption failed'')
           (cy_open Y key (take 12 sealed) (drop 12 sealed))) (\<lambda>plaintext.
         ok_or (Internal ''credential plaintext is invalid'') (cy_utf8 Y plaintext))))"

lemma decrypt_encrypt:
  assumes "crypto_laws Y" and "length nonce = 12" and "octets nonce" and "encrypt Y cipher nonce s = Inr e"
  shows "decrypt Y cipher e = Inr s"
proof -
  from assms(4) obtain key c where key: "cipher = Some key" and c: "cy_seal Y key nonce (as_bytes s) = Some c"
    and e: "e = cy_base64 Y (nonce @ c)"
    by (auto simp: encrypt_def)
  have app: "octets (nonce @ c)" if "octets c" using assms(3) that by (simp add: octets_def)
  from assms(1,3) c have "cy_open Y key nonce c = Some (as_bytes s)" "c \<noteq> []"
    "cy_base64_decode Y e = Some (nonce @ c)" "cy_utf8 Y (as_bytes s) = Some s"
    unfolding crypto_laws_def e using app octets_as_bytes by blast+
  with key assms(2) show ?thesis by (simp add: decrypt_def ok_or_def)
qed

end
