(* ===== verification/Nodes.thy ===== *)
theory Nodes
  imports Registry_Routes Security Credentials Node_Selection Image_Jobs
begin

text \<open>
  \<^verbatim>\<open>src/src/nodes.rs\<close> and the node statements of \<^verbatim>\<open>src/src/db.rs\<close>: upstream nodes, their limits and
  metrics, their credentials, the live transfer rates and the health probes. The tables of the image tools
  are part of the state, because jobs and sync rules refer to nodes. An operation that queries before it
  writes takes the tables its queries read as \<open>seen\<close>. The reply of an upstream to a probe, the \<open>http\<close>
  crate's header parsers and \<open>ln_1p\<close> are parameters; the sums of SQL stay within 64 bits.
\<close>

section \<open>Data\<close>

record node_input =
  ni_name :: string
  ni_url :: string
  ni_registry_route_id :: uuid
  ni_enabled :: bool
  ni_priority :: int
  ni_max_concurrency :: nat
  ni_cf_preferred :: bool
  ni_connect_ip_type :: string
  ni_connect_ip :: "string option"
  ni_auth_mode :: string
  ni_auth_username :: "string option"
  ni_auth_header :: "string option"
  ni_auth_secret :: "string option"

record rate_sample =
  ra_started_at :: instant
  ra_finished_at :: instant
  ra_bytes :: nat

record node_runtime_config =
  nc_scheduler_policy :: scheduler_policy
  nc_upstream_timeout :: duration
  nc_health_interval :: duration

record node_service =
  ns_config :: config
  ns_runtime :: node_runtime_config
  ns_cipher :: credential_cipher
  ns_live_rates :: "uuid \<rightharpoonup> rate_sample list"

record 'u node_env =
  ne_url :: "'u url_ops"
  ne_lookup :: resolver
  ne_crypto :: crypto_ops
  ne_header_name :: "string \<Rightarrow> string option"
  ne_header_value :: "string \<Rightarrow> bool"
  ne_status_text :: "nat \<Rightarrow> string"
  ne_ln_1p :: "f64 \<Rightarrow> f64"

record node_tables =
  nt_routes :: route_tables
  nt_limits :: "uuid \<rightharpoonup> int"
  nt_metrics :: "uuid \<rightharpoonup> node_metric"
  nt_jobs :: job_tables

abbreviation nt_nodes :: "node_tables \<Rightarrow> node_model list" where
  "nt_nodes N \<equiv> rt_nodes (nt_routes N)"

definition new_node_service :: "crypto_ops \<Rightarrow> config \<Rightarrow> node_service api_result" where
  "new_node_service Y config =
     result_bind (cipher_from_config Y config) (\<lambda>cipher.
       Inr \<lparr>ns_config = config,
            ns_runtime = \<lparr>nc_scheduler_policy = cf_scheduler_policy config,
              nc_upstream_timeout = cf_upstream_timeout config, nc_health_interval = cf_health_interval config\<rparr>,
            ns_cipher = cipher, ns_live_rates = Map.empty\<rparr>)"

definition update_node_runtime :: "config \<Rightarrow> node_service \<Rightarrow> node_service" where
  "update_node_runtime config S =
     S\<lparr>ns_runtime := \<lparr>nc_scheduler_policy = cf_scheduler_policy config,
         nc_upstream_timeout = cf_upstream_timeout config, nc_health_interval = cf_health_interval config\<rparr>\<rparr>"

section \<open>Live rates\<close>

definition LIVE_RATE_WINDOW :: duration where
  "LIVE_RATE_WINDOW = 10 * SECOND"

definition instant_checked_sub :: "instant \<Rightarrow> duration \<Rightarrow> instant option" where
  "instant_checked_sub now d = (if d \<le> now then Some (now - d) else None)"

definition unwrap_or :: "'a \<Rightarrow> 'a option \<Rightarrow> 'a" where
  "unwrap_or d x = (case x of None \<Rightarrow> d | Some v \<Rightarrow> v)"

definition rate_prune :: "instant \<Rightarrow> rate_sample list \<Rightarrow> rate_sample list" where
  "rate_prune now samples = dropWhile (\<lambda>s. LIVE_RATE_WINDOW < now - ra_finished_at s) samples"

definition rate_record :: "instant \<Rightarrow> nat \<Rightarrow> duration \<Rightarrow> rate_sample list \<Rightarrow> rate_sample list" where
  "rate_record now bytes elapsed samples =
     rate_prune now (samples @ [\<lparr>ra_started_at = unwrap_or now (instant_checked_sub now elapsed),
       ra_finished_at = now, ra_bytes = bytes\<rparr>])"

definition overlap_bytes :: "instant \<Rightarrow> rate_sample \<Rightarrow> f64" where
  "overlap_bytes started_at s =
     (let sample_seconds = as_secs_f64 (ra_finished_at s - ra_started_at s) in
      if f64_le sample_seconds (f64_const 0) then f64_of_nat (ra_bytes s)
      else
        let overlap_start = max (ra_started_at s) started_at;
            overlap_seconds = as_secs_f64 (ra_finished_at s - overlap_start)
        in f64_mul (f64_of_nat (ra_bytes s))
             (f64_clamp (f64_const 0) (f64_const 1) (f64_div overlap_seconds sample_seconds)))"

definition rate :: "instant \<Rightarrow> rate_sample list \<Rightarrow> nat \<times> rate_sample list" where
  "rate now samples =
     (let samples = rate_prune now samples in
      case samples of
        [] \<Rightarrow> (0, [])
      | first # _ \<Rightarrow>
          let window_start = unwrap_or now (instant_checked_sub now LIVE_RATE_WINDOW);
              started_at = max (ra_started_at first) window_start;
              seconds = f64_max (as_secs_f64 (now - started_at)) (f64_const (1 / 4));
              bytes = f64_sum (map (overlap_bytes started_at) samples)
          in (f64_to_u64 (f64_min (f64_div bytes seconds) (f64_of_nat u64_max)), samples))"

definition record_live_transfer :: "instant \<Rightarrow> uuid \<Rightarrow> nat \<Rightarrow> duration \<Rightarrow> node_service \<Rightarrow> node_service" where
  "record_live_transfer now node_id bytes elapsed S =
     S\<lparr>ns_live_rates := (ns_live_rates S)(node_id \<mapsto>
         rate_record now bytes elapsed (unwrap_or [] (ns_live_rates S node_id)))\<rparr>"

definition record_live_bytes :: "instant \<Rightarrow> uuid \<Rightarrow> nat \<Rightarrow> node_service \<Rightarrow> node_service" where
  "record_live_bytes now node_id bytes S =
     (if bytes = 0 then S else record_live_transfer now node_id bytes 0 S)"

definition live_rate :: "instant \<Rightarrow> uuid \<Rightarrow> node_service \<Rightarrow> nat \<times> node_service" where
  "live_rate now node_id S =
     (case ns_live_rates S node_id of
        None \<Rightarrow> (0, S)
      | Some samples \<Rightarrow>
          let (r, samples') = rate now samples
          in (r, S\<lparr>ns_live_rates := (ns_live_rates S)(node_id \<mapsto> samples')\<rparr>))"

section \<open>Validation\<close>

definition normalize_connect_ip_type :: "string \<Rightarrow> string api_result" where
  "normalize_connect_ip_type value =
     (if value = '''' \<or> value = ''ip'' then Inr ''ip''
      else if value = ''domain'' then Inr ''domain''
      else Inl (BadRequest ''connect_ip_type must be ip or domain''))"

definition normalized_auth_mode :: "string \<Rightarrow> string api_result" where
  "normalized_auth_mode mode =
     (let mode = (if mode = '''' then ''none'' else mode) in
      if mode \<in> {''none'', ''basic'', ''bearer'', ''header''} then Inr mode
      else Inl (BadRequest ''unsupported authentication mode''))"

definition trimmed :: "string option \<Rightarrow> string option" where
  "trimmed value = filter_option (\<lambda>v. v \<noteq> []) (map_option trim value)"

definition normalized_header :: "'u node_env \<Rightarrow> string option \<Rightarrow> string option api_result" where
  "normalized_header env value =
     (case trimmed value of
        None \<Rightarrow> Inr None
      | Some v \<Rightarrow>
          result_bind (ok_or (BadRequest ''invalid authentication header name'') (ne_header_name env v)) (\<lambda>name.
            if name \<in> {''authorization'', ''host'', ''proxy-authorization'', ''cookie'', ''connection'',
                 ''transfer-encoding''}
            then Inl (BadRequest ''this authentication header is not allowed'')
            else Inr (Some name)))"

definition node_truncate :: "string \<Rightarrow> nat \<Rightarrow> string" where
  "node_truncate value most = take most value"

definition none_or_empty :: "string option \<Rightarrow> bool" where
  "none_or_empty x \<longleftrightarrow> (case x of None \<Rightarrow> True | Some v \<Rightarrow> v = [])"

definition validate_input :: "node_input \<Rightarrow> unit api_result" where
  "validate_input input =
     (if trim (ni_name input) = [] \<or> 80 < length (ni_name input)
      then Inl (BadRequest ''name must be between 1 and 80 characters'')
      else if \<not> (0 \<le> ni_priority input \<and> ni_priority input \<le> 1000)
      then Inl (BadRequest ''priority must be between 0 and 1000'')
      else if \<not> (1 \<le> ni_max_concurrency input \<and> ni_max_concurrency input \<le> 64)
      then Inl (BadRequest ''max_concurrency must be between 1 and 64'')
      else
      result_bind (normalize_connect_ip_type (ni_connect_ip_type input)) (\<lambda>_.
      result_bind (normalized_auth_mode (ni_auth_mode input)) (\<lambda>mode.
        if mode = ''basic'' \<and> none_or_empty (ni_auth_username input)
        then Inl (BadRequest ''Basic authentication requires a username'')
        else if mode = ''header'' \<and> none_or_empty (ni_auth_header input)
        then Inl (BadRequest ''custom header authentication requires a header name'')
        else Inr ())))"

definition empty_metric :: "uuid \<Rightarrow> node_metric" where
  "empty_metric node_id =
     \<lparr>nm_node_id = node_id, nm_healthy = True, nm_latency_ms = 0, nm_speed_bps = 0,
      nm_success_rate = f64_const 1, nm_current_bps = 0, nm_total_bytes = 0,
      nm_last_checked_at = None, nm_last_error = None\<rparr>"

definition score :: "'u node_env \<Rightarrow> node_model \<Rightarrow> node_metric \<Rightarrow> scheduler_policy \<Rightarrow> f64" where
  "score env node metric policy =
     (if \<not> nd_enabled node then f64_neg (f64_const 1)
      else
        let health = (if nm_healthy metric then f64_const 1
                      else if nm_last_checked_at metric = None then f64_const (55 / 100) else f64_const (8 / 100));
            success = f64_clamp (f64_const (5 / 100)) (f64_const 1) (nm_success_rate metric);
            priority = f64_div (f64_const 1)
              (f64_add (f64_const 1) (f64_div (f64_of_nat (nat (max (nd_priority node) 0))) (f64_const 100)))
        in case policy of
          Balanced \<Rightarrow>
            let speed = ne_ln_1p env (f64_of_nat (nat (max (nm_speed_bps metric) 1)));
                latency = f64_div (f64_const 1)
                  (f64_add (f64_const 1) (f64_div (f64_of_nat (nat (max (nm_latency_ms metric) 0))) (f64_const 250)))
            in f64_mul (f64_mul health
                 (f64_add (f64_add (f64_mul (f64_const (55 / 100)) speed) (f64_mul (f64_const 2) latency)) priority))
                 (f64_max success (f64_const (1 / 4)))
        | SpeedFirst \<Rightarrow>
            let speed = f64_of_nat (nat (max (nm_speed_bps metric) 1))
            in f64_add (f64_mul (f64_mul health (f64_square success)) speed) priority)"

section \<open>Statements\<close>

definition find_node :: "uuid \<Rightarrow> node_tables \<Rightarrow> node_model option" where
  "find_node node_id N = find (\<lambda>n. nd_id n = node_id) (nt_nodes N)"

definition by_priority_name :: "node_model \<Rightarrow> node_model \<Rightarrow> bool" where
  "by_priority_name = then_with (\<lambda>a b. nd_priority a \<le> nd_priority b) (\<lambda>a b. nd_name a \<le> nd_name b)"

definition list_nodes :: "node_tables \<Rightarrow> node_model list" where
  "list_nodes N = sort_by by_priority_name (nt_nodes N)"

definition get_node_by_route_and_url :: "uuid \<Rightarrow> string \<Rightarrow> node_tables \<Rightarrow> node_model option" where
  "get_node_by_route_and_url route_id url N =
     find (\<lambda>n. nd_registry_route_id n = route_id \<and> nd_url n = url) (nt_nodes N)"

definition list_nodes_for_route :: "uuid \<Rightarrow> node_tables \<Rightarrow> node_model list" where
  "list_nodes_for_route route_id N =
     sort_by by_priority_name (filter (\<lambda>n. nd_registry_route_id n = route_id) (nt_nodes N))"

definition has_authenticated_nodes :: "node_tables \<Rightarrow> bool" where
  "has_authenticated_nodes N = list_ex (\<lambda>n. nd_auth_secret_enc n \<noteq> None) (nt_nodes N)"

definition with_nodes :: "node_model list \<Rightarrow> node_tables \<Rightarrow> node_tables" where
  "with_nodes ns N = N\<lparr>nt_routes := (nt_routes N)\<lparr>rt_nodes := ns\<rparr>\<rparr>"

text \<open>The primary key, the unique index over route and URL, and the foreign key to the route.\<close>

definition node_clashes :: "node_model \<Rightarrow> node_model \<Rightarrow> bool" where
  "node_clashes n m \<longleftrightarrow>
     nd_id n = nd_id m \<or> nd_registry_route_id n = nd_registry_route_id m \<and> nd_url n = nd_url m"

definition insert_node :: "node_model \<Rightarrow> node_tables \<Rightarrow> node_tables \<times> (db_error + node_model)" where
  "insert_node n N =
     (if list_ex (node_clashes n) (nt_nodes N) then (N, Inl UniqueConstraintViolation)
      else if find_route (nd_registry_route_id n) (nt_routes N) = None
      then (N, Inl ForeignKeyConstraintViolation)
      else ((with_nodes (nt_nodes N @ [n]) N)\<lparr>nt_jobs := (nt_jobs N)\<lparr>jt_nodes := jt_nodes (nt_jobs N) @ [nd_id n]\<rparr>\<rparr>,
            Inr n))"

definition save_node :: "node_model \<Rightarrow> node_tables \<Rightarrow> node_tables \<times> (db_error + node_model)" where
  "save_node n N =
     (case find_node (nd_id n) N of
        None \<Rightarrow> (N, Inl (OtherDbErr ''None of the records are updated''))
      | Some old \<Rightarrow>
          let new = n\<lparr>nd_created_at := nd_created_at old\<rparr> in
          if list_ex (\<lambda>m. nd_id m \<noteq> nd_id n \<and> node_clashes new m) (nt_nodes N)
          then (N, Inl UniqueConstraintViolation)
          else if find_route (nd_registry_route_id new) (nt_routes N) = None
          then (N, Inl ForeignKeyConstraintViolation)
          else (with_nodes (map (\<lambda>m. if nd_id m = nd_id n then new else m) (nt_nodes N)) N, Inr new))"

definition get_node_max_concurrency :: "uuid \<Rightarrow> node_tables \<Rightarrow> nat" where
  "get_node_max_concurrency node_id N = nat (clamp 1 65535 (unwrap_or 8 (nt_limits N node_id)))"

text \<open>The foreign key and the \<open>CHECK\<close> of \<open>node_limits\<close>.\<close>

definition set_node_max_concurrency :: "uuid \<Rightarrow> nat \<Rightarrow> node_tables \<Rightarrow> node_tables \<times> unit api_result" where
  "set_node_max_concurrency node_id most N =
     (if find_node node_id N = None then (N, Inl (Database ''FOREIGN KEY constraint failed''))
      else if \<not> (1 \<le> most \<and> most \<le> 64) then (N, Inl (Database ''CHECK constraint failed''))
      else (N\<lparr>nt_limits := (nt_limits N)(node_id \<mapsto> int most)\<rparr>, Inr ()))"

text \<open>The trigger \<open>trg_node_metrics_insert_parent\<close> refuses a metric of a node that is gone.\<close>

definition upsert_metric :: "node_metric \<Rightarrow> node_tables \<Rightarrow> node_tables \<times> unit api_result" where
  "upsert_metric metric N =
     (if nt_metrics N (nm_node_id metric) = None \<and> find_node (nm_node_id metric) N = None
      then (N, Inl (Database ''node metric requires an existing node''))
      else (N\<lparr>nt_metrics := (nt_metrics N)(nm_node_id metric \<mapsto> metric)\<rparr>, Inr ()))"

text \<open>The transaction of \<open>db::delete_node\<close>, with the triggers and cascades of the deletion.\<close>

definition NODE_REFERENCED :: string where
  "NODE_REFERENCED = ''node is referenced by an active job or sync rule''"

definition delete_node_tables :: "uuid \<Rightarrow> node_tables \<Rightarrow> node_tables \<times> (db_error + nat)" where
  "delete_node_tables node_id N =
     (if node_in_use node_id (nt_jobs N) then (N, Inl (OtherDbErr NODE_REFERENCED))
      else if find_node node_id N = None
      then (N\<lparr>nt_metrics := (nt_metrics N)(node_id := None), nt_limits := (nt_limits N)(node_id := None)\<rparr>, Inr 0)
      else
        case delete_node_row node_id (nt_jobs N) of
          (_, Inl e) \<Rightarrow> (N, Inl (OtherDbErr ''invalid image job''))
        | (J, Inr _) \<Rightarrow>
            ((with_nodes (filter (\<lambda>n. nd_id n \<noteq> node_id) (nt_nodes N)) N)
               \<lparr>nt_metrics := (nt_metrics N)(node_id := None), nt_limits := (nt_limits N)(node_id := None),
                nt_jobs := J\<rparr>, Inr 1))"

section \<open>Credentials of a node\<close>

datatype request_auth = NoAuth | BasicAuth string string | BearerAuth string | HeaderAuth string string

definition seal_secret ::
  "'u node_env \<Rightarrow> node_service \<Rightarrow> bytes \<Rightarrow> string \<Rightarrow> string option \<Rightarrow> string option api_result" where
  "seal_secret env S nonce mode secret =
     (if mode = ''none'' then Inr None
      else
        result_bind (ok_or (BadRequest ''authentication secret is required'')
            (filter_option (\<lambda>v. v \<noteq> []) secret)) (\<lambda>secret.
          if 4096 < length secret then Inl (BadRequest ''authentication secret is too long'')
          else result_bind (encrypt (ne_crypto env) (ns_cipher S) nonce secret) (\<lambda>e. Inr (Some e))))"

definition require_registry_auth_for_secret :: "node_service \<Rightarrow> string \<Rightarrow> unit api_result" where
  "require_registry_auth_for_secret S mode =
     (if mode \<noteq> ''none'' \<and> cf_registry_auth (ns_config S) = None
      then Inl (BadRequest ''DONKEY_REGISTRY_AUTH is required before adding an authenticated upstream'')
      else Inr ())"

definition apply_auth :: "'u node_env \<Rightarrow> node_service \<Rightarrow> node_model \<Rightarrow> request_auth api_result" where
  "apply_auth env S node =
     (if nd_auth_mode node = ''none'' then Inr NoAuth
      else
        result_bind (ok_or (BadRequest ''upstream authentication is configured without a secret'')
            (nd_auth_secret_enc node)) (\<lambda>encrypted.
        result_bind (decrypt (ne_crypto env) (ns_cipher S) encrypted) (\<lambda>secret.
          if nd_auth_mode node = ''basic'' then
            result_bind (ok_or (BadRequest ''Basic authentication requires a username'') (nd_auth_username node))
              (\<lambda>username. Inr (BasicAuth username secret))
          else if nd_auth_mode node = ''bearer'' then Inr (BearerAuth secret)
          else if nd_auth_mode node = ''header'' then
            result_bind (ok_or (BadRequest ''custom header authentication requires a header name'')
                (nd_auth_header node)) (\<lambda>header.
            result_bind (ok_or (BadRequest ''invalid authentication header name'') (ne_header_name env header)) (\<lambda>name.
              if ne_header_value env secret then Inr (HeaderAuth name secret)
              else Inl (BadRequest ''invalid authentication header value'')))
          else Inl (BadRequest ''unsupported authentication mode''))))"

definition decrypt_node_secret :: "'u node_env \<Rightarrow> node_service \<Rightarrow> node_model \<Rightarrow> string api_result" where
  "decrypt_node_secret env S node =
     result_bind (ok_or (BadRequest ''node credential has no secret'') (nd_auth_secret_enc node))
       (decrypt (ne_crypto env) (ns_cipher S))"

definition oci_auth_for_node ::
  "'u node_env \<Rightarrow> node_service \<Rightarrow> uuid \<Rightarrow> node_tables \<Rightarrow> (node_model \<times> request_auth) api_result" where
  "oci_auth_for_node env S node_id N =
     result_bind (ok_or (NotFound ''node'') (find_node node_id N)) (\<lambda>node.
     result_bind
       (if nd_auth_mode node = ''none'' then Inr NoAuth
        else if nd_auth_mode node = ''basic'' then
          result_bind (ok_or (BadRequest ''Basic node credential has no username'') (nd_auth_username node)) (\<lambda>username.
          result_bind (decrypt_node_secret env S node) (\<lambda>secret. Inr (BasicAuth username secret)))
        else if nd_auth_mode node = ''bearer'' then
          result_bind (decrypt_node_secret env S node) (\<lambda>secret. Inr (BearerAuth secret))
        else Inl (BadRequest ''custom-header nodes cannot be used by image tools'')) (\<lambda>auth.
       Inr (node, auth)))"

section \<open>Views\<close>

definition view_with ::
  "'u node_env \<Rightarrow> instant \<Rightarrow> node_model \<Rightarrow> node_metric \<Rightarrow> registry_route \<Rightarrow> node_tables \<Rightarrow> node_service
     \<Rightarrow> node_view \<times> node_service" where
  "view_with env now node metric route N S =
     (let (live_bps, S') = live_rate now (nd_id node) S in
      (\<lparr>nv_node = node, nv_metric = metric,
        nv_score = score env node metric (nc_scheduler_policy (ns_runtime S)),
        nv_auth_configured = (nd_auth_secret_enc node \<noteq> None), nv_route = route_summary route,
        nv_max_concurrency = get_node_max_concurrency (nd_id node) N, nv_live_bps = live_bps\<rparr>, S'))"

definition view ::
  "'u node_env \<Rightarrow> instant \<Rightarrow> node_model \<Rightarrow> node_tables \<Rightarrow> node_service \<Rightarrow> node_view api_result \<times> node_service" where
  "view env now node N S =
     (case find_route (nd_registry_route_id node) (nt_routes N) of
        None \<Rightarrow> (Inl (Internal ''node has no Registry route''), S)
      | Some route \<Rightarrow>
          let (v, S') = view_with env now node (unwrap_or (empty_metric (nd_id node)) (nt_metrics N (nd_id node))) route N S
          in (Inr v, S'))"

fun views ::
  "'u node_env \<Rightarrow> instant \<Rightarrow> node_model list \<Rightarrow> node_tables \<Rightarrow> node_service
     \<Rightarrow> node_view list api_result \<times> node_service" where
  "views env now [] N S = (Inr [], S)"
| "views env now (n # ns) N S =
     (case view env now n N S of
        (Inl e, S') \<Rightarrow> (Inl e, S')
      | (Inr v, S') \<Rightarrow>
          (case views env now ns N S' of
             (Inl e, S'') \<Rightarrow> (Inl e, S'')
           | (Inr vs, S'') \<Rightarrow> (Inr (v # vs), S'')))"

definition by_score :: "node_view \<Rightarrow> node_view \<Rightarrow> bool" where
  "by_score = then_with (\<lambda>a b. nv_score b \<le> nv_score a)
     (then_with (\<lambda>a b. nd_priority (nv_node a) \<le> nd_priority (nv_node b))
       (\<lambda>a b. nd_url (nv_node a) \<le> nd_url (nv_node b)))"

definition list_node_views ::
  "'u node_env \<Rightarrow> instant \<Rightarrow> node_tables \<Rightarrow> node_service \<Rightarrow> node_view list api_result \<times> node_service" where
  "list_node_views env now N S =
     (case views env now (list_nodes N) N S of
        (Inl e, S') \<Rightarrow> (Inl e, S') | (Inr vs, S') \<Rightarrow> (Inr (sort_by by_score vs), S'))"

definition enabled_registry_nodes ::
  "'u node_env \<Rightarrow> instant \<Rightarrow> uuid \<Rightarrow> node_tables \<Rightarrow> node_service \<Rightarrow> node_view list api_result \<times> node_service" where
  "enabled_registry_nodes env now route_id N S =
     views env now (filter nd_enabled (list_nodes_for_route route_id N)) N S"

definition registry_node ::
  "'u node_env \<Rightarrow> instant \<Rightarrow> uuid \<Rightarrow> node_tables \<Rightarrow> node_service \<Rightarrow> node_view api_result \<times> node_service" where
  "registry_node env now node_id N S =
     (case find_node node_id N of
        None \<Rightarrow> (Inl (NotFound ''node''), S)
      | Some node \<Rightarrow>
          (case view env now node N S of
             (Inl e, S') \<Rightarrow> (Inl e, S')
           | (Inr v, S') \<Rightarrow>
               (if \<not> nd_enabled (nv_node v) \<or> \<not> rs_enabled (nv_route v)
                then Inl (BadRequest ''selected image source node or its Registry route is disabled'')
                else Inr v, S')))"

section \<open>Administration\<close>

definition NODE_ROUTE_CONFLICT :: string where
  "NODE_ROUTE_CONFLICT = ''Registry route changed or no longer exists''"

definition NODE_URL_CONFLICT :: string where
  "NODE_URL_CONFLICT = ''node URL already exists in this Registry route''"

definition map_node_write_error :: "db_error \<Rightarrow> app_error" where
  "map_node_write_error = map_constraint NODE_URL_CONFLICT NODE_ROUTE_CONFLICT"

definition check_connect_target :: "node_input \<Rightarrow> unit api_result" where
  "check_connect_target input =
     (case ni_connect_ip input of
        None \<Rightarrow> Inr ()
      | Some target \<Rightarrow>
          result_bind (normalize_connect_ip_type (ni_connect_ip_type input)) (\<lambda>_.
            validate_connect_target_syntax target (ni_connect_ip_type input)))"

text \<open>The model \<open>create\<close> inserts, up to the write.\<close>

definition prepare_create ::
  "'u node_env \<Rightarrow> node_service \<Rightarrow> node_tables \<Rightarrow> uuid \<Rightarrow> bytes \<Rightarrow> timestamp \<Rightarrow> node_input
     \<Rightarrow> (node_model \<times> registry_route) api_result" where
  "prepare_create env S seen fresh nonce now input =
     result_bind (validate_input input) (\<lambda>_.
     result_bind (require_registry_auth_for_secret S (ni_auth_mode input)) (\<lambda>_.
     result_bind (ok_or (Conflict NODE_ROUTE_CONFLICT) (find_route (ni_registry_route_id input) (nt_routes seen))) (\<lambda>route.
     result_bind (validate_upstream (ne_url env) (ne_lookup env) (ni_url input) (ns_config S)) (\<lambda>validated.
     let canonical = url_as_str (ne_url env) (vu_url validated) in
     if get_node_by_route_and_url (rr_id route) canonical seen \<noteq> None then Inl (Conflict NODE_URL_CONFLICT)
     else
     result_bind (check_connect_target input) (\<lambda>_.
     result_bind (seal_secret env S nonce (ni_auth_mode input) (ni_auth_secret input)) (\<lambda>auth_secret_enc.
     result_bind (normalize_connect_ip_type (ni_connect_ip_type input)) (\<lambda>connect_ip_type.
     result_bind (normalized_auth_mode (ni_auth_mode input)) (\<lambda>auth_mode.
     result_bind (normalized_header env (ni_auth_header input)) (\<lambda>auth_header.
       Inr (\<lparr>nd_id = fresh, nd_name = trim (ni_name input), nd_url = canonical,
             nd_registry_route_id = rr_id route, nd_enabled = ni_enabled input, nd_priority = ni_priority input,
             nd_cf_preferred = ni_cf_preferred input, nd_connect_ip_type = connect_ip_type,
             nd_connect_ip = ni_connect_ip input, nd_auth_mode = auth_mode,
             nd_auth_username = trimmed (ni_auth_username input), nd_auth_header = auth_header,
             nd_auth_secret_enc = auth_secret_enc, nd_created_at = now, nd_updated_at = now\<rparr>, route))))))))))"

definition create_node ::
  "'u node_env \<Rightarrow> node_tables \<Rightarrow> uuid \<Rightarrow> bytes \<Rightarrow> timestamp \<Rightarrow> instant \<Rightarrow> node_input
     \<Rightarrow> node_tables \<times> node_service \<Rightarrow> (node_tables \<times> node_service) \<times> node_view api_result" where
  "create_node env seen fresh nonce now clock input NS =
     (case NS of (N, S) \<Rightarrow>
      case prepare_create env S seen fresh nonce now input of
        Inl e \<Rightarrow> ((N, S), Inl e)
      | Inr (node, route) \<Rightarrow>
          (case insert_node node N of
             (N1, Inl e) \<Rightarrow> ((N1, S), Inl (map_node_write_error e))
           | (N1, Inr node) \<Rightarrow>
               (case set_node_max_concurrency (nd_id node) (ni_max_concurrency input) N1 of
                  (N2, Inl e) \<Rightarrow> ((N2, S), Inl e)
                | (N2, Inr _) \<Rightarrow>
                    (case upsert_metric (empty_metric (nd_id node)) N2 of
                       (N3, Inl e) \<Rightarrow> ((N3, S), Inl e)
                     | (N3, Inr _) \<Rightarrow>
                         let (v, S') = view_with env clock node (empty_metric (nd_id node)) route N3 S
                         in ((N3, S'), Inr v)))))"

definition prepare_update ::
  "'u node_env \<Rightarrow> node_service \<Rightarrow> node_tables \<Rightarrow> uuid \<Rightarrow> bytes \<Rightarrow> timestamp \<Rightarrow> node_input
     \<Rightarrow> (node_model \<times> registry_route) api_result" where
  "prepare_update env S seen node_id nonce now input =
     result_bind (validate_input input) (\<lambda>_.
     result_bind (require_registry_auth_for_secret S (ni_auth_mode input)) (\<lambda>_.
     result_bind (ok_or (Conflict NODE_ROUTE_CONFLICT) (find_route (ni_registry_route_id input) (nt_routes seen))) (\<lambda>route.
     result_bind (validate_upstream (ne_url env) (ne_lookup env) (ni_url input) (ns_config S)) (\<lambda>validated.
     result_bind (check_connect_target input) (\<lambda>_.
     result_bind (ok_or (NotFound ''node'') (find_node node_id seen)) (\<lambda>node.
     let canonical = url_as_str (ne_url env) (vu_url validated) in
     if (case get_node_by_route_and_url (rr_id route) canonical seen of
           None \<Rightarrow> False | Some existing \<Rightarrow> nd_id existing \<noteq> node_id)
     then Inl (Conflict NODE_URL_CONFLICT)
     else
     result_bind (normalize_connect_ip_type (ni_connect_ip_type input)) (\<lambda>connect_ip_type.
     result_bind (normalized_auth_mode (ni_auth_mode input)) (\<lambda>auth_mode.
     result_bind (normalized_header env (ni_auth_header input)) (\<lambda>auth_header.
     result_bind
       (if auth_mode = ''none'' then Inr None
        else case ni_auth_secret input of
          None \<Rightarrow> Inr (nd_auth_secret_enc node)
        | Some secret \<Rightarrow> seal_secret env S nonce auth_mode (Some secret)) (\<lambda>auth_secret_enc.
       Inr (node\<lparr>nd_name := trim (ni_name input), nd_url := canonical, nd_registry_route_id := rr_id route,
              nd_enabled := ni_enabled input, nd_priority := ni_priority input,
              nd_cf_preferred := ni_cf_preferred input, nd_connect_ip_type := connect_ip_type,
              nd_connect_ip := ni_connect_ip input, nd_auth_mode := auth_mode,
              nd_auth_username := trimmed (ni_auth_username input), nd_auth_header := auth_header,
              nd_auth_secret_enc := auth_secret_enc, nd_updated_at := now\<rparr>, route)))))))))))"

definition update_node ::
  "'u node_env \<Rightarrow> node_tables \<Rightarrow> uuid \<Rightarrow> bytes \<Rightarrow> timestamp \<Rightarrow> instant \<Rightarrow> node_input
     \<Rightarrow> node_tables \<times> node_service \<Rightarrow> (node_tables \<times> node_service) \<times> node_view api_result" where
  "update_node env seen node_id nonce now clock input NS =
     (case NS of (N, S) \<Rightarrow>
      case prepare_update env S seen node_id nonce now input of
        Inl e \<Rightarrow> ((N, S), Inl e)
      | Inr (node, route) \<Rightarrow>
          (case save_node node N of
             (N1, Inl e) \<Rightarrow> ((N1, S), Inl (map_node_write_error e))
           | (N1, Inr node) \<Rightarrow>
               (case set_node_max_concurrency node_id (ni_max_concurrency input) N1 of
                  (N2, Inl e) \<Rightarrow> ((N2, S), Inl e)
                | (N2, Inr _) \<Rightarrow>
                    let (v, S') = view_with env clock node
                          (unwrap_or (empty_metric node_id) (nt_metrics N2 node_id)) route N2 S
                    in ((N2, S'), Inr v))))"

definition delete_node ::
  "uuid \<Rightarrow> node_tables \<times> node_service \<Rightarrow> (node_tables \<times> node_service) \<times> unit api_result" where
  "delete_node node_id NS =
     (case NS of (N, S) \<Rightarrow>
      case delete_node_tables node_id N of
        (N', Inl e) \<Rightarrow>
          ((N', S), Inl (case e of
             OtherDbErr m \<Rightarrow> if m = NODE_REFERENCED then Conflict m else Database m
           | _ \<Rightarrow> Database ''constraint''))
      | (N', Inr n) \<Rightarrow>
          if n = 0 then ((N', S), Inl (NotFound ''node''))
          else ((N', S\<lparr>ns_live_rates := (ns_live_rates S)(node_id := None)\<rparr>), Inr ()))"

section \<open>Probes and transfer observations\<close>

text \<open>The reply to a probe: a transport error, or a status and the \<open>WWW-Authenticate\<close> header.\<close>

type_synonym probe_reply = "string + (nat \<times> string option)"

definition probe_check :: "'u node_env \<Rightarrow> probe_reply \<Rightarrow> unit api_result" where
  "probe_check env reply =
     (case reply of
        Inl e \<Rightarrow> Inl (Upstream e)
      | Inr (status, challenge) \<Rightarrow>
          let bearer_challenge = status = 401 \<and>
                (case challenge of None \<Rightarrow> False | Some v \<Rightarrow> starts_with ''bearer '' (to_ascii_lowercase v))
          in if \<not> (200 \<le> status \<and> status < 300) \<and> \<not> bearer_challenge
             then Inl (Upstream (''status '' @ ne_status_text env status)) else Inr ())"

definition probe_request ::
  "'u node_env \<Rightarrow> node_service \<Rightarrow> unit api_result \<Rightarrow> probe_reply \<Rightarrow> node_model \<Rightarrow> unit api_result" where
  "probe_request env S capacity reply node =
     result_bind capacity (\<lambda>_.
     result_bind (validate_upstream (ne_url env) (ne_lookup env) (nd_url node) (ns_config S)) (\<lambda>upstream.
     result_bind (client_for (ne_url env) upstream (nc_upstream_timeout (ns_runtime S))) (\<lambda>_.
     result_bind (ok_or (Internal ''relative URL without a base'') (url_join (ne_url env) (vu_url upstream) ''v2/'')) (\<lambda>_.
     result_bind (apply_auth env S node) (\<lambda>_. probe_check env reply)))))"

definition probe_model ::
  "'u node_env \<Rightarrow> node_service \<Rightarrow> unit api_result \<Rightarrow> probe_reply \<Rightarrow> duration \<Rightarrow> timestamp \<Rightarrow> node_tables
     \<Rightarrow> node_model \<Rightarrow> node_metric" where
  "probe_model env S capacity reply elapsed now N node =
     (let result = probe_request env S capacity reply node;
          previous = unwrap_or (empty_metric (nd_id node)) (nt_metrics N (nd_id node));
          sample = (if is_ok result then f64_const 1 else f64_const 0)
      in previous
         \<lparr>nm_node_id := nd_id node, nm_healthy := is_ok result,
          nm_latency_ms := int (min (elapsed div 1000000) i64_max),
          nm_success_rate := f64_add (f64_mul (nm_success_rate previous) (f64_const (8 / 10)))
            (f64_mul sample (f64_const (2 / 10))),
          nm_last_checked_at := Some now,
          nm_last_error := (case result of Inl e \<Rightarrow> Some (node_truncate (app_error_display e) 240) | Inr _ \<Rightarrow> None)\<rparr>)"

definition probe ::
  "'u node_env \<Rightarrow> unit api_result \<Rightarrow> probe_reply \<Rightarrow> duration \<Rightarrow> timestamp \<Rightarrow> instant \<Rightarrow> node_tables \<Rightarrow> uuid
     \<Rightarrow> node_tables \<times> node_service \<Rightarrow> (node_tables \<times> node_service) \<times> node_view api_result" where
  "probe env capacity reply elapsed now clock seen node_id NS =
     (case NS of (N, S) \<Rightarrow>
      case find_node node_id seen of
        None \<Rightarrow> ((N, S), Inl (NotFound ''node''))
      | Some node \<Rightarrow>
          let metric = probe_model env S capacity reply elapsed now N node in
          (case upsert_metric metric N of
             (N', Inl e) \<Rightarrow> ((N', S), Inl e)
           | (N', Inr _) \<Rightarrow>
               (case find_route (nd_registry_route_id node) (nt_routes N') of
                  None \<Rightarrow> ((N', S), Inl (Internal ''node has no Registry route''))
                | Some route \<Rightarrow>
                    let (v, S') = view_with env clock node metric route N' S in ((N', S'), Inr v))))"

text \<open>\<open>probe_all\<close>: the enabled nodes that were read are probed, and each result stored if its node still exists.\<close>

definition probe_all ::
  "'u node_env \<Rightarrow> (uuid \<Rightarrow> unit api_result \<times> probe_reply \<times> duration) \<Rightarrow> timestamp \<Rightarrow> node_tables
     \<Rightarrow> node_tables \<times> node_service \<Rightarrow> node_tables \<times> node_service" where
  "probe_all env replies now seen NS =
     (case NS of (N, S) \<Rightarrow>
      (fold (\<lambda>node N.
          let (capacity, reply, elapsed) = replies (nd_id node)
          in fst (upsert_metric (probe_model env S capacity reply elapsed now N node) N))
        (filter nd_enabled (list_nodes seen)) N, S))"

definition transfer_bps :: "nat \<Rightarrow> duration \<Rightarrow> int" where
  "transfer_bps bytes elapsed =
     int (min (f64_to_u64 (f64_min (f64_div (f64_of_nat bytes) (as_secs_f64 elapsed)) (f64_of_nat i64_max))) i64_max)"

definition smoothed_speed :: "int \<Rightarrow> int \<Rightarrow> int" where
  "smoothed_speed old bps = (if old \<le> 0 then bps else (old * 7 + min (bps * 3) (int i64_max)) div 10)"

definition observed_metric :: "nat \<Rightarrow> duration \<Rightarrow> bool \<Rightarrow> bool \<Rightarrow> node_metric \<Rightarrow> node_metric" where
  "observed_metric bytes elapsed success measure_speed m =
     (let sample = (if success then f64_const 1 else f64_const 0);
          m1 = m\<lparr>nm_success_rate := f64_add (f64_mul (nm_success_rate m) (f64_const (85 / 100)))
                 (f64_mul sample (f64_const (15 / 100)))\<rparr>;
          m2 = (if success then m1\<lparr>nm_healthy := True\<rparr> else m1);
          m3 = (if success \<and> 0 < bytes
                then m2\<lparr>nm_total_bytes := nm_total_bytes m2 + int (min bytes i64_max)\<rparr> else m2)
      in if measure_speed \<and> success \<and> 0 < bytes \<and> f64_lt (f64_const 0) (as_secs_f64 elapsed)
         then m3\<lparr>nm_current_bps := transfer_bps bytes elapsed,
                 nm_speed_bps := smoothed_speed (nm_speed_bps m3) (transfer_bps bytes elapsed)\<rparr>
         else m3)"

definition record_transfer_observation ::
  "instant \<Rightarrow> uuid \<Rightarrow> nat \<Rightarrow> duration \<Rightarrow> bool \<Rightarrow> bool \<Rightarrow> node_tables \<times> node_service \<Rightarrow> node_tables \<times> node_service" where
  "record_transfer_observation now node_id bytes elapsed success measure_speed NS =
     (case NS of (N, S) \<Rightarrow>
      let S' = (if measure_speed \<and> success \<and> 0 < bytes \<and> elapsed \<noteq> 0
                then record_live_transfer now node_id bytes elapsed S else S);
          N' = N\<lparr>nt_metrics := (case nt_metrics N node_id of
                   None \<Rightarrow> nt_metrics N
                 | Some m \<Rightarrow> (nt_metrics N)(node_id \<mapsto> observed_metric bytes elapsed success measure_speed m))\<rparr>
      in (N', S'))"

definition record_transfer ::
  "instant \<Rightarrow> uuid \<Rightarrow> nat \<Rightarrow> duration \<Rightarrow> bool \<Rightarrow> node_tables \<times> node_service \<Rightarrow> node_tables \<times> node_service" where
  "record_transfer now node_id bytes elapsed success NS =
     record_transfer_observation now node_id bytes elapsed success True NS"

end
