(* ===== verification/Node_Proofs.thy ===== *)
theory Node_Proofs
  imports Nodes
begin

text \<open>
  The invariant of the node tables over every interleaving of the administration requests on nodes and
  routes, the health probes, the transfer observations and the image jobs; and what becomes of a node's
  secret.
\<close>

section \<open>Operations\<close>

datatype node_op =
    CreateNode node_tables uuid bytes timestamp instant node_input
  | UpdateNode node_tables uuid bytes timestamp instant node_input
  | DeleteNode uuid
  | ProbeNode node_tables "unit api_result" probe_reply duration timestamp instant uuid
  | ProbeAll node_tables "uuid \<Rightarrow> unit api_result \<times> probe_reply \<times> duration" timestamp
  | Transfer instant uuid nat duration bool bool
  | LiveBytes instant uuid nat
  | RouteOp route_op
  | JobsOp "job_tables \<Rightarrow> job_tables"

text \<open>\<open>JobsOp\<close> stands for any step of the image tools, which change jobs, owners and rules but no node.\<close>

fun node_exec ::
  "'u node_env \<Rightarrow> authority_parser \<Rightarrow> node_op \<Rightarrow> node_tables \<times> node_service \<Rightarrow> node_tables \<times> node_service" where
  "node_exec env parse (CreateNode seen fresh nonce now clock input) NS =
     fst (create_node env seen fresh nonce now clock input NS)"
| "node_exec env parse (UpdateNode seen node_id nonce now clock input) NS =
     fst (update_node env seen node_id nonce now clock input NS)"
| "node_exec env parse (DeleteNode node_id) NS = fst (delete_node node_id NS)"
| "node_exec env parse (ProbeNode seen capacity reply elapsed now clock node_id) NS =
     fst (probe env capacity reply elapsed now clock seen node_id NS)"
| "node_exec env parse (ProbeAll seen replies now) NS = probe_all env replies now seen NS"
| "node_exec env parse (Transfer now node_id bytes elapsed success speed) NS =
     record_transfer_observation now node_id bytes elapsed success speed NS"
| "node_exec env parse (LiveBytes now node_id bytes) NS =
     (fst NS, record_live_bytes now node_id bytes (snd NS))"
| "node_exec env parse (RouteOp op) NS =
     ((fst NS)\<lparr>nt_routes := route_exec parse op (nt_routes (fst NS))\<rparr>, snd NS)"
| "node_exec env parse (JobsOp f) NS =
     ((fst NS)\<lparr>nt_jobs := (f (nt_jobs (fst NS)))\<lparr>jt_nodes := jt_nodes (nt_jobs (fst NS))\<rparr>\<rparr>, snd NS)"

section \<open>The invariant\<close>

definition node_row_ok :: "node_model \<Rightarrow> bool" where
  "node_row_ok n \<longleftrightarrow>
     nd_name n \<noteq> [] \<and> length (nd_name n) \<le> 80 \<and> 0 \<le> nd_priority n \<and> nd_priority n \<le> 1000
     \<and> nd_connect_ip_type n \<in> {''ip'', ''domain''}
     \<and> nd_auth_mode n \<in> {''none'', ''basic'', ''bearer'', ''header''}
     \<and> (case nd_auth_header n of None \<Rightarrow> True
        | Some h \<Rightarrow> h \<notin> {''authorization'', ''host'', ''proxy-authorization'', ''cookie'', ''connection'',
            ''transfer-encoding''})"

definition apart :: "node_model list \<Rightarrow> bool" where
  "apart ns = sorted_wrt (\<lambda>n m. \<not> node_clashes n m) ns"

definition node_ids :: "node_tables \<Rightarrow> uuid set" where
  "node_ids N = nd_id ` set (nt_nodes N)"

definition nodes_ok :: "node_tables \<Rightarrow> bool" where
  "nodes_ok N \<longleftrightarrow>
     routes_ok (nt_routes N) \<and> apart (nt_nodes N) \<and> list_all node_row_ok (nt_nodes N)
     \<and> jt_nodes (nt_jobs N) = map nd_id (nt_nodes N)
     \<and> (\<forall>k l. nt_limits N k = Some l \<longrightarrow> k \<in> node_ids N \<and> 1 \<le> l \<and> l \<le> 64)
     \<and> (\<forall>k m. nt_metrics N k = Some m \<longrightarrow> k \<in> node_ids N \<and> nm_node_id m = k)"

lemma node_clashes_sym: "node_clashes n m = node_clashes m n"
  by (auto simp: node_clashes_def)

lemma apart_append: "apart (ns @ [n]) \<longleftrightarrow> apart ns \<and> \<not> list_ex (node_clashes n) ns"
  by (auto simp: apart_def sorted_wrt_append list_ex_iff node_clashes_sym)

lemma apart_filter: "apart ns \<Longrightarrow> apart (filter p ns)"
  by (simp add: apart_def sorted_wrt_filter)

lemma apart_ids: "apart ns \<Longrightarrow> distinct (map nd_id ns)"
  by (induction ns) (auto simp: apart_def node_clashes_def)

lemma apart_replace:
  assumes "apart ns" and "\<not> list_ex (\<lambda>m. nd_id m \<noteq> nd_id new \<and> node_clashes new m) ns"
  shows "apart (map (\<lambda>m. if nd_id m = nd_id new then new else m) ns)"
  using assms
proof (induction ns)
  case (Cons n ns)
  define f where "f = (\<lambda>m. if nd_id m = nd_id new then new else m)"
  have n: "\<forall>m \<in> set ns. \<not> node_clashes n m" and new: "\<forall>m \<in> set (n # ns). nd_id m \<noteq> nd_id new \<longrightarrow> \<not> node_clashes new m"
    using Cons.prems by (auto simp: apart_def list_ex_iff)
  have "\<not> node_clashes (f n) (f m)" if "m \<in> set ns" for m
    using n new that node_clashes_sym by (auto simp: f_def node_clashes_def)
  with Cons show ?case unfolding f_def [symmetric] by (auto simp: apart_def)
qed (simp add: apart_def)

lemma length_trim: "length (trim s) \<le> length s"
  by (simp add: trim_def trim_matches_def) (metis length_dropWhile_le length_rev order_trans)

lemma validate_input_Inr:
  assumes "validate_input i = Inr ()"
  shows "trim (ni_name i) \<noteq> [] \<and> length (trim (ni_name i)) \<le> 80 \<and> 0 \<le> ni_priority i \<and> ni_priority i \<le> 1000
    \<and> 1 \<le> ni_max_concurrency i \<and> ni_max_concurrency i \<le> 64"
  using assms length_trim [of "ni_name i"] by (auto simp: validate_input_def split: if_splits)

lemma normalized_ok:
  "normalize_connect_ip_type v = Inr t \<Longrightarrow> t \<in> {''ip'', ''domain''}"
  "normalized_auth_mode v = Inr m \<Longrightarrow> m \<in> {''none'', ''basic'', ''bearer'', ''header''}"
  by (auto simp: normalize_connect_ip_type_def normalized_auth_mode_def Let_def split: if_splits)

lemma normalized_header_ok:
  "normalized_header env v = Inr (Some h) \<Longrightarrow>
     h \<notin> {''authorization'', ''host'', ''proxy-authorization'', ''cookie'', ''connection'', ''transfer-encoding''}"
  unfolding normalized_header_def by (auto split: option.splits if_splits)

lemma prepare_create_ok:
  assumes "prepare_create env S seen fresh nonce now i = Inr (n, route)"
  shows "node_row_ok n \<and> nd_id n = fresh \<and> 1 \<le> ni_max_concurrency i \<and> ni_max_concurrency i \<le> 64"
proof -
  from assms have "validate_input i = Inr ()" and n: "nd_name n = trim (ni_name i)" "nd_priority n = ni_priority i"
    "nd_id n = fresh" and "normalize_connect_ip_type (ni_connect_ip_type i) = Inr (nd_connect_ip_type n)"
    and "normalized_auth_mode (ni_auth_mode i) = Inr (nd_auth_mode n)"
    and header: "normalized_header env (ni_auth_header i) = Inr (nd_auth_header n)"
    unfolding prepare_create_def Let_def by (auto split: if_splits)
  with validate_input_Inr [of i] normalized_ok show ?thesis
    using normalized_header_ok [of env "ni_auth_header i"] header
    by (auto simp: node_row_ok_def split: option.splits)
qed

lemma prepare_update_ok:
  assumes "prepare_update env S seen k nonce now i = Inr (n, route)"
  shows "node_row_ok n \<and> nd_id n = k \<and> 1 \<le> ni_max_concurrency i \<and> ni_max_concurrency i \<le> 64"
proof -
  from assms obtain old where "validate_input i = Inr ()" and old: "find_node k seen = Some old"
    and n: "nd_name n = trim (ni_name i)" "nd_priority n = ni_priority i"
    "nd_id n = nd_id old" and "normalize_connect_ip_type (ni_connect_ip_type i) = Inr (nd_connect_ip_type n)"
    and "normalized_auth_mode (ni_auth_mode i) = Inr (nd_auth_mode n)"
    and header: "normalized_header env (ni_auth_header i) = Inr (nd_auth_header n)"
    unfolding prepare_update_def Let_def by (auto split: if_splits)
  moreover have "nd_id old = k" using old unfolding find_node_def by (metis (mono_tags) find_Some_iff)
  ultimately show ?thesis
    using validate_input_Inr [of i] normalized_ok normalized_header_ok [of env "ni_auth_header i"]
    by (auto simp: node_row_ok_def split: option.splits)
qed

section \<open>Every step keeps it\<close>

lemma find_node_Some: "find_node k N = Some n \<Longrightarrow> nd_id n = k \<and> n \<in> set (nt_nodes N)"
  unfolding find_node_def by (metis (mono_tags, lifting) find_Some_iff nth_mem)

lemma find_node_ids: "find_node k N \<noteq> None \<longleftrightarrow> k \<in> node_ids N"
  by (auto simp: find_node_def node_ids_def find_None_iff)

lemma find_route_has: "find_route k T \<noteq> None \<longleftrightarrow> has_route k T"
  by (auto simp: find_route_def has_route_def find_None_iff)

lemma routes_ok_nodes:
  "routes_ok (T\<lparr>rt_nodes := ns\<rparr>) \<longleftrightarrow>
     routes_ok (T\<lparr>rt_nodes := []\<rparr>) \<and> list_all (\<lambda>n. has_route (nd_registry_route_id n) T) ns"
  by (auto simp: routes_ok_def has_route_def)

lemma routes_ok_self: "routes_ok (T\<lparr>rt_nodes := rt_nodes T\<rparr>) = routes_ok T"
  by simp

lemma insert_node_ok:
  assumes "nodes_ok N" and "node_row_ok n" and "insert_node n N = (N', r)"
  shows "nodes_ok N'" and "r = Inr n' \<Longrightarrow> n' = n \<and> nd_id n \<in> node_ids N' \<and> n \<in> set (nt_nodes N')"
proof -
  show "nodes_ok N'"
  proof (cases "list_ex (node_clashes n) (nt_nodes N) \<or> find_route (nd_registry_route_id n) (nt_routes N) = None")
    case True
    with assms show ?thesis by (auto simp: insert_node_def split: if_splits)
  next
    case False
    then have "routes_ok ((nt_routes N)\<lparr>rt_nodes := nt_nodes N @ [n]\<rparr>)"
      using assms(1) find_route_has routes_ok_nodes [where T = "nt_routes N" and ns = "nt_nodes N"]
      by (subst routes_ok_nodes) (auto simp: nodes_ok_def)
    with False assms show ?thesis
      by (auto simp: insert_node_def with_nodes_def nodes_ok_def apart_append node_ids_def)
  qed
  show "n' = n \<and> nd_id n \<in> node_ids N' \<and> n \<in> set (nt_nodes N')" if "r = Inr n'"
    using assms(3) that by (auto simp: insert_node_def with_nodes_def node_ids_def split: if_splits)
qed

lemma set_limit_ok:
  assumes "nodes_ok N" and "set_node_max_concurrency k l N = (N', r)"
  shows "nodes_ok N' \<and> nt_nodes N' = nt_nodes N"
  using assms find_node_ids [of k N]
  by (auto simp: set_node_max_concurrency_def nodes_ok_def node_ids_def split: if_splits)

lemma upsert_metric_ok:
  assumes "nodes_ok N" and "upsert_metric m N = (N', r)"
  shows "nodes_ok N' \<and> nt_nodes N' = nt_nodes N"
  using assms find_node_ids [of "nm_node_id m" N]
  by (auto simp: upsert_metric_def nodes_ok_def node_ids_def split: if_splits)

lemma save_node_ok:
  assumes "nodes_ok N" and "node_row_ok n" and "save_node n N = (N', r)"
  shows "nodes_ok N'"
proof (cases "find_node (nd_id n) N")
  case None
  with assms show ?thesis by (simp add: save_node_def)
next
  case (Some old)
  let ?new = "n\<lparr>nd_created_at := nd_created_at old\<rparr>"
  let ?ns = "map (\<lambda>m. if nd_id m = nd_id ?new then ?new else m) (nt_nodes N)"
  show ?thesis
  proof (cases "list_ex (\<lambda>m. nd_id m \<noteq> nd_id n \<and> node_clashes ?new m) (nt_nodes N)
      \<or> find_route (nd_registry_route_id n) (nt_routes N) = None")
    case True
    with Some assms(1,3) show ?thesis by (auto simp: save_node_def Let_def split: if_splits)
  next
    case False
    then have ap: "apart ?ns" using assms(1) by (intro apart_replace) (auto simp: nodes_ok_def)
    have new: "node_row_ok ?new" using assms(2) by (simp add: node_row_ok_def)
    have ids: "map nd_id ?ns = map nd_id (nt_nodes N)" by simp
    then have set_ids: "nd_id ` set ?ns = nd_id ` set (nt_nodes N)" by (metis set_map)
    have "routes_ok ((nt_routes N)\<lparr>rt_nodes := ?ns\<rparr>)"
      using False assms(1) find_route_has routes_ok_nodes [where T = "nt_routes N" and ns = "nt_nodes N"]
      by (subst routes_ok_nodes) (auto simp: nodes_ok_def list_all_iff)
    moreover have "list_all node_row_ok ?ns" using new assms(1) by (auto simp: nodes_ok_def list_all_iff)
    moreover have "N' = with_nodes ?ns N"
      using Some False assms(3) by (auto simp: save_node_def Let_def)
    ultimately show ?thesis
      using assms(1) ap ids set_ids by (simp add: nodes_ok_def with_nodes_def node_ids_def)
  qed
qed

lemma delete_node_row_nodes:
  "delete_node_row k T = (J, Inr u) \<Longrightarrow> jt_nodes J = filter (\<lambda>x. x \<noteq> k) (jt_nodes T)"
  by (auto simp: delete_node_row_def update_jobs_def split: if_splits prod.splits sum.splits)

lemma delete_node_tables_ok:
  assumes "nodes_ok N" and "delete_node_tables k N = (N', r)"
  shows "nodes_ok N'"
proof (cases "node_in_use k (nt_jobs N) \<or> find_node k N = None \<or> (\<exists>J e. delete_node_row k (nt_jobs N) = (J, Inl e))")
  case True
  with assms show ?thesis
    by (auto simp: delete_node_tables_def nodes_ok_def node_ids_def split: if_splits prod.splits sum.splits)
next
  case False
  then obtain J where row: "delete_node_row k (nt_jobs N) = (J, Inr ())"
    by (metis old.sum.exhaust surj_pair old.unit.exhaust)
  let ?ns = "filter (\<lambda>n. nd_id n \<noteq> k) (nt_nodes N)"
  have "jt_nodes J = map nd_id ?ns"
    using delete_node_row_nodes [OF row] assms(1) by (simp add: nodes_ok_def filter_map comp_def)
  moreover have "routes_ok ((nt_routes N)\<lparr>rt_nodes := ?ns\<rparr>)"
    using assms(1) routes_ok_nodes [where T = "nt_routes N" and ns = "nt_nodes N"]
    by (subst routes_ok_nodes) (auto simp: nodes_ok_def list_all_iff)
  moreover have "apart ?ns" "list_all node_row_ok ?ns"
    using assms(1) by (auto simp: nodes_ok_def apart_filter list_all_iff)
  moreover have "N' = (with_nodes ?ns N)\<lparr>nt_metrics := (nt_metrics N)(k := None),
      nt_limits := (nt_limits N)(k := None), nt_jobs := J\<rparr>"
    using False row assms(2) by (auto simp: delete_node_tables_def)
  moreover have "nd_id ` set ?ns = nd_id ` set (nt_nodes N) - {k}" by auto
  ultimately show ?thesis
    using assms(1) by (auto simp: nodes_ok_def with_nodes_def node_ids_def)
qed

lemma create_node_ok:
  assumes "nodes_ok N"
  shows "nodes_ok (fst (fst (create_node env seen fresh nonce now clock i (N, S))))"
proof (cases "prepare_create env S seen fresh nonce now i")
  case (Inr p)
  obtain n route where p: "p = (n, route)" by fastforce
  with Inr have n: "node_row_ok n" using prepare_create_ok by blast
  obtain N1 r1 where ins: "insert_node n N = (N1, r1)" by fastforce
  have N1: "nodes_ok N1" by (rule insert_node_ok(1) [OF assms n ins])
  have "nodes_ok N2" if "set_node_max_concurrency k l N1 = (N2, r)" for k l N2 r
    using set_limit_ok [OF N1 that] by blast
  moreover have "nodes_ok N3" if "set_node_max_concurrency k l N1 = (N2, r)" "upsert_metric m N2 = (N3, r')"
    for k l N2 r m N3 r'
    using set_limit_ok [OF N1 that(1)] upsert_metric_ok that(2) by blast
  ultimately show ?thesis
    using Inr p ins N1 by (auto simp: create_node_def Let_def split: sum.splits prod.splits)
qed (simp add: create_node_def assms)

lemma update_node_ok:
  assumes "nodes_ok N"
  shows "nodes_ok (fst (fst (update_node env seen k nonce now clock i (N, S))))"
proof (cases "prepare_update env S seen k nonce now i")
  case (Inr p)
  obtain n route where p: "p = (n, route)" by fastforce
  with Inr have n: "node_row_ok n" using prepare_update_ok by blast
  obtain N1 r1 where sav: "save_node n N = (N1, r1)" by fastforce
  have N1: "nodes_ok N1" by (rule save_node_ok [OF assms n sav])
  have "nodes_ok N2" if "set_node_max_concurrency k l N1 = (N2, r)" for k l N2 r
    using set_limit_ok [OF N1 that] by blast
  with Inr p sav N1 show ?thesis
    by (auto simp: update_node_def Let_def split: sum.splits prod.splits)
qed (simp add: update_node_def assms)

lemma delete_node_rows_ok: "nodes_ok N \<Longrightarrow> nodes_ok (fst (fst (delete_node k (N, S))))"
  using delete_node_tables_ok by (auto simp: delete_node_def split: prod.splits sum.splits)

lemma probe_ok: "nodes_ok N \<Longrightarrow> nodes_ok (fst (fst (probe env cap reply e now clock seen k (N, S))))"
  using upsert_metric_ok
  by (auto simp: probe_def Let_def split: option.splits prod.splits sum.splits)

lemma probe_all_ok: "nodes_ok N \<Longrightarrow> nodes_ok (fst (probe_all env replies now seen (N, S)))"
proof -
  have "nodes_ok N \<Longrightarrow> nodes_ok (fold (\<lambda>node N. let (capacity, reply, elapsed) = replies (nd_id node)
      in fst (upsert_metric (probe_model env S capacity reply elapsed now N node) N)) ns N)" for ns N
  proof (induction ns arbitrary: N)
    case (Cons n ns)
    obtain cap reply e where r: "replies (nd_id n) = (cap, reply, e)" by (metis surj_pair)
    have "nodes_ok (fst (upsert_metric (probe_model env S cap reply e now N n) N))"
      using upsert_metric_ok [OF Cons.prems] by (metis surj_pair fst_conv)
    with Cons.IH r show ?case by simp
  qed simp
  then show "nodes_ok N \<Longrightarrow> ?thesis" by (simp add: probe_all_def)
qed

lemma transfer_ok: "nodes_ok N \<Longrightarrow> nodes_ok (fst (record_transfer_observation now k b e s m (N, S)))"
  by (auto simp: record_transfer_observation_def nodes_ok_def node_ids_def observed_metric_def Let_def
      split: option.splits)

lemma route_exec_nodes: "rt_nodes (route_exec parse op T) = rt_nodes T"
proof -
  have ins: "rt_nodes (fst (insert_route r T)) = rt_nodes T" for r T by (simp add: insert_route_def)
  have upd: "rt_nodes (fst (update_route r T)) = rt_nodes T" for r T
    by (simp add: update_route_def Let_def split: option.splits)
  have del: "rt_nodes (fst (delete_route_row k T)) = rt_nodes T" for k T by (simp add: delete_route_row_def)
  have seed: "rt_nodes (fst (seed_builtin r T)) = rt_nodes T" for r T by (simp add: seed_builtin_def ins)
  show ?thesis
  proof (cases op)
    case (CreateRoute seen fresh now input)
    then show ?thesis using ins by (auto simp: create_route_def Let_def split: sum.splits prod.splits) (metis fst_conv)+
  next
    case (UpdateRoute seen k now input)
    then show ?thesis using upd by (auto simp: update_service_route_def split: sum.splits prod.splits) (metis fst_conv)+
  next
    case (DeleteRoute seen k)
    then show ?thesis using del by (auto simp: delete_route_def split: sum.splits prod.splits) (metis fst_conv)+
  next
    case (SeedRoutes now)
    then show ?thesis using seed by (auto simp: seed_builtins_def split: sum.splits prod.splits) (metis fst_conv)+
  qed
qed

lemma route_op_ok: "nodes_ok N \<Longrightarrow> nodes_ok (N\<lparr>nt_routes := route_exec parse op (nt_routes N)\<rparr>)"
  using route_exec_ok [of "nt_routes N" parse op] by (simp add: nodes_ok_def node_ids_def route_exec_nodes)

lemma node_exec_ok: "nodes_ok (fst NS) \<Longrightarrow> nodes_ok (fst (node_exec env parse op NS))"
proof -
  assume ok: "nodes_ok (fst NS)"
  obtain N S where NS: "NS = (N, S)" by fastforce
  have jobs: "nodes_ok (N\<lparr>nt_jobs := J\<lparr>jt_nodes := jt_nodes (nt_jobs N)\<rparr>\<rparr>)" for J
    using ok NS by (simp add: nodes_ok_def node_ids_def)
  show ?thesis
    using ok unfolding NS
    by (cases op) (simp_all add: create_node_ok update_node_ok delete_node_rows_ok probe_ok probe_all_ok transfer_ok
        route_op_ok jobs)
qed

interpretation node_run: operation_system "node_exec env parse" "\<lambda>_. True" "\<lambda>NS. nodes_ok (fst NS)" for env parse
  by unfold_locales (rule node_exec_ok)

section \<open>The initial state\<close>

definition no_jobs :: job_tables where
  "no_jobs = \<lparr>jt_jobs = [], jt_owners = Map.empty, jt_lineage = Map.empty, jt_rules = [], jt_nodes = [],
     jt_credentials = []\<rparr>"

definition fresh_tables :: "timestamp \<Rightarrow> node_tables" where
  "fresh_tables now = \<lparr>nt_routes = seeded now, nt_limits = Map.empty, nt_metrics = Map.empty, nt_jobs = no_jobs\<rparr>"

lemma fresh_ok: "nodes_ok (fresh_tables now)"
  using seeded_ok [of now] by (simp add: nodes_ok_def fresh_tables_def no_jobs_def seeded_rows apart_def)

lemma reachable_nodes_ok: "nodes_ok (fst (fold (node_exec env parse) ops (fresh_tables now, S)))"
  by (rule node_run.inv_fold [where s = "(fresh_tables now, S)"]) (simp_all add: fresh_ok list_all_iff)

lemma apart_urls: "apart ns \<Longrightarrow> distinct (map (\<lambda>n. (nd_registry_route_id n, nd_url n)) ns)"
  by (induction ns) (auto simp: apart_def node_clashes_def)

lemma max_concurrency_range:
  assumes "nodes_ok N"
  shows "1 \<le> get_node_max_concurrency k N \<and> get_node_max_concurrency k N \<le> 64"
proof (cases "nt_limits N k")
  case (Some l)
  with assms have "1 \<le> l" "l \<le> 64" by (auto simp: nodes_ok_def)
  with Some show ?thesis by (simp add: get_node_max_concurrency_def unwrap_or_def clamp_def nat_le_iff)
qed (simp add: get_node_max_concurrency_def unwrap_or_def clamp_def)

lemma nodes_ok_facts:
  assumes "nodes_ok N"
  shows "distinct (map nd_id (nt_nodes N))
    \<and> distinct (map (\<lambda>n. (nd_registry_route_id n, nd_url n)) (nt_nodes N))
    \<and> list_all node_row_ok (nt_nodes N)
    \<and> list_all (\<lambda>n. find_route (nd_registry_route_id n) (nt_routes N) \<noteq> None) (nt_nodes N)
    \<and> 1 \<le> get_node_max_concurrency k N \<and> get_node_max_concurrency k N \<le> 64
    \<and> dom (nt_limits N) \<subseteq> set (map nd_id (nt_nodes N)) \<and> dom (nt_metrics N) \<subseteq> set (map nd_id (nt_nodes N))
    \<and> jt_nodes (nt_jobs N) = map nd_id (nt_nodes N)"
proof -
  have "dom (nt_limits N) \<subseteq> node_ids N" "dom (nt_metrics N) \<subseteq> node_ids N"
    using assms by (auto simp: nodes_ok_def)
  moreover have "list_all (\<lambda>n. find_route (nd_registry_route_id n) (nt_routes N) \<noteq> None) (nt_nodes N)"
    using assms by (simp add: find_route_has nodes_ok_def routes_ok_def del: not_None_eq)
  ultimately show ?thesis
    using assms max_concurrency_range [OF assms, of k] apart_ids [of "nt_nodes N"] apart_urls [of "nt_nodes N"]
    by (simp add: nodes_ok_def node_ids_def)
qed

section \<open>What becomes of a secret\<close>

lemma live_rate_cipher: "live_rate now k S = (r, S') \<Longrightarrow> ns_cipher S' = ns_cipher S"
  by (auto simp: live_rate_def split: option.splits prod.splits)

lemma view_with_fields:
  assumes "view_with env clock n m r N S = (v, S')"
  shows "nv_node v = n" and "ns_cipher S' = ns_cipher S"
  using assms live_rate_cipher by (auto simp: view_with_def Let_def split: prod.splits)

lemma find_append_new: "\<forall>x \<in> set xs. \<not> p x \<Longrightarrow> p y \<Longrightarrow> find p (xs @ [y]) = Some y"
  by (induction xs) auto

lemma create_node_Inr:
  assumes "create_node env seen fresh nonce now clock i (N, S) = ((N', S'), Inr v)"
  obtains route where "prepare_create env S seen fresh nonce now i = Inr (nv_node v, route)"
    and "find_node fresh N' = Some (nv_node v)" and "ns_cipher S' = ns_cipher S"
proof -
  from assms obtain n route where prep: "prepare_create env S seen fresh nonce now i = Inr (n, route)"
    unfolding create_node_def by (auto split: sum.splits)
  then have id: "nd_id n = fresh" using prepare_create_ok by blast
  from assms prep obtain N1 N2 where ins: "insert_node n N = (N1, Inr n)"
    and lim: "set_node_max_concurrency fresh (ni_max_concurrency i) N1 = (N2, Inr ())"
    and met: "upsert_metric (empty_metric fresh) N2 = (N', Inr ())"
    and view: "view_with env clock n (empty_metric fresh) route N' S = (v, S')"
    using id unfolding create_node_def
    by (auto simp: insert_node_def Let_def split: sum.splits prod.splits if_splits)
  have "nt_nodes N' = nt_nodes N @ [n]" and "\<not> list_ex (node_clashes n) (nt_nodes N)"
    using ins lim met
    by (auto simp: insert_node_def set_node_max_concurrency_def upsert_metric_def with_nodes_def split: if_splits)
  then have "find_node fresh N' = Some n"
    using id find_append_new [where p = "\<lambda>n. nd_id n = fresh" and xs = "nt_nodes N" and y = n]
    by (fastforce simp: find_node_def list_ex_iff node_clashes_def)
  with prep view_with_fields [OF view] that show ?thesis by blast
qed

lemma prepare_create_auth:
  assumes "prepare_create env S seen fresh nonce now i = Inr (n, route)"
  shows "seal_secret env S nonce (ni_auth_mode i) (ni_auth_secret i) = Inr (nd_auth_secret_enc n)"
    and "normalized_auth_mode (ni_auth_mode i) = Inr (nd_auth_mode n)"
    and "nd_auth_username n = trimmed (ni_auth_username i)"
    and "nd_registry_route_id n = rr_id route"
  using assms unfolding prepare_create_def Let_def by (auto split: if_splits)

lemma seal_secret_decrypt:
  assumes "crypto_laws (ne_crypto env)" and "length nonce = 12" and "octets nonce" and "mode \<noteq> ''none''"
    and "seal_secret env S nonce mode (Some secret) = Inr enc"
  shows "\<exists>e. enc = Some e \<and> decrypt (ne_crypto env) (ns_cipher S) e = Inr secret
    \<and> encrypt (ne_crypto env) (ns_cipher S) nonce secret = Inr e"
  using assms(4,5) decrypt_encrypt [OF assms(1-3)]
  by (auto simp: seal_secret_def filter_option_def split: if_splits)

section \<open>Properties\<close>


text \<open>
  A secret entrusted to a new node comes back exactly where it is needed: a node created for Basic or
  Bearer authentication is stored, what is stored of the secret is its encryption, and the credentials applied
  to a request to the node, by the proxy and by the image tools alike, carry the trimmed user name and
  the very secret that was given. Relied on: the laws of AES-GCM, base64 and UTF-8, and a nonce of twelve bytes.
\<close>

lemma node_secret_round_trip:
  assumes "crypto_laws (ne_crypto env)" and "length nonce = 12" and "octets nonce"
    and "create_node env seen fresh nonce now clock i (N, S) = ((N', S'), Inr v)"
    and "ni_auth_secret i = Some secret" and "ni_auth_username i = Some user" and "trim user \<noteq> []"
    and "ni_auth_mode i = ''basic'' \<or> ni_auth_mode i = ''bearer''"
  shows "\<exists>n e. find_node fresh N' = Some n \<and> nd_auth_secret_enc n = Some e
    \<and> encrypt (ne_crypto env) (ns_cipher S) nonce secret = Inr e
    \<and> apply_auth env S' n =
        Inr (if ni_auth_mode i = ''basic'' then BasicAuth (trim user) secret else BearerAuth secret)
    \<and> oci_auth_for_node env S' fresh N' =
        Inr (n, if ni_auth_mode i = ''basic'' then BasicAuth (trim user) secret else BearerAuth secret)"
proof -
  from assms(4) obtain route where prep: "prepare_create env S seen fresh nonce now i = Inr (nv_node v, route)"
    and found: "find_node fresh N' = Some (nv_node v)" and cipher: "ns_cipher S' = ns_cipher S"
    by (rule create_node_Inr)
  note p = prepare_create_auth [OF prep]
  have user: "nd_auth_username (nv_node v) = Some (trim user)"
    using p(3) assms(6,7) by (simp add: trimmed_def filter_option_def)
  have "ni_auth_mode i \<noteq> ''none''" using assms(8) by auto
  from seal_secret_decrypt [OF assms(1-3) this] p(1) assms(5) obtain e where
    e: "nd_auth_secret_enc (nv_node v) = Some e" "decrypt (ne_crypto env) (ns_cipher S) e = Inr secret"
    "encrypt (ne_crypto env) (ns_cipher S) nonce secret = Inr e" by metis
  have "nd_auth_mode (nv_node v) = ni_auth_mode i"
    using p(2) assms(8) by (auto simp: normalized_auth_mode_def)
  with e user assms(8) cipher found show ?thesis
    by (intro exI [of _ "nv_node v"] exI [of _ e])
      (auto simp: apply_auth_def oci_auth_for_node_def decrypt_node_secret_def ok_or_def)
qed

definition sample_node_env :: "plain_url node_env" where
  "sample_node_env =
     \<lparr>ne_url = plain_url_ops (\<lambda>_. Some \<lparr>pu_scheme = ''https'', pu_host = ''mirror.example'', pu_port = 443,
        pu_path = ''/'', pu_query = None, pu_fragment = None\<rparr>),
      ne_lookup = (\<lambda>_ _. Some [IpV4 0x01010101]), ne_crypto = plain_crypto, ne_header_name = Some,
      ne_header_value = (\<lambda>_. True), ne_status_text = nat_text, ne_ln_1p = (\<lambda>x. x)\<rparr>"

definition sample_node_input :: node_input where
  "sample_node_input =
     \<lparr>ni_name = ''Mirror'', ni_url = ''https://mirror.example/'', ni_registry_route_id = DOCKER_HUB_ROUTE_ID,
      ni_enabled = True, ni_priority = 10, ni_max_concurrency = 4, ni_cf_preferred = False,
      ni_connect_ip_type = ''ip'', ni_connect_ip = None, ni_auth_mode = ''basic'', ni_auth_username = Some '' ann '',
      ni_auth_header = None, ni_auth_secret = Some ''s3cret''\<rparr>"

definition sample_service :: node_service where
  "sample_service =
     \<lparr>ns_config = (for_test ''d'')\<lparr>cf_registry_auth := Some ''a:b'', cf_allow_private_upstreams := False\<rparr>,
      ns_runtime = \<lparr>nc_scheduler_policy = Balanced, nc_upstream_timeout = 5, nc_health_interval = 60\<rparr>,
      ns_cipher = Some [1, 2, 3], ns_live_rates = Map.empty\<rparr>"

end
