(* ===== verification/Stream_Relay.thy ===== *)
theory Stream_Relay
  imports Parallel_Download
begin

text \<open>
  The streaming relay of \<^verbatim>\<open>src/src/registry.rs\<close>: a Blob that the verified path cannot produce in time is
  relayed to the client while it is written to the partial file, hashed, resumed from other nodes and, when
  complete and verified, admitted to the cache.

  The world of a relay extends the world of the executor by the chunks queued for the client, the bytes given
  to the hasher, the nodes that failed a range and the number of await points passed so far. What the relay
  does not control is indexed by that number: whether the client has gone or stopped reading, whether a
  deadline has passed, and what other tasks do meanwhile. The reader adapter of \<open>tokio_util\<close> and the parser of
  HTTP dates are parameters. The loops that wait for capacity or repeat after a delay take fuel; \<open>None\<close> is a
  relay that has not returned yet. The tasks of the parallel mode are consumed in the order of their chunks;
  each runs at its turn, among arbitrary changes by others. A temporary directory for a window that is not the
  whole Blob is private to its relay and removed with it, so its content is not part of the world.
\<close>

section \<open>Windows\<close>

definition STREAM_READ_BYTES :: nat where
  "STREAM_READ_BYTES = 64 * 1024"

definition SEQUENTIAL_STREAM_MEMORY_BYTES :: nat where
  "SEQUENTIAL_STREAM_MEMORY_BYTES = 1024 * 1024"

definition MAX_RETRY_AFTER :: duration where
  "MAX_RETRY_AFTER = 2 * SECOND"

definition MAX_STALLED_RESPONSES :: nat where
  "MAX_STALLED_RESPONSES = 4"

record stream_window_t =
  sw_start :: nat
  sw_end :: nat
  sw_total :: nat

definition stream_window :: "(string \<Rightarrow> content_range option) \<Rightarrow> response \<Rightarrow> stream_window_t option" where
  "stream_window parse_range r =
     (if re_status r = 206 then
        (case Option.bind (header_str ''content-range'' (re_headers r)) parse_range of
           Some (CR_Bytes first_byte last_byte complete_length) \<Rightarrow>
             Option.bind (u64_checked_sub last_byte first_byte) (\<lambda>n.
               Option.bind (u64_checked_add n 1) (\<lambda>len.
                 if re_content_length r \<noteq> Some len then None
                 else Some \<lparr>sw_start = first_byte, sw_end = last_byte, sw_total = complete_length\<rparr>))
         | _ \<Rightarrow> None)
      else if status_is_success (re_status r) then
        (case re_content_length r of
           Some n \<Rightarrow> if 0 < n then Some \<lparr>sw_start = 0, sw_end = n - 1, sw_total = n\<rparr> else None
         | None \<Rightarrow> None)
      else None)"

definition remaining_window_bytes :: "nat \<Rightarrow> nat \<Rightarrow> nat option" where
  "remaining_window_bytes stop offset = Option.bind (u64_checked_sub stop offset) (\<lambda>n. u64_checked_add n 1)"

text \<open>The window is the whole Blob: \<open>window.start == 0 && window.end.checked_add(1) == Some(window.total)\<close>.\<close>

definition complete_window :: "stream_window_t \<Rightarrow> bool" where
  "complete_window win \<longleftrightarrow> sw_start win = 0 \<and> u64_checked_add (sw_end win) 1 = Some (sw_total win)"

definition stream_disconnected :: app_error where
  "stream_disconnected = Upstream ''client disconnected during Blob stream''"

definition stream_stalled :: app_error where
  "stream_stalled = Upstream ''Blob stream made no progress within its retry budget''"

definition measures_network_speed :: "duration \<Rightarrow> duration \<Rightarrow> bool" where
  "measures_network_speed elapsed non_network_wait \<longleftrightarrow>
     non_network_wait < 10 * (SECOND div 1000) \<or> non_network_wait * 5 < elapsed"

definition transient_status :: "nat \<Rightarrow> bool" where
  "transient_status status \<longleftrightarrow> status = 429 \<or> status = 408 \<or> 500 \<le> status \<and> status < 600"

text \<open>\<open>Retry-After\<close>: seconds, or a date, given by its distance from now.\<close>

definition bounded_retry_after :: "(string \<Rightarrow> duration option) \<Rightarrow> headers \<Rightarrow> duration option" where
  "bounded_retry_after until_date hs =
     Option.bind (header_str ''retry-after'' hs) (\<lambda>value.
       map_option (\<lambda>delay. min delay MAX_RETRY_AFTER)
         (case u64_parse value of
            Some s \<Rightarrow> Some (s * SECOND)
          | None \<Rightarrow> until_date value))"

section \<open>Environment and world\<close>

record 'b relay_env =
  le_fetch :: "'b fetch_env"
  le_bounded :: "(string + bytes) list \<Rightarrow> (string + bytes) list"
  le_until_date :: "nat \<Rightarrow> string \<Rightarrow> duration option"
  le_closed :: "nat \<Rightarrow> bool"
  le_stopped :: "nat \<Rightarrow> bool"
  le_timeout :: "nat \<Rightarrow> bool"
  le_non_network_wait :: "nat \<Rightarrow> duration"
  le_next_backoff :: "nat \<Rightarrow> duration option"
  le_sleep :: "nat \<Rightarrow> duration \<Rightarrow> node_capacity \<Rightarrow> node_capacity"
  le_failures :: "nat \<Rightarrow> uuid set"

record 'b relay_world =
  rw_fetch :: "'b fetch_world"
  rw_clock :: nat
  rw_sent :: "bytes list"
  rw_hashed :: bytes
  rw_range_failures :: "uuid set"
  rw_upstream_bytes :: nat
  rw_observations :: "(uuid \<times> nat \<times> bool \<times> bool) list"

definition on_fetch :: "('b fetch_world \<Rightarrow> 'b fetch_world) \<Rightarrow> 'b relay_world \<Rightarrow> 'b relay_world" where
  "on_fetch f w = w\<lparr>rw_fetch := f (rw_fetch w)\<rparr>"

definition await :: "'b relay_world \<Rightarrow> 'b relay_world" where
  "await w = w\<lparr>rw_clock := rw_clock w + 1\<rparr>"

definition hasher_update :: "bytes \<Rightarrow> 'b relay_world \<Rightarrow> 'b relay_world" where
  "hasher_update bs w = w\<lparr>rw_hashed := rw_hashed w @ bs\<rparr>"

definition record_upstream_bytes :: "nat \<Rightarrow> 'b relay_world \<Rightarrow> 'b relay_world" where
  "record_upstream_bytes n w = w\<lparr>rw_upstream_bytes := u64_saturating_add (rw_upstream_bytes w) n\<rparr>"

definition record_observation :: "uuid \<Rightarrow> nat \<Rightarrow> bool \<Rightarrow> bool \<Rightarrow> 'b relay_world \<Rightarrow> 'b relay_world" where
  "record_observation node_id n success measure_speed w =
     w\<lparr>rw_observations := rw_observations w @ [(node_id, n, success, measure_speed)]\<rparr>"

text \<open>The file of the relay: the partial file of the key, or a private one.\<close>

definition open_append :: "temp_path option \<Rightarrow> 'b relay_world \<Rightarrow> 'b relay_world" where
  "open_append partial w =
     (case partial of
        None \<Rightarrow> w
      | Some p \<Rightarrow> on_fetch (\<lambda>f. f\<lparr>fw_files := (fw_files f)(p \<mapsto> (case fw_files f p of None \<Rightarrow> [] | Some c \<Rightarrow> c))\<rparr>) w)"

definition write_all :: "temp_path option \<Rightarrow> bytes \<Rightarrow> 'b relay_world \<Rightarrow> 'b relay_world" where
  "write_all partial bs w =
     (case partial of
        None \<Rightarrow> w
      | Some p \<Rightarrow>
          on_fetch (\<lambda>f. f\<lparr>fw_files := (fw_files f)(p \<mapsto> (case fw_files f p of None \<Rightarrow> [] | Some c \<Rightarrow> c) @ bs)\<rparr>) w)"

section \<open>Sending to the client\<close>

text \<open>
  \<open>send_relay_chunk\<close> with the cancellation around it: a client that has gone ends the relay here, one that
  does not read within the idle timeout too.
\<close>

definition send_relay_chunk :: "'b relay_env \<Rightarrow> bytes \<Rightarrow> 'b relay_world \<Rightarrow> 'b relay_world \<times> unit api_result" where
  "send_relay_chunk env chunk w =
     (if le_closed env (rw_clock w) then (await w, Inl stream_disconnected)
      else if le_stopped env (rw_clock w)
      then (await w, Inl (Upstream ''client stopped reading Blob stream''))
      else ((await w)\<lparr>rw_sent := rw_sent w @ [chunk]\<rparr>, Inr ()))"

text \<open>
  \<open>relay_body\<close>: what the client reads is the queued chunks, and after them the error of a relay that failed.
\<close>

definition relay_body :: "bytes list \<Rightarrow> unit api_result \<Rightarrow> (string + bytes) list" where
  "relay_body sent result =
     map Inr sent @ (case result of Inr _ \<Rightarrow> [] | Inl e \<Rightarrow> [Inl (app_error_display e)])"

text \<open>The reads of the saved partial file: full buffers, and the rest.\<close>

function read_pieces :: "nat \<Rightarrow> bytes \<Rightarrow> bytes list" where
  "read_pieces n bs = (if bs = [] \<or> n = 0 then [] else take n bs # read_pieces n (drop n bs))"
  by pat_completeness auto
termination by (relation "measure (length \<circ> snd)") auto

declare read_pieces.simps [simp del]

fun replay :: "'b relay_env \<Rightarrow> bytes list \<Rightarrow> 'b relay_world \<Rightarrow> 'b relay_world \<times> unit api_result" where
  "replay env [] w = (w, Inr ())"
| "replay env (chunk # cs) w =
     (case send_relay_chunk env chunk (hasher_update chunk w) of
        (w1, Inl e) \<Rightarrow> (w1, Inl e)
      | (w1, Inr _) \<Rightarrow> replay env cs w1)"

section \<open>The body of one response\<close>

text \<open>
  The inner loop of \<open>relay_stream_blob_inner\<close>. \<open>Inl\<close> ends the relay, \<open>Inr\<close> is the \<open>break\<close> after the last
  chunk, a transport error or the deadline. The values of the loop are the offset, the bytes of this response
  and the number of responses without progress.
\<close>

record stream_position =
  sp_offset :: nat
  sp_transferred :: nat
  sp_stalled_responses :: nat

fun relay_frames ::
  "'b relay_env \<Rightarrow> stream_window_t \<Rightarrow> temp_path option \<Rightarrow> (string + bytes) list \<Rightarrow> stream_position \<Rightarrow> 'b relay_world
     \<Rightarrow> 'b relay_world \<times> stream_position \<times> unit api_result" where
  "relay_frames env win partial [] sp w =
     (await w, sp, if le_closed env (rw_clock w) then Inl stream_disconnected else Inr ())"
| "relay_frames env win partial (frame # frames) sp w =
     (if le_closed env (rw_clock w) then (await w, sp, Inl stream_disconnected)
      else if le_timeout env (rw_clock w) then (await w, sp, Inr ())
      else
        case frame of
          Inl _ \<Rightarrow> (await w, sp, Inr ())
        | Inr chunk \<Rightarrow>
            if chunk = [] then relay_frames env win partial frames sp (await w)
            else
              (case remaining_window_bytes (sw_end win) (sp_offset sp) of
                 None \<Rightarrow> (await w, sp, Inl Integrity)
               | Some remaining \<Rightarrow>
                   if remaining < length chunk then (await w, sp, Inl Integrity)
                   else
                     let w1 = (if complete_window win then hasher_update chunk (await w) else await w);
                         w2 = record_upstream_bytes (length chunk) (write_all partial chunk w1);
                         sp1 = sp\<lparr>sp_offset := sp_offset sp + length chunk,
                                  sp_transferred := sp_transferred sp + length chunk\<rparr>
                     in (case send_relay_chunk env chunk w2 of
                           (w3, Inl e) \<Rightarrow> (w3, sp1, Inl e)
                         | (w3, Inr _) \<Rightarrow>
                             relay_frames env win partial frames (sp1\<lparr>sp_stalled_responses := 0\<rparr>) w3)))"

section \<open>Resuming from another node\<close>

record resume_request =
  rr_nodes :: "node_view list"
  rr_current_node :: nat
  rr_request :: fetch_request
  rr_start :: nat
  rr_end :: nat
  rr_total :: nat

datatype resume_exit =
    Resumed nat response node_lease
  | Resume_Ended app_error
  | Resume_Round bool "string option" duration

text \<open>The failure of a node: reported to the selector and to the node service.\<close>

definition report_failure :: "'b relay_env \<Rightarrow> uuid \<Rightarrow> 'b relay_world \<Rightarrow> 'b relay_world" where
  "report_failure env node_id w =
     on_fetch (\<lambda>f. record_transfer node_id 0 False (observe_node (le_fetch env) node_id 0 False f)) w"

definition relay_send ::
  "'b relay_env \<Rightarrow> node_view \<Rightarrow> fetch_request \<Rightarrow> range_mode \<Rightarrow> 'b relay_world \<Rightarrow> 'b relay_world \<times> response api_result" where
  "relay_send env node rq rmode w =
     (let (f, r) = upstream_send (le_fetch env) node GET rq rmode (rw_fetch w) in ((await w)\<lparr>rw_fetch := f\<rparr>, r))"

text \<open>A response to \<open>RangeMode::Exact\<close> that is exactly the window asked for.\<close>

definition exact_window :: "'b relay_env \<Rightarrow> response \<Rightarrow> nat \<Rightarrow> nat \<Rightarrow> nat \<Rightarrow> bool" where
  "exact_window env r start stop tsize \<longleftrightarrow>
     re_status r = 206
     \<and> stream_window (fe_parse_range (le_fetch env)) r = Some \<lparr>sw_start = start, sw_end = stop, sw_total = tsize\<rparr>"

fun try_resume ::
  "'b relay_env \<Rightarrow> resume_request \<Rightarrow> node_view list \<Rightarrow> bool \<Rightarrow> string option \<Rightarrow> duration \<Rightarrow> 'b relay_world
     \<Rightarrow> 'b relay_world \<times> resume_exit" where
  "try_resume env rr [] attempted last_error retry_delay w = (w, Resume_Round attempted last_error retry_delay)"
| "try_resume env rr (node # candidates) attempted last_error retry_delay w =
     (case position (\<lambda>n. nd_id (nv_node n) = nd_id (nv_node node)) (rr_nodes rr) of
        None \<Rightarrow> try_resume env rr candidates attempted last_error retry_delay w
      | Some index \<Rightarrow>
          (case selector_try_acquire (nd_id (nv_node node)) (nv_max_concurrency node) (fw_selector (rw_fetch w)) of
             (sel, None) \<Rightarrow>
               try_resume env rr candidates attempted last_error retry_delay (on_fetch (fw_selector_update (\<lambda>_. sel)) w)
           | (sel, Some lease) \<Rightarrow>
               let w0 = on_fetch (fw_selector_update (\<lambda>_. sel)) w in
               if le_closed env (rw_clock w) then (on_fetch (release_lease lease) (await w0), Resume_Ended stream_disconnected)
               else if le_timeout env (rw_clock w) then (on_fetch (release_lease lease) (await w0), Resume_Ended stream_stalled)
               else
                 (case relay_send env node (rr_request rr) (Exact (rr_start rr) (rr_end rr)) w0 of
                    (w1, Inr r) \<Rightarrow>
                      if exact_window env r (rr_start rr) (rr_end rr) (rr_total rr) then
                        (on_fetch (observe_node (le_fetch env) (nd_id (nv_node node)) 0 True) w1, Resumed index r lease)
                      else
                        let retry_delay' = (if transient_status (re_status r)
                              then max retry_delay (case bounded_retry_after (le_until_date env (rw_clock w1)) (re_headers r) of
                                     None \<Rightarrow> 0 | Some d \<Rightarrow> d)
                              else retry_delay);
                            w2 = (if re_status r \<noteq> 404 then report_failure env (nd_id (nv_node node)) w1 else w1)
                        in try_resume env rr candidates True
                             (Some (nd_name (nv_node node) @ '' returned an invalid resume response (''
                                @ fe_status_text (le_fetch env) (re_status r) @ '')''))
                             retry_delay' (on_fetch (release_lease lease) w2)
                  | (w1, Inl e) \<Rightarrow>
                      try_resume env rr candidates True (Some (app_error_display e)) retry_delay
                        (on_fetch (release_lease lease) (report_failure env (nd_id (nv_node node)) w1)))))"

text \<open>The nodes in the order of the scheduler, without the one that just failed unless it is the only one.\<close>

definition resume_candidates ::
  "'b relay_env \<Rightarrow> resume_request \<Rightarrow> scheduler_policy \<Rightarrow> 'b relay_world \<Rightarrow> 'b relay_world \<times> node_view list" where
  "resume_candidates env rr policy w =
     (let (f, ordered) = ordered_nodes_with_context (le_fetch env) (rr_nodes rr)
            \<lparr>sx_sequence = sequence_for (fe_sha256 (le_fetch env)) (rq_path (rr_request rr)) (rr_start rr),
             sx_blob_size = rr_total rr, sx_range_required = True, sx_chunk = Some (rr_start rr, rr_end rr)\<rparr>
            policy (rw_fetch w);
          candidates = filter (\<lambda>n. nd_id (nv_node n) \<noteq> nd_id (nv_node (rr_nodes rr ! rr_current_node rr))) ordered
      in (w\<lparr>rw_fetch := f\<rparr>, if candidates = [] then rr_nodes rr else candidates))"

text \<open>A wait for capacity, and a sleep; both are await points that a deadline or the client can end.\<close>

definition relay_wait :: "'b relay_env \<Rightarrow> 'b relay_world \<Rightarrow> 'b relay_world" where
  "relay_wait env w = on_fetch (capacity_wait (le_fetch env)) (await w)"

definition relay_sleep :: "'b relay_env \<Rightarrow> duration \<Rightarrow> 'b relay_world \<Rightarrow> 'b relay_world" where
  "relay_sleep env delay w =
     on_fetch (fw_selector_update (se_capacity_update (le_sleep env (rw_clock w) delay))) (await w)"

text \<open>The outcome of an await point of the resumption.\<close>

definition resume_interrupted :: "'b relay_env \<Rightarrow> 'b relay_world \<Rightarrow> app_error option" where
  "resume_interrupted env w =
     (if le_closed env (rw_clock w) then Some stream_disconnected
      else if le_timeout env (rw_clock w) then Some stream_stalled else None)"

fun resume_loop ::
  "nat \<Rightarrow> 'b relay_env \<Rightarrow> resume_request \<Rightarrow> scheduler_policy \<Rightarrow> string option \<Rightarrow> 'b relay_world
     \<Rightarrow> ('b relay_world \<times> (nat \<times> response \<times> node_lease) api_result) option" where
  "resume_loop 0 env rr policy last_error w = None"
| "resume_loop (Suc fuel) env rr policy last_error w =
     (let (w1, candidates) = resume_candidates env rr policy w in
      case try_resume env rr candidates False last_error 0 w1 of
        (w2, Resumed index r lease) \<Rightarrow> Some (w2, Inr (index, r, lease))
      | (w2, Resume_Ended e) \<Rightarrow> Some (w2, Inl e)
      | (w2, Resume_Round attempted last_error' retry_delay) \<Rightarrow>
          if attempted \<and> le_next_backoff env (rw_clock w2) = None then
            Some (w2, Inl (Upstream (case last_error' of
              None \<Rightarrow> ''all nodes failed to resume the Blob stream'' | Some m \<Rightarrow> m)))
          else
            (case resume_interrupted env w2 of
               Some e \<Rightarrow> Some (await w2, Inl e)
             | None \<Rightarrow>
                 resume_loop fuel env rr policy last_error'
                   (if attempted
                    then relay_sleep env (max (the (le_next_backoff env (rw_clock w2))) retry_delay) w2
                    else relay_wait env w2)))"

definition resume_stream_response ::
  "nat \<Rightarrow> 'b relay_env \<Rightarrow> resume_request \<Rightarrow> scheduler_policy \<Rightarrow> 'b relay_world
     \<Rightarrow> ('b relay_world \<times> (nat \<times> response \<times> node_lease) api_result) option" where
  "resume_stream_response fuel env rr policy w =
     (if rr_nodes rr = [] then Some (w, Inl (Unavailable ''no nodes are available for Blob resume''))
      else resume_loop fuel env rr policy None w)"

section \<open>Parallel ranges\<close>

record stream_chunk =
  sk_sequence :: nat
  sk_start :: nat
  sk_end :: nat
  sk_total :: nat

text \<open>The chunks of a window, as the \<open>while\<close> loop builds them; offsets are 64-bit values.\<close>

definition stream_chunk_end :: "nat \<Rightarrow> nat \<Rightarrow> nat \<Rightarrow> nat" where
  "stream_chunk_end cs stop start = min (u64_saturating_add start (u64_saturating_sub cs 1)) stop"

function stream_chunks :: "nat \<Rightarrow> nat \<Rightarrow> nat \<Rightarrow> nat \<Rightarrow> stream_chunk list \<Rightarrow> stream_chunk list" where
  "stream_chunks cs stop tsize start cks =
     (if start \<le> stop \<and> start \<le> u64_max then
        stream_chunks cs stop tsize (stream_chunk_end cs stop start + 1)
          (cks @ [\<lparr>sk_sequence = length cks, sk_start = start, sk_end = stream_chunk_end cs stop start,
                   sk_total = tsize\<rparr>])
      else cks)"
  by pat_completeness auto
termination
  by (relation "measure (\<lambda>(cs, stop, tsize, start, cks). Suc stop - start)")
    (auto simp: stream_chunk_end_def u64_saturating_add_def)

declare stream_chunks.simps [simp del]

text \<open>The body of a chunk: the bytes, bounded by the length of the range, and what was counted on the way.\<close>

fun chunk_body :: "nat \<Rightarrow> (string + bytes) list \<Rightarrow> bytes \<Rightarrow> 'b relay_world \<Rightarrow> 'b relay_world \<times> bytes api_result" where
  "chunk_body expected [] bs w = (w, if length bs \<noteq> expected then Inl Integrity else Inr bs)"
| "chunk_body expected (Inl e # frames) bs w = (w, Inl (Upstream e))"
| "chunk_body expected (Inr frame # frames) bs w =
     (if expected < length bs + length frame then (w, Inl Integrity)
      else chunk_body expected frames (bs @ frame) (record_upstream_bytes (length frame) w))"

text \<open>
  One attempt at a chunk: the result, whether the node is penalized for it, whether it is unavailable for
  ranges, and the delay it asks for.
\<close>

record chunk_attempt =
  ca_result :: "bytes api_result"
  ca_penalize_node :: bool
  ca_unavailable :: bool
  ca_retry_delay :: duration

definition attempt_chunk ::
  "'b relay_env \<Rightarrow> fetch_request \<Rightarrow> stream_chunk \<Rightarrow> node_view \<Rightarrow> duration \<Rightarrow> 'b relay_world
     \<Rightarrow> 'b relay_world \<times> chunk_attempt" where
  "attempt_chunk env rq chunk node retry_delay w =
     (case relay_send env node rq (Exact (sk_start chunk) (sk_end chunk)) w of
        (w1, Inl e) \<Rightarrow>
          (w1, \<lparr>ca_result = Inl e, ca_penalize_node = True, ca_unavailable = False, ca_retry_delay = retry_delay\<rparr>)
      | (w1, Inr r) \<Rightarrow>
          if \<not> status_is_success (re_status r) then
            (w1, \<lparr>ca_result = Inl (Upstream (nd_name (nv_node node) @ '' returned ''
                     @ fe_status_text (le_fetch env) (re_status r) @ '' for a stream chunk'')),
                  ca_penalize_node = (re_status r \<noteq> 404),
                  ca_unavailable = (\<not> transient_status (re_status r)),
                  ca_retry_delay =
                    (if transient_status (re_status r)
                     then max retry_delay (case bounded_retry_after (le_until_date env (rw_clock w1)) (re_headers r) of
                            None \<Rightarrow> 0 | Some d \<Rightarrow> d)
                     else retry_delay)\<rparr>)
          else
            let (w2, result) =
              (if \<not> exact_window env r (sk_start chunk) (sk_end chunk) (sk_total chunk) then (w1, Inl Integrity)
               else chunk_body (sk_end chunk - sk_start chunk + 1) (re_body r) [] w1)
            in (w2, \<lparr>ca_result = result, ca_penalize_node = True, ca_unavailable = False,
                     ca_retry_delay = retry_delay\<rparr>))"

definition settle_chunk ::
  "'b relay_env \<Rightarrow> uuid \<Rightarrow> node_lease \<Rightarrow> chunk_attempt \<Rightarrow> 'b relay_world \<Rightarrow> 'b relay_world" where
  "settle_chunk env node_id permit ca w =
     (let n = (case ca_result ca of Inr bs \<Rightarrow> length bs | Inl _ \<Rightarrow> 0);
          w1 = on_fetch (release_lease permit) w;
          w2 = (if ca_penalize_node ca
                then on_fetch (\<lambda>f. record_transfer node_id n (is_ok (ca_result ca))
                       (observe_node (le_fetch env) node_id n (is_ok (ca_result ca)) f)) w1
                else w1)
      in (case ca_result ca of
            Inr _ \<Rightarrow> w2
          | Inl e \<Rightarrow>
              on_fetch record_retry
                (if ca_unavailable ca \<or> e = Integrity
                 then w2\<lparr>rw_range_failures := insert node_id (rw_range_failures w2)\<rparr> else w2)))"

datatype chunk_exit = Chunk_Fetched bytes | Chunk_Round bool "app_error option" duration

fun try_chunk ::
  "'b relay_env \<Rightarrow> fetch_request \<Rightarrow> stream_chunk \<Rightarrow> node_view list \<Rightarrow> bool \<Rightarrow> app_error option \<Rightarrow> duration
     \<Rightarrow> 'b relay_world \<Rightarrow> 'b relay_world \<times> chunk_exit" where
  "try_chunk env rq chunk [] attempted last_error retry_delay w = (w, Chunk_Round attempted last_error retry_delay)"
| "try_chunk env rq chunk (node # candidates) attempted last_error retry_delay w =
     (if nd_id (nv_node node) \<in> rw_range_failures w
      then try_chunk env rq chunk candidates attempted last_error retry_delay w
      else
        case selector_try_acquire (nd_id (nv_node node)) (nv_max_concurrency node) (fw_selector (rw_fetch w)) of
          (sel, None) \<Rightarrow>
            try_chunk env rq chunk candidates attempted last_error retry_delay (on_fetch (fw_selector_update (\<lambda>_. sel)) w)
        | (sel, Some permit) \<Rightarrow>
            let (w1, ca) = attempt_chunk env rq chunk node retry_delay (on_fetch (fw_selector_update (\<lambda>_. sel)) w);
                w2 = settle_chunk env (nd_id (nv_node node)) permit ca w1
            in (case ca_result ca of
                  Inr bs \<Rightarrow> (w2, Chunk_Fetched bs)
                | Inl e \<Rightarrow> try_chunk env rq chunk candidates True (Some e) (ca_retry_delay ca) w2))"

text \<open>Meanwhile other chunk tasks may have found nodes without range support.\<close>

definition other_failures :: "'b relay_env \<Rightarrow> 'b relay_world \<Rightarrow> 'b relay_world" where
  "other_failures env w = w\<lparr>rw_range_failures := rw_range_failures w \<union> le_failures env (rw_clock w)\<rparr>"

fun fetch_parallel_chunk ::
  "nat \<Rightarrow> 'b relay_env \<Rightarrow> fetch_request \<Rightarrow> node_view list \<Rightarrow> scheduler_policy \<Rightarrow> stream_chunk \<Rightarrow> app_error option
     \<Rightarrow> 'b relay_world \<Rightarrow> ('b relay_world \<times> bytes api_result) option" where
  "fetch_parallel_chunk 0 env rq nodes policy chunk last_error w = None"
| "fetch_parallel_chunk (Suc fuel) env rq nodes policy chunk last_error w =
     (let w0 = other_failures env w;
          eligible = filter (\<lambda>n. nd_id (nv_node n) \<notin> rw_range_failures w0) nodes;
          failed = (\<lambda>err. Inl (case err of None \<Rightarrow> Integrity | Some e \<Rightarrow> e))
      in
      if eligible = [] then Some (w0, failed last_error)
      else
        let (f, candidates) = ordered_nodes_with_context (le_fetch env) eligible
              \<lparr>sx_sequence = sequence_for (fe_sha256 (le_fetch env)) (rq_path rq) (sk_sequence chunk),
               sx_blob_size = sk_total chunk, sx_range_required = True,
               sx_chunk = Some (sk_start chunk, sk_end chunk)\<rparr> policy (rw_fetch w0)
        in
        case try_chunk env rq chunk candidates False last_error 0 (w0\<lparr>rw_fetch := f\<rparr>) of
          (w1, Chunk_Fetched bs) \<Rightarrow> Some (w1, Inr bs)
        | (w1, Chunk_Round attempted last_error' retry_delay) \<Rightarrow>
            if length nodes \<le> card (rw_range_failures w1) then Some (w1, failed last_error')
            else if \<not> attempted then
              fetch_parallel_chunk fuel env rq nodes policy chunk last_error' (relay_wait env w1)
            else
              (case le_next_backoff env (rw_clock w1) of
                 None \<Rightarrow> Some (w1, Inl (case last_error' of
                           None \<Rightarrow> Upstream ''all nodes failed a stream chunk'' | Some e \<Rightarrow> e))
               | Some delay \<Rightarrow>
                   fetch_parallel_chunk fuel env rq nodes policy chunk last_error'
                     (relay_sleep env (max delay retry_delay) w1)))"

text \<open>The memory of a chunk: refused at once when it is too large, or not available in time.\<close>

definition acquire_chunk_memory :: "'b relay_env \<Rightarrow> stream_chunk \<Rightarrow> 'b relay_world \<Rightarrow> unit api_result" where
  "acquire_chunk_memory env chunk w =
     (case memory_request (sk_end chunk - sk_start chunk + 1) of
        Inl e \<Rightarrow> Inl e
      | Inr _ \<Rightarrow>
          if le_timeout env (rw_clock w) then Inl (Upstream ''stream byte capacity remained unavailable'')
          else Inr ())"

fun relay_parallel_chunks ::
  "nat \<Rightarrow> 'b relay_env \<Rightarrow> fetch_request \<Rightarrow> node_view list \<Rightarrow> scheduler_policy \<Rightarrow> temp_path option \<Rightarrow> stream_chunk list
     \<Rightarrow> 'b relay_world \<Rightarrow> ('b relay_world \<times> unit api_result) option" where
  "relay_parallel_chunks fuel env rq nodes policy partial [] w = Some (w, Inr ())"
| "relay_parallel_chunks fuel env rq nodes policy partial (chunk # cks) w =
     (if le_closed env (rw_clock w) then Some (await w, Inl stream_disconnected)
      else
        case acquire_chunk_memory env chunk w of
          Inl e \<Rightarrow> Some (await w, Inl e)
        | Inr _ \<Rightarrow>
            (case fetch_parallel_chunk fuel env rq nodes policy chunk None (await w) of
               None \<Rightarrow> None
             | Some (w1, Inl e) \<Rightarrow> Some (w1, Inl e)
             | Some (w1, Inr bs) \<Rightarrow>
                 (case send_relay_chunk env bs (write_all partial bs (hasher_update bs w1)) of
                    (w2, Inl e) \<Rightarrow> Some (w2, Inl e)
                  | (w2, Inr _) \<Rightarrow> relay_parallel_chunks fuel env rq nodes policy partial cks w2)))"

definition relay_parallel_ranges ::
  "nat \<Rightarrow> 'b relay_env \<Rightarrow> fetch_request \<Rightarrow> node_view list \<Rightarrow> scheduler_policy \<Rightarrow> temp_path option \<Rightarrow> nat
     \<Rightarrow> stream_window_t \<Rightarrow> stream_download_config_t \<Rightarrow> 'b relay_world \<Rightarrow> ('b relay_world \<times> unit api_result) option" where
  "relay_parallel_ranges fuel env rq nodes policy partial start win config w =
     relay_parallel_chunks fuel env rq nodes policy partial
       (stream_chunks (st_chunk_size config) (sw_end win) (sw_total win) start []) w"

section \<open>The relay\<close>

record stream_relay =
  sl_nodes :: "node_view list"
  sl_current_node :: nat
  sl_response :: response
  sl_node_lease :: node_lease
  sl_request :: fetch_request
  sl_window :: stream_window_t
  sl_key :: string
  sl_media_type :: string
  sl_expected_digest :: "string option"
  sl_parallel :: "stream_download_config_t option"
  sl_policy :: scheduler_policy

definition resume_request_of :: "stream_relay \<Rightarrow> nat \<Rightarrow> nat \<Rightarrow> resume_request" where
  "resume_request_of sl current offset =
     \<lparr>rr_nodes = sl_nodes sl, rr_current_node = current, rr_request = sl_request sl, rr_start = offset,
      rr_end = sw_end (sl_window sl), rr_total = sw_total (sl_window sl)\<rparr>"

text \<open>The report after a response: completed or not, with its bytes when the time was spent on the network.\<close>

definition settle_response ::
  "'b relay_env \<Rightarrow> uuid \<Rightarrow> node_lease \<Rightarrow> nat \<Rightarrow> bool \<Rightarrow> 'b relay_world \<Rightarrow> 'b relay_world" where
  "settle_response env node_id lease transferred completed w =
     (let elapsed = fe_elapsed (le_fetch env) (fw_tick (rw_fetch w));
          measure_speed = measures_network_speed elapsed (le_non_network_wait env (rw_clock w));
          w1 = on_fetch (release_lease lease) w
      in record_observation node_id transferred completed measure_speed
           (on_fetch (observe_node (le_fetch env) node_id (if measure_speed then transferred else 0) completed) w1))"

text \<open>
  The outer loop: one round per response, each either the last one, or followed by a resumption from another
  node. Four responses in a row without a byte end it.
\<close>

fun relay_rounds ::
  "nat \<Rightarrow> nat \<Rightarrow> 'b relay_env \<Rightarrow> stream_relay \<Rightarrow> temp_path option \<Rightarrow> nat \<Rightarrow> nat \<Rightarrow> nat
     \<Rightarrow> (response \<times> node_lease) option \<Rightarrow> 'b relay_world \<Rightarrow> ('b relay_world \<times> unit api_result) option" where
  "relay_rounds 0 fuel env sl partial current offset stalled response w = None"
| "relay_rounds (Suc rounds) fuel env sl partial current offset stalled response w =
     (if sw_end (sl_window sl) < offset then
        Some (case response of None \<Rightarrow> w | Some (_, lease) \<Rightarrow> on_fetch (release_lease lease) w, Inr ())
      else
        case response of
          None \<Rightarrow> Some (w, Inl (Upstream ''Blob stream response is missing''))
        | Some (r, lease) \<Rightarrow>
            (case relay_frames env (sl_window sl) partial (le_bounded env (re_body r))
                    \<lparr>sp_offset = offset, sp_transferred = 0, sp_stalled_responses = stalled\<rparr> w of
               (w1, sp, Inl e) \<Rightarrow> Some (on_fetch (release_lease lease) w1, Inl e)
             | (w1, sp, Inr _) \<Rightarrow>
                 let completed = (sw_end (sl_window sl) < sp_offset sp);
                     w2 = settle_response env (nd_id (nv_node (sl_nodes sl ! current))) lease
                            (sp_transferred sp) completed w1;
                     stalled' = (if sp_transferred sp = 0 then sp_stalled_responses sp + 1
                                 else sp_stalled_responses sp)
                 in
                 if completed then Some (w2, Inr ())
                 else if sp_transferred sp = 0 \<and> MAX_STALLED_RESPONSES \<le> stalled' then Some (w2, Inl stream_stalled)
                 else
                   (case resume_stream_response fuel env (resume_request_of sl current (sp_offset sp)) (sl_policy sl)
                           (on_fetch (record_resume \<circ> record_retry) w2) of
                      None \<Rightarrow> None
                    | Some (w3, Inl e) \<Rightarrow> Some (w3, Inl e)
                    | Some (w3, Inr (current', r', lease')) \<Rightarrow>
                        relay_rounds rounds fuel env sl partial current' (sp_offset sp) stalled' (Some (r', lease')) w3)))"

text \<open>Verification and admission of a complete Blob; the rename takes the partial file away.\<close>

definition admit_stream ::
  "'b relay_env \<Rightarrow> stream_relay \<Rightarrow> 'b relay_world \<Rightarrow> 'b relay_world \<times> unit api_result" where
  "admit_stream env sl w =
     (let p = Partial_Object (sl_key sl); f = rw_fetch w; fe = le_fetch env in
      if (case sl_expected_digest sl of
            None \<Rightarrow> False | Some expected \<Rightarrow> ''sha256:'' @ fe_sha256_hex fe (rw_hashed w) \<noteq> expected)
      then (on_fetch (remove_file p) w, Inl Integrity)
      else
        case fw_files f p of
          None \<Rightarrow> (w, Inl (Io ''NotFound''))
        | Some content \<Rightarrow>
            (case admit (fe_ln_1p fe) (sl_key sl) content (sl_media_type sl) (sl_expected_digest sl)
                    (fe_utc fe (fw_tick f)) (fw_cache f) of
               (cache, Inl e) \<Rightarrow> (on_fetch (fw_cache_update (\<lambda>_. cache)) w, Inl e)
             | (cache, Inr _) \<Rightarrow> (on_fetch (remove_file p \<circ> fw_cache_update (\<lambda>_. cache)) w, Inr ())))"

text \<open>The end of the relay. The digest check and the admission follow an await point.\<close>

definition finish_relay :: "'b relay_env \<Rightarrow> stream_relay \<Rightarrow> 'b relay_world \<Rightarrow> 'b relay_world \<times> unit api_result" where
  "finish_relay env sl w =
     (if le_closed env (rw_clock w) then (await w, Inl stream_disconnected)
      else if complete_window (sl_window sl) then admit_stream env sl (await w)
      else (await w, Inr ()))"

text \<open>
  The replay of a partial file that an earlier relay of the same Blob left behind, and the resumption after
  it. The first response is given up before: its slot may be the only one of its node.
\<close>

definition replay_partial ::
  "nat \<Rightarrow> 'b relay_env \<Rightarrow> stream_relay \<Rightarrow> bytes \<Rightarrow> 'b relay_world
     \<Rightarrow> ('b relay_world \<times> (nat \<times> nat \<times> (response \<times> node_lease) option) api_result) option" where
  "replay_partial fuel env sl saved w =
     (case replay env (read_pieces STREAM_READ_BYTES saved) (on_fetch (release_lease (sl_node_lease sl)) w) of
        (w1, Inl e) \<Rightarrow> Some (w1, Inl e)
      | (w1, Inr _) \<Rightarrow>
          let offset = sw_start (sl_window sl) + length saved in
          if sw_end (sl_window sl) < offset then Some (w1, Inr (sl_current_node sl, offset, None))
          else
            (case resume_stream_response fuel env (resume_request_of sl (sl_current_node sl) offset) (sl_policy sl)
                    (on_fetch record_resume w1) of
               None \<Rightarrow> None
             | Some (w2, Inl e) \<Rightarrow> Some (w2, Inl e)
             | Some (w2, Inr (next_node, r, lease)) \<Rightarrow> Some (w2, Inr (next_node, offset, Some (r, lease)))))"

text \<open>The partial file of a complete Blob, a too long one removed.\<close>

definition saved_partial :: "stream_relay \<Rightarrow> 'b relay_world \<Rightarrow> 'b relay_world \<times> bytes" where
  "saved_partial sl w =
     (case fw_files (rw_fetch w) (Partial_Object (sl_key sl)) of
        None \<Rightarrow> (w, [])
      | Some saved \<Rightarrow>
          if sw_total (sl_window sl) < length saved then (on_fetch (remove_file (Partial_Object (sl_key sl))) w, [])
          else (w, saved))"

definition relay_transfer ::
  "nat \<Rightarrow> nat \<Rightarrow> 'b relay_env \<Rightarrow> stream_relay \<Rightarrow> temp_path option \<Rightarrow> nat \<Rightarrow> nat \<Rightarrow> (response \<times> node_lease) option
     \<Rightarrow> 'b relay_world \<Rightarrow> ('b relay_world \<times> unit api_result) option" where
  "relay_transfer rounds fuel env sl partial current offset response w =
     (case sl_parallel sl of
        Some config \<Rightarrow>
          if offset \<le> sw_end (sl_window sl) then
            relay_parallel_ranges fuel env (sl_request sl) (sl_nodes sl) (sl_policy sl) partial offset
              (sl_window sl) config
              (case response of None \<Rightarrow> w | Some (_, lease) \<Rightarrow> on_fetch (release_lease lease) w)
          else relay_rounds rounds fuel env sl partial current offset 0 response w
      | None \<Rightarrow> relay_rounds rounds fuel env sl partial current offset 0 response w)"

text \<open>The relay up to the flush of the file.\<close>

definition relay_bytes ::
  "nat \<Rightarrow> nat \<Rightarrow> 'b relay_env \<Rightarrow> stream_relay \<Rightarrow> 'b relay_world \<Rightarrow> ('b relay_world \<times> unit api_result) option" where
  "relay_bytes rounds fuel env sl w =
     (if complete_window (sl_window sl) then
        (let (w0, saved) = saved_partial sl w; partial = Some (Partial_Object (sl_key sl)) in
         if saved \<noteq> [] then
           (case replay_partial fuel env sl saved w0 of
              None \<Rightarrow> None
            | Some (w1, Inl e) \<Rightarrow> Some (w1, Inl e)
            | Some (w1, Inr (current, offset, response)) \<Rightarrow>
                relay_transfer rounds fuel env sl partial current offset response (open_append partial w1))
         else
           relay_transfer rounds fuel env sl partial (sl_current_node sl) (sw_start (sl_window sl))
             (Some (sl_response sl, sl_node_lease sl)) (open_append partial w0))
      else
        relay_transfer rounds fuel env sl None (sl_current_node sl) (sw_start (sl_window sl))
          (Some (sl_response sl, sl_node_lease sl)) w)"

definition relay_stream_blob_inner ::
  "nat \<Rightarrow> nat \<Rightarrow> 'b relay_env \<Rightarrow> stream_relay \<Rightarrow> 'b relay_world \<Rightarrow> ('b relay_world \<times> unit api_result) option" where
  "relay_stream_blob_inner rounds fuel env sl w =
     (case relay_bytes rounds fuel env sl (w\<lparr>rw_hashed := []\<rparr>) of
        None \<Rightarrow> None
      | Some (w1, Inl e) \<Rightarrow> Some (w1, Inl e)
      | Some (w1, Inr _) \<Rightarrow> Some (finish_relay env sl w1))"

text \<open>The relay task: it stops when the client has gone, and holds the cache lease of its key until it ends.\<close>

definition relay_stream_blob ::
  "nat \<Rightarrow> nat \<Rightarrow> 'b relay_env \<Rightarrow> stream_relay \<Rightarrow> 'b relay_world \<Rightarrow> ('b relay_world \<times> unit api_result) option" where
  "relay_stream_blob rounds fuel env sl w =
     map_option (apfst (on_fetch (with_cache (cache_unlock (sl_key sl)))))
       (if le_closed env (rw_clock w)
        then Some (on_fetch (release_lease (sl_node_lease sl)) (await w), Inl stream_disconnected)
        else relay_stream_blob_inner rounds fuel env sl (await w))"

section \<open>A body of unknown length\<close>

record unknown_blob_relay =
  ub_key :: string
  ub_media_type :: string
  ub_expected_digest :: "string option"
  ub_node :: node_view
  ub_response :: response
  ub_node_lease :: node_lease

text \<open>
  What ends the loop before the end of the body: the client has gone and the whole relay is dropped, or an
  error, with the outcome to report for the node.
\<close>

datatype relay_stop = Cancelled | Failed app_error "bool option"

definition stop_of_send :: "app_error \<Rightarrow> relay_stop" where
  "stop_of_send e = (if e = stream_disconnected then Cancelled else Failed e None)"

fun unknown_frames ::
  "'b relay_env \<Rightarrow> temp_path \<Rightarrow> (string + bytes) list \<Rightarrow> nat \<Rightarrow> 'b relay_world \<Rightarrow> 'b relay_world \<times> nat \<times> relay_stop option" where
  "unknown_frames env partial [] transferred w =
     (await w, transferred,
      if le_closed env (rw_clock w) then Some Cancelled
      else if le_timeout env (rw_clock w) then Some (Failed stream_stalled (Some False)) else None)"
| "unknown_frames env partial (frame # frames) transferred w =
     (if le_closed env (rw_clock w) then (await w, transferred, Some Cancelled)
      else if le_timeout env (rw_clock w) then (await w, transferred, Some (Failed stream_stalled (Some False)))
      else
        case frame of
          Inl e \<Rightarrow> (await w, transferred, Some (Failed (Upstream e) (Some False)))
        | Inr chunk \<Rightarrow>
            if chunk = [] then unknown_frames env partial frames transferred (await w)
            else
              let transferred' = u64_saturating_add transferred (length chunk) in
              (case send_relay_chunk env chunk
                      (write_all (Some partial) chunk
                        (record_upstream_bytes (length chunk) (hasher_update chunk (await w)))) of
                 (w1, Inl e) \<Rightarrow> (w1, transferred', Some (stop_of_send e))
               | (w1, Inr _) \<Rightarrow> unknown_frames env partial frames transferred' w1))"

definition unknown_admit ::
  "'b relay_env \<Rightarrow> unknown_blob_relay \<Rightarrow> 'b relay_world \<Rightarrow> 'b relay_world \<times> bool option \<times> unit api_result" where
  "unknown_admit env ub w =
     (let p = Partial_Object (ub_key ub); f = rw_fetch w; fe = le_fetch env in
      if (case ub_expected_digest ub of
            None \<Rightarrow> False | Some expected \<Rightarrow> ''sha256:'' @ fe_sha256_hex fe (rw_hashed w) \<noteq> expected)
      then (on_fetch (remove_file p) w, Some False, Inl Integrity)
      else
        case fw_files f p of
          None \<Rightarrow> (w, Some True, Inl (Io ''NotFound''))
        | Some content \<Rightarrow>
            (case admit (fe_ln_1p fe) (ub_key ub) content (ub_media_type ub) (ub_expected_digest ub)
                    (fe_utc fe (fw_tick f)) (fw_cache f) of
               (cache, Inl e) \<Rightarrow> (on_fetch (fw_cache_update (\<lambda>_. cache)) w, Some True, Inl e)
             | (cache, Inr _) \<Rightarrow> (on_fetch (remove_file p \<circ> fw_cache_update (\<lambda>_. cache)) w, Some True, Inr ())))"

text \<open>The report of the outcome and the removal of the partial directory, or of the partial file.\<close>

definition unknown_settle ::
  "'b relay_env \<Rightarrow> unknown_blob_relay \<Rightarrow> nat \<Rightarrow> bool option \<Rightarrow> unit api_result \<Rightarrow> 'b relay_world \<Rightarrow> 'b relay_world" where
  "unknown_settle env ub transferred outcome result w =
     (let node_id = nd_id (nv_node (ub_node ub));
          elapsed = fe_elapsed (le_fetch env) (fw_tick (rw_fetch w));
          measure_speed = (is_ok result \<and> measures_network_speed elapsed (le_non_network_wait env (rw_clock w)));
          w1 = (case outcome of
                  None \<Rightarrow> w
                | Some success \<Rightarrow>
                    record_observation node_id transferred success measure_speed
                      (on_fetch (observe_node (le_fetch env) node_id (if measure_speed then transferred else 0) success) w))
      in on_fetch (if is_ok result
                   then (\<lambda>f. f\<lparr>fw_files := (\<lambda>p. if temp_key p = ub_key ub then None else fw_files f p)\<rparr>)
                   else remove_file (Partial_Object (ub_key ub))) w1)"

definition relay_unknown_blob_inner ::
  "'b relay_env \<Rightarrow> unknown_blob_relay \<Rightarrow> 'b relay_world \<Rightarrow> 'b relay_world \<times> unit api_result" where
  "relay_unknown_blob_inner env ub w =
     (let p = Partial_Object (ub_key ub);
          w0 = on_fetch (\<lambda>f. f\<lparr>fw_files := (fw_files f)(p \<mapsto> [])\<rparr>) (w\<lparr>rw_hashed := []\<rparr>)
      in
      case unknown_frames env p (le_bounded env (re_body (ub_response ub))) 0 w0 of
        (w1, transferred, Some Cancelled) \<Rightarrow> (w1, Inl stream_disconnected)
      | (w1, transferred, Some (Failed e outcome)) \<Rightarrow> (unknown_settle env ub transferred outcome (Inl e) w1, Inl e)
      | (w1, transferred, None) \<Rightarrow>
          (case unknown_admit env ub w1 of
             (w2, outcome, result) \<Rightarrow> (unknown_settle env ub transferred outcome result w2, result)))"

text \<open>The task: it holds the slot of its node and the cache lease of its key until it ends.\<close>

definition relay_unknown_blob ::
  "'b relay_env \<Rightarrow> unknown_blob_relay \<Rightarrow> 'b relay_world \<Rightarrow> 'b relay_world \<times> unit api_result" where
  "relay_unknown_blob env ub w =
     apfst (on_fetch (with_cache (cache_unlock (ub_key ub)) \<circ> release_lease (ub_node_lease ub)))
       (if le_closed env (rw_clock w) then (await w, Inl stream_disconnected)
        else relay_unknown_blob_inner env ub (await w))"

end
