(* ===== verification/Stream_Relay_Proofs.thy ===== *)
theory Stream_Relay_Proofs
  imports Stream_Relay
begin

text \<open>
  The correctness of the streaming relay: what the client receives, what is written and what is hashed are
  the same bytes; a complete and verified Blob is admitted exactly as it was sent; the responses of different
  nodes are spliced without a gap or an overlap; and the relay ends after a bounded number of responses.
\<close>

section \<open>What a step forwards\<close>

text \<open>
  From \<open>w\<close> to \<open>w'\<close> the bytes \<open>d\<close> were written to the file (and hashed) and the bytes \<open>s\<close> queued for the
  client; the other files and the cache are untouched.
\<close>

definition forwarded :: "temp_path option \<Rightarrow> bool \<Rightarrow> bytes \<Rightarrow> bytes \<Rightarrow> 'b relay_world \<Rightarrow> 'b relay_world \<Rightarrow> bool" where
  "forwarded partial hashed d s w w' \<longleftrightarrow>
     fw_cache (rw_fetch w') = fw_cache (rw_fetch w)
     \<and> rw_hashed w' = rw_hashed w @ (if hashed then d else [])
     \<and> concat (rw_sent w') = concat (rw_sent w) @ s
     \<and> (\<forall>p. fw_files (rw_fetch w') p =
          (if partial = Some p \<and> d \<noteq> []
           then Some ((case fw_files (rw_fetch w) p of None \<Rightarrow> [] | Some c \<Rightarrow> c) @ d)
           else fw_files (rw_fetch w) p))"

abbreviation kept :: "'b relay_world \<Rightarrow> 'b relay_world \<Rightarrow> bool" where
  "kept w w' \<equiv> fw_cache (rw_fetch w') = fw_cache (rw_fetch w) \<and> rw_hashed w' = rw_hashed w
     \<and> rw_sent w' = rw_sent w \<and> fw_files (rw_fetch w') = fw_files (rw_fetch w)"

lemma forwarded_kept: "kept w w' \<Longrightarrow> forwarded partial hashed [] [] w w'"
  by (simp add: forwarded_def)

lemma forwarded_trans:
  assumes "forwarded partial hashed d s w w1" and "forwarded partial hashed d' s' w1 w2"
  shows "forwarded partial hashed (d @ d') (s @ s') w w2"
  using assms by (auto simp: forwarded_def)

lemma relay_basic_fields [simp]:
  "rw_fetch (await w) = rw_fetch w" "rw_sent (await w) = rw_sent w" "rw_hashed (await w) = rw_hashed w"
  "rw_fetch (on_fetch f w) = f (rw_fetch w)" "rw_sent (on_fetch f w) = rw_sent w"
  "rw_hashed (on_fetch f w) = rw_hashed w"
  "rw_fetch (hasher_update bs w) = rw_fetch w" "rw_sent (hasher_update bs w) = rw_sent w"
  "rw_hashed (hasher_update bs w) = rw_hashed w @ bs"
  "rw_fetch (record_upstream_bytes n w) = rw_fetch w" "rw_sent (record_upstream_bytes n w) = rw_sent w"
  "rw_hashed (record_upstream_bytes n w) = rw_hashed w"
  "rw_fetch (record_observation i n ok m w) = rw_fetch w" "rw_sent (record_observation i n ok m w) = rw_sent w"
  "rw_hashed (record_observation i n ok m w) = rw_hashed w"
  "rw_fetch (other_failures env w) = rw_fetch w" "rw_sent (other_failures env w) = rw_sent w"
  "rw_hashed (other_failures env w) = rw_hashed w"
  by (simp_all add: await_def on_fetch_def hasher_update_def record_upstream_bytes_def record_observation_def
      other_failures_def)

lemma fetch_data_fields [simp]:
  "fw_files (observe_node e i n ok f) = fw_files f" "fw_cache (observe_node e i n ok f) = fw_cache f"
  "fw_files (record_transfer i n ok f) = fw_files f" "fw_cache (record_transfer i n ok f) = fw_cache f"
  "fw_files (record_retry f) = fw_files f" "fw_cache (record_retry f) = fw_cache f"
  "fw_files (record_resume f) = fw_files f" "fw_cache (record_resume f) = fw_cache f"
  "fw_files (release_lease l f) = fw_files f" "fw_cache (release_lease l f) = fw_cache f"
  "fw_files (capacity_wait e f) = fw_files f" "fw_cache (capacity_wait e f) = fw_cache f"
  by (simp_all add: observe_node_def record_transfer_def record_retry_def record_resume_def release_lease_def
      capacity_wait_def)

lemma relay_step_fields [simp]:
  "kept w (report_failure env i w)" "kept w (relay_wait env w)" "kept w (relay_sleep env t w)"
  "kept w (settle_response env i l n c w)" "kept w (settle_chunk env i l a w)"
  by (simp_all add: report_failure_def relay_wait_def relay_sleep_def settle_response_def settle_chunk_def
      Let_def split: sum.split)

lemma relay_send_kept: "relay_send env node rq m w = (w', r) \<Longrightarrow> kept w w'"
  by (auto simp: relay_send_def upstream_send_def)

lemma relay_send_answer:
  "relay_send env node rq m w = (w', r) \<Longrightarrow> r = fe_send (le_fetch env) (fw_tick (rw_fetch w)) node GET rq m"
  by (auto simp: relay_send_def upstream_send_def)

lemma write_all_forwarded:
  "chunk \<noteq> [] \<Longrightarrow>
   forwarded partial h chunk [] w (write_all partial chunk (if h then hasher_update chunk w else w))"
  by (cases partial) (auto simp: forwarded_def write_all_def split: option.split)

lemma send_relay_chunk_forwarded:
  "send_relay_chunk env chunk w = (w', r) \<Longrightarrow>
   \<exists>s. forwarded partial h [] s w w' \<and> (r = Inr () \<longrightarrow> s = chunk) \<and> (r \<noteq> Inr () \<longrightarrow> s = [])"
  by (auto simp: send_relay_chunk_def forwarded_def split: if_splits)

lemma write_send_forwarded:
  assumes "send_relay_chunk env chunk (write_all partial chunk (if h then hasher_update chunk w else w)) = (w', r)"
    and "chunk \<noteq> []"
  shows "\<exists>s. forwarded partial h chunk s w w' \<and> prefix s chunk \<and> (r = Inr () \<longrightarrow> s = chunk)"
proof -
  obtain s where "forwarded partial h [] s (write_all partial chunk (if h then hasher_update chunk w else w)) w'"
    and s: "r = Inr () \<longrightarrow> s = chunk" "r \<noteq> Inr () \<longrightarrow> s = []"
    using send_relay_chunk_forwarded [OF assms(1)] by blast
  then show ?thesis using forwarded_trans [OF write_all_forwarded [OF assms(2), of partial h w], of "[]" s w'] s
    by (intro exI [of _ s]) auto
qed

lemma record_upstream_write: 
  "record_upstream_bytes n (write_all partial bs w) = write_all partial bs (record_upstream_bytes n w)"
  by (cases partial) (simp_all add: record_upstream_bytes_def write_all_def on_fetch_def)

lemma record_upstream_hash:
  "record_upstream_bytes n (hasher_update bs w) = hasher_update bs (record_upstream_bytes n w)"
  by (cases w) (simp add: record_upstream_bytes_def hasher_update_def)

lemma forwarded_from: "kept w w1 \<Longrightarrow> forwarded partial h d s w1 w2 \<Longrightarrow> forwarded partial h d s w w2"
  by (simp add: forwarded_def)

lemma forwarded_to: "forwarded partial h d s w w1 \<Longrightarrow> kept w1 w2 \<Longrightarrow> forwarded partial h d s w w2"
  by (simp add: forwarded_def)

section \<open>The body of a response\<close>

text \<open>One frame of data: either it ends the relay, or the loop goes on behind it.\<close>

lemma relay_frames_data [consumes 4, case_names refused failed passed]:
  assumes "relay_frames env win partial (Inr chunk # frames) sp w = (w', sp', r)"
    and "\<not> le_closed env (rw_clock w)" and "\<not> le_timeout env (rw_clock w)" and "chunk \<noteq> []"
  obtains (refused) "kept w w'" "sp' = sp" "r = Inl Integrity"
  | (failed) e s where "r = Inl e" "forwarded partial (complete_window win) chunk s w w'" "prefix s chunk"
      "sp_offset sp' = sp_offset sp + length chunk" "sp_offset sp + length chunk \<le> Suc (sw_end win)"
  | (passed) w1 where "forwarded partial (complete_window win) chunk chunk w w1"
      "sp_offset sp + length chunk \<le> Suc (sw_end win)"
      "relay_frames env win partial frames
         (sp\<lparr>sp_offset := sp_offset sp + length chunk, sp_transferred := sp_transferred sp + length chunk,
             sp_stalled_responses := 0\<rparr>) w1 = (w', sp', r)"
proof -
  let ?h = "complete_window win"
  let ?w1 = "if ?h then hasher_update chunk (await w) else await w"
  let ?w2 = "record_upstream_bytes (length chunk) (write_all partial chunk ?w1)"
  consider (none) "remaining_window_bytes (sw_end win) (sp_offset sp) = None \<or>
      (\<exists>n. remaining_window_bytes (sw_end win) (sp_offset sp) = Some n \<and> n < length chunk)"
    | (some) n where "remaining_window_bytes (sw_end win) (sp_offset sp) = Some n" "\<not> n < length chunk"
    by (cases "remaining_window_bytes (sw_end win) (sp_offset sp)") auto
  then show thesis
  proof cases
    case none
    with assms show thesis by (intro refused) auto
  next
    case some
    then have le: "sp_offset sp + length chunk \<le> Suc (sw_end win)"
      by (auto simp: remaining_window_bytes_def u64_checked_sub_def u64_checked_add_def split: if_splits
          bind_splits)
    obtain w3 q where send: "send_relay_chunk env chunk ?w2 = (w3, q)" by fastforce
    have w2: "?w2 = write_all partial chunk (if ?h then hasher_update chunk (record_upstream_bytes (length chunk) (await w))
        else record_upstream_bytes (length chunk) (await w))"
      by (simp add: record_upstream_write record_upstream_hash)
    from write_send_forwarded [of env chunk partial ?h, OF send [unfolded w2] assms(4)]
    obtain s where f: "forwarded partial ?h chunk s (record_upstream_bytes (length chunk) (await w)) w3"
      and s: "prefix s chunk" "q = Inr () \<longrightarrow> s = chunk" by blast
    have fw: "forwarded partial ?h chunk s w w3" by (rule forwarded_from [OF _ f]) simp_all
    show thesis
    proof (cases q)
      case (Inl e)
      with assms some send have "w' = w3" "r = Inl e" "sp_offset sp' = sp_offset sp + length chunk" by auto
      with fw s le show thesis by (intro failed) auto
    next
      case (Inr u)
      with assms some send fw s le show thesis by (intro passed) (auto simp: Let_def)
    qed
  qed
qed

lemma relay_frames_spec:
  assumes "relay_frames env win partial frames sp w = (w', sp', r)"
  shows "\<exists>d s. forwarded partial (complete_window win) d s w w' \<and> prefix s d \<and> (r = Inr () \<longrightarrow> s = d)
     \<and> prefix d (delivered frames) \<and> sp_offset sp' = sp_offset sp + length d
     \<and> sp_offset sp' \<le> max (sp_offset sp) (Suc (sw_end win))
     \<and> (r = Inr () \<longrightarrow> sp_transferred sp' = sp_transferred sp + length d
          \<and> sp_stalled_responses sp' = (if d = [] then sp_stalled_responses sp else 0))"
  using assms
proof (induction frames arbitrary: sp w)
  case Nil
  then have "kept w w'" "sp' = sp" by auto
  then show ?case using forwarded_kept by (intro exI [of _ "[]"]) auto
next
  case (Cons frame frames)
  have idle: ?case if "kept w w'" "sp' = sp"
    using that forwarded_kept by (intro exI [of _ "[]"]) auto
  show ?case
  proof (cases "le_closed env (rw_clock w) \<or> le_timeout env (rw_clock w) \<or> (\<exists>e. frame = Inl e)")
    case True
    with Cons.prems have "kept w w'" "sp' = sp" by (auto split: if_splits sum.splits)
    then show ?thesis by (rule idle)
  next
    case False
    then obtain chunk where frame: "frame = Inr chunk" by (cases frame) auto
    show ?thesis
    proof (cases "chunk = []")
      case True
      with Cons.prems False frame have "relay_frames env win partial frames sp (await w) = (w', sp', r)" by simp
      from Cons.IH [OF this] obtain d s where ds: "forwarded partial (complete_window win) d s (await w) w'"
        "prefix s d" "r = Inr () \<longrightarrow> s = d" "prefix d (delivered frames)" "sp_offset sp' = sp_offset sp + length d"
        "sp_offset sp' \<le> max (sp_offset sp) (Suc (sw_end win))"
        "r = Inr () \<longrightarrow> sp_transferred sp' = sp_transferred sp + length d
          \<and> sp_stalled_responses sp' = (if d = [] then sp_stalled_responses sp else 0)"
        by blast
      have "forwarded partial (complete_window win) d s w w'" by (rule forwarded_from [OF _ ds(1)]) simp_all
      with ds(2-) frame True show ?thesis by (intro exI [of _ d] exI [of _ s]) simp
    next
      case chunk: False
      have live: "\<not> le_closed env (rw_clock w)" "\<not> le_timeout env (rw_clock w)" using False by simp_all
      from Cons.prems [unfolded frame] live chunk show ?thesis
      proof (cases rule: relay_frames_data)
        case refused
        show ?thesis by (rule idle) (use refused in simp_all)
      next
        case (failed e s)
        then show ?thesis using frame by (intro exI [of _ chunk] exI [of _ s]) auto
      next
        case (passed w1)
        from Cons.IH [OF passed(3)] obtain d s where
          ds: "forwarded partial (complete_window win) d s w1 w'" "prefix s d" "r = Inr () \<longrightarrow> s = d"
          "prefix d (delivered frames)" "sp_offset sp' = sp_offset sp + length chunk + length d"
          "sp_offset sp' \<le> max (sp_offset sp + length chunk) (Suc (sw_end win))"
          "r = Inr () \<longrightarrow> sp_transferred sp' = sp_transferred sp + length chunk + length d
             \<and> sp_stalled_responses sp' = 0"
          by (auto split: if_splits)
        with forwarded_trans [OF passed(1) ds(1)] passed(2) frame chunk show ?thesis
          by (intro exI [of _ "chunk @ d"] exI [of _ "chunk @ s"]) auto
      qed
    qed
  qed
qed

section \<open>Resumption\<close>

text \<open>The answer of a resumption: an answer of an upstream to exactly the range asked for.\<close>

definition resumed :: "'b relay_env \<Rightarrow> resume_request \<Rightarrow> nat \<Rightarrow> response \<Rightarrow> bool" where
  "resumed env rr index r \<longleftrightarrow>
     index < length (rr_nodes rr) \<and> exact_window env r (rr_start rr) (rr_end rr) (rr_total rr)
     \<and> (\<exists>n node. fe_send (le_fetch env) n node GET (rr_request rr) (Exact (rr_start rr) (rr_end rr)) = Inr r)"

lemma try_resume_spec:
  assumes "try_resume env rr candidates attempted last_error retry_delay w = (w', x)"
  shows "kept w w' \<and> (\<forall>i r l. x = Resumed i r l \<longrightarrow> resumed env rr i r)"
  using assms
proof (induction candidates arbitrary: attempted last_error retry_delay w)
  case (Cons node candidates)
  let ?next = "\<lambda>w1. \<exists>a e t. try_resume env rr candidates a e t w1 = (w', x)"
  have step: ?case if "kept w w1" and "?next w1" for w1
    using that Cons.IH by fastforce
  obtain sel lease where
    acq: "selector_try_acquire (nd_id (nv_node node)) (nv_max_concurrency node) (fw_selector (rw_fetch w)) = (sel, lease)"
    by fastforce
  let ?w0 = "on_fetch (fw_selector_update (\<lambda>_. sel)) w"
  obtain w1 a where send: "relay_send env node (rr_request rr) (Exact (rr_start rr) (rr_end rr)) ?w0 = (w1, a)"
    by fastforce
  have w1: "kept w w1" using relay_send_kept [OF send] by simp
  have a: "a = fe_send (le_fetch env) (fw_tick (rw_fetch ?w0)) node GET (rr_request rr) (Exact (rr_start rr) (rr_end rr))"
    by (rule relay_send_answer [OF send])
  show ?case
  proof (cases "position (\<lambda>n. nd_id (nv_node n) = nd_id (nv_node node)) (rr_nodes rr)")
    case None
    with Cons.prems show ?thesis by (intro step [of w]) auto
  next
    case index: (Some index)
    show ?thesis
    proof (cases lease)
      case None
      with Cons.prems index acq show ?thesis by (intro step [of ?w0]) auto
    next
      case lease: (Some l)
      show ?thesis
      proof (cases "le_closed env (rw_clock w) \<or> le_timeout env (rw_clock w)")
        case True
        with Cons.prems index acq lease show ?thesis by (auto simp: Let_def split: if_splits)
      next
        case live: False
        show ?thesis
        proof (cases a)
          case (Inl e)
          with Cons.prems index acq lease live send show ?thesis
            by (intro step [of "on_fetch (release_lease l) (report_failure env (nd_id (nv_node node)) w1)"])
              (auto simp: Let_def w1)
        next
          case (Inr r)
          show ?thesis
          proof (cases "exact_window env r (rr_start rr) (rr_end rr) (rr_total rr)")
            case True
            with Inr a position_Some [OF index] have "resumed env rr index r" unfolding resumed_def by metis
            with Cons.prems index acq lease live send Inr True w1 show ?thesis by (auto simp: Let_def)
          next
            case False
            let ?w2 = "on_fetch (release_lease l)
              (if re_status r \<noteq> 404 then report_failure env (nd_id (nv_node node)) w1 else w1)"
            have "?next ?w2" using Cons.prems index acq lease live send Inr False
              by (simp add: Let_def split del: if_split) blast
            moreover have "kept w ?w2" using w1 by simp
            ultimately show ?thesis by (intro step)
          qed
        qed
      qed
    qed
  qed
qed auto

lemma resume_loop_spec:
  assumes "resume_loop fuel env rr policy last_error w = Some (w', r)"
  shows "kept w w' \<and> (\<forall>i a l. r = Inr (i, a, l) \<longrightarrow> resumed env rr i a)"
  using assms
proof (induction fuel arbitrary: last_error w)
  case (Suc fuel)
  obtain w1 candidates where cand: "resume_candidates env rr policy w = (w1, candidates)" by fastforce
  then have w1: "kept w w1"
    by (auto simp: resume_candidates_def Let_def split: prod.splits dest: arg_cong [where f = fst])
      (metis fst_conv ordered_nodes_fields)+
  obtain w2 x where att: "try_resume env rr candidates False last_error 0 w1 = (w2, x)" by fastforce
  have w2: "kept w w2" and x: "\<forall>i r l. x = Resumed i r l \<longrightarrow> resumed env rr i r"
    using try_resume_spec [OF att] w1 by simp_all
  show ?case
  proof (cases x)
    case (Resume_Round attempted e' t)
    let ?next = "if attempted then relay_sleep env (max (the (le_next_backoff env (rw_clock w2))) t) w2
      else relay_wait env w2"
    have "kept w ?next" using w2 by simp
    with Suc.prems Suc.IH [of e' ?next] cand att Resume_Round w2 show ?thesis
      by (auto split: if_splits option.splits)
  qed (use Suc.prems cand att w2 x in auto)
qed simp

lemma resume_spec:
  assumes "resume_stream_response fuel env rr policy w = Some (w', r)"
  shows "kept w w' \<and> (\<forall>i a l. r = Inr (i, a, l) \<longrightarrow> resumed env rr i a)"
proof (cases "rr_nodes rr = []")
  case True
  with assms show ?thesis by (auto simp: resume_stream_response_def)
next
  case False
  with assms have "resume_loop fuel env rr policy None w = Some (w', r)" by (simp add: resume_stream_response_def)
  then show ?thesis by (rule resume_loop_spec)
qed

lemma prefix_length_eq_full: "prefix d t \<Longrightarrow> length d = length t \<Longrightarrow> d = t"
  by (metis append_eq_append_conv append_Nil2 prefix_def)

section \<open>Splicing\<close>

text \<open>
  The assumptions under which the bytes of the stream are those of a Blob: the nodes are honest about its
  content, the window lies in it, and the reader adapter passes on the data it reads.
\<close>

definition honest_stream :: "'b relay_env \<Rightarrow> stream_relay \<Rightarrow> bytes \<Rightarrow> bool" where
  "honest_stream env sl content \<longleftrightarrow>
     honest_upstream (le_fetch env) (sl_request sl) content
     \<and> sw_total (sl_window sl) = length content \<and> sw_end (sl_window sl) < length content
     \<and> (\<forall>frames. prefix (delivered (le_bounded env frames)) (delivered frames))"

definition honest_response :: "stream_relay \<Rightarrow> bytes \<Rightarrow> nat \<Rightarrow> (response \<times> node_lease) option \<Rightarrow> bool" where
  "honest_response sl content offset response \<longleftrightarrow>
     (case response of None \<Rightarrow> True
      | Some (r, _) \<Rightarrow> prefix (delivered (re_body r)) (slice content offset (sw_end (sl_window sl))))"

lemma exact_window_range:
  "exact_window env r a b n \<Longrightarrow>
   re_status r = 206 \<and> content_range_matches (fe_parse_range (le_fetch env)) (re_headers r) a b n"
  by (auto simp: exact_window_def stream_window_def content_range_matches_def split: if_splits option.splits
      content_range.splits bind_splits)

lemma resumed_honest:
  assumes "honest_stream env sl content" and "resumed env (resume_request_of sl current offset) i r"
  shows "honest_response sl content offset (Some (r, lease))"
  using assms exact_window_range
  by (fastforce simp: honest_stream_def honest_upstream_def resumed_def resume_request_of_def honest_response_def)

lemma slice_append:
  assumes "prefix d (slice content a b)" and "prefix e (slice content (a + length d) b)"
  shows "prefix (d @ e) (slice content a b)"
proof -
  have "slice content (a + length d) b = drop (length d) (slice content a b)"
    by (simp add: slice_def drop_take add.commute)
  with assms show ?thesis by (auto simp: prefix_def)
qed

text \<open>
  The rounds of the relay: everything that was written was also sent, except possibly the last chunk of a
  relay that failed; a relay that succeeds has covered the window; and the bytes are those of the Blob.
\<close>

lemma relay_rounds_spec:
  assumes "relay_rounds rounds fuel env sl partial current offset stalled response w = Some (w', r)"
  shows "\<exists>d s. forwarded partial (complete_window (sl_window sl)) d s w w' \<and> prefix s d
     \<and> (r = Inr () \<longrightarrow> s = d \<and> offset + length d = max offset (Suc (sw_end (sl_window sl))))
     \<and> (\<forall>content. honest_stream env sl content \<and> honest_response sl content offset response
          \<longrightarrow> prefix d (slice content offset (sw_end (sl_window sl))))"
  using assms
proof (induction rounds arbitrary: current offset stalled response w)
  case (Suc rounds)
  let ?win = "sl_window sl"
  have idle: ?case if "kept w w'" and "r = Inr () \<longrightarrow> sw_end ?win < offset"
    using forwarded_kept [OF that(1)] that(2) by (intro exI [of _ "[]"]) auto
  show ?case
  proof (cases "sw_end ?win < offset \<or> response = None")
    case True
    with Suc.prems show ?thesis by (intro idle) (auto split: if_splits option.splits)
  next
    case False
    then obtain a lease where response: "response = Some (a, lease)" and inside: "\<not> sw_end ?win < offset" by auto
    obtain w1 sp q where frames: "relay_frames env ?win partial (le_bounded env (re_body a))
        \<lparr>sp_offset = offset, sp_transferred = 0, sp_stalled_responses = stalled\<rparr> w = (w1, sp, q)"
      by (metis prod_cases3)
    from relay_frames_spec [OF this] inside obtain d s where
      ds: "forwarded partial (complete_window ?win) d s w w1" "prefix s d" "q = Inr () \<longrightarrow> s = d"
      "prefix d (delivered (le_bounded env (re_body a)))" "sp_offset sp = offset + length d"
      "sp_offset sp \<le> Suc (sw_end ?win)"
      by auto
    have honest: "prefix d (slice content offset (sw_end ?win))"
      if "honest_stream env sl content" "honest_response sl content offset response" for content
      using that ds(4) response unfolding honest_stream_def honest_response_def
      by (auto intro: prefix_order.trans)
    have stop: ?thesis if "kept w1 w'" "r = Inr () \<longrightarrow> q = Inr () \<and> sw_end ?win < sp_offset sp"
      using forwarded_to [OF ds(1) that(1)] that(2) ds honest inside by (intro exI [of _ d] exI [of _ s]) auto
    let ?w2 = "settle_response env (nd_id (nv_node (sl_nodes sl ! current))) lease (sp_transferred sp)
      (sw_end ?win < sp_offset sp) w1"
    let ?w3 = "on_fetch (record_resume \<circ> record_retry) ?w2"
    let ?rr = "resume_request_of sl current (sp_offset sp)"
    show ?thesis
    proof (cases q)
      case (Inl e)
      with Suc.prems frames response inside show ?thesis by (intro stop) auto
    next
      case q: (Inr u)
      show ?thesis
      proof (cases "sw_end ?win < sp_offset sp \<or> r \<noteq> Inr () \<and> kept w1 w'")
        case True
        with Suc.prems frames response inside q show ?thesis by (intro stop) (auto simp: Let_def split: if_splits)
      next
        case go: False
        with Suc.prems frames response inside q obtain w4 x where
          res: "resume_stream_response fuel env ?rr (sl_policy sl) ?w3 = Some (w4, x)"
          by (auto simp: Let_def split: if_splits option.splits)
        have w4: "kept w1 w4" using resume_spec [OF res] by simp
        obtain next_node a' lease' where x: "x = Inr (next_node, a', lease')"
          using Suc.prems frames response inside q go res w4
          by (cases x) (auto simp: Let_def split: if_splits)
        then have good: "resumed env ?rr next_node a'" using resume_spec [OF res] by simp
        obtain st where rest: "relay_rounds rounds fuel env sl partial next_node (sp_offset sp) st (Some (a', lease')) w4
            = Some (w', r)"
          using Suc.prems frames response inside q go res x by (auto simp: Let_def split: if_splits)
        from Suc.IH [OF rest] obtain d' s' where
          ds': "forwarded partial (complete_window ?win) d' s' w4 w'" "prefix s' d'"
          "r = Inr () \<longrightarrow> s' = d' \<and> sp_offset sp + length d' = max (sp_offset sp) (Suc (sw_end ?win))"
          "\<forall>content. honest_stream env sl content \<and> honest_response sl content (sp_offset sp) (Some (a', lease'))
            \<longrightarrow> prefix d' (slice content (sp_offset sp) (sw_end ?win))"
          by blast
        have "forwarded partial (complete_window ?win) d' s' w1 w'" by (rule forwarded_from [OF w4 ds'(1)])
        note fw = forwarded_trans [OF ds(1) this]
        have "prefix (d @ d') (slice content offset (sw_end ?win))"
          if "honest_stream env sl content" "honest_response sl content offset response" for content
          using slice_append [OF honest [OF that]] ds'(4) resumed_honest [OF that(1) good] that(1) ds(5) by simp
        with fw ds ds' q inside show ?thesis
          by (intro exI [of _ "d @ d'"] exI [of _ "s @ s'"]) auto
      qed
    qed
  qed
qed simp

section \<open>Parallel ranges\<close>

text \<open>The chunks cover the rest of the window, one after the other.\<close>

fun covers :: "nat \<Rightarrow> nat \<Rightarrow> nat \<Rightarrow> stream_chunk list \<Rightarrow> bool" where
  "covers start stop tsize [] \<longleftrightarrow> stop < start"
| "covers start stop tsize (c # cks) \<longleftrightarrow>
     sk_start c = start \<and> start \<le> sk_end c \<and> sk_end c \<le> stop \<and> sk_total c = tsize
     \<and> covers (sk_end c + 1) stop tsize cks"

lemma stream_chunks_cover:
  "stop \<le> u64_max \<Longrightarrow> \<exists>rest. stream_chunks cs stop tsize start cks = cks @ rest \<and> covers start stop tsize rest"
proof (induction cs stop tsize start cks rule: stream_chunks.induct)
  case (1 cs stop tsize start cks)
  let ?e = "stream_chunk_end cs stop start"
  show ?case
  proof (cases "start \<le> stop")
    case True
    with 1(2) have cond: "start \<le> stop \<and> start \<le> u64_max" by simp
    then have e: "start \<le> ?e" "?e \<le> stop" by (auto simp: stream_chunk_end_def u64_saturating_add_def)
    obtain rest where rest: "stream_chunks cs stop tsize (?e + 1)
        (cks @ [\<lparr>sk_sequence = length cks, sk_start = start, sk_end = ?e, sk_total = tsize\<rparr>])
      = (cks @ [\<lparr>sk_sequence = length cks, sk_start = start, sk_end = ?e, sk_total = tsize\<rparr>]) @ rest"
      "covers (?e + 1) stop tsize rest"
      using 1(1) [OF cond 1(2)] by blast
    with cond e show ?thesis
      by (subst stream_chunks.simps) auto
  next
    case False
    then show ?thesis by (subst stream_chunks.simps) auto
  qed
qed

lemma chunk_body_spec:
  "chunk_body expected frames bs w = (w', r) \<Longrightarrow>
   kept w w' \<and> (\<forall>x. r = Inr x \<longrightarrow> length x = expected \<and> x = bs @ delivered frames)"
proof (induction expected frames bs w rule: chunk_body.induct)
  case (3 expected frame frames bs w)
  show ?case
  proof (cases "expected < length bs + length frame")
    case True
    with 3(2) show ?thesis by auto
  next
    case False
    from 3(1) [OF this] 3(2) False show ?thesis by simp
  qed
qed (auto split: if_splits)

text \<open>A fetched chunk has the length of its range and, from honest nodes, its bytes.\<close>

definition chunk_good :: "'b relay_env \<Rightarrow> fetch_request \<Rightarrow> stream_chunk \<Rightarrow> bytes \<Rightarrow> bool" where
  "chunk_good env rq c bs \<longleftrightarrow>
     length bs = sk_end c - sk_start c + 1
     \<and> (\<forall>content. honest_upstream (le_fetch env) rq content \<and> sk_total c = length content
          \<longrightarrow> prefix bs (slice content (sk_start c) (sk_end c)))"

lemma attempt_chunk_spec:
  assumes "attempt_chunk env rq c node t w = (w', ca)"
  shows "kept w w' \<and> (\<forall>bs. ca_result ca = Inr bs \<longrightarrow> chunk_good env rq c bs)"
proof -
  obtain w1 a where send: "relay_send env node rq (Exact (sk_start c) (sk_end c)) w = (w1, a)" by fastforce
  have w1: "kept w w1" by (rule relay_send_kept [OF send])
  show ?thesis
  proof (cases "\<exists>r. a = Inr r \<and> status_is_success (re_status r)
      \<and> exact_window env r (sk_start c) (sk_end c) (sk_total c)")
    case False
    with assms send w1 show ?thesis
      by (cases a) (auto simp: attempt_chunk_def Let_def split: if_splits)
  next
    case True
    then obtain r where r: "a = Inr r" "status_is_success (re_status r)"
      "exact_window env r (sk_start c) (sk_end c) (sk_total c)" by blast
    obtain w2 q where body: "chunk_body (sk_end c - sk_start c + 1) (re_body r) [] w1 = (w2, q)" by fastforce
    have "w' = w2" "ca_result ca = q" using assms send r body by (auto simp: attempt_chunk_def Let_def)
    moreover have "chunk_good env rq c bs" if "q = Inr bs" for bs
      using chunk_body_spec [OF body] that relay_send_answer [OF send] exact_window_range [OF r(3)] r(1)
      unfolding chunk_good_def honest_upstream_def by fastforce
    ultimately show ?thesis using chunk_body_spec [OF body] w1 by simp
  qed
qed

lemma try_chunk_spec:
  assumes "try_chunk env rq c candidates attempted last_error t w = (w', x)"
  shows "kept w w' \<and> (\<forall>bs. x = Chunk_Fetched bs \<longrightarrow> chunk_good env rq c bs)"
  using assms
proof (induction candidates arbitrary: attempted last_error t w)
  case (Cons node candidates)
  obtain sel lease where
    acq: "selector_try_acquire (nd_id (nv_node node)) (nv_max_concurrency node) (fw_selector (rw_fetch w)) = (sel, lease)"
    by fastforce
  let ?w0 = "on_fetch (fw_selector_update (\<lambda>_. sel)) w"
  obtain w1 ca where att: "attempt_chunk env rq c node t ?w0 = (w1, ca)" by fastforce
  have w1: "kept w w1" and ca: "\<forall>bs. ca_result ca = Inr bs \<longrightarrow> chunk_good env rq c bs"
    using attempt_chunk_spec [OF att] by simp_all
  show ?case
  proof (cases "nd_id (nv_node node) \<in> rw_range_failures w")
    case True
    with Cons.prems show ?thesis by (intro Cons.IH [of attempted last_error t w]) simp
  next
    case fresh: False
    show ?thesis
    proof (cases lease)
      case None
      with Cons.prems fresh acq Cons.IH [of attempted last_error t ?w0] show ?thesis by simp
    next
      case (Some permit)
      let ?w2 = "settle_chunk env (nd_id (nv_node node)) permit ca w1"
      have w2: "kept w ?w2" using w1 by simp
      show ?thesis
      proof (cases "ca_result ca")
        case (Inl e)
        with Cons.prems fresh acq Some att Cons.IH [of True "Some e" "ca_retry_delay ca" ?w2] w2 show ?thesis by simp
      next
        case (Inr bs)
        with Cons.prems fresh acq Some att w2 ca show ?thesis by auto
      qed
    qed
  qed
qed auto

lemma fetch_parallel_chunk_spec:
  assumes "fetch_parallel_chunk fuel env rq nodes policy c last_error w = Some (w', r)"
  shows "kept w w' \<and> (\<forall>bs. r = Inr bs \<longrightarrow> chunk_good env rq c bs)"
  using assms
proof (induction fuel arbitrary: last_error w)
  case (Suc fuel)
  let ?w0 = "other_failures env w"
  let ?eligible = "filter (\<lambda>n. nd_id (nv_node n) \<notin> rw_range_failures ?w0) nodes"
  let ?ctx = "\<lparr>sx_sequence = sequence_for (fe_sha256 (le_fetch env)) (rq_path rq) (sk_sequence c),
    sx_blob_size = sk_total c, sx_range_required = True, sx_chunk = Some (sk_start c, sk_end c)\<rparr>"
  obtain f candidates where ord: "ordered_nodes_with_context (le_fetch env) ?eligible ?ctx policy (rw_fetch ?w0)
      = (f, candidates)" by fastforce
  obtain w1 x where att: "try_chunk env rq c candidates False last_error 0 (?w0\<lparr>rw_fetch := f\<rparr>) = (w1, x)" by fastforce
  have "kept w (?w0\<lparr>rw_fetch := f\<rparr>)"
    using ord ordered_nodes_fields [of "le_fetch env" ?eligible ?ctx policy "rw_fetch ?w0"] by simp
  then have w1: "kept w w1" and x: "\<forall>bs. x = Chunk_Fetched bs \<longrightarrow> chunk_good env rq c bs"
    using try_chunk_spec [OF att] by simp_all
  show ?case
  proof (cases "?eligible = []")
    case True
    with Suc.prems show ?thesis by (simp add: Let_def) fastforce
  next
    case some: False
    show ?thesis
    proof (cases x)
      case (Chunk_Fetched bs)
      with Suc.prems some ord att w1 x show ?thesis by (auto simp: Let_def)
    next
      case (Chunk_Round attempted e' d)
      have again: ?thesis if "fetch_parallel_chunk fuel env rq nodes policy c e' w2 = Some (w', r)" "kept w1 w2" for w2
        using Suc.IH [OF that(1)] that(2) w1 by simp
      show ?thesis
      proof (cases "length nodes \<le> card (rw_range_failures w1) \<or> attempted \<and> le_next_backoff env (rw_clock w1) = None")
        case True
        with Suc.prems some ord att w1 Chunk_Round show ?thesis
          by (auto simp: Let_def split: if_splits)
      next
        case False
        with Suc.prems some ord att Chunk_Round show ?thesis
          by (intro again [of "if attempted then relay_sleep env (max (the (le_next_backoff env (rw_clock w1))) d) w1
              else relay_wait env w1"])
            (auto simp: Let_def split: if_splits)
      qed
    qed
  qed
qed simp

lemma prefix_slice_mono: "b' \<le> b \<Longrightarrow> prefix (slice content a b') (slice content a b)"
  by (auto simp: slice_def prefix_def min_def intro: exI [of _ "drop (Suc b' - a) (take (Suc b - a) (drop a content))"])
    (metis append_take_drop_id diff_le_mono Suc_le_mono min.absorb1 take_take)

lemma relay_parallel_chunks_spec:
  assumes "relay_parallel_chunks fuel env rq nodes policy partial cks w = Some (w', r)"
    and "covers start stop tsize cks"
  shows "\<exists>d s. forwarded partial True d s w w' \<and> prefix s d
     \<and> (r = Inr () \<longrightarrow> s = d \<and> start + length d = max start (Suc stop))
     \<and> (\<forall>content. honest_upstream (le_fetch env) rq content \<and> tsize = length content
          \<longrightarrow> prefix d (slice content start stop))"
  using assms
proof (induction cks arbitrary: start w)
  case Nil
  then have "kept w w'" "stop < start" by auto
  with forwarded_kept [OF this(1)] show ?case by (intro exI [of _ "[]"]) auto
next
  case (Cons c cks)
  have idle: ?case if "kept w w'" "r \<noteq> Inr ()"
    using forwarded_kept [OF that(1)] that(2) by (intro exI [of _ "[]"]) auto
  show ?case
  proof (cases "le_closed env (rw_clock w) \<or> (\<exists>e. acquire_chunk_memory env c w = Inl e)")
    case True
    with Cons.prems(1) show ?thesis by (intro idle) (auto split: if_splits sum.splits)
  next
    case False
    then have mem: "acquire_chunk_memory env c w = Inr ()" by (cases "acquire_chunk_memory env c w") auto
    obtain w1 q where fetch: "fetch_parallel_chunk fuel env rq nodes policy c None (await w) = Some (w1, q)"
      using Cons.prems(1) False mem by (auto split: option.splits)
    have w1: "kept w w1" and good: "\<forall>bs. q = Inr bs \<longrightarrow> chunk_good env rq c bs"
      using fetch_parallel_chunk_spec [OF fetch] by simp_all
    show ?thesis
    proof (cases q)
      case (Inl e)
      with Cons.prems(1) False mem fetch w1 show ?thesis by (intro idle) auto
    next
      case (Inr bs)
      with good have bs: "length bs = sk_end c - sk_start c + 1" "bs \<noteq> []"
        "\<And>content. honest_upstream (le_fetch env) rq content \<Longrightarrow> tsize = length content
          \<Longrightarrow> prefix bs (slice content start (sk_end c))"
        using Cons.prems(2) by (auto simp: chunk_good_def)
      have c: "sk_start c = start" "start \<le> sk_end c" "sk_end c \<le> stop" using Cons.prems(2) by auto
      have here: "prefix bs (slice content start stop)"
        if "honest_upstream (le_fetch env) rq content" "tsize = length content" for content
        using bs(3) [OF that] prefix_slice_mono [OF c(3)] by (rule prefix_order.trans)
      obtain w2 x where send: "send_relay_chunk env bs (write_all partial bs (if True then hasher_update bs w1 else w1))
          = (w2, x)" by fastforce
      from write_send_forwarded [OF send bs(2)] obtain s where f: "forwarded partial True bs s w1 w2"
        and s: "prefix s bs" "x = Inr () \<longrightarrow> s = bs" by blast
      have fw: "forwarded partial True bs s w w2" by (rule forwarded_from [OF w1 f])
      show ?thesis
      proof (cases x)
        case (Inl e)
        with Cons.prems(1) False mem fetch Inr send have "w' = w2" "r \<noteq> Inr ()" by auto
        with fw s here show ?thesis by (intro exI [of _ bs] exI [of _ s]) auto
      next
        case x: (Inr u)
        with Cons.prems False mem fetch Inr send
        have "relay_parallel_chunks fuel env rq nodes policy partial cks w2 = Some (w', r)"
          "covers (sk_end c + 1) stop tsize cks" by auto
        from Cons.IH [OF this] obtain d s' where
          ds: "forwarded partial True d s' w2 w'" "prefix s' d"
          "r = Inr () \<longrightarrow> s' = d \<and> sk_end c + 1 + length d = max (sk_end c + 1) (Suc stop)"
          "\<forall>content. honest_upstream (le_fetch env) rq content \<and> tsize = length content
             \<longrightarrow> prefix d (slice content (sk_end c + 1) stop)"
          by blast
        have at: "start + length bs = sk_end c + 1" using bs(1) c by simp
        have "prefix (bs @ d) (slice content start stop)"
          if "honest_upstream (le_fetch env) rq content" "tsize = length content" for content
          using slice_append [OF here [OF that]] ds(4) that at by simp
        moreover have "r = Inr () \<longrightarrow> bs @ s' = bs @ d \<and> start + length (bs @ d) = max start (Suc stop)"
          using ds(3) at c by auto
        ultimately show ?thesis using forwarded_trans [OF fw ds(1)] s x ds(2)
          by (intro exI [of _ "bs @ d"] exI [of _ "bs @ s'"]) simp
      qed
    qed
  qed
qed

section \<open>The relay\<close>

lemma relay_transfer_spec:
  assumes "relay_transfer rounds fuel env sl partial current offset response w = Some (w', r)"
    and "sw_end (sl_window sl) \<le> u64_max"
  shows "\<exists>h d s. forwarded partial h d s w w' \<and> (complete_window (sl_window sl) \<longrightarrow> h) \<and> prefix s d
     \<and> (r = Inr () \<longrightarrow> s = d \<and> offset + length d = max offset (Suc (sw_end (sl_window sl))))
     \<and> (\<forall>content. honest_stream env sl content \<and> honest_response sl content offset response
          \<longrightarrow> prefix d (slice content offset (sw_end (sl_window sl))))"
proof (cases "sl_parallel sl = None \<or> sw_end (sl_window sl) < offset")
  case True
  with assms(1) have "relay_rounds rounds fuel env sl partial current offset 0 response w = Some (w', r)"
    by (auto simp: relay_transfer_def split: option.splits if_splits)
  from relay_rounds_spec [OF this] show ?thesis by blast
next
  case False
  then obtain config where cfg: "sl_parallel sl = Some config" by auto
  let ?cks = "stream_chunks (st_chunk_size config) (sw_end (sl_window sl)) (sw_total (sl_window sl)) offset []"
  let ?w = "case response of None \<Rightarrow> w | Some (_, lease) \<Rightarrow> on_fetch (release_lease lease) w"
  have kept: "kept w ?w" by (simp split: option.split)
  from assms(1) cfg False have run: "relay_parallel_chunks fuel env (sl_request sl) (sl_nodes sl) (sl_policy sl) partial
      ?cks ?w = Some (w', r)"
    by (simp add: relay_transfer_def relay_parallel_ranges_def)
  have cov: "covers offset (sw_end (sl_window sl)) (sw_total (sl_window sl)) ?cks"
    using stream_chunks_cover [OF assms(2), of "st_chunk_size config" "sw_total (sl_window sl)" offset "[]"] by auto
  from relay_parallel_chunks_spec [OF run cov] obtain d s where
    ds: "forwarded partial True d s ?w w'" "prefix s d"
      "r = Inr () \<longrightarrow> s = d \<and> offset + length d = max offset (Suc (sw_end (sl_window sl)))"
      "\<forall>content. honest_upstream (le_fetch env) (sl_request sl) content \<and> sw_total (sl_window sl) = length content
         \<longrightarrow> prefix d (slice content offset (sw_end (sl_window sl)))"
    by blast
  have "forwarded partial True d s w w'" by (rule forwarded_from [OF kept ds(1)])
  with ds(2-) show ?thesis unfolding honest_stream_def by blast
qed

lemma concat_read_pieces: "0 < n \<Longrightarrow> concat (read_pieces n bs) = bs"
proof (induction n bs rule: read_pieces.induct)
  case (1 n bs)
  then show ?case by (subst read_pieces.simps) auto
qed

lemma replay_spec:
  "replay env pieces w = (w', r) \<Longrightarrow>
   \<exists>d s. forwarded None True d s w w' \<and> prefix s d \<and> prefix d (concat pieces)
     \<and> (r = Inr () \<longrightarrow> s = d \<and> d = concat pieces)"
proof (induction pieces arbitrary: w)
  case Nil
  then show ?case using forwarded_kept [of w' w] by (intro exI [of _ "[]"]) auto
next
  case (Cons chunk cs)
  obtain w1 q where send: "send_relay_chunk env chunk (hasher_update chunk w) = (w1, q)" by fastforce
  from send_relay_chunk_forwarded [OF send, where partial = None and h = True] obtain s where
    f: "forwarded None True [] s (hasher_update chunk w) w1" and s: "q = Inr () \<longrightarrow> s = chunk" "q \<noteq> Inr () \<longrightarrow> s = []"
    by blast
  have "forwarded None True chunk [] w (hasher_update chunk w)" by (simp add: forwarded_def)
  from forwarded_trans [OF this f] have fw: "forwarded None True chunk s w w1" by simp
  show ?case
  proof (cases q)
    case (Inl e)
    with Cons.prems send have "w' = w1" "r = Inl e" by auto
    with fw s Inl show ?thesis by (intro exI [of _ chunk] exI [of _ s]) auto
  next
    case (Inr u)
    with Cons.prems send have "replay env cs w1 = (w', r)" by simp
    from Cons.IH [OF this] obtain d s' where
      ds: "forwarded None True d s' w1 w'" "prefix s' d" "prefix d (concat cs)" "r = Inr () \<longrightarrow> s' = d \<and> d = concat cs"
      by blast
    with forwarded_trans [OF fw ds(1)] s Inr show ?thesis
      by (intro exI [of _ "chunk @ d"] exI [of _ "chunk @ s'"]) auto
  qed
qed

text \<open>The replay of the saved file: it is hashed and sent as a whole, then the stream resumes behind it.\<close>

lemma replay_partial_spec:
  assumes "replay_partial fuel env sl saved w = Some (w', r)" and "sw_start (sl_window sl) = 0"
  shows "\<exists>d s. forwarded None True d s w w' \<and> prefix s d \<and> prefix d saved
     \<and> (\<forall>current offset response. r = Inr (current, offset, response) \<longrightarrow>
          s = saved \<and> d = saved \<and> offset = length saved
          \<and> (\<forall>content. honest_stream env sl content \<longrightarrow> honest_response sl content offset response))"
proof -
  let ?w = "on_fetch (release_lease (sl_node_lease sl)) w"
  obtain w1 q where rep: "replay env (read_pieces STREAM_READ_BYTES saved) ?w = (w1, q)" by fastforce
  from replay_spec [OF rep] obtain d s where
    f: "forwarded None True d s ?w w1" and ds: "prefix s d" "prefix d saved" "q = Inr () \<longrightarrow> s = d \<and> d = saved"
    by (auto simp: concat_read_pieces STREAM_READ_BYTES_def)
  have fw: "forwarded None True d s w w1" by (rule forwarded_from [OF _ f]) simp
  show ?thesis
  proof (cases q)
    case (Inl e)
    with assms(1) rep have "w' = w1" "r = Inl e" by (auto simp: replay_partial_def)
    with fw ds show ?thesis by (intro exI [of _ d] exI [of _ s]) simp
  next
    case q: (Inr u)
    show ?thesis
    proof (cases "sw_end (sl_window sl) < length saved")
      case True
      with assms rep q have "w' = w1" "r = Inr (sl_current_node sl, length saved, None)"
        by (auto simp: replay_partial_def Let_def)
      with fw ds q show ?thesis by (intro exI [of _ d] exI [of _ s]) (auto simp: honest_response_def)
    next
      case False
      let ?rr = "resume_request_of sl (sl_current_node sl) (length saved)"
      obtain w2 x where res: "resume_stream_response fuel env ?rr (sl_policy sl) (on_fetch record_resume w1) = Some (w2, x)"
        and w': "w' = w2" and r: "r = (case x of Inl e \<Rightarrow> Inl e | Inr (n, a, l) \<Rightarrow> Inr (n, length saved, Some (a, l)))"
        using assms rep q False by (auto simp: replay_partial_def Let_def split: option.splits sum.splits)
      have "forwarded None True d s w w'"
        by (rule forwarded_to [OF fw]) (use resume_spec [OF res] w' in simp)
      moreover have "honest_response sl content (length saved) (Some (a, l))"
        if "x = Inr (n, a, l)" "honest_stream env sl content" for n a l content
        using resume_spec [OF res] that resumed_honest by blast
      ultimately show ?thesis using ds q r
        by (intro exI [of _ d] exI [of _ s]) (auto split: sum.splits prod.splits)
    qed
  qed
qed

text \<open>
  The bytes of the relay, up to the flush: \<open>d\<close> is what was hashed and is in the partial file, \<open>s\<close> what was
  sent.
\<close>

lemma complete_window_simps:
  "complete_window win \<Longrightarrow> sw_start win = 0 \<and> sw_total win = Suc (sw_end win) \<and> sw_end win \<le> u64_max"
  by (auto simp: complete_window_def u64_checked_add_def split: if_splits)

lemma open_append_fields [simp]:
  "fw_cache (rw_fetch (open_append p w)) = fw_cache (rw_fetch w)" "rw_sent (open_append p w) = rw_sent w"
  "rw_hashed (open_append p w) = rw_hashed w"
  "fw_files (rw_fetch (open_append (Some q) w)) =
     (fw_files (rw_fetch w))(q \<mapsto> (case fw_files (rw_fetch w) q of None \<Rightarrow> [] | Some c \<Rightarrow> c))"
  by (simp_all add: open_append_def split: option.split)

lemma slice_full: "slice content 0 b = take (Suc b) content"
  by (simp add: slice_def)

lemma relay_bytes_complete:
  assumes "relay_bytes rounds fuel env sl w = Some (w', r)" and "complete_window (sl_window sl)" and "rw_hashed w = []"
  shows "\<exists>d s. fw_cache (rw_fetch w') = fw_cache (rw_fetch w) \<and> concat (rw_sent w') = concat (rw_sent w) @ s \<and> prefix s d
     \<and> (r = Inr () \<longrightarrow> s = d \<and> length d = sw_total (sl_window sl) \<and> rw_hashed w' = d
          \<and> fw_files (rw_fetch w') (Partial_Object (sl_key sl)) = Some d)
     \<and> (\<forall>content. honest_stream env sl content
          \<and> honest_response sl content 0 (Some (sl_response sl, sl_node_lease sl))
          \<and> (\<forall>f. fw_files (rw_fetch w) (Partial_Object (sl_key sl)) = Some f \<longrightarrow> prefix f content)
          \<longrightarrow> prefix d content)"
proof -
  let ?p = "Partial_Object (sl_key sl)" and ?win = "sl_window sl"
  note win = complete_window_simps [OF assms(2)]
  obtain w0 saved where sp: "saved_partial sl w = (w0, saved)" by fastforce
  have w0: "fw_cache (rw_fetch w0) = fw_cache (rw_fetch w)" "rw_sent w0 = rw_sent w" "rw_hashed w0 = []"
    "(case fw_files (rw_fetch w0) ?p of None \<Rightarrow> [] | Some c \<Rightarrow> c) = saved" "length saved \<le> sw_total ?win"
    "saved \<noteq> [] \<Longrightarrow> fw_files (rw_fetch w) ?p = Some saved"
    using sp assms(3) by (auto simp: saved_partial_def split: option.splits if_splits)
  have transfer: ?thesis
    if run: "relay_transfer rounds fuel env sl (Some ?p) current (length saved) response (open_append (Some ?p) w1) = Some (w', r)"
      and w1: "forwarded None True saved saved w0 w1"
      and hon: "\<And>content. honest_stream env sl content
          \<Longrightarrow> honest_response sl content 0 (Some (sl_response sl, sl_node_lease sl))
          \<Longrightarrow> honest_response sl content (length saved) response"
    for current response w1
  proof -
    from relay_transfer_spec [OF run] win obtain h d s where
      f: "forwarded (Some ?p) h d s (open_append (Some ?p) w1) w'" and h: "complete_window ?win \<longrightarrow> h" and pre: "prefix s d"
      and ok: "r = Inr () \<longrightarrow> s = d \<and> length saved + length d = max (length saved) (Suc (sw_end ?win))"
      and pd: "\<forall>content. honest_stream env sl content \<and> honest_response sl content (length saved) response
        \<longrightarrow> prefix d (slice content (length saved) (sw_end ?win))"
      by blast
    have "fw_files (rw_fetch w') ?p = Some (saved @ d)"
      using f w1 w0(4) by (auto simp: forwarded_def split: option.splits)
    moreover have "rw_hashed w' = saved @ d" "concat (rw_sent w') = concat (rw_sent w) @ saved @ s"
      "fw_cache (rw_fetch w') = fw_cache (rw_fetch w)"
      using f w1 w0 h assms(2) by (auto simp: forwarded_def)
    moreover have "prefix (saved @ d) content"
      if c: "honest_stream env sl content" "honest_response sl content 0 (Some (sl_response sl, sl_node_lease sl))"
        "\<forall>f. fw_files (rw_fetch w) ?p = Some f \<longrightarrow> prefix f content" for content
    proof -
      have total: "Suc (sw_end ?win) = length content" using c(1) win by (simp add: honest_stream_def)
      have "prefix saved (slice content 0 (sw_end ?win))"
        using c(3) w0(6) total by (cases "saved = []") (auto simp: slice_full)
      moreover have "prefix d (slice content (0 + length saved) (sw_end ?win))" using pd hon [OF c(1,2)] c(1) by simp
      ultimately show ?thesis using slice_append total by (fastforce simp: slice_full)
    qed
    ultimately show ?thesis using pre ok w0(5) win by (intro exI [of _ "saved @ d"] exI [of _ "saved @ s"]) auto
  qed
  show ?thesis
  proof (cases "saved = []")
    case True
    with assms(1,2) sp win have run: "relay_transfer rounds fuel env sl (Some ?p) (sl_current_node sl) (length saved)
        (Some (sl_response sl, sl_node_lease sl)) (open_append (Some ?p) w0) = Some (w', r)"
      by (simp add: relay_bytes_def Let_def)
    show ?thesis by (rule transfer [OF run]) (use True in \<open>simp_all add: forwarded_kept\<close>)
  next
    case False
    obtain w1 q where rp: "replay_partial fuel env sl saved w0 = Some (w1, q)"
      using assms(1,2) sp False by (auto simp: relay_bytes_def Let_def split: option.splits)
    from replay_partial_spec [OF rp conjunct1 [OF win]] obtain d s where
      ds: "forwarded None True d s w0 w1" "prefix s d" "prefix d saved"
      "\<forall>current offset response. q = Inr (current, offset, response) \<longrightarrow>
          s = saved \<and> d = saved \<and> offset = length saved
          \<and> (\<forall>content. honest_stream env sl content \<longrightarrow> honest_response sl content offset response)"
      by blast
    show ?thesis
    proof (cases q)
      case (Inl e)
      with assms(1,2) sp False rp have "w' = w1" "r = Inl e" by (auto simp: relay_bytes_def Let_def)
      moreover have "prefix d content" if "\<forall>f. fw_files (rw_fetch w) ?p = Some f \<longrightarrow> prefix f content" for content
        using that w0(6) [OF False] ds(3) by (blast intro: prefix_order.trans)
      ultimately show ?thesis using ds w0 by (intro exI [of _ d] exI [of _ s]) (auto simp: forwarded_def)
    next
      case (Inr x)
      obtain current offset response where x: "q = Inr (current, offset, response)" by (cases x) (use Inr in auto)
      with assms(1,2) sp False rp ds(4) have run: "relay_transfer rounds fuel env sl (Some ?p) current (length saved) response
          (open_append (Some ?p) w1) = Some (w', r)"
        by (auto simp: relay_bytes_def Let_def)
      show ?thesis by (rule transfer [OF run]) (use ds(1,4) x in auto)
    qed
  qed
qed

lemma relay_bytes_range:
  assumes "relay_bytes rounds fuel env sl w = Some (w', r)" and "\<not> complete_window (sl_window sl)"
    and "sw_end (sl_window sl) \<le> u64_max"
  shows "\<exists>d s. fw_cache (rw_fetch w') = fw_cache (rw_fetch w) \<and> concat (rw_sent w') = concat (rw_sent w) @ s \<and> prefix s d
     \<and> (r = Inr () \<longrightarrow> s = d
          \<and> sw_start (sl_window sl) + length d = max (sw_start (sl_window sl)) (Suc (sw_end (sl_window sl))))
     \<and> (\<forall>content. honest_stream env sl content
          \<and> honest_response sl content (sw_start (sl_window sl)) (Some (sl_response sl, sl_node_lease sl))
          \<longrightarrow> prefix d (slice content (sw_start (sl_window sl)) (sw_end (sl_window sl))))"
proof -
  from assms(1,2) have "relay_transfer rounds fuel env sl None (sl_current_node sl) (sw_start (sl_window sl))
      (Some (sl_response sl, sl_node_lease sl)) w = Some (w', r)"
    by (simp add: relay_bytes_def)
  from relay_transfer_spec [OF this assms(3)] show ?thesis unfolding forwarded_def by blast
qed

lemma finish_relay_fields:
  "finish_relay env sl w = (w', r) \<Longrightarrow> rw_sent w' = rw_sent w"
  by (auto simp: finish_relay_def admit_stream_def Let_def split: if_splits option.splits prod.splits sum.splits)

lemma finish_relay_ok:
  assumes "finish_relay env sl w = (w', Inr ())" and "complete_window (sl_window sl)"
    and "rw_hashed w = c" and "fw_files (rw_fetch w) (Partial_Object (sl_key sl)) = Some c"
  shows "\<exists>obj. admit (fe_ln_1p (le_fetch env)) (sl_key sl) c (sl_media_type sl) (sl_expected_digest sl)
       (fe_utc (le_fetch env) (fw_tick (rw_fetch w))) (fw_cache (rw_fetch w)) = (fw_cache (rw_fetch w'), Inr obj)
     \<and> (\<forall>digest. sl_expected_digest sl = Some digest \<longrightarrow> digest = ''sha256:'' @ fe_sha256_hex (le_fetch env) c)"
  using assms
  by (auto simp: finish_relay_def admit_stream_def Let_def split: if_splits option.splits prod.splits sum.splits)

lemma finish_relay_failed:
  assumes "finish_relay env sl w = (w', Inl e)"
  shows "ca_objects (fw_cache (rw_fetch w')) \<subseteq>\<^sub>m ca_objects (fw_cache (rw_fetch w))"
  using assms admit_err_objects_le
  by (auto simp: finish_relay_def admit_stream_def Let_def split: if_splits option.splits prod.splits sum.splits)

lemma cache_unlock_objects [simp]:
  "ca_objects (fw_cache (with_cache (cache_unlock key) f)) = ca_objects (fw_cache f)"
  by (simp add: with_cache_def cache_unlock_def)

lemma relay_stream_blob_cases:
  assumes "relay_stream_blob rounds fuel env sl w = Some (w', r)"
  obtains (gone) "r = Inl stream_disconnected" "rw_sent w' = rw_sent w"
      "ca_objects (fw_cache (rw_fetch w')) = ca_objects (fw_cache (rw_fetch w))"
  | (stopped) w1 e where "relay_bytes rounds fuel env sl ((await w)\<lparr>rw_hashed := []\<rparr>) = Some (w1, Inl e)" "r = Inl e"
      "rw_sent w' = rw_sent w1" "ca_objects (fw_cache (rw_fetch w')) = ca_objects (fw_cache (rw_fetch w1))"
  | (finished) w1 w2 where "relay_bytes rounds fuel env sl ((await w)\<lparr>rw_hashed := []\<rparr>) = Some (w1, Inr ())"
      "finish_relay env sl w1 = (w2, r)" "rw_sent w' = rw_sent w2"
      "ca_objects (fw_cache (rw_fetch w')) = ca_objects (fw_cache (rw_fetch w2))"
proof (cases "le_closed env (rw_clock w)")
  case True
  with assms show thesis by (intro gone) (auto simp: relay_stream_blob_def)
next
  case False
  with assms obtain w2 where inner: "relay_stream_blob_inner rounds fuel env sl (await w) = Some (w2, r)"
    and w': "w' = on_fetch (with_cache (cache_unlock (sl_key sl))) w2"
    by (auto simp: relay_stream_blob_def)
  from inner obtain w1 q where bytes: "relay_bytes rounds fuel env sl ((await w)\<lparr>rw_hashed := []\<rparr>) = Some (w1, q)"
    by (auto simp: relay_stream_blob_inner_def split: option.splits)
  show thesis
  proof (cases q)
    case (Inl e)
    with inner bytes w' show thesis by (intro stopped [of w1 e]) (auto simp: relay_stream_blob_inner_def)
  next
    case (Inr u)
    with inner bytes w' show thesis by (intro finished [of w1 w2]) (auto simp: relay_stream_blob_inner_def)
  qed
qed

lemma relay_verified:
  assumes "relay_stream_blob rounds fuel env sl w = Some (w', Inr ())" and "complete_window (sl_window sl)"
    and "sl_expected_digest sl = Some digest"
  shows "\<exists>content path. concat (rw_sent w') = concat (rw_sent w) @ content
     \<and> digest = ''sha256:'' @ fe_sha256_hex (le_fetch env) content
     \<and> length content = sw_total (sl_window sl)
     \<and> ca_objects (fw_cache (rw_fetch w')) path = Some content
     \<and> relay_body (rw_sent w') (Inr ()) = map Inr (rw_sent w')"
  using assms(1)
proof (cases rule: relay_stream_blob_cases)
  case (finished w1 w2)
  from relay_bytes_complete [OF finished(1) assms(2)] obtain c where
    c: "concat (rw_sent w1) = concat (rw_sent w) @ c" "length c = sw_total (sl_window sl)" "rw_hashed w1 = c"
      "fw_files (rw_fetch w1) (Partial_Object (sl_key sl)) = Some c"
    by auto
  from finish_relay_ok [OF finished(2) assms(2) c(3,4)] obtain obj where
    "admit (fe_ln_1p (le_fetch env)) (sl_key sl) c (sl_media_type sl) (sl_expected_digest sl)
       (fe_utc (le_fetch env) (fw_tick (rw_fetch w1))) (fw_cache (rw_fetch w1)) = (fw_cache (rw_fetch w2), Inr obj)"
    "digest = ''sha256:'' @ fe_sha256_hex (le_fetch env) c"
    using assms(3) by auto
  with c(1,2) finished(3,4) finish_relay_fields [OF finished(2)] admit_stores(1) show ?thesis
    by (intro exI [of _ c] exI [of _ "co_path obj"]) (simp add: relay_body_def)
qed auto

section \<open>Properties\<close>

text \<open>
  C5: A Blob that is relayed to its end is exactly what was verified and cached: when the relay of a complete
  window succeeds, the bytes queued for the client are the whole Blob, their SHA-256 is the expected digest,
  their number is the announced length, the body ends without an error, and the same bytes are the object in
  the cache; whatever the upstream nodes answered, however often the stream was resumed, and whatever partial
  file an earlier relay had left.
\<close>

theorem relayed_blob_verified:
  assumes "relay_stream_blob rounds fuel env sl w = Some (w', Inr ())" and "complete_window (sl_window sl)"
    and "sl_expected_digest sl = Some digest"
  shows "\<exists>content path. concat (rw_sent w') = concat (rw_sent w) @ content
     \<and> digest = ''sha256:'' @ fe_sha256_hex (le_fetch env) content
     \<and> length content = sw_total (sl_window sl)
     \<and> ca_objects (fw_cache (rw_fetch w')) path = Some content
     \<and> relay_body (rw_sent w') (Inr ()) = map Inr (rw_sent w')"
  using assms by (rule relay_verified)

definition example_relay_env :: "(nat \<Rightarrow> bool) \<Rightarrow> nat relay_env" where
  "example_relay_env gone =
     \<lparr>le_fetch = example_env, le_bounded = id, le_until_date = (\<lambda>_ _. None), le_closed = gone, le_stopped = (\<lambda>_. False),
      le_timeout = (\<lambda>_. False), le_non_network_wait = (\<lambda>_. 0), le_next_backoff = (\<lambda>_. None), le_sleep = (\<lambda>_ _ c. c),
      le_failures = (\<lambda>_. {})\<rparr>"

definition example_relay :: stream_relay where
  "example_relay =
     \<lparr>sl_nodes = [example_node_view 1 ''a''], sl_current_node = 0,
      sl_response = \<lparr>re_status = 200, re_headers = [], re_content_length = Some 3, re_body = [Inr [1], Inr [], Inr [2, 3]]\<rparr>,
      sl_node_lease = \<lparr>nl_node_id = 1\<rparr>, sl_request = example_request,
      sl_window = \<lparr>sw_start = 0, sw_end = 2, sw_total = 3\<rparr>, sl_key = ''k'', sl_media_type = ''m'',
      sl_expected_digest = Some (''sha256:'' @ replicate 64 CHR ''a''), sl_parallel = None, sl_policy = Balanced\<rparr>"

definition example_relay_world :: "nat relay_world" where
  "example_relay_world =
     \<lparr>rw_fetch = example_world, rw_clock = 0, rw_sent = [], rw_hashed = [], rw_range_failures = {}, rw_upstream_bytes = 0,
      rw_observations = []\<rparr>"

lemmas example_relay_defs = example_relay_env_def example_relay_def example_relay_world_def

lemma example_relay_bytes:
  "\<exists>w1. relay_bytes 1 1 (example_relay_env (\<lambda>_. False)) example_relay ((await example_relay_world)\<lparr>rw_hashed := []\<rparr>)
      = Some (w1, Inr ())
     \<and> rw_hashed w1 = [1, 2, 3] \<and> fw_files (rw_fetch w1) (Partial_Object ''k'') = Some [1, 2, 3]
     \<and> fw_cache (rw_fetch w1) = example_cache"
  by (simp add: relay_bytes_def relay_transfer_def saved_partial_def complete_window_def u64_arith example_relay_defs
      send_relay_chunk_def write_all_def remaining_window_bytes_def await_def on_fetch_def hasher_update_def
      record_upstream_bytes_def open_append_def settle_response_def record_observation_def observe_node_def
      release_lease_def example_world_def Let_def)

theorem relayed_blob_verified_witness:
  "\<exists>w' content path. relay_stream_blob 1 1 (example_relay_env (\<lambda>_. False)) example_relay example_relay_world = Some (w', Inr ())
     \<and> concat (rw_sent w') = content \<and> length content = 3 \<and> ca_objects (fw_cache (rw_fetch w')) path = Some content"
proof -
  let ?env = "example_relay_env (\<lambda>_. False)"
  obtain w1 where w1: "relay_bytes 1 1 ?env example_relay ((await example_relay_world)\<lparr>rw_hashed := []\<rparr>) = Some (w1, Inr ())"
    "rw_hashed w1 = [1, 2, 3]" "fw_files (rw_fetch w1) (Partial_Object ''k'') = Some [1, 2, 3]"
    "fw_cache (rw_fetch w1) = example_cache"
    using example_relay_bytes by blast
  obtain t obj where "admit id ''k'' [1, 2, 3] ''m'' (Some (''sha256:'' @ replicate 64 CHR ''a'')) 5 example_cache = (t, Inr obj)"
    using example_admit [of "''k''" "''m''" "Some (''sha256:'' @ replicate 64 CHR ''a'')" "{}"]
    by (auto simp: example_cache_def)
  with w1 have "\<exists>w2. finish_relay ?env example_relay w1 = (w2, Inr ())"
    by (simp add: finish_relay_def admit_stream_def complete_window_def u64_arith example_relay_defs example_env_def Let_def)
  with w1(1) have "\<exists>w'. relay_stream_blob 1 1 ?env example_relay example_relay_world = Some (w', Inr ())"
    by (auto simp: relay_stream_blob_def relay_stream_blob_inner_def example_relay_env_def)
  then obtain w' where ok: "relay_stream_blob 1 1 ?env example_relay example_relay_world = Some (w', Inr ())" by blast
  have "complete_window (sl_window example_relay)"
    by (simp add: complete_window_def u64_arith example_relay_def)
  moreover have "sl_expected_digest example_relay = Some (''sha256:'' @ replicate 64 CHR ''a'')"
    by (simp add: example_relay_def)
  ultimately show ?thesis using relayed_blob_verified [OF ok] ok
    by (simp add: example_relay_world_def) (fastforce simp: example_relay_def)
qed

text \<open>
  C7: The stream is spliced without a gap or an overlap: when the nodes are honest about the content of the
  Blob, that is, deliver its bytes whenever they answer a range with a matching range, the client receives a
  prefix of the window it asked for, through any number of interruptions, replays of a partial file,
  resumptions from other nodes and parallel ranges; and the whole window when the relay succeeds.
\<close>

theorem relay_splices_window:
  assumes "relay_stream_blob rounds fuel env sl w = Some (w', r)" and "sw_end (sl_window sl) \<le> u64_max"
    and "honest_stream env sl content"
    and "honest_response sl content (sw_start (sl_window sl)) (Some (sl_response sl, sl_node_lease sl))"
    and "\<forall>f. fw_files (rw_fetch w) (Partial_Object (sl_key sl)) = Some f \<longrightarrow> prefix f content"
  shows "\<exists>s. concat (rw_sent w') = concat (rw_sent w) @ s
     \<and> prefix s (slice content (sw_start (sl_window sl)) (sw_end (sl_window sl)))
     \<and> (r = Inr () \<longrightarrow> s = slice content (sw_start (sl_window sl)) (sw_end (sl_window sl)))"
proof -
  let ?win = "sl_window sl" and ?slice = "slice content (sw_start (sl_window sl)) (sw_end (sl_window sl))"
  have len: "length ?slice = Suc (sw_end ?win) - sw_start ?win"
    using assms(3) by (auto simp: honest_stream_def slice_def)
  have bytes: "\<exists>s. concat (rw_sent w1) = concat (rw_sent w) @ s \<and> prefix s ?slice \<and> (q = Inr () \<longrightarrow> s = ?slice)"
    if run: "relay_bytes rounds fuel env sl ((await w)\<lparr>rw_hashed := []\<rparr>) = Some (w1, q)" for w1 q
  proof -
    obtain d s where ds: "concat (rw_sent w1) = concat (rw_sent w) @ s" "prefix s d" "prefix d ?slice"
      "q = Inr () \<longrightarrow> s = d \<and> sw_start ?win + length d = max (sw_start ?win) (Suc (sw_end ?win))"
    proof (cases "complete_window ?win")
      case True
      note win = complete_window_simps [OF True]
      with assms(3) have "?slice = content" by (simp add: slice_full honest_stream_def)
      with that relay_bytes_complete [OF run True] win assms(3-5) show thesis by fastforce
    next
      case False
      with that relay_bytes_range [OF run False assms(2)] assms(3,4) show thesis by fastforce
    qed
    have "d = ?slice" if "q = Inr ()"
      using ds(3,4) that len by (intro prefix_length_eq_full) auto
    with ds show ?thesis by (auto intro: prefix_order.trans)
  qed
  from assms(1) show ?thesis
  proof (cases rule: relay_stream_blob_cases)
    case (finished w1 w2)
    with bytes [OF finished(1)] finish_relay_fields [OF finished(2)] show ?thesis by auto
  qed (use bytes in auto)
qed

theorem relay_splices_window_witness:
  "\<exists>w'. relay_stream_blob 1 1 (example_relay_env (\<lambda>n. n = 4)) example_relay example_relay_world
       = Some (w', Inl stream_disconnected)
     \<and> prefix (concat (rw_sent w')) [1, 2, 3]"
proof -
  let ?env = "example_relay_env (\<lambda>n. n = 4)"
  have "\<exists>w'. relay_stream_blob 1 1 ?env example_relay example_relay_world = Some (w', Inl stream_disconnected)"
    by (simp add: relay_stream_blob_def relay_stream_blob_inner_def relay_bytes_def relay_transfer_def saved_partial_def
        complete_window_def u64_arith example_relay_defs send_relay_chunk_def write_all_def remaining_window_bytes_def
        await_def on_fetch_def hasher_update_def record_upstream_bytes_def open_append_def example_world_def Let_def)
  then obtain w' where run: "relay_stream_blob 1 1 ?env example_relay example_relay_world = Some (w', Inl stream_disconnected)"
    by blast
  have up: "honest_upstream example_env example_request content" for content
    by (simp add: honest_upstream_def example_env_def example_send_def)
  have "honest_stream ?env example_relay [1, 2, 3]"
    using up by (simp add: honest_stream_def example_relay_defs)
  moreover have "honest_response example_relay [1, 2, 3] (sw_start (sl_window example_relay))
      (Some (sl_response example_relay, sl_node_lease example_relay))"
    by (simp add: honest_response_def example_relay_def slice_def)
  moreover have "\<forall>f. fw_files (rw_fetch example_relay_world) (Partial_Object (sl_key example_relay)) = Some f \<longrightarrow> prefix f [1, 2, 3]"
    by (simp add: example_relay_world_def example_world_def)
  moreover have "sw_end (sl_window example_relay) \<le> u64_max" by (simp add: example_relay_def u64_max_def)
  ultimately have "\<exists>s. concat (rw_sent w') = concat (rw_sent example_relay_world) @ s \<and> prefix s (slice [1, 2, 3] 0 2)"
    using relay_splices_window [OF run] by (auto simp: example_relay_def)
  with run show ?thesis by (simp add: slice_def example_relay_world_def)
qed

text \<open>A relay that fails leaves nothing behind in the cache.\<close>

lemma failed_relay_adds_nothing:
  assumes "relay_stream_blob rounds fuel env sl w = Some (w', Inl e)" and "sw_end (sl_window sl) \<le> u64_max"
  shows "ca_objects (fw_cache (rw_fetch w')) \<subseteq>\<^sub>m ca_objects (fw_cache (rw_fetch w))"
proof -
  have bytes: "fw_cache (rw_fetch w1) = fw_cache (rw_fetch w)"
    if run: "relay_bytes rounds fuel env sl ((await w)\<lparr>rw_hashed := []\<rparr>) = Some (w1, q)" for w1 q
    using relay_bytes_complete [OF run] relay_bytes_range [OF run _ assms(2)]
    by (cases "complete_window (sl_window sl)") auto
  from assms(1) show ?thesis
  proof (cases rule: relay_stream_blob_cases)
    case (finished w1 w2)
    with finish_relay_failed bytes show ?thesis by metis
  qed (use bytes in auto)
qed

text \<open>
  The number of responses a relay uses is bounded by its window: every response either delivers a byte, or is
  one of at most four in a row that do not. With that many rounds the outer loop always returns, as soon as
  every resumption returns.
\<close>

lemma relay_rounds_return:
  assumes "\<And>rr w. resume_stream_response fuel env rr (sl_policy sl) w \<noteq> None"
    and "4 * (Suc (sw_end (sl_window sl)) - offset) + (MAX_STALLED_RESPONSES - stalled) < rounds"
    and "stalled < MAX_STALLED_RESPONSES"
  shows "relay_rounds rounds fuel env sl partial current offset stalled response w \<noteq> None"
  using assms(2-)
proof (induction rounds arbitrary: current offset stalled response w)
  case (Suc rounds)
  let ?win = "sl_window sl"
  show ?case
  proof (cases "sw_end ?win < offset \<or> response = None")
    case True
    then show ?thesis by auto
  next
    case False
    then obtain a lease where response: "response = Some (a, lease)" and inside: "offset \<le> sw_end ?win" by auto
    obtain w1 sp q where frames: "relay_frames env ?win partial (le_bounded env (re_body a))
        \<lparr>sp_offset = offset, sp_transferred = 0, sp_stalled_responses = stalled\<rparr> w = (w1, sp, q)"
      by (metis prod_cases3)
    show ?thesis
    proof (cases q)
      case (Inl e)
      with frames response inside show ?thesis by simp
    next
      case q: (Inr u)
      let ?st = "if sp_transferred sp = 0 then sp_stalled_responses sp + 1 else sp_stalled_responses sp"
      let ?sp = "\<lparr>sp_offset = offset, sp_transferred = 0, sp_stalled_responses = stalled\<rparr>"
      from relay_frames_spec [OF frames] obtain d :: bytes where
        "sp_offset sp = sp_offset ?sp + length d"
        "q = Inr () \<longrightarrow> sp_transferred sp = sp_transferred ?sp + length d
           \<and> sp_stalled_responses sp = (if d = [] then sp_stalled_responses ?sp else 0)"
        by blast
      with q have d: "sp_offset sp = offset + length d" "sp_transferred sp = length d"
        "sp_stalled_responses sp = (if d = [] then stalled else 0)" by simp_all
      show ?thesis
      proof (cases "sw_end ?win < sp_offset sp \<or> sp_transferred sp = 0 \<and> MAX_STALLED_RESPONSES \<le> ?st")
        case True
        with frames response inside q show ?thesis by (auto simp: Let_def)
      next
        case go: False
        have st: "?st < MAX_STALLED_RESPONSES" using go d by (auto simp: MAX_STALLED_RESPONSES_def split: if_splits)
        have "4 * (Suc (sw_end ?win) - sp_offset sp) + (MAX_STALLED_RESPONSES - ?st) < rounds"
          using Suc.prems go d inside by (cases d) (auto simp: MAX_STALLED_RESPONSES_def)
        note next_round = Suc.IH [OF this st]
        let ?w3 = "on_fetch (record_resume \<circ> record_retry)
          (settle_response env (nd_id (nv_node (sl_nodes sl ! current))) lease (sp_transferred sp)
             (sw_end ?win < sp_offset sp) w1)"
        obtain w4 x where "resume_stream_response fuel env (resume_request_of sl current (sp_offset sp)) (sl_policy sl) ?w3
            = Some (w4, x)"
          using assms(1) by (metis not_None_eq surj_pair)
        with frames response inside q go next_round show ?thesis
          by (cases x) (auto simp: Let_def)
      qed
    qed
  qed
qed simp

section \<open>A body of unknown length\<close>

lemma unknown_frames_spec:
  assumes "unknown_frames env p frames n w = (w', n', stop)"
  shows "\<exists>d s. forwarded (Some p) True d s w w' \<and> prefix s d \<and> (stop = None \<longrightarrow> s = d)"
  using assms
proof (induction frames arbitrary: n w)
  case Nil
  then have "kept w w'" by auto
  from forwarded_kept [OF this] show ?case by (intro exI [of _ "[]"]) auto
next
  case (Cons frame frames)
  have idle: ?case if "kept w w'" using forwarded_kept [OF that] by (intro exI [of _ "[]"]) auto
  show ?case
  proof (cases "le_closed env (rw_clock w) \<or> le_timeout env (rw_clock w) \<or> (\<exists>e. frame = Inl e)")
    case True
    with Cons.prems show ?thesis by (intro idle) (auto split: if_splits sum.splits)
  next
    case False
    then obtain chunk where frame: "frame = Inr chunk" by (cases frame) auto
    show ?thesis
    proof (cases "chunk = []")
      case True
      with Cons.prems False frame have "unknown_frames env p frames n (await w) = (w', n', stop)" by simp
      from Cons.IH [OF this] show ?thesis using forwarded_from [of "await w" w] by fastforce
    next
      case chunk: False
      let ?w1 = "record_upstream_bytes (length chunk) (await w)"
      obtain w2 x where send: "send_relay_chunk env chunk (write_all (Some p) chunk (if True then hasher_update chunk ?w1 else ?w1))
          = (w2, x)" by fastforce
      from write_send_forwarded [OF send chunk] obtain s where f: "forwarded (Some p) True chunk s ?w1 w2"
        and s: "prefix s chunk" "x = Inr () \<longrightarrow> s = chunk" by blast
      have fw: "forwarded (Some p) True chunk s w w2" by (rule forwarded_from [OF _ f]) simp
      show ?thesis
      proof (cases x)
        case (Inl e)
        with Cons.prems False frame chunk send have "w' = w2" "stop \<noteq> None"
          by (auto simp: Let_def record_upstream_hash)
        with fw s show ?thesis by (intro exI [of _ chunk] exI [of _ s]) auto
      next
        case (Inr u)
        with Cons.prems False frame chunk send obtain m where "unknown_frames env p frames m w2 = (w', n', stop)"
          by (auto simp: Let_def record_upstream_hash)
        from Cons.IH [OF this] obtain d s' where
          ds: "forwarded (Some p) True d s' w2 w'" "prefix s' d" "stop = None \<longrightarrow> s' = d" by blast
        with forwarded_trans [OF fw ds(1)] s Inr show ?thesis
          by (intro exI [of _ "chunk @ d"] exI [of _ "chunk @ s'"]) auto
      qed
    qed
  qed
qed

lemma unknown_settle_fields [simp]:
  "rw_sent (unknown_settle env ub n outcome r w) = rw_sent w"
  "fw_cache (rw_fetch (unknown_settle env ub n outcome r w)) = fw_cache (rw_fetch w)"
  by (simp_all add: unknown_settle_def Let_def split: option.split)

text \<open>The same for a body without an announced length: what is relayed to its end is verified and cached.\<close>

lemma unknown_blob_verified:
  assumes "relay_unknown_blob env ub w = (w', Inr ())" and "ub_expected_digest ub = Some digest"
  shows "\<exists>content path. concat (rw_sent w') = concat (rw_sent w) @ content
     \<and> digest = ''sha256:'' @ fe_sha256_hex (le_fetch env) content
     \<and> ca_objects (fw_cache (rw_fetch w')) path = Some content"
proof -
  let ?p = "Partial_Object (ub_key ub)"
  let ?w0 = "on_fetch (\<lambda>f. f\<lparr>fw_files := (fw_files f)(?p \<mapsto> [])\<rparr>) ((await w)\<lparr>rw_hashed := []\<rparr>)"
  obtain w1 n stop where frames: "unknown_frames env ?p (le_bounded env (re_body (ub_response ub))) 0 ?w0 = (w1, n, stop)"
    by (rule prod_cases3)
  from assms(1) frames have stop: "stop = None"
    by (auto simp: relay_unknown_blob_def relay_unknown_blob_inner_def Let_def split: if_splits option.splits relay_stop.splits)
  obtain w2 outcome r where ad: "unknown_admit env ub w1 = (w2, outcome, r)" by (rule prod_cases3)
  from assms(1) frames stop ad have r: "r = Inr ()" "rw_sent w' = rw_sent w2"
    "ca_objects (fw_cache (rw_fetch w')) = ca_objects (fw_cache (rw_fetch w2))"
    by (auto simp: relay_unknown_blob_def relay_unknown_blob_inner_def Let_def split: if_splits)
  from unknown_frames_spec [OF frames] stop obtain d where
    f: "forwarded (Some ?p) True d d ?w0 w1" by blast
  then have d: "rw_hashed w1 = d" "fw_files (rw_fetch w1) ?p = Some d" "concat (rw_sent w1) = concat (rw_sent w) @ d"
    by (auto simp: forwarded_def)
  let ?admit = "admit (fe_ln_1p (le_fetch env)) (ub_key ub) d (ub_media_type ub) (Some digest)
    (fe_utc (le_fetch env) (fw_tick (rw_fetch w1))) (fw_cache (rw_fetch w1))"
  obtain cache q where adm: "?admit = (cache, q)" by fastforce
  have dig: "digest = ''sha256:'' @ fe_sha256_hex (le_fetch env) d"
    by (rule ccontr) (use ad r(1) assms(2) d(1) in \<open>simp add: unknown_admit_def Let_def\<close>)
  with ad r(1) assms(2) d(1,2) adm obtain obj where
    "?admit = (fw_cache (rw_fetch w2), Inr obj)" "rw_sent w2 = rw_sent w1"
    by (cases q) (auto simp: unknown_admit_def Let_def)
  with d(3) dig r(2,3) admit_stores(1) show ?thesis
    by (intro exI [of _ d] exI [of _ "co_path obj"]) simp
qed

end
