(* ===== verification/Transfer_Metrics.thy ===== *)
theory Transfer_Metrics
  imports Node_Selection
begin

text \<open>
  \<^verbatim>\<open>src/src/transfer_metrics.rs\<close> and \<^verbatim>\<open>src/src/traffic.rs\<close>: the lifetime and windowed counters and latency
  histograms of the transfers, and the request and byte counts with the sampled rate. The atomic counters of
  \<open>Counters\<close> and the buckets of \<open>Histograms\<close> are indexed by their names. The window is a ring of sixty slots
  of five seconds; the theory proves that it is the log of the last sixty generations.
\<close>

section \<open>Counters and histograms\<close>

definition WINDOW_SECONDS :: nat where
  "WINDOW_SECONDS = 5 * 60"

definition BUCKET_SECONDS :: nat where
  "BUCKET_SECONDS = 5"

definition WINDOW_BUCKETS :: nat where
  "WINDOW_BUCKETS = WINDOW_SECONDS div BUCKET_SECONDS"

definition HISTOGRAM_BOUNDS_MS :: "nat list" where
  "HISTOGRAM_BOUNDS_MS =
     [1, 5, 10, 25, 50, 100, 250, 500, 1000, 2500, 5000, 10000, 30000, 60000, u64_max]"

datatype counter =
    Blob_Get_Requests | Blob_Get_Hits | Blob_Get_Misses | Blob_Head_Requests | Blob_Head_Hits
  | Cache_Bytes_Served | Cache_Admissions_Started | Cache_Admissions_Succeeded | Cache_Admissions_Failed
  | Cache_Bytes_Admitted | Upstream_Requests | Upstream_Bytes_Fetched

datatype histogram = Cold_Ttfb | Cold_Complete | Warm_Ttfb | Warm_Complete

text \<open>A cell is a counter or a bucket of a histogram; \<open>add\<close> saturates.\<close>

datatype cell = Count counter | Bucket histogram nat

type_synonym tallies = "cell \<Rightarrow> nat"

definition tallies_new :: tallies where
  "tallies_new = (\<lambda>_. 0)"

definition tally_add :: "cell \<times> nat \<Rightarrow> tallies \<Rightarrow> tallies" where
  "tally_add = (\<lambda>(c, amount) t. t(c := u64_saturating_add (t c) amount))"

definition add_snapshot :: "tallies \<Rightarrow> tallies \<Rightarrow> tallies" where
  "add_snapshot t other = (\<lambda>c. u64_saturating_add (t c) (other c))"

definition histogram_index :: "duration \<Rightarrow> nat" where
  "histogram_index elapsed =
     (let millis = min (elapsed div (SECOND div 1000)) u64_max in
      case position (\<lambda>bound. millis \<le> bound) HISTOGRAM_BOUNDS_MS of
        Some i \<Rightarrow> i | None \<Rightarrow> length HISTOGRAM_BOUNDS_MS - 1)"

section \<open>The window\<close>

text \<open>
  A slot carries the generation marker: twice its generation, or one more while it is being reset.
\<close>

record window_slot =
  ws_generation :: nat
  ws_tallies :: tallies

record transfer_metrics =
  tm_started_at :: timestamp
  tm_started_instant :: instant
  tm_lifetime :: tallies
  tm_window :: "window_slot list"

definition transfer_metrics_new :: "timestamp \<Rightarrow> instant \<Rightarrow> transfer_metrics" where
  "transfer_metrics_new utc now =
     \<lparr>tm_started_at = utc, tm_started_instant = now, tm_lifetime = tallies_new,
      tm_window = replicate WINDOW_BUCKETS \<lparr>ws_generation = 0, ws_tallies = tallies_new\<rparr>\<rparr>"

definition current_generation :: "instant \<Rightarrow> transfer_metrics \<Rightarrow> nat" where
  "current_generation now m = (now - tm_started_instant m) div SECOND div BUCKET_SECONDS"

text \<open>\<open>WindowSlot::prepare\<close>; \<open>None\<close> is the spin while another thread resets the slot.\<close>

definition prepare_slot :: "nat \<Rightarrow> window_slot \<Rightarrow> window_slot option" where
  "prepare_slot generation slot =
     (let stable = u64_saturating_mul generation 2 in
      if ws_generation slot = stable then Some slot
      else if odd (ws_generation slot) then None
      else Some \<lparr>ws_generation = stable, ws_tallies = tallies_new\<rparr>)"

definition record_cells :: "(cell \<times> nat) list \<Rightarrow> instant \<Rightarrow> transfer_metrics \<Rightarrow> transfer_metrics option" where
  "record_cells adds now m =
     (let generation = current_generation now m;
          i = generation mod WINDOW_BUCKETS
      in
      map_option (\<lambda>slot. m\<lparr>tm_lifetime := fold tally_add adds (tm_lifetime m),
             tm_window := (tm_window m)[i := slot\<lparr>ws_tallies := fold tally_add adds (ws_tallies slot)\<rparr>]\<rparr>)
        (prepare_slot generation (tm_window m ! i)))"

section \<open>The recorded events\<close>

datatype metric_event =
    Blob_Get bool
  | Blob_Head bool
  | Served nat
  | Admission_Started
  | Admission_Succeeded nat
  | Admission_Failed
  | Upstream_Request
  | Upstream_Data nat
  | Latency histogram duration

text \<open>The cells each \<open>record_\<close> method adds to.\<close>

fun event_cells :: "metric_event \<Rightarrow> (cell \<times> nat) list" where
  "event_cells (Blob_Get hit) =
     [(Count Blob_Get_Requests, 1), (Count (if hit then Blob_Get_Hits else Blob_Get_Misses), 1)]"
| "event_cells (Blob_Head hit) =
     (Count Blob_Head_Requests, 1) # (if hit then [(Count Blob_Head_Hits, 1)] else [])"
| "event_cells (Served n) = [(Count Cache_Bytes_Served, n)]"
| "event_cells Admission_Started = [(Count Cache_Admissions_Started, 1)]"
| "event_cells (Admission_Succeeded n) = [(Count Cache_Admissions_Succeeded, 1), (Count Cache_Bytes_Admitted, n)]"
| "event_cells Admission_Failed = [(Count Cache_Admissions_Failed, 1)]"
| "event_cells Upstream_Request = [(Count Upstream_Requests, 1)]"
| "event_cells (Upstream_Data n) = [(Count Upstream_Bytes_Fetched, n)]"
| "event_cells (Latency h elapsed) = [(Bucket h (histogram_index elapsed), 1)]"

definition record_metric :: "metric_event \<Rightarrow> instant \<Rightarrow> transfer_metrics \<Rightarrow> transfer_metrics option" where
  "record_metric e now m = record_cells (event_cells e) now m"

section \<open>Snapshots\<close>

definition slot_in_window :: "nat \<Rightarrow> window_slot \<Rightarrow> bool" where
  "slot_in_window generation slot \<longleftrightarrow>
     even (ws_generation slot)
     \<and> u64_saturating_sub generation (WINDOW_BUCKETS - 1) \<le> ws_generation slot div 2
     \<and> ws_generation slot div 2 \<le> generation"

definition snapshot_window :: "nat \<Rightarrow> transfer_metrics \<Rightarrow> tallies" where
  "snapshot_window generation m =
     fold (\<lambda>slot t. if slot_in_window generation slot then add_snapshot t (ws_tallies slot) else t)
       (tm_window m) tallies_new"

fun percentile_scan :: "nat \<Rightarrow> nat \<Rightarrow> nat \<Rightarrow> nat list \<Rightarrow> nat option" where
  "percentile_scan rank cumulative index [] = Some u64_max"
| "percentile_scan rank cumulative index (n # ns) =
     (let cumulative' = u64_saturating_add cumulative n in
      if rank \<le> cumulative' then
        (if index < length HISTOGRAM_BOUNDS_MS then Some (HISTOGRAM_BOUNDS_MS ! index) else None)
      else percentile_scan rank cumulative' (index + 1) ns)"

definition percentile_rank :: "nat \<Rightarrow> f64 \<Rightarrow> nat" where
  "percentile_rank samples quantile = max (f64_to_u64 (f64_ceil (f64_mul (f64_of_nat samples) quantile))) 1"

definition percentile :: "nat list \<Rightarrow> nat \<Rightarrow> f64 \<Rightarrow> nat option" where
  "percentile buckets samples quantile =
     (if samples = 0 then None else percentile_scan (percentile_rank samples quantile) 0 0 buckets)"

record histogram_view =
  hv_bounds_ms :: "nat list"
  hv_buckets :: "nat list"
  hv_samples :: nat
  hv_p50_ms :: "nat option"
  hv_p95_ms :: "nat option"
  hv_p99_ms :: "nat option"

definition histogram_view_of :: "histogram \<Rightarrow> tallies \<Rightarrow> histogram_view" where
  "histogram_view_of h t =
     (let buckets = map (\<lambda>i. t (Bucket h i)) [0..<length HISTOGRAM_BOUNDS_MS];
          samples = fold (\<lambda>n s. u64_saturating_add s n) buckets 0
      in \<lparr>hv_bounds_ms = HISTOGRAM_BOUNDS_MS, hv_buckets = buckets, hv_samples = samples,
          hv_p50_ms = percentile buckets samples (f64_const (1 / 2)),
          hv_p95_ms = percentile buckets samples (f64_const (95 / 100)),
          hv_p99_ms = percentile buckets samples (f64_const (99 / 100))\<rparr>)"

record metrics_view =
  mv_counters :: "counter \<Rightarrow> nat"
  mv_cache_hit_ratio :: "f64 option"
  mv_histograms :: "histogram \<Rightarrow> histogram_view"

definition view_from :: "tallies \<Rightarrow> metrics_view" where
  "view_from t =
     (let hits = t (Count Blob_Get_Hits);
          denominator = u64_saturating_add hits (t (Count Blob_Get_Misses))
      in \<lparr>mv_counters = (\<lambda>c. t (Count c)),
          mv_cache_hit_ratio = (if 0 < denominator then Some (f64_div (f64_of_nat hits) (f64_of_nat denominator)) else None),
          mv_histograms = (\<lambda>h. histogram_view_of h t)\<rparr>)"

record transfer_metrics_snapshot =
  ts_started_at :: timestamp
  ts_window_seconds :: nat
  ts_lifetime :: metrics_view
  ts_window :: metrics_view

definition metrics_snapshot :: "instant \<Rightarrow> transfer_metrics \<Rightarrow> transfer_metrics_snapshot" where
  "metrics_snapshot now m =
     \<lparr>ts_started_at = tm_started_at m, ts_window_seconds = WINDOW_SECONDS,
      ts_lifetime = view_from (tm_lifetime m),
      ts_window = view_from (snapshot_window (current_generation now m) m)\<rparr>"

section \<open>Traffic\<close>

definition MIN_RATE_SAMPLE :: duration where
  "MIN_RATE_SAMPLE = 250 * (SECOND div 1000)"

record rate_sampler =
  rs_observed_at :: instant
  rs_observed_bytes :: nat
  rs_current_bps :: nat

record traffic_metrics =
  tr_requests :: nat
  tr_response_bytes :: nat
  tr_rate :: rate_sampler

definition traffic_metrics_default :: "instant \<Rightarrow> traffic_metrics" where
  "traffic_metrics_default now =
     \<lparr>tr_requests = 0, tr_response_bytes = 0,
      tr_rate = \<lparr>rs_observed_at = now, rs_observed_bytes = 0, rs_current_bps = 0\<rparr>\<rparr>"

text \<open>\<open>fetch_add\<close> wraps.\<close>

definition record_request :: "traffic_metrics \<Rightarrow> traffic_metrics" where
  "record_request t = t\<lparr>tr_requests := u64_wrapping_add (tr_requests t) 1\<rparr>"

definition record_bytes :: "nat \<Rightarrow> traffic_metrics \<Rightarrow> traffic_metrics" where
  "record_bytes n t = t\<lparr>tr_response_bytes := u64_wrapping_add (tr_response_bytes t) n\<rparr>"

text \<open>The frames of a tracked body pass through unchanged while their lengths are counted.\<close>

fun track_response :: "(string + bytes) list \<Rightarrow> traffic_metrics \<Rightarrow> (string + bytes) list \<times> traffic_metrics" where
  "track_response [] t = ([], t)"
| "track_response (Inl e # frames) t = apfst (Cons (Inl e)) (track_response frames t)"
| "track_response (Inr b # frames) t = apfst (Cons (Inr b)) (track_response frames (record_bytes (length b) t))"

definition rate_observe :: "instant \<Rightarrow> nat \<Rightarrow> rate_sampler \<Rightarrow> rate_sampler \<times> nat" where
  "rate_observe now total_bytes s =
     (let elapsed = now - rs_observed_at s;
          s' = (if MIN_RATE_SAMPLE \<le> elapsed
                then \<lparr>rs_observed_at = now, rs_observed_bytes = total_bytes,
                      rs_current_bps =
                        f64_to_u64 (f64_min (f64_div (f64_of_nat (u64_saturating_sub total_bytes (rs_observed_bytes s)))
                                                     (as_secs_f64 elapsed))
                                            (f64_of_nat u64_max))\<rparr>
                else s)
      in (s', rs_current_bps s'))"

record traffic_snapshot =
  tn_requests :: nat
  tn_response_bytes :: nat
  tn_current_bps :: nat

definition traffic_snapshot_of :: "instant \<Rightarrow> traffic_metrics \<Rightarrow> traffic_metrics \<times> traffic_snapshot" where
  "traffic_snapshot_of now t =
     (let (s, bps) = rate_observe now (tr_response_bytes t) (tr_rate t)
      in (t\<lparr>tr_rate := s\<rparr>,
          \<lparr>tn_requests = tr_requests t, tn_response_bytes = tr_response_bytes t, tn_current_bps = bps\<rparr>))"

section \<open>The window is the log of the last generations\<close>

fun run_metrics :: "(instant \<times> metric_event) list \<Rightarrow> transfer_metrics \<Rightarrow> transfer_metrics option" where
  "run_metrics [] m = Some m"
| "run_metrics ((now, e) # evs) m = Option.bind (record_metric e now m) (run_metrics evs)"

text \<open>What an event adds to a cell, and the generation of an instant after the start.\<close>

definition amount :: "cell \<Rightarrow> metric_event \<Rightarrow> nat" where
  "amount c e = sum_list (map snd (filter (\<lambda>(d, _). d = c) (event_cells e)))"

definition generation_of :: "instant \<Rightarrow> instant \<Rightarrow> nat" where
  "generation_of start now = (now - start) div SECOND div BUCKET_SECONDS"

lemma generation_mono: "s \<le> t \<Longrightarrow> generation_of start s \<le> generation_of start t"
  by (simp add: generation_of_def div_le_mono)

lemma WINDOW_BUCKETS_eq [simp]: "WINDOW_BUCKETS = 60"
  by (simp add: WINDOW_BUCKETS_def WINDOW_SECONDS_def BUCKET_SECONDS_def)

lemma fold_tally_add:
  "t c \<le> u64_max \<Longrightarrow> fold tally_add adds t c = min (t c + sum_list (map snd (filter (\<lambda>(d, _). d = c) adds))) u64_max"
proof (induction adds arbitrary: t)
  case (Cons x adds)
  obtain d n where x: "x = (d, n)" by fastforce
  have val: "tally_add (d, n) t c = (if d = c then min (t c + n) u64_max else t c)"
    by (simp add: tally_add_def u64_saturating_add_def)
  then have "tally_add (d, n) t c \<le> u64_max" using Cons.prems by simp
  from Cons.IH [where t = "tally_add (d, n) t", OF this] val Cons.prems show ?case
    by (simp add: x min_def)
qed simp

text \<open>The content of slot \<open>i\<close>: its events of the slot's generation, which is the latest one it has seen.\<close>

definition slot_amounts :: "instant \<Rightarrow> (instant \<times> metric_event) list \<Rightarrow> nat \<Rightarrow> nat \<Rightarrow> cell \<Rightarrow> nat" where
  "slot_amounts start evs i g c =
     sum_list (map (\<lambda>(t, e). if generation_of start t mod 60 = i \<and> generation_of start t = g then amount c e else 0) evs)"

definition slot_ok :: "instant \<Rightarrow> nat \<Rightarrow> (instant \<times> metric_event) list \<Rightarrow> nat \<Rightarrow> window_slot \<Rightarrow> bool" where
  "slot_ok start latest evs i slot \<longleftrightarrow>
     (\<exists>g. ws_generation slot = 2 * g \<and> (g mod 60 = i \<or> g = 0) \<and> g \<le> latest
        \<and> (\<forall>(t, e) \<in> set evs. generation_of start t mod 60 = i \<longrightarrow> generation_of start t \<le> g)
        \<and> (\<forall>c. ws_tallies slot c = min (slot_amounts start evs i g c) u64_max))"

definition metrics_ok :: "instant \<Rightarrow> nat \<Rightarrow> (instant \<times> metric_event) list \<Rightarrow> transfer_metrics \<Rightarrow> bool" where
  "metrics_ok start latest evs m \<longleftrightarrow>
     tm_started_instant m = start \<and> length (tm_window m) = 60
     \<and> (\<forall>c. tm_lifetime m c = min (sum_list (map (amount c \<circ> snd) evs)) u64_max)
     \<and> (\<forall>i < 60. slot_ok start latest evs i (tm_window m ! i))"

lemma slot_amounts_zero:
  "(\<forall>(t, e) \<in> set evs. generation_of start t mod 60 = i \<longrightarrow> generation_of start t \<noteq> g) \<Longrightarrow> slot_amounts start evs i g c = 0"
  unfolding slot_amounts_def by (induction evs) auto

lemma slot_ok_later: "slot_ok start latest evs i slot \<Longrightarrow> latest \<le> latest' \<Longrightarrow> slot_ok start latest' evs i slot"
  unfolding slot_ok_def by (elim exE conjE) (rule exI, intro conjI, assumption+, rule order_trans, auto)

lemma prepare_slot_ok:
  assumes "slot_ok start latest evs i slot" and "latest \<le> g" and "g mod 60 = i" and "2 * g \<le> u64_max"
  shows "\<exists>slot'. prepare_slot g slot = Some slot' \<and> ws_generation slot' = 2 * g
     \<and> (\<forall>(t, e) \<in> set evs. generation_of start t mod 60 = i \<longrightarrow> generation_of start t \<le> g)
     \<and> (\<forall>c. ws_tallies slot' c = min (slot_amounts start evs i g c) u64_max)"
proof -
  have stable: "u64_saturating_mul g 2 = 2 * g" using assms(4) by (simp add: u64_saturating_mul_def mult.commute)
  obtain g0 where g0: "ws_generation slot = 2 * g0" "g0 \<le> latest"
    "\<forall>(t, e) \<in> set evs. generation_of start t mod 60 = i \<longrightarrow> generation_of start t \<le> g0"
    "\<forall>c. ws_tallies slot c = min (slot_amounts start evs i g0 c) u64_max"
    using assms(1) unfolding slot_ok_def by blast
  show ?thesis
  proof (cases "g0 = g")
    case True
    with g0 stable show ?thesis by (auto simp: prepare_slot_def)
  next
    case False
    with g0(2) assms(2) have "g0 < g" by simp
    with g0(3) have "slot_amounts start evs i g c = 0" for c
      by (intro slot_amounts_zero) fastforce
    with g0 stable \<open>g0 < g\<close> show ?thesis by (fastforce simp: prepare_slot_def tallies_new_def)
  qed
qed

lemma record_metric_ok:
  assumes "metrics_ok start latest evs m" and "latest \<le> generation_of start now" and "2 * generation_of start now \<le> u64_max"
  shows "\<exists>m'. record_metric e now m = Some m' \<and> metrics_ok start (generation_of start now) (evs @ [(now, e)]) m'"
proof -
  let ?g = "generation_of start now"
  let ?i = "?g mod 60"
  have gen: "current_generation now m = ?g"
    using assms(1) by (simp add: current_generation_def generation_of_def metrics_ok_def)
  have i: "?i < 60" by simp
  have m: "length (tm_window m) = 60" "\<And>j. j < 60 \<Longrightarrow> slot_ok start latest evs j (tm_window m ! j)"
    "\<And>c. tm_lifetime m c = min (sum_list (map (amount c \<circ> snd) evs)) u64_max"
    using assms(1) by (auto simp: metrics_ok_def)
  from prepare_slot_ok [OF m(2) [OF i] assms(2) refl assms(3)] obtain slot where
    slot: "prepare_slot ?g (tm_window m ! ?i) = Some slot" "ws_generation slot = 2 * ?g"
      "\<forall>(t, e) \<in> set evs. generation_of start t mod 60 = ?i \<longrightarrow> generation_of start t \<le> ?g"
      "\<And>c. ws_tallies slot c = min (slot_amounts start evs ?i ?g c) u64_max"
    by blast
  let ?slot = "slot\<lparr>ws_tallies := fold tally_add (event_cells e) (ws_tallies slot)\<rparr>"
  let ?m = "m\<lparr>tm_lifetime := fold tally_add (event_cells e) (tm_lifetime m), tm_window := (tm_window m)[?i := ?slot]\<rparr>"
  have rec: "record_metric e now m = Some ?m"
    using slot(1) gen by (simp add: record_metric_def record_cells_def)
  have here: "slot_ok start ?g (evs @ [(now, e)]) ?i ?slot"
    unfolding slot_ok_def
  proof (intro exI conjI)
    show "ws_generation ?slot = 2 * ?g" using slot(2) by simp
    show "\<forall>c. ws_tallies ?slot c = min (slot_amounts start (evs @ [(now, e)]) ?i ?g c) u64_max"
      using slot(4) by (auto simp: fold_tally_add slot_amounts_def amount_def min_def)
  qed (use slot(3) in auto)
  have other: "slot_ok start ?g (evs @ [(now, e)]) j (tm_window m ! j)" if "j < 60" "j \<noteq> ?i" for j
    using slot_ok_later [OF m(2) [OF that(1)] assms(2)] that(2) unfolding slot_ok_def slot_amounts_def by fastforce
  have life: "fold tally_add (event_cells e) (tm_lifetime m) c
      = min (sum_list (map (amount c \<circ> snd) (evs @ [(now, e)]))) u64_max" for c
    using m(3) [of c] fold_tally_add [of "tm_lifetime m" c "event_cells e"] by (simp add: amount_def min_def)
  have "metrics_ok start ?g (evs @ [(now, e)]) ?m"
    using assms(1) m(1) here other life unfolding metrics_ok_def by (auto simp: nth_list_update)
  with rec show ?thesis by blast
qed

lemma metrics_new_ok: "metrics_ok start 0 [] (transfer_metrics_new utc start)"
  by (auto simp: metrics_ok_def transfer_metrics_new_def slot_ok_def slot_amounts_def tallies_new_def
      intro!: exI [of _ 0])

lemma run_metrics_ok:
  assumes "metrics_ok start latest evs m" and "sorted (map fst new)" and "\<forall>(t, e) \<in> set new. latest \<le> generation_of start t"
    and "\<forall>(t, e) \<in> set new. 2 * generation_of start t \<le> u64_max"
  shows "\<exists>m' latest'. run_metrics new m = Some m' \<and> metrics_ok start latest' (evs @ new) m'
     \<and> (latest' = latest \<or> (\<exists>(t, e) \<in> set new. latest' = generation_of start t))"
  using assms
proof (induction new arbitrary: latest evs m)
  case (Cons x new)
  obtain t e where x: "x = (t, e)" by fastforce
  from record_metric_ok [OF Cons.prems(1), of t e] Cons.prems x obtain m1 where
    m1: "record_metric e t m = Some m1" "metrics_ok start (generation_of start t) (evs @ [(t, e)]) m1" by auto
  have "\<forall>(u, e) \<in> set new. generation_of start t \<le> generation_of start u"
    using Cons.prems(2) x generation_mono by fastforce
  from Cons.IH [OF m1(2) _ this] Cons.prems x m1(1) show ?case by fastforce
qed auto

lemma snapshot_fold:
  "t c \<le> u64_max \<Longrightarrow>
   fold (\<lambda>slot t. if slot_in_window g slot then add_snapshot t (ws_tallies slot) else t) slots t c
     = min (t c + sum_list (map (\<lambda>slot. if slot_in_window g slot then ws_tallies slot c else 0) slots)) u64_max"
proof (induction slots arbitrary: t)
  case (Cons slot slots)
  let ?t = "if slot_in_window g slot then add_snapshot t (ws_tallies slot) else t"
  have val: "?t c = min (t c + (if slot_in_window g slot then ws_tallies slot c else 0)) u64_max"
    using Cons.prems by (simp add: add_snapshot_def u64_saturating_add_def)
  then have "?t c \<le> u64_max" by simp
  from Cons.IH [where t = ?t, OF this] val show ?case by (simp add: min_def)
qed simp

lemma sum_min_le:
  assumes "finite A"
  shows "min (\<Sum>i\<in>A. min (f i) M) M = min (\<Sum>i\<in>A. f i) (M :: nat)"
  using assms
proof (induction A rule: finite_induct)
  case (insert x F)
  have "min (min (f x) M + s) M = min (f x + min s M) M" for s by simp
  with insert show ?case by (simp add: min_def split: if_splits)
qed simp

lemma sum_swap_list:
  "(\<Sum>i\<in>A. sum_list (map (f i) xs)) = sum_list (map (\<lambda>x. \<Sum>i\<in>A. f i x) xs)" for f :: "'i \<Rightarrow> 'x \<Rightarrow> nat"
  by (induction xs) (simp_all add: sum.distrib)

text \<open>Sixty consecutive generations fall into different slots.\<close>

lemma same_slot:
  assumes "g mod 60 = h mod 60" and "h \<le> g" and "g < h + 60"
  shows "g = (h :: nat)"
proof -
  have "60 dvd g - h" using assms(1,2) by (simp add: mod_eq_dvd_iff_nat)
  with assms(2,3) show ?thesis by (auto dest: dvd_imp_le)
qed

lemma snapshot_window_log:
  assumes "metrics_ok start latest evs m" and "latest \<le> g"
  shows "snapshot_window g m c
     = min (sum_list (map (\<lambda>(t, e). if g < generation_of start t + 60 then amount c e else 0) evs)) u64_max"
proof -
  have m: "length (tm_window m) = 60" "\<And>i. i < 60 \<Longrightarrow> slot_ok start latest evs i (tm_window m ! i)"
    using assms(1) by (auto simp: metrics_ok_def)
  define gs where "gs i = ws_generation (tm_window m ! i) div 2" for i
  have gs: "\<And>i. i < 60 \<Longrightarrow> ws_generation (tm_window m ! i) = 2 * gs i \<and> (gs i mod 60 = i \<or> gs i = 0)
      \<and> gs i \<le> latest
      \<and> (\<forall>(t, e) \<in> set evs. generation_of start t mod 60 = i \<longrightarrow> generation_of start t \<le> gs i)
      \<and> (\<forall>c. ws_tallies (tm_window m ! i) c = min (slot_amounts start evs i (gs i) c) u64_max)"
    using m(2) unfolding slot_ok_def gs_def by fastforce
  define inw where "inw = (\<lambda>h. g < h + 60 \<and> h \<le> g)"
  have inw: "slot_in_window g (tm_window m ! i) \<longleftrightarrow> inw (gs i)" if "i < 60" for i
    using gs [OF that] by (auto simp: slot_in_window_def inw_def u64_saturating_sub_def)
  have "snapshot_window g m c
      = min (sum_list (map (\<lambda>slot. if slot_in_window g slot then ws_tallies slot c else 0) (tm_window m))) u64_max"
    unfolding snapshot_window_def using snapshot_fold [of tallies_new c g "tm_window m"] by (simp add: tallies_new_def)
  also have "sum_list (map (\<lambda>slot. if slot_in_window g slot then ws_tallies slot c else 0) (tm_window m))
      = (\<Sum>i\<in>{0..<60}. if slot_in_window g (tm_window m ! i) then ws_tallies (tm_window m ! i) c else 0)"
    by (simp add: sum_list_sum_nth m(1))
  also have "\<dots> = (\<Sum>i\<in>{0..<60}. min (if inw (gs i) then slot_amounts start evs i (gs i) c else 0) u64_max)"
    using gs inw by (intro sum.cong) auto
  also have "min \<dots> u64_max = min (\<Sum>i\<in>{0..<60}. if inw (gs i) then slot_amounts start evs i (gs i) c else 0) u64_max"
    by (rule sum_min_le) simp
  also have "(\<Sum>i\<in>{0..<60}. if inw (gs i) then slot_amounts start evs i (gs i) c else 0)
      = (\<Sum>i\<in>{0..<60}. sum_list (map (\<lambda>(t, e).
          if inw (gs i) \<and> generation_of start t mod 60 = i \<and> generation_of start t = gs i then amount c e else 0) evs))"
    unfolding slot_amounts_def by (intro sum.cong) (auto simp: case_prod_beta)
  also have "\<dots> = sum_list (map (\<lambda>x. \<Sum>i\<in>{0..<60}. (case x of (t, e) \<Rightarrow>
      if inw (gs i) \<and> generation_of start t mod 60 = i \<and> generation_of start t = gs i then amount c e else 0)) evs)"
    by (rule sum_swap_list)
  also have "\<dots> = sum_list (map (\<lambda>(t, e). if g < generation_of start t + 60 then amount c e else 0) evs)"
  proof (intro arg_cong [where f = sum_list] map_cong refl)
    fix x assume x: "x \<in> set evs"
    obtain t e where te: "x = (t, e)" by fastforce
    let ?h = "generation_of start t"
    let ?j = "?h mod 60"
    have j: "?j < 60" by simp
    have le: "?h \<le> gs ?j" using gs [OF j] x te by blast
    have "gs ?j \<le> g" using gs [OF j] assms(2) by simp
    with le have hg: "?h \<le> g" by simp
    have hit: "?h = gs ?j" if "g < ?h + 60"
      using same_slot [of "gs ?j" ?h] gs [OF j] le that \<open>gs ?j \<le> g\<close> by auto
    have "(\<Sum>i\<in>{0..<60}. if inw (gs i) \<and> ?h mod 60 = i \<and> ?h = gs i then amount c e else 0)
        = (\<Sum>i\<in>{0..<60}. if i = ?j then (if inw (gs ?j) \<and> ?h = gs ?j then amount c e else 0) else 0)"
      by (intro sum.cong) auto
    also have "\<dots> = (if inw (gs ?j) \<and> ?h = gs ?j then amount c e else 0)" by simp
    also have "\<dots> = (if g < ?h + 60 then amount c e else 0)"
      using hit hg unfolding inw_def by auto
    finally show "(\<Sum>i\<in>{0..<60}. (case x of (t, e) \<Rightarrow>
        if inw (gs i) \<and> generation_of start t mod 60 = i \<and> generation_of start t = gs i then amount c e else 0))
      = (case x of (t, e) \<Rightarrow> if g < generation_of start t + 60 then amount c e else 0)"
      by (simp add: te)
  qed
  finally show ?thesis .
qed

section \<open>Properties\<close>

text \<open>
  C37: The ring of window slots is the log of the last five minutes: after any sequence of events at
  non-decreasing instants, every recording has gone through, each lifetime counter is the saturated sum of all
  events, and each counter of the windowed snapshot is the saturated sum of exactly the events of the current
  and the fifty-nine preceding generations of five seconds; slots that were reused or not touched since never
  count.
\<close>

theorem window_is_recent_log:
  assumes "sorted (map fst evs)" and "\<forall>(t, e) \<in> set evs. start \<le> t \<and> t \<le> now"
    and "2 * generation_of start now \<le> u64_max"
  shows "\<exists>m. run_metrics evs (transfer_metrics_new utc start) = Some m
     \<and> (\<forall>c. tm_lifetime m c = min (sum_list (map (amount c \<circ> snd) evs)) u64_max)
     \<and> (\<forall>c. snapshot_window (current_generation now m) m c
           = min (sum_list (map (\<lambda>(t, e).
               if generation_of start now < generation_of start t + WINDOW_BUCKETS then amount c e else 0) evs)) u64_max)"
proof -
  have le: "\<forall>(t, e) \<in> set evs. generation_of start t \<le> generation_of start now"
    using assms(2) generation_mono by fastforce
  then have "\<forall>(t, e) \<in> set evs. 2 * generation_of start t \<le> u64_max" using assms(3) by fastforce
  from run_metrics_ok [OF metrics_new_ok [where utc = utc] assms(1) _ this] obtain m latest where
    m: "run_metrics evs (transfer_metrics_new utc start) = Some m" "metrics_ok start latest evs m"
    and lat: "latest = 0 \<or> (\<exists>(t, e) \<in> set evs. latest = generation_of start t)"
    by auto
  have "latest \<le> generation_of start now" using lat le by auto
  moreover have "current_generation now m = generation_of start now"
    using m(2) by (simp add: metrics_ok_def current_generation_def generation_of_def)
  ultimately show ?thesis using m snapshot_window_log [OF m(2)] by (auto simp: metrics_ok_def)
qed

theorem window_is_recent_log_witness:
  "\<exists>m. run_metrics [(0, Blob_Get True), (300 * SECOND, Blob_Get False)] (transfer_metrics_new 0 0) = Some m
     \<and> tm_lifetime m (Count Blob_Get_Requests) = 2
     \<and> snapshot_window (current_generation (301 * SECOND) m) m (Count Blob_Get_Requests) = 1"
proof -
  have g: "generation_of 0 (301 * SECOND) = 60" "generation_of 0 0 = 0" "generation_of 0 (300 * SECOND) = 60"
    by (simp_all add: generation_of_def BUCKET_SECONDS_def SECOND_def)
  have "\<exists>m. run_metrics [(0, Blob_Get True), (300 * SECOND, Blob_Get False)] (transfer_metrics_new 0 0) = Some m
     \<and> (\<forall>c. tm_lifetime m c = min (sum_list (map (amount c \<circ> snd) [(0 :: nat, Blob_Get True), (300 * SECOND, Blob_Get False)])) u64_max)
     \<and> (\<forall>c. snapshot_window (current_generation (301 * SECOND) m) m c
           = min (sum_list (map (\<lambda>(t, e).
               if generation_of 0 (301 * SECOND) < generation_of 0 t + WINDOW_BUCKETS then amount c e else 0)
               [(0, Blob_Get True), (300 * SECOND, Blob_Get False)])) u64_max)"
    by (rule window_is_recent_log) (simp_all add: g u64_max_def)
  then show ?thesis by (elim ex_forward) (simp add: g amount_def u64_max_def)
qed

text \<open>The percentile of a histogram is the first bound that enough samples do not exceed.\<close>

lemma percentile_scan_bound:
  assumes "percentile_scan rank cum i ns = Some b" and "b \<noteq> u64_max"
  shows "\<exists>k < length ns. i + k < length HISTOGRAM_BOUNDS_MS \<and> b = HISTOGRAM_BOUNDS_MS ! (i + k)
     \<and> rank \<le> cum + sum_list (take (Suc k) ns)"
  using assms
proof (induction ns arbitrary: cum i)
  case (Cons n ns)
  show ?case
  proof (cases "rank \<le> u64_saturating_add cum n")
    case True
    with Cons.prems show ?thesis
      by (intro exI [of _ 0]) (auto simp: u64_saturating_add_def split: if_splits)
  next
    case False
    with Cons.prems have "percentile_scan rank (u64_saturating_add cum n) (i + 1) ns = Some b" by (simp add: Let_def)
    from Cons.IH [OF this Cons.prems(2)] obtain k where "k < length ns" "i + 1 + k < length HISTOGRAM_BOUNDS_MS"
      "b = HISTOGRAM_BOUNDS_MS ! (i + 1 + k)" "rank \<le> u64_saturating_add cum n + sum_list (take (Suc k) ns)" by blast
    then show ?thesis by (intro exI [of _ "Suc k"]) (auto simp: u64_saturating_add_def min_def split: if_splits)
  qed
qed simp

lemma percentile_total:
  assumes "length buckets = length HISTOGRAM_BOUNDS_MS" and "0 < samples"
  shows "\<exists>b. percentile buckets samples q = Some b"
proof -
  have "\<exists>b. percentile_scan rank cum i ns = Some b" if "i + length ns \<le> length HISTOGRAM_BOUNDS_MS" for rank cum i ns
    using that by (induction ns arbitrary: cum i) (auto simp: Let_def)
  with assms show ?thesis by (simp add: percentile_def)
qed

text \<open>Tracking a response does not change what the client reads, and counts exactly the data of the body.\<close>

lemma track_response_frames [simp]: "fst (track_response frames t) = frames"
  by (induction frames t rule: track_response.induct) simp_all

lemma track_response_bytes:
  assumes "tr_response_bytes t + sum_list (map (case_sum (\<lambda>_. 0) length) frames) \<le> u64_max"
  shows "tr_response_bytes (snd (track_response frames t))
     = tr_response_bytes t + sum_list (map (case_sum (\<lambda>_. 0) length) frames)"
  using assms
proof (induction frames t rule: track_response.induct)
  case (3 b frames t)
  then have "tr_response_bytes (record_bytes (length b) t) = tr_response_bytes t + length b"
    by (simp add: record_bytes_def u64_wrapping_add_def u64_max_def)
  with 3 show ?case by simp
qed simp_all

end
