(* ===== verification/Authentication.thy ===== *)
theory Authentication
  imports Configuration Job_Tables Scheduler_Core
begin

text \<open>
  \<^verbatim>\<open>src/src/auth.rs\<close> and the authentication layers of \<^verbatim>\<open>src/src/server.rs\<close>: local accounts with a login rate
  limit, sessions, the OIDC login, the profile, and the two gates in front of the admin and the Registry
  listener. The tables are those of \<^verbatim>\<open>src/src/db.rs\<close> with their constraints and triggers.

  The hash functions (SHA-256 in hex, Argon2), base64, the random numbers and UUIDs and the OpenID Connect
  client are parameters. Every operation reads the clock once. The cache of login attempts may drop entries
  on its own, which is an operation of the system. Text is a list of bytes.
\<close>

section \<open>Data\<close>

definition SESSION_COOKIE :: string where
  "SESSION_COOKIE = ''donkey_session''"

definition MAX_FAILED_ATTEMPTS :: nat where
  "MAX_FAILED_ATTEMPTS = 5"

definition FAILED_ATTEMPT_WINDOW :: duration where
  "FAILED_ATTEMPT_WINDOW = 15 * 60 * SECOND"

record user =
  us_id :: uuid
  us_identity_key :: string
  us_username :: "string option"
  us_issuer :: "string option"
  us_subject :: string
  us_display_name :: string
  us_email :: "string option"
  us_password_hash :: "string option"
  us_role :: string
  us_enabled :: bool
  us_created_at :: timestamp
  us_updated_at :: timestamp
  us_last_login_at :: "timestamp option"

record admin_session =
  as_token_hash :: string
  as_user_id :: uuid
  as_created_at :: timestamp
  as_last_seen_at :: timestamp
  as_expires_at :: timestamp

record oidc_login_state =
  ol_state_hash :: string
  ol_nonce :: string
  ol_pkce_verifier :: string
  ol_return_to :: string
  ol_created_at :: timestamp
  ol_expires_at :: timestamp

record auth_principal =
  ap_id :: "uuid option"
  ap_username :: string
  ap_display_name :: string
  ap_role :: string
  ap_legacy :: bool
  ap_local_password :: bool
  ap_session_token_hash :: "string option"

definition is_admin :: "auth_principal \<Rightarrow> bool" where
  "is_admin p \<longleftrightarrow> ap_role p = ''admin''"

text \<open>
  The OpenID Connect library: the exchange of a code gives a token response with an ID token, or fails; the
  verification of the ID token fails because no signing key matches, or for another reason, or gives the
  claims the code reads; the hash of the access token can be computed, or not.
\<close>

datatype claims_error = NoMatchingKey | OtherClaimsError

record oidc_claims =
  oi_subject :: string
  oi_email :: "string option"
  oi_access_token_hash :: "string option"

record ('c, 't) auth_env =
  ae_config :: config
  ae_sha256_hex :: "string \<Rightarrow> string"
  ae_hash_password :: "nat \<Rightarrow> string \<Rightarrow> string api_result"
  ae_verify_password :: "string \<Rightarrow> string \<Rightarrow> bool api_result"
  ae_dummy_password_hash :: string
  ae_random_token :: "nat \<Rightarrow> string option"
  ae_base64_decode :: "string \<Rightarrow> bytes option"
  ae_new_uuid :: "nat \<Rightarrow> uuid"
  ae_oidc :: "(string \<times> string) option"
  ae_authorize :: "nat \<Rightarrow> 'c \<Rightarrow> string \<times> string \<times> string \<times> string"
  ae_exchange :: "'c \<Rightarrow> string \<Rightarrow> string \<Rightarrow> 't option"
  ae_id_token_claims :: "'c \<Rightarrow> 't \<Rightarrow> string \<Rightarrow> claims_error + oidc_claims"
  ae_access_token_hash :: "'c \<Rightarrow> 't \<Rightarrow> string option"
  ae_discover :: "nat \<Rightarrow> ('c \<times> string) option"

record 'c auth_state =
  au_users :: "user list"
  au_sessions :: "admin_session list"
  au_oidc_states :: "oidc_login_state list"
  au_failed_logins :: "string \<rightharpoonup> instant list"
  au_client :: 'c
  au_tick :: nat

definition tick :: "'c auth_state \<Rightarrow> 'c auth_state" where
  "tick A = A\<lparr>au_tick := au_tick A + 1\<rparr>"

section \<open>Tables\<close>

definition find_user :: "(user \<Rightarrow> bool) \<Rightarrow> 'c auth_state \<Rightarrow> user option" where
  "find_user p A = find p (au_users A)"

definition find_session :: "string \<Rightarrow> 'c auth_state \<Rightarrow> admin_session option" where
  "find_session h A = find (\<lambda>s. as_token_hash s = h) (au_sessions A)"

text \<open>\<open>length(trim(x)) = 0\<close> of SQLite: only blanks, or nothing before a NUL.\<close>

definition sql_blank :: "string \<Rightarrow> bool" where
  "sql_blank s = (case dropWhile (\<lambda>c. c = CHR '' '') s of [] \<Rightarrow> True | c # _ \<Rightarrow> c = CHR 0x00)"

text \<open>The trigger \<open>trg_users_validate\<close> on insertions and updates.\<close>

definition valid_user_row :: "user \<Rightarrow> bool" where
  "valid_user_row u \<longleftrightarrow> us_role u \<in> {''admin'', ''member''} \<and> \<not> sql_blank (us_identity_key u) \<and> \<not> sql_blank (us_subject u)
     \<and> \<not> sql_blank (us_display_name u)"

definition user_conflicts :: "user \<Rightarrow> user \<Rightarrow> bool" where
  "user_conflicts u v \<longleftrightarrow> us_identity_key u = us_identity_key v \<or> us_username u \<noteq> None \<and> us_username u = us_username v"

definition insert_user :: "user \<Rightarrow> 'c auth_state \<Rightarrow> 'c auth_state \<times> user api_result" where
  "insert_user u A =
     (if \<not> valid_user_row u then (A, Inl (Database ''invalid user''))
      else if \<exists>v \<in> set (au_users A). us_id v = us_id u \<or> user_conflicts u v
      then (A, Inl (Database ''UNIQUE constraint failed''))
      else (A\<lparr>au_users := au_users A @ [u]\<rparr>, Inr u))"

definition update_user :: "user \<Rightarrow> 'c auth_state \<Rightarrow> 'c auth_state \<times> user api_result" where
  "update_user u A =
     (if \<not> (\<exists>v \<in> set (au_users A). us_id v = us_id u) then (A, Inl (Database ''None of the records are updated''))
      else if \<not> valid_user_row u then (A, Inl (Database ''invalid user''))
      else if \<exists>v \<in> set (au_users A). us_id v \<noteq> us_id u \<and> user_conflicts u v
      then (A, Inl (Database ''UNIQUE constraint failed''))
      else (A\<lparr>au_users := map (\<lambda>v. if us_id v = us_id u then u else v) (au_users A)\<rparr>, Inr u))"

text \<open>Insertion of a session, with the trigger that requires its user.\<close>

definition insert_session :: "admin_session \<Rightarrow> 'c auth_state \<Rightarrow> 'c auth_state \<times> unit api_result" where
  "insert_session s A =
     (if \<not> (\<exists>u \<in> set (au_users A). us_id u = as_user_id s)
      then (A, Inl (Database ''admin session requires an existing user''))
      else if find_session (as_token_hash s) A \<noteq> None then (A, Inl (Database ''UNIQUE constraint failed''))
      else (A\<lparr>au_sessions := au_sessions A @ [s]\<rparr>, Inr ()))"

definition delete_sessions :: "(admin_session \<Rightarrow> bool) \<Rightarrow> 'c auth_state \<Rightarrow> 'c auth_state" where
  "delete_sessions p A = A\<lparr>au_sessions := filter (\<lambda>s. \<not> p s) (au_sessions A)\<rparr>"

section \<open>Validation\<close>

definition validate_username :: "string \<Rightarrow> unit api_result" where
  "validate_username v =
     (if trim v \<noteq> v \<or> length v < 2 \<or> 80 < length v
         \<or> \<not> list_all (\<lambda>c. is_ascii_alphanumeric c \<or> c \<in> {CHR ''.'', CHR ''_'', CHR ''-'', CHR ''@''}) v
      then Inl (BadRequest (''username must be 2-80 ASCII letters, digits, '.', '_', '-', or '@'' @ [CHR 0x27]))
      else Inr ())"

definition validate_password :: "string \<Rightarrow> unit api_result" where
  "validate_password v =
     (if length v < 12 \<or> 1024 < length v
      then Inl (BadRequest ''initial administrator password must be 12-1024 bytes'') else Inr ())"

definition principal :: "user \<Rightarrow> auth_principal" where
  "principal u =
     \<lparr>ap_id = Some (us_id u),
      ap_username = (case us_username u of Some n \<Rightarrow> n | None \<Rightarrow> (case us_email u of Some e \<Rightarrow> e | None \<Rightarrow> us_subject u)),
      ap_display_name = us_display_name u, ap_role = us_role u, ap_legacy = False,
      ap_local_password = (us_password_hash u \<noteq> None), ap_session_token_hash = None\<rparr>"

definition cookie_value :: "headers \<Rightarrow> string \<Rightarrow> string option" where
  "cookie_value hs name =
     Option.bind (header_str ''cookie'' hs) (\<lambda>v.
       map_option snd (find (\<lambda>(key, val). key = name \<and> val \<noteq> [])
         (List.map_filter (\<lambda>part. split_once ''='' (trim part)) (split_char CHR '';'' v))))"

definition token_hash :: "('c, 't) auth_env \<Rightarrow> string \<Rightarrow> string" where
  "token_hash env v = ae_sha256_hex env v"

definition local_identity_key :: "string \<Rightarrow> string" where
  "local_identity_key username = ''local:'' @ to_ascii_lowercase username"

definition oidc_identity_key :: "('c, 't) auth_env \<Rightarrow> string \<Rightarrow> string \<Rightarrow> string" where
  "oidc_identity_key env issuer subject = ''oidc:'' @ token_hash env issuer @ '':'' @ subject"

definition safe_return_to :: "string \<Rightarrow> string" where
  "safe_return_to v =
     (if starts_with ''/'' v \<and> \<not> starts_with ''//'' v \<and> CHR 0x0D \<notin> set v \<and> CHR 0x0A \<notin> set v \<and> length v \<le> 1024
      then v else ''/'')"

section \<open>Sessions\<close>

definition authenticate ::
  "('c, 't) auth_env \<Rightarrow> headers \<Rightarrow> timestamp \<Rightarrow> 'c auth_state \<Rightarrow> 'c auth_state \<times> auth_principal api_result" where
  "authenticate env hs now A =
     (case cookie_value hs SESSION_COOKIE of
        None \<Rightarrow> (A, Inl Unauthorized)
      | Some token \<Rightarrow>
          let h = token_hash env token in
          (case find_session h A of
             None \<Rightarrow> (A, Inl Unauthorized)
           | Some s \<Rightarrow>
               if as_expires_at s \<le> now then (delete_sessions (\<lambda>s. as_token_hash s = h) A, Inl Unauthorized)
               else
                 (case find_user (\<lambda>u. us_id u = as_user_id s) A of
                    None \<Rightarrow> (A, Inl Unauthorized)
                  | Some account \<Rightarrow>
                      if \<not> us_enabled account then (A, Inl Unauthorized)
                      else
                        (if as_last_seen_at s < now - 5 * MINUTE
                         then A\<lparr>au_sessions := map (\<lambda>s. if as_token_hash s = h then s\<lparr>as_last_seen_at := now\<rparr> else s)
                                (au_sessions A)\<rparr>
                         else A,
                         Inr ((principal account)\<lparr>ap_session_token_hash := Some h\<rparr>)))))"

definition authenticate_legacy_basic :: "('c, 't) auth_env \<Rightarrow> headers \<Rightarrow> auth_principal option" where
  "authenticate_legacy_basic env hs =
     Option.bind (cf_admin_auth (ae_config env)) (\<lambda>expected.
       Option.bind (header_str ''authorization'' hs) (\<lambda>v.
         Option.bind (Option.bind (strip_prefix ''Basic '' v) (ae_base64_decode env)) (\<lambda>decoded.
           if decoded \<noteq> map of_char expected then None
           else
             let username = (case split_once '':'' expected of None \<Rightarrow> ''admin'' | Some (name, _) \<Rightarrow> name)
             in Some \<lparr>ap_id = None, ap_username = username, ap_display_name = username, ap_role = ''admin'',
                     ap_legacy = True, ap_local_password = False, ap_session_token_hash = None\<rparr>)))"

definition create_session ::
  "('c, 't) auth_env \<Rightarrow> uuid \<Rightarrow> timestamp \<Rightarrow> 'c auth_state \<Rightarrow> 'c auth_state \<times> string api_result" where
  "create_session env user_id now A =
     (case ae_random_token env (au_tick A) of
        None \<Rightarrow> (tick A, Inl (Internal ''random number generator''))
      | Some token \<Rightarrow>
          (case insert_session \<lparr>as_token_hash = token_hash env token, as_user_id = user_id, as_created_at = now,
                  as_last_seen_at = now, as_expires_at = now + int (cf_session_ttl (ae_config env))\<rparr> (tick A) of
             (A1, Inl e) \<Rightarrow> (A1, Inl e)
           | (A1, Inr _) \<Rightarrow> (A1, Inr token)))"

definition revoke_session :: "('c, 't) auth_env \<Rightarrow> headers \<Rightarrow> 'c auth_state \<Rightarrow> 'c auth_state" where
  "revoke_session env hs A =
     (case cookie_value hs SESSION_COOKIE of
        None \<Rightarrow> A
      | Some token \<Rightarrow> delete_sessions (\<lambda>s. as_token_hash s = token_hash env token) A)"

definition mark_login :: "uuid \<Rightarrow> timestamp \<Rightarrow> 'c auth_state \<Rightarrow> 'c auth_state \<times> unit api_result" where
  "mark_login user_id now A =
     (case find_user (\<lambda>u. us_id u = user_id) A of
        None \<Rightarrow> (A, Inr ())
      | Some account \<Rightarrow>
          apsnd (map_sum id (\<lambda>_. ())) (update_user (account\<lparr>us_last_login_at := Some now, us_updated_at := now\<rparr>) A))"

definition cleanup_expired_sessions :: "timestamp \<Rightarrow> 'c auth_state \<Rightarrow> 'c auth_state" where
  "cleanup_expired_sessions now A =
     (let A1 = delete_sessions (\<lambda>s. as_expires_at s < now) A
      in A1\<lparr>au_oidc_states := filter (\<lambda>st. \<not> ol_expires_at st < now) (au_oidc_states A1)\<rparr>)"

definition session_cookie :: "('c, 't) auth_env \<Rightarrow> string \<Rightarrow> string" where
  "session_cookie env token =
     SESSION_COOKIE @ ''='' @ token @ ''; Path=/; HttpOnly; SameSite=Lax; Max-Age=''
       @ nat_text (cf_session_ttl (ae_config env) div SECOND)
       @ (if cf_admin_external_tls (ae_config env) then ''; Secure'' else [])"

definition clear_cookie :: "('c, 't) auth_env \<Rightarrow> string" where
  "clear_cookie env =
     SESSION_COOKIE @ ''=; Path=/; HttpOnly; SameSite=Lax; Max-Age=0''
       @ (if cf_admin_external_tls (ae_config env) then ''; Secure'' else [])"

section \<open>Local login\<close>

definition reserve_login_attempt :: "string \<Rightarrow> instant \<Rightarrow> 'c auth_state \<Rightarrow> 'c auth_state \<times> unit api_result" where
  "reserve_login_attempt key now A =
     (let stored = (case au_failed_logins A key of None \<Rightarrow> [] | Some ts \<Rightarrow> ts);
          values = dropWhile (\<lambda>t. FAILED_ATTEMPT_WINDOW < now - t) stored
      in if MAX_FAILED_ATTEMPTS \<le> length values
         then (A\<lparr>au_failed_logins := (au_failed_logins A)(key \<mapsto> values)\<rparr>, Inl RateLimited)
         else (A\<lparr>au_failed_logins := (au_failed_logins A)(key \<mapsto> values @ [now])\<rparr>, Inr ()))"

definition clear_failed_login :: "string \<Rightarrow> 'c auth_state \<Rightarrow> 'c auth_state" where
  "clear_failed_login key A = A\<lparr>au_failed_logins := (au_failed_logins A)(key := None)\<rparr>"

definition attempt_key :: "('c, 't) auth_env \<Rightarrow> string \<Rightarrow> string" where
  "attempt_key env username = token_hash env (to_ascii_lowercase username)"

definition login_local ::
  "('c, 't) auth_env \<Rightarrow> string \<Rightarrow> string \<Rightarrow> instant \<Rightarrow> timestamp \<Rightarrow> 'c auth_state
     \<Rightarrow> 'c auth_state \<times> (auth_principal \<times> string) api_result" where
  "login_local env username password instant now A =
     (case validate_username username of
        Inl e \<Rightarrow> (A, Inl e)
      | Inr _ \<Rightarrow>
          if 1024 < length password then (A, Inl Unauthorized)
          else
            (case reserve_login_attempt (attempt_key env username) instant A of
               (A1, Inl e) \<Rightarrow> (A1, Inl e)
             | (A1, Inr _) \<Rightarrow>
                 let account = find_user (\<lambda>u. us_username u = Some username) A1;
                     password_hash = (case Option.bind account us_password_hash of
                                        Some h \<Rightarrow> h | None \<Rightarrow> ae_dummy_password_hash env)
                 in
                 (case ae_verify_password env password_hash password of
                    Inl e \<Rightarrow> (A1, Inl e)
                  | Inr valid \<Rightarrow>
                      (case account of
                         None \<Rightarrow> (A1, Inl Unauthorized)
                       | Some u \<Rightarrow>
                           if \<not> (us_enabled u \<and> valid) then (A1, Inl Unauthorized)
                           else
                             (case mark_login (us_id u) now (clear_failed_login (attempt_key env username) A1) of
                                (A2, Inl e) \<Rightarrow> (A2, Inl e)
                              | (A2, Inr _) \<Rightarrow>
                                  (case create_session env (us_id u) now A2 of
                                     (A3, Inl e) \<Rightarrow> (A3, Inl e)
                                   | (A3, Inr token) \<Rightarrow> (A3, Inr (principal u, token))))))))"

definition bootstrap_local_admin :: "('c, 't) auth_env \<Rightarrow> timestamp \<Rightarrow> 'c auth_state \<Rightarrow> 'c auth_state \<times> unit api_result" where
  "bootstrap_local_admin env now A =
     (case (cf_initial_admin_username (ae_config env), cf_initial_admin_password (ae_config env)) of
        (Some username, Some password) \<Rightarrow>
          (case result_bind (validate_username username) (\<lambda>_.
                  result_bind (validate_password password) (\<lambda>_. ae_hash_password env (au_tick A) password)) of
             Inl e \<Rightarrow> (A, Inl e)
           | Inr password_hash \<Rightarrow>
               if au_users A \<noteq> [] then (tick A, Inr ())
               else
                 apsnd (map_sum id (\<lambda>_. ())) (insert_user
                   \<lparr>us_id = ae_new_uuid env (au_tick A), us_identity_key = local_identity_key username,
                    us_username = Some username, us_issuer = None, us_subject = username, us_display_name = username,
                    us_email = None, us_password_hash = Some password_hash, us_role = ''admin'', us_enabled = True,
                    us_created_at = now, us_updated_at = now, us_last_login_at = None\<rparr> (tick A)))
      | _ \<Rightarrow> (A, Inr ()))"

section \<open>OpenID Connect\<close>

definition find_oidc_state :: "string \<Rightarrow> 'c auth_state \<Rightarrow> oidc_login_state option" where
  "find_oidc_state h A = find (\<lambda>st. ol_state_hash st = h) (au_oidc_states A)"

text \<open>
  \<open>ae_authorize\<close> gives the URL, the state, the nonce and the PKCE verifier of an authorization request.
\<close>

definition oidc_authorize_url ::
  "('c, 't) auth_env \<Rightarrow> string \<Rightarrow> timestamp \<Rightarrow> 'c auth_state \<Rightarrow> 'c auth_state \<times> string api_result" where
  "oidc_authorize_url env return_to now A =
     (let A0 = cleanup_expired_sessions now A in
      case ae_oidc env of
        None \<Rightarrow> (A0, Inl (NotFound ''OIDC provider''))
      | Some _ \<Rightarrow>
          (case ae_authorize env (au_tick A0) (au_client A0) of
             (url, state, nonce, verifier) \<Rightarrow>
               let h = token_hash env state in
               if find_oidc_state h A0 \<noteq> None then (tick A0, Inl (Database ''UNIQUE constraint failed''))
               else
                 ((tick A0)\<lparr>au_oidc_states := au_oidc_states A0 @
                    [\<lparr>ol_state_hash = h, ol_nonce = nonce, ol_pkce_verifier = verifier,
                      ol_return_to = safe_return_to return_to, ol_created_at = now,
                      ol_expires_at = now + 10 * MINUTE\<rparr>]\<rparr>, Inr url)))"

definition provision_oidc_user ::
  "('c, 't) auth_env \<Rightarrow> string \<Rightarrow> string \<Rightarrow> string option \<Rightarrow> timestamp \<Rightarrow> 'c auth_state \<Rightarrow> 'c auth_state \<times> user api_result" where
  "provision_oidc_user env issuer subject email now A =
     (let identity_key = oidc_identity_key env issuer subject in
      case find_user (\<lambda>u. us_identity_key u = identity_key) A of
        Some account \<Rightarrow> (A, if us_enabled account then Inr account else Inl Forbidden)
      | None \<Rightarrow>
          insert_user
            \<lparr>us_id = ae_new_uuid env (au_tick A), us_identity_key = identity_key, us_username = None,
             us_issuer = Some issuer, us_subject = subject,
             us_display_name = (case email of Some e \<Rightarrow> e | None \<Rightarrow> ''OIDC user''), us_email = email,
             us_password_hash = None, us_role = (if au_users A = [] then ''admin'' else ''member''), us_enabled = True,
             us_created_at = now, us_updated_at = now, us_last_login_at = None\<rparr> (tick A))"

text \<open>
  The verification of the ID token, with one refresh of the signing keys when none matches: the client may
  have been refreshed by another login meanwhile (\<open>au_client\<close>), else the provider is discovered again and
  must still have the issuer it had at the start.
\<close>

definition verified_claims ::
  "('c, 't) auth_env \<Rightarrow> string \<Rightarrow> 't \<Rightarrow> string \<Rightarrow> 'c auth_state \<Rightarrow> 'c auth_state \<times> oidc_claims api_result" where
  "verified_claims env issuer id_token nonce A =
     (case ae_id_token_claims env (au_client A) id_token nonce of
        Inr claims \<Rightarrow> (A, Inr claims)
      | Inl OtherClaimsError \<Rightarrow> (A, Inl Unauthorized)
      | Inl NoMatchingKey \<Rightarrow>
          if cf_oidc (ae_config env) = None then (A, Inl Unauthorized)
          else
            (case ae_discover env (au_tick A) of
               None \<Rightarrow> (tick A, Inl Unauthorized)
             | Some (refreshed, discovered) \<Rightarrow>
                 if discovered \<noteq> issuer then (tick A, Inl Unauthorized)
                 else
                   ((tick A)\<lparr>au_client := refreshed\<rparr>,
                    case ae_id_token_claims env refreshed id_token nonce of
                      Inl _ \<Rightarrow> Inl Unauthorized | Inr claims \<Rightarrow> Inr claims)))"

definition finish_oidc ::
  "('c, 't) auth_env \<Rightarrow> string \<Rightarrow> string \<Rightarrow> timestamp \<Rightarrow> 'c auth_state
     \<Rightarrow> 'c auth_state \<times> (auth_principal \<times> string \<times> string) api_result" where
  "finish_oidc env code state now A =
     (case ae_oidc env of
        None \<Rightarrow> (A, Inl Unauthorized)
      | Some (issuer, _) \<Rightarrow>
          let h = token_hash env state in
          (case find_oidc_state h A of
             None \<Rightarrow> (A, Inl Unauthorized)
           | Some stored \<Rightarrow>
               let A1 = A\<lparr>au_oidc_states := filter (\<lambda>st. ol_state_hash st \<noteq> h) (au_oidc_states A)\<rparr> in
               if ol_expires_at stored \<le> now then (A1, Inl Unauthorized)
               else
                 (case ae_exchange env (au_client A1) code (ol_pkce_verifier stored) of
                    None \<Rightarrow> (A1, Inl Unauthorized)
                  | Some id_token \<Rightarrow>
                      (case verified_claims env issuer id_token (ol_nonce stored) A1 of
                         (A2, Inl e) \<Rightarrow> (A2, Inl e)
                       | (A2, Inr claims) \<Rightarrow>
                           if (case oi_access_token_hash claims of
                                 None \<Rightarrow> False
                               | Some expected \<Rightarrow> ae_access_token_hash env (au_client A2) id_token \<noteq> Some expected)
                           then (A2, Inl Unauthorized)
                           else if oi_subject claims = [] \<or> 512 < length (oi_subject claims) then (A2, Inl Unauthorized)
                           else
                             (case provision_oidc_user env issuer (oi_subject claims) (oi_email claims) now A2 of
                                (A3, Inl e) \<Rightarrow> (A3, Inl e)
                              | (A3, Inr account) \<Rightarrow>
                                  (case mark_login (us_id account) now A3 of
                                     (A4, Inl e) \<Rightarrow> (A4, Inl e)
                                   | (A4, Inr _) \<Rightarrow>
                                       (case create_session env (us_id account) now A4 of
                                          (A5, Inl e) \<Rightarrow> (A5, Inl e)
                                        | (A5, Inr token) \<Rightarrow>
                                            (A5, Inr (principal account, token, ol_return_to stored)))))))))"

section \<open>Profile\<close>

record profile_input =
  pi_display_name :: string
  pi_username :: "string option"
  pi_current_password :: "string option"
  pi_new_password :: "string option"

text \<open>\<open>chars().count()\<close> of UTF-8 text: the bytes that do not continue a character.\<close>

definition chars_count :: "string \<Rightarrow> nat" where
  "chars_count s = length (filter (\<lambda>c. \<not> (128 \<le> (of_char c :: nat) \<and> of_char c < (192 :: nat))) s)"

text \<open>A change of credentials needs the current password of a local account.\<close>

definition check_current_password :: "('c, 't) auth_env \<Rightarrow> user \<Rightarrow> profile_input \<Rightarrow> unit api_result" where
  "check_current_password env account input =
     (case us_password_hash account of
        None \<Rightarrow> Inl (BadRequest ''OIDC accounts manage login credentials with the identity provider'')
      | Some h \<Rightarrow>
          (case pi_current_password input of
             None \<Rightarrow> Inl Unauthorized
           | Some current \<Rightarrow>
               result_bind (ae_verify_password env h current) (\<lambda>ok. if ok then Inr () else Inl Unauthorized)))"

definition changed_username :: "user \<Rightarrow> profile_input \<Rightarrow> bool" where
  "changed_username account input \<longleftrightarrow> (case pi_username input of None \<Rightarrow> False | Some n \<Rightarrow> us_username account \<noteq> Some n)"

definition profile_username :: "user \<Rightarrow> profile_input \<Rightarrow> 'c auth_state \<Rightarrow> user api_result" where
  "profile_username account input A =
     (case pi_username input of
        Some n \<Rightarrow>
          if changed_username account input then
            result_bind (validate_username n) (\<lambda>_.
              if \<exists>u \<in> set (au_users A). us_username u = Some n \<and> us_id u \<noteq> us_id account
              then Inl (Conflict ''username is already in use'')
              else Inr (account\<lparr>us_username := Some n\<rparr>))
          else Inr account
      | None \<Rightarrow> Inr account)"

definition profile_password :: "('c, 't) auth_env \<Rightarrow> profile_input \<Rightarrow> nat \<Rightarrow> user \<Rightarrow> user api_result" where
  "profile_password env input n account =
     (case pi_new_password input of
        None \<Rightarrow> Inr account
      | Some password \<Rightarrow>
          result_bind (validate_password password) (\<lambda>_.
            result_bind (ae_hash_password env n password) (\<lambda>h. Inr (account\<lparr>us_password_hash := Some h\<rparr>))))"

definition update_profile ::
  "('c, 't) auth_env \<Rightarrow> auth_principal \<Rightarrow> profile_input \<Rightarrow> timestamp \<Rightarrow> 'c auth_state
     \<Rightarrow> 'c auth_state \<times> auth_principal api_result" where
  "update_profile env current_user input now A =
     (case ap_id current_user of
        None \<Rightarrow> (A, Inl Unauthorized)
      | Some uid \<Rightarrow>
          if trim (pi_display_name input) = [] \<or> 80 < chars_count (pi_display_name input)
          then (A, Inl (BadRequest ''display name must be 1-80 characters''))
          else
            (case find_user (\<lambda>u. us_id u = uid) A of
               None \<Rightarrow> (A, Inl Unauthorized)
             | Some account \<Rightarrow>
                 (case result_bind
                         (if changed_username account input \<or> pi_new_password input \<noteq> None
                          then check_current_password env account input else Inr ())
                         (\<lambda>_. result_bind (profile_username account input A) (profile_password env input (au_tick A))) of
                    Inl e \<Rightarrow> (A, Inl e)
                  | Inr account' \<Rightarrow>
                      (case update_user (account'\<lparr>us_display_name := trim (pi_display_name input), us_updated_at := now\<rparr>)
                              (tick A) of
                         (A1, Inl e) \<Rightarrow> (A1, Inl e)
                       | (A1, Inr updated) \<Rightarrow>
                           (case (pi_new_password input, ap_session_token_hash current_user) of
                              (Some _, Some h) \<Rightarrow> delete_sessions (\<lambda>s. as_user_id s = uid \<and> as_token_hash s \<noteq> h) A1
                            | _ \<Rightarrow> A1,
                            Inr (principal updated))))))"

record auth_config_view =
  av_local_enabled :: bool
  av_oidc_enabled :: bool
  av_oidc_name :: "string option"

definition auth_config :: "('c, 't) auth_env \<Rightarrow> 'c auth_state \<Rightarrow> auth_config_view" where
  "auth_config env A =
     \<lparr>av_local_enabled = (\<exists>u \<in> set (au_users A). us_password_hash u \<noteq> None),
      av_oidc_enabled = (ae_oidc env \<noteq> None), av_oidc_name = map_option snd (ae_oidc env)\<rparr>"

section \<open>The gates of the listeners\<close>

record gate_request =
  gq_method :: string
  gq_path :: string
  gq_headers :: headers

text \<open>Either the request goes on to the handler, with its principal, or the gate answers.\<close>

datatype gate_answer = Forwarded headers "auth_principal option" | Refused nat headers

definition public_api :: "string \<Rightarrow> bool" where
  "public_api path \<longleftrightarrow>
     path \<in> {''/api/health'', ''/api/auth/config'', ''/api/auth/login'', ''/api/auth/oidc/start'', ''/api/auth/oidc/callback''}"

definition admin_auth :: "('c, 't) auth_env \<Rightarrow> gate_request \<Rightarrow> timestamp \<Rightarrow> 'c auth_state \<Rightarrow> 'c auth_state \<times> gate_answer" where
  "admin_auth env gq now A =
     (if gq_method gq = ''CONNECT'' \<or> \<not> starts_with ''/api/'' (gq_path gq) \<or> public_api (gq_path gq)
      then (A, Forwarded (gq_headers gq) None)
      else
        let (A1, session) = authenticate env (gq_headers gq) now A;
            caller = (case session of
                        Inr p \<Rightarrow> Some p
                      | Inl _ \<Rightarrow> authenticate_legacy_basic env (gq_headers gq))
        in
        case caller of
          None \<Rightarrow> (A1, Refused (app_error_status Unauthorized) [])
        | Some p \<Rightarrow>
            if gq_method gq \<notin> {''GET'', ''HEAD'', ''OPTIONS''} \<and> gq_path gq \<noteq> ''/api/auth/logout'' \<and> \<not> is_admin p
            then (A1, Refused (app_error_status Forbidden) [])
            else (A1, Forwarded (gq_headers gq) (Some p)))"

definition is_helper_path :: "string \<Rightarrow> bool" where
  "is_helper_path path \<longleftrightarrow> path \<in> {''/helper'', ''/helper.win''}"

definition registry_auth :: "('c, 't) auth_env \<Rightarrow> gate_request \<Rightarrow> gate_answer" where
  "registry_auth env gq =
     (if is_helper_path (gq_path gq) then Forwarded (gq_headers gq) None
      else
        case cf_registry_auth (ae_config env) of
          None \<Rightarrow> Forwarded (gq_headers gq) None
        | Some expected \<Rightarrow>
            if Option.bind (Option.bind (header_str ''authorization'' (gq_headers gq)) (strip_prefix ''Basic ''))
                 (ae_base64_decode env) = Some (map of_char expected)
            then Forwarded (filter (\<lambda>(n, _). n \<noteq> ''authorization'') (gq_headers gq)) None
            else Refused 401 [(''www-authenticate'', ''Basic realm=\"Donkey Registry\", charset=\"UTF-8\"'')])"

text \<open>The handlers of the routes that set the session cookie: the body and the cookie.\<close>

definition login_handler ::
  "('c, 't) auth_env \<Rightarrow> string \<Rightarrow> string \<Rightarrow> instant \<Rightarrow> timestamp \<Rightarrow> 'c auth_state
     \<Rightarrow> 'c auth_state \<times> (auth_principal \<times> string) api_result" where
  "login_handler env username password instant now A =
     apsnd (map_sum id (\<lambda>(p, token). (p, session_cookie env token))) (login_local env username password instant now A)"

definition logout_handler :: "('c, 't) auth_env \<Rightarrow> headers \<Rightarrow> 'c auth_state \<Rightarrow> 'c auth_state \<times> string" where
  "logout_handler env hs A = (revoke_session env hs A, clear_cookie env)"

definition oidc_callback ::
  "('c, 't) auth_env \<Rightarrow> string option \<Rightarrow> string option \<Rightarrow> string option \<Rightarrow> timestamp \<Rightarrow> 'c auth_state
     \<Rightarrow> 'c auth_state \<times> (string \<times> string option) api_result" where
  "oidc_callback env code state err now A =
     (if err \<noteq> None then (A, Inr (''/login?error=oidc'', None))
      else
        case (code, state) of
          (Some c, Some s) \<Rightarrow>
            apsnd (map_sum id (\<lambda>(p, token, return_to). (return_to, Some (session_cookie env token))))
              (finish_oidc env c s now A)
        | _ \<Rightarrow> (A, Inl Unauthorized))"

definition auth_service_start ::
  "('c, 't) auth_env \<Rightarrow> timestamp \<Rightarrow> 'c auth_state \<Rightarrow> 'c auth_state \<times> unit api_result" where
  "auth_service_start env now A =
     (case bootstrap_local_admin env now A of
        (A1, Inl e) \<Rightarrow> (A1, Inl e)
      | (A1, Inr _) \<Rightarrow> (cleanup_expired_sessions now A1, Inr ()))"

end
