(* ===== verification/Authentication_Proofs.thy ===== *)
theory Authentication_Proofs
  imports Authentication
begin

text \<open>
  The properties of the authentication service: the login rate limit, the consistency of its tables over all
  interleavings of its operations, the life of a session from its cookie to its end, the single use of an
  OIDC login state, and what the gates let through.
\<close>

section \<open>The rate limit\<close>

record login_attempt =
  la_username :: string
  la_password :: string
  la_instant :: instant
  la_now :: timestamp

definition login_of :: "('c, 't) auth_env \<Rightarrow> login_attempt \<Rightarrow> 'c auth_state \<Rightarrow> 'c auth_state \<times> (auth_principal \<times> string) api_result" where
  "login_of env l A = login_local env (la_username l) (la_password l) (la_instant l) (la_now l) A"

text \<open>An attempt reaches the verification of its password.\<close>

definition reaches_password :: "('c, 't) auth_env \<Rightarrow> login_attempt \<Rightarrow> 'c auth_state \<Rightarrow> bool" where
  "reaches_password env l A \<longleftrightarrow>
     is_ok (validate_username (la_username l)) \<and> length (la_password l) \<le> 1024
     \<and> is_ok (snd (reserve_login_attempt (attempt_key env (la_username l)) (la_instant l) A))"

text \<open>The instants at which passwords are verified for the user name with a given attempt key.\<close>

fun password_checks :: "('c, 't) auth_env \<Rightarrow> string \<Rightarrow> login_attempt list \<Rightarrow> 'c auth_state \<Rightarrow> instant list" where
  "password_checks env key [] A = []"
| "password_checks env key (l # ls) A =
     (if attempt_key env (la_username l) = key \<and> reaches_password env l A then [la_instant l] else [])
       @ password_checks env key ls (fst (login_of env l A))"

text \<open>Any six checks in a row take more than the window.\<close>

definition spaced :: "instant list \<Rightarrow> bool" where
  "spaced ts \<longleftrightarrow> (\<forall>i. i + MAX_FAILED_ATTEMPTS < length ts \<longrightarrow> FAILED_ATTEMPT_WINDOW < ts ! (i + MAX_FAILED_ATTEMPTS) - ts ! i)"

text \<open>The stored instants are the last checks; the earlier ones have left the window.\<close>

definition attempts_ok :: "string \<Rightarrow> instant \<Rightarrow> instant list \<Rightarrow> 'c auth_state \<Rightarrow> bool" where
  "attempts_ok key now checks A \<longleftrightarrow>
     (\<exists>old. checks = old @ (case au_failed_logins A key of None \<Rightarrow> [] | Some ts \<Rightarrow> ts)
        \<and> (\<forall>t \<in> set old. FAILED_ATTEMPT_WINDOW < now - t))"

lemma reserve_spaced:
  assumes "attempts_ok key now0 checks A" and "now0 \<le> now" and "spaced checks"
    and "reserve_login_attempt key now A = (A', r)"
  shows "attempts_ok key now (if is_ok r then checks @ [now] else checks) A'
     \<and> spaced (if is_ok r then checks @ [now] else checks)"
proof -
  define stored where "stored = (case au_failed_logins A key of None \<Rightarrow> [] | Some ts \<Rightarrow> ts)"
  define gone where "gone = takeWhile (\<lambda>t. FAILED_ATTEMPT_WINDOW < now - t) stored"
  define vals where "vals = dropWhile (\<lambda>t. FAILED_ATTEMPT_WINDOW < now - t) stored"
  obtain old where old: "checks = old @ stored" "\<forall>t \<in> set old. FAILED_ATTEMPT_WINDOW < now0 - t"
    using assms(1) unfolding attempts_ok_def stored_def by blast
  have split: "checks = (old @ gone) @ vals" using old(1) by (simp add: gone_def vals_def)
  have far: "\<forall>t \<in> set (old @ gone). FAILED_ATTEMPT_WINDOW < now - t"
    using old(2) assms(2) by (auto simp: gone_def dest: set_takeWhileD)
  show ?thesis
  proof (cases "MAX_FAILED_ATTEMPTS \<le> length vals")
    case True
    with assms(4) have "is_ok r = False" "au_failed_logins A' key = Some vals"
      by (auto simp: reserve_login_attempt_def Let_def vals_def stored_def is_ok_def)
    with far split assms(3) show ?thesis by (auto simp: attempts_ok_def)
  next
    case False
    with assms(4) have r: "is_ok r" "au_failed_logins A' key = Some (vals @ [now])"
      by (auto simp: reserve_login_attempt_def Let_def vals_def stored_def is_ok_def)
    have "FAILED_ATTEMPT_WINDOW < (checks @ [now]) ! (i + MAX_FAILED_ATTEMPTS) - (checks @ [now]) ! i"
      if i: "i + MAX_FAILED_ATTEMPTS < length (checks @ [now])" for i
    proof (cases "i + MAX_FAILED_ATTEMPTS < length checks")
      case True
      with assms(3) show ?thesis by (simp add: spaced_def nth_append)
    next
      case last: False
      with i have eq: "i + MAX_FAILED_ATTEMPTS = length checks" by simp
      with False split have "i < length (old @ gone)" by (auto simp: MAX_FAILED_ATTEMPTS_def)
      with split far have "FAILED_ATTEMPT_WINDOW < now - checks ! i" by (metis nth_append nth_mem)
      moreover have "i < length checks" using eq by (simp add: MAX_FAILED_ATTEMPTS_def)
      ultimately show ?thesis by (simp add: nth_append eq)
    qed
    with r far split show ?thesis unfolding attempts_ok_def spaced_def by fastforce
  qed
qed

text \<open>A login with a password that fits no account leaves the attempts as the reservation left them.\<close>

definition stored_hashes :: "('c, 't) auth_env \<Rightarrow> 'c auth_state \<Rightarrow> string set" where
  "stored_hashes env A = insert (ae_dummy_password_hash env) {h. Some h \<in> us_password_hash ` set (au_users A)}"

definition wrong_password :: "('c, 't) auth_env \<Rightarrow> 'c auth_state \<Rightarrow> login_attempt \<Rightarrow> bool" where
  "wrong_password env A l \<longleftrightarrow> (\<forall>h \<in> stored_hashes env A. ae_verify_password env h (la_password l) \<noteq> Inr True)"

lemma find_user_mem: "find_user p A = Some u \<Longrightarrow> u \<in> set (au_users A) \<and> p u"
  by (auto simp: find_user_def find_Some_iff)

lemma reserve_users: "reserve_login_attempt key now A = (A', r) \<Longrightarrow> au_users A' = au_users A"
  by (auto simp: reserve_login_attempt_def Let_def split: if_splits)

lemma login_wrong_password:
  assumes "wrong_password env A l"
  shows "fst (login_of env l A) =
      (if is_ok (validate_username (la_username l)) \<and> length (la_password l) \<le> 1024
       then fst (reserve_login_attempt (attempt_key env (la_username l)) (la_instant l) A) else A)
    \<and> \<not> is_ok (snd (login_of env l A))"
proof -
  obtain A1 r where res: "reserve_login_attempt (attempt_key env (la_username l)) (la_instant l) A = (A1, r)" by fastforce
  let ?p = "\<lambda>u. us_username u = Some (la_username l)"
  have "ae_verify_password env (case Option.bind (find_user ?p A1) us_password_hash of Some h \<Rightarrow> h | None \<Rightarrow> ae_dummy_password_hash env)
      (la_password l) \<noteq> Inr True"
    using assms reserve_users [OF res] find_user_mem [of ?p A1]
    by (cases "find_user ?p A1") (force simp: wrong_password_def stored_hashes_def split: option.splits)+
  with res show ?thesis
    by (auto simp: login_of_def login_local_def Let_def is_ok_def split: sum.splits option.splits prod.splits)
qed

lemma mark_login_hashes: "mark_login uid now A = (A', r) \<Longrightarrow> us_password_hash ` set (au_users A') \<subseteq> us_password_hash ` set (au_users A)"
  by (auto simp: mark_login_def update_user_def split: option.splits if_splits dest!: find_user_mem)

lemma create_session_users: "create_session env uid now A = (A', r) \<Longrightarrow> au_users A' = au_users A"
  by (auto simp: create_session_def insert_session_def tick_def split: option.splits if_splits)

lemma login_hashes: "stored_hashes env (fst (login_of env l A)) \<subseteq> stored_hashes env A"
proof -
  have "us_password_hash ` set (au_users (fst (login_of env l A))) \<subseteq> us_password_hash ` set (au_users A)"
    by (auto simp: login_of_def login_local_def Let_def clear_failed_login_def image_subset_iff split: sum.splits option.splits prod.splits
        dest!: mark_login_hashes create_session_users reserve_users)
  then show ?thesis by (auto simp: stored_hashes_def)
qed

lemma mark_login_attempts: "mark_login uid now A = (A', r) \<Longrightarrow> au_failed_logins A' = au_failed_logins A"
  by (auto simp: mark_login_def update_user_def split: option.splits if_splits)

lemma create_session_attempts: "create_session env uid now A = (A', r) \<Longrightarrow> au_failed_logins A' = au_failed_logins A"
  by (auto simp: create_session_def insert_session_def tick_def split: option.splits if_splits)

lemma reserve_other_key: "reserve_login_attempt k now A = (A', r) \<Longrightarrow> k \<noteq> key \<Longrightarrow> au_failed_logins A' key = au_failed_logins A key"
  by (auto simp: reserve_login_attempt_def Let_def split: if_splits)

lemma login_other_key:
  assumes "attempt_key env (la_username l) \<noteq> key"
  shows "au_failed_logins (fst (login_of env l A)) key = au_failed_logins A key"
  using assms
  by (auto simp: login_of_def login_local_def Let_def clear_failed_login_def split: sum.splits option.splits prod.splits
      dest!: mark_login_attempts create_session_attempts reserve_other_key)

lemma attempts_ok_later:
  assumes "attempts_ok key now0 checks A" and "now0 \<le> now" and "au_failed_logins A' key = au_failed_logins A key"
  shows "attempts_ok key now checks A'"
  using assms unfolding attempts_ok_def by fastforce

lemma password_checks_spaced:
  assumes "list_all (\<lambda>l. attempt_key env (la_username l) = key \<longrightarrow> wrong_password env A l) ls"
    and "sorted (now # map la_instant ls)" and "attempts_ok key now checks A" and "spaced checks"
  shows "spaced (checks @ password_checks env key ls A)"
  using assms
proof (induction ls arbitrary: now checks A)
  case (Cons l ls)
  obtain A1 r where res: "reserve_login_attempt key (la_instant l) A = (A1, r)" by fastforce
  have now: "now \<le> la_instant l" "sorted (la_instant l # map la_instant ls)" using Cons.prems(2) by simp_all
  let ?A = "fst (login_of env l A)"
  have wrong': "list_all (\<lambda>l. attempt_key env (la_username l) = key \<longrightarrow> wrong_password env ?A l) ls"
    using Cons.prems(1) login_hashes [of env l A] by (fastforce simp: list_all_iff wrong_password_def)
  have later: "spaced (checks @ password_checks env key ls ?A)" if "au_failed_logins ?A key = au_failed_logins A key"
    using Cons.prems(4) attempts_ok_later [OF Cons.prems(3) now(1) that] now(2) wrong'
    by (intro Cons.IH [where now = "la_instant l"]) simp_all
  show ?case
  proof (cases "attempt_key env (la_username l) = key")
    case key: True
    with Cons.prems(1) have wrong: "wrong_password env A l" by simp
    show ?thesis
    proof (cases "is_ok (validate_username (la_username l)) \<and> length (la_password l) \<le> 1024")
      case True
      with login_wrong_password [OF wrong] res key have A1: "fst (login_of env l A) = A1" by simp
      have reach: "reaches_password env l A \<longleftrightarrow> is_ok r" using True res key by (simp add: reaches_password_def)
      from reserve_spaced [OF Cons.prems(3) now(1) Cons.prems(4) res]
      have "spaced ((if is_ok r then checks @ [la_instant l] else checks) @ password_checks env key ls A1)"
        using wrong' A1 now(2) by (intro Cons.IH [where now = "la_instant l"]) simp_all
      with A1 reach key show ?thesis by (cases "is_ok r") simp_all
    next
      case False
      with login_wrong_password [OF wrong] have "fst (login_of env l A) = A" by auto
      with later False show ?thesis by (auto simp: reaches_password_def)
    qed
  next
    case False
    with later [OF login_other_key [OF False]] show ?thesis by simp
  qed
qed simp

section \<open>The tables\<close>

datatype 't auth_op =
    Op_Start timestamp
  | Op_Login login_attempt
  | Op_Authenticate headers timestamp
  | Op_Logout headers
  | Op_Cleanup timestamp
  | Op_Authorize string timestamp
  | Op_Callback string string timestamp
  | Op_Profile auth_principal profile_input timestamp
  | Op_Evict string

fun auth_exec :: "('c, 't) auth_env \<Rightarrow> 't auth_op \<Rightarrow> 'c auth_state \<Rightarrow> 'c auth_state" where
  "auth_exec env (Op_Start now) A = fst (auth_service_start env now A)"
| "auth_exec env (Op_Login l) A = fst (login_of env l A)"
| "auth_exec env (Op_Authenticate hs now) A = fst (authenticate env hs now A)"
| "auth_exec env (Op_Logout hs) A = fst (logout_handler env hs A)"
| "auth_exec env (Op_Cleanup now) A = cleanup_expired_sessions now A"
| "auth_exec env (Op_Authorize return_to now) A = fst (oidc_authorize_url env return_to now A)"
| "auth_exec env (Op_Callback code state now) A = fst (finish_oidc env code state now A)"
| "auth_exec env (Op_Profile p input now) A = fst (update_profile env p input now A)"
| "auth_exec env (Op_Evict key) A = clear_failed_login key A"

text \<open>
  The accounts have different ids, identity keys and user names, and valid rows; an account with a user name
  has a password of its own; every session has a token hash of its own and belongs to an account; an
  administrator exists as soon as any account does.
\<close>

definition users_ok :: "user list \<Rightarrow> bool" where
  "users_ok us \<longleftrightarrow>
     distinct (map us_id us) \<and> (\<forall>u \<in> set us. \<forall>v \<in> set us. us_id u \<noteq> us_id v \<longrightarrow> \<not> user_conflicts u v)
     \<and> list_all valid_user_row us \<and> list_all (\<lambda>u. us_username u \<noteq> None \<longrightarrow> us_password_hash u \<noteq> None) us
     \<and> (us \<noteq> [] \<longrightarrow> (\<exists>u \<in> set us. us_role u = ''admin''))"

definition auth_ok :: "'c auth_state \<Rightarrow> bool" where
  "auth_ok A \<longleftrightarrow>
     users_ok (au_users A) \<and> distinct (map as_token_hash (au_sessions A)) \<and> distinct (map ol_state_hash (au_oidc_states A))
     \<and> (\<forall>s \<in> set (au_sessions A). as_user_id s \<in> us_id ` set (au_users A))"

lemma user_conflicts_sym: "user_conflicts u v \<longleftrightarrow> user_conflicts v u"
  unfolding user_conflicts_def by metis

lemma insert_user_ok:
  assumes "auth_ok A" and "insert_user u A = (A', r)"
    and "us_username u \<noteq> None \<longrightarrow> us_password_hash u \<noteq> None" and "au_users A = [] \<longrightarrow> us_role u = ''admin''"
  shows "auth_ok A'"
proof (cases "is_ok r")
  case False
  with assms show ?thesis by (auto simp: insert_user_def is_ok_def split: if_splits)
next
  case True
  with assms(2) have u: "valid_user_row u" "\<forall>v \<in> set (au_users A). us_id v \<noteq> us_id u \<and> \<not> user_conflicts u v"
    "A' = A\<lparr>au_users := au_users A @ [u]\<rparr>"
    by (auto simp: insert_user_def is_ok_def split: if_splits)
  have "users_ok (au_users A @ [u])"
    using assms(1,3,4) u(1,2) user_conflicts_sym unfolding auth_ok_def users_ok_def
    by (cases "au_users A") auto
  with assms(1) u(3) show ?thesis by (auto simp: auth_ok_def)
qed

lemma map_user_ids [simp]: "map us_id (map (\<lambda>v. if us_id v = us_id u then u else v) us) = map us_id us"
  by (induction us) simp_all

lemma update_user_ok:
  assumes "auth_ok A" and "update_user u A = (A', r)"
    and "v \<in> set (au_users A)" and "us_id v = us_id u" and "us_role v = us_role u"
    and "us_username u \<noteq> None \<longrightarrow> us_password_hash u \<noteq> None"
  shows "auth_ok A'"
proof (cases "is_ok r")
  case False
  with assms show ?thesis by (auto simp: update_user_def is_ok_def split: if_splits)
next
  case True
  let ?us = "map (\<lambda>v. if us_id v = us_id u then u else v) (au_users A)"
  from True assms(2) have u: "valid_user_row u" "\<forall>v \<in> set (au_users A). us_id v \<noteq> us_id u \<longrightarrow> \<not> user_conflicts u v"
    "A' = A\<lparr>au_users := ?us\<rparr>"
    by (auto simp: update_user_def is_ok_def split: if_splits)
  have ids: "us_id ` set ?us = us_id ` set (au_users A)" by (metis list.set_map map_user_ids)
  have set_us: "set ?us \<subseteq> insert u {w \<in> set (au_users A). us_id w \<noteq> us_id u}" by auto
  have "\<exists>w \<in> set ?us. us_role w = ''admin''" if w: "w \<in> set (au_users A)" "us_role w = ''admin''" for w
  proof (cases "us_id w = us_id u")
    case True
    have "inj_on us_id (set (au_users A))" using assms(1) by (simp add: auth_ok_def users_ok_def distinct_map)
    from inj_onD [OF this, of w v] w True assms(3-5) have "us_role u = ''admin''" by simp
    moreover have "u \<in> set ?us" using assms(3,4) by force
    ultimately show ?thesis by blast
  qed (use w in force)
  moreover have "\<exists>w \<in> set (au_users A). us_role w = ''admin''"
    using assms(1,3) unfolding auth_ok_def users_ok_def by (metis empty_iff list.set(1))
  moreover have "\<not> user_conflicts x y" if xy: "x \<in> set ?us" "y \<in> set ?us" "us_id x \<noteq> us_id y" for x y
  proof -
    have old: "\<forall>x \<in> set (au_users A). \<forall>y \<in> set (au_users A). us_id x \<noteq> us_id y \<longrightarrow> \<not> user_conflicts x y"
      using assms(1) by (simp add: auth_ok_def users_ok_def)
    consider "x = u" "y \<in> set (au_users A)" "us_id y \<noteq> us_id u" | "y = u" "x \<in> set (au_users A)" "us_id x \<noteq> us_id u"
      | "x \<in> set (au_users A)" "y \<in> set (au_users A)"
      using set_us xy by blast
    then show ?thesis using old u(2) xy(3) user_conflicts_sym [of x y] by cases simp_all
  qed
  moreover have "list_all valid_user_row ?us" "list_all (\<lambda>u. us_username u \<noteq> None \<longrightarrow> us_password_hash u \<noteq> None) ?us"
    using assms(1,6) u(1) set_us unfolding auth_ok_def users_ok_def list_all_iff by blast+
  moreover have "distinct (map us_id ?us)" using assms(1) unfolding map_user_ids by (simp add: auth_ok_def users_ok_def)
  ultimately have "users_ok ?us" unfolding users_ok_def by blast
  with assms(1) u(3) ids show ?thesis unfolding auth_ok_def by simp
qed

text \<open>The other changes of the state keep the tables consistent.\<close>

lemma auth_ok_frame [simp]:
  "auth_ok (tick A) = auth_ok A" "auth_ok (clear_failed_login key A) = auth_ok A" "auth_ok (A\<lparr>au_client := c\<rparr>) = auth_ok A"
  "auth_ok (A\<lparr>au_failed_logins := f\<rparr>) = auth_ok A"
  by (simp_all add: auth_ok_def tick_def clear_failed_login_def)

lemma au_users_frame [simp]:
  "au_users (tick A) = au_users A" "au_sessions (tick A) = au_sessions A" "au_oidc_states (tick A) = au_oidc_states A"
  "au_users (clear_failed_login key A) = au_users A"
  by (simp_all add: tick_def clear_failed_login_def)

lemma delete_sessions_ok [intro]: "auth_ok A \<Longrightarrow> auth_ok (delete_sessions p A)"
  by (auto simp: auth_ok_def delete_sessions_def distinct_map_filter)

lemma filter_states_ok [intro]: "auth_ok A \<Longrightarrow> auth_ok (A\<lparr>au_oidc_states := filter p (au_oidc_states A)\<rparr>)"
  by (auto simp: auth_ok_def distinct_map_filter)

lemma cleanup_ok [intro]: "auth_ok A \<Longrightarrow> auth_ok (cleanup_expired_sessions now A)"
  unfolding cleanup_expired_sessions_def Let_def by (intro filter_states_ok delete_sessions_ok)

lemma reserve_ok: "auth_ok A \<Longrightarrow> reserve_login_attempt key now A = (A', r) \<Longrightarrow> auth_ok A'"
  by (auto simp: reserve_login_attempt_def Let_def split: if_splits)

lemma insert_session_ok: "auth_ok A \<Longrightarrow> insert_session s A = (A', r) \<Longrightarrow> auth_ok A'"
  by (force simp: insert_session_def auth_ok_def find_session_def find_None_iff split: if_splits)

lemma create_session_ok: "auth_ok A \<Longrightarrow> create_session env uid now A = (A', r) \<Longrightarrow> auth_ok A'"
  by (auto simp: create_session_def split: option.splits prod.splits sum.splits dest: insert_session_ok [rotated])

lemma auth_ok_credentials: "auth_ok A \<Longrightarrow> u \<in> set (au_users A) \<Longrightarrow> us_username u \<noteq> None \<Longrightarrow> us_password_hash u \<noteq> None"
  by (auto simp: auth_ok_def users_ok_def list_all_iff)

lemma mark_login_ok:
  assumes "auth_ok A" and "mark_login uid now A = (A', r)"
  shows "auth_ok A'"
proof (cases "find_user (\<lambda>u. us_id u = uid) A")
  case (Some u)
  with assms(2) obtain r' where "update_user (u\<lparr>us_last_login_at := Some now, us_updated_at := now\<rparr>) A = (A', r')"
    by (auto simp: mark_login_def apsnd_def map_prod_def split: prod.splits)
  from update_user_ok [OF assms(1) this, of u] find_user_mem [OF Some] auth_ok_credentials [OF assms(1), of u]
  show ?thesis by simp
qed (use assms in \<open>simp add: mark_login_def\<close>)

lemma authenticate_ok:
  assumes "auth_ok A" shows "auth_ok (fst (authenticate env hs now A))"
proof -
  have "auth_ok (A\<lparr>au_sessions := map (\<lambda>s. if as_token_hash s = h then s\<lparr>as_last_seen_at := now\<rparr> else s) (au_sessions A)\<rparr>)" for h
  proof -
    let ?seen = "\<lambda>s :: admin_session. if as_token_hash s = h then s\<lparr>as_last_seen_at := now\<rparr> else s"
    have "as_token_hash \<circ> ?seen = as_token_hash" by auto
    then show ?thesis using assms by (auto simp: auth_ok_def)
  qed
  with assms show ?thesis by (auto simp: authenticate_def Let_def split: option.splits)
qed

lemma login_ok:
  assumes "auth_ok A" shows "auth_ok (fst (login_of env l A))"
  using assms by (auto simp: login_of_def login_local_def Let_def split: sum.splits option.splits prod.splits
      dest!: reserve_ok [rotated] mark_login_ok [rotated] create_session_ok [rotated])

lemma start_ok:
  assumes "auth_ok A" shows "auth_ok (fst (auth_service_start env now A))"
proof -
  obtain A1 r where boot: "bootstrap_local_admin env now A = (A1, r)" by fastforce
  then have "auth_ok A1"
    using assms insert_user_ok [of "tick A"]
    by (fastforce simp: bootstrap_local_admin_def apsnd_def map_prod_def split: option.splits sum.splits if_splits prod.splits)
  with boot show ?thesis by (auto simp: auth_service_start_def split: sum.splits)
qed

lemma authorize_ok:
  assumes "auth_ok A" shows "auth_ok (fst (oidc_authorize_url env return_to now A))"
proof -
  define A0 where "A0 = cleanup_expired_sessions now A"
  have "auth_ok A0" using assms by (auto simp: A0_def)
  then show ?thesis
    by (auto simp: oidc_authorize_url_def A0_def [symmetric] Let_def auth_ok_def find_oidc_state_def find_None_iff
        split: option.splits prod.splits)
qed


lemma provision_ok:
  assumes "auth_ok A" and "provision_oidc_user env issuer subject email now A = (A', r)"
  shows "auth_ok A'"
proof (cases "find_user (\<lambda>u. us_identity_key u = oidc_identity_key env issuer subject) A")
  case None
  from None assms(2) have "\<exists>u. insert_user u (tick A) = (A', r) \<and> us_username u = None \<and> (au_users A = [] \<longrightarrow> us_role u = ''admin'')"
    by (auto simp: provision_oidc_user_def Let_def intro!: exI)
  with insert_user_ok [of "tick A"] assms(1) show ?thesis by auto
qed (use assms in \<open>auto simp: provision_oidc_user_def Let_def\<close>)

lemma verified_claims_ok: "auth_ok A \<Longrightarrow> verified_claims env issuer tok nonce A = (A', r) \<Longrightarrow> auth_ok A'"
  by (auto simp: verified_claims_def split: sum.splits claims_error.splits if_splits option.splits)

lemma finish_oidc_ok:
  assumes "auth_ok A" shows "auth_ok (fst (finish_oidc env code state now A))"
  using assms by (auto simp: finish_oidc_def Let_def split: option.splits prod.splits sum.splits
      dest!: verified_claims_ok [rotated] provision_ok [rotated] mark_login_ok [rotated] create_session_ok [rotated])

lemma profile_changes:
  assumes "result_bind (profile_username account input A) (profile_password env input n) = Inr account'"
  shows "us_id account' = us_id account \<and> us_role account' = us_role account
     \<and> (us_username account' = us_username account \<or> changed_username account input)
     \<and> (us_password_hash account \<noteq> None \<longrightarrow> us_password_hash account' \<noteq> None)"
  using assms
  by (auto simp: profile_username_def profile_password_def result_bind_def split: option.splits sum.splits if_splits)

lemma update_profile_ok:
  assumes ok: "auth_ok A" shows "auth_ok (fst (update_profile env p input now A))"
proof (cases "auth_ok (fst (update_profile env p input now A))")
  case False
  then obtain account account' A1 r
    where u: "find_user (\<lambda>u. Some (us_id u) = ap_id p) A = Some account"
      and chk: "changed_username account input \<or> pi_new_password input \<noteq> None \<longrightarrow> is_ok (check_current_password env account input)"
      and bind: "result_bind (profile_username account input A) (profile_password env input (au_tick A)) = Inr account'"
      and upd: "update_user (account'\<lparr>us_display_name := trim (pi_display_name input), us_updated_at := now\<rparr>) (tick A) = (A1, r)"
      and A1: "\<not> auth_ok A1"
    using ok
    by (auto simp: update_profile_def result_bind_def is_ok_def split: option.splits if_splits sum.splits prod.splits
        dest!: contrapos_nn [OF _ delete_sessions_ok])
  note mem = find_user_mem [OF u]
  have "us_username account' \<noteq> None \<longrightarrow> us_password_hash account' \<noteq> None"
    using profile_changes [OF bind] auth_ok_credentials [OF ok, of account] mem chk
    by (auto simp: check_current_password_def is_ok_def split: option.splits)
  then show ?thesis
    using update_user_ok [OF _ upd, of account] ok A1 mem profile_changes [OF bind] by simp
qed

lemma auth_exec_ok: "auth_ok A \<Longrightarrow> auth_ok (auth_exec env op A)"
  by (cases op)
    (auto simp: logout_handler_def revoke_session_def split: option.splits
      intro!: start_ok login_ok authenticate_ok cleanup_ok authorize_ok finish_oidc_ok update_profile_ok)

interpretation auth_run: operation_system "auth_exec env" "\<lambda>_. True" auth_ok for env
  by unfold_locales (rule auth_exec_ok)

end
