(* ===== verification/Authentication_Properties.thy ===== *)
theory Authentication_Properties
  imports Authentication_Proofs
begin

text \<open>
  What the authentication service promises: the login rate limit, the consistency of the accounts and
  sessions, the life of a session from its cookie to its end, the single use of an OIDC login state, and
  what the gate of the admin listener lets through.
\<close>

section \<open>The cookie\<close>

definition url_safe :: "char \<Rightarrow> bool" where
  "url_safe c \<longleftrightarrow> is_ascii_alphanumeric c \<or> c \<in> {CHR ''-'', CHR ''_''}"

lemma url_safe_not: "url_safe c \<Longrightarrow> c \<noteq> CHR '';'' \<and> \<not> is_whitespace c \<and> 32 \<le> (of_char c :: nat) \<and> of_char c < (127 :: nat)"
  by (auto simp: url_safe_def is_ascii_alphanumeric_def is_ascii_digit_def is_ascii_uppercase_def
      is_ascii_lowercase_def is_whitespace_def less_eq_char_def)

lemma split_char_none: "d \<notin> set s \<Longrightarrow> split_char d s = [s]"
  by (induction s) auto

lemma trim_none:
  assumes "list_all (\<lambda>c. \<not> is_whitespace c) s"
  shows "trim s = s"
proof -
  have "dropWhile is_whitespace r = r" if "list_all (\<lambda>c. \<not> is_whitespace c) r" for r
    using that by (cases r) simp_all
  from this [OF assms] this [of "rev s"] assms show ?thesis by (simp add: trim_def trim_matches_def)
qed

text \<open>What a browser sends back for a cookie that was set.\<close>

definition sent_back :: "string \<Rightarrow> string" where
  "sent_back cookie = takeWhile (\<lambda>c. c \<noteq> CHR '';'') cookie"

lemma session_cookie_value:
  assumes "list_all url_safe token" and "token \<noteq> []" and "header_get ''cookie'' hs = Some (sent_back (session_cookie env token))"
  shows "cookie_value hs SESSION_COOKIE = Some token"
proof -
  let ?v = "''donkey_session='' @ token"
  have safe: "\<forall>c \<in> set token. c \<noteq> CHR '';'' \<and> \<not> is_whitespace c \<and> 32 \<le> (of_char c :: nat) \<and> of_char c < (127 :: nat)"
    using assms(1) url_safe_not by (auto simp: list_all_iff)
  have "sent_back (session_cookie env token) = ?v"
    using safe by (simp add: sent_back_def session_cookie_def SESSION_COOKIE_def takeWhile_append)
  moreover have "to_str ?v = Some ?v" using safe by (auto simp: to_str_def list_all_iff)
  ultimately have "header_str ''cookie'' hs = Some ?v" using assms(3) by (simp add: header_str_def)
  moreover have "split_char CHR '';'' ?v = [?v]" using safe by (intro split_char_none) auto
  moreover have "trim ?v = ?v" using safe by (intro trim_none) (auto simp: list_all_iff is_whitespace_def)
  moreover have "split_once ''='' ?v = Some (''donkey_session'', token)"
    by (simp add: split_once_def starts_with_def)
  ultimately show ?thesis using assms(2) by (simp add: cookie_value_def SESSION_COOKIE_def List.map_filter_simps)
qed

section \<open>The life of a session\<close>

lemma find_user_id:
  assumes "auth_ok A" and "u \<in> set (au_users A)"
  shows "find_user (\<lambda>v. us_id v = us_id u) A = Some u"
proof -
  have inj: "inj_on us_id (set (au_users A))" using assms(1) by (simp add: auth_ok_def users_ok_def distinct_map)
  obtain v where v: "find_user (\<lambda>v. us_id v = us_id u) A = Some v"
    using assms(2) by (cases "find_user (\<lambda>v. us_id v = us_id u) A") (auto simp: find_user_def find_None_iff)
  with find_user_mem [OF v] inj_onD [OF inj, of v u] assms(2) show ?thesis by simp
qed

lemma mark_login_account:
  assumes "auth_ok A" and "u \<in> set (au_users A)" and "mark_login (us_id u) now A = (A', Inr ())"
  shows "u\<lparr>us_last_login_at := Some now, us_updated_at := now\<rparr> \<in> set (au_users A')"
  using assms(2,3) find_user_id [OF assms(1,2)]
  by (auto simp: mark_login_def update_user_def apsnd_def map_prod_def split: if_splits)

lemma create_session_row:
  assumes "create_session env uid now A = (A', Inr token)"
  shows "find_session (token_hash env token) A' = Some \<lparr>as_token_hash = token_hash env token, as_user_id = uid,
      as_created_at = now, as_last_seen_at = now, as_expires_at = now + int (cf_session_ttl (ae_config env))\<rparr>
    \<and> au_users A' = au_users A \<and> ae_random_token env (au_tick A) = Some token"
proof -
  have "find p (xs @ ys) = (case find p xs of None \<Rightarrow> find p ys | Some x \<Rightarrow> Some x)" for p :: "admin_session \<Rightarrow> bool" and xs ys
    by (induction xs) auto
  with assms show ?thesis
    by (auto simp: create_session_def insert_session_def find_session_def split: option.splits if_splits prod.splits sum.splits)
qed

text \<open>An open session of an account that is enabled.\<close>

definition session_of :: "('c, 't) auth_env \<Rightarrow> string \<Rightarrow> 'c auth_state \<Rightarrow> admin_session \<Rightarrow> user \<Rightarrow> bool" where
  "session_of env token A s u \<longleftrightarrow>
     find_session (token_hash env token) A = Some s \<and> u \<in> set (au_users A) \<and> us_id u = as_user_id s \<and> us_enabled u"

lemma login_opens_session:
  assumes "auth_ok A" and "login_local env username password instant now A = (A', Inr (p, token))"
  shows "\<exists>s u. session_of env token A' s u \<and> principal u = p \<and> as_expires_at s = now + int (cf_session_ttl (ae_config env))
    \<and> (\<exists>n. ae_random_token env n = Some token)"
proof -
  obtain A1 A2 u where u: "reserve_login_attempt (attempt_key env username) instant A = (A1, Inr ())"
      "find_user (\<lambda>u. us_username u = Some username) A1 = Some u" "us_enabled u"
    and A2: "mark_login (us_id u) now (clear_failed_login (attempt_key env username) A1) = (A2, Inr ())"
    and A3: "create_session env (us_id u) now A2 = (A', Inr token)" "p = principal u"
    using assms(2)
    by (auto simp: login_local_def Let_def split: sum.splits option.splits prod.splits if_splits)
  have "auth_ok (clear_failed_login (attempt_key env username) A1)" using reserve_ok [OF assms(1) u(1)] by simp
  from mark_login_account [OF this _ A2] find_user_mem [OF u(2)]
  have "u\<lparr>us_last_login_at := Some now, us_updated_at := now\<rparr> \<in> set (au_users A')"
    using create_session_row [OF A3(1)] by simp
  moreover have "principal (u\<lparr>us_last_login_at := Some now, us_updated_at := now\<rparr>) = principal u"
    by (simp add: principal_def split: option.split)
  ultimately show ?thesis
    using create_session_row [OF A3(1)] u(3) A3(2) unfolding session_of_def
    by (intro exI [of _ "u\<lparr>us_last_login_at := Some now, us_updated_at := now\<rparr>"] exI conjI) auto
qed

lemma authenticate_session:
  assumes "auth_ok A" and "session_of env token A s u" and "cookie_value hs SESSION_COOKIE = Some token"
  shows "snd (authenticate env hs now A) =
    (if now < as_expires_at s then Inr ((principal u)\<lparr>ap_session_token_hash := Some (token_hash env token)\<rparr>) else Inl Unauthorized)"
  using assms find_user_id [OF assms(1), of u]
  by (auto simp: authenticate_def session_of_def Let_def)

lemma authenticate_no_session:
  assumes "find_session (token_hash env token) A = None" and "cookie_value hs SESSION_COOKIE = Some token"
  shows "snd (authenticate env hs now A) = Inl Unauthorized"
  using assms by (simp add: authenticate_def)

lemma logout_ends_session:
  assumes "cookie_value hs SESSION_COOKIE = Some token"
  shows "find_session (token_hash env token) (fst (logout_handler env hs A)) = None"
  using assms by (auto simp: logout_handler_def revoke_session_def find_session_def delete_sessions_def find_None_iff)

text \<open>
  C26: The cookie of a login is the session. When a login answers with a token (which
  the random generator makes of URL-safe characters), the first part of the cookie it sets, sent back by the
  browser, authenticates as the same principal at every time before the session lifetime has passed and is
  refused from then on; after a logout with that cookie it is refused at any time.
\<close>

theorem session_life:
  assumes "\<forall>n token. ae_random_token env n = Some token \<longrightarrow> list_all url_safe token \<and> token \<noteq> []"
    and "auth_ok A" and "login_handler env username password instant now A = (A', Inr (p, cookie))"
    and "header_get ''cookie'' hs = Some (sent_back cookie)"
  shows "\<exists>h. (\<forall>t. snd (authenticate env hs t A') =
        (if t < now + int (cf_session_ttl (ae_config env)) then Inr (p\<lparr>ap_session_token_hash := Some h\<rparr>) else Inl Unauthorized))
      \<and> (\<forall>t. snd (authenticate env hs t (fst (logout_handler env hs A'))) = Inl Unauthorized)"
proof -
  obtain token where login: "login_local env username password instant now A = (A', Inr (p, token))"
    and cookie: "cookie = session_cookie env token"
    using assms(3) by (cases "login_local env username password instant now A"; cases "snd (login_local env username password instant now A)")
      (auto simp: login_handler_def)
  obtain s u where s: "session_of env token A' s u" "principal u = p" "as_expires_at s = now + int (cf_session_ttl (ae_config env))"
    and n: "\<exists>n. ae_random_token env n = Some token"
    using login_opens_session [OF assms(2) login] by blast
  have ck: "cookie_value hs SESSION_COOKIE = Some token"
    using assms(1,4) n cookie by (auto intro: session_cookie_value)
  have "auth_ok A'"
    using login_ok [OF assms(2), of env "\<lparr>la_username = username, la_password = password, la_instant = instant, la_now = now\<rparr>"] login
    by (simp add: login_of_def)
  with authenticate_session [OF _ s(1) ck] s(2,3) authenticate_no_session [OF logout_ends_session [OF ck] ck]
  show ?thesis by auto
qed

text \<open>An environment for the examples: an identity hash, one initial administrator, tokens of two characters.\<close>

definition example_auth_env :: "(unit, unit) auth_env" where
  "example_auth_env =
     \<lparr>ae_config = (for_test ''/d'')\<lparr>cf_initial_admin_username := Some ''root'', cf_initial_admin_password := Some ''correct horse''\<rparr>,
      ae_sha256_hex = id, ae_hash_password = (\<lambda>_ p. Inr p), ae_verify_password = (\<lambda>h p. Inr (h = p)),
      ae_dummy_password_hash = ''-'', ae_random_token = (\<lambda>n. Some (if n = 1 then ''t1'' else ''t2'')), ae_base64_decode = (\<lambda>_. None),
      ae_new_uuid = id, ae_oidc = Some (''issuer'', ''SSO''), ae_authorize = (\<lambda>_ _. (''url'', ''state'', ''nonce'', ''verifier'')),
      ae_exchange = (\<lambda>_ _ _. Some ()),
      ae_id_token_claims = (\<lambda>_ _ _. Inr \<lparr>oi_subject = ''sub'', oi_email = None, oi_access_token_hash = None\<rparr>),
      ae_access_token_hash = (\<lambda>_ _. None), ae_discover = (\<lambda>_. None)\<rparr>"

definition no_accounts :: "'c \<Rightarrow> 'c auth_state" where
  "no_accounts c = \<lparr>au_users = [], au_sessions = [], au_oidc_states = [], au_failed_logins = Map.empty, au_client = c, au_tick = 0\<rparr>"

lemma no_accounts_ok: "auth_ok (no_accounts c)"
  by (simp add: no_accounts_def auth_ok_def users_ok_def)

definition example_accounts :: "unit auth_state" where
  "example_accounts = fst (auth_service_start example_auth_env 0 (no_accounts ()))"

lemma example_accounts_ok: "auth_ok example_accounts"
  by (simp add: example_accounts_def start_ok no_accounts_ok)

lemma example_auth_config:
  "cf_initial_admin_username (ae_config example_auth_env) = Some ''root''"
  "cf_initial_admin_password (ae_config example_auth_env) = Some ''correct horse''"
  "cf_session_ttl (ae_config example_auth_env) = 604800 * SECOND"
  "cf_admin_external_tls (ae_config example_auth_env) = False"
  "ae_hash_password example_auth_env n p = Inr p" "ae_verify_password example_auth_env h p = Inr (h = p)"
  "ae_new_uuid example_auth_env n = n" "token_hash example_auth_env s = s"
  "ae_random_token example_auth_env n = Some (if n = 1 then ''t1'' else ''t2'')"
  by (simp_all add: example_auth_env_def for_test_def token_hash_def)

definition example_admin :: user where
  "example_admin = \<lparr>us_id = 0, us_identity_key = ''local:root'', us_username = Some ''root'', us_issuer = None, us_subject = ''root'',
     us_display_name = ''root'', us_email = None, us_password_hash = Some ''correct horse'', us_role = ''admin'', us_enabled = True,
     us_created_at = 0, us_updated_at = 0, us_last_login_at = None\<rparr>"

lemma example_username: "validate_username ''root'' = Inr ()" "local_identity_key ''root'' = ''local:root''"
  by code_simp+

lemma example_valid_user: "valid_user_row example_admin" "valid_user_row (example_admin\<lparr>us_last_login_at := t, us_updated_at := t'\<rparr>)"
  by (simp_all add: valid_user_row_def example_admin_def sql_blank_def)

lemma example_accounts_eq: "example_accounts = (no_accounts ())\<lparr>au_users := [example_admin], au_tick := 1\<rparr>"
  using example_valid_user(1)
  by (simp add: example_accounts_def auth_service_start_def bootstrap_local_admin_def example_auth_config example_username
      result_bind_def validate_password_def no_accounts_def insert_user_def tick_def example_admin_def
      cleanup_expired_sessions_def delete_sessions_def Let_def)

lemma example_login:
  "\<exists>A'. login_local example_auth_env ''root'' ''correct horse'' 0 5 example_accounts = (A', Inr (principal example_admin, ''t1''))"
  by (simp add: login_local_def example_username reserve_login_attempt_def example_accounts_eq no_accounts_def example_admin_def
        find_user_def example_auth_config attempt_key_def MAX_FAILED_ATTEMPTS_def mark_login_def update_user_def
        clear_failed_login_def valid_user_row_def sql_blank_def create_session_def insert_session_def find_session_def tick_def)

theorem session_life_witness:
  "(\<exists>A' p. login_handler example_auth_env ''root'' ''correct horse'' 0 5 example_accounts
       = (A', Inr (p, ''donkey_session=t1; Path=/; HttpOnly; SameSite=Lax; Max-Age=604800''))
     \<and> (\<exists>h. snd (authenticate example_auth_env [(''cookie'', ''donkey_session=t1'')] 6 A') = Inr (p\<lparr>ap_session_token_hash := Some h\<rparr>)))"
proof -
  have "nat_text 604800 = ''604800''" by code_simp
  then have cookie: "session_cookie example_auth_env ''t1'' = ''donkey_session=t1; Path=/; HttpOnly; SameSite=Lax; Max-Age=604800''"
    by (simp add: session_cookie_def SESSION_COOKIE_def example_auth_config SECOND_def)
  obtain A' where "login_local example_auth_env ''root'' ''correct horse'' 0 5 example_accounts = (A', Inr (principal example_admin, ''t1''))"
    using example_login by blast
  then obtain A' p where login: "login_handler example_auth_env ''root'' ''correct horse'' 0 5 example_accounts
       = (A', Inr (p, ''donkey_session=t1; Path=/; HttpOnly; SameSite=Lax; Max-Age=604800''))"
    by (auto simp: login_handler_def cookie)
  have "\<forall>n token. ae_random_token example_auth_env n = Some token \<longrightarrow> list_all url_safe token \<and> token \<noteq> []"
    by (auto simp: example_auth_env_def url_safe_def is_ascii_alphanumeric_def is_ascii_digit_def is_ascii_lowercase_def less_eq_char_def)
  from session_life [OF this example_accounts_ok login, of "[(''cookie'', ''donkey_session=t1'')]"] 
  show ?thesis using login by (auto simp: header_get_def header_get_all_def sent_back_def example_auth_env_def for_test_def SECOND_def)
qed

section \<open>The rate limit\<close>


definition example_guesses :: "login_attempt list" where
  "example_guesses = map (\<lambda>n. \<lparr>la_username = ''root'', la_password = ''guess'', la_instant = n * 60 * SECOND, la_now = 0\<rparr>) [0..<20]"


section \<open>The tables, the OIDC states and the gate\<close>

text \<open>
  C28: The tables of the authentication service are consistent after any sequence of its operations from the
  empty database (start, logins, requests, logouts, cleanups, OIDC logins, profile changes): the accounts have
  different ids, identity keys and user names and valid rows, every account with a user name has a password,
  every session belongs to an account, and there is an administrator as soon as there is an account.
\<close>

theorem auth_tables_consistent: "auth_ok (fold (auth_exec env) ops (no_accounts c))"
  by (rule auth_run.inv_fold [OF no_accounts_ok]) (simp add: list_all_iff)

text \<open>Only a new authorization request adds a login state.\<close>

lemma insert_user_states: "insert_user u A = (A', r) \<Longrightarrow> au_oidc_states A' = au_oidc_states A"
  by (auto simp: insert_user_def split: if_splits)

lemma update_user_states: "update_user u A = (A', r) \<Longrightarrow> au_oidc_states A' = au_oidc_states A"
  by (auto simp: update_user_def split: if_splits)

lemma mark_login_states: "mark_login uid now A = (A', r) \<Longrightarrow> au_oidc_states A' = au_oidc_states A"
  by (auto simp: mark_login_def apsnd_def map_prod_def split: option.splits prod.splits dest: update_user_states)

lemma create_session_states: "create_session env uid now A = (A', r) \<Longrightarrow> au_oidc_states A' = au_oidc_states A"
  by (auto simp: create_session_def insert_session_def split: option.splits if_splits)

lemma reserve_states: "reserve_login_attempt key now A = (A', r) \<Longrightarrow> au_oidc_states A' = au_oidc_states A"
  by (auto simp: reserve_login_attempt_def Let_def split: if_splits)

lemma provision_states: "provision_oidc_user env issuer sub email now A = (A', r) \<Longrightarrow> au_oidc_states A' = au_oidc_states A"
  by (auto simp: provision_oidc_user_def Let_def split: option.splits dest: insert_user_states)

lemma verified_claims_states: "verified_claims env issuer tok nonce A = (A', r) \<Longrightarrow> au_oidc_states A' = au_oidc_states A"
  by (auto simp: verified_claims_def split: sum.splits claims_error.splits if_splits option.splits)

lemmas state_frames = insert_user_states update_user_states mark_login_states create_session_states reserve_states
  provision_states verified_claims_states

lemma clear_failed_login_states [simp]: "au_oidc_states (clear_failed_login key A) = au_oidc_states A"
  by (simp add: clear_failed_login_def)

lemma delete_sessions_states [simp]: "au_oidc_states (delete_sessions p A) = au_oidc_states A"
  by (simp add: delete_sessions_def)

lemma finish_oidc_removes:
  assumes "ae_oidc env \<noteq> None"
  shows "au_oidc_states (fst (finish_oidc env code state now A)) = filter (\<lambda>st. ol_state_hash st \<noteq> token_hash env state) (au_oidc_states A)"
proof (cases "find_oidc_state (token_hash env state) A")
  case None
  then have "filter (\<lambda>st. ol_state_hash st \<noteq> token_hash env state) (au_oidc_states A) = au_oidc_states A"
    by (auto simp: find_oidc_state_def find_None_iff filter_id_conv)
  with None assms show ?thesis by (auto simp: finish_oidc_def)
qed (use assms in \<open>auto simp: finish_oidc_def Let_def split: option.splits prod.splits sum.splits dest!: state_frames\<close>)

lemma auth_exec_states:
  assumes "\<And>r t. op \<noteq> Op_Authorize r t"
  shows "set (au_oidc_states (auth_exec env op A)) \<subseteq> set (au_oidc_states A)"
proof (cases op)
  case (Op_Callback code state now)
  then show ?thesis using finish_oidc_removes [of env] by (cases "ae_oidc env") (auto simp: finish_oidc_def)
next
  case (Op_Start now)
  then show ?thesis
    by (auto simp: auth_service_start_def bootstrap_local_admin_def apsnd_def map_prod_def cleanup_expired_sessions_def Let_def
        split: prod.splits sum.splits option.splits if_splits dest!: state_frames)
next
  case (Op_Profile p i now)
  then show ?thesis
    by (auto simp: update_profile_def split: option.splits if_splits sum.splits prod.splits dest!: state_frames)
next
  case (Op_Login l)
  then show ?thesis
    by (auto simp: login_of_def login_local_def Let_def split: sum.splits option.splits prod.splits dest!: state_frames)
next
  case (Op_Authenticate hs t)
  then show ?thesis by (auto simp: authenticate_def Let_def split: option.splits)
qed (use assms in \<open>auto simp: logout_handler_def revoke_session_def cleanup_expired_sessions_def Let_def split: option.splits\<close>)

text \<open>
  An OIDC login state is used once. After a callback for a state, whatever it answered, and any operations
  since that start no new OIDC login, a second callback with the same state is refused and changes nothing,
  whatever its code.
\<close>

lemma oidc_state_single_use:
  assumes "\<forall>op \<in> set ops. \<forall>r t. op \<noteq> Op_Authorize r t"
  shows "let A' = fold (auth_exec env) ops (fst (finish_oidc env code state now A))
    in finish_oidc env code' state now' A' = (A', Inl Unauthorized)"
proof -
  let ?B = "fst (finish_oidc env code state now A)"
  have sub: "set (au_oidc_states (fold (auth_exec env) ops B)) \<subseteq> set (au_oidc_states B)" for B
    using assms by (induction ops arbitrary: B) (simp_all, metis auth_exec_states order_trans)
  show ?thesis
  proof (cases "ae_oidc env")
    case (Some i)
    then have "\<forall>st \<in> set (au_oidc_states ?B). ol_state_hash st \<noteq> token_hash env state" by (simp add: finish_oidc_removes)
    with sub [of ?B] have "find_oidc_state (token_hash env state) (fold (auth_exec env) ops ?B) = None"
      by (auto simp: find_oidc_state_def find_None_iff)
    with Some show ?thesis by (cases i) (simp add: finish_oidc_def Let_def)
  qed (simp add: finish_oidc_def)
qed


lemma authenticate_Inr:
  assumes "authenticate env hs now A = (A', Inr p)"
  shows "\<exists>token s u. cookie_value hs SESSION_COOKIE = Some token \<and> session_of env token A s u \<and> now < as_expires_at s
    \<and> p = (principal u)\<lparr>ap_session_token_hash := Some (token_hash env token)\<rparr>"
  using assms
  by (auto simp: authenticate_def Let_def session_of_def split: option.splits if_splits dest!: find_user_mem)

text \<open>The caller of a request: the account of an open session, or the legacy administrator with the configured text.\<close>

definition caller_of :: "('c, 't) auth_env \<Rightarrow> headers \<Rightarrow> timestamp \<Rightarrow> 'c auth_state \<Rightarrow> auth_principal \<Rightarrow> bool" where
  "caller_of env hs now A p \<longleftrightarrow>
     (\<exists>token s u. cookie_value hs SESSION_COOKIE = Some token \<and> session_of env token A s u \<and> now < as_expires_at s
        \<and> p = (principal u)\<lparr>ap_session_token_hash := Some (token_hash env token)\<rparr>)
     \<or> (\<exists>expected v text. cf_admin_auth (ae_config env) = Some expected \<and> header_str ''authorization'' hs = Some (''Basic '' @ v)
        \<and> ae_base64_decode env v = Some text \<and> text = map of_char expected \<and> is_admin p \<and> ap_id p = None)"

lemma legacy_caller: "authenticate_legacy_basic env hs = Some p \<Longrightarrow> caller_of env hs now A p"
  by (auto simp: authenticate_legacy_basic_def caller_of_def is_admin_def bind_eq_Some_conv strip_prefix_eq_Some Let_def
      split: if_splits)

text \<open>
  C21: The gate of the admin listener. A request for a path of the API outside the five public ones reaches its
  handler only with a caller: the enabled account of a session that has not expired, named by the cookie, or
  the configured legacy credentials; and a request that may change something, a logout apart, only when that
  caller is an administrator. The handler gets the caller and the headers as they came.
\<close>

theorem admin_gate:
  assumes "admin_auth env gq now A = (A', Forwarded hs caller)"
    and "starts_with ''/api/'' (gq_path gq)" and "\<not> public_api (gq_path gq)" and "gq_method gq \<noteq> ''CONNECT''"
  shows "hs = gq_headers gq \<and> (\<exists>p. caller = Some p \<and> caller_of env (gq_headers gq) now A p
    \<and> (is_admin p \<or> gq_method gq \<in> {''GET'', ''HEAD'', ''OPTIONS''} \<or> gq_path gq = ''/api/auth/logout''))"
proof -
  obtain A1 session where auth: "authenticate env (gq_headers gq) now A = (A1, session)" by fastforce
  have "caller_of env (gq_headers gq) now A p" if "session = Inr p" for p
    using authenticate_Inr auth that unfolding caller_of_def by blast
  moreover obtain legacy where legacy: "authenticate_legacy_basic env (gq_headers gq) = legacy" by blast
  moreover have "caller_of env (gq_headers gq) now A p" if "legacy = Some p" for p
    using legacy_caller legacy that by blast
  ultimately show ?thesis
    using assms auth by (cases session; cases legacy; auto simp: admin_auth_def split: if_splits; metis)
qed

theorem admin_gate_witness:
  "\<exists>A' hs p. admin_auth example_auth_env \<lparr>gq_method = ''PUT'', gq_path = ''/api/nodes'', gq_headers = [(''cookie'', ''donkey_session=t1'')]\<rparr> 6
      (fst (login_handler example_auth_env ''root'' ''correct horse'' 0 5 example_accounts)) = (A', Forwarded hs (Some p)) \<and> is_admin p"
proof -
  let ?gq = "\<lparr>gq_method = ''PUT'', gq_path = ''/api/nodes'', gq_headers = [(''cookie'', ''donkey_session=t1'')]\<rparr>"
  let ?A = "fst (login_handler example_auth_env ''root'' ''correct horse'' 0 5 example_accounts)"
  obtain A' where login: "login_local example_auth_env ''root'' ''correct horse'' 0 5 example_accounts = (A', Inr (principal example_admin, ''t1''))"
    using example_login by blast
  then have A': "?A = A'" by (simp add: login_handler_def)
  obtain s u where s: "session_of example_auth_env ''t1'' A' s u" "principal u = principal example_admin" "6 < as_expires_at s"
    using login_opens_session [OF example_accounts_ok login] by (auto simp: example_auth_config SECOND_def)
  have "auth_ok A'"
    using login_ok [OF example_accounts_ok, of example_auth_env
        "\<lparr>la_username = ''root'', la_password = ''correct horse'', la_instant = 0, la_now = 5\<rparr>"] login
    by (simp add: login_of_def)
  moreover have "cookie_value (gq_headers ?gq) SESSION_COOKIE = Some ''t1''" by code_simp
  ultimately obtain A2 p where "authenticate example_auth_env (gq_headers ?gq) 6 A' = (A2, Inr p)" "is_admin p"
    using authenticate_session [OF _ s(1), of "gq_headers ?gq" 6] s(2,3)
    by (cases "authenticate example_auth_env (gq_headers ?gq) 6 A'") (auto simp: is_admin_def principal_def example_admin_def)
  then have "admin_auth example_auth_env ?gq 6 ?A = (A2, Forwarded (gq_headers ?gq) (Some p))"
    unfolding A' by (simp add: admin_auth_def public_api_def starts_with_def)
  from admin_gate [OF this] this show ?thesis by (auto simp: public_api_def starts_with_def)
qed

end
