(* ===== verification/Pull_History.thy ===== *)
theory Pull_History
  imports Registry_Routes Authentication
begin

text \<open>
  The history of image pulls: the statements on the table \<open>pull_events\<close> of \<^verbatim>\<open>src/src/db.rs\<close>, the runtime
  flags of \<^verbatim>\<open>src/src/state.rs\<close> and the page of \<^verbatim>\<open>src/src/api.rs\<close>. The table is part of the route tables; the
  order of SQLite on the stored times and ids is the numeric one.
\<close>

section \<open>Statements\<close>

definition DEDUPE :: int where
  "DEDUPE = 5000000000"

text \<open>The trigger \<open>trg_pull_events_validate_insert\<close>.\<close>

definition valid_pull_event :: "pull_event \<Rightarrow> route_tables \<Rightarrow> bool" where
  "valid_pull_event e T \<longleftrightarrow>
     (\<exists>r \<in> set (rt_routes T). rr_id r = pe_registry_route_id e) \<and> 100 \<le> pe_status_code e \<and> pe_status_code e \<le> 599
     \<and> \<not> sql_blank (pe_repository e) \<and> \<not> sql_blank (pe_reference e)"

definition same_pull :: "pull_event \<Rightarrow> pull_event \<Rightarrow> bool" where
  "same_pull a b \<longleftrightarrow>
     pe_registry_route_id a = pe_registry_route_id b \<and> pe_repository a = pe_repository b \<and> pe_reference a = pe_reference b"

definition insert_pull_event :: "pull_event \<Rightarrow> route_tables \<Rightarrow> route_tables api_result" where
  "insert_pull_event e T =
     (if \<exists>x \<in> set (rt_pulls T). same_pull x e \<and> pe_created_at e - DEDUPE \<le> pe_created_at x then Inr T
      else if \<not> valid_pull_event e T then Inl (Database ''invalid pull event'')
      else if \<exists>x \<in> set (rt_pulls T). pe_id x = pe_id e then Inl (Database ''UNIQUE constraint failed'')
      else Inr (T\<lparr>rt_pulls := rt_pulls T @ [e]\<rparr>))"

text \<open>\<open>ORDER BY created_at DESC, id DESC\<close>.\<close>

definition newer :: "pull_event \<Rightarrow> pull_event \<Rightarrow> bool" where
  "newer a b \<longleftrightarrow> pe_created_at b < pe_created_at a \<or> pe_created_at b = pe_created_at a \<and> pe_id b \<le> pe_id a"

definition list_pull_events :: "nat \<Rightarrow> route_tables \<Rightarrow> pull_event list" where
  "list_pull_events limit T =
     take (min limit 10000) (sort_by (\<lambda>a b. pe_created_at b \<le> pe_created_at a) (rt_pulls T))"

definition paginate_pull_events :: "nat \<Rightarrow> nat \<Rightarrow> route_tables \<Rightarrow> pull_event list \<times> nat" where
  "paginate_pull_events page page_size T =
     (let page = max page 1; page_size = clamp 1 100 page_size in
      (take page_size (drop (u64_saturating_mul (u64_saturating_sub page 1) page_size) (sort_by newer (rt_pulls T))),
       length (rt_pulls T)))"

definition clear_pull_events :: "route_tables \<Rightarrow> route_tables \<times> nat" where
  "clear_pull_events T = (T\<lparr>rt_pulls := []\<rparr>, length (rt_pulls T))"

definition prune_pull_events :: "timestamp \<Rightarrow> nat \<Rightarrow> route_tables \<Rightarrow> route_tables \<times> nat" where
  "prune_pull_events cutoff max_entries T =
     (let offset = min max_entries i64_max;
          kept = filter (\<lambda>e. \<not> pe_created_at e < cutoff) (rt_pulls T);
          expired = length (rt_pulls T) - length kept;
          overflow_ids = set (map pe_id (drop offset (sort_by newer kept)));
          left = filter (\<lambda>e. pe_id e \<notin> overflow_ids) kept;
          overflow = length kept - length left
      in (T\<lparr>rt_pulls := left\<rparr>, u64_saturating_add expired overflow))"

section \<open>Flags and the page of the API\<close>

record runtime_flags =
  rf_pull_logging_enabled :: bool
  rf_pull_log_retention_days :: nat
  rf_pull_log_max_entries :: nat

definition runtime_flags_new :: "config \<Rightarrow> runtime_flags" where
  "runtime_flags_new c =
     \<lparr>rf_pull_logging_enabled = cf_pull_logging_enabled c, rf_pull_log_retention_days = cf_pull_log_retention_days c,
      rf_pull_log_max_entries = cf_pull_log_max_entries c\<rparr>"

definition runtime_flags_update :: "config \<Rightarrow> runtime_flags \<Rightarrow> runtime_flags" where
  "runtime_flags_update c rf =
     rf\<lparr>rf_pull_logging_enabled := cf_pull_logging_enabled c, rf_pull_log_retention_days := cf_pull_log_retention_days c,
        rf_pull_log_max_entries := cf_pull_log_max_entries c\<rparr>"

record pull_event_page =
  pp_items :: "pull_event list"
  pp_total :: nat
  pp_page :: nat
  pp_page_size :: nat

definition pull_event_page_of :: "nat \<Rightarrow> nat \<Rightarrow> route_tables \<Rightarrow> pull_event_page" where
  "pull_event_page_of page page_size T =
     (let page = max page 1; page_size = clamp 1 100 page_size; (items, total_n) = paginate_pull_events page page_size T
      in \<lparr>pp_items = items, pp_total = total_n, pp_page = page, pp_page_size = page_size\<rparr>)"

text \<open>The end of a manifest pull in \<open>handle_inner\<close>: the event, and the pruning when it was recorded.\<close>

definition DAY :: int where
  "DAY = 86400000000000"

definition record_pull :: "runtime_flags \<Rightarrow> timestamp \<Rightarrow> pull_event \<Rightarrow> route_tables \<Rightarrow> route_tables" where
  "record_pull rf now e T =
     (case insert_pull_event e T of
        Inl _ \<Rightarrow> T
      | Inr T1 \<Rightarrow>
          fst (prune_pull_events (now - int (rf_pull_log_retention_days rf) * DAY) (rf_pull_log_max_entries rf) T1))"

section \<open>Properties\<close>

interpretation newest_first: total_preorder newer
  by unfold_locales (auto simp: newer_def)

text \<open>The rank of an entry in a list sorted by a total preorder whose equivalent elements are equal.\<close>

lemma sorted_rank:
  assumes "sorted_wrt newer S" and "distinct (map pe_id S)" and "i < length S"
  shows "card {x \<in> set S. newer x (S ! i) \<and> x \<noteq> S ! i} = i"
proof -
  have anti: "j = i" if "newer (S ! j) (S ! i)" "newer (S ! i) (S ! j)" "j < length S" for j
  proof -
    have "map pe_id S ! j = map pe_id S ! i" using that assms(3) by (auto simp: newer_def)
    then show ?thesis using nth_eq_iff_index_eq [OF assms(2)] that(3) assms(3) by simp
  qed
  have "{x \<in> set S. newer x (S ! i) \<and> x \<noteq> S ! i} = set (take i S)"
  proof (intro set_eqI iffI)
    fix x assume "x \<in> {x \<in> set S. newer x (S ! i) \<and> x \<noteq> S ! i}"
    then obtain j where j: "j < length S" "x = S ! j" "newer (S ! j) (S ! i)" "j \<noteq> i" by (auto simp: in_set_conv_nth)
    have "\<not> i < j" using anti [OF j(3) _ j(1)] sorted_wrt_nth_less [OF assms(1), of i j] j(1,4) by auto
    with j show "x \<in> set (take i S)" by (auto simp: in_set_conv_nth)
  next
    fix x assume "x \<in> set (take i S)"
    then obtain j where j: "j < i" "x = S ! j" using assms(3) by (auto simp: in_set_conv_nth)
    moreover have "x \<noteq> S ! i" using j assms(2,3) nth_eq_iff_index_eq [of S j i] by (auto simp: distinct_map)
    ultimately show "x \<in> {x \<in> set S. newer x (S ! i) \<and> x \<noteq> S ! i}"
      using sorted_wrt_nth_less [OF assms(1), of j i] assms(3) by simp
  qed
  moreover have "distinct (take i S)" using assms(2) by (simp add: distinct_map)
  ultimately show ?thesis using assms(3) by (simp add: distinct_card)
qed

lemma in_take_iff_rank:
  assumes "sorted_wrt newer S" and "distinct (map pe_id S)" and "e \<in> set S"
  shows "pe_id e \<notin> set (map pe_id (drop n S)) \<longleftrightarrow> card {x \<in> set S. newer x e \<and> x \<noteq> e} < n"
proof -
  obtain i where i: "i < length S" "e = S ! i" using assms(3) by (auto simp: in_set_conv_nth)
  have "pe_id e \<in> set (map pe_id (drop n S)) \<longleftrightarrow> n \<le> i"
  proof
    assume "pe_id e \<in> set (map pe_id (drop n S))"
    then obtain j where j: "n + j < length S" "pe_id (S ! (n + j)) = pe_id (S ! i)"
      by (force simp: in_set_conv_nth i(2) less_diff_conv add.commute)
    then have "n + j = i" using nth_eq_iff_index_eq [OF assms(2), of "n + j" i] i(1) by simp
    then show "n \<le> i" by simp
  next
    assume "n \<le> i"
    then have "e = drop n S ! (i - n)" "i - n < length (drop n S)" using i by simp_all
    then show "pe_id e \<in> set (map pe_id (drop n S))" by (metis image_eqI list.set_map nth_mem)
  qed
  with sorted_rank [OF assms(1,2) i(1)] i(2) show ?thesis by (simp add: not_le)
qed

lemma length_filter_ids:
  assumes "distinct (map pe_id xs)" and "mset ys = mset xs"
  shows "length (filter (\<lambda>e. pe_id e \<notin> set (map pe_id (drop n ys))) xs) \<le> n"
proof -
  have "filter (\<lambda>e. pe_id e \<notin> set (map pe_id (drop n ys))) ys = filter (\<lambda>e. pe_id e \<notin> set (map pe_id (drop n ys))) (take n ys)"
    by (subst (3) append_take_drop_id [of n, symmetric], subst filter_append) auto
  then have "length (filter (\<lambda>e. pe_id e \<notin> set (map pe_id (drop n ys))) ys) \<le> n"
    by (metis (no_types, lifting) length_filter_le length_take min.cobounded2 order_trans)
  moreover have "mset (filter (\<lambda>e. pe_id e \<notin> set (map pe_id (drop n ys))) xs) = mset (filter (\<lambda>e. pe_id e \<notin> set (map pe_id (drop n ys))) ys)"
    using assms(2) by simp
  ultimately show ?thesis by (metis size_mset)
qed

text \<open>
  Pruning keeps exactly the newest entries of the history. Of the pull events, those stay that are not older
  than the cutoff and that fewer than the configured number of such events are newer than (by time, then by
  id); so at most that number stays, and the number given back is that of the removed rows. Nothing else of
  the tables changes.
\<close>

lemma prune_keeps_newest:
  assumes "distinct (map pe_id (rt_pulls T))" and "prune_pull_events cutoff max_entries T = (T', removed)"
    and "max_entries \<le> i64_max"
  shows "(e \<in> set (rt_pulls T') \<longleftrightarrow> e \<in> set (rt_pulls T) \<and> cutoff \<le> pe_created_at e
        \<and> card {x \<in> set (rt_pulls T). cutoff \<le> pe_created_at x \<and> newer x e \<and> x \<noteq> e} < max_entries)
    \<and> length (rt_pulls T') \<le> max_entries \<and> distinct (map pe_id (rt_pulls T'))
    \<and> removed = min (length (rt_pulls T) - length (rt_pulls T')) u64_max
    \<and> rt_routes T' = rt_routes T \<and> rt_nodes T' = rt_nodes T"
proof -
  define kept where "kept = filter (\<lambda>e. \<not> pe_created_at e < cutoff) (rt_pulls T)"
  let ?S = "sort_by newer kept"
  let ?left = "filter (\<lambda>e. pe_id e \<notin> set (map pe_id (drop max_entries ?S))) kept"
  have T': "T' = T\<lparr>rt_pulls := ?left\<rparr>"
    and r: "removed = u64_saturating_add (length (rt_pulls T) - length kept) (length kept - length ?left)"
    using assms(2,3) by (auto simp: prune_pull_events_def kept_def Let_def)
  have dist: "distinct (map pe_id kept)" using assms(1) by (simp add: kept_def distinct_map_filter)
  then have "distinct (map pe_id ?S)" by (metis mset_eq_imp_distinct_iff mset_map mset_sort_by)
  then have mem: "e \<in> set ?left \<longleftrightarrow> e \<in> set kept \<and> card {x \<in> set kept. newer x e \<and> x \<noteq> e} < max_entries"
    using in_take_iff_rank [OF newest_first.sorted_sort_by, of kept e max_entries] by auto
  have "{x \<in> set kept. newer x e \<and> x \<noteq> e} = {x \<in> set (rt_pulls T). cutoff \<le> pe_created_at x \<and> newer x e \<and> x \<noteq> e}"
    by (auto simp: kept_def)
  moreover have "e \<in> set kept \<longleftrightarrow> e \<in> set (rt_pulls T) \<and> cutoff \<le> pe_created_at e" by (auto simp: kept_def)
  ultimately have "e \<in> set ?left \<longleftrightarrow> e \<in> set (rt_pulls T) \<and> cutoff \<le> pe_created_at e
        \<and> card {x \<in> set (rt_pulls T). cutoff \<le> pe_created_at x \<and> newer x e \<and> x \<noteq> e} < max_entries"
    using mem by simp
  moreover have "length ?left \<le> length kept" by (rule length_filter_le)
  moreover have "length kept \<le> length (rt_pulls T)" by (simp add: kept_def)
  moreover have "length ?left \<le> max_entries" using dist by (intro length_filter_ids) simp_all
  moreover have "distinct (map pe_id ?left)" using dist by (simp add: distinct_map_filter)
  ultimately show ?thesis unfolding T' r by (simp add: u64_saturating_add_def)
qed

text \<open>The pages of the history, one after the other, are the history from the newest entry on.\<close>

lemma pages_are_history:
  assumes "1 \<le> sz" and "sz \<le> 100" and "n * sz \<le> u64_max"
  shows "concat (map (\<lambda>p. pp_items (pull_event_page_of (Suc p) sz T)) [0..<n]) = take (n * sz) (sort_by newer (rt_pulls T))"
  using assms(3)
proof (induction n)
  case (Suc n)
  have "n * sz \<le> u64_max" using Suc.prems by simp
  with Suc.IH assms show ?case
    by (simp add: pull_event_page_of_def paginate_pull_events_def Let_def clamp_def u64_arith take_add add.commute [of sz])
qed simp

end
