(* ===== verification/Upstream_Client.thy ===== *)
theory Upstream_Client
  imports Nodes Blob_Fetch
begin

text \<open>
  \<^verbatim>\<open>src/src/upstream.rs\<close>: how a request is sent to an upstream node, with its pinned transport, the Bearer
  token protocol and up to three validated redirects, and how a public URL is fetched for a domain mapping.

  The network behind a client, the resolver at each moment, the clock, the eviction of the two \<open>moka\<close> caches, the
  parser of \<open>WWW-Authenticate\<close>, the query builder and the JSON parser are parameters. The state keeps
  the log of all requests that were sent, in their order.
\<close>

section \<open>Data\<close>

record token_entry =
  te_value :: string
  te_expires_at :: instant

record 'u node_transport =
  tp_base :: "'u validated_upstream"
  tp_client :: pinned_client

record bearer_challenge_t =
  bc_realm :: string
  bc_service :: "string option"
  bc_scope :: "string option"

record token_response =
  tk_token :: "string option"
  tk_access_token :: "string option"
  tk_expires_in :: "nat option"

record 'u request_spec =
  sp_method :: http_method
  sp_url :: 'u
  sp_headers :: headers
  sp_range :: range_mode
  sp_bearer :: "string option"
  sp_apply_node_auth :: bool

text \<open>A request as it leaves: the client with its pinned addresses, the URL, and every header.\<close>

record 'u out_request =
  oq_client :: pinned_client
  oq_method :: http_method
  oq_url :: 'u
  oq_headers :: headers
  oq_bearer :: "string option"
  oq_auth :: request_auth

record 'u upstream_service =
  us_config :: config
  us_timeout :: duration
  us_nodes :: node_service
  us_metrics :: "nat option"
  us_tokens :: "string \<rightharpoonup> token_entry"
  us_transports :: "string \<rightharpoonup> instant \<times> 'u node_transport"
  us_tick :: nat
  us_sent :: "'u out_request list"

record 'u upstream_env =
  ue_nodes :: "'u node_env"
  ue_network :: "nat \<Rightarrow> 'u out_request \<Rightarrow> string + response"
  ue_lookup :: "nat \<Rightarrow> resolver"
  ue_now :: "nat \<Rightarrow> instant"
  ue_kept :: "nat \<Rightarrow> string \<Rightarrow> bool"
  ue_parse_header :: "string \<Rightarrow> (string \<times> (string \<rightharpoonup> string) option) option"
  ue_append_pairs :: "(string \<times> string) list \<Rightarrow> 'u \<Rightarrow> 'u"
  ue_token_json :: "bytes \<Rightarrow> string + token_response"
  ue_uuid_text :: "uuid \<Rightarrow> string"

abbreviation ue_url :: "'u upstream_env \<Rightarrow> 'u url_ops" where
  "ue_url env \<equiv> ne_url (ue_nodes env)"

definition upstream_build :: "config \<Rightarrow> node_service \<Rightarrow> nat option \<Rightarrow> 'u upstream_service" where
  "upstream_build config nodes metrics =
     \<lparr>us_config = config, us_timeout = cf_upstream_timeout config, us_nodes = nodes, us_metrics = metrics,
      us_tokens = Map.empty, us_transports = Map.empty, us_tick = 0, us_sent = []\<rparr>"

definition upstream_new :: "config \<Rightarrow> node_service \<Rightarrow> 'u upstream_service" where
  "upstream_new config nodes = upstream_build config nodes None"

definition upstream_new_with_metrics :: "config \<Rightarrow> node_service \<Rightarrow> 'u upstream_service" where
  "upstream_new_with_metrics config nodes = upstream_build config nodes (Some 0)"

definition upstream_update_runtime :: "config \<Rightarrow> 'u upstream_service \<Rightarrow> 'u upstream_service" where
  "upstream_update_runtime config S = S\<lparr>us_timeout := cf_upstream_timeout config\<rparr>"

section \<open>Operations of the service\<close>

text \<open>An operation that may fail and changes a state; \<open>op_bind\<close> is \<open>.await?\<close>.\<close>

type_synonym ('s, 'a) fallible = "'s \<Rightarrow> 's \<times> 'a api_result"
type_synonym ('u, 'a) upstream_op = "('u upstream_service, 'a) fallible"

definition op_bind :: "('s, 'a) fallible \<Rightarrow> ('a \<Rightarrow> ('s, 'b) fallible) \<Rightarrow> ('s, 'b) fallible" where
  "op_bind m f S = (case m S of (S1, Inl e) \<Rightarrow> (S1, Inl e) | (S1, Inr x) \<Rightarrow> f x S1)"

text \<open>A computation that reads the state only.\<close>

definition op_read :: "('s \<Rightarrow> 'a api_result) \<Rightarrow> ('s, 'a) fallible" where
  "op_read f S = (S, f S)"

definition send_request :: "'u upstream_env \<Rightarrow> 'u out_request \<Rightarrow> ('u, response) upstream_op" where
  "send_request env rq S =
     (S\<lparr>us_tick := us_tick S + 1, us_sent := us_sent S @ [rq]\<rparr>,
      case ue_network env (us_tick S) rq of Inl e \<Rightarrow> Inl (Upstream e) | Inr r \<Rightarrow> Inr r)"

definition upstream_validate_target :: "'u upstream_env \<Rightarrow> string \<Rightarrow> ('u, 'u validated_upstream) upstream_op" where
  "upstream_validate_target env raw =
     op_read (\<lambda>S. validate_target_url (ue_url env) (ue_lookup env (us_tick S)) raw (us_config S))"

definition upstream_client :: "'u upstream_env \<Rightarrow> 'u validated_upstream \<Rightarrow> ('u, pinned_client) upstream_op" where
  "upstream_client env v = op_read (\<lambda>S. client_for (ue_url env) v (us_timeout S))"

section \<open>Headers and challenges\<close>

definition forward_headers :: "headers \<Rightarrow> range_mode \<Rightarrow> headers" where
  "forward_headers hs rmode =
     List.map_filter (\<lambda>name. map_option (\<lambda>value. (name, value)) (header_get name hs))
       [''accept'', ''if-none-match'', ''if-modified-since'']
     @ (case rmode of
          Suppress \<Rightarrow> []
        | ForwardClient \<Rightarrow> (case header_get ''range'' hs of None \<Rightarrow> [] | Some value \<Rightarrow> [(''range'', value)])
        | Exact start end_ \<Rightarrow> [(''range'', ''bytes='' @ nat_text start @ ''-'' @ nat_text end_)])
     @ [(''accept-encoding'', ''identity'')]"

definition repository_scope :: "string \<Rightarrow> string option" where
  "repository_scope path =
     Option.bind (strip_prefix ''/v2/'' path) (\<lambda>rest.
     Option.bind (case split_once ''/manifests/'' rest of Some p \<Rightarrow> Some p | None \<Rightarrow> split_once ''/blobs/'' rest)
       (\<lambda>(repository, _). if repository = [] then None else Some (''repository:'' @ repository @ '':pull'')))"

definition bearer_challenge :: "'u upstream_env \<Rightarrow> headers \<Rightarrow> string \<Rightarrow> bearer_challenge_t option" where
  "bearer_challenge env hs request_path =
     Option.bind (header_str ''www-authenticate'' hs) (\<lambda>value.
     Option.bind (ue_parse_header env value) (\<lambda>(scheme, challenge).
       if \<not> eq_ignore_ascii_case scheme ''bearer'' then None
       else Option.bind challenge (\<lambda>fields.
         Option.bind (fields ''realm'') (\<lambda>realm.
           Some \<lparr>bc_realm = realm, bc_service = fields ''service'',
                 bc_scope = (case fields ''scope'' of None \<Rightarrow> repository_scope request_path | Some s \<Rightarrow> Some s)\<rparr>))))"

section \<open>Transports\<close>

definition node_host :: "'u url_ops \<Rightarrow> node_model \<Rightarrow> string option" where
  "node_host U node = Option.bind (url_parse U (nd_url node)) (url_host_str U)"

definition apply_connect_ip ::
  "'u upstream_env \<Rightarrow> node_view \<Rightarrow> 'u validated_upstream \<Rightarrow> ('u, 'u validated_upstream) upstream_op" where
  "apply_connect_ip env node upstream =
     op_read (\<lambda>S.
       case nd_connect_ip (nv_node node) of
         None \<Rightarrow> Inr upstream
       | Some value \<Rightarrow>
           if node_host (ue_url env) (nv_node node) \<noteq> url_host_str (ue_url env) (vu_url upstream) then Inr upstream
           else
             let port = unwrap_or 443 (url_port_or_known_default (ue_url env) (vu_url upstream)) in
             result_bind (resolve_connect_target (ue_lookup env (us_tick S)) value (nd_connect_ip_type (nv_node node)) port
                 (us_config S)) (\<lambda>addresses. Inr (upstream\<lparr>vu_addresses := addresses\<rparr>)))"

definition TRANSPORT_TTL :: duration where
  "TRANSPORT_TTL = 5 * 60 * SECOND"

definition transport_key :: "'u upstream_env \<Rightarrow> node_model \<Rightarrow> duration \<Rightarrow> string" where
  "transport_key env node timeout =
     ue_uuid_text env (nd_id node) @ '':'' @ int_text (timestamp_millis (nd_updated_at node))
     @ '':'' @ nat_text (timeout div 1000000)"

definition transports_get :: "'u upstream_env \<Rightarrow> string \<Rightarrow> 'u upstream_service \<Rightarrow> 'u node_transport option" where
  "transports_get env key S =
     (case us_transports S key of
        Some (inserted, transport) \<Rightarrow>
          if ue_kept env (us_tick S) key \<and> ue_now env (us_tick S) < inserted + TRANSPORT_TTL then Some transport else None
      | None \<Rightarrow> None)"

definition transports_insert :: "'u upstream_env \<Rightarrow> string \<Rightarrow> 'u node_transport \<Rightarrow> ('u, 'u node_transport) upstream_op" where
  "transports_insert env key transport S =
     (S\<lparr>us_transports := (us_transports S)(key \<mapsto> (ue_now env (us_tick S), transport))\<rparr>, Inr transport)"

definition node_transport_of :: "'u upstream_env \<Rightarrow> node_view \<Rightarrow> ('u, 'u node_transport) upstream_op" where
  "node_transport_of env node S =
     (let key = transport_key env (nv_node node) (us_timeout S) in
      case transports_get env key S of
        Some transport \<Rightarrow> (S, Inr transport)
      | None \<Rightarrow>
          op_bind (op_read (\<lambda>S. validate_upstream (ue_url env) (ue_lookup env (us_tick S)) (nd_url (nv_node node)) (us_config S)))
            (\<lambda>validated. op_bind (apply_connect_ip env node validated)
            (\<lambda>base. op_bind (upstream_client env base)
            (\<lambda>client. transports_insert env key \<lparr>tp_base = base, tp_client = client\<rparr>))) S)"

section \<open>Tokens\<close>

definition validate_token_realm :: "'u upstream_env \<Rightarrow> node_view \<Rightarrow> 'u \<Rightarrow> unit api_result" where
  "validate_token_realm env node realm =
     (if nd_auth_secret_enc (nv_node node) = None then Inr ()
      else
        let host = map_option to_ascii_lowercase (node_host (ue_url env) (nv_node node));
            realm_host = map_option to_ascii_lowercase (url_host_str (ue_url env) realm)
        in if host = realm_host
              \<or> rs_canonical_registry (nv_route node) = ''docker.io'' \<and> realm_host = Some ''auth.docker.io''
           then Inr ()
           else Inl (Upstream ''Bearer token realm is not trusted for this credentialed node''))"

definition TOKEN_BODY_LIMIT :: nat where
  "TOKEN_BODY_LIMIT = 1024 * 1024"

fun token_body :: "bytes \<Rightarrow> (string + bytes) list \<Rightarrow> bytes api_result" where
  "token_body body [] = Inr body"
| "token_body body (Inl e # frames) = Inl (Upstream e)"
| "token_body body (Inr chunk # frames) =
     (if TOKEN_BODY_LIMIT < u64_saturating_add (length body) (length chunk)
      then Inl (Upstream ''token response is too large'')
      else token_body (body @ chunk) frames)"

definition token_key :: "'u upstream_env \<Rightarrow> node_model \<Rightarrow> bearer_challenge_t \<Rightarrow> string" where
  "token_key env node challenge =
     (let nul = [CHR 0x00] in
      ue_uuid_text env (nd_id node) @ nul @ ue_uuid_text env (nd_registry_route_id node) @ nul
      @ int_text (timestamp_millis (nd_updated_at node)) @ nul @ bc_realm challenge @ nul
      @ unwrap_or [] (bc_service challenge) @ nul @ unwrap_or [] (bc_scope challenge))"

text \<open>What is read from the answer of the token service.\<close>

definition token_payload :: "'u upstream_env \<Rightarrow> response \<Rightarrow> (string \<times> nat) api_result" where
  "token_payload env r =
     (if \<not> status_is_success (re_status r)
      then Inl (Upstream (''token service returned '' @ ne_status_text (ue_nodes env) (re_status r)))
      else if (case re_content_length r of None \<Rightarrow> False | Some n \<Rightarrow> TOKEN_BODY_LIMIT < n)
      then Inl (Upstream ''token response is too large'')
      else
     result_bind (token_body [] (re_body r)) (\<lambda>body.
     result_bind (case ue_token_json env body of
         Inl e \<Rightarrow> Inl (Upstream (''invalid token response: '' @ e)) | Inr payload \<Rightarrow> Inr payload) (\<lambda>payload.
     case (case tk_token payload of None \<Rightarrow> tk_access_token payload | Some t \<Rightarrow> Some t) of
       None \<Rightarrow> Inl (Upstream ''token response has no token'')
     | Some token \<Rightarrow>
         if token \<noteq> [] \<and> length token \<le> 16 * 1024
         then Inr (token, clamp 30 3600 (unwrap_or 300 (tk_expires_in payload)))
         else Inl (Upstream ''token response has no token''))))"

definition tokens_insert :: "'u upstream_env \<Rightarrow> string \<Rightarrow> string \<times> nat \<Rightarrow> ('u, string) upstream_op" where
  "tokens_insert env key payload S =
     (case payload of (token, ttl) \<Rightarrow>
      (S\<lparr>us_tokens := (us_tokens S)(key \<mapsto> \<lparr>te_value = token, te_expires_at = ue_now env (us_tick S) + ttl * SECOND\<rparr>)\<rparr>,
       Inr token))"

definition realm_pairs :: "bearer_challenge_t \<Rightarrow> (string \<times> string) list" where
  "realm_pairs challenge =
     (case bc_service challenge of None \<Rightarrow> [] | Some service \<Rightarrow> [(''service'', service)])
     @ (case bc_scope challenge of None \<Rightarrow> [] | Some scope \<Rightarrow> [(''scope'', scope)])"

definition fetch_token :: "'u upstream_env \<Rightarrow> node_view \<Rightarrow> bearer_challenge_t \<Rightarrow> ('u, response) upstream_op" where
  "fetch_token env node challenge =
     op_bind (op_read (\<lambda>_. ok_or (Upstream ''invalid Bearer token realm'') (url_parse (ue_url env) (bc_realm challenge))))
       (\<lambda>realm. op_bind (op_read (\<lambda>_. validate_token_realm env node realm))
       (\<lambda>_. op_bind (upstream_validate_target env
              (url_as_str (ue_url env) (ue_append_pairs env (realm_pairs challenge) realm)))
       (\<lambda>validated. op_bind (apply_connect_ip env node validated)
       (\<lambda>target. op_bind (upstream_client env target)
       (\<lambda>client. op_bind (op_read (\<lambda>S. apply_auth (ue_nodes env) (us_nodes S) (nv_node node)))
       (\<lambda>auth. send_request env \<lparr>oq_client = client, oq_method = GET, oq_url = vu_url target,
          oq_headers = [(''accept'', ''application/json'')], oq_bearer = None, oq_auth = auth\<rparr>))))))"

definition token :: "'u upstream_env \<Rightarrow> node_view \<Rightarrow> bearer_challenge_t \<Rightarrow> ('u, string) upstream_op" where
  "token env node challenge S =
     (let key = token_key env (nv_node node) challenge in
      case (if ue_kept env (us_tick S) key then us_tokens S key else None) of
        Some entry \<Rightarrow>
          if ue_now env (us_tick S) + 10 * SECOND < te_expires_at entry then (S, Inr (te_value entry))
          else op_bind (op_bind (fetch_token env node challenge) (\<lambda>r. op_read (\<lambda>_. token_payload env r))) (tokens_insert env key) S
      | None \<Rightarrow>
          op_bind (op_bind (fetch_token env node challenge) (\<lambda>r. op_read (\<lambda>_. token_payload env r))) (tokens_insert env key) S)"

section \<open>Sending\<close>

definition send_once :: "'u upstream_env \<Rightarrow> node_view \<Rightarrow> 'u request_spec \<Rightarrow> pinned_client \<Rightarrow> ('u, response) upstream_op" where
  "send_once env node spec client =
     op_bind (op_read (\<lambda>S. if sp_apply_node_auth spec then apply_auth (ue_nodes env) (us_nodes S) (nv_node node) else Inr NoAuth))
       (\<lambda>auth. send_request env \<lparr>oq_client = client, oq_method = sp_method spec, oq_url = sp_url spec,
          oq_headers = forward_headers (sp_headers spec) (sp_range spec), oq_bearer = sp_bearer spec, oq_auth = auth\<rparr>)"

definition status_is_redirection :: "nat \<Rightarrow> bool" where
  "status_is_redirection s \<longleftrightarrow> 300 \<le> s \<and> s < 400"

text \<open>One redirect: the target is validated like any other URL, and gets the forwarded headers only.\<close>

definition redirect_target :: "'u upstream_env \<Rightarrow> 'u \<Rightarrow> response \<Rightarrow> 'u api_result" where
  "redirect_target env base r =
     result_bind (ok_or (Upstream ''upstream redirect has no Location'') (header_str ''location'' (re_headers r)))
       (\<lambda>location. ok_or (Internal ''relative URL without a base'') (url_join (ue_url env) base location))"

definition send_public_once ::
  "'u upstream_env \<Rightarrow> http_method \<Rightarrow> headers \<Rightarrow> range_mode \<Rightarrow> 'u \<Rightarrow> ('u, 'u \<times> response) upstream_op" where
  "send_public_once env method hs rmode url =
     op_bind (upstream_validate_target env (url_as_str (ue_url env) url))
       (\<lambda>validated. op_bind (upstream_client env validated)
       (\<lambda>client. op_bind (send_request env \<lparr>oq_client = client, oq_method = method, oq_url = vu_url validated,
          oq_headers = forward_headers hs rmode, oq_bearer = None, oq_auth = NoAuth\<rparr>)
       (\<lambda>r. op_read (\<lambda>_. Inr (vu_url validated, r)))))"

fun follow_redirects ::
  "nat \<Rightarrow> 'u upstream_env \<Rightarrow> http_method \<Rightarrow> headers \<Rightarrow> range_mode \<Rightarrow> 'u \<Rightarrow> response \<Rightarrow> ('u, response) upstream_op" where
  "follow_redirects 0 env method hs rmode base r =
     op_read (\<lambda>_. if status_is_redirection (re_status r) then Inl (Upstream ''too many upstream redirects'') else Inr r)"
| "follow_redirects (Suc n) env method hs rmode base r =
     (if \<not> status_is_redirection (re_status r) then op_read (\<lambda>_. Inr r)
      else op_bind (op_read (\<lambda>_. redirect_target env base r))
        (\<lambda>redirect. op_bind (send_public_once env method hs rmode redirect)
        (\<lambda>(base', r'). follow_redirects n env method hs rmode base' r')))"

definition record_upstream_request :: "'u upstream_service \<Rightarrow> 'u upstream_service" where
  "record_upstream_request S = S\<lparr>us_metrics := map_option Suc (us_metrics S)\<rparr>"

text \<open>The answer to a challenge: a token, and the request once more with it.\<close>

definition answer_challenge ::
  "'u upstream_env \<Rightarrow> node_view \<Rightarrow> http_method \<Rightarrow> string \<Rightarrow> headers \<Rightarrow> range_mode \<Rightarrow> 'u \<Rightarrow> pinned_client \<Rightarrow> response
     \<Rightarrow> ('u, response) upstream_op" where
  "answer_challenge env node method request_path hs rmode url client r =
     (case (if re_status r = 401 \<and> nd_auth_mode (nv_node node) \<noteq> ''bearer''
            then bearer_challenge env (re_headers r) request_path else None) of
        None \<Rightarrow> op_read (\<lambda>_. Inr r)
      | Some challenge \<Rightarrow>
          op_bind (token env node challenge) (\<lambda>t.
            send_once env node \<lparr>sp_method = method, sp_url = url, sp_headers = hs, sp_range = rmode, sp_bearer = Some t,
              sp_apply_node_auth = (nd_auth_mode (nv_node node) = ''header'')\<rparr> client))"

definition trim_start_slashes :: "string \<Rightarrow> string" where
  "trim_start_slashes s = dropWhile (\<lambda>c. c = CHR ''/'') s"

definition send ::
  "'u upstream_env \<Rightarrow> node_view \<Rightarrow> http_method \<Rightarrow> string \<Rightarrow> headers \<Rightarrow> range_mode \<Rightarrow> ('u, response) upstream_op" where
  "send env node method request_path hs rmode S =
     op_bind (node_transport_of env node) (\<lambda>transport.
     op_bind (op_read (\<lambda>_. ok_or (Internal ''relative URL without a base'')
         (url_join (ue_url env) (vu_url (tp_base transport)) (trim_start_slashes request_path)))) (\<lambda>url.
     op_bind (send_once env node \<lparr>sp_method = method, sp_url = url, sp_headers = hs, sp_range = rmode, sp_bearer = None,
         sp_apply_node_auth = True\<rparr> (tp_client transport)) (\<lambda>r.
     op_bind (answer_challenge env node method request_path hs rmode url (tp_client transport) r) (\<lambda>r'.
     follow_redirects 3 env method hs rmode url r')))) (record_upstream_request S)"

text \<open>A public URL: the request itself, then up to three redirects; the base of a redirect is the URL as it was asked for.\<close>

fun send_public ::
  "nat \<Rightarrow> 'u upstream_env \<Rightarrow> http_method \<Rightarrow> headers \<Rightarrow> 'u \<Rightarrow> ('u, response) upstream_op" where
  "send_public n env method hs url =
     op_bind (send_public_once env method hs ForwardClient url) (\<lambda>(_, r).
       if \<not> status_is_redirection (re_status r) then op_read (\<lambda>_. Inr r)
       else case n of
         0 \<Rightarrow> op_read (\<lambda>_. Inl (Upstream ''too many upstream redirects''))
       | Suc m \<Rightarrow> op_bind (op_read (\<lambda>_. redirect_target env url r)) (send_public m env method hs))"

definition send_public_url ::
  "'u upstream_env \<Rightarrow> http_method \<Rightarrow> 'u \<Rightarrow> headers \<Rightarrow> ('u, response) upstream_op" where
  "send_public_url env method url hs = send_public 3 env method hs url"

end
