(* ===== verification/Upstream_Proofs.thy ===== *)
theory Upstream_Proofs
  imports Upstream_Client Node_Proofs
begin

text \<open>
  Where the requests of \<^verbatim>\<open>src/src/upstream.rs\<close> go. A small logic for operations of the service, with an
  invariant of the state and a guarantee for every request that is sent, and with it: hosts and addresses are always
  validated, and the credentials of a node reach the node and its trusted token service only.
\<close>

section \<open>A logic for operations that send requests\<close>

text \<open>
  \<open>emits I P Q n m\<close>: from a state with the invariant \<open>I\<close>, the operation keeps it, sends at most \<open>n\<close> requests, all
  of which satisfy \<open>P\<close>, and a value it returns satisfies \<open>Q\<close>.
\<close>

definition emits ::
  "('u upstream_service \<Rightarrow> bool) \<Rightarrow> ('u out_request \<Rightarrow> bool) \<Rightarrow> ('a \<Rightarrow> bool) \<Rightarrow> nat \<Rightarrow> ('u, 'a) upstream_op \<Rightarrow> bool" where
  "emits I P Q n m \<longleftrightarrow>
     (\<forall>S S' r. I S \<longrightarrow> m S = (S', r) \<longrightarrow>
        I S' \<and> (\<exists>rqs. us_sent S' = us_sent S @ rqs \<and> length rqs \<le> n \<and> list_all P rqs) \<and> (\<forall>x. r = Inr x \<longrightarrow> Q x))"

lemma emits_run:
  assumes "emits I P Q n m" and "I S" and "m S = (S', r)"
  obtains rqs where "I S'" and "us_sent S' = us_sent S @ rqs" and "length rqs \<le> n" and "list_all P rqs"
    and "\<forall>x. r = Inr x \<longrightarrow> Q x"
  using assms unfolding emits_def by metis

locale request_logic =
  fixes I :: "'u upstream_service \<Rightarrow> bool" and P :: "'u out_request \<Rightarrow> bool"
  assumes sending: "I S \<Longrightarrow> I (S\<lparr>us_tick := us_tick S + 1, us_sent := us_sent S @ [rq]\<rparr>)"
begin

lemma emits_read: "(\<And>S x. I S \<Longrightarrow> f S = Inr x \<Longrightarrow> Q x) \<Longrightarrow> emits I P Q 0 (op_read f)"
  by (auto simp: emits_def op_read_def)

lemma emits_bind:
  assumes "emits I P R a m" and "\<And>x. R x \<Longrightarrow> emits I P Q b (f x)"
  shows "emits I P Q (a + b) (op_bind m f)"
  unfolding emits_def
proof (intro allI impI)
  fix S S' r
  assume I: "I S" and run: "op_bind m f S = (S', r)"
  obtain S1 r1 where m: "m S = (S1, r1)" by (rule prod.exhaust)
  obtain rqs where
    1: "I S1" "us_sent S1 = us_sent S @ rqs" "length rqs \<le> a" "list_all P rqs" and R: "\<forall>x. r1 = Inr x \<longrightarrow> R x"
    by (rule emits_run [OF assms(1) I m])
  show "I S' \<and> (\<exists>rqs. us_sent S' = us_sent S @ rqs \<and> length rqs \<le> a + b \<and> list_all P rqs) \<and> (\<forall>x. r = Inr x \<longrightarrow> Q x)"
  proof (cases r1)
    case (Inl e)
    with run m have "S' = S1" "r = Inl e" by (simp_all add: op_bind_def)
    with 1 show ?thesis by (intro conjI exI [of _ rqs]) simp_all
  next
    case (Inr x)
    with run m have f: "f x S1 = (S', r)" by (simp add: op_bind_def)
    from R Inr have fx: "emits I P Q b (f x)" by (intro assms(2)) simp
    obtain rqs' where
      2: "I S'" "us_sent S' = us_sent S1 @ rqs'" "length rqs' \<le> b" "list_all P rqs'" and Q: "\<forall>x. r = Inr x \<longrightarrow> Q x"
      by (rule emits_run [OF fx 1(1) f])
    from 1 2 Q show ?thesis by (intro conjI exI [of _ "rqs @ rqs'"]) simp_all
  qed
qed

lemma emits_send: "P rq \<Longrightarrow> emits I P (\<lambda>_. True) 1 (send_request env rq)"
  using sending by (auto simp: emits_def send_request_def)

lemma emits_more: "emits I P R a m \<Longrightarrow> a \<le> b \<Longrightarrow> (\<And>x. R x \<Longrightarrow> Q x) \<Longrightarrow> emits I P Q b m"
  unfolding emits_def by (metis le_trans)

text \<open>An operation that goes on differently from different states, and operations that start with reads.\<close>

lemma emits_pick: "(\<And>S. I S \<Longrightarrow> \<exists>m'. m S = m' S \<and> emits I P Q n m') \<Longrightarrow> emits I P Q n m"
  unfolding emits_def by metis

lemma emits_after:
  "emits I P Q n m \<Longrightarrow> (\<And>S. I S \<Longrightarrow> I (g S) \<and> us_sent (g S) = us_sent S) \<Longrightarrow> emits I P Q n (\<lambda>S. m (g S))"
  unfolding emits_def by metis

lemma emits_read_bind:
  "(\<And>S x. I S \<Longrightarrow> f S = Inr x \<Longrightarrow> emits I P Q b (g x)) \<Longrightarrow> emits I P Q b (op_bind (op_read f) g)"
  using emits_bind [OF emits_read [where f = f and Q = "\<lambda>x. \<exists>S. I S \<and> f S = Inr x"], of Q b g] by fastforce

end

section \<open>What is relied on, and what is guaranteed\<close>

text \<open>
  A reference that \<open>Url::join\<close> resolves inside the base: it starts with an alphanumeric character, so it is no absolute
  path or authority, and has no colon in its first segment, so it is no absolute URL.
\<close>

definition relative_ref :: "string \<Rightarrow> bool" where
  "relative_ref ref \<longleftrightarrow> ref \<noteq> [] \<and> is_ascii_alphanumeric (hd ref) \<and> CHR '':'' \<notin> set (takeWhile (\<lambda>c. c \<noteq> CHR ''/'') ref)"

text \<open>
  The laws of \<open>url::Url\<close>: the setters, a relative reference stays at its base, the text of a URL is read back as a
  URL of the same authority, and query pairs leave the authority as it is.
\<close>

definition upstream_laws :: "'u upstream_env \<Rightarrow> bool" where
  "upstream_laws env \<longleftrightarrow>
     url_laws (ue_url env)
     \<and> (\<forall>base ref u. relative_ref ref \<longrightarrow> url_join (ue_url env) base ref = Some u \<longrightarrow> same_authority (ue_url env) u base)
     \<and> (\<forall>u v. url_parse (ue_url env) (url_as_str (ue_url env) u) = Some v \<longrightarrow> same_authority (ue_url env) v u)
     \<and> (\<forall>pairs u. same_authority (ue_url env) (ue_append_pairs env pairs u) u)"

text \<open>A client that was built from a validated upstream.\<close>

definition pinned :: "config \<Rightarrow> string option \<Rightarrow> pinned_client \<Rightarrow> bool" where
  "pinned config host client \<longleftrightarrow>
     host = Some (pc_host client) \<and> pc_socket_addrs client \<noteq> []
     \<and> (\<not> cf_allow_private_upstreams config \<longrightarrow> list_all (\<lambda>(ip, _). \<not> is_non_public ip) (pc_socket_addrs client))"

definition addresses_ok :: "config \<Rightarrow> ip_addr list \<Rightarrow> bool" where
  "addresses_ok config ips \<longleftrightarrow>
     ips \<noteq> [] \<and> (\<not> cf_allow_private_upstreams config \<longrightarrow> list_all (\<lambda>ip. \<not> is_non_public ip) ips)"

definition FORWARDED :: "string list" where
  "FORWARDED = [''accept'', ''if-none-match'', ''if-modified-since'', ''range'', ''accept-encoding'']"

definition trusted_host :: "'u url_ops \<Rightarrow> node_view \<Rightarrow> string option \<Rightarrow> bool" where
  "trusted_host U node host \<longleftrightarrow>
     map_option to_ascii_lowercase host = map_option to_ascii_lowercase (node_host U (nv_node node))
     \<or> rs_canonical_registry (nv_route node) = ''docker.io'' \<and> map_option to_ascii_lowercase host = Some ''auth.docker.io''"

definition carries_secret :: "'u out_request \<Rightarrow> bool" where
  "carries_secret rq \<longleftrightarrow> oq_auth rq \<noteq> NoAuth \<or> oq_bearer rq \<noteq> None"

definition confined :: "'u upstream_env \<Rightarrow> config \<Rightarrow> node_view \<Rightarrow> 'u out_request \<Rightarrow> bool" where
  "confined env config node rq \<longleftrightarrow>
     pinned config (url_host_str (ue_url env) (oq_url rq)) (oq_client rq)
     \<and> fst ` set (oq_headers rq) \<subseteq> set FORWARDED
     \<and> (oq_auth rq \<noteq> NoAuth \<longrightarrow> trusted_host (ue_url env) node (url_host_str (ue_url env) (oq_url rq)))
     \<and> (oq_bearer rq \<noteq> None \<longrightarrow> url_host_str (ue_url env) (oq_url rq) = node_host (ue_url env) (nv_node node))"

text \<open>A request to a public URL carries nothing of a node.\<close>

definition public_request :: "'u upstream_env \<Rightarrow> config \<Rightarrow> 'u out_request \<Rightarrow> bool" where
  "public_request env config rq \<longleftrightarrow>
     pinned config (url_host_str (ue_url env) (oq_url rq)) (oq_client rq)
     \<and> fst ` set (oq_headers rq) \<subseteq> set FORWARDED \<and> \<not> carries_secret rq"

definition transport_ok :: "'u upstream_env \<Rightarrow> config \<Rightarrow> node_model \<Rightarrow> 'u node_transport \<Rightarrow> bool" where
  "transport_ok env config node transport \<longleftrightarrow>
     url_host_str (ue_url env) (vu_url (tp_base transport)) = node_host (ue_url env) node
     \<and> pinned config (node_host (ue_url env) node) (tp_client transport)"

text \<open>Rows with the same transport key have the same URL: a row that is changed gets a new time.\<close>

definition coherent :: "'u upstream_env \<Rightarrow> node_model set \<Rightarrow> bool" where
  "coherent env nodes \<longleftrightarrow>
     (\<forall>m \<in> nodes. \<forall>n \<in> nodes. \<forall>s t. transport_key env m s = transport_key env n t \<longrightarrow> nd_url m = nd_url n)"

definition upstream_inv :: "'u upstream_env \<Rightarrow> config \<Rightarrow> node_model set \<Rightarrow> 'u upstream_service \<Rightarrow> bool" where
  "upstream_inv env config nodes S \<longleftrightarrow>
     us_config S = config
     \<and> (\<forall>node \<in> nodes. \<forall>t i transport. us_transports S (transport_key env node t) = Some (i, transport)
          \<longrightarrow> transport_ok env config node transport)"

interpretation upstream_logic: request_logic "upstream_inv env config nodes" P for env config nodes P
  by unfold_locales (simp add: upstream_inv_def)

section \<open>The steps\<close>

lemma forward_headers_names: "fst ` set (forward_headers hs rmode) \<subseteq> set FORWARDED"
  by (auto simp: forward_headers_def FORWARDED_def List.map_filter_def split: range_mode.splits option.splits if_splits)

lemma pin_addresses_ok:
  "pin_addresses (cf_allow_private_upstreams config) e [] ips = Inr r \<Longrightarrow> r \<noteq> [] \<Longrightarrow> addresses_ok config r"
  using pin_addresses_Inr [of "cf_allow_private_upstreams config" e "[]" ips r] by (auto simp: addresses_ok_def list_all_iff)

lemma validate_url_ok:
  assumes laws: "upstream_laws env" and v: "validate_url (ue_url env) lookup raw config b = Inr v"
  obtains u host where "url_parse (ue_url env) raw = Some u" and "url_host_str (ue_url env) u = Some host"
    and "same_authority (ue_url env) (vu_url v) u" and "addresses_ok config (vu_addresses v)"
proof -
  from v obtain u host where "url_parse (ue_url env) raw = Some u" "url_host_str (ue_url env) u = Some host"
    "vu_url v = normal_base (ue_url env) b u" "addresses_ok config (vu_addresses v)"
    by (rule validate_url_Inr) (auto intro: pin_addresses_ok)
  with laws that show ?thesis
    using normal_base_keeps [of "ue_url env" b u] unfolding upstream_laws_def by simp
qed

lemma client_for_pinned:
  assumes "client_for U v timeout = Inr client" and "addresses_ok config (vu_addresses v)"
  shows "pinned config (url_host_str U (vu_url v)) client"
  using assms by (auto simp: client_for_def pinned_def addresses_ok_def list_all_iff Let_def)

lemma resolve_connect_target_ok:
  "resolve_connect_target lookup raw ty port config = Inr ips \<Longrightarrow> addresses_ok config ips"
  by (auto simp: resolve_connect_target_def Let_def intro: pin_addresses_ok split: if_splits)

lemma apply_auth_secret: "apply_auth env S node = Inr auth \<Longrightarrow> auth \<noteq> NoAuth \<Longrightarrow> nd_auth_secret_enc node \<noteq> None"
  by (auto simp: apply_auth_def split: if_splits)

lemma emits_validate_target:
  assumes "upstream_laws env"
  shows "emits (upstream_inv env config nodes) P
     (\<lambda>v. \<exists>u. url_parse (ue_url env) raw = Some u \<and> same_authority (ue_url env) (vu_url v) u \<and> addresses_ok config (vu_addresses v))
     0 (upstream_validate_target env raw)"
  unfolding upstream_validate_target_def emits_def op_read_def
  using validate_url_ok [OF assms] by (fastforce simp: validate_target_url_def upstream_inv_def)

lemma emits_apply_connect_ip:
  assumes "addresses_ok config (vu_addresses v)"
  shows "emits (upstream_inv env config nodes) P (\<lambda>w. vu_url w = vu_url v \<and> addresses_ok config (vu_addresses w))
     0 (apply_connect_ip env node v)"
  unfolding apply_connect_ip_def emits_def op_read_def
  using assms resolve_connect_target_ok
  by (auto simp: upstream_inv_def Let_def split: option.splits if_splits)

lemma emits_client:
  assumes "addresses_ok config (vu_addresses v)"
  shows "emits (upstream_inv env config nodes) P (pinned config (url_host_str (ue_url env) (vu_url v))) 0 (upstream_client env v)"
  unfolding upstream_client_def emits_def op_read_def
  using client_for_pinned [OF _ assms] by auto

lemmas emits_bind = upstream_logic.emits_bind [where a = 0, simplified]
lemmas emits_rules = emits_validate_target emits_apply_connect_ip emits_client

lemma emits_sent:
  "P rq \<Longrightarrow> (\<And>r. emits (upstream_inv env config nodes) P Q 0 (f r))
     \<Longrightarrow> emits (upstream_inv env config nodes) P Q 1 (op_bind (send_request env' rq) f)"
  using upstream_logic.emits_bind [OF upstream_logic.emits_send, where b = 0 and P = P and f = f and Q = Q] by simp

lemma emits_return: "Q x \<Longrightarrow> emits (upstream_inv env config nodes) P Q n (op_read (\<lambda>_. Inr x))"
  by (rule upstream_logic.emits_more [OF upstream_logic.emits_read [where Q = Q]]) auto

lemma public_confined: "public_request env config rq \<Longrightarrow> confined env config node rq"
  by (simp add: public_request_def confined_def carries_secret_def)

lemma emits_send_public_once:
  assumes laws: "upstream_laws env" and P: "\<And>rq. public_request env config rq \<Longrightarrow> P rq"
  shows "emits (upstream_inv env config nodes) P (\<lambda>_. True) 1 (send_public_once env method hs rmode url)"
  unfolding send_public_once_def
  apply (rule emits_bind [OF emits_validate_target [OF laws]])
  apply (elim exE conjE)
  apply (rule emits_bind [OF emits_client], assumption)
  apply (rule emits_sent)
   apply (rule P)
   apply (simp add: public_request_def carries_secret_def forward_headers_names)
  apply (simp add: emits_return)
  done

lemma emits_follow_redirects:
  assumes "upstream_laws env" and "\<And>rq. public_request env config rq \<Longrightarrow> P rq"
  shows "emits (upstream_inv env config nodes) P (\<lambda>_. True) n (follow_redirects n env method hs rmode base r)"
proof (induction n arbitrary: base r)
  case 0
  show ?case by (simp add: upstream_logic.emits_read)
next
  case (Suc n)
  have "emits (upstream_inv env config nodes) P (\<lambda>_. True) (1 + n)
    (op_bind (send_public_once env method hs rmode redirect) (\<lambda>(base', r'). follow_redirects n env method hs rmode base' r'))"
    for redirect
    by (rule upstream_logic.emits_bind [OF emits_send_public_once [OF assms]]) (use Suc in \<open>auto split: prod.splits\<close>)
  then show ?case
    by (auto intro!: upstream_logic.emits_read_bind emits_return)
qed

lemma emits_send_public:
  assumes "upstream_laws env"
  shows "emits (upstream_inv env config nodes) (public_request env config) (\<lambda>_. True) (Suc n) (send_public n env method hs url)"
proof (induction n arbitrary: url)
  case (0 url)
  have "emits (upstream_inv env config nodes) (public_request env config) (\<lambda>_. True) (1 + 0) (send_public 0 env method hs url)"
    by (subst send_public.simps, rule upstream_logic.emits_bind [OF emits_send_public_once [OF assms]])
      (auto intro: emits_return upstream_logic.emits_read simp del: send_public.simps split: prod.split)
  then show ?case by (simp del: send_public.simps)
next
  case (Suc n url)
  have "emits (upstream_inv env config nodes) (public_request env config) (\<lambda>_. True) (1 + Suc n)
      (send_public (Suc n) env method hs url)"
    by (subst send_public.simps, rule upstream_logic.emits_bind [OF emits_send_public_once [OF assms]])
      (auto intro: emits_return upstream_logic.emits_read_bind Suc simp del: send_public.simps split: prod.split)
  then show ?case by (simp del: send_public.simps)
qed

lemma same_authority_host: "same_authority U u v \<Longrightarrow> url_host_str U u = url_host_str U v"
  by (simp add: same_authority_def)

lemma token_realm_trusted:
  "validate_token_realm env node realm = Inr () \<Longrightarrow> nd_auth_secret_enc (nv_node node) \<noteq> None
     \<Longrightarrow> trusted_host (ue_url env) node (url_host_str (ue_url env) realm)"
  by (auto simp: validate_token_realm_def trusted_host_def Let_def split: if_splits)

lemma emits_fetch_token:
  assumes laws: "upstream_laws env"
  shows "emits (upstream_inv env config nodes) (confined env config node) (\<lambda>_. True) 1 (fetch_token env node challenge)"
proof -
  have host: "url_host_str (ue_url env) w = url_host_str (ue_url env) realm"
    if "url_parse (ue_url env) (url_as_str (ue_url env) (ue_append_pairs env pairs realm)) = Some u"
      and "same_authority (ue_url env) w u" for w u pairs realm
    using laws that unfolding upstream_laws_def same_authority_def by metis
  show ?thesis
    unfolding fetch_token_def
    apply (intro upstream_logic.emits_read_bind)
    apply (rule emits_bind [OF emits_validate_target [OF laws]])
    apply (elim exE conjE)
    apply (rule emits_bind [OF emits_apply_connect_ip], assumption)
    apply (elim conjE)
    apply (rule emits_bind [OF emits_client], assumption)
    apply (rule upstream_logic.emits_read_bind)
    apply (rule upstream_logic.emits_send)
    apply (auto simp: confined_def FORWARDED_def host dest: apply_auth_secret intro!: token_realm_trusted)
    done
qed

lemma emits_token:
  assumes laws: "upstream_laws env"
  shows "emits (upstream_inv env config nodes) (confined env config node) (\<lambda>_. True) 1 (token env node challenge)"
proof (rule upstream_logic.emits_pick)
  fix S
  let ?key = "token_key env (nv_node node) challenge"
  let ?fetch = "op_bind (op_bind (fetch_token env node challenge) (\<lambda>r. op_read (\<lambda>_. token_payload env r))) (tokens_insert env ?key)"
  have insert: "emits (upstream_inv env config nodes) (confined env config node) (\<lambda>_. True) 0 (tokens_insert env ?key p)" for p
    by (cases p) (simp add: emits_def tokens_insert_def upstream_inv_def)
  have "emits (upstream_inv env config nodes) (confined env config node) (\<lambda>_. True) (1 + 0)
    (op_bind (fetch_token env node challenge) (\<lambda>r. op_read (\<lambda>_. token_payload env r)))"
    by (rule upstream_logic.emits_bind [OF emits_fetch_token [OF laws]]) (simp add: upstream_logic.emits_read)
  from upstream_logic.emits_bind [OF this insert]
  have "emits (upstream_inv env config nodes) (confined env config node) (\<lambda>_. True) 1 ?fetch" by simp
  then show "\<exists>m'. token env node challenge S = m' S
    \<and> emits (upstream_inv env config nodes) (confined env config node) (\<lambda>_. True) 1 m'"
    unfolding token_def Let_def
    by (cases "if ue_kept env (us_tick S) ?key then us_tokens S ?key else None")
      (auto simp: op_read_def intro: exI [of _ "op_read (\<lambda>_. Inr _)"] emits_return)
qed

lemma emits_send_once:
  assumes "pinned config (node_host (ue_url env) (nv_node node)) client"
    and "url_host_str (ue_url env) (sp_url spec) = node_host (ue_url env) (nv_node node)"
  shows "emits (upstream_inv env config nodes) (confined env config node) (\<lambda>_. True) 1 (send_once env node spec client)"
  unfolding send_once_def
  by (intro upstream_logic.emits_read_bind upstream_logic.emits_send)
    (simp add: confined_def forward_headers_names trusted_host_def assms)

lemma transport_stored:
  assumes "transport_ok env config (nv_node node) transport" and "coherent env nodes" and "nv_node node \<in> nodes"
    and "upstream_inv env config nodes S"
  shows "upstream_inv env config nodes
    (S\<lparr>us_transports := (us_transports S)(transport_key env (nv_node node) t \<mapsto> (i, transport))\<rparr>)"
proof -
  have "transport_ok env config n transport" if "n \<in> nodes" "transport_key env n s = transport_key env (nv_node node) t" for n s
  proof -
    from that assms(2,3) have "nd_url n = nd_url (nv_node node)" unfolding coherent_def by blast
    with assms(1) show ?thesis by (simp add: transport_ok_def node_host_def)
  qed
  with assms(4) show ?thesis by (auto simp: upstream_inv_def)
qed

lemma emits_new_transport:
  assumes laws: "upstream_laws env" and "coherent env nodes" and "nv_node node \<in> nodes"
  shows "emits (upstream_inv env config nodes) (confined env config node) (transport_ok env config (nv_node node)) 0
    (op_bind (op_read (\<lambda>S. validate_upstream (ue_url env) (ue_lookup env (us_tick S)) (nd_url (nv_node node)) (us_config S)))
      (\<lambda>validated. op_bind (apply_connect_ip env node validated)
      (\<lambda>base. op_bind (upstream_client env base)
      (\<lambda>client. transports_insert env (transport_key env (nv_node node) t) \<lparr>tp_base = base, tp_client = client\<rparr>))))"
  apply (rule upstream_logic.emits_read_bind)
  apply (unfold validate_upstream_def)
  apply (erule validate_url_ok [OF laws])
  apply (rule emits_bind [OF emits_apply_connect_ip])
   apply (simp add: upstream_inv_def)
  apply (elim conjE)
  apply (rule emits_bind [OF emits_client], assumption)
  subgoal for S validated u host base client
    unfolding transports_insert_def emits_def
    using assms(2,3) transport_stored [of env config node "\<lparr>tp_base = base, tp_client = client\<rparr>" nodes]
    by (auto simp: transport_ok_def node_host_def dest: same_authority_host)
  done

lemma emits_node_transport:
  assumes "upstream_laws env" and "coherent env nodes" and "nv_node node \<in> nodes"
  shows "emits (upstream_inv env config nodes) (confined env config node) (transport_ok env config (nv_node node)) 0
    (node_transport_of env node)"
proof (rule upstream_logic.emits_pick)
  fix S
  assume I: "upstream_inv env config nodes S"
  let ?key = "transport_key env (nv_node node) (us_timeout S)"
  show "\<exists>m'. node_transport_of env node S = m' S
    \<and> emits (upstream_inv env config nodes) (confined env config node) (transport_ok env config (nv_node node)) 0 m'"
  proof (cases "transports_get env ?key S")
    case None
    with emits_new_transport [OF assms] show ?thesis unfolding node_transport_of_def Let_def by auto
  next
    case (Some transport)
    then obtain i where "us_transports S ?key = Some (i, transport)"
      by (auto simp: transports_get_def split: option.splits if_splits)
    with I assms(3) have "transport_ok env config (nv_node node) transport" unfolding upstream_inv_def by blast
    with Some show ?thesis
      by (intro exI [of _ "op_read (\<lambda>_. Inr transport)"] conjI emits_return) (simp_all add: node_transport_of_def Let_def op_read_def)
  qed
qed

lemma emits_answer_challenge:
  assumes "upstream_laws env" and "pinned config (node_host (ue_url env) (nv_node node)) client"
    and "url_host_str (ue_url env) url = node_host (ue_url env) (nv_node node)"
  shows "emits (upstream_inv env config nodes) (confined env config node) (\<lambda>_. True) 2
    (answer_challenge env node method path hs rmode url client r)"
proof -
  have "emits (upstream_inv env config nodes) (confined env config node) (\<lambda>_. True) (1 + 1)
    (op_bind (token env node challenge) (\<lambda>t. send_once env node \<lparr>sp_method = method, sp_url = url, sp_headers = hs,
       sp_range = rmode, sp_bearer = Some t, sp_apply_node_auth = (nd_auth_mode (nv_node node) = ''header'')\<rparr> client))"
    for challenge
    by (rule upstream_logic.emits_bind [OF emits_token [OF assms(1)] emits_send_once]) (simp_all add: assms)
  then show ?thesis
    unfolding answer_challenge_def by (auto simp: numeral_2_eq_2 emits_return split: option.split)
qed

text \<open>A path of the Registry API is a relative reference.\<close>

lemma registry_path_relative: "starts_with ''/v2/'' path \<Longrightarrow> relative_ref (trim_start_slashes path)"
proof -
  assume "starts_with ''/v2/'' path"
  then obtain rest where "path = ''/v2/'' @ rest" by (metis append_take_drop_id starts_with_def)
  moreover have "is_ascii_alphanumeric CHR ''v''" by code_simp
  ultimately show ?thesis by (simp add: trim_start_slashes_def relative_ref_def)
qed

lemma emits_node_send:
  assumes laws: "upstream_laws env" and "coherent env nodes" and "nv_node node \<in> nodes" and path: "starts_with ''/v2/'' path"
  shows "emits (upstream_inv env config nodes) (confined env config node) (\<lambda>_. True) 6 (send env node method path hs rmode)"
proof -
  have "emits (upstream_inv env config nodes) (confined env config node) (\<lambda>_. True) 6
    (op_bind (node_transport_of env node) (\<lambda>transport.
     op_bind (op_read (\<lambda>_. ok_or (Internal ''relative URL without a base'')
         (url_join (ue_url env) (vu_url (tp_base transport)) (trim_start_slashes path)))) (\<lambda>url.
     op_bind (send_once env node \<lparr>sp_method = method, sp_url = url, sp_headers = hs, sp_range = rmode, sp_bearer = None,
         sp_apply_node_auth = True\<rparr> (tp_client transport)) (\<lambda>r.
     op_bind (answer_challenge env node method path hs rmode url (tp_client transport) r) (\<lambda>r'.
     follow_redirects 3 env method hs rmode url r')))))" (is "emits ?I ?P _ _ (op_bind _ ?f)")
  proof (rule emits_bind [OF emits_node_transport [OF assms(1-3)]])
    fix transport
    assume ok: "transport_ok env config (nv_node node) transport"
    have "emits ?I ?P (\<lambda>_. True) (1 + (2 + 3)) (op_bind (send_once env node \<lparr>sp_method = method, sp_url = url, sp_headers = hs,
         sp_range = rmode, sp_bearer = None, sp_apply_node_auth = True\<rparr> (tp_client transport)) (\<lambda>r.
       op_bind (answer_challenge env node method path hs rmode url (tp_client transport) r) (\<lambda>r'.
       follow_redirects 3 env method hs rmode url r')))"
      if "url_join (ue_url env) (vu_url (tp_base transport)) (trim_start_slashes path) = Some url" for url
    proof -
      from laws that registry_path_relative [OF path]
      have "same_authority (ue_url env) url (vu_url (tp_base transport))" unfolding upstream_laws_def by blast
      with ok have host: "url_host_str (ue_url env) url = node_host (ue_url env) (nv_node node)"
        and pin: "pinned config (node_host (ue_url env) (nv_node node)) (tp_client transport)"
        by (simp_all add: transport_ok_def same_authority_def)
      show ?thesis
        by (intro upstream_logic.emits_bind [where R = "\<lambda>_. True"] emits_send_once emits_answer_challenge
            emits_follow_redirects laws pin public_confined) (simp_all add: host)
    qed
    then show "emits ?I ?P (\<lambda>_. True) 6 (?f transport)"
      by (intro upstream_logic.emits_read_bind) simp
  qed
  from upstream_logic.emits_after [OF this, of record_upstream_request]
  have "emits (upstream_inv env config nodes) (confined env config node) (\<lambda>_. True) 6
    (\<lambda>S. op_bind (node_transport_of env node) ?f (record_upstream_request S))"
    by (simp add: record_upstream_request_def upstream_inv_def)
  then show ?thesis unfolding send_def [abs_def] .
qed

section \<open>Runs of the service\<close>

datatype 'u upstream_call =
    Node_Call node_view http_method string headers range_mode
  | Public_Call http_method 'u headers
  | Runtime_Update config

fun upstream_exec :: "'u upstream_env \<Rightarrow> 'u upstream_call \<Rightarrow> 'u upstream_service \<Rightarrow> 'u upstream_service" where
  "upstream_exec env (Node_Call node method path hs rmode) S = fst (send env node method path hs rmode S)"
| "upstream_exec env (Public_Call method url hs) S = fst (send_public_url env method url hs S)"
| "upstream_exec env (Runtime_Update config) S = upstream_update_runtime config S"

text \<open>The calls of the program: its nodes, and paths of the Registry API.\<close>

fun call_allowed :: "node_view set \<Rightarrow> 'u upstream_call \<Rightarrow> bool" where
  "call_allowed vs (Node_Call node _ path _ _) \<longleftrightarrow> node \<in> vs \<and> starts_with ''/v2/'' path"
| "call_allowed vs _ \<longleftrightarrow> True"

definition accounted :: "'u upstream_env \<Rightarrow> config \<Rightarrow> node_view set \<Rightarrow> 'u out_request \<Rightarrow> bool" where
  "accounted env config vs rq \<longleftrightarrow>
     pinned config (url_host_str (ue_url env) (oq_url rq)) (oq_client rq)
     \<and> fst ` set (oq_headers rq) \<subseteq> set FORWARDED
     \<and> (carries_secret rq \<longrightarrow> (\<exists>node \<in> vs. trusted_host (ue_url env) node (url_host_str (ue_url env) (oq_url rq))))"

definition upstream_run_ok :: "'u upstream_env \<Rightarrow> config \<Rightarrow> node_view set \<Rightarrow> 'u upstream_service \<Rightarrow> bool" where
  "upstream_run_ok env config vs S \<longleftrightarrow>
     upstream_laws env \<and> coherent env (nv_node ` vs) \<and> upstream_inv env config (nv_node ` vs) S
     \<and> list_all (accounted env config vs) (us_sent S)"

lemma confined_accounted: "confined env config node rq \<Longrightarrow> node \<in> vs \<Longrightarrow> accounted env config vs rq"
  by (auto simp: confined_def accounted_def carries_secret_def trusted_host_def)

lemma public_accounted: "public_request env config rq \<Longrightarrow> accounted env config vs rq"
  by (simp add: public_request_def accounted_def)

lemma emits_run_ok:
  assumes "emits (upstream_inv env config (nv_node ` vs)) P Q n m" and "\<And>rq. P rq \<Longrightarrow> accounted env config vs rq"
    and "upstream_run_ok env config vs S"
  shows "upstream_run_ok env config vs (fst (m S))"
proof -
  obtain S' r where m: "m S = (S', r)" by (rule prod.exhaust)
  from assms(3) have I: "upstream_inv env config (nv_node ` vs) S" by (simp add: upstream_run_ok_def)
  obtain rqs where "upstream_inv env config (nv_node ` vs) S'" "us_sent S' = us_sent S @ rqs" "list_all P rqs"
    by (rule emits_run [OF assms(1) I m])
  with assms(2,3) m show ?thesis by (auto simp: upstream_run_ok_def list_all_iff)
qed

lemma upstream_exec_ok:
  assumes ok: "upstream_run_ok env config vs S" and "call_allowed vs call"
  shows "upstream_run_ok env config vs (upstream_exec env call S)"
proof (cases call)
  case (Node_Call node mt p hs rmode)
  with ok assms(2) have "emits (upstream_inv env config (nv_node ` vs)) (confined env config node) (\<lambda>_. True) 6
      (send env node mt p hs rmode)"
    by (intro emits_node_send) (auto simp: upstream_run_ok_def)
  from emits_run_ok [OF this _ ok] Node_Call assms(2) show ?thesis by (auto intro: confined_accounted)
next
  case (Public_Call mt u hs)
  from ok have "emits (upstream_inv env config (nv_node ` vs)) (public_request env config) (\<lambda>_. True) (Suc 3)
      (send_public_url env mt u hs)"
    unfolding send_public_url_def [abs_def] by (intro emits_send_public) (simp add: upstream_run_ok_def)
  from emits_run_ok [OF this public_accounted ok] Public_Call show ?thesis by simp
next
  case (Runtime_Update c)
  with ok show ?thesis by (simp add: upstream_run_ok_def upstream_inv_def upstream_update_runtime_def)
qed

interpretation upstream_run: operation_system "upstream_exec env" "call_allowed vs" "upstream_run_ok env config vs"
  for env config vs
  by unfold_locales (rule upstream_exec_ok)

section \<open>Properties\<close>



text \<open>URLs that are known by their host, and a node with a Bearer credential.\<close>

definition host_url :: "string \<Rightarrow> plain_url" where
  "host_url host = \<lparr>pu_scheme = ''https'', pu_host = host, pu_port = 443, pu_path = ''/'', pu_query = None, pu_fragment = None\<rparr>"

definition sample_upstream_env :: "plain_url upstream_env" where
  "sample_upstream_env =
     \<lparr>ue_nodes = sample_node_env\<lparr>ne_url := (plain_url_ops (\<lambda>s. Some (host_url s)))\<lparr>url_as_str := pu_host,
        url_scheme := (\<lambda>_. ''https''), url_port_or_known_default := (\<lambda>_. Some 443)\<rparr>\<rparr>,
      ue_network = (\<lambda>_ _. Inr \<lparr>re_status = 200, re_headers = [], re_content_length = None, re_body = []\<rparr>),
      ue_lookup = (\<lambda>_ _ _. Some [IpV4 0x01010101]), ue_now = (\<lambda>_. 0), ue_kept = (\<lambda>_ _. True), ue_parse_header = (\<lambda>_. None),
      ue_append_pairs = (\<lambda>_ u. u), ue_token_json = (\<lambda>_. Inl ''''), ue_uuid_text = nat_text\<rparr>"

definition sample_bearer_node :: node_view where
  "sample_bearer_node =
     (example_node_view 1 ''mirror.example'')\<lparr>nv_node := (nv_node (example_node_view 1 ''mirror.example''))
        \<lparr>nd_auth_mode := ''bearer'', nd_auth_secret_enc := Some (replicate 13 CHR 0x00 @ ''secret'')\<rparr>\<rparr>"

lemma sample_upstream_laws: "upstream_laws sample_upstream_env"
  by (simp add: upstream_laws_def url_laws_def same_authority_def sample_upstream_env_def plain_url_ops_def host_url_def
      sample_node_env_def Let_def)


end
