(* ===== verification/Registry_Paths.thy ===== *)
theory Registry_Paths
  imports Registry_Routes Scheduler_Core
begin

text \<open>
  The pure parts of the Registry handler, \<^verbatim>\<open>src/src/registry.rs\<close>: which route and which upstream path a request
  path stands for, digests, the subject of a manifest pull, entity tags and the headers that are passed on.
\<close>

section \<open>Paths\<close>

record uri =
  uri_path :: string
  uri_query :: "string option"

text \<open>A request of a client, and a response with its whole body: the frames, up to an error that ends it.\<close>

record proxy_response =
  px_status :: nat
  px_headers :: headers
  px_body :: "(string + bytes) list"

record proxy_request =
  pq_method :: string
  pq_uri :: uri
  pq_headers :: headers

definition path_and_query :: "uri \<Rightarrow> string" where
  "path_and_query u = uri_path u @ (case uri_query u of None \<Rightarrow> [] | Some q \<Rightarrow> ''?'' @ q)"

definition valid_sha256_digest :: "string \<Rightarrow> bool" where
  "valid_sha256_digest v \<longleftrightarrow> length v = 71 \<and> starts_with ''sha256:'' v \<and> list_all is_ascii_hexdigit (drop 7 v)"

definition manifest_pull_subject :: "string \<Rightarrow> (string \<times> string) option" where
  "manifest_pull_subject path =
     Option.bind (strip_prefix ''/v2/'' (hd (split_char CHR ''?'' path))) (\<lambda>path.
       Option.bind (rsplit_once ''/manifests/'' path) (\<lambda>(repository, reference).
         if repository = [] \<or> reference = [] \<or> 1024 < length repository \<or> 256 < length reference
            \<or> valid_sha256_digest reference
         then None else Some (repository, reference)))"

record resolved_registry_path =
  rp_upstream_path :: string
  rp_route :: registry_route

definition require_enabled_route :: "registry_route \<Rightarrow> registry_route api_result" where
  "require_enabled_route route =
     (if rr_enabled route then Inr route
      else Inl (Unavailable (''Registry route '' @ [CHR 0x27] @ rr_key route @ [CHR 0x27] @ '' is disabled'')))"

text \<open>The last of the markers in a path.\<close>

definition last_marker :: "string \<Rightarrow> nat option" where
  "last_marker rest =
     max_by (\<le>) (List.map_filter (\<lambda>marker. str_rfind marker rest) [''/manifests/'', ''/blobs/'', ''/tags/''])"

definition route_registry_path :: "route_tables \<Rightarrow> uri \<Rightarrow> resolved_registry_path api_result" where
  "route_registry_path T u =
     (let plain = result_bind (result_bind (default_route T) require_enabled_route) (\<lambda>route.
            Inr \<lparr>rp_upstream_path = path_and_query u, rp_route = route\<rparr>)
      in
      case strip_prefix ''/v2/'' (uri_path u) of
        None \<Rightarrow> plain
      | Some rest \<Rightarrow>
          (case last_marker rest of
             None \<Rightarrow> plain
           | Some index \<Rightarrow>
               let repository = take index rest; suffix = drop index rest;
                   first = hd (split_char CHR ''/'' repository)
               in
               result_bind
                 (case by_path_prefix first T of
                    Some route \<Rightarrow>
                      (case rr_path_prefix route of
                         None \<Rightarrow> Inl (Internal ''prefixed route has no path prefix'')
                       | Some prefix \<Rightarrow>
                           (case Option.bind (strip_prefix prefix repository) (strip_prefix ''/'') of
                              None \<Rightarrow> Inl (BadRequest ''Registry route has no repository'')
                            | Some repository \<Rightarrow> Inr (repository, route)))
                  | None \<Rightarrow> result_bind (default_route T) (\<lambda>route. Inr (repository, route)))
                 (\<lambda>(repository, route).
                   result_bind (require_enabled_route route) (\<lambda>route.
                   result_bind (repository_mode_parse (rr_repository_mode route)) (\<lambda>mode.
                     let repository = (if mode = DockerHubLibrary \<and> CHR ''/'' \<notin> set repository
                                       then ''library/'' @ repository else repository)
                     in
                     if repository = [] then Inl (BadRequest ''Registry repository is empty'')
                     else Inr \<lparr>rp_upstream_path = ''/v2/'' @ repository @ suffix
                                 @ (case uri_query u of None \<Rightarrow> [] | Some q \<Rightarrow> ''?'' @ q),
                               rp_route = route\<rparr>)))))"

definition retryable_upstream_status :: "nat \<Rightarrow> bool" where
  "retryable_upstream_status status \<longleftrightarrow> status \<in> {408, 425, 429} \<or> 500 \<le> status \<and> status < 600"

section \<open>Headers\<close>

text \<open>\<open>HeaderMap::insert\<close> and \<open>HeaderMap::remove\<close>, and what can be the value of a header.\<close>

definition header_remove :: "string \<Rightarrow> headers \<Rightarrow> headers" where
  "header_remove name hs = filter (\<lambda>(n, _). n \<noteq> name) hs"

definition header_insert :: "string \<Rightarrow> string \<Rightarrow> headers \<Rightarrow> headers" where
  "header_insert name v hs = header_remove name hs @ [(name, v)]"

definition header_value_ok :: "string \<Rightarrow> bool" where
  "header_value_ok v = list_all (\<lambda>c. 32 \<le> (of_char c :: nat) \<and> of_char c \<noteq> (127 :: nat) \<or> of_char c = (9 :: nat)) v"

definition COPIED_HEADERS :: "string list" where
  "COPIED_HEADERS =
     [''content-type'', ''content-length'', ''content-range'', ''accept-ranges'', ''etag'', ''last-modified'', ''location'',
      ''www-authenticate'', ''cache-control'', ''docker-content-digest'', ''docker-distribution-api-version'']"

definition copy_response_headers :: "headers \<Rightarrow> headers \<Rightarrow> headers" where
  "copy_response_headers source destination =
     fold (\<lambda>name hs. case header_get name source of None \<Rightarrow> hs | Some v \<Rightarrow> header_insert name v hs) COPIED_HEADERS destination"

definition set_registry_validators :: "string \<Rightarrow> headers \<Rightarrow> headers" where
  "set_registry_validators digest hs =
     (let hs1 = (if header_value_ok digest then header_insert ''docker-content-digest'' digest hs else hs);
          tag = [CHR 0x22] @ digest @ [CHR 0x22];
          hs2 = (if header_value_ok tag then header_insert ''etag'' tag hs1 else hs1)
      in header_insert ''docker-distribution-api-version'' ''registry/2.0'' hs2)"

definition etag_matches :: "string option \<Rightarrow> string \<Rightarrow> bool" where
  "etag_matches v digest \<longleftrightarrow>
     (case Option.bind v to_str of
        None \<Rightarrow> False
      | Some v \<Rightarrow>
          list_ex (\<lambda>candidate.
              let c = (case strip_prefix ''W/'' (trim candidate) of None \<Rightarrow> trim candidate | Some c \<Rightarrow> c)
              in c = ''*'' \<or> trim_matches (\<lambda>c. c = CHR 0x22) c = digest)
            (split_char CHR '','' v))"

section \<open>Resolution of a path\<close>

lemma starts_with_iff: "starts_with p s \<longleftrightarrow> (\<exists>r. s = p @ r)"
  unfolding starts_with_def by (metis append_eq_conv_conj append_take_drop_id)

lemma str_rfind_append_Some: "str_rfind p s = Some i \<Longrightarrow> str_rfind p (x @ s) = Some (length x + i)"
  by (induction x) simp_all

lemma str_rfind_append_None: "str_rfind p s = None \<Longrightarrow> str_rfind p (x @ s) = Some i \<Longrightarrow> i < length x"
  by (induction x arbitrary: i) (auto split: option.splits if_splits)

lemma str_rfind_no_char: "c \<notin> set s \<Longrightarrow> str_rfind (c # w) s = None"
  by (induction s) (auto simp: starts_with_def)

definition RESOURCE_KINDS :: "string list" where
  "RESOURCE_KINDS = [''manifests'', ''blobs'', ''tags'']"

lemma no_marker_in_reference: "CHR ''/'' \<notin> set reference \<Longrightarrow> CHR ''/'' \<in> set w \<Longrightarrow> \<not> starts_with (CHR ''/'' # w) (CHR ''/'' # reference)"
  unfolding starts_with_def by (metis in_set_takeD length_Cons list.inject take_Suc_Cons)

text \<open>The last marker in the resource part of a path is the one of its kind.\<close>

lemma str_rfind_skip: "c \<notin> set x \<Longrightarrow> str_rfind (c # w) s = None \<Longrightarrow> str_rfind (c # w) (x @ s) = None"
  by (induction x) (auto simp: starts_with_def)

lemma starts_with_kind:
  assumes "kind \<in> set RESOURCE_KINDS" and "k \<in> set RESOURCE_KINDS"
  shows "starts_with (''/'' @ k @ ''/'') (''/'' @ kind @ ''/'' @ reference) \<longleftrightarrow> k = kind"
proof -
  have "CHR ''/'' \<notin> set kind" "CHR ''/'' \<notin> set k" using assms by (auto simp: RESOURCE_KINDS_def)
  then have "takeWhile (\<lambda>c. c \<noteq> CHR ''/'') (w @ CHR ''/'' # r) = w" if "w \<in> {k, kind}" for w r
    using that by (auto simp: takeWhile_append)
  then have "k = kind" if "k @ CHR ''/'' # r = kind @ CHR ''/'' # reference" for r
    using that by (metis insertI1 insertI2)
  then show ?thesis by (auto simp: starts_with_iff)
qed

lemma str_rfind_suffix:
  assumes "CHR ''/'' \<notin> set reference" and "kind \<in> set RESOURCE_KINDS" and "k \<in> set RESOURCE_KINDS"
  shows "str_rfind (''/'' @ k @ ''/'') (''/'' @ kind @ ''/'' @ reference) = (if k = kind then Some 0 else None)"
proof -
  let ?m = "''/'' @ k @ ''/''"
  have "str_rfind ?m (CHR ''/'' # reference) = None"
    using str_rfind_no_char [OF assms(1)] no_marker_in_reference [OF assms(1), of "k @ ''/''"] by simp
  moreover have "CHR ''/'' \<notin> set kind" using assms(2) by (auto simp: RESOURCE_KINDS_def)
  ultimately have "str_rfind ?m (kind @ CHR ''/'' # reference) = None" using str_rfind_skip by simp
  then show ?thesis using starts_with_kind [OF assms(2,3), of reference] by simp
qed

lemma max_by_nat:
  fixes xs :: "nat list"
  assumes "m \<in> set xs" and "\<forall>x \<in> set xs. x \<le> m"
  shows "max_by (\<le>) xs = Some m"
proof (cases xs)
  case (Cons a ys)
  have ge: "a \<le> foldl (\<lambda>best y. if best \<le> y then y else best) a ys" for a and ys :: "nat list"
  proof (induction ys arbitrary: a)
    case (Cons y ys)
    from Cons [of y] Cons [of a] show ?case by simp
  qed simp
  have "\<forall>x \<in> set (a # ys). x \<le> foldl (\<lambda>best y. if best \<le> y then y else best) a ys" for a and ys :: "nat list"
  proof (induction ys arbitrary: a)
    case (Cons y ys)
    show ?case using Cons [of y] Cons [of a] ge [of a "y # ys"] by auto
  qed simp
  moreover obtain v where v: "max_by (\<le>) xs = Some v" "v = foldl (\<lambda>best y. if best \<le> y then y else best) a ys"
    using Cons by simp
  ultimately have "m \<le> v" using Cons assms(1) by auto
  with max_by_in [OF v(1)] assms(2) v(1) show ?thesis by (metis antisym)
qed (use assms in simp)

lemma last_marker_resource:
  assumes "CHR ''/'' \<notin> set reference" and "kind \<in> set RESOURCE_KINDS"
  shows "last_marker (repo @ ''/'' @ kind @ ''/'' @ reference) = Some (length repo)"
proof -
  let ?s = "''/'' @ kind @ ''/'' @ reference"
  let ?f = "\<lambda>k. str_rfind (''/'' @ k @ ''/'') (repo @ ?s)"
  have eq: "?f kind = Some (length repo)"
    using str_rfind_append_Some [of "''/'' @ kind @ ''/''" ?s 0 repo] str_rfind_suffix [OF assms assms(2)] by simp
  have le: "i \<le> length repo" if "?f k = Some i" "k \<in> set RESOURCE_KINDS" for k i
    using str_rfind_append_None [of "''/'' @ k @ ''/''" ?s repo i] str_rfind_suffix [OF assms that(2)] that eq
    by (cases "k = kind") simp_all
  have "last_marker (repo @ ?s) = max_by (\<le>) (List.map_filter ?f RESOURCE_KINDS)"
    by (simp add: last_marker_def RESOURCE_KINDS_def List.map_filter_def del: str_rfind.simps)
  moreover have "max_by (\<le>) (List.map_filter ?f RESOURCE_KINDS) = Some (length repo)"
  proof (rule max_by_nat)
    show "length repo \<in> set (List.map_filter ?f RESOURCE_KINDS)"
      using eq assms(2) by (force simp: List.map_filter_def)
    show "\<forall>x \<in> set (List.map_filter ?f RESOURCE_KINDS). x \<le> length repo"
      using le by (auto simp: List.map_filter_def)
  qed
  ultimately show ?thesis by (rule trans)
qed


text \<open>The repository an upstream sees: Docker Hub keeps its official images under \<open>library/\<close>.\<close>

definition upstream_repository :: "repository_mode \<Rightarrow> string \<Rightarrow> string" where
  "upstream_repository mode repo =
     (if mode = DockerHubLibrary \<and> CHR ''/'' \<notin> set repo then ''library/'' @ repo else repo)"

lemma split_char_not_Nil: "split_char d s \<noteq> []"
  by (induction s) (auto split: list.splits)

lemma hd_split_char: "d \<notin> set x \<Longrightarrow> hd (split_char d (x @ d # y)) = x"
proof (induction x)
  case (Cons c x)
  then show ?case using split_char_not_Nil [of d "x @ d # y"] by (cases "split_char d (x @ d # y)") auto
qed simp

lemma resource_path_resolution:
  assumes "kind \<in> set RESOURCE_KINDS" and "CHR ''/'' \<notin> set reference" and "repo \<noteq> []"
    and "case prefix of
           Some p \<Rightarrow> CHR ''/'' \<notin> set p \<and> by_path_prefix p T = Some route
         | None \<Rightarrow> by_path_prefix (hd (split_char CHR ''/'' repo)) T = None \<and> default_route T = Inr route"
    and "rr_enabled route" and "repository_mode_parse (rr_repository_mode route) = Inr mode"
  shows "route_registry_path T
      \<lparr>uri_path = ''/v2/'' @ (case prefix of Some p \<Rightarrow> p @ ''/'' | None \<Rightarrow> []) @ repo @ ''/'' @ kind @ ''/'' @ reference, uri_query = q\<rparr>
    = Inr \<lparr>rp_upstream_path = ''/v2/'' @ upstream_repository mode repo @ ''/'' @ kind @ ''/'' @ reference
             @ (case q of None \<Rightarrow> [] | Some q \<Rightarrow> ''?'' @ q), rp_route = route\<rparr>"
proof -
  define x where "x = (case prefix of Some p \<Rightarrow> p @ ''/'' | None \<Rightarrow> []) @ repo"
  define s where "s = ''/'' @ kind @ ''/'' @ reference"
  have strip: "strip_prefix ''/v2/'' (''/v2/'' @ x @ s) = Some (x @ s)" by (simp only: strip_prefix_eq_Some)
  have marker: "last_marker (x @ s) = Some (length x)" unfolding s_def by (rule last_marker_resource [OF assms(2,1)])
  have found: "(case by_path_prefix (hd (split_char CHR ''/'' x)) T of
       Some route \<Rightarrow>
         (case rr_path_prefix route of
            None \<Rightarrow> Inl (Internal ''prefixed route has no path prefix'')
          | Some prefix \<Rightarrow>
              (case Option.bind (strip_prefix prefix x) (strip_prefix ''/'') of
                 None \<Rightarrow> Inl (BadRequest ''Registry route has no repository'')
               | Some repository \<Rightarrow> Inr (repository, route)))
     | None \<Rightarrow> result_bind (default_route T) (\<lambda>route. Inr (x, route))) = Inr (repo, route)"
  proof (cases prefix)
    case (Some p)
    then have "rr_path_prefix route = Some p" using assms(4) by (auto simp: by_path_prefix_def find_Some_iff)
    moreover have "strip_prefix p (p @ CHR ''/'' # repo) = Some (CHR ''/'' # repo)" "strip_prefix ''/'' (CHR ''/'' # repo) = Some repo"
      by (simp_all add: strip_prefix_eq_Some)
    ultimately show ?thesis using Some assms(4) by (simp add: hd_split_char x_def)
  qed (use assms(4) in \<open>simp add: result_bind_def x_def\<close>)
  have uri: "''/v2/'' @ (case prefix of Some p \<Rightarrow> p @ ''/'' | None \<Rightarrow> []) @ repo @ ''/'' @ kind @ ''/'' @ reference = ''/v2/'' @ x @ s"
    "''/'' @ kind @ ''/'' @ reference @ rest = s @ rest" for rest
    by (simp_all add: x_def s_def)
  have take_x: "take (length x) (x @ s) = x" and drop_x: "drop (length x) (x @ s) = s" by simp_all
  show ?thesis
    unfolding route_registry_path_def Let_def uri uri.select_convs strip marker option.case take_x drop_x found
    using assms(3,5,6) by (simp add: require_enabled_route_def result_bind_def upstream_repository_def)
qed

text \<open>
  C15: The addressing scheme of the pull-through proxy. A path that names a repository, a kind of resource and a
  reference is split at that resource, whatever the repository is called: with the path prefix of an enabled
  route in front of it, it goes to that route without the prefix; without the prefix of any route, to the
  default route. Below Docker Hub a repository of one component gets \<open>library/\<close> in front; the resource, the
  reference and the query string are passed on as they are.
\<close>

theorem registry_path_resolution:
  assumes "kind \<in> set RESOURCE_KINDS" and "CHR ''/'' \<notin> set reference" and "repo \<noteq> []"
    and "case prefix of
           Some p \<Rightarrow> CHR ''/'' \<notin> set p \<and> by_path_prefix p T = Some route
         | None \<Rightarrow> by_path_prefix (hd (split_char CHR ''/'' repo)) T = None \<and> default_route T = Inr route"
    and "rr_enabled route" and "repository_mode_parse (rr_repository_mode route) = Inr mode"
  shows "route_registry_path T
      \<lparr>uri_path = ''/v2/'' @ (case prefix of Some p \<Rightarrow> p @ ''/'' | None \<Rightarrow> []) @ repo @ ''/'' @ kind @ ''/'' @ reference, uri_query = q\<rparr>
    = Inr \<lparr>rp_upstream_path = ''/v2/'' @ upstream_repository mode repo @ ''/'' @ kind @ ''/'' @ reference
             @ (case q of None \<Rightarrow> [] | Some q \<Rightarrow> ''?'' @ q), rp_route = route\<rparr>"
  using assms by (rule resource_path_resolution)

theorem registry_path_resolution_witness:
  "route_registry_path (seeded 0) \<lparr>uri_path = ''/v2/ghcr/a/b/manifests/latest'', uri_query = None\<rparr>
     = Inr \<lparr>rp_upstream_path = ''/v2/a/b/manifests/latest'', rp_route = ghcr_route 0\<rparr>"
  using registry_path_resolution [where kind = "''manifests''" and reference = "''latest''" and repo = "''a/b''" and prefix = "Some ''ghcr''"
      and T = "seeded 0" and route = "ghcr_route 0" and mode = Passthrough and q = None]
  by (simp add: RESOURCE_KINDS_def upstream_repository_def seeded_rows by_path_prefix_def docker_hub_route_def ghcr_route_def
      repository_mode_parse_def)

end
