(* ===== verification/Domain_Folding.thy ===== *)
theory Domain_Folding
  imports Upstream_Proofs Registry_Paths
begin

text \<open>
  \<^verbatim>\<open>src/src/domainfold.rs\<close> and the mapping statements of \<^verbatim>\<open>src/src/db.rs\<close>: domains that are accelerated under another
  host. The table of mappings, the conversion of a URL into its accelerated form, and the proxy for requests to the
  public host of a mapping. \<open>url::Url\<close> and the authority parser of \<open>http\<close> are parameters.
\<close>

section \<open>The table\<close>

record domain_mapping =
  dm_id :: uuid
  dm_source_host :: string
  dm_upstream_base :: string
  dm_public_base :: string
  dm_enabled :: bool
  dm_created_at :: timestamp
  dm_updated_at :: timestamp

record mapping_input =
  mi_source_host :: string
  mi_upstream_base :: string
  mi_public_base :: string
  mi_enabled :: bool

definition by_source_host :: "domain_mapping \<Rightarrow> domain_mapping \<Rightarrow> bool" where
  "by_source_host a b \<longleftrightarrow> dm_source_host a \<le> dm_source_host b"

definition list_mappings :: "domain_mapping list \<Rightarrow> domain_mapping list" where
  "list_mappings T = sort_by by_source_host T"

definition get_mapping :: "uuid \<Rightarrow> domain_mapping list \<Rightarrow> domain_mapping option" where
  "get_mapping i T = List.find (\<lambda>m. dm_id m = i) T"

text \<open>The identifier is the primary key, the source host is unique.\<close>

definition insert_mapping :: "domain_mapping \<Rightarrow> domain_mapping list \<Rightarrow> domain_mapping list \<times> (db_error + domain_mapping)" where
  "insert_mapping m T =
     (if list_ex (\<lambda>n. dm_id n = dm_id m \<or> dm_source_host n = dm_source_host m) T then (T, Inl UniqueConstraintViolation)
      else (T @ [m], Inr m))"

definition save_mapping :: "domain_mapping \<Rightarrow> domain_mapping list \<Rightarrow> domain_mapping list \<times> (db_error + domain_mapping)" where
  "save_mapping m T =
     (if list_ex (\<lambda>n. dm_id n \<noteq> dm_id m \<and> dm_source_host n = dm_source_host m) T then (T, Inl UniqueConstraintViolation)
      else if get_mapping (dm_id m) T = None then (T, Inl (OtherDbErr ''None of the records are updated''))
      else (map (\<lambda>n. if dm_id n = dm_id m then m\<lparr>dm_created_at := dm_created_at n\<rparr> else n) T, Inr m))"

definition delete_mapping :: "uuid \<Rightarrow> domain_mapping list \<Rightarrow> domain_mapping list \<times> nat" where
  "delete_mapping i T = (filter (\<lambda>m. dm_id m \<noteq> i) T, length (filter (\<lambda>m. dm_id m = i) T))"

text \<open>\<open>From<DbErr> for AppError\<close>: any database error is the variant \<open>Database\<close>.\<close>

definition db_result :: "db_error + 'a \<Rightarrow> 'a api_result" where
  "db_result r =
     (case r of Inr x \<Rightarrow> Inr x
      | Inl (OtherDbErr e) \<Rightarrow> Inl (Database e)
      | Inl _ \<Rightarrow> Inl (Database ''constraint failed''))"

section \<open>Validation\<close>

definition ends_with :: "string \<Rightarrow> string \<Rightarrow> bool" where
  "ends_with p s \<longleftrightarrow> strip_suffix p s \<noteq> None"

definition normalize_mapping_base :: "'u url_ops \<Rightarrow> string \<Rightarrow> string api_result" where
  "normalize_mapping_base U raw =
     result_bind (ok_or (BadRequest ''invalid mapping base URL'') (url_parse U raw)) (\<lambda>url.
       if url_scheme U url \<notin> {''http'', ''https''} \<or> url_host_str U url = None
       then Inl (BadRequest ''mapping base must be an HTTP(S) URL'')
       else if url_username U url \<noteq> '''' \<or> url_password U url \<noteq> None
       then Inl (BadRequest ''mapping base URL must not contain credentials'')
       else
         let url = url_set_fragment U None (url_set_query U None url);
             url = (if ends_with ''/'' (url_path U url) then url else url_set_path U (url_path U url @ ''/'') url)
         in Inr (url_as_str U url))"

definition validate_mapping :: "'u url_ops \<Rightarrow> mapping_input \<Rightarrow> mapping_input api_result" where
  "validate_mapping U input =
     (let host = to_ascii_lowercase (trim (mi_source_host input)) in
      if host = [] \<or> 253 < length host \<or> CHR ''/'' \<in> set host \<or> CHR '':'' \<in> set host
      then Inl (BadRequest ''invalid source host'')
      else
        result_bind (normalize_mapping_base U (mi_upstream_base input)) (\<lambda>upstream_base.
        result_bind (normalize_mapping_base U (mi_public_base input)) (\<lambda>public_base.
          Inr (input\<lparr>mi_source_host := host, mi_upstream_base := upstream_base, mi_public_base := public_base\<rparr>))))"

section \<open>Operations\<close>

definition create_mapping ::
  "'u url_ops \<Rightarrow> uuid \<Rightarrow> timestamp \<Rightarrow> mapping_input \<Rightarrow> domain_mapping list \<Rightarrow> domain_mapping list \<times> domain_mapping api_result" where
  "create_mapping U fresh now input T =
     (case validate_mapping U input of
        Inl e \<Rightarrow> (T, Inl e)
      | Inr i \<Rightarrow>
          apsnd db_result (insert_mapping
            \<lparr>dm_id = fresh, dm_source_host = mi_source_host i, dm_upstream_base = mi_upstream_base i,
             dm_public_base = mi_public_base i, dm_enabled = mi_enabled i, dm_created_at = now, dm_updated_at = now\<rparr> T))"

definition update_mapping ::
  "'u url_ops \<Rightarrow> domain_mapping list \<Rightarrow> uuid \<Rightarrow> timestamp \<Rightarrow> mapping_input \<Rightarrow> domain_mapping list
     \<Rightarrow> domain_mapping list \<times> domain_mapping api_result" where
  "update_mapping U seen i now input T =
     (case validate_mapping U input of
        Inl e \<Rightarrow> (T, Inl e)
      | Inr v \<Rightarrow>
          (case get_mapping i seen of
             None \<Rightarrow> (T, Inl (NotFound ''mapping''))
           | Some m \<Rightarrow>
               apsnd db_result (save_mapping
                 (m\<lparr>dm_source_host := mi_source_host v, dm_upstream_base := mi_upstream_base v,
                    dm_public_base := mi_public_base v, dm_enabled := mi_enabled v, dm_updated_at := now\<rparr>) T)))"

definition remove_mapping :: "uuid \<Rightarrow> domain_mapping list \<Rightarrow> domain_mapping list \<times> unit api_result" where
  "remove_mapping i T =
     (case delete_mapping i T of
        (T', n) \<Rightarrow> if n = 0 then (T', Inl (NotFound ''mapping'')) else (T', Inr ()))"

section \<open>Conversion\<close>

record convert_output =
  cv_original_url :: string
  cv_accelerated_url :: string
  cv_mapping_id :: uuid

definition trim_end_slashes :: "string \<Rightarrow> string" where
  "trim_end_slashes s = rev (trim_start_slashes (rev s))"

definition source_mapping :: "string \<Rightarrow> domain_mapping list \<Rightarrow> domain_mapping option" where
  "source_mapping host T =
     List.find (\<lambda>m. eq_ignore_ascii_case host (dm_source_host m)) (filter dm_enabled (list_mappings T))"

text \<open>The part of the path behind the base of the upstream.\<close>

definition path_suffix :: "string \<Rightarrow> string \<Rightarrow> string api_result" where
  "path_suffix upstream_path path =
     (if upstream_path \<noteq> [] \<and> path \<noteq> upstream_path
         \<and> (case strip_prefix upstream_path path of None \<Rightarrow> True | Some suffix \<Rightarrow> \<not> starts_with ''/'' suffix)
      then Inl (BadRequest ''URL does not match the mapping upstream path'')
      else Inr (unwrap_or path (strip_prefix upstream_path path)))"

definition parse_internal :: "'u url_ops \<Rightarrow> string \<Rightarrow> 'u api_result" where
  "parse_internal U raw = ok_or (Internal ''invalid URL'') (url_parse U raw)"

definition join_internal :: "'u url_ops \<Rightarrow> 'u \<Rightarrow> string \<Rightarrow> 'u api_result" where
  "join_internal U base ref = ok_or (Internal ''invalid URL'') (url_join U base ref)"

definition accelerate :: "'u url_ops \<Rightarrow> domain_mapping \<Rightarrow> 'u \<Rightarrow> 'u api_result" where
  "accelerate U m original =
     result_bind (parse_internal U (dm_upstream_base m)) (\<lambda>upstream.
       if url_scheme U original \<noteq> url_scheme U upstream \<or> url_host_str U original \<noteq> url_host_str U upstream
          \<or> url_port_or_known_default U original \<noteq> url_port_or_known_default U upstream
          \<or> url_username U upstream \<noteq> '''' \<or> url_password U upstream \<noteq> None
       then Inl (BadRequest ''URL does not match the mapping upstream'')
       else
     result_bind (path_suffix (trim_end_slashes (url_path U upstream)) (url_path U original)) (\<lambda>suffix.
     result_bind (parse_internal U (dm_public_base m)) (\<lambda>public.
     result_bind (join_internal U public (trim_start_slashes suffix)) (\<lambda>accelerated.
       Inr (url_set_query U (url_query U original) accelerated)))))"

definition convert :: "'u url_ops \<Rightarrow> domain_mapping list \<Rightarrow> string \<Rightarrow> convert_output api_result" where
  "convert U T raw =
     (if 4096 < length raw then Inl (BadRequest ''URL is too long'')
      else
     result_bind (ok_or (BadRequest ''invalid URL'') (url_parse U raw)) (\<lambda>original.
       if url_scheme U original \<notin> {''http'', ''https''} then Inl (BadRequest ''only HTTP and HTTPS URLs can be converted'')
       else
     result_bind (ok_or (BadRequest ''URL has no host'') (url_host_str U original)) (\<lambda>host.
     result_bind (ok_or (BadRequest ''this domain has no acceleration mapping'') (source_mapping host T)) (\<lambda>m.
     result_bind (accelerate U m original) (\<lambda>accelerated.
       Inr \<lparr>cv_original_url = url_as_str U original, cv_accelerated_url = url_as_str U accelerated, cv_mapping_id = dm_id m\<rparr>)))))"

section \<open>Proxying\<close>

definition trim_brackets :: "string \<Rightarrow> string" where
  "trim_brackets s = trim_matches (\<lambda>c. c \<in> {CHR ''['', CHR '']''}) s"

definition request_host :: "authority_parser \<Rightarrow> headers \<Rightarrow> string option" where
  "request_host parse hs =
     Option.bind (header_str ''host'' hs) (\<lambda>value.
     Option.bind (parse value) (\<lambda>(host, _). Some (to_ascii_lowercase (trim_brackets host))))"

definition public_mapping :: "'u url_ops \<Rightarrow> string \<Rightarrow> domain_mapping list \<Rightarrow> domain_mapping option" where
  "public_mapping U host T =
     List.find (\<lambda>m. case Option.bind (url_parse U (dm_public_base m)) (url_host_str U) of
         None \<Rightarrow> False | Some value \<Rightarrow> eq_ignore_ascii_case value host)
       (filter dm_enabled (list_mappings T))"

definition upstream_target :: "'u url_ops \<Rightarrow> domain_mapping \<Rightarrow> uri \<Rightarrow> 'u api_result" where
  "upstream_target U m u =
     result_bind (parse_internal U (dm_public_base m)) (\<lambda>public.
       let public_prefix = trim_end_slashes (url_path U public); request_path = uri_path u in
     result_bind
       (if public_prefix = [] then Inr request_path
        else if request_path = public_prefix then Inr []
        else ok_or (BadRequest ''request path does not match the DomainFold mapping'')
               (strip_prefix (public_prefix @ ''/'') request_path)) (\<lambda>suffix.
     result_bind (parse_internal U (dm_upstream_base m)) (\<lambda>base.
     result_bind (join_internal U base (trim_start_slashes suffix)) (\<lambda>upstream.
       Inr (url_set_query U (uri_query u) upstream)))))"

definition DOMAIN_HEADERS :: "string list" where
  "DOMAIN_HEADERS =
     [''content-type'', ''content-length'', ''content-range'', ''content-disposition'', ''accept-ranges'', ''etag'',
      ''last-modified'', ''cache-control'']"

definition domain_response :: "response \<Rightarrow> proxy_response" where
  "domain_response r =
     \<lparr>px_status = re_status r,
      px_headers = fold (\<lambda>name hs. case header_get name (re_headers r) of None \<Rightarrow> hs | Some v \<Rightarrow> header_insert name v hs)
        DOMAIN_HEADERS [],
      px_body = re_body r\<rparr>"

definition send_domain_request ::
  "'u upstream_env \<Rightarrow> http_method \<Rightarrow> 'u \<Rightarrow> headers \<Rightarrow> ('u, proxy_response) upstream_op" where
  "send_domain_request env method url hs =
     op_bind (send_public_url env method url hs) (\<lambda>r. op_read (\<lambda>_. Inr (domain_response r)))"

text \<open>\<open>None\<close> hands the request back: it is for no mapping.\<close>

definition proxy_if_mapping ::
  "'u upstream_env \<Rightarrow> authority_parser \<Rightarrow> domain_mapping list \<Rightarrow> proxy_request \<Rightarrow> ('u, proxy_response option) upstream_op" where
  "proxy_if_mapping env parse T req =
     (case Option.bind (request_host parse (pq_headers req)) (\<lambda>host. public_mapping (ue_url env) host T) of
        None \<Rightarrow> op_read (\<lambda>_. Inr None)
      | Some m \<Rightarrow>
          if pq_method req \<notin> {''GET'', ''HEAD''}
          then op_read (\<lambda>_. Inr (Some \<lparr>px_status = 405, px_headers = [], px_body = []\<rparr>))
          else
            op_bind (op_read (\<lambda>_. upstream_target (ue_url env) m (pq_uri req))) (\<lambda>url.
            op_bind (send_domain_request env (if pq_method req = ''GET'' then GET else HEAD) url (pq_headers req)) (\<lambda>r.
              op_read (\<lambda>_. Inr (Some r)))))"

section \<open>The table keeps its keys\<close>

definition mappings_ok :: "domain_mapping list \<Rightarrow> bool" where
  "mappings_ok T \<longleftrightarrow> distinct (map dm_id T) \<and> distinct (map dm_source_host T)"

datatype mapping_op =
    Create_Mapping uuid timestamp mapping_input
  | Update_Mapping "domain_mapping list" uuid timestamp mapping_input
  | Remove_Mapping uuid

fun mapping_exec :: "'u url_ops \<Rightarrow> mapping_op \<Rightarrow> domain_mapping list \<Rightarrow> domain_mapping list" where
  "mapping_exec U (Create_Mapping fresh now input) T = fst (create_mapping U fresh now input T)"
| "mapping_exec U (Update_Mapping seen i now input) T = fst (update_mapping U seen i now input T)"
| "mapping_exec U (Remove_Mapping i) T = fst (remove_mapping i T)"

lemma insert_mapping_ok: "mappings_ok T \<Longrightarrow> mappings_ok (fst (insert_mapping m T))"
  by (auto simp: mappings_ok_def insert_mapping_def list_ex_iff)

text \<open>Replacing the row of one key keeps another key distinct when its new value is that of no other row.\<close>

lemma distinct_map_replace:
  assumes "distinct (map g T)" and "distinct (map f T)" and "\<And>n. n \<in> set T \<Longrightarrow> g n \<noteq> k \<Longrightarrow> f n \<noteq> v" and "\<And>n. f (h n) = v"
  shows "distinct (map (\<lambda>n. f (if g n = k then h n else n)) T)"
  using assms(1-3)
proof (induction T)
  case (Cons x T)
  let ?F = "\<lambda>n. f (if g n = k then h n else n)"
  have "?F x \<noteq> ?F y" if y: "y \<in> set T" for y
  proof -
    from Cons.prems y have "g x \<noteq> g y" "f x \<noteq> f y" by auto
    moreover have "g x \<noteq> k \<Longrightarrow> f x \<noteq> v" "g y \<noteq> k \<Longrightarrow> f y \<noteq> v" using Cons.prems(3) y by simp_all
    ultimately show ?thesis by (cases "g x = k"; cases "g y = k") (simp_all add: assms(4))
  qed
  then have "?F x \<notin> ?F ` set T" by blast
  moreover have "distinct (map ?F T)" using Cons by simp
  ultimately show ?case by simp
qed simp

lemma save_mapping_ok: "mappings_ok T \<Longrightarrow> mappings_ok (fst (save_mapping m T))"
proof -
  assume ok: "mappings_ok T"
  let ?h = "\<lambda>n. m\<lparr>dm_created_at := dm_created_at n\<rparr>"
  have ids: "map dm_id (map (\<lambda>n. if dm_id n = dm_id m then ?h n else n) T) = map dm_id T" by simp
  then have ids': "distinct (map dm_id (map (\<lambda>n. if dm_id n = dm_id m then ?h n else n) T))"
    using ok by (simp only: mappings_ok_def)
  have hosts: "distinct (map dm_source_host (map (\<lambda>n. if dm_id n = dm_id m then ?h n else n) T))"
    if "\<not> list_ex (\<lambda>n. dm_id n \<noteq> dm_id m \<and> dm_source_host n = dm_source_host m) T"
    using distinct_map_replace [of dm_id T dm_source_host "dm_id m" "dm_source_host m" ?h] ok that
    by (auto simp: mappings_ok_def list_ex_iff comp_def)
  show ?thesis
    using ok ids' hosts by (simp add: mappings_ok_def save_mapping_def del: map_map)
qed

lemma mapping_exec_ok: "mappings_ok T \<Longrightarrow> mappings_ok (mapping_exec U op T)"
proof (cases op)
  case (Remove_Mapping i)
  assume "mappings_ok T"
  with Remove_Mapping show ?thesis
    by (simp add: remove_mapping_def delete_mapping_def mappings_ok_def distinct_map_filter)
qed (simp_all add: create_mapping_def update_mapping_def apsnd_def insert_mapping_ok save_mapping_ok split: sum.split option.split)

interpretation mapping_run: operation_system "mapping_exec U" "\<lambda>_. True" mappings_ok for U
  by unfold_locales (rule mapping_exec_ok)

section \<open>Where accelerated URLs lead\<close>

text \<open>A reference that is appended to its base as it is: relative, without query, fragment or dot segments.\<close>

definition clean_ref :: "string \<Rightarrow> bool" where
  "clean_ref ref \<longleftrightarrow>
     ref = [] \<or> relative_ref ref \<and> list_all (\<lambda>c. c \<notin> set ''?#%'' \<and> c \<noteq> CHR 0x5C) ref
       \<and> list_all (\<lambda>segment. segment \<notin> {''.'', ''..''}) (split_char CHR ''/'' ref)"

text \<open>
  The laws of \<open>url::Url\<close>: a clean reference is appended to a base that ends in a slash, the query setter sets the query only,
  and the text of a URL reads back as that URL.
\<close>

definition same_resource :: "'u url_ops \<Rightarrow> 'u \<Rightarrow> 'u \<Rightarrow> bool" where
  "same_resource U u v \<longleftrightarrow> same_authority U u v \<and> url_path U u = url_path U v \<and> url_query U u = url_query U v"

definition mapping_laws :: "'u url_ops \<Rightarrow> bool" where
  "mapping_laws U \<longleftrightarrow>
     (\<forall>base p ref. url_path U base = p @ ''/'' \<longrightarrow> clean_ref ref \<longrightarrow>
        (\<exists>u. url_join U base ref = Some u \<and> same_authority U u base \<and> url_path U u = url_path U base @ ref))
     \<and> (\<forall>u q. same_authority U (url_set_query U q u) u \<and> url_path U (url_set_query U q u) = url_path U u
        \<and> url_query U (url_set_query U q u) = q)
     \<and> (\<forall>u v. url_parse U (url_as_str U u) = Some v \<longrightarrow> same_resource U v u)"

lemma trim_start_clean: "clean_ref ref \<Longrightarrow> trim_start_slashes ref = ref"
proof -
  assume "clean_ref ref"
  moreover have "\<not> is_ascii_alphanumeric CHR ''/''" by code_simp
  ultimately show ?thesis by (cases ref) (auto simp: clean_ref_def relative_ref_def trim_start_slashes_def)
qed

lemma trim_start_slash_clean: "clean_ref ref \<Longrightarrow> trim_start_slashes (CHR ''/'' # ref) = ref"
  using trim_start_clean [of ref] by (simp add: trim_start_slashes_def)

lemma starts_with_append [simp]: "starts_with p (p @ s)"
  by (simp add: starts_with_def)

lemma strip_prefix_append [simp]: "strip_prefix p (p @ s) = Some s"
  by (simp add: strip_prefix_def)

text \<open>A URL below the base of a mapping: the base path without its slash, a slash, and a clean rest.\<close>

definition below_base :: "'u url_ops \<Rightarrow> 'u \<Rightarrow> string \<Rightarrow> bool" where
  "below_base U base path \<longleftrightarrow>
     url_path U base = trim_end_slashes (url_path U base) @ ''/'' \<and> (\<exists>rest. path = url_path U base @ rest \<and> clean_ref rest)"

lemma path_suffix_below:
  assumes "b = trim_end_slashes b @ ''/''"
  shows "path_suffix (trim_end_slashes b) (b @ rest) = Inr (CHR ''/'' # rest)"
proof -
  have b: "b @ rest = trim_end_slashes b @ CHR ''/'' # rest" by (subst assms) simp
  show ?thesis unfolding b path_suffix_def by (simp add: unwrap_or_def starts_with_def)
qed

lemma accelerate_below:
  assumes laws: "mapping_laws U" and up: "url_parse U (dm_upstream_base m) = Some upstream" "below_base U upstream (url_path U original)"
    and pub: "url_parse U (dm_public_base m) = Some public" "url_path U public = p @ ''/''"
    and acc: "accelerate U m original = Inr a"
  shows "\<exists>rest. clean_ref rest \<and> url_path U original = url_path U upstream @ rest \<and> url_path U a = url_path U public @ rest
    \<and> url_query U a = url_query U original \<and> same_authority U a public
    \<and> url_scheme U original = url_scheme U upstream \<and> url_host_str U original = url_host_str U upstream
    \<and> url_port_or_known_default U original = url_port_or_known_default U upstream"
proof -
  from up(2) obtain rest where rest: "clean_ref rest" "url_path U original = url_path U upstream @ rest"
    and base: "url_path U upstream = trim_end_slashes (url_path U upstream) @ ''/''"
    unfolding below_base_def by blast
  from laws pub(2) rest(1) obtain u where u: "url_join U public rest = Some u" "same_authority U u public"
    "url_path U u = url_path U public @ rest" unfolding mapping_laws_def by blast
  have suffix: "path_suffix (trim_end_slashes (url_path U upstream)) (url_path U original) = Inr (CHR ''/'' # rest)"
    unfolding rest(2) by (rule path_suffix_below [OF base])
  from acc have "a = url_set_query U (url_query U original) u"
    and "url_scheme U original = url_scheme U upstream" "url_host_str U original = url_host_str U upstream"
      "url_port_or_known_default U original = url_port_or_known_default U upstream"
    using u(1) by (auto simp: accelerate_def parse_internal_def join_internal_def up(1) pub(1) suffix
        trim_start_slash_clean [OF rest(1)] ok_or_def split: if_splits)
  moreover have "same_authority U a public" "url_path U a = url_path U public @ rest" "url_query U a = url_query U original"
    using laws u calculation(1) unfolding mapping_laws_def same_authority_def by simp_all
  ultimately show ?thesis using rest by blast
qed

lemma upstream_target_below:
  assumes laws: "mapping_laws U" and up: "url_parse U (dm_upstream_base m) = Some upstream" "url_path U upstream = p @ ''/''"
    and pub: "url_parse U (dm_public_base m) = Some public" "url_path U public = trim_end_slashes (url_path U public) @ ''/''"
    and rest: "clean_ref rest"
  shows "\<exists>u. upstream_target U m \<lparr>uri_path = url_path U public @ rest, uri_query = q\<rparr> = Inr u
    \<and> same_authority U u upstream \<and> url_path U u = url_path U upstream @ rest \<and> url_query U u = q"
proof -
  let ?prefix = "trim_end_slashes (url_path U public)"
  from laws up(2) rest obtain u where u: "url_join U upstream rest = Some u" "same_authority U u upstream"
    "url_path U u = url_path U upstream @ rest" unfolding mapping_laws_def by blast
  have path: "url_path U public @ rest = ?prefix @ CHR ''/'' # rest" by (subst pub(2)) simp
  have strip: "strip_prefix (?prefix @ ''/'') (?prefix @ CHR ''/'' # rest) = Some rest"
    using strip_prefix_append [of "?prefix @ ''/''" rest] by simp
  have "upstream_target U m \<lparr>uri_path = url_path U public @ rest, uri_query = q\<rparr> = Inr (url_set_query U q u)"
    unfolding path
    by (simp add: upstream_target_def parse_internal_def join_internal_def up(1) pub(1) u(1) Let_def ok_or_def strip
        trim_start_clean [OF rest] trim_start_slash_clean [OF rest])
  moreover have "same_authority U (url_set_query U q u) upstream" "url_path U (url_set_query U q u) = url_path U upstream @ rest"
    "url_query U (url_set_query U q u) = q"
    using laws u unfolding mapping_laws_def same_authority_def by simp_all
  ultimately show ?thesis by blast
qed

lemma op_bind_read [simp]: "op_bind (op_read (\<lambda>_. Inr x)) f = f x"
  by (rule ext) (simp add: op_bind_def op_read_def)



text \<open>URLs of two hosts, with a text that can be read back: the host, whether there is a query, and the length of the path.\<close>

type_synonym two_host_url = "bool \<times> string \<times> string option"

definition two_host_text :: "two_host_url \<Rightarrow> string" where
  "two_host_text u =
     (case u of (h, p, q) \<Rightarrow>
        (if h then CHR ''g'' else CHR ''p'') # (if q = None then CHR ''n'' else CHR ''q'')
        # replicate (length p) CHR ''x'' @ CHR '':'' # p @ unwrap_or [] q)"

definition two_host_parse :: "string \<Rightarrow> two_host_url option" where
  "two_host_parse s =
     (case s of
        h # f # t \<Rightarrow>
          let n = length (takeWhile (\<lambda>c. c = CHR ''x'') t); body = drop (n + 1) t
          in Some (h = CHR ''g'', take n body, if f = CHR ''n'' then None else Some (drop n body))
      | _ \<Rightarrow> None)"

definition two_host_ops :: "two_host_url url_ops" where
  "two_host_ops =
     \<lparr>url_parse = two_host_parse, url_as_str = two_host_text, url_scheme = (\<lambda>_. ''https''), url_username = (\<lambda>_. ''''),
      url_password = (\<lambda>_. None), url_host_str = (\<lambda>(h, _). Some (if h then ''github.com'' else ''gh.example'')),
      url_port_or_known_default = (\<lambda>_. Some 443), url_path = (\<lambda>(_, p, _). p), url_query = (\<lambda>(_, _, q). q),
      url_fragment = (\<lambda>_. None), url_set_fragment = (\<lambda>_ u. u), url_set_query = (\<lambda>q (h, p, _). (h, p, q)),
      url_set_path = (\<lambda>p (h, _, q). (h, p, q)), url_join = (\<lambda>(h, p, _) r. Some (h, p @ r, None))\<rparr>"

lemma two_host_parse_text: "two_host_parse (two_host_text u) = Some u"
proof -
  obtain h p q where u: "u = (h, p, q)" by (rule prod_cases3)
  have "takeWhile (\<lambda>c. c = CHR ''x'') (replicate (length p) CHR ''x'' @ CHR '':'' # p @ unwrap_or [] q) = replicate (length p) CHR ''x''"
    by (subst takeWhile_append2) simp_all
  then show ?thesis by (cases q) (simp_all add: u two_host_text_def two_host_parse_def unwrap_or_def Let_def)
qed

lemma two_host_laws: "mapping_laws two_host_ops"
  by (auto simp: mapping_laws_def same_resource_def same_authority_def two_host_ops_def two_host_parse_text)

definition two_host_env :: "two_host_url upstream_env" where
  "two_host_env =
     \<lparr>ue_nodes = \<lparr>ne_url = two_host_ops, ne_lookup = (\<lambda>_ _. Some [IpV4 0x01010101]), ne_crypto = plain_crypto, ne_header_name = Some,
        ne_header_value = (\<lambda>_. True), ne_status_text = nat_text, ne_ln_1p = (\<lambda>x. x)\<rparr>,
      ue_network = (\<lambda>_ _. Inl ''''), ue_lookup = (\<lambda>_ _ _. Some [IpV4 0x01010101]), ue_now = (\<lambda>_. 0), ue_kept = (\<lambda>_ _. True),
      ue_parse_header = (\<lambda>_. None), ue_append_pairs = (\<lambda>_ u. u), ue_token_json = (\<lambda>_. Inl ''''), ue_uuid_text = nat_text\<rparr>"

definition sample_mapping :: domain_mapping where
  "sample_mapping =
     \<lparr>dm_id = 1, dm_source_host = ''github.com'', dm_upstream_base = two_host_text (True, ''/org/'', None),
      dm_public_base = two_host_text (False, ''/gh/'', None), dm_enabled = True, dm_created_at = 0, dm_updated_at = 0\<rparr>"


text \<open>
  The proxy does not keep a request inside its mapping: \<open>Url::join\<close> takes an absolute URL as it is, and the path of the request is
  such a URL once its slashes are dropped. The request is then sent to the host that the path names, not to that of the mapping.
\<close>

lemma absolute_path_escapes:
  assumes "\<And>base ref v. url_parse U ref = Some v \<Longrightarrow> url_join U base ref = Some v"
    and "\<And>u q. url_host_str U (url_set_query U q u) = url_host_str U u"
    and "url_parse U (dm_public_base m) = Some public" and "url_path U public = ''/''"
    and "url_parse U (dm_upstream_base m) = Some upstream" and "url_parse U ref = Some v" and "ref = CHR ''h'' # rest"
  shows "\<exists>u. upstream_target U m \<lparr>uri_path = CHR ''/'' # ref, uri_query = q\<rparr> = Inr u \<and> url_host_str U u = url_host_str U v"
proof -
  have "trim_end_slashes ''/'' = []" "trim_start_slashes (CHR ''/'' # ref) = ref"
    by (simp_all add: trim_end_slashes_def trim_start_slashes_def assms(7))
  with assms show ?thesis
    by (simp add: upstream_target_def parse_internal_def join_internal_def Let_def ok_or_def)
qed

end
