(* ===== verification/Helper_Scripts.thy ===== *)
theory Helper_Scripts
  imports Domain_Folding Authentication
begin

text \<open>
  \<^verbatim>\<open>src/src/helpers.rs\<close>: the installation scripts, which are served with the origin the client used written into them. The two
  templates (\<^verbatim>\<open>src/scripts/helper.sh\<close> and \<^verbatim>\<open>helper.ps1\<close>) and the authority parser are parameters.
\<close>

section \<open>Templates\<close>

text \<open>The number of occurrences that do not overlap, as \<open>str::matches\<close> gives them.\<close>

function str_matches :: "string \<Rightarrow> string \<Rightarrow> nat" where
  "str_matches p s =
     (if p = [] then 0
      else case str_find p s of None \<Rightarrow> 0 | Some i \<Rightarrow> 1 + str_matches p (drop (i + length p) s))"
  by pat_completeness auto

lemma starts_with_length: "starts_with p s \<Longrightarrow> length p \<le> length s"
  by (metis nle_le starts_with_def take_all)

lemma str_find_Some: "str_find p s = Some i \<Longrightarrow> s = take i s @ p @ drop (i + length p) s"
proof (induction p s arbitrary: i rule: str_find.induct)
  case (2 p c s)
  show ?case
  proof (cases "starts_with p (c # s)")
    case True
    with 2 have "i = 0" by simp
    moreover have "c # s = p @ drop (length p) (c # s)" using True by (metis append_take_drop_id starts_with_def)
    ultimately show ?thesis by simp
  next
    case False
    with 2 obtain j where "str_find p s = Some j" "i = Suc j" by auto
    with 2(1) [OF False] show ?thesis by simp
  qed
qed (auto split: if_splits)

termination str_matches
proof (relation "measure (\<lambda>(p, s). length s)")
  fix p s :: string and i
  assume "p \<noteq> []" "str_find p s = Some i"
  then have "length s = length (take i s @ p @ drop (i + length p) s)" "0 < length p"
    using str_find_Some by (metis, simp)
  then have "0 < length s" "0 < i + length p" by (simp_all only: length_append)
  then show "((p, drop (i + length p) s), p, s) \<in> measure (\<lambda>(p, s). length s)" by simp
qed simp

definition replace_once :: "string \<Rightarrow> string \<Rightarrow> string \<Rightarrow> string api_result" where
  "replace_once source pattern replacement =
     (if str_matches pattern source \<noteq> 1 then Inl (Internal ''helper template marker is invalid'')
      else Inr (case str_find pattern source of
          None \<Rightarrow> source
        | Some i \<Rightarrow> take i source @ replacement @ drop (i + length pattern) source))"

definition quoted :: "string \<Rightarrow> string" where
  "quoted s = [CHR 0x22] @ s @ [CHR 0x22]"

definition SHELL_MARKER :: string where
  "SHELL_MARKER = ''DONKEY_URL='' @ quoted ''${DONKEY_URL:-}''"

definition POWERSHELL_MARKER :: string where
  "POWERSHELL_MARKER = ''[string]$Url = $env:DONKEY_URL,''"

definition render_shell :: "string \<Rightarrow> string \<Rightarrow> string api_result" where
  "render_shell template origin =
     replace_once template SHELL_MARKER (''DONKEY_URL='' @ quoted (''${DONKEY_URL:-'' @ origin @ ''}''))"

definition render_powershell :: "string \<Rightarrow> string \<Rightarrow> string api_result" where
  "render_powershell template origin =
     replace_once template POWERSHELL_MARKER (''[string]$Url = '' @ [CHR 0x27] @ origin @ [CHR 0x27] @ '','')"

section \<open>The origin\<close>

definition origin_char :: "char \<Rightarrow> bool" where
  "origin_char b \<longleftrightarrow> is_ascii_alphanumeric b \<or> b \<in> set ''.-[]:''"

definition bad_host_label :: "string \<Rightarrow> bool" where
  "bad_host_label label \<longleftrightarrow>
     label = [] \<or> hd label = CHR ''-'' \<or> List.last label = CHR ''-''
     \<or> \<not> list_all (\<lambda>b. is_ascii_alphanumeric b \<or> b = CHR ''-'') label"

definition public_origin :: "authority_parser \<Rightarrow> config \<Rightarrow> headers \<Rightarrow> string api_result" where
  "public_origin parse config hs =
     result_bind (ok_or (BadRequest ''Host header is required'') (header_str ''host'' hs)) (\<lambda>raw.
       if 255 < length raw \<or> \<not> list_all origin_char raw then Inl (BadRequest ''invalid Host header'')
       else
     result_bind (ok_or (BadRequest ''invalid Host header'') (parse raw)) (\<lambda>(host, _).
       let host = trim_brackets host in
       if parse_ip host = None \<and> (host = [] \<or> list_ex bad_host_label (split_char CHR ''.'' host))
       then Inl (BadRequest ''invalid Host header'')
       else Inr ((if cf_tls_cert config \<noteq> None \<or> cf_registry_external_tls config then ''https'' else ''http'') @ ''://'' @ raw)))"

section \<open>The handler\<close>

record helper_templates =
  ht_shell :: string
  ht_powershell :: string

definition serve_helper :: "helper_templates \<Rightarrow> authority_parser \<Rightarrow> config \<Rightarrow> proxy_request \<Rightarrow> proxy_response api_result" where
  "serve_helper templates parse config req =
     (if pq_method req \<notin> {''GET'', ''HEAD''} then Inr \<lparr>px_status = 405, px_headers = [], px_body = []\<rparr>
      else
     result_bind (public_origin parse config (pq_headers req)) (\<lambda>origin.
     result_bind
       (if uri_path (pq_uri req) = ''/helper'' then
          result_bind (render_shell (ht_shell templates) origin) (\<lambda>script.
            Inr (''text/x-shellscript; charset=utf-8'', ''donkey-helper.sh'', script))
        else if uri_path (pq_uri req) = ''/helper.win'' then
          result_bind (render_powershell (ht_powershell templates) origin) (\<lambda>script.
            Inr (''text/plain; charset=utf-8'', ''donkey-helper.ps1'', script))
        else Inl (NotFound ''helper'')) (\<lambda>(content_type, filename, script).
       Inr \<lparr>px_status = 200,
            px_headers = [(''content-type'', content_type), (''cache-control'', ''no-store, max-age=0''),
              (''content-disposition'', ''inline; filename='' @ quoted filename), (''x-content-type-options'', ''nosniff'')],
            px_body = (if pq_method req = ''HEAD'' then [] else [Inr (as_bytes script)])\<rparr>)))"

section \<open>Properties\<close>

lemma replace_once_Inr:
  assumes "replace_once source pattern replacement = Inr script"
  obtains before after where "source = before @ pattern @ after" and "script = before @ replacement @ after"
proof -
  from assms have "str_matches pattern source \<noteq> 0" by (auto simp: replace_once_def split: if_splits)
  then obtain i where i: "str_find pattern source = Some i" by (subst (asm) str_matches.simps) (auto split: if_splits option.splits)
  with assms have "script = take i source @ replacement @ drop (i + length pattern) source"
    by (auto simp: replace_once_def split: if_splits)
  with str_find_Some [OF i] that show ?thesis by metis
qed

text \<open>
  C32: A served helper script cannot be made to run what a client writes into its \<open>Host\<close> header. The script is the template with
  its one marker replaced by the origin, and the origin is a scheme followed by characters of host names and addresses only: no quote,
  dollar sign, backslash, brace or line end, so it stays inside the string literal it is put into.
\<close>

theorem helper_script_injection_free:
  assumes "serve_helper templates parse config req = Inr r" and "px_status r = 200" and "pq_method req = ''GET''"
  shows "\<exists>before after host origin marker filled.
      origin = (if cf_tls_cert config \<noteq> None \<or> cf_registry_external_tls config then ''https://'' else ''http://'') @ host
    \<and> list_all (\<lambda>c. is_ascii_alphanumeric c \<or> c \<in> set ''.-[]:'') host \<and> length host \<le> 255
    \<and> (marker, filled) \<in> {(SHELL_MARKER, ''DONKEY_URL='' @ quoted (''${DONKEY_URL:-'' @ origin @ ''}'')),
                          (POWERSHELL_MARKER, ''[string]$Url = '' @ [CHR 0x27] @ origin @ [CHR 0x27] @ '','')}
    \<and> before @ marker @ after \<in> {ht_shell templates, ht_powershell templates}
    \<and> px_body r = [Inr (as_bytes (before @ filled @ after))]"
proof -
  from assms obtain origin script where origin: "public_origin parse config (pq_headers req) = Inr origin"
    and script: "render_shell (ht_shell templates) origin = Inr script \<or> render_powershell (ht_powershell templates) origin = Inr script"
    and body: "px_body r = [Inr (as_bytes script)]"
    by (auto simp: serve_helper_def split: if_splits) blast+
  from origin obtain host where host: "list_all origin_char host" "length host \<le> 255"
    and o: "origin = (if cf_tls_cert config \<noteq> None \<or> cf_registry_external_tls config then ''https://'' else ''http://'') @ host"
    by (auto simp: public_origin_def Let_def not_less split: if_splits)
  from host(1) have safe: "list_all (\<lambda>c. is_ascii_alphanumeric c \<or> c \<in> set ''.-[]:'') host"
    by (simp add: list_all_iff origin_char_def)
  from script show ?thesis
  proof
    assume "render_shell (ht_shell templates) origin = Inr script"
    then obtain before after where t: "ht_shell templates = before @ SHELL_MARKER @ after"
      and sc: "script = before @ (''DONKEY_URL='' @ quoted (''${DONKEY_URL:-'' @ origin @ ''}'')) @ after"
      unfolding render_shell_def by (rule replace_once_Inr)
    show ?thesis
      by (intro exI conjI, rule o, rule safe, rule host(2), rule insertI1, subst t [symmetric], rule insertI1, simp only: body sc)
  next
    assume "render_powershell (ht_powershell templates) origin = Inr script"
    then obtain before after where t: "ht_powershell templates = before @ POWERSHELL_MARKER @ after"
      and sc: "script = before @ (''[string]$Url = '' @ [CHR 0x27] @ origin @ [CHR 0x27] @ '','') @ after"
      unfolding render_powershell_def by (rule replace_once_Inr)
    show ?thesis
      by (intro exI conjI, rule o, rule safe, rule host(2), rule insertI2, rule singletonI, subst t [symmetric], simp, simp only: body sc)
  qed
qed


theorem helper_script_injection_free_witness:
  "\<exists>r before after host.
     serve_helper \<lparr>ht_shell = ''#!'' @ SHELL_MARKER @ ''exit'', ht_powershell = ''''\<rparr> (\<lambda>s. Some (s, None)) (for_test ''/d'')
       \<lparr>pq_method = ''GET'', pq_uri = \<lparr>uri_path = ''/helper'', uri_query = None\<rparr>, pq_headers = [(''host'', ''donkey.example'')]\<rparr> = Inr r
     \<and> px_status r = 200 \<and> list_all (\<lambda>c. is_ascii_alphanumeric c \<or> c \<in> set ''.-[]:'') host
     \<and> px_body r = [Inr (as_bytes (before @ (''DONKEY_URL='' @ quoted (''${DONKEY_URL:-http://'' @ host @ ''}'')) @ after))]"
proof -
  let ?ht = "\<lparr>ht_shell = ''#!'' @ SHELL_MARKER @ ''exit'', ht_powershell = ''''\<rparr>"
  let ?req = "\<lparr>pq_method = ''GET'', pq_uri = \<lparr>uri_path = ''/helper'', uri_query = None\<rparr>, pq_headers = [(''host'', ''donkey.example'')]\<rparr>"
  have cfg: "cf_tls_cert (for_test ''/d'') = None" "\<not> cf_registry_external_tls (for_test ''/d'')" by (simp_all add: for_test_def)
  have origin: "public_origin (\<lambda>s. Some (s, None)) (for_test ''/d'') (pq_headers ?req) = Inr ''http://donkey.example''"
  proof -
    have "header_str ''host'' (pq_headers ?req) = Some ''donkey.example''" "list_all origin_char ''donkey.example''"
      "trim_brackets ''donkey.example'' = ''donkey.example''" "\<not> list_ex bad_host_label (split_char CHR ''.'' ''donkey.example'')"
      by code_simp+
    then show ?thesis by (simp add: public_origin_def cfg ok_or_def Let_def)
  qed
  have "is_ok (render_shell (''#!'' @ SHELL_MARKER @ ''exit'') ''http://donkey.example'')" by code_simp
  then obtain script where "render_shell (''#!'' @ SHELL_MARKER @ ''exit'') ''http://donkey.example'' = Inr script"
    by (auto simp: is_ok_def split: sum.splits)
  with origin have "\<exists>r. serve_helper ?ht (\<lambda>s. Some (s, None)) (for_test ''/d'') ?req = Inr r \<and> px_status r = 200"
    by (simp add: serve_helper_def)
  then obtain r where r: "serve_helper ?ht (\<lambda>s. Some (s, None)) (for_test ''/d'') ?req = Inr r" "px_status r = 200" by blast
  have noPS: "before @ POWERSHELL_MARKER @ after \<noteq> ''''" "before @ POWERSHELL_MARKER @ after \<noteq> ''#!'' @ SHELL_MARKER @ ''exit''"
    for before after
  proof -
    show "before @ POWERSHELL_MARKER @ after \<noteq> ''''" by (simp add: POWERSHELL_MARKER_def)
    have "CHR '','' \<in> set (before @ POWERSHELL_MARKER @ after)" by (simp add: POWERSHELL_MARKER_def)
    moreover have "CHR '','' \<notin> set (''#!'' @ SHELL_MARKER @ ''exit'')" by (simp add: SHELL_MARKER_def quoted_def)
    ultimately show "before @ POWERSHELL_MARKER @ after \<noteq> ''#!'' @ SHELL_MARKER @ ''exit''" by metis
  qed
  have get: "pq_method ?req = ''GET''" by simp
  from helper_script_injection_free [OF r get] obtain before after host origin marker filled where
    h: "origin = ''http://'' @ host" "list_all (\<lambda>c. is_ascii_alphanumeric c \<or> c \<in> set ''.-[]:'') host"
    and t: "(marker, filled) \<in> {(SHELL_MARKER, ''DONKEY_URL='' @ quoted (''${DONKEY_URL:-'' @ origin @ ''}'')),
        (POWERSHELL_MARKER, ''[string]$Url = '' @ [CHR 0x27] @ origin @ [CHR 0x27] @ '','')}"
      "before @ marker @ after \<in> {ht_shell ?ht, ht_powershell ?ht}" "px_body r = [Inr (as_bytes (before @ filled @ after))]"
    unfolding cfg by (simp only: cfg simp_thms if_False) (elim exE conjE, rule that)
  from t(1,2) noPS [of before after] have "filled = ''DONKEY_URL='' @ quoted (''${DONKEY_URL:-'' @ origin @ ''}'')" by auto
  with h t(3) r show ?thesis by (intro exI [of _ r] exI [of _ before] exI [of _ after] exI [of _ host]) simp
qed

end
