(* ===== verification/Registry_Proxy.thy ===== *)
theory Registry_Proxy
  imports Stream_Relay Pull_History Transfer_Metrics Helper_Scripts
begin

text \<open>
  The Registry handler of \<^verbatim>\<open>src/src/registry.rs\<close>: from a request to its response, over the routes, the node
  service, the disk cache, the executor, the relay, the pull history and the counters.

  A response is given with its whole body, the frames up to its end or up to the error that ends it. The time
  limit around the verified fetch is an input: when it passes, the fetch is dropped wherever it waits, and
  \<open>xe_cancelled\<close> is the state it leaves. \<open>ServeFile\<close> of \<open>tower_http\<close>, which answers for a file, is a parameter. The metrics
  are the log of the recorded events.
\<close>

section \<open>Environment, world, responses\<close>

record ('b, 'u) proxy_env =
  xe_relay :: "'b relay_env"
  xe_nodes :: "'u node_env"
  xe_runtime :: scheduler_runtime_config
  xe_timed_out :: "nat \<Rightarrow> bool"
  xe_cancelled :: "nat \<Rightarrow> 'b fetch_world \<Rightarrow> 'b fetch_world"
  xe_serve_file :: "http_method \<Rightarrow> headers \<Rightarrow> bytes option \<Rightarrow> proxy_response"
  xe_elapsed :: "nat \<Rightarrow> duration"
  xe_new_uuid :: "nat \<Rightarrow> uuid"
  xe_error_body :: "app_error \<Rightarrow> bytes"
  xe_config :: config
  xe_templates :: helper_templates
  xe_authority :: authority_parser
  xe_upstream :: "'u upstream_env"

record ('b, 'u) proxy_world =
  xw_relay :: "'b relay_world"
  xw_tables :: node_tables
  xw_service :: node_service
  xw_flags :: runtime_flags
  xw_events :: "metric_event list"
  xw_traffic :: traffic_metrics
  xw_mappings :: "domain_mapping list"
  xw_upstream :: "'u upstream_service"

abbreviation xe_fetch :: "('b, 'u) proxy_env \<Rightarrow> 'b fetch_env" where
  "xe_fetch env \<equiv> le_fetch (xe_relay env)"

definition xw_on_fetch :: "('b fetch_world \<Rightarrow> 'b fetch_world) \<Rightarrow> ('b, 'u) proxy_world \<Rightarrow> ('b, 'u) proxy_world" where
  "xw_on_fetch f w = w\<lparr>xw_relay := on_fetch f (xw_relay w)\<rparr>"

definition record_events :: "metric_event list \<Rightarrow> ('b, 'u) proxy_world \<Rightarrow> ('b, 'u) proxy_world" where
  "record_events evs w = w\<lparr>xw_events := xw_events w @ evs\<rparr>"

section \<open>Bodies\<close>

text \<open>\<open>track_body\<close>: the frames pass unchanged; these events are recorded on the way.\<close>

fun track_events :: "(nat \<Rightarrow> duration) \<Rightarrow> bool \<Rightarrow> bool \<Rightarrow> nat \<Rightarrow> bool \<Rightarrow> bool \<Rightarrow> (string + bytes) list \<Rightarrow> metric_event list" where
  "track_events elapsed warm count_cache_bytes n saw_first failed [] =
     (if failed then [] else [Latency (if warm then Warm_Complete else Cold_Complete) (elapsed n)])"
| "track_events elapsed warm count_cache_bytes n saw_first failed (Inl e # frames) =
     track_events elapsed warm count_cache_bytes (n + 1) saw_first True frames"
| "track_events elapsed warm count_cache_bytes n saw_first failed (Inr chunk # frames) =
     (if chunk = [] then []
      else (if saw_first then [] else [Latency (if warm then Warm_Ttfb else Cold_Ttfb) (elapsed n)])
           @ (if count_cache_bytes then [Served (length chunk)] else []))
     @ track_events elapsed warm count_cache_bytes (n + 1) (saw_first \<or> chunk \<noteq> []) failed frames"

definition track_body :: "('b, 'u) proxy_env \<Rightarrow> bool \<Rightarrow> bool \<Rightarrow> (string + bytes) list \<Rightarrow> ('b, 'u) proxy_world \<Rightarrow> ('b, 'u) proxy_world" where
  "track_body env warm count_cache_bytes frames w =
     record_events (track_events (xe_elapsed env) warm count_cache_bytes 0 False False frames) w"

section \<open>From the cache\<close>

definition serve_cached ::
  "('b, 'u) proxy_env \<Rightarrow> cached_object \<Rightarrow> http_method \<Rightarrow> headers \<Rightarrow> bool \<Rightarrow> ('b, 'u) proxy_world \<Rightarrow> ('b, 'u) proxy_world \<times> proxy_response" where
  "serve_cached env object method hs warm w =
     (let fe = xe_fetch env; key = co_key object;
          w1 = xw_on_fetch (\<lambda>f. with_cache (cache_lock key \<circ> fe_lock_wait fe (fw_tick f)) f) w;
          unlock = xw_on_fetch (with_cache (cache_unlock key))
      in
      if (case co_digest object of None \<Rightarrow> False | Some digest \<Rightarrow> etag_matches (header_get ''if-none-match'' hs) digest) then
        (unlock (if method = GET \<and> warm
                 then record_events [Latency Warm_Ttfb (xe_elapsed env 0), Latency Warm_Complete (xe_elapsed env 0)] w1
                 else w1),
         \<lparr>px_status = 304, px_headers = set_registry_validators (the (co_digest object)) [], px_body = []\<rparr>)
      else
        let r = xe_serve_file env method hs (ca_objects (fw_cache (rw_fetch (xw_relay w1))) (co_path object));
            w2 = (if method = GET then track_body env warm True (px_body r) w1 else w1);
            hs1 = header_insert ''content-type''
                    (if header_value_ok (co_media_type object) then co_media_type object else ''application/octet-stream'')
                    (px_headers r);
            hs2 = header_insert ''docker-distribution-api-version'' ''registry/2.0'' hs1
        in (unlock w2,
            r\<lparr>px_headers := (case co_digest object of None \<Rightarrow> hs2 | Some digest \<Rightarrow> set_registry_validators digest hs2)\<rparr>))"

section \<open>The first node that answers\<close>

text \<open>
  The loop of \<open>proxy_passthrough\<close> and of \<open>stream_blob\<close>: nodes that were tried or have no free slot are skipped;
  an attempt ends the loop with a response, whose slot stays taken, or is an error to remember. When not all
  nodes have been tried, it waits for a slot.
\<close>

fun offer_nodes ::
  "(node_view \<Rightarrow> 'b fetch_world \<Rightarrow> 'b fetch_world \<times> response api_result) \<Rightarrow> node_view list \<Rightarrow> uuid set \<Rightarrow> app_error option
     \<Rightarrow> 'b fetch_world \<Rightarrow> 'b fetch_world \<times> uuid set \<times> app_error option \<times> (node_view \<times> response \<times> node_lease) option" where
  "offer_nodes attempt [] attempted last_error w = (w, attempted, last_error, None)"
| "offer_nodes attempt (node # nodes) attempted last_error w =
     (if nd_id (nv_node node) \<in> attempted then offer_nodes attempt nodes attempted last_error w
      else
        case selector_try_acquire (nd_id (nv_node node)) (nv_max_concurrency node) (fw_selector w) of
          (sel, None) \<Rightarrow> offer_nodes attempt nodes attempted last_error (w\<lparr>fw_selector := sel\<rparr>)
        | (sel, Some lease) \<Rightarrow>
            (case attempt node (w\<lparr>fw_selector := sel\<rparr>) of
               (w1, Inr r) \<Rightarrow> (w1, insert (nd_id (nv_node node)) attempted, last_error, Some (node, r, lease))
             | (w1, Inl e) \<Rightarrow>
                 offer_nodes attempt nodes (insert (nd_id (nv_node node)) attempted) (Some e) (release_lease lease w1)))"

fun offer_loop ::
  "nat \<Rightarrow> 'b fetch_env \<Rightarrow> (node_view \<Rightarrow> 'b fetch_world \<Rightarrow> 'b fetch_world \<times> response api_result) \<Rightarrow> string \<Rightarrow> node_view list
     \<Rightarrow> uuid set \<Rightarrow> app_error option \<Rightarrow> 'b fetch_world
     \<Rightarrow> ('b fetch_world \<times> (node_view \<times> response \<times> node_lease) api_result) option" where
  "offer_loop 0 env attempt message nodes attempted last_error w = None"
| "offer_loop (Suc fuel) env attempt message nodes attempted last_error w =
     (case offer_nodes attempt nodes attempted last_error w of
        (w1, _, _, Some answer) \<Rightarrow> Some (w1, Inr answer)
      | (w1, attempted', last_error', None) \<Rightarrow>
          if card attempted' = length nodes
          then Some (w1, Inl (case last_error' of None \<Rightarrow> Unavailable message | Some e \<Rightarrow> e))
          else offer_loop fuel env attempt message nodes attempted' last_error' (capacity_wait env w1))"

section \<open>Requests that are passed through\<close>

definition pass_attempt ::
  "'b fetch_env \<Rightarrow> http_method \<Rightarrow> fetch_request \<Rightarrow> node_view \<Rightarrow> 'b fetch_world \<Rightarrow> 'b fetch_world \<times> response api_result" where
  "pass_attempt env method rq node w =
     (case upstream_send env node method rq ForwardClient w of
        (w1, Inl e) \<Rightarrow> (w1, Inl e)
      | (w1, Inr r) \<Rightarrow>
          (w1, if retryable_upstream_status (re_status r)
               then Inl (Upstream (nd_name (nv_node node) @ '' returned '' @ fe_status_text env (re_status r)))
               else Inr r))"

definition to_response :: "response \<Rightarrow> proxy_response" where
  "to_response r = \<lparr>px_status = re_status r, px_headers = copy_response_headers (re_headers r) [], px_body = re_body r\<rparr>"

definition frame_events :: "(string + bytes) list \<Rightarrow> metric_event list" where
  "frame_events frames = List.map_filter (\<lambda>f. case f of Inl _ \<Rightarrow> None | Inr b \<Rightarrow> Some (Upstream_Data (length b))) frames"

definition proxy_passthrough ::
  "nat \<Rightarrow> ('b, 'u) proxy_env \<Rightarrow> http_method \<Rightarrow> fetch_request \<Rightarrow> node_view list \<Rightarrow> ('b, 'u) proxy_world
     \<Rightarrow> (('b, 'u) proxy_world \<times> proxy_response api_result) option" where
  "proxy_passthrough fuel env method rq nodes w =
     (case offer_loop fuel (xe_fetch env) (pass_attempt (xe_fetch env) method rq) ''Registry route is unavailable'' nodes {} None
             (rw_fetch (xw_relay w)) of
        None \<Rightarrow> None
      | Some (f, Inl e) \<Rightarrow> Some (xw_on_fetch (\<lambda>_. f) w, Inl e)
      | Some (f, Inr (node, r, lease)) \<Rightarrow>
          Some (record_events (frame_events (re_body r)) (xw_on_fetch (\<lambda>_. release_lease lease f) w), Inr (to_response r)))"

section \<open>The streaming fallback\<close>

definition stream_attempt ::
  "'b fetch_env \<Rightarrow> fetch_request \<Rightarrow> node_view \<Rightarrow> 'b fetch_world \<Rightarrow> 'b fetch_world \<times> response api_result" where
  "stream_attempt env rq node w =
     (let id = nd_id (nv_node node); report = (\<lambda>w. Blob_Fetch.record_transfer id 0 False (observe_node env id 0 False w)) in
      case upstream_send env node GET rq ForwardClient w of
        (w1, Inl e) \<Rightarrow> (report w1, Inl e)
      | (w1, Inr r) \<Rightarrow>
          if status_is_success (re_status r) then (observe_node env id 0 True w1, Inr r)
          else (if re_status r \<noteq> 404 then report w1 else w1,
                Inl (Upstream (nd_name (nv_node node) @ '' returned '' @ fe_status_text env (re_status r)))))"

text \<open>The parallel mode: only for the whole of a large Blob, from a node that says it serves ranges.\<close>

definition parallel_config ::
  "scheduler_runtime_config \<Rightarrow> stream_window_t \<Rightarrow> node_view list \<Rightarrow> headers \<Rightarrow> stream_download_config_t option" where
  "parallel_config runtime win nodes hs =
     (let config = stream_download_config runtime (sw_total win) (sum_list (map nv_max_concurrency nodes)) in
      if 1 < st_concurrency config \<and> complete_window win \<and> st_parallel_threshold config \<le> sw_total win
         \<and> (case header_str ''accept-ranges'' hs of None \<Rightarrow> False | Some v \<Rightarrow> eq_ignore_ascii_case v ''bytes'')
      then Some config else None)"

definition media_type_of :: "headers \<Rightarrow> string" where
  "media_type_of hs = (case header_str ''content-type'' hs of None \<Rightarrow> ''application/octet-stream'' | Some v \<Rightarrow> v)"

definition streamed_headers :: "headers \<Rightarrow> headers" where
  "streamed_headers hs =
     header_insert ''docker-distribution-api-version'' ''registry/2.0'' (copy_response_headers hs [])"

definition known_relay ::
  "('b, 'u) proxy_env \<Rightarrow> fetch_request \<Rightarrow> string \<Rightarrow> string option \<Rightarrow> node_view list \<Rightarrow> node_view \<Rightarrow> response \<Rightarrow> node_lease
     \<Rightarrow> stream_window_t \<Rightarrow> stream_relay" where
  "known_relay env rq key expected_digest nodes node r lease win =
     \<lparr>sl_nodes = nodes,
      sl_current_node = (case position (\<lambda>n. nd_id (nv_node n) = nd_id (nv_node node)) nodes of None \<Rightarrow> 0 | Some i \<Rightarrow> i),
      sl_response = r, sl_node_lease = lease, sl_request = rq, sl_window = win, sl_key = key,
      sl_media_type = media_type_of (re_headers r), sl_expected_digest = expected_digest,
      sl_parallel = parallel_config (xe_runtime env) win nodes (re_headers r),
      sl_policy = sr_scheduler_policy (xe_runtime env)\<rparr>"

definition unknown_relay :: "string \<Rightarrow> string option \<Rightarrow> node_view \<Rightarrow> response \<Rightarrow> node_lease \<Rightarrow> unknown_blob_relay" where
  "unknown_relay key expected_digest node r lease =
     \<lparr>ub_key = key, ub_media_type = media_type_of (re_headers r), ub_expected_digest = expected_digest, ub_node = node,
      ub_response = r, ub_node_lease = lease\<rparr>"

text \<open>The relay of an answer, and the response with its body. Every relay has its own queue to the client.\<close>

definition relay_answer ::
  "nat \<Rightarrow> nat \<Rightarrow> ('b, 'u) proxy_env \<Rightarrow> fetch_request \<Rightarrow> string \<Rightarrow> string option \<Rightarrow> node_view list
     \<Rightarrow> node_view \<times> response \<times> node_lease \<Rightarrow> ('b, 'u) proxy_world \<Rightarrow> (('b, 'u) proxy_world \<times> proxy_response api_result) option" where
  "relay_answer rounds fuel env rq key expected_digest nodes answer w =
     (case answer of
        (node, r, lease) \<Rightarrow>
          let queue = (xw_relay w)\<lparr>rw_sent := [], rw_range_failures := {}\<rparr>;
              respond = (\<lambda>hs (rw, result).
                let body = relay_body (rw_sent rw) result
                in (track_body env False False body (w\<lparr>xw_relay := rw\<rparr>),
                    Inr \<lparr>px_status = re_status r, px_headers = hs, px_body = body\<rparr>))
          in
          case stream_window (fe_parse_range (xe_fetch env)) r of
            None \<Rightarrow>
              Some (respond (header_insert ''docker-distribution-api-version'' ''registry/2.0''
                        (header_remove ''content-length'' (copy_response_headers (re_headers r) [])))
                     (relay_unknown_blob (xe_relay env) (unknown_relay key expected_digest node r lease) queue))
          | Some win \<Rightarrow>
              let sl = known_relay env rq key expected_digest nodes node r lease win;
                  queue' = (case sl_parallel sl of
                              None \<Rightarrow> queue
                            | Some config \<Rightarrow> on_fetch (record_parallel_blob (st_chunk_size config)) queue)
              in map_option (respond (streamed_headers (re_headers r)))
                   (relay_stream_blob rounds fuel (xe_relay env) sl queue'))"

definition cache_lookup :: "('b, 'u) proxy_env \<Rightarrow> string \<Rightarrow> ('b, 'u) proxy_world \<Rightarrow> ('b, 'u) proxy_world \<times> cached_object option" where
  "cache_lookup env key w =
     (let f = rw_fetch (xw_relay w); (cache, hit) = cache_get key (fe_utc (xe_fetch env) (fw_tick f)) (fw_cache f)
      in (xw_on_fetch (fw_cache_update (\<lambda>_. cache)) w, hit))"

text \<open>The memory of the sequential relay.\<close>

definition acquire_stream_memory :: "('b, 'u) proxy_env \<Rightarrow> ('b, 'u) proxy_world \<Rightarrow> unit api_result" where
  "acquire_stream_memory env w =
     (if le_timeout (xe_relay env) (rw_clock (xw_relay w)) then Inl (Upstream ''stream byte capacity remained unavailable'')
      else map_sum id (\<lambda>_. ()) (memory_request SEQUENTIAL_STREAM_MEMORY_BYTES))"

definition stream_leased ::
  "nat \<Rightarrow> nat \<Rightarrow> ('b, 'u) proxy_env \<Rightarrow> fetch_request \<Rightarrow> string \<Rightarrow> string option \<Rightarrow> node_view list \<Rightarrow> ('b, 'u) proxy_world
     \<Rightarrow> (('b, 'u) proxy_world \<times> proxy_response api_result) option" where
  "stream_leased rounds fuel env rq key expected_digest nodes w =
     (let unlock = xw_on_fetch (with_cache (cache_unlock key)) in
      case acquire_stream_memory env w of
        Inl e \<Rightarrow> Some (unlock w, Inl e)
      | Inr _ \<Rightarrow>
          (case offer_loop fuel (xe_fetch env) (stream_attempt (xe_fetch env) rq) ''all upstream nodes failed'' nodes {} None
                  (rw_fetch (xw_relay w)) of
             None \<Rightarrow> None
           | Some (f, Inl e) \<Rightarrow> Some (unlock (xw_on_fetch (\<lambda>_. f) w), Inl e)
           | Some (f, Inr answer) \<Rightarrow>
               relay_answer rounds fuel env rq key expected_digest nodes answer (xw_on_fetch (\<lambda>_. f) w)))"

definition stream_blob ::
  "nat \<Rightarrow> nat \<Rightarrow> ('b, 'u) proxy_env \<Rightarrow> fetch_request \<Rightarrow> string option \<Rightarrow> node_view list \<Rightarrow> ('b, 'u) proxy_world
     \<Rightarrow> (('b, 'u) proxy_world \<times> proxy_response api_result) option" where
  "stream_blob rounds fuel env rq expected_digest nodes w =
     (let fe = xe_fetch env;
          (f, ordered) = ordered_nodes_with_context fe nodes
            \<lparr>sx_sequence = sequence_for (fe_sha256 fe) (rq_path rq) 0, sx_blob_size = 0, sx_range_required = False,
             sx_chunk = None\<rparr> (sr_scheduler_policy (xe_runtime env)) (rw_fetch (xw_relay w));
          w0 = xw_on_fetch (\<lambda>_. f) w
      in
      case ordered of
        [] \<Rightarrow> Some (w0, Inl (Unavailable ''no enabled Registry nodes are available for Blob streaming''))
      | first # _ \<Rightarrow>
          let key = blob_request_key fe f rq first ordered in
          (case cache_lookup env key w0 of
             (w1, Some object) \<Rightarrow> Some (apsnd Inr (serve_cached env object GET (rq_headers rq) False w1))
           | (w1, None) \<Rightarrow>
               let w2 = xw_on_fetch (\<lambda>f. with_cache (cache_lock key \<circ> fe_lock_wait fe (fw_tick f)) f) w1 in
               (case cache_lookup env key w2 of
                  (w3, Some object) \<Rightarrow>
                    Some (apsnd Inr (serve_cached env object GET (rq_headers rq) False (xw_on_fetch (with_cache (cache_unlock key)) w3)))
                | (w3, None) \<Rightarrow> stream_leased rounds fuel env rq key expected_digest ordered w3)))"

section \<open>The handler\<close>

definition blob_digest :: "string \<Rightarrow> string api_result" where
  "blob_digest upstream_path =
     (let blob_path = (case split_once ''?'' upstream_path of None \<Rightarrow> upstream_path | Some (path, _) \<Rightarrow> path) in
      case rsplit_once ''/blobs/'' blob_path of
        None \<Rightarrow> Inl (BadRequest ''invalid Blob path'')
      | Some (_, digest) \<Rightarrow>
          if valid_sha256_digest digest then Inr digest else Inl (BadRequest ''invalid Blob digest''))"

text \<open>A GET for a Blob: the verified path within its time, else the relay.\<close>

definition get_blob ::
  "nat \<Rightarrow> nat \<Rightarrow> ('b, 'u) proxy_env \<Rightarrow> fetch_request \<Rightarrow> string \<Rightarrow> node_view list \<Rightarrow> ('b, 'u) proxy_world
     \<Rightarrow> (('b, 'u) proxy_world \<times> proxy_response api_result) option" where
  "get_blob rounds fuel env rq digest nodes w =
     (let f = rw_fetch (xw_relay w) in
      if xe_timed_out env (fw_tick f)
      then stream_blob rounds fuel env rq (Some digest) nodes (xw_on_fetch (xe_cancelled env (fw_tick f)) w)
      else
        (case fetch_blob fuel (xe_fetch env) (xe_runtime env) rq (Some digest) nodes f of
           None \<Rightarrow> None
         | Some (f1, Inl e) \<Rightarrow> Some (xw_on_fetch (\<lambda>_. f1) w, Inl e)
         | Some (f1, Inr result) \<Rightarrow>
             Some (apsnd Inr (serve_cached env (br_object result) GET (rq_headers rq) (br_cache_hit result)
                     (xw_on_fetch (\<lambda>_. f1) w)))))"

text \<open>A HEAD for a Blob that is cached.\<close>

definition head_blob ::
  "('b, 'u) proxy_env \<Rightarrow> fetch_request \<Rightarrow> node_view list \<Rightarrow> ('b, 'u) proxy_world \<Rightarrow> ('b, 'u) proxy_world \<times> proxy_response option" where
  "head_blob env rq nodes w =
     (let key = blob_request_key (xe_fetch env) (rw_fetch (xw_relay w)) rq (hd nodes) nodes in
      case cache_lookup env key w of
        (w1, None) \<Rightarrow> (record_events [Blob_Head False] w1, None)
      | (w1, Some object) \<Rightarrow>
          apsnd Some (serve_cached env object HEAD (rq_headers rq) True (record_events [Blob_Head True] w1)))"

definition log_pull ::
  "('b, 'u) proxy_env \<Rightarrow> uuid \<Rightarrow> (string \<times> string) option \<Rightarrow> proxy_response \<Rightarrow> ('b, 'u) proxy_world \<Rightarrow> ('b, 'u) proxy_world" where
  "log_pull env route_id subject r w =
     (case subject of
        None \<Rightarrow> w
      | Some (repository, reference) \<Rightarrow>
          if \<not> status_is_success (px_status r) then w
          else
            let tick = fw_tick (rw_fetch (xw_relay w)); now = fe_utc (xe_fetch env) tick;
                e = \<lparr>pe_id = xe_new_uuid env tick, pe_registry_route_id = route_id, pe_repository = repository,
                     pe_reference = reference, pe_resolved_digest = header_str ''docker-content-digest'' (px_headers r),
                     pe_status_code = int (px_status r), pe_created_at = now\<rparr>
            in w\<lparr>xw_tables := (xw_tables w)\<lparr>nt_routes := record_pull (xw_flags w) now e (nt_routes (xw_tables w))\<rparr>\<rparr>)"

definition pass_through ::
  "nat \<Rightarrow> ('b, 'u) proxy_env \<Rightarrow> http_method \<Rightarrow> fetch_request \<Rightarrow> uuid \<Rightarrow> node_view list \<Rightarrow> ('b, 'u) proxy_world
     \<Rightarrow> (('b, 'u) proxy_world \<times> proxy_response api_result) option" where
  "pass_through fuel env method rq route_id nodes w =
     (let subject = (if rf_pull_logging_enabled (xw_flags w) then manifest_pull_subject (rq_path rq) else None) in
      case proxy_passthrough fuel env method rq nodes w of
        None \<Rightarrow> None
      | Some (w1, Inl e) \<Rightarrow> Some (w1, Inl e)
      | Some (w1, Inr r) \<Rightarrow> Some (log_pull env route_id subject r w1, Inr r))"

text \<open>A request for a resource of a resolved route.\<close>

definition handle_resource ::
  "nat \<Rightarrow> nat \<Rightarrow> ('b, 'u) proxy_env \<Rightarrow> http_method \<Rightarrow> fetch_request \<Rightarrow> uuid \<Rightarrow> node_view list \<Rightarrow> ('b, 'u) proxy_world
     \<Rightarrow> (('b, 'u) proxy_world \<times> proxy_response api_result) option" where
  "handle_resource rounds fuel env method rq route_id nodes w =
     (if str_contains ''/blobs/'' (rq_path rq) then
        (case blob_digest (rq_path rq) of
           Inl e \<Rightarrow> Some (w, Inl e)
         | Inr digest \<Rightarrow>
             if method = HEAD then
               (case head_blob env rq nodes w of
                  (w1, Some r) \<Rightarrow> Some (w1, Inr r)
                | (w1, None) \<Rightarrow> pass_through fuel env method rq route_id nodes w1)
             else get_blob rounds fuel env rq digest nodes w)
      else pass_through fuel env method rq route_id nodes w)"

definition handle_inner ::
  "nat \<Rightarrow> nat \<Rightarrow> ('b, 'u) proxy_env \<Rightarrow> proxy_request \<Rightarrow> ('b, 'u) proxy_world \<Rightarrow> (('b, 'u) proxy_world \<times> proxy_response api_result) option" where
  "handle_inner rounds fuel env req w =
     (let path = uri_path (pq_uri req) in
      if is_helper_path path then Some (w, serve_helper (xe_templates env) (xe_authority env) (xe_config env) req)
      else if \<not> starts_with ''/v2'' path then
        (case proxy_if_mapping (xe_upstream env) (xe_authority env) (xw_mappings w) req (xw_upstream w) of
           (S, r) \<Rightarrow> Some (w\<lparr>xw_upstream := S\<rparr>, result_bind r (ok_or (NotFound ''route''))))
      else if path \<in> {''/v2'', ''/v2/''} then
        Some (w, Inr \<lparr>px_status = 200, px_headers = [(''docker-distribution-api-version'', ''registry/2.0'')], px_body = []\<rparr>)
      else if pq_method req \<notin> {''GET'', ''HEAD''} then
        Some (w, Inr \<lparr>px_status = 405, px_headers = [(''content-type'', ''text/plain; charset=utf-8'')],
                      px_body = [Inr (map of_char ''pull-through proxy is read-only'')]\<rparr>)
      else if 4096 < length path \<or> str_contains ''..'' path then Some (w, Inl (BadRequest ''invalid Registry path''))
      else
        case route_registry_path (nt_routes (xw_tables w)) (pq_uri req) of
          Inl e \<Rightarrow> Some (w, Inl e)
        | Inr resolved \<Rightarrow>
            (case enabled_registry_nodes (xe_nodes env) (fe_now (xe_fetch env) (fw_tick (rw_fetch (xw_relay w))))
                    (rr_id (rp_route resolved)) (xw_tables w) (xw_service w) of
               (Inl e, S) \<Rightarrow> Some (w\<lparr>xw_service := S\<rparr>, Inl e)
             | (Inr nodes, S) \<Rightarrow>
                 if nodes = [] then
                   Some (w\<lparr>xw_service := S\<rparr>, Inl (Unavailable ''resolved Registry route has no enabled nodes''))
                 else
                   handle_resource rounds fuel env (if pq_method req = ''GET'' then GET else HEAD)
                     \<lparr>rq_path = rp_upstream_path resolved, rq_headers = pq_headers req\<rparr> (rr_id (rp_route resolved)) nodes
                     (w\<lparr>xw_service := S\<rparr>)))"

definition error_response :: "('b, 'u) proxy_env \<Rightarrow> app_error \<Rightarrow> proxy_response" where
  "error_response env e =
     \<lparr>px_status = app_error_status e, px_headers = [(''content-type'', ''application/json'')], px_body = [Inr (xe_error_body env e)]\<rparr>"

definition handle ::
  "nat \<Rightarrow> nat \<Rightarrow> ('b, 'u) proxy_env \<Rightarrow> proxy_request \<Rightarrow> ('b, 'u) proxy_world \<Rightarrow> (('b, 'u) proxy_world \<times> proxy_response) option" where
  "handle rounds fuel env req w =
     (let count_traffic = starts_with ''/v2'' (uri_path (pq_uri req));
          w0 = (if count_traffic then w\<lparr>xw_traffic := record_request (xw_traffic w)\<rparr> else w)
      in
      case handle_inner rounds fuel env req w0 of
        None \<Rightarrow> None
      | Some (w1, result) \<Rightarrow>
          let r = (case result of Inr r \<Rightarrow> r | Inl e \<Rightarrow> error_response env e) in
          Some (if count_traffic
                then (let (body, traffic) = track_response (px_body r) (xw_traffic w1)
                      in (w1\<lparr>xw_traffic := traffic\<rparr>, r\<lparr>px_body := body\<rparr>))
                else (w1, r)))"

end
