(* ===== verification/Registry_Proxy_Proofs.thy ===== *)
theory Registry_Proxy_Proofs
  imports Registry_Proxy Stream_Relay_Proofs Node_Proofs
begin

text \<open>
  The properties of the Registry handler as a whole: what a client gets for a Blob is verified on every path,
  from the cache, the verified fetch and the relay; and how requests that are passed through fail over.
\<close>

section \<open>The objects of a Blob in the cache\<close>

text \<open>The keys under which a request path can be cached, whatever the route, the authorization and the mode.\<close>

definition blob_keys :: "'b fetch_env \<Rightarrow> string \<Rightarrow> string set" where
  "blob_keys env path = {cache_key (fe_sha256_hex env) scope path auth pub | scope auth pub. True}"

definition holds_blob :: "'b fetch_env \<Rightarrow> string \<Rightarrow> string \<Rightarrow> cache_store \<Rightarrow> bool" where
  "holds_blob env path digest s \<longleftrightarrow> cache_inv s
     \<and> (\<forall>k \<in> blob_keys env path. \<forall>c. ca_objects s (object_path s k) = Some c \<longrightarrow> digest = ''sha256:'' @ fe_sha256_hex env c)"

lemma request_key_in: "blob_request_key env f rq node nodes \<in> blob_keys env (rq_path rq)"
  by (auto simp: blob_request_key_def request_key_def blob_keys_def Let_def)

lemma holds_blob_le:
  assumes "holds_blob env path digest s" and "cache_inv t" and "ca_root t = ca_root s" and "ca_objects t \<subseteq>\<^sub>m ca_objects s"
  shows "holds_blob env path digest t"
  using assms unfolding holds_blob_def map_le_def object_path_def by (metis domI)

lemma cache_get_fields:
  "ca_objects (fst (cache_get key now s)) = ca_objects s" "ca_root (fst (cache_get key now s)) = ca_root s"
  by (auto simp: cache_get_def delete_entry_def record_hit_def add_cache_hits_def Let_def split: option.splits)

lemma holds_blob_get: "holds_blob env path digest s \<Longrightarrow> holds_blob env path digest (fst (cache_get key now s))"
  using cache_inv_step [OF _ cache_step.got] holds_blob_le [of env path digest s "fst (cache_get key now s)"]
  by (simp add: cache_get_fields holds_blob_def)

lemma holds_blob_lock [simp]:
  "holds_blob env path digest (cache_lock key s) = holds_blob env path digest s"
  "holds_blob env path digest (cache_unlock key s) = holds_blob env path digest s"
  by (simp_all add: holds_blob_def cache_inv_def cache_ok_def cache_lock_def cache_unlock_def object_path_def)

text \<open>A hit names the object of its key.\<close>

lemma cache_get_path:
  assumes "cache_inv s" and "cache_get key now s = (t, Some object)"
  shows "co_path object = object_path s key"
proof -
  obtain e where e: "find_entry key s = Some e" "co_path object = cr_path e"
    using assms(2) by (auto simp: cache_get_def split: option.splits if_splits)
  then have "e \<in> set (ca_entries s)" "cr_key e = key" by (auto simp: find_entry_def find_Some_iff)
  with assms(1) e(2) show ?thesis by (auto simp: cache_inv_def cache_ok_def)
qed

lemma object_path_root: "ca_root t = ca_root s \<Longrightarrow> object_path t = object_path s"
  by (simp add: object_path_def fun_eq_iff)

lemma cache_get_holds:
  assumes "cache_get key now s = (t, hit)" and "holds_blob env path digest s"
  shows "holds_blob env path digest t \<and> ca_root t = ca_root s \<and> (\<forall>object. hit = Some object \<longrightarrow> co_path object = object_path t key)"
proof -
  have t: "t = fst (cache_get key now s)" using assms(1) by simp
  then have "ca_root t = ca_root s" by (simp add: cache_get_fields)
  moreover have "holds_blob env path digest t" unfolding t using assms(2) by (rule holds_blob_get)
  moreover have "cache_inv s" using assms(2) by (simp add: holds_blob_def)
  ultimately show ?thesis using cache_get_path [of s key now t] assms(1) object_path_root [of t s] by auto
qed

lemma admit_objects:
  assumes "cache_ok s" and "runtime_ok (ca_runtime s)" and "admit ln_1p key content m d now s = (t, Inr obj)"
  shows "ca_root t = ca_root s \<and> (\<forall>p c. ca_objects t p = Some c \<longrightarrow> c = content \<and> p = object_path s key \<or> ca_objects s p = Some c)
    \<and> co_path obj = object_path s key"
proof -
  let ?s0 = "s\<lparr>ca_admissions_started := ca_admissions_started s + 1\<rparr>"
  obtain u where res: "reserve_capacity_locked ln_1p (length content) key now ?s0 = (u, Inr ())"
    using assms(3) by (auto simp: admit_def Let_def split: prod.splits sum.splits)
  have "cache_ok ?s0" "runtime_ok (ca_runtime ?s0)" using assms by (simp_all add: cache_ok_def object_path_def)
  from reserve_capacity_spec(1) [OF this res] have root: "ca_root u = ca_root s" by (auto simp: evicts_def)
  have "u = ?s0 \<or> u = flush_hits now ?s0 \<or> (\<exists>need. u = fst (evict_loop ln_1p key need now 0 (flush_hits now ?s0)))"
    using res by (simp add: reserve_capacity_locked_def aggregate_def Let_def split: if_splits prod.splits sum.splits)
      (metis fst_conv)+
  then have "ca_objects u \<subseteq>\<^sub>m ca_objects s"
    using evict_loop_objects_le [of ln_1p key _ now 0 "flush_hits now ?s0"] by auto
  then have old: "ca_objects u p = Some c \<Longrightarrow> ca_objects s p = Some c" for p c by (metis domI map_le_def)
  have path: "object_path u = object_path s" "object_path (u\<lparr>ca_objects := f\<rparr>) = object_path s" for f
    using root by (simp_all add: object_path_def fun_eq_iff)
  show ?thesis using assms(3) res root old by (auto simp: admit_def Let_def commit_def path split: if_splits)
qed

lemma admit_holds:
  assumes "holds_blob env path digest s" and "valid_cache_key key"
    and "admit ln_1p key content m d now s = (t, Inr obj)" and "digest = ''sha256:'' @ fe_sha256_hex env content"
  shows "holds_blob env path digest t \<and> ca_root t = ca_root s \<and> co_path obj = object_path t key"
proof -
  have ok: "cache_ok s" "runtime_ok (ca_runtime s)" using assms(1) by (simp_all add: holds_blob_def cache_inv_def)
  have "cache_inv t" using cache_inv_step [OF _ cache_step.admitted [OF assms(2)]] assms(1,3)
    by (metis fst_conv holds_blob_def)
  with admit_objects [OF ok assms(3)] assms(1,4) show ?thesis
    unfolding holds_blob_def object_path_def by auto
qed

text \<open>What other tasks may do to the cache while a request waits.\<close>

definition keeps_blob :: "'b fetch_env \<Rightarrow> string \<Rightarrow> string \<Rightarrow> (cache_store \<Rightarrow> cache_store) \<Rightarrow> bool" where
  "keeps_blob env path digest f \<longleftrightarrow>
     (\<forall>s. holds_blob env path digest s \<longrightarrow> holds_blob env path digest (f s) \<and> ca_root (f s) = ca_root s)"

lemma holds_blob_root: "ca_root (cache_lock key s) = ca_root s" "ca_root (cache_unlock key s) = ca_root s"
  by (simp_all add: cache_lock_def cache_unlock_def)

lemma fetch_uncached_holds:
  assumes "fetch_uncached fuel env runtime key rq (Some digest) nodes w = Some (w', Inr obj)"
    and "holds_blob env path digest (fw_cache w)" and "valid_cache_key key"
  shows "holds_blob env path digest (fw_cache w') \<and> ca_root (fw_cache w') = ca_root (fw_cache w)
    \<and> co_path obj = object_path (fw_cache w') key"
proof -
  obtain w1 detected strategy w2 w3 w4 where det: "detect_capabilities env runtime nodes rq w = (w1, Inr detected)"
    and st: "download_blob fuel env runtime detected strategy key rq w1 = Some (w2, Inr ())"
      "check_length fuel env runtime detected (Some digest) key rq w2 = Some (w3, Inr ())"
      "check_digest fuel env runtime detected (Some digest) key rq w3 = Some (w4, Inr ())"
    and ad: "admit_partial env detected (Some digest) key w4 = (w', Inr obj)"
    using assms(1) by (auto simp: fetch_uncached_def split: prod.splits sum.splits option.splits)
  have c4: "fw_cache w4 = fw_cache w"
    using download_blob_cache [OF st(1)] check_length_cache [OF st(2)] check_digest_cache [OF st(3)]
      detect_capabilities_cache [OF det] by simp
  obtain content where c: "fw_files w4 (Partial_Object key) = Some content" "digest = ''sha256:'' @ fe_sha256_hex env content"
    using check_digest_verified [OF st(3)] by (auto simp: verify_file_def verify_content_ok)
  obtain cache where a: "admit (fe_ln_1p env) key content (dc_media_type detected) (Some digest)
      (fe_utc env (fw_tick w4)) (fw_cache w4) = (cache, Inr obj)" "fw_cache w' = cache"
    using ad c(1) by (auto simp: admit_partial_def split: prod.splits sum.splits)
  from admit_holds [OF assms(2,3) a(1) [unfolded c4] c(2)] a(2) show ?thesis by simp
qed

lemma fetch_blob_holds:
  assumes "fetch_blob fuel env runtime rq (Some digest) nodes w = Some (w', Inr res)"
    and "holds_blob env (rq_path rq) digest (fw_cache w)" and "\<And>bs. valid_cache_key (fe_sha256_hex env bs)"
    and "\<And>n. keeps_blob env (rq_path rq) digest (fe_lock_wait env n)"
  shows "holds_blob env (rq_path rq) digest (fw_cache w')
    \<and> (\<exists>k \<in> blob_keys env (rq_path rq). co_path (br_object res) = object_path (fw_cache w') k)"
proof -
  let ?key = "blob_request_key env w rq (hd nodes) nodes"
  have key: "?key \<in> blob_keys env (rq_path rq)" by (rule request_key_in)
  then have valid: "valid_cache_key ?key" using assms(3) by (auto simp: blob_keys_def cache_key_def)
  obtain cache hit where get: "cache_get ?key (fe_utc env (fw_tick w)) (fw_cache w) = (cache, hit)" by fastforce
  note c1 = cache_get_holds [OF get assms(2)]
  obtain n ns where nodes: "nodes = n # ns" using assms(1) by (cases nodes) (auto simp: fetch_blob_def)
  show ?thesis
  proof (cases hit)
    case (Some object)
    with assms(1) get nodes have "w' = w\<lparr>fw_cache := cache\<rparr>" "br_object res = object"
      by (auto simp: fetch_blob_def Let_def)
    with c1 Some key show ?thesis by auto
  next
    case None
    let ?w1 = "w\<lparr>fw_cache := cache\<rparr>"
    let ?w2 = "with_cache (cache_lock ?key \<circ> fe_lock_wait env (fw_tick ?w1)) ?w1"
    have fl: "fetch_flight fuel env runtime ?key rq (Some digest) nodes ?w1 = Some (w', Inr res)"
      using assms(1) get nodes None by (simp add: fetch_blob_def Let_def)
    have c2: "holds_blob env (rq_path rq) digest (fw_cache ?w2)"
      using assms(4) [of "fw_tick ?w1"] c1 by (auto simp: keeps_blob_def with_cache_def)
    obtain cache2 hit2 where get2: "cache_get ?key (fe_utc env (fw_tick ?w2)) (fw_cache ?w2) = (cache2, hit2)" by fastforce
    note c3 = cache_get_holds [OF get2 c2]
    show ?thesis
    proof (cases hit2)
      case (Some object)
      have "fw_cache w' = cache_unlock ?key cache2" "br_object res = object"
        using fl get2 Some by (auto simp: fetch_flight_def Let_def with_cache_def)
      with c3 Some key show ?thesis by (auto simp: object_path_root [OF holds_blob_root(2)])
    next
      case n2: None
      obtain w4 q where fq: "fetch_uncached fuel env runtime ?key rq (Some digest) nodes (?w2\<lparr>fw_cache := cache2\<rparr>) = Some (w4, q)"
        "w' = with_cache (cache_unlock ?key) w4"
        "(case q of Inl e \<Rightarrow> Inl e | Inr object \<Rightarrow> Inr \<lparr>br_object = object, br_cache_hit = False\<rparr>) = Inr res"
        using fl get2 n2 by (auto simp: fetch_flight_def Let_def)
      from fq(3) obtain obj where "q = Inr obj" "br_object res = obj" by (cases q) auto
      with fq have f: "fetch_uncached fuel env runtime ?key rq (Some digest) nodes (?w2\<lparr>fw_cache := cache2\<rparr>) = Some (w4, Inr obj)"
        "w' = with_cache (cache_unlock ?key) w4" "br_object res = obj" by simp_all
      from fetch_uncached_holds [OF f(1) _ valid, of "rq_path rq"] c3 f(2,3) key show ?thesis
        by (auto simp: with_cache_def object_path_root [OF holds_blob_root(2)])
    qed
  qed
qed

section \<open>What the client receives\<close>

definition no_error :: "(string + bytes) list \<Rightarrow> bool" where
  "no_error frames \<longleftrightarrow> (\<forall>f \<in> set frames. is_ok f)"

definition body_bytes :: "(string + bytes) list \<Rightarrow> bytes" where
  "body_bytes frames = concat (List.map_filter (\<lambda>f. case f of Inl _ \<Rightarrow> None | Inr b \<Rightarrow> Some b) frames)"

lemma body_bytes_Inr [simp]: "body_bytes (map Inr bs) = concat bs"
  by (induction bs) (simp_all add: body_bytes_def List.map_filter_def)

text \<open>\<open>ServeFile\<close>: an answer with status 200 has the content of an existing file as its body, or breaks off.\<close>

definition serves_files :: "('b, 'u) proxy_env \<Rightarrow> bool" where
  "serves_files env \<longleftrightarrow>
     (\<forall>hs content. px_status (xe_serve_file env GET hs content) = 200 \<and> no_error (px_body (xe_serve_file env GET hs content)) \<longrightarrow>
        content = Some (body_bytes (px_body (xe_serve_file env GET hs content))))"

abbreviation (input) cache_of :: "('b, 'u) proxy_world \<Rightarrow> cache_store" where
  "cache_of w \<equiv> fw_cache (rw_fetch (xw_relay w))"

lemma serve_cached_verified:
  assumes "serve_cached env object GET hs warm w = (w', r)" and "px_status r = 200" and "no_error (px_body r)"
    and "serves_files env" and "holds_blob (xe_fetch env) path digest (cache_of w)"
    and "\<And>n. keeps_blob (xe_fetch env) path digest (fe_lock_wait (xe_fetch env) n)"
    and "k \<in> blob_keys (xe_fetch env) path" and "co_path object = object_path (cache_of w) k"
  shows "digest = ''sha256:'' @ fe_sha256_hex (xe_fetch env) (body_bytes (px_body r))"
proof -
  let ?s = "fe_lock_wait (xe_fetch env) (fw_tick (rw_fetch (xw_relay w))) (cache_of w)"
  let ?r = "xe_serve_file env GET hs (ca_objects ?s (co_path object))"
  have r: "px_status ?r = 200" "px_body ?r = px_body r"
    using assms(1,2) by (auto simp: serve_cached_def Let_def xw_on_fetch_def on_fetch_def with_cache_def cache_lock_def split: if_splits)
  have s: "holds_blob (xe_fetch env) path digest ?s" "object_path ?s = object_path (cache_of w)"
    using assms(5,6) by (auto simp: keeps_blob_def intro: object_path_root)
  have "ca_objects ?s (co_path object) = Some (body_bytes (px_body r))"
    using assms(3,4) r unfolding serves_files_def by metis
  with s assms(7,8) show ?thesis by (auto simp: holds_blob_def)
qed

text \<open>The loop over the nodes ends with an answer that an attempt gave.\<close>

lemma offer_nodes_answer:
  "offer_nodes attempt nodes attempted e w = (w', attempted', e', Some (node, r, lease)) \<Longrightarrow>
     node \<in> set nodes \<and> (\<exists>w0 w1. attempt node w0 = (w1, Inr r))"
  by (induction attempt nodes attempted e w rule: offer_nodes.induct)
    (auto split: if_splits prod.splits option.splits sum.splits)

lemma offer_loop_answer:
  "offer_loop fuel env attempt message nodes attempted e w = Some (w', Inr (node, r, lease)) \<Longrightarrow>
     node \<in> set nodes \<and> (\<exists>w0 w1. attempt node w0 = (w1, Inr r))"
  by (induction fuel arbitrary: attempted e w)
    (auto split: if_splits prod.splits option.splits dest: offer_nodes_answer)

lemma stream_attempt_Inr:
  "stream_attempt env rq node w = (w1, Inr r) \<Longrightarrow> \<exists>n. fe_send env n node GET rq ForwardClient = Inr r"
  by (auto simp: stream_attempt_def upstream_send_def Let_def split: sum.splits if_splits)

text \<open>Upstream lengths are 64-bit numbers.\<close>

definition u64_lengths :: "'b fetch_env \<Rightarrow> bool" where
  "u64_lengths env \<longleftrightarrow>
     (\<forall>n node method rq rmode r l. fe_send env n node method rq rmode = Inr r \<longrightarrow> re_content_length r = Some l \<longrightarrow> l \<le> u64_max)"

lemma no_error_relay_body: "no_error (relay_body sent result) \<Longrightarrow> result = Inr () \<and> relay_body sent result = map Inr sent"
  by (cases result) (auto simp: no_error_def relay_body_def is_ok_def)

lemma relay_answer_verified:
  assumes "relay_answer rounds fuel env rq key (Some digest) nodes (node, r, lease) w = Some (w', Inr resp)"
    and "px_status resp = 200" and "no_error (px_body resp)" and "\<And>l. re_content_length r = Some l \<Longrightarrow> l \<le> u64_max"
  shows "digest = ''sha256:'' @ fe_sha256_hex (xe_fetch env) (body_bytes (px_body resp))"
proof (cases "stream_window (fe_parse_range (xe_fetch env)) r")
  case None
  define q where "q = (xw_relay w)\<lparr>rw_sent := [], rw_range_failures := {}\<rparr>"
  obtain rw result where run: "relay_unknown_blob (xe_relay env) (unknown_relay key (Some digest) node r lease) q = (rw, result)"
    by fastforce
  have body: "px_body resp = relay_body (rw_sent rw) result"
    using assms(1) None run by (auto simp: relay_answer_def Let_def q_def)
  with no_error_relay_body assms(3) have ok: "result = Inr ()" "px_body resp = map Inr (rw_sent rw)" by metis+
  from unknown_blob_verified [OF run [unfolded ok(1)]] show ?thesis
    by (auto simp: unknown_relay_def q_def ok(2))
next
  case (Some win)
  define sl where "sl = known_relay env rq key (Some digest) nodes node r lease win"
  obtain q rw result where run: "relay_stream_blob rounds fuel (xe_relay env) sl q = Some (rw, result)" "rw_sent q = []"
    and resp: "px_body resp = relay_body (rw_sent rw) result" "px_status resp = re_status r"
  proof -
    define q where "q = (case sl_parallel sl of None \<Rightarrow> (xw_relay w)\<lparr>rw_sent := [], rw_range_failures := {}\<rparr>
        | Some config \<Rightarrow> on_fetch (record_parallel_blob (st_chunk_size config)) ((xw_relay w)\<lparr>rw_sent := [], rw_range_failures := {}\<rparr>))"
    have "rw_sent q = []" by (simp add: q_def on_fetch_def split: option.split)
    moreover obtain rw result where "relay_stream_blob rounds fuel (xe_relay env) sl q = Some (rw, result)"
      "px_body resp = relay_body (rw_sent rw) result" "px_status resp = re_status r"
      using assms(1) Some by (auto simp: relay_answer_def Let_def sl_def q_def)
    ultimately show thesis using that by blast
  qed
  with no_error_relay_body assms(3) have ok: "result = Inr ()" "px_body resp = map Inr (rw_sent rw)" by metis+
  have "complete_window win"
    using Some resp(2) assms(2,4)
    by (auto simp: stream_window_def complete_window_def u64_checked_add_def split: option.splits if_splits)
  then have "complete_window (sl_window sl)" "sl_expected_digest sl = Some digest" by (simp_all add: sl_def known_relay_def)
  from relay_verified [OF run(1) [unfolded ok(1)] this] show ?thesis by (auto simp: ok(2) run(2))
qed

lemma stream_leased_verified:
  assumes "stream_leased rounds fuel env rq key (Some digest) nodes w = Some (w', Inr resp)"
    and "px_status resp = 200" and "no_error (px_body resp)" and "u64_lengths (xe_fetch env)"
  shows "digest = ''sha256:'' @ fe_sha256_hex (xe_fetch env) (body_bytes (px_body resp))"
proof -
  obtain f node r lease where loop: "offer_loop fuel (xe_fetch env) (stream_attempt (xe_fetch env) rq) ''all upstream nodes failed'' nodes {} None
      (rw_fetch (xw_relay w)) = Some (f, Inr (node, r, lease))"
    and relay: "relay_answer rounds fuel env rq key (Some digest) nodes (node, r, lease) (xw_on_fetch (\<lambda>_. f) w) = Some (w', Inr resp)"
    using assms(1) by (auto simp: stream_leased_def Let_def split: sum.splits option.splits)
  obtain n where "fe_send (xe_fetch env) n node GET rq ForwardClient = Inr r"
    using offer_loop_answer [OF loop] stream_attempt_Inr by blast
  with assms(4) have "\<And>l. re_content_length r = Some l \<Longrightarrow> l \<le> u64_max" unfolding u64_lengths_def by blast
  with relay_answer_verified [OF relay assms(2,3)] show ?thesis by blast
qed


text \<open>The assumptions on what the proxy does not control, for one Blob.\<close>

definition blob_world_ok :: "('b, 'u) proxy_env \<Rightarrow> string \<Rightarrow> string \<Rightarrow> bool" where
  "blob_world_ok env path digest \<longleftrightarrow>
     serves_files env \<and> u64_lengths (xe_fetch env) \<and> (\<forall>bs. valid_cache_key (fe_sha256_hex (xe_fetch env) bs))
     \<and> (\<forall>n. keeps_blob (xe_fetch env) path digest (fe_lock_wait (xe_fetch env) n))
     \<and> (\<forall>n f. holds_blob (xe_fetch env) path digest (fw_cache f) \<longrightarrow>
          holds_blob (xe_fetch env) path digest (fw_cache (xe_cancelled env n f)))"

lemma ordered_cache: "ordered_nodes_with_context env nodes ctx policy f = (f', ns) \<Longrightarrow> fw_cache f' = fw_cache f"
  by (auto simp: ordered_nodes_with_context_def split: prod.splits)

lemma apsnd_Inr_eq: "apsnd Inr p = (a, Inr b) \<longleftrightarrow> p = (a, b)"
  by (cases p) auto

lemma stream_blob_verified:
  assumes "stream_blob rounds fuel env rq (Some digest) nodes w = Some (w', Inr resp)"
    and "px_status resp = 200" and "no_error (px_body resp)" and "blob_world_ok env (rq_path rq) digest"
    and "holds_blob (xe_fetch env) (rq_path rq) digest (cache_of w)"
  shows "digest = ''sha256:'' @ fe_sha256_hex (xe_fetch env) (body_bytes (px_body resp))"
proof -
  let ?fe = "xe_fetch env"
  have env: "serves_files env" "u64_lengths ?fe" "\<And>n. keeps_blob ?fe (rq_path rq) digest (fe_lock_wait ?fe n)"
    using assms(4) by (simp_all add: blob_world_ok_def)
  obtain f ordered where ord: "ordered_nodes_with_context ?fe nodes
      \<lparr>sx_sequence = sequence_for (fe_sha256 ?fe) (rq_path rq) 0, sx_blob_size = 0, sx_range_required = False, sx_chunk = None\<rparr>
      (sr_scheduler_policy (xe_runtime env)) (rw_fetch (xw_relay w)) = (f, ordered)" by fastforce
  obtain first rest where ordered: "ordered = first # rest" using assms(1) ord by (cases ordered) (auto simp: stream_blob_def Let_def)
  define key where "key = blob_request_key ?fe f rq first ordered"
  have key: "key \<in> blob_keys ?fe (rq_path rq)" by (simp add: key_def request_key_in)
  define w0 where "w0 = xw_on_fetch (\<lambda>_. f) w"
  have c0: "holds_blob ?fe (rq_path rq) digest (cache_of w0)"
    using assms(5) ordered_cache [OF ord] by (simp add: w0_def xw_on_fetch_def on_fetch_def)
  have look: "holds_blob ?fe (rq_path rq) digest (cache_of v') \<and> (\<forall>object. hit = Some object \<longrightarrow> co_path object = object_path (cache_of v') key)"
    if lk: "cache_lookup env key v = (v', hit)" "holds_blob ?fe (rq_path rq) digest (cache_of v)" for v v' hit
  proof -
    obtain s where get: "cache_get key (fe_utc ?fe (fw_tick (rw_fetch (xw_relay v)))) (cache_of v) = (s, hit)" "cache_of v' = s"
      using lk(1) by (auto simp: cache_lookup_def xw_on_fetch_def on_fetch_def Let_def split: prod.splits)
    with cache_get_holds [OF get(1) lk(2)] show ?thesis by simp
  qed
  obtain w1 hit where l1: "cache_lookup env key w0 = (w1, hit)" by fastforce
  note c1 = look [OF l1 c0]
  note serve = serve_cached_verified [OF _ assms(2,3) env(1) _ env(3) key]
  show ?thesis
  proof (cases hit)
    case (Some object)
    with assms(1) ord ordered l1 have "serve_cached env object GET (rq_headers rq) False w1 = (w', resp)"
      by (auto simp: stream_blob_def Let_def key_def w0_def apsnd_Inr_eq)
    from serve [OF this] c1 Some show ?thesis by simp
  next
    case None
    define w2 where "w2 = xw_on_fetch (\<lambda>f. with_cache (cache_lock key \<circ> fe_lock_wait ?fe (fw_tick f)) f) w1"
    have c2: "holds_blob ?fe (rq_path rq) digest (cache_of w2)"
      using c1 env(3) by (simp add: w2_def xw_on_fetch_def on_fetch_def with_cache_def keeps_blob_def)
    obtain w3 hit3 where l3: "cache_lookup env key w2 = (w3, hit3)" by fastforce
    note c3 = look [OF l3 c2]
    show ?thesis
    proof (cases hit3)
      case h3: (Some object)
      define w4 where "w4 = xw_on_fetch (with_cache (cache_unlock key)) w3"
      have "serve_cached env object GET (rq_headers rq) False w4 = (w', resp)"
        using assms(1) ord ordered l1 l3 None h3 by (auto simp: stream_blob_def Let_def key_def w0_def w2_def w4_def apsnd_Inr_eq)
      from serve [OF this] c3 h3 show ?thesis
        by (simp add: w4_def xw_on_fetch_def on_fetch_def with_cache_def object_path_root [OF holds_blob_root(2)])
    next
      case n3: None
      have "stream_leased rounds fuel env rq key (Some digest) ordered w3 = Some (w', Inr resp)"
        using assms(1) ord ordered l1 l3 None n3 by (auto simp: stream_blob_def Let_def key_def w0_def w2_def)
      from stream_leased_verified [OF this assms(2,3) env(2)] show ?thesis .
    qed
  qed
qed

lemma get_blob_verified:
  assumes "get_blob rounds fuel env rq digest nodes w = Some (w', Inr resp)"
    and "px_status resp = 200" and "no_error (px_body resp)" and "blob_world_ok env (rq_path rq) digest"
    and "holds_blob (xe_fetch env) (rq_path rq) digest (cache_of w)"
  shows "digest = ''sha256:'' @ fe_sha256_hex (xe_fetch env) (body_bytes (px_body resp))"
proof (cases "xe_timed_out env (fw_tick (rw_fetch (xw_relay w)))")
  case True
  let ?w = "xw_on_fetch (xe_cancelled env (fw_tick (rw_fetch (xw_relay w)))) w"
  have "holds_blob (xe_fetch env) (rq_path rq) digest (cache_of ?w)"
    using assms(4,5) by (simp add: blob_world_ok_def xw_on_fetch_def on_fetch_def)
  with stream_blob_verified [of rounds fuel env rq digest nodes ?w] assms True show ?thesis by (simp add: get_blob_def)
next
  case False
  let ?fe = "xe_fetch env"
  have env: "serves_files env" "\<And>bs. valid_cache_key (fe_sha256_hex ?fe bs)"
    "\<And>n. keeps_blob ?fe (rq_path rq) digest (fe_lock_wait ?fe n)"
    using assms(4) by (simp_all add: blob_world_ok_def)
  obtain f res where fetch: "fetch_blob fuel ?fe (xe_runtime env) rq (Some digest) nodes (rw_fetch (xw_relay w)) = Some (f, Inr res)"
    and serve: "serve_cached env (br_object res) GET (rq_headers rq) (br_cache_hit res) (xw_on_fetch (\<lambda>_. f) w) = (w', resp)"
    using assms(1) False by (auto simp: get_blob_def Let_def apsnd_Inr_eq split: option.splits sum.splits)
  from fetch_blob_holds [OF fetch assms(5) env(2,3)] obtain k where
    "holds_blob ?fe (rq_path rq) digest (fw_cache f)" "k \<in> blob_keys ?fe (rq_path rq)"
    "co_path (br_object res) = object_path (fw_cache f) k" by blast
  then show ?thesis using serve_cached_verified [OF serve assms(2,3) env(1) _ env(3)]
    by (simp add: xw_on_fetch_def on_fetch_def)
qed

section \<open>Properties\<close>

lemma error_status: "app_error_status e \<noteq> 200"
  by (cases e) simp_all

text \<open>
  C1: No client ever gets a wrong Blob. When the proxy answers a GET for a Blob with status 200 and the body
  ends without an error, then the SHA-256 of the whole body is the digest in the path: on the cached path, the
  verified fetch and the streaming fallback after the time limit, for every behaviour of the upstream nodes and
  of the network, and every timeout. It is assumed of the surroundings that the objects other tasks put under
  the keys of this Blob are verified as this one is, that \<open>ServeFile\<close> delivers the file, that SHA-256 is written
  in hex and that lengths have 64 bits.
\<close>

theorem served_blob_verified:
  assumes "handle rounds fuel env req w = Some (w', resp)" and "px_status resp = 200" and "no_error (px_body resp)"
    and "pq_method req = ''GET''" and "\<not> is_helper_path (uri_path (pq_uri req))" and "starts_with ''/v2'' (uri_path (pq_uri req))"
    and "uri_path (pq_uri req) \<notin> {''/v2'', ''/v2/''}"
    and "route_registry_path (nt_routes (xw_tables w)) (pq_uri req) = Inr resolved"
    and "str_contains ''/blobs/'' (rp_upstream_path resolved)" and "blob_digest (rp_upstream_path resolved) = Inr digest"
    and "blob_world_ok env (rp_upstream_path resolved) digest"
    and "holds_blob (xe_fetch env) (rp_upstream_path resolved) digest (cache_of w)"
  shows "digest = ''sha256:'' @ fe_sha256_hex (xe_fetch env) (body_bytes (px_body resp))"
proof -
  define w0 where "w0 = w\<lparr>xw_traffic := record_request (xw_traffic w)\<rparr>"
  obtain w1 result where inner: "handle_inner rounds fuel env req w0 = Some (w1, result)"
    and resp: "px_body resp = px_body (case result of Inr r \<Rightarrow> r | Inl e \<Rightarrow> error_response env e)"
      "px_status resp = px_status (case result of Inr r \<Rightarrow> r | Inl e \<Rightarrow> error_response env e)"
  proof -
    obtain w1 result where inner: "handle_inner rounds fuel env req w0 = Some (w1, result)"
      using assms(1,6) by (auto simp: handle_def Let_def w0_def split: option.splits)
    define r where "r = (case result of Inr r \<Rightarrow> r | Inl e \<Rightarrow> error_response env e)"
    obtain body traffic where track: "track_response (px_body r) (xw_traffic w1) = (body, traffic)" by fastforce
    then have "body = px_body r" using track_response_frames [of "px_body r" "xw_traffic w1"] by simp
    moreover have "resp = r\<lparr>px_body := body\<rparr>"
      using assms(1,6) inner track unfolding handle_def Let_def w0_def by (simp flip: r_def)
    ultimately show thesis using that [OF inner] by (simp add: r_def)
  qed
  obtain r where r: "result = Inr r"
    using resp(2) assms(2) error_status by (cases result) (auto simp: error_response_def)
  have tables: "xw_tables w0 = xw_tables w" "xw_service w0 = xw_service w" "xw_relay w0 = xw_relay w" by (simp_all add: w0_def)
  let ?rq = "\<lparr>rq_path = rp_upstream_path resolved, rq_headers = pq_headers req\<rparr>"
  obtain nodes S where "handle_resource rounds fuel env GET ?rq (rr_id (rp_route resolved)) nodes (w0\<lparr>xw_service := S\<rparr>) = Some (w1, Inr r)"
    using inner assms(4-8) unfolding r
    by (auto simp: handle_inner_def Let_def tables split: if_splits prod.splits sum.splits)
  then have "get_blob rounds fuel env ?rq digest nodes (w0\<lparr>xw_service := S\<rparr>) = Some (w1, Inr r)"
    using assms(9,10) by (simp add: handle_resource_def)
  from get_blob_verified [OF this] assms(2,3,11,12) resp r show ?thesis by (simp add: tables)
qed

definition example_proxy_env :: "(nat, plain_url) proxy_env" where
  "example_proxy_env =
     \<lparr>xe_relay = example_relay_env (\<lambda>_. False), xe_nodes = sample_node_env, xe_runtime = example_runtime, xe_timed_out = (\<lambda>_. False),
      xe_cancelled = (\<lambda>_ f. f),
      xe_serve_file = (\<lambda>_ _ content. case content of
         None \<Rightarrow> \<lparr>px_status = 404, px_headers = [], px_body = []\<rparr>
       | Some c \<Rightarrow> \<lparr>px_status = 200, px_headers = [], px_body = [Inr c]\<rparr>),
      xe_elapsed = (\<lambda>_. 0), xe_new_uuid = id, xe_error_body = (\<lambda>_. []), xe_config = for_test ''/d'',
      xe_templates = \<lparr>ht_shell = [], ht_powershell = []\<rparr>, xe_authority = (\<lambda>s. Some (s, None)), xe_upstream = sample_upstream_env\<rparr>"

definition example_key :: string where
  "example_key = replicate 64 CHR ''a''"

definition example_full_cache :: cache_store where
  "example_full_cache = example_cache\<lparr>
     ca_entries := [\<lparr>cr_key = example_key, cr_media_type = ''m'', cr_path = object_path example_cache example_key, cr_size_bytes = 3,
        cr_digest = Some (''sha256:'' @ example_key), cr_hit_count = 0, cr_created_at = 0, cr_last_accessed_at = 0\<rparr>],
     ca_objects := [object_path example_cache example_key \<mapsto> [1, 2, 3]]\<rparr>"

definition example_proxy_world :: "(nat, plain_url) proxy_world" where
  "example_proxy_world =
     \<lparr>xw_relay = example_relay_world\<lparr>rw_fetch := example_world\<lparr>fw_cache := example_full_cache\<rparr>\<rparr>,
      xw_tables = (fresh_tables 0)\<lparr>nt_routes := (seeded 0)\<lparr>rt_nodes :=
        [(nv_node (example_node_view 1 ''a''))\<lparr>nd_registry_route_id := DOCKER_HUB_ROUTE_ID\<rparr>]\<rparr>\<rparr>,
      xw_service = sample_service, xw_flags = runtime_flags_new (for_test ''/d''), xw_events = [], xw_traffic = traffic_metrics_default 0,
      xw_mappings = [], xw_upstream = upstream_new (for_test ''/d'') sample_service\<rparr>"

definition example_blob_request :: proxy_request where
  "example_blob_request =
     \<lparr>pq_method = ''GET'', pq_uri = \<lparr>uri_path = ''/v2/library/a/blobs/sha256:'' @ example_key, uri_query = None\<rparr>, pq_headers = []\<rparr>"

lemma example_blob_path:
  "\<not> is_helper_path (uri_path (pq_uri example_blob_request))" "starts_with ''/v2'' (uri_path (pq_uri example_blob_request))"
  "uri_path (pq_uri example_blob_request) \<notin> {''/v2'', ''/v2/''}" "\<not> 4096 < length (uri_path (pq_uri example_blob_request))"
  "\<not> str_contains ''..'' (uri_path (pq_uri example_blob_request))"
  "str_contains ''/blobs/'' (uri_path (pq_uri example_blob_request))"
  "blob_digest (uri_path (pq_uri example_blob_request)) = Inr (''sha256:'' @ example_key)"
  by code_simp+


lemma example_route:
  "route_registry_path (nt_routes (xw_tables example_proxy_world)) (pq_uri example_blob_request)
     = Inr \<lparr>rp_upstream_path = uri_path (pq_uri example_blob_request), rp_route = docker_hub_route 0\<rparr>"
proof -
  have noslash: "CHR ''/'' \<notin> set (''sha256:'' @ example_key)" by (simp add: example_key_def)
  show ?thesis
    using resource_path_resolution [where kind = "''blobs''" and reference = "''sha256:'' @ example_key" and repo = "''library/a''"
      and prefix = None and T = "nt_routes (xw_tables example_proxy_world)" and route = "docker_hub_route 0" and mode = DockerHubLibrary
      and q = None] noslash
    by (simp add: RESOURCE_KINDS_def upstream_repository_def example_proxy_world_def seeded_rows by_path_prefix_def default_route_def
        docker_hub_route_def ghcr_route_def repository_mode_parse_def ok_or_def example_blob_request_def)
qed

lemma example_nodes:
  "\<exists>n S. enabled_registry_nodes sample_node_env t DOCKER_HUB_ROUTE_ID (xw_tables example_proxy_world) sample_service = (Inr [n], S)"
  by (simp add: enabled_registry_nodes_def list_nodes_for_route_def example_proxy_world_def fresh_tables_def example_node_view_def
      view_def find_route_def seeded_rows docker_hub_route_def Let_def split: prod.split)

lemma example_world_ok: "blob_world_ok example_proxy_env path (''sha256:'' @ example_key)"
proof -
  have hex: "fe_sha256_hex (xe_fetch example_proxy_env) bs = example_key" for bs
    by (simp add: example_proxy_env_def example_relay_env_def example_env_def example_key_def)
  have "valid_cache_key example_key" by (simp add: valid_cache_key_def example_key_def is_ascii_hexdigit_def list_all_iff)
  then have "\<forall>bs. valid_cache_key (fe_sha256_hex (xe_fetch example_proxy_env) bs)" by (simp add: hex)
  then show ?thesis
    by (auto simp: blob_world_ok_def keeps_blob_def serves_files_def u64_lengths_def example_proxy_env_def example_relay_env_def
        example_env_def example_send_def no_error_def body_bytes_def List.map_filter_def split: option.splits if_splits)
qed

lemma example_holds: "holds_blob (xe_fetch example_proxy_env) path (''sha256:'' @ example_key) (cache_of example_proxy_world)"
proof -
  have "valid_cache_key example_key" by (simp add: valid_cache_key_def example_key_def is_ascii_hexdigit_def list_all_iff)
  then show ?thesis
    by (simp add: holds_blob_def cache_inv_def cache_ok_def runtime_ok_def fraction_def entries_bytes_def example_full_cache_def
        example_cache_def example_proxy_world_def example_relay_world_def example_world_def object_path_def i64_max_def
        example_proxy_env_def example_relay_env_def example_env_def example_key_def)
qed

definition example_object :: cached_object where
  "example_object = \<lparr>co_key = example_key, co_path = object_path example_cache example_key, co_size = 3, co_media_type = ''m'',
     co_digest = Some (''sha256:'' @ example_key)\<rparr>"

lemma example_hit: "cache_get example_key t example_full_cache = (record_hit example_key t example_full_cache, Some example_object)"
  by (simp add: cache_get_def find_entry_def example_full_cache_def i64_as_u64_def example_object_def)

lemma example_get_blob:
  assumes "cache_of w = example_full_cache" and "fw_tick (rw_fetch (xw_relay w)) = 0"
  shows "\<exists>w1 r. get_blob 1 1 example_proxy_env \<lparr>rq_path = p, rq_headers = []\<rparr> d [n] w = Some (w1, Inr r)
     \<and> px_status r = 200 \<and> no_error (px_body r)"
proof -
  let ?rq = "\<lparr>rq_path = p, rq_headers = []\<rparr>" and ?f = "rw_fetch (xw_relay w)"
  have env: "xe_fetch example_proxy_env = example_env" "\<not> xe_timed_out example_proxy_env m" for m
    by (simp_all add: example_proxy_env_def example_relay_env_def)
  have key: "blob_request_key example_env f ?rq n [n] = example_key" for f
    by (simp add: blob_request_key_def request_key_def cache_key_def example_env_def example_key_def)
  have fetch: "fetch_blob 1 example_env (xe_runtime example_proxy_env) ?rq (Some d) [n] ?f
      = Some (?f\<lparr>fw_cache := record_hit example_key (fe_utc example_env 0) example_full_cache\<rparr>,
              Inr \<lparr>br_object = example_object, br_cache_hit = True\<rparr>)"
    by (simp add: fetch_blob_def key assms example_hit Let_def)
  define w2 where "w2 = xw_on_fetch (\<lambda>_. ?f\<lparr>fw_cache := record_hit example_key (fe_utc example_env 0) example_full_cache\<rparr>) w"
  obtain w3 r where serve: "serve_cached example_proxy_env example_object GET [] True w2 = (w3, r)" by fastforce
  have "ca_objects (cache_of w2) = ca_objects example_full_cache"
    using cache_get_fields(1) [of example_key "fe_utc example_env 0" example_full_cache]
    by (simp add: w2_def xw_on_fetch_def on_fetch_def example_hit)
  then have "px_status r = 200" "px_body r = [Inr [1, 2, 3]]"
    using serve by (auto simp: serve_cached_def Let_def etag_matches_def header_get_def header_get_all_def example_object_def
        xw_on_fetch_def on_fetch_def with_cache_def cache_lock_def example_full_cache_def example_proxy_env_def example_relay_env_def
        example_env_def)
  with serve fetch show ?thesis
    by (simp add: get_blob_def Let_def env assms(2) w2_def no_error_def is_ok_def)
qed

theorem served_blob_verified_witness:
  "\<exists>w' resp. handle 1 1 example_proxy_env example_blob_request example_proxy_world = Some (w', resp) \<and> px_status resp = 200
     \<and> ''sha256:'' @ example_key = ''sha256:'' @ fe_sha256_hex (xe_fetch example_proxy_env) (body_bytes (px_body resp))"
proof -
  define w0 where "w0 = example_proxy_world\<lparr>xw_traffic := record_request (xw_traffic example_proxy_world)\<rparr>"
  have fields: "xw_tables w0 = xw_tables example_proxy_world" "xw_service w0 = sample_service" "cache_of w0 = example_full_cache"
    "fw_tick (rw_fetch (xw_relay w0)) = 0" "xe_nodes example_proxy_env = sample_node_env"
    by (simp_all add: w0_def example_proxy_world_def example_relay_world_def example_world_def example_proxy_env_def)
  obtain n S where nodes: "enabled_registry_nodes sample_node_env (fe_now (xe_fetch example_proxy_env) 0) DOCKER_HUB_ROUTE_ID
      (xw_tables example_proxy_world) sample_service = (Inr [n], S)"
    using example_nodes by blast
  obtain w1 r where blob: "get_blob 1 1 example_proxy_env \<lparr>rq_path = uri_path (pq_uri example_blob_request), rq_headers = []\<rparr>
      (''sha256:'' @ example_key) [n] (w0\<lparr>xw_service := S\<rparr>) = Some (w1, Inr r)" "px_status r = 200" "no_error (px_body r)"
    using example_get_blob [of "w0\<lparr>xw_service := S\<rparr>" "uri_path (pq_uri example_blob_request)" "''sha256:'' @ example_key" n] fields
    by (metis proxy_world.select_convs(1) proxy_world.surjective proxy_world.update_convs(3))
  have req: "pq_method example_blob_request = ''GET''" "pq_headers example_blob_request = []"
    by (simp_all add: example_blob_request_def)
  have id: "rr_id (docker_hub_route 0) = DOCKER_HUB_ROUTE_ID" by (simp add: docker_hub_route_def)
  have "handle_inner 1 1 example_proxy_env example_blob_request w0 = Some (w1, Inr r)"
    using example_blob_path example_route nodes blob(1)
    by (simp add: handle_inner_def Let_def fields req id handle_resource_def)
  moreover obtain traffic where "track_response (px_body r) (xw_traffic w1) = (px_body r, traffic)"
    using track_response_frames [of "px_body r" "xw_traffic w1"] by (cases "track_response (px_body r) (xw_traffic w1)") simp
  ultimately have "\<exists>w' resp. handle 1 1 example_proxy_env example_blob_request example_proxy_world = Some (w', resp)
      \<and> px_status resp = 200 \<and> no_error (px_body resp)"
    using blob(2,3) example_blob_path(2) by (simp add: handle_def w0_def Let_def)
  then obtain w' resp where run: "handle 1 1 example_proxy_env example_blob_request example_proxy_world = Some (w', resp)"
    "px_status resp = 200" "no_error (px_body resp)" by blast
  from served_blob_verified [OF run req(1) example_blob_path(1-3) example_route _ _ example_world_ok example_holds] run(1,2)
  show ?thesis using example_blob_path(6,7) by auto
qed

section \<open>Failover of the requests that are passed through\<close>

lemma offer_nodes_attempted:
  "offer_nodes attempt nodes attempted e w = (w', attempted', e', None) \<Longrightarrow>
     attempted' \<subseteq> attempted \<union> {nd_id (nv_node n) | n. n \<in> set nodes \<and> (\<exists>w0 w1 e. attempt n w0 = (w1, Inl e))}"
proof (induction attempt nodes attempted e w arbitrary: w' rule: offer_nodes.induct)
  case (2 attempt node nodes attempted e w)
  show ?case
  proof (cases "nd_id (nv_node node) \<in> attempted")
    case True
    with 2 show ?thesis by fastforce
  next
    case False
    obtain sel lease where acq: "selector_try_acquire (nd_id (nv_node node)) (nv_max_concurrency node) (fw_selector w) = (sel, lease)"
      by fastforce
    show ?thesis
    proof (cases lease)
      case None
      with 2 False acq show ?thesis by fastforce
    next
      case (Some l)
      obtain w1 r where att: "attempt node (w\<lparr>fw_selector := sel\<rparr>) = (w1, r)" by fastforce
      with 2(4) False acq Some obtain err where r: "r = Inl err" by (cases r) auto
      have "attempted' \<subseteq> insert (nd_id (nv_node node)) attempted
          \<union> {nd_id (nv_node n) | n. n \<in> set nodes \<and> (\<exists>w0 w1 e. attempt n w0 = (w1, Inl e))}"
        using 2(3) [OF False acq [symmetric] Some att [symmetric] r] 2(4) False acq Some att r by simp
      with att r show ?thesis by fastforce
    qed
  qed
qed simp

lemma offer_loop_exhausted:
  assumes "offer_loop fuel env attempt message nodes attempted e w = Some (w', Inl err)"
    and "attempted \<subseteq> {nd_id (nv_node n) | n. n \<in> set nodes \<and> (\<exists>w0 w1 e. attempt n w0 = (w1, Inl e))}"
    and "distinct (map (nd_id \<circ> nv_node) nodes)" and "node \<in> set nodes"
  shows "\<exists>w0 w1 e. attempt node w0 = (w1, Inl e)"
  using assms(1,2)
proof (induction fuel arbitrary: attempted e w)
  case (Suc fuel)
  let ?failed = "{nd_id (nv_node n) | n. n \<in> set nodes \<and> (\<exists>w0 w1 e. attempt n w0 = (w1, Inl e))}"
  obtain w1 attempted' e' answer where off: "offer_nodes attempt nodes attempted e w = (w1, attempted', e', answer)" by (rule prod_cases4)
  have none: "answer = None" using Suc.prems(1) off by (cases answer) auto
  have sub: "attempted' \<subseteq> ?failed" using offer_nodes_attempted [OF off [unfolded none]] Suc.prems(2) by blast
  show ?case
  proof (cases "card attempted' = length nodes")
    case True
    let ?ids = "(nd_id \<circ> nv_node) ` set nodes"
    have "card ?ids = length nodes" using assms(3) by (metis distinct_card length_map list.set_map)
    moreover have "attempted' \<subseteq> ?ids" using sub by auto
    ultimately have "attempted' = ?ids" using True by (intro card_subset_eq) auto
    with sub assms(4) have "nd_id (nv_node node) \<in> ?failed" by auto
    then obtain n where "n \<in> set nodes" "nd_id (nv_node n) = nd_id (nv_node node)" "\<exists>w0 w1 e. attempt n w0 = (w1, Inl e)" by force
    moreover have "inj_on (nd_id \<circ> nv_node) (set nodes)" using assms(3) by (simp add: distinct_map)
    ultimately show ?thesis using assms(4) by (metis comp_apply inj_onD)
  next
    case False
    with Suc.IH [OF _ sub] Suc.prems(1) off none show ?thesis by simp
  qed
qed simp

lemma pass_attempt_Inr:
  "pass_attempt env method rq node w0 = (w1, Inr r) \<Longrightarrow>
     \<exists>n. fe_send env n node method rq ForwardClient = Inr r \<and> \<not> retryable_upstream_status (re_status r)"
  by (cases "fe_send env (fw_tick w0) node method rq ForwardClient")
    (auto simp: pass_attempt_def upstream_send_def split: if_splits)

definition failed_answer :: "response api_result \<Rightarrow> bool" where
  "failed_answer a = (case a of Inl _ \<Rightarrow> True | Inr r \<Rightarrow> retryable_upstream_status (re_status r))"

text \<open>
  C20: A request that is passed through is answered as long as one node can. The answer is the response of one of
  the nodes of the route, of a status that does not call for another try, with its status, its body and only
  the headers that are passed on; and the client sees an error only when every node was asked and failed,
  by an error of the connection or a transient status. Other tasks may take and free slots in between.
\<close>

theorem passthrough_failover:
  assumes "proxy_passthrough fuel env method rq nodes w = Some (w', result)" and "distinct (map (nd_id \<circ> nv_node) nodes)"
  shows "case result of
      Inr resp \<Rightarrow> (\<exists>node \<in> set nodes. \<exists>n r. fe_send (xe_fetch env) n node method rq ForwardClient = Inr r
        \<and> \<not> retryable_upstream_status (re_status r) \<and> resp = to_response r)
    | Inl e \<Rightarrow> (\<forall>node \<in> set nodes. \<exists>n. failed_answer (fe_send (xe_fetch env) n node method rq ForwardClient))"
proof -
  let ?attempt = "pass_attempt (xe_fetch env) method rq"
  obtain f q where loop: "offer_loop fuel (xe_fetch env) ?attempt ''Registry route is unavailable'' nodes {} None (rw_fetch (xw_relay w)) = Some (f, q)"
    using assms(1) by (auto simp: proxy_passthrough_def split: option.splits)
  show ?thesis
  proof (cases q)
    case (Inl e)
    have "\<exists>n. failed_answer (fe_send (xe_fetch env) n node method rq ForwardClient)" if "node \<in> set nodes" for node
      using offer_loop_exhausted [OF loop [unfolded Inl] _ assms(2) that]
      by (auto simp: pass_attempt_def upstream_send_def failed_answer_def split: sum.splits if_splits)
    with assms(1) loop Inl show ?thesis by (auto simp: proxy_passthrough_def)
  next
    case (Inr a)
    obtain node r lease where a: "a = (node, r, lease)" by (rule prod_cases3)
    from offer_loop_answer [OF loop [unfolded Inr a]] obtain n where
      "node \<in> set nodes" "fe_send (xe_fetch env) n node method rq ForwardClient = Inr r" "\<not> retryable_upstream_status (re_status r)"
      using pass_attempt_Inr by blast
    moreover have "result = Inr (to_response r)" using assms(1) loop Inr a by (simp add: proxy_passthrough_def)
    ultimately show ?thesis by auto
  qed
qed

theorem passthrough_failover_witness:
  "\<exists>w' resp. proxy_passthrough 1 example_proxy_env GET example_request [example_node_view 1 ''a''] example_proxy_world = Some (w', Inr resp)
     \<and> (\<exists>node \<in> {example_node_view 1 ''a''}. \<exists>n r. fe_send (xe_fetch example_proxy_env) n node GET example_request ForwardClient = Inr r
        \<and> \<not> retryable_upstream_status (re_status r) \<and> resp = to_response r)"
proof -
  have "\<exists>w' resp. proxy_passthrough 1 example_proxy_env GET example_request [example_node_view 1 ''a''] example_proxy_world = Some (w', Inr resp)"
    by (simp add: proxy_passthrough_def pass_attempt_def upstream_send_def example_proxy_env_def example_relay_env_def example_env_def
        example_send_def retryable_upstream_status_def example_proxy_world_def example_relay_world_def example_world_def
        selector_try_acquire_def with_capacity_def try_acquire_def node_capacity_active_def node_capacity_default_def example_node_view_def MAX_NETWORK_REQUESTS_def Let_def)
  then obtain w' resp where run: "proxy_passthrough 1 example_proxy_env GET example_request [example_node_view 1 ''a''] example_proxy_world
      = Some (w', Inr resp)" by blast
  from passthrough_failover [OF this] run show ?thesis by simp
qed

end
