(* ===== verification/Connect_Tunnel.thy ===== *)
theory Connect_Tunnel
  imports Helper_Scripts
begin

text \<open>
  \<^verbatim>\<open>src/src/connect.rs\<close> and \<^verbatim>\<open>src/src/static_files.rs\<close>: the fallback of the admin listener. A CONNECT request is
  authorised, its target checked, and a tunnel opened; everything else is a file of the embedded front end. The
  base64 decoder, the authority parser, the resolver and the embedded files are parameters; what a tunnel
  carries is not part of the model.
\<close>

section \<open>The front end\<close>

definition mime_for :: "string \<Rightarrow> string" where
  "mime_for path =
     (let extension = (case rsplit_once ''.'' path of None \<Rightarrow> path | Some (_, e) \<Rightarrow> e) in
      if extension = ''js'' then ''text/javascript; charset=utf-8''
      else if extension = ''css'' then ''text/css; charset=utf-8''
      else if extension = ''svg'' then ''image/svg+xml''
      else if extension = ''png'' then ''image/png''
      else if extension = ''webp'' then ''image/webp''
      else if extension = ''json'' then ''application/json''
      else if extension = ''woff2'' then ''font/woff2''
      else ''text/html; charset=utf-8'')"

definition serve_static :: "(string \<Rightarrow> bytes option) \<Rightarrow> proxy_request \<Rightarrow> proxy_response" where
  "serve_static assets req =
     (if pq_method req \<notin> {''GET'', ''HEAD''} then \<lparr>px_status = 405, px_headers = [], px_body = []\<rparr>
      else
        let requested = trim_start_slashes (uri_path (pq_uri req));
            path = (if requested = [] then ''index.html'' else requested);
            selected = (case assets path of
                Some asset \<Rightarrow> Some (asset, path = ''index.html'')
              | None \<Rightarrow> if CHR ''.'' \<in> set path then None else map_option (\<lambda>asset. (asset, True)) (assets ''index.html''))
        in
        case selected of
          None \<Rightarrow> \<lparr>px_status = 404, px_headers = [], px_body = []\<rparr>
        | Some (asset, served_index) \<Rightarrow>
            \<lparr>px_status = 200,
             px_headers = [(''content-type'', mime_for path),
               (''cache-control'', if served_index then ''no-store, no-cache, max-age=0, must-revalidate''
                  else ''public, max-age=31536000, immutable'')],
             px_body = (if pq_method req = ''HEAD'' then [] else [Inr asset])\<rparr>)"

section \<open>CONNECT\<close>

record connect_env =
  ce_base64_decode :: "string \<Rightarrow> bytes option"
  ce_authority :: authority_parser
  ce_lookup :: resolver
  ce_error_body :: "app_error \<Rightarrow> bytes"

definition authorize_proxy :: "connect_env \<Rightarrow> headers \<Rightarrow> string option \<Rightarrow> unit api_result" where
  "authorize_proxy env hs expected =
     (case expected of
        None \<Rightarrow> Inl Forbidden
      | Some secret \<Rightarrow>
          (case Option.bind (header_str ''proxy-authorization'' hs) (strip_prefix ''Basic '') of
             None \<Rightarrow> Inl Unauthorized
           | Some encoded \<Rightarrow>
               (case ce_base64_decode env encoded of
                  None \<Rightarrow> Inl Unauthorized
                | Some decoded \<Rightarrow>
                    if length decoded \<noteq> length secret \<or> decoded \<noteq> as_bytes secret then Inl Unauthorized else Inr ())))"

definition split_authority :: "connect_env \<Rightarrow> string \<Rightarrow> (string \<times> nat) api_result" where
  "split_authority env authority =
     result_bind (ok_or (BadRequest ''invalid CONNECT authority'') (ce_authority env authority)) (\<lambda>(host, port).
       Inr (to_ascii_lowercase (trim_brackets host), unwrap_or 443 port))"

fun select_address :: "bool \<Rightarrow> ip_addr option \<Rightarrow> ip_addr list \<Rightarrow> ip_addr option api_result" where
  "select_address allow_private selected [] = Inr selected"
| "select_address allow_private selected (ip # ips) =
     (if \<not> allow_private \<and> is_non_public ip then Inl Forbidden
      else select_address allow_private (if selected = None then Some ip else selected) ips)"

definition connect_allowed :: "config \<Rightarrow> string \<Rightarrow> bool" where
  "connect_allowed config host \<longleftrightarrow>
     list_ex (\<lambda>allowed. host = allowed \<or> ends_with (CHR ''.'' # allowed) host) (cf_connect_allow config)"

definition validate_connect_target :: "connect_env \<Rightarrow> string \<Rightarrow> config \<Rightarrow> (ip_addr \<times> nat) api_result" where
  "validate_connect_target env authority config =
     result_bind (split_authority env authority) (\<lambda>(host, port).
       if \<not> connect_allowed config host then Inl Forbidden
       else
     result_bind (ok_or (BadRequest ''CONNECT DNS lookup failed'') (ce_lookup env host port)) (\<lambda>addresses.
     result_bind (select_address (cf_allow_private_upstreams config) None addresses) (\<lambda>selected.
     result_bind (ok_or (BadRequest ''CONNECT DNS returned no addresses'') selected) (\<lambda>ip. Inr (ip, port)))))"

datatype tunnel_target = Remapped string | Resolved ip_addr nat

definition connect_target :: "connect_env \<Rightarrow> config \<Rightarrow> string option \<Rightarrow> headers \<Rightarrow> tunnel_target api_result" where
  "connect_target env config uri_authority hs =
     result_bind (authorize_proxy env hs (cf_proxy_auth config)) (\<lambda>_.
     result_bind (ok_or (BadRequest ''CONNECT request has no authority'') (map_option to_ascii_lowercase uri_authority)) (\<lambda>authority.
       if 300 < length authority then Inl (BadRequest ''CONNECT target is too long'')
       else case List.find (\<lambda>item. cm_source item = authority) (cf_connect_remap config) of
         Some remap \<Rightarrow> Inr (Remapped (cm_target remap))
       | None \<Rightarrow> result_bind (validate_connect_target env authority config) (\<lambda>(ip, port). Inr (Resolved ip port))))"

text \<open>The response, and the tunnel that is opened once the connection is upgraded.\<close>

definition connect_handle ::
  "connect_env \<Rightarrow> (string \<Rightarrow> bytes option) \<Rightarrow> config \<Rightarrow> string option \<Rightarrow> proxy_request \<Rightarrow> proxy_response \<times> tunnel_target option" where
  "connect_handle env assets config uri_authority req =
     (if pq_method req \<noteq> ''CONNECT'' then (serve_static assets req, None)
      else case connect_target env config uri_authority (pq_headers req) of
        Inr target \<Rightarrow> (\<lparr>px_status = 200, px_headers = [], px_body = []\<rparr>, Some target)
      | Inl Unauthorized \<Rightarrow>
          (\<lparr>px_status = 407, px_headers = [(''proxy-authenticate'', ''Basic realm='' @ quoted ''Donkey CONNECT'')], px_body = []\<rparr>, None)
      | Inl e \<Rightarrow>
          (\<lparr>px_status = app_error_status e, px_headers = [(''content-type'', ''application/json'')],
            px_body = [Inr (ce_error_body env e)]\<rparr>, None))"

section \<open>Properties\<close>

lemma select_address_public:
  "select_address allow selected ips = Inr r \<Longrightarrow> \<not> allow \<Longrightarrow> ip \<in> set ips \<Longrightarrow> \<not> is_non_public ip"
  by (induction ips arbitrary: selected) (auto split: if_splits)

lemma select_address_keeps: "select_address allow (Some x) ips = Inr r \<Longrightarrow> r = Some x"
  by (induction ips) (auto split: if_splits)

lemma select_address_mem: "select_address allow None ips = Inr (Some ip) \<Longrightarrow> ip \<in> set ips"
  by (cases ips) (auto dest: select_address_keeps split: if_splits)

lemma ends_with_append:
  assumes "ends_with p host"
  shows "\<exists>sub. host = sub @ p"
proof -
  from assms obtain e where "strip_prefix (rev p) (rev host) = Some e"
    by (auto simp: ends_with_def strip_suffix_def)
  then have "rev host = rev p @ e" by (simp add: strip_prefix_eq_Some)
  then have "host = rev e @ p" by (metis rev_append rev_rev_ident)
  then show ?thesis by blast
qed

lemma authorize_proxy_Inr:
  "authorize_proxy env hs auth = Inr () \<Longrightarrow>
     \<exists>secret encoded. auth = Some secret \<and> header_str ''proxy-authorization'' hs = Some (''Basic '' @ encoded)
       \<and> ce_base64_decode env encoded = Some (as_bytes secret)"
  by (auto simp: authorize_proxy_def bind_eq_Some_conv strip_prefix_eq_Some split: option.splits if_splits)

lemma connect_allowed_suffix:
  assumes "connect_allowed config host"
  shows "\<exists>allowed \<in> set (cf_connect_allow config). host = allowed \<or> (\<exists>sub. host = sub @ ''.'' @ allowed)"
proof -
  from assms obtain name where "name \<in> set (cf_connect_allow config)" "host = name \<or> ends_with (CHR ''.'' # name) host"
    unfolding connect_allowed_def list_ex_iff by blast
  with ends_with_append [of "CHR ''.'' # name" host] show ?thesis by auto
qed

lemma validate_connect_target_Inr:
  assumes "validate_connect_target env authority config = Inr (ip, port)"
  obtains host addresses where "split_authority env authority = Inr (host, port)"
    and "\<exists>allowed \<in> set (cf_connect_allow config). host = allowed \<or> (\<exists>sub. host = sub @ ''.'' @ allowed)"
    and "ce_lookup env host port = Some addresses" and "ip \<in> set addresses"
    and "\<not> cf_allow_private_upstreams config \<longrightarrow> (\<forall>a \<in> set addresses. \<not> is_non_public a)"
proof -
  from assms obtain host addresses where s: "split_authority env authority = Inr (host, port)" and allowed: "connect_allowed config host"
    and dns: "ce_lookup env host port = Some addresses"
    and sel: "select_address (cf_allow_private_upstreams config) None addresses = Inr (Some ip)"
    by (auto simp: validate_connect_target_def split: if_splits prod.splits)
  have "ip \<in> set addresses" "\<not> cf_allow_private_upstreams config \<longrightarrow> (\<forall>a \<in> set addresses. \<not> is_non_public a)"
    using select_address_mem [OF sel] select_address_public [OF sel] by blast+
  with that [OF s connect_allowed_suffix [OF allowed] dns] show thesis by blast
qed

text \<open>
  C22: The CONNECT proxy opens a tunnel only for whom and to where the operator allows. A tunnel needs a configured proxy
  credential and the client's exact copy of it; it goes to the configured target of the authority, or to an address of a host that is
  an allowed name or a subdomain of one, at the port of the request, and unless private upstreams are allowed, to one of several
  resolved addresses of which none is private. No other request opens a tunnel.
\<close>

theorem connect_tunnel_guarded:
  assumes "connect_handle env assets config uri_authority req = (r, Some target)"
  shows "pq_method req = ''CONNECT''
    \<and> (\<exists>secret encoded. cf_proxy_auth config = Some secret
         \<and> header_str ''proxy-authorization'' (pq_headers req) = Some (''Basic '' @ encoded)
         \<and> ce_base64_decode env encoded = Some (as_bytes secret))
    \<and> (\<exists>authority. map_option to_ascii_lowercase uri_authority = Some authority \<and>
        ((\<exists>remap \<in> set (cf_connect_remap config). cm_source remap = authority \<and> target = Remapped (cm_target remap))
         \<or> (\<exists>host port addresses ip. split_authority env authority = Inr (host, port) \<and> target = Resolved ip port
              \<and> (\<exists>allowed \<in> set (cf_connect_allow config). host = allowed \<or> (\<exists>sub. host = sub @ ''.'' @ allowed))
              \<and> ce_lookup env host port = Some addresses \<and> ip \<in> set addresses
              \<and> (\<not> cf_allow_private_upstreams config \<longrightarrow> (\<forall>a \<in> set addresses. \<not> is_non_public a)))))"
proof -
  from assms have connect: "pq_method req = ''CONNECT''" and t: "connect_target env config uri_authority (pq_headers req) = Inr target"
    by (auto simp: connect_handle_def split: if_splits sum.splits app_error.splits)
  from t obtain authority where auth: "authorize_proxy env (pq_headers req) (cf_proxy_auth config) = Inr ()"
    and a: "map_option to_ascii_lowercase uri_authority = Some authority"
    and rest: "(case List.find (\<lambda>item. cm_source item = authority) (cf_connect_remap config) of
         Some remap \<Rightarrow> Inr (Remapped (cm_target remap))
       | None \<Rightarrow> result_bind (validate_connect_target env authority config) (\<lambda>(ip, port). Inr (Resolved ip port))) = Inr target"
    by (auto simp: connect_target_def split: if_splits)
  note creds = authorize_proxy_Inr [OF auth]
  show ?thesis
  proof (cases "List.find (\<lambda>item. cm_source item = authority) (cf_connect_remap config)")
    case (Some remap)
    with rest have "remap \<in> set (cf_connect_remap config)" "cm_source remap = authority" "target = Remapped (cm_target remap)"
      by (auto simp: find_Some_iff)
    with connect creds a show ?thesis by blast
  next
    case None
    with rest obtain ip port where v: "validate_connect_target env authority config = Inr (ip, port)" and target: "target = Resolved ip port"
      by (auto split: prod.splits)
    obtain host addresses where "split_authority env authority = Inr (host, port)"
      "\<exists>allowed \<in> set (cf_connect_allow config). host = allowed \<or> (\<exists>sub. host = sub @ ''.'' @ allowed)"
      "ce_lookup env host port = Some addresses" "ip \<in> set addresses"
      "\<not> cf_allow_private_upstreams config \<longrightarrow> (\<forall>a \<in> set addresses. \<not> is_non_public a)"
      by (rule validate_connect_target_Inr [OF v])
    then have "\<exists>host port addresses ip. split_authority env authority = Inr (host, port) \<and> target = Resolved ip port
              \<and> (\<exists>allowed \<in> set (cf_connect_allow config). host = allowed \<or> (\<exists>sub. host = sub @ ''.'' @ allowed))
              \<and> ce_lookup env host port = Some addresses \<and> ip \<in> set addresses
              \<and> (\<not> cf_allow_private_upstreams config \<longrightarrow> (\<forall>a \<in> set addresses. \<not> is_non_public a))"
      using target by (intro exI conjI) assumption+
    then show ?thesis
      by - (rule conjI [OF connect], rule conjI [OF creds], rule exI, rule conjI [OF a], erule disjI2)
  qed
qed


theorem connect_tunnel_guarded_witness:
  "\<exists>r. connect_handle
       \<lparr>ce_base64_decode = (\<lambda>s. Some (as_bytes s)), ce_authority = (\<lambda>_. Some (''registry.example'', Some 443)),
        ce_lookup = (\<lambda>_ _. Some [IpV4 0x01010101]), ce_error_body = (\<lambda>_. [])\<rparr>
       (\<lambda>_. None) ((for_test ''/d'')\<lparr>cf_proxy_auth := Some ''u:p'', cf_connect_allow := [''example'']\<rparr>) (Some ''registry.example:443'')
       \<lparr>pq_method = ''CONNECT'', pq_uri = \<lparr>uri_path = '''', uri_query = None\<rparr>, pq_headers = [(''proxy-authorization'', ''Basic u:p'')]\<rparr>
       = (r, Some (Resolved (IpV4 0x01010101) 443))
     \<and> (\<exists>sub. ''registry.example'' = sub @ ''.'' @ ''example'')"
proof -
  let ?env = "\<lparr>ce_base64_decode = (\<lambda>s. Some (as_bytes s)), ce_authority = (\<lambda>_. Some (''registry.example'', Some 443)),
        ce_lookup = (\<lambda>_ _. Some [IpV4 0x01010101]), ce_error_body = (\<lambda>_. [])\<rparr>"
  let ?config = "(for_test ''/d'')\<lparr>cf_proxy_auth := Some ''u:p'', cf_connect_allow := [''example'']\<rparr>"
  let ?req = "\<lparr>pq_method = ''CONNECT'', pq_uri = \<lparr>uri_path = '''', uri_query = None\<rparr>, pq_headers = [(''proxy-authorization'', ''Basic u:p'')]\<rparr>"
  have strings: "header_str ''proxy-authorization'' (pq_headers ?req) = Some ''Basic u:p''" "strip_prefix ''Basic '' ''Basic u:p'' = Some ''u:p''"
    "to_ascii_lowercase ''registry.example:443'' = ''registry.example:443''" "trim_brackets ''registry.example'' = ''registry.example''"
    "to_ascii_lowercase ''registry.example'' = ''registry.example''" "ends_with ''.example'' ''registry.example''"
    by code_simp+
  have remap: "cf_connect_remap ?config = []" "cf_allow_private_upstreams ?config" by (simp_all add: for_test_def)
  have ends: "ends_with (CHR ''.'' # ''example'') ''registry.example''" using strings(6) by simp
  have "connect_handle ?env (\<lambda>_. None) ?config (Some ''registry.example:443'') ?req
      = (\<lparr>px_status = 200, px_headers = [], px_body = []\<rparr>, Some (Resolved (IpV4 0x01010101) 443))"
    using strings remap ends
    by (simp add: connect_handle_def connect_target_def authorize_proxy_def validate_connect_target_def split_authority_def
        connect_allowed_def ok_or_def unwrap_or_def as_bytes_def)
  note run = this
  have "\<exists>sub. ''registry.example'' = sub @ ''.'' @ ''example''"
    using connect_tunnel_guarded [OF run] remap(1) strings(4,5) by (auto simp: split_authority_def ok_or_def)
  with run show ?thesis by blast
qed

end
