(* ===== verification/Registry_Credentials.thy ===== *)
theory Registry_Credentials
  imports Upstream_Proofs
begin

text \<open>
  The Registry credentials of the image tools, \<^verbatim>\<open>src/src/image_tools.rs\<close>: the table \<open>registry_credentials\<close> with its triggers,
  the handlers that create and change a credential, and the authentication a job gets from one. The port of a URL
  that is written out (\<open>Url::port\<close>) is a parameter, as the other URL operations are.
\<close>

section \<open>Data\<close>

record registry_credential =
  rc_id :: uuid
  rc_name :: string
  rc_registry :: string
  rc_auth_mode :: string
  rc_username :: "string option"
  rc_secret_enc :: string
  rc_generation :: int
  rc_created_at :: timestamp
  rc_updated_at :: timestamp

record credential_input =
  ci_name :: string
  ci_registry :: string
  ci_auth_mode :: string
  ci_username :: "string option"
  ci_secret :: string

record credential_view =
  cw_id :: uuid
  cw_name :: string
  cw_registry :: string
  cw_auth_mode :: string
  cw_username :: "string option"
  cw_credential_configured :: bool
  cw_generation :: int
  cw_updated_at :: timestamp

definition credential_view_of :: "registry_credential \<Rightarrow> credential_view" where
  "credential_view_of c =
     \<lparr>cw_id = rc_id c, cw_name = rc_name c, cw_registry = rc_registry c, cw_auth_mode = rc_auth_mode c,
      cw_username = rc_username c, cw_credential_configured = (rc_secret_enc c \<noteq> []), cw_generation = rc_generation c,
      cw_updated_at = rc_updated_at c\<rparr>"

text \<open>The triggers of the table.\<close>

definition credential_row_valid :: "registry_credential \<Rightarrow> bool" where
  "credential_row_valid c \<longleftrightarrow>
     rc_auth_mode c \<in> {''basic'', ''bearer''} \<and> 1 \<le> rc_generation c \<and> trim (rc_name c) \<noteq> [] \<and> trim (rc_registry c) \<noteq> []
     \<and> rc_secret_enc c \<noteq> []
     \<and> (rc_auth_mode c = ''basic'' \<longrightarrow> (\<exists>u. rc_username c = Some u \<and> trim u \<noteq> []))"

definition find_credential :: "uuid \<Rightarrow> registry_credential list \<Rightarrow> registry_credential option" where
  "find_credential i T = List.find (\<lambda>c. rc_id c = i) T"

definition by_credential_name :: "registry_credential \<Rightarrow> registry_credential \<Rightarrow> bool" where
  "by_credential_name a b \<longleftrightarrow> rc_name a \<le> rc_name b"

definition list_credentials :: "registry_credential list \<Rightarrow> credential_view list" where
  "list_credentials T = map credential_view_of (sort_by by_credential_name T)"

section \<open>Validation\<close>

definition normalize_registry :: "'u url_ops \<Rightarrow> ('u \<Rightarrow> nat option) \<Rightarrow> string \<Rightarrow> string api_result" where
  "normalize_registry U url_port value =
     (let raw = rev (trim_start_slashes (rev (trim value)));
          normalized_url = (if str_contains ''://'' raw then raw else ''https://'' @ raw)
      in
      result_bind (ok_or (BadRequest ''invalid Registry address'') (url_parse U normalized_url)) (\<lambda>url.
        if url_scheme U url \<noteq> ''https'' \<or> url_host_str U url = None
        then Inl (BadRequest ''Registry credentials require an HTTPS Registry'')
        else Inr (case url_port url of
            Some port \<Rightarrow> unwrap_or [] (url_host_str U url) @ '':'' @ nat_text port
          | None \<Rightarrow> unwrap_or [] (url_host_str U url))))"

definition validate_credential :: "bool \<Rightarrow> credential_input \<Rightarrow> credential_input api_result" where
  "validate_credential require_secret input0 =
     (let input = input0\<lparr>ci_name := trim (ci_name input0)\<rparr> in
      if ci_name input = [] \<or> 80 < length (ci_name input) then Inl (BadRequest ''credential name must be 1-80 characters'')
      else if ci_auth_mode input \<notin> {''basic'', ''bearer''} then Inl (BadRequest ''credential mode must be basic or bearer'')
      else if ci_auth_mode input = ''basic'' \<and> (ci_username input = None \<or> ci_username input = Some [])
      then Inl (BadRequest ''Basic credential requires a username'')
      else if require_secret \<and> ci_secret input = [] \<or> 16 * 1024 < length (ci_secret input)
      then Inl (BadRequest ''credential secret is empty or too long'')
      else Inr input)"

definition ensure_secret_transport :: "config \<Rightarrow> credential_cipher \<Rightarrow> unit api_result" where
  "ensure_secret_transport config cipher =
     (if \<not> admin_secret_transport_is_secure config
      then Inl (BadRequest ''Registry credentials require HTTPS or a loopback admin listener'')
      else if \<not> is_configured cipher then Inl (BadRequest ''DONKEY_CREDENTIAL_KEY is required for Registry credentials'')
      else Inr ())"

section \<open>Handlers\<close>

record 'u credential_env =
  cn_url :: "'u url_ops"
  cn_url_port :: "'u \<Rightarrow> nat option"
  cn_crypto :: crypto_ops
  cn_config :: config
  cn_cipher :: credential_cipher

definition create_credential ::
  "'u credential_env \<Rightarrow> uuid \<Rightarrow> bytes \<Rightarrow> timestamp \<Rightarrow> credential_input \<Rightarrow> (registry_credential list, credential_view) fallible" where
  "create_credential env fresh nonce now raw T =
     (case result_bind (ensure_secret_transport (cn_config env) (cn_cipher env)) (\<lambda>_.
           result_bind (validate_credential True raw) (\<lambda>input.
           result_bind (normalize_registry (cn_url env) (cn_url_port env) (ci_registry input)) (\<lambda>registry.
           result_bind (encrypt (cn_crypto env) (cn_cipher env) nonce (ci_secret input)) (\<lambda>secret_enc.
             Inr \<lparr>rc_id = fresh, rc_name = ci_name input, rc_registry = registry, rc_auth_mode = ci_auth_mode input,
                  rc_username = ci_username input, rc_secret_enc = secret_enc, rc_generation = 1, rc_created_at = now,
                  rc_updated_at = now\<rparr>)))) of
        Inl e \<Rightarrow> (T, Inl e)
      | Inr model \<Rightarrow>
          if \<not> credential_row_valid model then (T, Inl (Database ''invalid registry credential''))
          else if find_credential fresh T \<noteq> None then (T, Inl (Database ''UNIQUE constraint failed''))
          else (T @ [model], Inr (credential_view_of model)))"

definition update_credential ::
  "'u credential_env \<Rightarrow> registry_credential list \<Rightarrow> uuid \<Rightarrow> bytes \<Rightarrow> timestamp \<Rightarrow> credential_input
     \<Rightarrow> (registry_credential list, credential_view) fallible" where
  "update_credential env seen i nonce now raw T =
     (case result_bind (ensure_secret_transport (cn_config env) (cn_cipher env)) (\<lambda>_.
           result_bind (validate_credential False raw) (\<lambda>input.
           result_bind (ok_or (NotFound ''Registry credential'') (find_credential i seen)) (\<lambda>model.
           result_bind (normalize_registry (cn_url env) (cn_url_port env) (ci_registry input)) (\<lambda>registry.
           result_bind (if ci_secret input = [] then Inr id
                        else result_bind (encrypt (cn_crypto env) (cn_cipher env) nonce (ci_secret input)) (\<lambda>secret_enc.
                          Inr (\<lambda>row. row\<lparr>rc_secret_enc := secret_enc, rc_generation := rc_generation model + 1\<rparr>))) (\<lambda>set_secret.
             Inr (\<lambda>row. set_secret (row\<lparr>rc_name := ci_name input, rc_registry := registry, rc_auth_mode := ci_auth_mode input,
                    rc_username := ci_username input, rc_updated_at := now\<rparr>))))))) of
        Inl e \<Rightarrow> (T, Inl e)
      | Inr change \<Rightarrow>
          (case find_credential i T of
             None \<Rightarrow> (T, Inl (Database ''None of the records are updated''))
           | Some row \<Rightarrow>
               if \<not> credential_row_valid (change row) then (T, Inl (Database ''invalid registry credential''))
               else (map (\<lambda>c. if rc_id c = i then change row else c) T, Inr (credential_view_of (change row)))))"

section \<open>Use\<close>

datatype registry_auth_t = Anonymous | Basic_Auth string string | Bearer_Auth string

definition credential_auth ::
  "'u credential_env \<Rightarrow> registry_credential list \<Rightarrow> uuid \<Rightarrow> string \<Rightarrow> registry_auth_t api_result" where
  "credential_auth env T i expected_registry =
     result_bind (ok_or (NotFound ''Registry credential'') (find_credential i T)) (\<lambda>credential.
     result_bind (normalize_registry (cn_url env) (cn_url_port env) (rc_registry credential)) (\<lambda>stored.
     result_bind (normalize_registry (cn_url env) (cn_url_port env) expected_registry) (\<lambda>expected.
       if stored \<noteq> expected then Inl (BadRequest ''Registry credential does not match the requested Registry'')
       else
     result_bind (decrypt (cn_crypto env) (cn_cipher env) (rc_secret_enc credential)) (\<lambda>secret.
       if rc_auth_mode credential = ''basic'' then
         result_bind (ok_or (BadRequest ''Basic credential has no username'') (rc_username credential)) (\<lambda>username.
           Inr (Basic_Auth username secret))
       else if rc_auth_mode credential = ''bearer'' then Inr (Bearer_Auth secret)
       else Inl (BadRequest ''unsupported Registry credential mode'')))))"

section \<open>Lemmas\<close>

definition credentials_ok :: "registry_credential list \<Rightarrow> bool" where
  "credentials_ok T \<longleftrightarrow> distinct (map rc_id T) \<and> list_all credential_row_valid T"

datatype credential_op =
    Create_Credential uuid bytes timestamp credential_input
  | Update_Credential "registry_credential list" uuid bytes timestamp credential_input

fun credential_exec :: "'u credential_env \<Rightarrow> credential_op \<Rightarrow> registry_credential list \<Rightarrow> registry_credential list" where
  "credential_exec env (Create_Credential fresh nonce now input) T = fst (create_credential env fresh nonce now input T)"
| "credential_exec env (Update_Credential seen i nonce now input) T = fst (update_credential env seen i nonce now input T)"

lemma find_credential_None: "find_credential i T = None \<Longrightarrow> i \<notin> rc_id ` set T"
  by (auto simp: find_credential_def find_None_iff)

lemma find_credential_Some: "find_credential i T = Some c \<Longrightarrow> c \<in> set T \<and> rc_id c = i"
  by (auto simp: find_credential_def find_Some_iff)

lemma replace_row_ok:
  assumes "credentials_ok T" and "credential_row_valid row" and "rc_id row = i"
  shows "credentials_ok (map (\<lambda>c. if rc_id c = i then row else c) T)"
proof -
  have "map rc_id (map (\<lambda>c. if rc_id c = i then row else c) T) = map rc_id T" using assms(3) by simp
  then have "distinct (map rc_id (map (\<lambda>c. if rc_id c = i then row else c) T))"
    using assms(1) by (simp only: credentials_ok_def)
  with assms show ?thesis by (auto simp: credentials_ok_def list_all_iff simp del: map_map)
qed

lemma credential_exec_ok: "credentials_ok T \<Longrightarrow> credentials_ok (credential_exec env op T)"
proof (cases op)
  case (Create_Credential fresh nonce now input)
  assume "credentials_ok T"
  with Create_Credential show ?thesis
    by (auto simp: create_credential_def credentials_ok_def dest: find_credential_None split: sum.split)
next
  case (Update_Credential seen i nonce now input)
  assume ok: "credentials_ok T"
  with Update_Credential show ?thesis
    by (auto simp: update_credential_def dest!: find_credential_Some intro!: replace_row_ok split: sum.split option.split if_splits)
qed

interpretation credential_run: operation_system "credential_exec env" "\<lambda>_. True" credentials_ok for env
  by unfold_locales (rule credential_exec_ok)

text \<open>
  A stored secret is used for the Registry it was stored for only, and is then the secret that was given.
\<close>

lemma created_credential_auth:
  assumes "crypto_laws (cn_crypto env)" and "length nonce = 12" and "octets nonce" and "credentials_ok T"
    and "create_credential env fresh nonce now input T = (T', Inr v)"
    and "\<And>r s. normalize_registry (cn_url env) (cn_url_port env) r = Inr s \<Longrightarrow> normalize_registry (cn_url env) (cn_url_port env) s = Inr s"
  shows "credential_auth env T' fresh registry =
    (case normalize_registry (cn_url env) (cn_url_port env) registry of
       Inl e \<Rightarrow> Inl e
     | Inr r \<Rightarrow>
         if normalize_registry (cn_url env) (cn_url_port env) (ci_registry input) \<noteq> Inr r
         then Inl (BadRequest ''Registry credential does not match the requested Registry'')
         else Inr (if ci_auth_mode input = ''basic'' then Basic_Auth (the (ci_username input)) (ci_secret input)
                   else Bearer_Auth (ci_secret input)))"
proof -
  from assms(5) obtain v registry' secret_enc where v: "validate_credential True input = Inr v"
    and reg: "normalize_registry (cn_url env) (cn_url_port env) (ci_registry v) = Inr registry'"
    and enc: "encrypt (cn_crypto env) (cn_cipher env) nonce (ci_secret v) = Inr secret_enc"
    and new: "find_credential fresh T = None"
    and T': "T' = T @ [\<lparr>rc_id = fresh, rc_name = ci_name v, rc_registry = registry', rc_auth_mode = ci_auth_mode v,
       rc_username = ci_username v, rc_secret_enc = secret_enc, rc_generation = 1, rc_created_at = now, rc_updated_at = now\<rparr>]"
    by (auto simp: create_credential_def split: sum.splits if_splits)
  have same: "ci_registry v = ci_registry input" "ci_secret v = ci_secret input" "ci_auth_mode v = ci_auth_mode input"
    "ci_username v = ci_username input" "ci_auth_mode input = ''basic'' \<or> ci_auth_mode input = ''bearer''"
    "ci_auth_mode input = ''basic'' \<Longrightarrow> ci_username input \<noteq> None"
    using v by (auto simp: validate_credential_def Let_def split: if_splits)
  from new have "find_credential fresh T' = Some (List.last T')"
    by (auto simp: T' find_credential_def find_None_iff find_Some_iff intro!: exI [of _ "length T"] simp: nth_append)
  with decrypt_encrypt [OF assms(1-3) enc] assms(6) [OF reg] reg same show ?thesis
    by (auto simp: credential_auth_def T' ok_or_def split: sum.split option.split)
qed

end
