(* ===== verification/Image_Pipeline.thy ===== *)
theory Image_Pipeline
  imports Registry_Credentials Image_Storage
begin

text \<open>
  The work of an image job, \<^verbatim>\<open>src/src/image_tools.rs\<close> with \<^verbatim>\<open>image_tools/registry.rs\<close> and \<^verbatim>\<open>image_tools/archive.rs\<close>: an image is
  resolved to its manifest and configuration, through a node or directly, its layers are put into the shared store and linked
  into an OCI layout, and the layout is archived or unpacked; or the image is copied to another Registry.

  Parameters are the libraries: \<open>oci_client\<close> (direct pulls and all requests to a destination), the JSON and UTF-8 decoders,
  SHA-256, the tar builders and \<open>ocirender\<close>. Requests through a node are those of \<open>Upstream_Client\<close>. The
  world logs what a destination was asked to store, with its answer. File operations below the store's root succeed where
  the file they need is there.
\<close>

section \<open>Data\<close>

record oci_descriptor =
  od_media_type :: string
  od_digest :: string
  od_size :: int

record oci_image_manifest =
  om_media_type :: "string option"
  om_config :: oci_descriptor
  om_layers :: "oci_descriptor list"

record index_entry =
  ix_digest :: string
  ix_platform :: "(string \<times> string) option"

datatype oci_manifest = Image oci_image_manifest | Image_Index "index_entry list"

text \<open>A parsed reference; \<open>ir_registry\<close> is the Registry that \<open>resolve_registry\<close> gives.\<close>

record image_reference =
  ir_registry :: string
  ir_repository :: string
  ir_tag :: "string option"
  ir_digest :: "string option"

record pulled_manifest =
  pm_manifest :: oci_image_manifest
  pm_digest :: string
  pm_config_json :: string
  pm_index_digest :: "string option"

datatype image_source = Direct image_reference registry_auth_t | Via_Node node_view

record resolved_image =
  ri_pulled :: pulled_manifest
  ri_source :: image_source

record prepared_image =
  pi_manifest :: oci_image_manifest
  pi_config_json :: string
  pi_layout :: path
  pi_layer_paths :: "path list"

datatype archive_input = Docker_Archive string string "path list" "string list" | Oci_Archive path

text \<open>What a destination Registry was asked for: a Blob it has, a Blob that was pushed, a manifest that was pushed.\<close>

datatype push_event = Present string | Pushed_Blob string bytes | Pushed_Manifest oci_image_manifest

record 'u image_env =
  ie_upstream :: "'u upstream_env"
  ie_credentials :: "'u credential_env"
  ie_authority :: authority_parser
  ie_reference :: "string \<Rightarrow> image_reference option"
  ie_sha256_hex :: "bytes \<Rightarrow> string"
  ie_manifest_json :: "bytes \<Rightarrow> string + oci_manifest"
  ie_manifest_bytes :: "oci_image_manifest \<Rightarrow> bytes"
  ie_index_bytes :: "string \<Rightarrow> string \<Rightarrow> nat \<Rightarrow> bytes"
  ie_utf8 :: "bytes \<Rightarrow> string option"
  ie_acquire :: "nat \<Rightarrow> unit api_result"
  ie_direct_manifest :: "nat \<Rightarrow> image_reference \<Rightarrow> registry_auth_t \<Rightarrow> string \<Rightarrow> string \<Rightarrow> string + oci_image_manifest \<times> string \<times> string option"
  ie_direct_blob :: "nat \<Rightarrow> image_reference \<Rightarrow> registry_auth_t \<Rightarrow> oci_descriptor \<Rightarrow> string + (string + bytes) list"
  ie_dest_auth :: "nat \<Rightarrow> image_reference \<Rightarrow> registry_auth_t \<Rightarrow> string + unit"
  ie_dest_exists :: "nat \<Rightarrow> image_reference \<Rightarrow> string \<Rightarrow> string + bool"
  ie_dest_push :: "nat \<Rightarrow> image_reference \<Rightarrow> push_event \<Rightarrow> string + unit"
  ie_image_config :: "bytes \<Rightarrow> string + unit"
  ie_docker_tar :: "string \<Rightarrow> string \<Rightarrow> (path \<times> string) list \<Rightarrow> store_files \<Rightarrow> bytes list \<times> (string + unit)"
  ie_tar :: "(path \<times> bytes) list \<Rightarrow> bool \<Rightarrow> bytes list"
  ie_token_cancelled :: "nat \<Rightarrow> nat \<Rightarrow> bool"
  ie_render :: "nat \<Rightarrow> path \<Rightarrow> store_files \<Rightarrow> (path \<times> bytes) list \<times> (string + unit)"
  ie_uuid_text :: "uuid \<Rightarrow> string"
  ie_path_text :: "path \<Rightarrow> string"
  ie_clock :: "nat \<Rightarrow> instant"
  ie_elapsed :: "nat \<Rightarrow> duration"
  ie_now :: "nat \<Rightarrow> timestamp"

record 'u image_world =
  iw_service :: image_service
  iw_upstream :: "'u upstream_service"
  iw_nodes :: node_tables
  iw_node_service :: node_service
  iw_credentials :: "registry_credential list"
  iw_pushed :: "(push_event \<times> bool) list"
  iw_tick :: nat

section \<open>Sizes, digests and names\<close>

definition blob_size :: "oci_descriptor \<Rightarrow> nat" where
  "blob_size d = nat (max (od_size d) 0)"

definition image_size :: "oci_image_manifest \<Rightarrow> nat" where
  "image_size m = foldl (\<lambda>size layer. u64_saturating_add size (blob_size layer)) (blob_size (om_config m)) (om_layers m)"

definition digest_of :: "'u image_env \<Rightarrow> bytes \<Rightarrow> string" where
  "digest_of env bs = ''sha256:'' @ ie_sha256_hex env bs"

definition verified_digest :: "'u image_env \<Rightarrow> bytes \<Rightarrow> string option \<Rightarrow> string option \<Rightarrow> string api_result" where
  "verified_digest env bs header_digest expected_digest =
     (let computed = digest_of env bs in
      if (case header_digest of None \<Rightarrow> False | Some digest \<Rightarrow> digest \<noteq> computed)
         \<or> (case expected_digest of None \<Rightarrow> False | Some digest \<Rightarrow> digest \<noteq> computed)
      then Inl Integrity else Inr computed)"

definition MANIFEST_ACCEPT :: string where
  "MANIFEST_ACCEPT = ''application/vnd.oci.image.index.v1+json, application/vnd.oci.image.manifest.v1+json, application/vnd.docker.distribution.manifest.list.v2+json, application/vnd.docker.distribution.manifest.v2+json''"

definition safe_artifact_name :: "string \<Rightarrow> string \<Rightarrow> string" where
  "safe_artifact_name reference format =
     map (\<lambda>c. if is_ascii_alphanumeric c \<or> c \<in> set ''.-_'' then c else CHR ''_'') reference @ ''.'' @ format @ ''.tar''"

definition blob_path :: "path \<Rightarrow> string \<Rightarrow> path api_result" where
  "blob_path layout digest =
     (case shared_blob_name digest of
        Some v \<Rightarrow> Inr (layout @ [''blobs'', ''sha256'', v])
      | None \<Rightarrow> Inl (BadRequest ''only sha256 image blobs are supported''))"

definition oci_error :: "string \<Rightarrow> app_error" where
  "oci_error e = Upstream (take 500 e)"

section \<open>Steps on the world\<close>

definition on_service :: "(image_service \<Rightarrow> image_service \<times> 'a api_result) \<Rightarrow> ('u image_world, 'a) fallible" where
  "on_service f w = (case f (iw_service w) of (s, r) \<Rightarrow> (w\<lparr>iw_service := s\<rparr>, r))"

definition on_files :: "(store_files \<Rightarrow> store_files \<times> 'a api_result) \<Rightarrow> ('u image_world, 'a) fallible" where
  "on_files f = on_service (\<lambda>s. case f (im_files s) of (fs, r) \<Rightarrow> (s\<lparr>im_files := fs\<rparr>, r))"

definition iw_files :: "'u image_world \<Rightarrow> store_files" where
  "iw_files w = im_files (iw_service w)"

text \<open>A step of a library: its answer depends on the moment.\<close>

definition at_tick :: "(nat \<Rightarrow> 'a api_result) \<Rightarrow> ('u image_world, 'a) fallible" where
  "at_tick f w = (w\<lparr>iw_tick := iw_tick w + 1\<rparr>, f (iw_tick w))"

definition via_upstream :: "('u, 'a) upstream_op \<Rightarrow> ('u image_world, 'a) fallible" where
  "via_upstream m w = (case m (iw_upstream w) of (S, r) \<Rightarrow> (w\<lparr>iw_upstream := S, iw_tick := iw_tick w + 1\<rparr>, r))"

definition set_progress :: "'u image_env \<Rightarrow> uuid \<Rightarrow> string \<Rightarrow> nat \<Rightarrow> nat \<Rightarrow> ('u image_world, unit) fallible" where
  "set_progress env i st cur tot w =
     on_service (on_tables (update_progress i st cur tot (ie_now env (iw_tick w)))) w"

definition set_stage :: "'u image_env \<Rightarrow> uuid \<Rightarrow> string \<Rightarrow> ('u image_world, unit) fallible" where
  "set_stage env i st w = on_service (on_tables (update_stage i st (ie_now env (iw_tick w)))) w"

definition set_artifact :: "'u image_env \<Rightarrow> uuid \<Rightarrow> path \<Rightarrow> string \<Rightarrow> ('u image_world, unit) fallible" where
  "set_artifact env i p name w =
     on_service (on_tables (update_artifact i (ie_path_text env p) name (ie_now env (iw_tick w)))) w"

definition cancelled_check :: "uuid \<Rightarrow> ('u image_world, unit) fallible" where
  "cancelled_check i = op_read (\<lambda>w. check_cancelled i (im_store (iw_service w)) (im_tables (iw_service w)))"

section \<open>Requests through a node\<close>

fun limited_body :: "nat \<Rightarrow> bytes \<Rightarrow> (string + bytes) list \<Rightarrow> bytes api_result" where
  "limited_body limit body [] = Inr body"
| "limited_body limit body (Inl e # frames) = Inl (Upstream e)"
| "limited_body limit body (Inr chunk # frames) =
     (if limit < u64_saturating_add (length body) (length chunk)
      then Inl (Upstream ''source Registry response exceeds the allowed size'')
      else limited_body limit (body @ chunk) frames)"

definition node_bytes_once ::
  "'u image_env \<Rightarrow> node_view \<Rightarrow> string \<Rightarrow> string \<Rightarrow> nat \<Rightarrow> ('u image_world, headers \<times> bytes) fallible" where
  "node_bytes_once env node path accept limit =
     op_bind (at_tick (ie_acquire env)) (\<lambda>_.
     op_bind (via_upstream (send (ie_upstream env) node GET path [(''accept'', accept)] Suppress)) (\<lambda>r.
       op_read (\<lambda>_.
         if \<not> status_is_success (re_status r)
         then Inl (Upstream (''source Registry returned '' @ ne_status_text (ue_nodes (ie_upstream env)) (re_status r) @ '' for '' @ path))
         else if (case re_content_length r of None \<Rightarrow> False | Some n \<Rightarrow> limit < n)
         then Inl (Upstream ''source Registry response exceeds the allowed size'')
         else result_bind (limited_body limit [] (re_body r)) (\<lambda>body. Inr (re_headers r, body)))))"

text \<open>Up to \<open>n\<close> attempts; the last error is the result. The pauses between the attempts do nothing else.\<close>

fun attempts :: "nat \<Rightarrow> string \<Rightarrow> ('s, 'a) fallible \<Rightarrow> ('s, 'a) fallible" where
  "attempts 0 message m w = (w, Inl (Upstream message))"
| "attempts (Suc n) message m w =
     (case m w of
        (w1, Inr x) \<Rightarrow> (w1, Inr x)
      | (w1, Inl e) \<Rightarrow> if n = 0 then (w1, Inl e) else attempts n message m w1)"

definition node_bytes ::
  "'u image_env \<Rightarrow> node_view \<Rightarrow> string \<Rightarrow> string \<Rightarrow> nat \<Rightarrow> ('u image_world, headers \<times> bytes) fallible" where
  "node_bytes env node path accept limit =
     attempts 3 ''source Registry request failed without an error'' (node_bytes_once env node path accept limit)"

text \<open>The body of a Blob: what was written, and its size.\<close>

fun receive_blob :: "nat \<Rightarrow> nat \<Rightarrow> bytes \<Rightarrow> (string \<Rightarrow> app_error) \<Rightarrow> (string + bytes) list \<Rightarrow> bytes \<times> nat api_result" where
  "receive_blob expected n content err [] = (content, Inr n)"
| "receive_blob expected n content err (Inl e # frames) = (content, Inl (err e))"
| "receive_blob expected n content err (Inr chunk # frames) =
     (let n' = u64_saturating_add n (length chunk) in
      if expected < n' then (content, Inl Integrity)
      else receive_blob expected n' (content @ chunk) err frames)"

definition count_transfer :: "'u image_env \<Rightarrow> node_view \<Rightarrow> nat \<Rightarrow> ('u image_world, unit) fallible" where
  "count_transfer env node n w =
     (case Nodes.record_transfer (ie_clock env (iw_tick w)) (nd_id (nv_node node)) n (ie_elapsed env (iw_tick w)) True
             (iw_nodes w, iw_node_service w) of
        (N, S) \<Rightarrow> (w\<lparr>iw_nodes := N, iw_node_service := S\<rparr>, Inr ()))"

definition download_node_blob_once ::
  "'u image_env \<Rightarrow> node_view \<Rightarrow> string \<Rightarrow> oci_descriptor \<Rightarrow> path \<Rightarrow> ('u image_world, unit) fallible" where
  "download_node_blob_once env node repository descriptor destination =
     op_bind (at_tick (ie_acquire env)) (\<lambda>_.
     op_bind (via_upstream (send (ie_upstream env) node GET (''/v2/'' @ repository @ ''/blobs/'' @ od_digest descriptor) [] Suppress)) (\<lambda>r.
       if \<not> status_is_success (re_status r)
       then op_read (\<lambda>_. Inl (Upstream (''source Registry returned '' @ ne_status_text (ue_nodes (ie_upstream env)) (re_status r)
              @ '' for Blob '' @ od_digest descriptor)))
       else
         case receive_blob (blob_size descriptor) 0 [] Upstream (re_body r) of
           (content, received) \<Rightarrow>
             op_bind (on_files (\<lambda>fs. (put_file destination content fs, received))) (\<lambda>size.
               if size \<noteq> blob_size descriptor \<or> digest_of env content \<noteq> od_digest descriptor then op_read (\<lambda>_. Inl Integrity)
               else count_transfer env node size)))"

definition download_node_blob ::
  "'u image_env \<Rightarrow> node_view \<Rightarrow> string \<Rightarrow> oci_descriptor \<Rightarrow> path \<Rightarrow> ('u image_world, unit) fallible" where
  "download_node_blob env node repository descriptor destination =
     attempts 3 ''source Blob download failed without an error'' (download_node_blob_once env node repository descriptor destination)"

section \<open>Direct requests\<close>

definition read_blob ::
  "'u image_env \<Rightarrow> image_reference \<Rightarrow> registry_auth_t \<Rightarrow> oci_descriptor \<Rightarrow> nat \<Rightarrow> bytes \<times> unit api_result" where
  "read_blob env reference auth descriptor moment =
     (if od_size descriptor < 0 then ([], Inl Integrity)
      else case ie_direct_blob env moment reference auth descriptor of
        Inl e \<Rightarrow> ([], Inl (oci_error e))
      | Inr frames \<Rightarrow>
          (case receive_blob (nat (od_size descriptor)) 0 [] oci_error frames of
             (content, Inl e) \<Rightarrow> (content, Inl e)
           | (content, Inr n) \<Rightarrow> (content, if n \<noteq> nat (od_size descriptor) then Inl Integrity else Inr ())))"

definition pull_manifest ::
  "'u image_env \<Rightarrow> image_reference \<Rightarrow> registry_auth_t \<Rightarrow> string \<Rightarrow> string \<Rightarrow> ('u image_world, pulled_manifest) fallible" where
  "pull_manifest env reference auth os arch =
     op_bind (at_tick (\<lambda>tick. case ie_direct_manifest env tick reference auth os arch of
         Inl e \<Rightarrow> Inl (oci_error e) | Inr x \<Rightarrow> Inr x)) (\<lambda>(manifest, digest, index_digest).
       if od_size (om_config manifest) < 0 \<or> 64 * 1024 * 1024 < od_size (om_config manifest)
       then op_read (\<lambda>_. Inl (Upstream ''image config exceeds 64 MiB''))
       else
     op_bind (at_tick (\<lambda>tick. case read_blob env reference auth (om_config manifest) tick of
         (content, Inl e) \<Rightarrow> Inl e | (content, Inr _) \<Rightarrow> Inr content)) (\<lambda>config.
     op_read (\<lambda>_. result_bind (ok_or (Upstream ''image config is not UTF-8 JSON'') (ie_utf8 env config)) (\<lambda>config_json.
       Inr \<lparr>pm_manifest = manifest, pm_digest = digest, pm_config_json = config_json, pm_index_digest = index_digest\<rparr>))))"

section \<open>Resolving an image\<close>

definition REGISTRY_MISMATCH :: string where
  "REGISTRY_MISMATCH = ''selected image source does not match its Registry route''"

definition source_node :: "'u image_env \<Rightarrow> uuid \<Rightarrow> ('u image_world, node_view) fallible" where
  "source_node env node_id w =
     (case registry_node (ue_nodes (ie_upstream env)) (ie_clock env (iw_tick w)) node_id (iw_nodes w) (iw_node_service w) of
        (r, S) \<Rightarrow> (w\<lparr>iw_node_service := S\<rparr>, r))"

definition digest_header :: "headers \<Rightarrow> string option" where
  "digest_header hs = header_get ''docker-content-digest'' hs"

definition for_platform :: "image_job \<Rightarrow> index_entry \<Rightarrow> bool" where
  "for_platform job entry = (ix_platform entry = Some (ij_platform_os job, ij_platform_arch job))"

definition platform_manifest ::
  "'u image_env \<Rightarrow> image_job \<Rightarrow> image_reference \<Rightarrow> node_view \<Rightarrow> string \<Rightarrow> oci_manifest
     \<Rightarrow> ('u image_world, oci_image_manifest \<times> string \<times> string option) fallible" where
  "platform_manifest env job logical node top_digest top_manifest =
     (case top_manifest of
        Image manifest \<Rightarrow> op_read (\<lambda>_. Inr (manifest, top_digest, None))
      | Image_Index entries \<Rightarrow>
          (case find (for_platform job) entries of
             None \<Rightarrow> op_read (\<lambda>_. Inl (BadRequest ''requested platform is absent from image index''))
           | Some descriptor \<Rightarrow>
               op_bind (node_bytes env node (''/v2/'' @ ir_repository logical @ ''/manifests/'' @ ix_digest descriptor)
                          MANIFEST_ACCEPT (16 * 1024 * 1024)) (\<lambda>(hs, bs).
               op_read (\<lambda>_.
                 result_bind (verified_digest env bs (digest_header hs) (Some (ix_digest descriptor))) (\<lambda>digest.
                   case ie_manifest_json env bs of
                     Inl e \<Rightarrow> Inl (Upstream (''invalid platform manifest: '' @ e))
                   | Inr (Image_Index _) \<Rightarrow> Inl (Upstream ''nested image indexes are not supported'')
                   | Inr (Image manifest) \<Rightarrow> Inr (manifest, digest, Some top_digest))))))"

definition node_config ::
  "'u image_env \<Rightarrow> image_reference \<Rightarrow> node_view \<Rightarrow> oci_descriptor \<Rightarrow> ('u image_world, string) fallible" where
  "node_config env logical node descriptor =
     op_bind (node_bytes env node (''/v2/'' @ ir_repository logical @ ''/blobs/'' @ od_digest descriptor)
                ''application/octet-stream'' (min (u64_saturating_add (blob_size descriptor) 1) (64 * 1024 * 1024))) (\<lambda>(hs, bs).
     op_read (\<lambda>_.
       result_bind (verified_digest env bs None (Some (od_digest descriptor))) (\<lambda>_.
         if int (length bs) \<noteq> od_size descriptor then Inl Integrity
         else ok_or (Upstream ''image config is not UTF-8 JSON'') (ie_utf8 env bs))))"

definition resolve_image_via_node ::
  "'u image_env \<Rightarrow> image_job \<Rightarrow> image_reference \<Rightarrow> uuid \<Rightarrow> ('u image_world, resolved_image) fallible" where
  "resolve_image_via_node env job logical node_id =
     op_bind (source_node env node_id) (\<lambda>node.
     op_bind (op_read (\<lambda>_.
       result_bind (normalize_registry_authority (ie_authority env) (ir_registry logical)) (\<lambda>logical_registry.
       result_bind (normalize_registry_authority (ie_authority env) (rs_canonical_registry (nv_route node))) (\<lambda>route_registry.
         if logical_registry \<noteq> route_registry then Inl (BadRequest REGISTRY_MISMATCH) else Inr ())))) (\<lambda>_.
     op_bind (node_bytes env node
         (''/v2/'' @ ir_repository logical @ ''/manifests/''
            @ (case ir_digest logical of Some d \<Rightarrow> d | None \<Rightarrow> unwrap_or ''latest'' (ir_tag logical)))
         MANIFEST_ACCEPT (16 * 1024 * 1024)) (\<lambda>(hs, bs).
     op_bind (op_read (\<lambda>_.
       result_bind (verified_digest env bs (digest_header hs) (ir_digest logical)) (\<lambda>top_digest.
         case ie_manifest_json env bs of
           Inl e \<Rightarrow> Inl (Upstream (''invalid image manifest: '' @ e))
         | Inr top_manifest \<Rightarrow> Inr (top_digest, top_manifest)))) (\<lambda>(top_digest, top_manifest).
     op_bind (platform_manifest env job logical node top_digest top_manifest) (\<lambda>(manifest, digest, index_digest).
     op_bind (node_config env logical node (om_config manifest)) (\<lambda>config_json.
       op_read (\<lambda>_. Inr \<lparr>ri_pulled = \<lparr>pm_manifest = manifest, pm_digest = digest, pm_config_json = config_json,
                                       pm_index_digest = index_digest\<rparr>,
                         ri_source = Via_Node node\<rparr>)))))))"

definition source_transport ::
  "'u image_env \<Rightarrow> image_reference \<Rightarrow> image_job \<Rightarrow> ('u image_world, image_reference \<times> registry_auth_t) fallible" where
  "source_transport env logical job =
     op_read (\<lambda>w.
       case ij_source_credential_id job of
         None \<Rightarrow> Inr (logical, Anonymous)
       | Some i \<Rightarrow>
           result_bind (credential_auth (ie_credentials env) (iw_credentials w) i (ir_registry logical)) (\<lambda>auth.
             Inr (logical, auth)))"

definition parse_reference :: "'u image_env \<Rightarrow> string \<Rightarrow> string \<Rightarrow> ('u image_world, image_reference) fallible" where
  "parse_reference env raw message = op_read (\<lambda>_. ok_or (BadRequest message) (ie_reference env raw))"

definition resolve_image :: "'u image_env \<Rightarrow> image_job \<Rightarrow> ('u image_world, resolved_image) fallible" where
  "resolve_image env job =
     op_bind (parse_reference env (ij_source_ref job) ''invalid source image reference'') (\<lambda>logical.
       case ij_source_node_id job of
         Some node_id \<Rightarrow> resolve_image_via_node env job logical node_id
       | None \<Rightarrow>
           op_bind (source_transport env logical job) (\<lambda>(source, auth).
           op_bind (pull_manifest env source auth (ij_platform_os job) (ij_platform_arch job)) (\<lambda>pulled.
             op_read (\<lambda>_. Inr \<lparr>ri_pulled = pulled, ri_source = Direct source auth\<rparr>))))"

section \<open>Layers\<close>

definition pull_blob ::
  "'u image_env \<Rightarrow> image_reference \<Rightarrow> registry_auth_t \<Rightarrow> oci_descriptor \<Rightarrow> path \<Rightarrow> ('u image_world, unit) fallible" where
  "pull_blob env reference auth descriptor destination w =
     (case read_blob env reference auth descriptor (iw_tick w) of
        (content, r) \<Rightarrow>
          on_files (\<lambda>fs. (put_file destination content fs, r)) (w\<lparr>iw_tick := iw_tick w + 1\<rparr>))"

definition pull_source_blob ::
  "'u image_env \<Rightarrow> image_source \<Rightarrow> image_job \<Rightarrow> oci_descriptor \<Rightarrow> path \<Rightarrow> ('u image_world, unit) fallible" where
  "pull_source_blob env source job layer p =
     (case source of
        Direct reference auth \<Rightarrow> pull_blob env reference auth layer p
      | Via_Node node \<Rightarrow>
          op_bind (parse_reference env (ij_source_ref job) ''invalid source image reference'') (\<lambda>logical.
            download_node_blob env node (ir_repository logical) layer p))"

text \<open>A write of a shared Blob: the partial file is gone when the guard is dropped, whatever happened.\<close>

definition with_guard ::
  "'u image_env \<Rightarrow> uuid \<Rightarrow> string \<Rightarrow> (blob_write_guard \<Rightarrow> ('u image_world, 'a) fallible) \<Rightarrow> ('u image_world, 'a) fallible" where
  "with_guard env i digest body =
     op_bind (op_read (\<lambda>_. begin_blob_write (ie_uuid_text env) i digest)) (\<lambda>guard w.
       case body guard w of (w1, r) \<Rightarrow> (fst (on_files (\<lambda>fs. (drop_guard guard fs, Inr ())) w1), r))"

definition link_or_copy :: "path \<Rightarrow> path \<Rightarrow> store_files \<Rightarrow> store_files \<times> unit api_result" where
  "link_or_copy source destination fs =
     (if has_file destination fs then (fs, Inr ())
      else case map_of fs source of
        None \<Rightarrow> (fs, Inl (Io ''NotFound''))
      | Some content \<Rightarrow> (put_file destination content fs, Inr ()))"

definition file_stem :: "string \<Rightarrow> string" where
  "file_stem name = (let r = tl (dropWhile (\<lambda>c. c \<noteq> CHR ''.'') (rev name)) in if r = [] then name else rev r)"

definition with_extension :: "path \<Rightarrow> string \<Rightarrow> path" where
  "with_extension p ext = butlast p @ [file_stem (last p) @ ''.'' @ ext]"

definition atomic_write :: "path \<Rightarrow> bytes \<Rightarrow> store_files \<Rightarrow> store_files" where
  "atomic_write p content fs =
     (let temporary = with_extension p ''partial'' in
      put_file p content (drop_file temporary (put_file temporary content fs)))"

definition write_layout :: "'u image_env \<Rightarrow> path \<Rightarrow> oci_image_manifest \<Rightarrow> store_files \<Rightarrow> store_files \<times> unit api_result" where
  "write_layout env layout manifest fs =
     (let bs = ie_manifest_bytes env manifest; digest = digest_of env bs in
      case blob_path layout digest of
        Inl e \<Rightarrow> (fs, Inl e)
      | Inr p \<Rightarrow>
          let fs1 = atomic_write p bs fs;
              fs2 = atomic_write (layout @ [''index.json''])
                (ie_index_bytes env (unwrap_or ''application/vnd.oci.image.manifest.v1+json'' (om_media_type manifest)) digest (length bs)) fs1
          in (atomic_write (layout @ [''oci-layout'']) (as_bytes ''{\"imageLayoutVersion\":\"1.0.0\"}'') fs2, Inr ()))"

fun fetch_layers ::
  "'u image_env \<Rightarrow> image_job \<Rightarrow> image_source \<Rightarrow> path \<Rightarrow> nat \<Rightarrow> oci_descriptor list \<Rightarrow> nat \<Rightarrow> path list
     \<Rightarrow> ('u image_world, path list) fallible" where
  "fetch_layers env job source layout tot [] downloaded paths = op_read (\<lambda>_. Inr paths)"
| "fetch_layers env job source layout tot (layer # layers) downloaded paths =
     op_bind (cancelled_check (ij_id job)) (\<lambda>_.
     op_bind (op_read (\<lambda>_. blob_path layout (od_digest layer))) (\<lambda>p.
     op_bind (op_read (\<lambda>_. shared_blob_path (od_digest layer))) (\<lambda>shared.
     op_bind (\<lambda>w. if has_file shared (iw_files w) then (w, Inr ())
         else with_guard env (ij_id job) (od_digest layer) (\<lambda>guard.
           op_bind (pull_source_blob env source job layer (bg_temporary guard)) (\<lambda>_.
           op_bind (on_files (commit_blob guard)) (\<lambda>_. op_read (\<lambda>_. Inr ())))) w) (\<lambda>_.
     op_bind (on_files (link_or_copy shared p)) (\<lambda>_.
       let downloaded' = u64_saturating_add downloaded (blob_size layer) in
     op_bind (set_progress env (ij_id job) ''downloading'' downloaded' tot) (\<lambda>_.
       fetch_layers env job source layout tot layers downloaded' (paths @ [p])))))))"

definition prepare_resolved_image ::
  "'u image_env \<Rightarrow> image_job \<Rightarrow> resolved_image \<Rightarrow> ('u image_world, prepared_image) fallible" where
  "prepare_resolved_image env job resolved =
     (let pulled = ri_pulled resolved; manifest = pm_manifest pulled; tot = image_size manifest;
          layout = job_root (ie_uuid_text env) (ij_id job) @ [''layout'']; config_digest = od_digest (om_config manifest) in
     op_bind (op_read (\<lambda>w. if im_max_export_bytes (iw_service w) < tot
         then Inl (BadRequest ''image exceeds DONKEY_MAX_EXPORT_BYTES'') else Inr ())) (\<lambda>_.
     op_bind (op_read (\<lambda>_. blob_path layout config_digest)) (\<lambda>config_path.
     op_bind (op_read (\<lambda>_. shared_blob_path config_digest)) (\<lambda>shared_config.
     op_bind (\<lambda>w. if has_file shared_config (iw_files w) then (w, Inr ())
         else op_bind (on_files (write_blob_bytes (ie_uuid_text env) (ij_id job) config_digest (as_bytes (pm_config_json pulled))))
           (\<lambda>_. op_read (\<lambda>_. Inr ())) w) (\<lambda>_.
     op_bind (on_files (link_or_copy shared_config config_path)) (\<lambda>_.
     op_bind (set_progress env (ij_id job) ''downloading'' 0 tot) (\<lambda>_.
     op_bind (fetch_layers env job (ri_source resolved) layout tot (om_layers manifest) (blob_size (om_config manifest)) []) (\<lambda>paths.
     op_bind (on_files (write_layout env layout manifest)) (\<lambda>_.
       op_read (\<lambda>_. Inr \<lparr>pi_manifest = manifest, pi_config_json = pm_config_json pulled, pi_layout = layout,
                          pi_layer_paths = paths\<rparr>))))))))))"

section \<open>Archives\<close>

text \<open>A writer that fails once the token of the work is cancelled; \<open>k\<close> counts the writes.\<close>

fun cancellable_writes :: "(nat \<Rightarrow> bool) \<Rightarrow> nat \<Rightarrow> bytes \<Rightarrow> bytes list \<Rightarrow> bytes \<times> (string + unit)" where
  "cancellable_writes cancelled k written [] = (written, Inr ())"
| "cancellable_writes cancelled k written (buffer # buffers) =
     (if cancelled k then (written, Inl ''image archive cancelled'')
      else cancellable_writes cancelled (Suc k) (written @ buffer) buffers)"

definition write_archive ::
  "'u image_env \<Rightarrow> nat \<Rightarrow> path \<Rightarrow> bytes list \<times> (string + unit) \<Rightarrow> store_files \<Rightarrow> store_files \<times> (string + unit)" where
  "write_archive env moment output built fs =
     (case cancellable_writes (ie_token_cancelled env moment) 0 [] (fst built) of
        (content, Inl e) \<Rightarrow> (put_file output content fs, Inl e)
      | (content, Inr _) \<Rightarrow> (put_file output content fs, snd built))"

definition build_docker_archive_with_cancellation ::
  "'u image_env \<Rightarrow> nat \<Rightarrow> path \<Rightarrow> string \<Rightarrow> string \<Rightarrow> path list \<Rightarrow> string list \<Rightarrow> store_files \<Rightarrow> store_files \<times> (string + unit)" where
  "build_docker_archive_with_cancellation env moment output config_json reference layers media_types fs =
     (case ie_image_config env (as_bytes config_json) of
        Inl e \<Rightarrow> (fs, Inl (''invalid image config: '' @ e))
      | Inr _ \<Rightarrow>
          (let fs1 = put_file output [] fs in
           write_archive env moment output (ie_docker_tar env config_json reference (zip layers media_types) fs1) fs1))"

text \<open>The entries of an OCI archive, up to the first file that is missing.\<close>

definition oci_entries :: "path \<Rightarrow> store_files \<Rightarrow> (path \<times> bytes) list \<times> (string + unit)" where
  "oci_entries layout fs =
     (case map_of fs (layout @ [''oci-layout'']) of
        None \<Rightarrow> ([], Inl ''NotFound'')
      | Some a \<Rightarrow>
          (case map_of fs (layout @ [''index.json'']) of
             None \<Rightarrow> ([([''oci-layout''], a)], Inl ''NotFound'')
           | Some b \<Rightarrow>
               ([([''oci-layout''], a), ([''index.json''], b)]
                  @ map (\<lambda>(p, content). (drop (length layout) p, content)) (filter (\<lambda>f. under (layout @ [''blobs'']) (fst f)) fs),
                Inr ())))"

definition build_oci_archive_with_cancellation ::
  "'u image_env \<Rightarrow> nat \<Rightarrow> path \<Rightarrow> path \<Rightarrow> store_files \<Rightarrow> store_files \<times> (string + unit)" where
  "build_oci_archive_with_cancellation env moment output layout fs =
     (let fs1 = put_file output [] fs in
      case oci_entries layout fs1 of
        (entries, r) \<Rightarrow> write_archive env moment output (ie_tar env entries (r = Inr ()), r) fs1)"

definition build_archive ::
  "'u image_env \<Rightarrow> nat \<Rightarrow> path \<Rightarrow> archive_input \<Rightarrow> store_files \<Rightarrow> store_files \<times> (string + unit)" where
  "build_archive env moment output input =
     (case input of
        Docker_Archive config_json reference layers media_types \<Rightarrow>
          build_docker_archive_with_cancellation env moment output config_json reference layers media_types
      | Oci_Archive layout \<Rightarrow> build_oci_archive_with_cancellation env moment output layout)"

text \<open>A blocking library call on the files; its error is an internal one.\<close>

definition on_files_at :: "(nat \<Rightarrow> store_files \<Rightarrow> store_files \<times> (string + unit)) \<Rightarrow> ('u image_world, unit) fallible" where
  "on_files_at f w =
     on_files (\<lambda>fs. case f (iw_tick w) fs of (fs1, Inl e) \<Rightarrow> (fs1, Inl (Internal e)) | (fs1, Inr _) \<Rightarrow> (fs1, Inr ()))
       (w\<lparr>iw_tick := iw_tick w + 1\<rparr>)"

definition export_image :: "'u image_env \<Rightarrow> image_job \<Rightarrow> prepared_image \<Rightarrow> ('u image_world, unit) fallible" where
  "export_image env job prepared =
     (let format = unwrap_or ''docker'' (ij_output_format job);
          name = safe_artifact_name (ij_source_ref job) format;
          output = job_root (ie_uuid_text env) (ij_id job) @ [name];
          archive = (if format = ''docker''
            then Docker_Archive (pi_config_json prepared) (ij_source_ref job) (pi_layer_paths prepared)
                   (map od_media_type (om_layers (pi_manifest prepared)))
            else Oci_Archive (pi_layout prepared)) in
     op_bind (set_stage env (ij_id job) ''archiving'') (\<lambda>_.
     if format \<notin> {''docker'', ''oci''} then op_read (\<lambda>_. Inl (BadRequest ''output format must be docker or oci''))
     else
     op_bind (on_files_at (\<lambda>moment. build_archive env moment output archive)) (\<lambda>_.
       set_artifact env (ij_id job) output name)))"

definition convert_dir :: "'u image_env \<Rightarrow> path \<Rightarrow> path \<Rightarrow> nat \<Rightarrow> store_files \<Rightarrow> store_files \<times> (string + unit)" where
  "convert_dir env layout rootfs moment fs =
     (case ie_render env moment layout fs of
        (rendered, r) \<Rightarrow> (fs @ map (\<lambda>(p, content). (rootfs @ p, content)) rendered, r))"

definition extract_image :: "'u image_env \<Rightarrow> image_job \<Rightarrow> prepared_image \<Rightarrow> ('u image_world, unit) fallible" where
  "extract_image env job prepared =
     (let rootfs = job_root (ie_uuid_text env) (ij_id job) @ [''rootfs''] in
     op_bind (set_stage env (ij_id job) ''extracting'') (\<lambda>_.
     op_bind (on_files (\<lambda>fs. (filter (\<lambda>f. \<not> under rootfs (fst f)) fs, Inr ()))) (\<lambda>_.
     op_bind (on_files_at (convert_dir env (pi_layout prepared) rootfs)) (\<lambda>_.
       set_artifact env (ij_id job) rootfs (ie_uuid_text env (ij_id job) @ ''-rootfs'')))))"

section \<open>Copying to a Registry\<close>

definition authenticate_push :: "'u image_env \<Rightarrow> image_reference \<Rightarrow> registry_auth_t \<Rightarrow> ('u image_world, unit) fallible" where
  "authenticate_push env destination auth =
     at_tick (\<lambda>moment. case ie_dest_auth env moment destination auth of Inl e \<Rightarrow> Inl (oci_error e) | Inr _ \<Rightarrow> Inr ())"

definition blob_exists :: "'u image_env \<Rightarrow> image_reference \<Rightarrow> string \<Rightarrow> ('u image_world, bool) fallible" where
  "blob_exists env destination digest w =
     (let r = ie_dest_exists env (iw_tick w) destination digest; w1 = w\<lparr>iw_tick := iw_tick w + 1\<rparr> in
      case r of
        Inl e \<Rightarrow> (w1, Inl (oci_error e))
      | Inr present \<Rightarrow> (w1\<lparr>iw_pushed := iw_pushed w @ [(Present digest, present)]\<rparr>, Inr present))"

definition push :: "'u image_env \<Rightarrow> image_reference \<Rightarrow> push_event \<Rightarrow> ('u image_world, unit) fallible" where
  "push env destination event w =
     (let r = ie_dest_push env (iw_tick w) destination event in
      (w\<lparr>iw_tick := iw_tick w + 1, iw_pushed := iw_pushed w @ [(event, is_ok r)]\<rparr>,
       case r of Inl e \<Rightarrow> Inl (oci_error e) | Inr _ \<Rightarrow> Inr ()))"

definition push_file :: "'u image_env \<Rightarrow> image_reference \<Rightarrow> path \<Rightarrow> string \<Rightarrow> ('u image_world, unit) fallible" where
  "push_file env destination p digest w =
     (case map_of (iw_files w) p of
        None \<Rightarrow> (w, Inl (Io ''NotFound''))
      | Some content \<Rightarrow> push env destination (Pushed_Blob digest content) w)"

definition push_bytes :: "'u image_env \<Rightarrow> image_reference \<Rightarrow> bytes \<Rightarrow> string \<Rightarrow> ('u image_world, unit) fallible" where
  "push_bytes env destination content digest = push env destination (Pushed_Blob digest content)"

definition push_manifest :: "'u image_env \<Rightarrow> image_reference \<Rightarrow> oci_image_manifest \<Rightarrow> ('u image_world, unit) fallible" where
  "push_manifest env destination manifest = push env destination (Pushed_Manifest manifest)"

definition copy_layer ::
  "'u image_env \<Rightarrow> image_job \<Rightarrow> image_source \<Rightarrow> image_reference \<Rightarrow> oci_descriptor \<Rightarrow> ('u image_world, unit) fallible" where
  "copy_layer env job source destination layer =
     with_guard env (ij_id job) (od_digest layer) (\<lambda>guard.
       op_bind (op_read (\<lambda>_. shared_blob_path (od_digest layer))) (\<lambda>shared w.
         if has_file shared (iw_files w) then push_file env destination shared (od_digest layer) w
         else if im_max_export_bytes (iw_service w) < blob_size layer
         then (w, Inl (BadRequest ''layer exceeds DONKEY_MAX_EXPORT_BYTES''))
         else
           op_bind (pull_source_blob env source job layer (bg_temporary guard)) (\<lambda>_.
           op_bind (cancelled_check (ij_id job)) (\<lambda>_.
             push_file env destination (bg_temporary guard) (od_digest layer))) w))"

fun copy_layers ::
  "'u image_env \<Rightarrow> image_job \<Rightarrow> image_source \<Rightarrow> image_reference \<Rightarrow> nat \<Rightarrow> oci_descriptor list \<Rightarrow> nat
     \<Rightarrow> ('u image_world, unit) fallible" where
  "copy_layers env job source destination tot [] progress = op_read (\<lambda>_. Inr ())"
| "copy_layers env job source destination tot (layer # layers) progress =
     op_bind (cancelled_check (ij_id job)) (\<lambda>_.
     op_bind (blob_exists env destination (od_digest layer)) (\<lambda>present.
     op_bind (if present then op_read (\<lambda>_. Inr ()) else copy_layer env job source destination layer) (\<lambda>_.
       let progress' = u64_saturating_add progress (blob_size layer) in
     op_bind (set_progress env (ij_id job) ''copying'' progress' tot) (\<lambda>_.
       copy_layers env job source destination tot layers progress'))))"

definition copy_to_registry ::
  "'u image_env \<Rightarrow> image_job \<Rightarrow> resolved_image \<Rightarrow> image_reference \<Rightarrow> registry_auth_t \<Rightarrow> ('u image_world, unit) fallible" where
  "copy_to_registry env job resolved destination auth =
     (let manifest = pm_manifest (ri_pulled resolved); tot = image_size manifest; config_digest = od_digest (om_config manifest) in
     op_bind (authenticate_push env destination auth) (\<lambda>_.
     op_bind (set_progress env (ij_id job) ''copying'' 0 tot) (\<lambda>_.
     op_bind (copy_layers env job (ri_source resolved) destination tot (om_layers manifest) 0) (\<lambda>_.
     op_bind (cancelled_check (ij_id job)) (\<lambda>_.
     op_bind (blob_exists env destination config_digest) (\<lambda>present.
     op_bind (if present then op_read (\<lambda>_. Inr ())
              else push_bytes env destination (as_bytes (pm_config_json (ri_pulled resolved))) config_digest) (\<lambda>_.
     op_bind (cancelled_check (ij_id job)) (\<lambda>_.
     op_bind (push_manifest env destination manifest) (\<lambda>_.
       set_progress env (ij_id job) ''copying'' tot tot)))))))))"

definition copy_image :: "'u image_env \<Rightarrow> image_job \<Rightarrow> resolved_image \<Rightarrow> ('u image_world, unit) fallible" where
  "copy_image env job resolved =
     op_bind (set_stage env (ij_id job) ''copying'') (\<lambda>_.
     op_bind (op_read (\<lambda>_. ok_or (BadRequest ''copy job has no destination reference'') (ij_destination_ref job))) (\<lambda>raw.
     op_bind (parse_reference env raw ''invalid destination image reference'') (\<lambda>destination.
     op_bind (op_read (\<lambda>_. ok_or (BadRequest ''copy job has no destination credential'') (ij_destination_credential_id job))) (\<lambda>credential_id.
     op_bind (op_read (\<lambda>w. credential_auth (ie_credentials env) (iw_credentials w) credential_id (ir_registry destination))) (\<lambda>auth.
       copy_to_registry env job resolved destination auth)))))"

section \<open>The worker\<close>

definition export_or_extract ::
  "'u image_env \<Rightarrow> image_job \<Rightarrow> resolved_image \<Rightarrow> ('u image_world, unit) fallible" where
  "export_or_extract env job resolved =
     op_bind (prepare_resolved_image env job resolved) (\<lambda>prepared.
       case job_kind_parse (ij_kind job) of
         Some Export \<Rightarrow> export_image env job prepared
       | Some Extract \<Rightarrow> extract_image env job prepared
       | _ \<Rightarrow> op_read (\<lambda>_. Inl (BadRequest ''unsupported image job kind'')))"

definition process_job ::
  "'u image_env \<Rightarrow> image_job \<Rightarrow> instant \<Rightarrow> timestamp \<Rightarrow> ('u image_world, job_outcome) fallible" where
  "process_job env job clock now =
     op_bind (resolve_image env job) (\<lambda>resolved.
       let pulled = ri_pulled resolved;
           finish = op_bind (on_service (enforce_storage_quota (ie_uuid_text env) (ij_id job) clock now))
             (\<lambda>_. op_read (\<lambda>_. Inr Outcome_Completed)) in
     op_bind (on_service (on_tables (update_manifest (ij_id job) (pm_digest pulled) (pm_index_digest pulled)
         (image_size (pm_manifest pulled)) now))) (\<lambda>_.
     op_bind (cancelled_check (ij_id job)) (\<lambda>_.
       if job_kind_parse (ij_kind job) = Some Copy then
         (\<lambda>w. if copy_already_completed job (pm_digest pulled) (im_tables (iw_service w)) then (w, Inr Outcome_Skipped)
              else op_bind (copy_image env job resolved) (\<lambda>_. finish) w)
       else op_bind (export_or_extract env job resolved) (\<lambda>_. finish))))"

text \<open>
  One tick: housekeeping, then at most one job. \<open>tick_end\<close> says how the race between the work, the lost
  lease and the shutdown of the process ends: with the work's own result, or by dropping the work at an await, which leaves
  the world as it is there.
\<close>

datatype 'w tick_end = Work_Done | Lease_Lost 'w | Shutdown 'w

definition image_tick ::
  "('s, 'z) job_env \<Rightarrow> 'u image_env \<Rightarrow> 'u image_world tick_end \<Rightarrow> (nat \<Rightarrow> job_tables \<Rightarrow> job_tables) \<Rightarrow> (nat \<Rightarrow> uuid) \<Rightarrow> instant
     \<Rightarrow> timestamp \<Rightarrow> ('u image_world, unit) fallible" where
  "image_tick jenv env interrupt other new_id clock now =
     op_bind (on_service (cleanup_storage (je_uuid_text jenv) None clock now)) (\<lambda>_.
     op_bind (on_service (on_tables (\<lambda>_. enqueue_due_rules jenv new_id now))) (\<lambda>_.
     op_bind (on_service (on_tables (\<lambda>_. recover_abandoned_jobs other now))) (\<lambda>_.
     op_bind (on_service (\<lambda>s. case claim_next now (im_store s) (im_tables s) of
         ((S, T), r) \<Rightarrow> (s\<lparr>im_store := S, im_tables := T\<rparr>, r))) (\<lambda>claimed w.
       case claimed of
         None \<Rightarrow> (w, Inr ())
       | Some (job, attempt) \<Rightarrow>
           let (w1, outcome) = (case interrupt of
                 Work_Done \<Rightarrow> (case process_job env job clock now w of (w1, r) \<Rightarrow> (w1, Some r))
               | Lease_Lost w1 \<Rightarrow> (w1, Some (Inl (Conflict ''image job lease was lost'')))
               | Shutdown w1 \<Rightarrow> (w1, None));
               (w2, finished) = (case outcome of
                 Some r \<Rightarrow> on_service (on_tables (finish_job other (ij_id job) attempt r now)) w1
               | None \<Rightarrow> (w1, Inr ()))
           in (w2\<lparr>iw_service := (iw_service w2)\<lparr>im_store := deactivate (ij_id job) (im_store (iw_service w2))\<rparr>\<rparr>, finished)))))"

end
