(* ===== verification/Image_Pipeline_Proofs.thy ===== *)
theory Image_Pipeline_Proofs
  imports Image_Pipeline
begin

text \<open>
  What the work of an image job does to the store of Blobs and to a destination Registry. A small Hoare logic for fallible
  operations carries the proofs: a shared Blob and a Blob of a layout always have the content their name says, a prepared
  layout is complete, and a manifest reaches a destination after everything it refers to.
\<close>

section \<open>Triples for fallible operations\<close>

text \<open>\<open>triple P m Q E\<close>: from a state with \<open>P\<close>, the operation returns a value with \<open>Q\<close> or fails in a state with \<open>E\<close>.\<close>

definition triple :: "('s \<Rightarrow> bool) \<Rightarrow> ('s, 'a) fallible \<Rightarrow> ('a \<Rightarrow> 's \<Rightarrow> bool) \<Rightarrow> ('s \<Rightarrow> bool) \<Rightarrow> bool" where
  "triple P m Q E \<longleftrightarrow> (\<forall>w. P w \<longrightarrow> (case m w of (w', Inl e) \<Rightarrow> E w' | (w', Inr x) \<Rightarrow> Q x w'))"

lemma triple_run:
  assumes "triple P m Q E" and "P w" and "m w = (w', r)"
  shows "case r of Inl e \<Rightarrow> E w' | Inr x \<Rightarrow> Q x w'"
  using assms by (fastforce simp: triple_def split: sum.split)

lemma triple_bind [intro]:
  assumes "triple P m R E" and "\<And>x. triple (R x) (f x) Q E"
  shows "triple P (op_bind m f) Q E"
  using assms unfolding triple_def op_bind_def by (fastforce split: prod.splits sum.splits)

lemma triple_read:
  "(\<And>w. P w \<Longrightarrow> case f w of Inl e \<Rightarrow> E w | Inr x \<Rightarrow> Q x w) \<Longrightarrow> triple P (op_read f) Q E"
  by (auto simp: triple_def op_read_def split: sum.split)

lemma triple_conseq:
  assumes "triple P' m Q' E'" and "\<And>w. P w \<Longrightarrow> P' w" and "\<And>x w. Q' x w \<Longrightarrow> Q x w" and "\<And>w. E' w \<Longrightarrow> E w"
  shows "triple P m Q E"
  using assms unfolding triple_def by (fastforce split: prod.splits sum.splits)

lemma triple_if:
  assumes "triple (\<lambda>w. P w \<and> c w) m Q E" and "triple (\<lambda>w. P w \<and> \<not> c w) m' Q E"
  shows "triple P (\<lambda>w. if c w then m w else m' w) Q E"
  using assms by (simp add: triple_def)

lemma triple_branch: "(c \<Longrightarrow> triple P m Q E) \<Longrightarrow> (\<not> c \<Longrightarrow> triple P m' Q E) \<Longrightarrow> triple P (if c then m else m') Q E"
  by simp

lemma triple_False: "triple (\<lambda>w. False) m Q E"
  by (simp add: triple_def)

lemma triple_pure: "(c \<Longrightarrow> triple P m Q E) \<Longrightarrow> triple (\<lambda>w. c \<and> P w) m Q E"
  by (auto simp: triple_def)

lemma triple_attempts:
  assumes "triple P m Q P" and "\<And>w. P w \<Longrightarrow> E w"
  shows "triple P (attempts n message m) Q E"
proof (induction n)
  case (Suc n)
  show ?case unfolding triple_def
  proof (intro allI impI)
    fix w assume P: "P w"
    obtain w1 r where m: "m w = (w1, r)" by fastforce
    from triple_run [OF assms(1) P m] m Suc assms(2)
    show "case attempts (Suc n) message m w of (w', Inl e) \<Rightarrow> E w' | (w', Inr x) \<Rightarrow> Q x w'"
      by (cases r) (auto simp: triple_def)
  qed
qed (use assms(2) in \<open>simp add: triple_def\<close>)

section \<open>Quiet operations\<close>

text \<open>Operations that neither touch a file nor ask a destination for anything.\<close>

definition quiet :: "('u image_world, 'a) fallible \<Rightarrow> bool" where
  "quiet m \<longleftrightarrow> (\<forall>w. iw_files (fst (m w)) = iw_files w \<and> iw_pushed (fst (m w)) = iw_pushed w)"

named_theorems quiet_rules

lemma quietD: "quiet m \<Longrightarrow> m w = (w', r) \<Longrightarrow> iw_files w' = iw_files w \<and> iw_pushed w' = iw_pushed w"
  unfolding quiet_def by (metis fst_conv)

lemma quietI: "(\<And>w w' r. m w = (w', r) \<Longrightarrow> iw_files w' = iw_files w \<and> iw_pushed w' = iw_pushed w) \<Longrightarrow> quiet m"
  unfolding quiet_def by (metis prod.collapse)

lemma quiet_bind [quiet_rules]:
  assumes "quiet m" and "\<And>x. quiet (f x)"
  shows "quiet (op_bind m f)"
proof (rule quietI)
  fix w w' r
  assume run: "op_bind m f w = (w', r)"
  obtain w1 r1 where m: "m w = (w1, r1)" by fastforce
  show "iw_files w' = iw_files w \<and> iw_pushed w' = iw_pushed w"
  proof (cases r1)
    case Inl
    with run m quietD [OF assms(1) m] show ?thesis by (simp add: op_bind_def)
  next
    case (Inr x)
    with run m have "f x w1 = (w', r)" by (simp add: op_bind_def)
    from quietD [OF assms(2) this] quietD [OF assms(1) m] show ?thesis by simp
  qed
qed

lemma quiet_read [quiet_rules]: "quiet (op_read f)"
  by (simp add: quiet_def op_read_def)

lemma quiet_tick [quiet_rules]: "quiet (at_tick f)"
  by (simp add: quiet_def at_tick_def iw_files_def)

lemma quiet_upstream [quiet_rules]: "quiet (via_upstream m)"
  by (simp add: quiet_def via_upstream_def iw_files_def split: prod.split)

lemma quiet_tables: "quiet (on_service (on_tables f))"
  by (simp add: quiet_def on_service_def on_tables_def iw_files_def split: prod.split)

lemma quiet_progress [quiet_rules]:
  "quiet (set_progress env i st cur tot)" "quiet (set_stage env i st)" "quiet (set_artifact env i p name)"
  "quiet (cancelled_check i)"
  using quiet_tables unfolding quiet_def set_progress_def set_stage_def set_artifact_def cancelled_check_def op_read_def by auto

lemma quiet_attempts [quiet_rules]: "quiet m \<Longrightarrow> quiet (attempts n message m)"
proof (induction n)
  case (Suc n)
  show ?case unfolding quiet_def
  proof
    fix w
    obtain w1 r where m: "m w = (w1, r)" by fastforce
    with Suc.prems have "iw_files w1 = iw_files w \<and> iw_pushed w1 = iw_pushed w" unfolding quiet_def by (metis fst_conv)
    with m Suc show "iw_files (fst (attempts (Suc n) message m w)) = iw_files w
        \<and> iw_pushed (fst (attempts (Suc n) message m w)) = iw_pushed w"
      by (cases r) (auto simp: quiet_def)
  qed
qed (simp add: quiet_def)

lemma quiet_node_bytes [quiet_rules]: "quiet (node_bytes env node p accept limit)"
  unfolding node_bytes_def node_bytes_once_def by (intro quiet_rules)

lemma quiet_transfer [quiet_rules]: "quiet (count_transfer env node n)"
  by (simp add: quiet_def count_transfer_def iw_files_def split: prod.split)

lemma quiet_source_node [quiet_rules]: "quiet (source_node env node_id)"
  by (simp add: quiet_def source_node_def iw_files_def split: prod.split)

lemma quiet_platform [quiet_rules]: "quiet (platform_manifest env job logical node top_digest top_manifest)"
  unfolding platform_manifest_def
  by (auto intro!: quiet_rules split: oci_manifest.split option.split)

lemma quiet_resolve: "quiet (resolve_image env job)"
  unfolding resolve_image_def resolve_image_via_node_def node_config_def pull_manifest_def source_transport_def parse_reference_def
  by (auto intro!: quiet_rules split: option.split prod.split)

section \<open>Verified Blobs\<close>

definition blob_entry :: "path \<Rightarrow> string option" where
  "blob_entry p =
     (case (case shared_entry p of None \<Rightarrow> layout_entry p | Some n \<Rightarrow> Some n) of
        None \<Rightarrow> None
      | Some n \<Rightarrow> if length n = 64 \<and> list_all is_ascii_hexdigit n then Some n else None)"

definition blobs_ok :: "'u image_env \<Rightarrow> store_files \<Rightarrow> bool" where
  "blobs_ok env fs \<longleftrightarrow> list_all (\<lambda>(p, content). case blob_entry p of None \<Rightarrow> True | Some n \<Rightarrow> digest_of env content = ''sha256:'' @ n) fs"

text \<open>
  What the code relies on: the Registry client checks the digest of a Blob that it streams to its end, and decoding UTF-8 loses
  nothing.
\<close>

definition sdk_verifies :: "'u image_env \<Rightarrow> bool" where
  "sdk_verifies env \<longleftrightarrow>
     (\<forall>t reference auth d frames. ie_direct_blob env t reference auth d = Inr frames \<longrightarrow> list_all is_ok frames \<longrightarrow>
        digest_of env (concat (map projr frames)) = od_digest d)"

definition utf8_faithful :: "'u image_env \<Rightarrow> bool" where
  "utf8_faithful env \<longleftrightarrow> (\<forall>bs s. ie_utf8 env bs = Some s \<longrightarrow> as_bytes s = bs)"

definition valid_name :: "string \<Rightarrow> bool" where
  "valid_name n \<longleftrightarrow> length n = 64 \<and> list_all is_ascii_hexdigit n"

lemma shared_blob_name_Some: "shared_blob_name digest = Some n \<longleftrightarrow> digest = ''sha256:'' @ n \<and> valid_name n"
proof -
  have "shared_blob_name digest = Some n \<longleftrightarrow> strip_prefix ''sha256:'' digest = Some n \<and> valid_name n"
    by (auto simp: shared_blob_name_def valid_name_def split: option.split if_split_asm)
  then show ?thesis unfolding strip_prefix_eq_Some .
qed

lemma blob_entry_paths [simp]:
  "blob_entry [''blobs'', ''sha256'', n] = (if valid_name n then Some n else None)"
  "blob_entry (job_root ut i @ [''layout'', ''blobs'', ''sha256'', n]) = (if valid_name n then Some n else None)"
  by (simp_all add: blob_entry_def valid_name_def shared_entry_def layout_entry_def is_layout_blob_def job_root_def)

lemma blob_entry_shared:
  "shared_blob_path digest = Inr p \<longleftrightarrow> (\<exists>n. (digest = ''sha256:'' @ n \<and> valid_name n) \<and> p = [''blobs'', ''sha256'', n])"
  unfolding shared_blob_path_def shared_blob_name_Some [symmetric] by (auto split: option.split)

lemma blob_entry_layout:
  "blob_path (job_root ut i @ [''layout'']) digest = Inr p \<longleftrightarrow>
     (\<exists>n. (digest = ''sha256:'' @ n \<and> valid_name n) \<and> p = job_root ut i @ [''layout'', ''blobs'', ''sha256'', n])"
  unfolding blob_path_def shared_blob_name_Some [symmetric] by (auto split: option.split)

lemma blob_entry_partial: "begin_blob_write ut i digest = Inr g \<Longrightarrow> blob_entry (bg_temporary g) = None"
  by (auto simp: begin_blob_write_def blob_entry_def shared_entry_def layout_entry_def split: sum.splits)

lemma blobs_ok_iff:
  "blobs_ok env fs \<longleftrightarrow> (\<forall>p c n. (p, c) \<in> set fs \<longrightarrow> blob_entry p = Some n \<longrightarrow> digest_of env c = ''sha256:'' @ n)"
  by (fastforce simp: blobs_ok_def list_all_iff split: option.splits)

lemma blobs_ok_subset: "blobs_ok env fs \<Longrightarrow> set fs' \<subseteq> set fs \<Longrightarrow> blobs_ok env fs'"
  by (auto simp: blobs_ok_iff)

lemma blobs_ok_put:
  "blobs_ok env fs \<Longrightarrow> (\<And>n. blob_entry p = Some n \<Longrightarrow> digest_of env c = ''sha256:'' @ n) \<Longrightarrow> blobs_ok env (put_file p c fs)"
  by (auto simp: blobs_ok_iff put_file_def)

lemma blobs_ok_drop: "blobs_ok env fs \<Longrightarrow> blobs_ok env (drop_file p fs)"
  by (rule blobs_ok_subset) (auto simp: drop_file_def)

lemma has_file_put [simp]: "has_file p (put_file q c fs) \<longleftrightarrow> p = q \<or> has_file p fs"
  by (force simp: has_file_def put_file_def)

lemma has_file_drop [simp]: "has_file p (drop_file q fs) \<longleftrightarrow> p \<noteq> q \<and> has_file p fs"
  by (force simp: has_file_def drop_file_def)

lemma map_of_put [simp]: "map_of (put_file p c fs) q = (if q = p then Some c else map_of fs q)"
proof -
  have "map_of (filter (\<lambda>f. fst f \<noteq> p) fs) q = (if q = p then None else map_of fs q)" by (induction fs) auto
  then show ?thesis by (auto simp: put_file_def map_add_def split: option.split)
qed

lemma has_file_map_of: "has_file p fs \<Longrightarrow> \<exists>c. map_of fs p = Some c"
  by (induction fs) (auto simp: has_file_def)

section \<open>Steps on files\<close>

definition set_files :: "store_files \<Rightarrow> 'u image_world \<Rightarrow> 'u image_world" where
  "set_files fs w = w\<lparr>iw_service := (iw_service w)\<lparr>im_files := fs\<rparr>\<rparr>"

lemma set_files_simps [simp]: "iw_files (set_files fs w) = fs" "iw_pushed (set_files fs w) = iw_pushed w"
  by (simp_all add: set_files_def iw_files_def)

lemma on_files_eq: "on_files f w = (set_files (fst (f (iw_files w))) w, snd (f (iw_files w)))"
  by (simp add: on_files_def on_service_def iw_files_def set_files_def split: prod.split)

lemma triple_files:
  assumes "\<And>w fs' r. P w \<Longrightarrow> f (iw_files w) = (fs', r) \<Longrightarrow>
    (case r of Inl e \<Rightarrow> E (set_files fs' w) | Inr x \<Rightarrow> Q x (set_files fs' w))"
  shows "triple P (on_files f) Q E"
  unfolding triple_def on_files_eq
proof (intro allI impI)
  fix w assume "P w"
  from assms [OF this prod.collapse [symmetric]]
  show "case (set_files (fst (f (iw_files w))) w, snd (f (iw_files w))) of (w', Inl e) \<Rightarrow> E w' | (w', Inr x) \<Rightarrow> Q x w'"
    by (simp split: sum.splits)
qed

definition holding :: "(store_files \<Rightarrow> (push_event \<times> bool) list \<Rightarrow> bool) \<Rightarrow> 'u image_world \<Rightarrow> bool" where
  "holding A w = A (iw_files w) (iw_pushed w)"

lemma holding_set_files [simp]: "holding A (set_files fs w) = A fs (iw_pushed w)"
  by (simp add: holding_def)

lemma quiet_keeps:
  assumes "quiet m" and "\<And>w. P w \<Longrightarrow> E w"
    and "\<And>w w'. iw_files w' = iw_files w \<Longrightarrow> iw_pushed w' = iw_pushed w \<Longrightarrow> P w \<Longrightarrow> P w'"
  shows "triple P m (\<lambda>_. P) E"
  unfolding triple_def using quietD [OF assms(1)] assms(2,3) by (fastforce split: prod.split sum.split)

lemma quiet_triple: "quiet m \<Longrightarrow> (\<And>w. holding A w \<Longrightarrow> E w) \<Longrightarrow> triple (holding A) m (\<lambda>_. holding A) E"
  using quietD [of m] by (auto simp: triple_def holding_def split: prod.split sum.split)

text \<open>An assertion on states that dropping a file keeps, unless the file is a Blob.\<close>

definition drop_stable :: "('u image_world \<Rightarrow> bool) \<Rightarrow> bool" where
  "drop_stable Q \<longleftrightarrow> (\<forall>w p. blob_entry p = None \<longrightarrow> Q w \<longrightarrow> Q (set_files (drop_file p (iw_files w)) w))"

lemma triple_guard:
  assumes body: "\<And>g. begin_blob_write (ie_uuid_text env) i digest = Inr g \<Longrightarrow> triple P (body g) Q E"
    and stable: "\<And>x. drop_stable (Q x)" "drop_stable E" and PE: "\<And>w. P w \<Longrightarrow> E w"
  shows "triple P (with_guard env i digest body) Q E"
  unfolding triple_def
proof (intro allI impI)
  fix w assume P: "P w"
  show "case with_guard env i digest body w of (w', Inl e) \<Rightarrow> E w' | (w', Inr x) \<Rightarrow> Q x w'"
  proof (cases "begin_blob_write (ie_uuid_text env) i digest")
    case (Inl e)
    with P PE show ?thesis by (simp add: with_guard_def op_bind_def op_read_def)
  next
    case (Inr g)
    obtain w1 r where b: "body g w = (w1, r)" by fastforce
    from triple_run [OF body [OF Inr] P b] stable blob_entry_partial [OF Inr] b Inr show ?thesis
      by (auto simp: with_guard_def op_bind_def op_read_def on_files_eq drop_guard_def drop_stable_def split: sum.splits)
  qed
qed

section \<open>An assertion that verified writes keep\<close>

definition blob_at :: "'u image_env \<Rightarrow> path \<Rightarrow> string \<Rightarrow> 'u image_world \<Rightarrow> bool" where
  "blob_at env p digest w \<longleftrightarrow> (\<exists>c. map_of (iw_files w) p = Some c \<and> digest_of env c = digest)"

lemma receive_blob_Inr:
  "receive_blob expected n content err frames = (c, Inr k) \<Longrightarrow> list_all is_ok frames \<and> c = content @ concat (map projr frames)"
  by (induction expected n content err frames rule: receive_blob.induct) (auto simp: Let_def result_defs split: if_splits)

locale verified_store =
  fixes env :: "'u image_env" and A :: "store_files \<Rightarrow> (push_event \<times> bool) list \<Rightarrow> bool"
  assumes put_free: "blob_entry p = None \<Longrightarrow> A fs l \<Longrightarrow> A (put_file p c fs) l"
    and drop_free: "blob_entry p = None \<Longrightarrow> A fs l \<Longrightarrow> A (drop_file p fs) l"
    and put_verified: "blob_entry p = Some n \<Longrightarrow> digest_of env c = ''sha256:'' @ n \<Longrightarrow> A fs l \<Longrightarrow> A (put_file p c fs) l"
    and verified: "A fs l \<Longrightarrow> blobs_ok env fs"
begin

lemma stable: "drop_stable (holding A)"
  using drop_free by (simp add: drop_stable_def holding_def)

lemma pull_blob_step:
  assumes "sdk_verifies env" and "blob_entry p = None"
  shows "triple (holding A) (pull_blob env reference auth d p) (\<lambda>_ w. holding A w \<and> blob_at env p (od_digest d) w) (holding A)"
proof -
  have "digest_of env c = od_digest d" if "read_blob env reference auth d t = (c, Inr u)" for t c u
    using that assms(1) receive_blob_Inr [where content = "[]"]
    by (fastforce simp: read_blob_def sdk_verifies_def split: if_splits sum.splits prod.splits)
  then show ?thesis
    using put_free [OF assms(2)]
    by (auto simp: triple_def pull_blob_def on_files_eq holding_def blob_at_def iw_files_def set_files_def split: prod.split sum.split)
qed

lemma download_once_step:
  assumes "blob_entry p = None"
  shows "triple (holding A) (download_node_blob_once env node repository d p)
    (\<lambda>_ w. holding A w \<and> blob_at env p (od_digest d) w) (holding A)"
proof -
  have put: "triple (holding A) (on_files (\<lambda>fs. (put_file p content fs, received)))
      (\<lambda>_ w. holding A w \<and> map_of (iw_files w) p = Some content) (holding A)" for content received
    using put_free [OF assms] by (intro triple_files) (auto simp: holding_def split: sum.splits)
  have count: "triple (\<lambda>w. holding A w \<and> map_of (iw_files w) p = Some content) (count_transfer env node n)
      (\<lambda>_ w. holding A w \<and> map_of (iw_files w) p = Some content) (holding A)" for content n
    by (rule quiet_keeps [OF quiet_transfer]) (auto simp: holding_def)
  have body: "triple (holding A)
      (case receive_blob (blob_size d) 0 [] Upstream (re_body r) of (content, received) \<Rightarrow>
         op_bind (on_files (\<lambda>fs. (put_file p content fs, received))) (\<lambda>n.
           if n \<noteq> blob_size d \<or> digest_of env content \<noteq> od_digest d then op_read (\<lambda>_. Inl Integrity)
           else count_transfer env node n))
      (\<lambda>_ w. holding A w \<and> blob_at env p (od_digest d) w) (holding A)" for r
    by (simp split: prod.split, intro allI impI triple_bind [OF put] triple_branch)
      (auto intro!: triple_read triple_conseq [OF count] simp: blob_at_def)
  show ?thesis unfolding download_node_blob_once_def
    by (rule triple_bind [OF quiet_triple [OF quiet_tick]], simp, rule triple_bind [OF quiet_triple [OF quiet_upstream]], simp,
        rule triple_branch, rule triple_read, simp, rule body)
qed

lemma pull_source_step:
  assumes "sdk_verifies env" and "blob_entry p = None"
  shows "triple (holding A) (pull_source_blob env source job d p)
    (\<lambda>_ w. holding A w \<and> blob_at env p (od_digest d) w) (holding A)"
proof (cases source)
  case (Via_Node node)
  show ?thesis unfolding pull_source_blob_def Via_Node image_source.case parse_reference_def download_node_blob_def
    by (rule triple_bind [OF quiet_triple [OF quiet_read]]) (auto intro!: triple_attempts download_once_step assms)
qed (simp add: pull_source_blob_def pull_blob_step assms)

end

text \<open>All Blobs are verified, the Blobs at the paths \<open>ps\<close> are there, and the requests to a destination satisfy \<open>L\<close>.\<close>

definition store_holds ::
  "'u image_env \<Rightarrow> path set \<Rightarrow> ((push_event \<times> bool) list \<Rightarrow> bool) \<Rightarrow> store_files \<Rightarrow> (push_event \<times> bool) list \<Rightarrow> bool" where
  "store_holds env ps L fs l \<longleftrightarrow> blobs_ok env fs \<and> (\<forall>p \<in> ps. blob_entry p \<noteq> None \<and> has_file p fs) \<and> L l"

interpretation image_blobs: verified_store env "store_holds env ps L" for env ps L
proof
  fix p fs l c n
  show "blob_entry p = None \<Longrightarrow> store_holds env ps L fs l \<Longrightarrow> store_holds env ps L (put_file p c fs) l"
    by (auto simp: store_holds_def intro: blobs_ok_put)
  show "blob_entry p = None \<Longrightarrow> store_holds env ps L fs l \<Longrightarrow> store_holds env ps L (drop_file p fs) l"
    by (auto simp: store_holds_def intro: blobs_ok_drop)
  show "blob_entry p = Some n \<Longrightarrow> digest_of env c = ''sha256:'' @ n \<Longrightarrow> store_holds env ps L fs l
      \<Longrightarrow> store_holds env ps L (put_file p c fs) l"
    by (auto simp: store_holds_def intro: blobs_ok_put)
  show "store_holds env ps L fs l \<Longrightarrow> blobs_ok env fs" by (simp add: store_holds_def)
qed

lemma store_holds_fewer: "holding (store_holds env ps L) w \<Longrightarrow> holding (store_holds env {} L) w"
  by (simp add: holding_def store_holds_def)

lemma store_holds_more:
  "holding (store_holds env ps L) w \<Longrightarrow> blob_entry p \<noteq> None \<Longrightarrow> has_file p (iw_files w) \<Longrightarrow> holding (store_holds env (insert p ps) L) w"
  by (simp add: holding_def store_holds_def)

section \<open>Layouts\<close>

lemma commit_step:
  assumes g: "begin_blob_write ut i digest = Inr g" and shared: "shared_blob_path digest = Inr p"
  shows "triple (\<lambda>w. holding (store_holds env ps L) w \<and> blob_at env (bg_temporary g) digest w) (on_files (commit_blob g))
    (\<lambda>_ w. holding (store_holds env ps L) w \<and> has_file p (iw_files w)) (holding (store_holds env ps L))"
proof (rule triple_files)
  fix w fs' r
  assume pre: "holding (store_holds env ps L) w \<and> blob_at env (bg_temporary g) digest w" and run: "commit_blob g (iw_files w) = (fs', r)"
  from shared obtain n where n: "digest = ''sha256:'' @ n" "valid_name n" "p = [''blobs'', ''sha256'', n]" by (auto simp: blob_entry_shared)
  have dest: "bg_destination g = p" using g shared by (auto simp: begin_blob_write_def)
  have free: "blob_entry (bg_temporary g) = None" by (rule blob_entry_partial [OF g])
  from pre have A: "store_holds env ps L (iw_files w) (iw_pushed w)" by (simp add: holding_def)
  have D: "store_holds env ps L (drop_guard g (iw_files w)) (iw_pushed w)"
    unfolding drop_guard_def by (rule image_blobs.drop_free [OF free A])
  have entry: "blob_entry p = Some n" using n by simp
  with free have "p \<noteq> bg_temporary g" by auto
  moreover have "store_holds env ps L (put_file p c (drop_guard g (iw_files w))) (iw_pushed w)" if "digest_of env c = digest" for c
    using that n image_blobs.put_verified [OF entry _ D] by simp
  ultimately show "case r of Inl e \<Rightarrow> holding (store_holds env ps L) (set_files fs' w)
      | Inr x \<Rightarrow> holding (store_holds env ps L) (set_files fs' w) \<and> has_file p (iw_files (set_files fs' w))"
    using pre run D dest by (auto simp: commit_blob_def blob_at_def drop_guard_def split: if_splits option.splits)
qed

lemma link_step:
  assumes shared: "shared_blob_path digest = Inr s" and layout: "blob_path (job_root ut i @ [''layout'']) digest = Inr p"
  shows "triple (\<lambda>w. holding (store_holds env ps L) w \<and> has_file s (iw_files w)) (on_files (link_or_copy s p))
    (\<lambda>_. holding (store_holds env (insert p ps) L)) (holding (store_holds env {} L))"
proof (rule triple_files)
  fix w fs' r
  assume pre: "holding (store_holds env ps L) w \<and> has_file s (iw_files w)" and run: "link_or_copy s p (iw_files w) = (fs', r)"
  from shared layout obtain n where n: "valid_name n" "s = [''blobs'', ''sha256'', n]"
      "p = job_root ut i @ [''layout'', ''blobs'', ''sha256'', n]" by (auto simp: blob_entry_shared blob_entry_layout)
  then have entries: "blob_entry s = Some n" "blob_entry p = Some n" by simp_all
  from pre have A: "store_holds env ps L (iw_files w) (iw_pushed w)" by (simp add: holding_def)
  have ok: "digest_of env c = ''sha256:'' @ n" if "map_of (iw_files w) s = Some c" for c
    using image_blobs.verified [OF A] map_of_SomeD [OF that] entries by (auto simp: blobs_ok_iff)
  from pre have "map_of (iw_files w) s \<noteq> None" by (auto dest: has_file_map_of)
  with run A image_blobs.put_verified [OF entries(2) ok A] entries(2)
  show "case r of Inl e \<Rightarrow> holding (store_holds env {} L) (set_files fs' w) | Inr x \<Rightarrow> holding (store_holds env (insert p ps) L) (set_files fs' w)"
    by (auto simp: link_or_copy_def store_holds_def split: if_splits option.splits)
qed

text \<open>A layer is in the shared store afterwards, whether it was there or had to be pulled.\<close>

lemma share_step:
  assumes "sdk_verifies env" and shared: "shared_blob_path (od_digest layer) = Inr s"
  shows "triple (holding (store_holds env ps L))
    (\<lambda>w. if has_file s (iw_files w) then (w, Inr ())
         else with_guard env (ij_id job) (od_digest layer) (\<lambda>guard.
           op_bind (pull_source_blob env source job layer (bg_temporary guard)) (\<lambda>_.
           op_bind (on_files (commit_blob guard)) (\<lambda>_. op_read (\<lambda>_. Inr ())))) w)
    (\<lambda>_ w. holding (store_holds env ps L) w \<and> has_file s (iw_files w)) (holding (store_holds env ps L))"
proof (rule triple_if)
  let ?A = "holding (store_holds env ps L)"
  have s: "blob_entry s \<noteq> None" using shared by (auto simp: blob_entry_shared)
  have "triple ?A (with_guard env (ij_id job) (od_digest layer) (\<lambda>guard.
           op_bind (pull_source_blob env source job layer (bg_temporary guard)) (\<lambda>_.
           op_bind (on_files (commit_blob guard)) (\<lambda>_. op_read (\<lambda>_. Inr ())))))
    (\<lambda>_ w. ?A w \<and> has_file s (iw_files w)) ?A"
  proof (rule triple_guard)
    fix g assume g: "begin_blob_write (ie_uuid_text env) (ij_id job) (od_digest layer) = Inr g"
    show "triple ?A (op_bind (pull_source_blob env source job layer (bg_temporary g)) (\<lambda>_.
           op_bind (on_files (commit_blob g)) (\<lambda>_. op_read (\<lambda>_. Inr ())))) (\<lambda>_ w. ?A w \<and> has_file s (iw_files w)) ?A"
      by (rule triple_bind [OF image_blobs.pull_source_step [OF assms(1) blob_entry_partial [OF g]]],
          rule triple_bind [OF commit_step [OF g shared]]) (rule triple_read, simp)
  next
    show "drop_stable (\<lambda>w. ?A w \<and> has_file s (iw_files w))"
      using image_blobs.stable [of env ps L] s by (auto simp: drop_stable_def)
  qed (use image_blobs.stable in simp_all)
  then show "triple (\<lambda>w. ?A w \<and> \<not> has_file s (iw_files w)) (with_guard env (ij_id job) (od_digest layer) (\<lambda>guard.
           op_bind (pull_source_blob env source job layer (bg_temporary guard)) (\<lambda>_.
           op_bind (on_files (commit_blob guard)) (\<lambda>_. op_read (\<lambda>_. Inr ())))))
    (\<lambda>_ w. ?A w \<and> has_file s (iw_files w)) ?A" by (rule triple_conseq) simp_all
qed (simp add: triple_def)

lemma triple_result:
  assumes "\<And>x. r = Inr x \<Longrightarrow> triple P (f x) Q E" and "\<And>w. P w \<Longrightarrow> E w"
  shows "triple P (op_bind (op_read (\<lambda>_. r)) f) Q E"
  using assms by (cases r) (auto simp: triple_def op_bind_def op_read_def)

lemma triple_error:
  assumes "triple P m Q E'" and "\<And>w. E' w \<Longrightarrow> E w"
  shows "triple P m Q E"
  by (rule triple_conseq [OF assms(1)]) (simp_all add: assms(2))

lemma fetch_layers_step:
  assumes sdk: "sdk_verifies env"
  shows "triple (holding (store_holds env ps L)) (fetch_layers env job source (job_root ut i @ [''layout'']) tot layers downloaded paths)
    (\<lambda>r w. \<exists>qs. r = paths @ qs \<and> list_all2 (\<lambda>d p. blob_path (job_root ut i @ [''layout'']) (od_digest d) = Inr p) layers qs
       \<and> holding (store_holds env (ps \<union> set qs) L) w)
    (holding (store_holds env {} L))"
proof (induction layers arbitrary: ps downloaded paths)
  case Nil
  show ?case unfolding fetch_layers.simps by (rule triple_read) simp
next
  case (Cons layer layers)
  show ?case unfolding fetch_layers.simps Let_def
  proof (rule triple_bind [OF quiet_triple [OF quiet_progress(4) store_holds_fewer]], assumption,
      rule triple_result [OF triple_result], goal_cases)
    case (1 _ p s)
    note paths = 1
    have rest: "triple (holding (store_holds env (insert p ps) L))
        (fetch_layers env job source (job_root ut i @ [''layout'']) tot layers n (paths @ [p]))
        (\<lambda>r w. \<exists>qs. r = paths @ qs \<and> list_all2 (\<lambda>d p. blob_path (job_root ut i @ [''layout'']) (od_digest d) = Inr p) (layer # layers) qs
           \<and> holding (store_holds env (ps \<union> set qs) L) w) (holding (store_holds env {} L))" for n
    proof (rule triple_conseq [OF Cons])
      fix r w
      assume "\<exists>qs. r = (paths @ [p]) @ qs \<and> list_all2 (\<lambda>d p. blob_path (job_root ut i @ [''layout'']) (od_digest d) = Inr p) layers qs
          \<and> holding (store_holds env (insert p ps \<union> set qs) L) w"
      then obtain qs where "r = paths @ p # qs" "list_all2 (\<lambda>d p. blob_path (job_root ut i @ [''layout'']) (od_digest d) = Inr p) layers qs"
        "holding (store_holds env (insert p ps \<union> set qs) L) w" by auto
      with paths show "\<exists>qs. r = paths @ qs \<and> list_all2 (\<lambda>d p. blob_path (job_root ut i @ [''layout'']) (od_digest d) = Inr p) (layer # layers) qs
          \<and> holding (store_holds env (ps \<union> set qs) L) w" by (intro exI [of _ "p # qs"]) simp
    qed
    show ?case
      by (rule triple_bind [OF triple_error [OF share_step [OF sdk paths(2)] store_holds_fewer]], assumption,
          rule triple_bind [OF link_step [OF paths(2,1)]],
          rule triple_bind [OF quiet_triple [OF quiet_progress(1) store_holds_fewer]], assumption, rule rest)
  qed (auto intro: store_holds_fewer)
qed

lemma temporary_free:
  "blob_entry (with_extension (job_root ut i @ [''layout'', ''blobs'', ''sha256'', n]) ''partial'') = None"
  "blob_entry (with_extension (job_root ut i @ [''layout'', ''index.json'']) ''partial'') = None"
  "blob_entry (with_extension (job_root ut i @ [''layout'', ''oci-layout'']) ''partial'') = None"
  by (simp_all add: with_extension_def blob_entry_def shared_entry_def layout_entry_def job_root_def
      is_ascii_hexdigit_def is_ascii_digit_def)

lemma map_of_drop [simp]: "map_of (drop_file p fs) q = (if q = p then None else map_of fs q)"
  by (induction fs) (auto simp: drop_file_def)

lemma set_files_twice [simp]: "set_files fs (set_files fs' w) = set_files fs w"
  by (simp add: set_files_def)

lemma map_of_atomic_write [simp]:
  "map_of (atomic_write p c fs) q = (if q = p then Some c else if q = with_extension p ''partial'' then None else map_of fs q)"
  by (simp add: atomic_write_def Let_def)

lemma atomic_write_holds:
  assumes "blob_entry (with_extension p ''partial'') = None"
    and "\<And>n. blob_entry p = Some n \<Longrightarrow> digest_of env c = ''sha256:'' @ n" and "store_holds env ps L fs l"
  shows "store_holds env ps L (atomic_write p c fs) l"
proof -
  have "store_holds env ps L (drop_file (with_extension p ''partial'') (put_file (with_extension p ''partial'') c fs)) l"
    by (intro image_blobs.drop_free image_blobs.put_free assms)
  then show ?thesis unfolding atomic_write_def Let_def
    using assms(2) by (cases "blob_entry p") (auto intro: image_blobs.put_free image_blobs.put_verified)
qed

definition index_written :: "'u image_env \<Rightarrow> path \<Rightarrow> oci_image_manifest \<Rightarrow> store_files \<Rightarrow> bool" where
  "index_written env layout manifest fs =
     (let bs = ie_manifest_bytes env manifest; digest = digest_of env bs in
      (case blob_path layout digest of Inl _ \<Rightarrow> False | Inr p \<Rightarrow> map_of fs p = Some bs)
      \<and> map_of fs (layout @ [''index.json'']) =
          Some (ie_index_bytes env (unwrap_or ''application/vnd.oci.image.manifest.v1+json'' (om_media_type manifest)) digest (length bs))
      \<and> map_of fs (layout @ [''oci-layout'']) = Some (as_bytes ''{\"imageLayoutVersion\":\"1.0.0\"}''))"

lemma write_layout_step:
  "triple (holding (store_holds env ps L)) (on_files (write_layout env (job_root ut i @ [''layout'']) manifest))
    (\<lambda>_ w. holding (store_holds env ps L) w \<and> index_written env (job_root ut i @ [''layout'']) manifest (iw_files w))
    (holding (store_holds env ps L))"
proof (rule triple_files)
  fix w fs' r
  let ?layout = "job_root ut i @ [''layout'']" and ?bs = "ie_manifest_bytes env manifest"
  let ?A = "store_holds env ps L"
  assume pre: "holding ?A w" and run: "write_layout env ?layout manifest (iw_files w) = (fs', r)"
  show "case r of Inl e \<Rightarrow> holding ?A (set_files fs' w)
    | Inr x \<Rightarrow> holding ?A (set_files fs' w) \<and> index_written env ?layout manifest (iw_files (set_files fs' w))"
  proof (cases "blob_path ?layout (digest_of env ?bs)")
    case (Inl e)
    with run pre show ?thesis by (auto simp: write_layout_def Let_def holding_def)
  next
    case (Inr p)
    then obtain n where n: "digest_of env ?bs = ''sha256:'' @ n" "valid_name n" "p = job_root ut i @ [''layout'', ''blobs'', ''sha256'', n]"
      unfolding blob_entry_layout by blast
    have entry: "blob_entry p = Some n" using n by simp
    have free: "blob_entry (job_root ut i @ [''layout'', ''index.json'']) = None" "blob_entry (job_root ut i @ [''layout'', ''oci-layout'']) = None"
      by (simp_all add: blob_entry_def shared_entry_def layout_entry_def job_root_def)
    from run Inr obtain index where fs': "fs' = atomic_write (job_root ut i @ [''layout'', ''oci-layout'']) (as_bytes ''{\"imageLayoutVersion\":\"1.0.0\"}'')
          (atomic_write (job_root ut i @ [''layout'', ''index.json'']) index (atomic_write p ?bs (iw_files w)))" and r: "r = Inr ()"
      and index: "index = ie_index_bytes env (unwrap_or ''application/vnd.oci.image.manifest.v1+json'' (om_media_type manifest))
          (digest_of env ?bs) (length ?bs)"
      by (auto simp: write_layout_def Let_def)
    have A: "?A fs' (iw_pushed w)" unfolding fs'
      using pre entry n free temporary_free [of ut i] by (intro atomic_write_holds) (auto simp: holding_def)
    have "index_written env ?layout manifest fs'"
      using n unfolding index_written_def Let_def Inr sum.case fs' index
      by (simp add: with_extension_def file_stem_def job_root_def)
    with A r show ?thesis by simp
  qed
qed

lemma write_config_step:
  fixes env :: "'u image_env"
  assumes content: "digest_of env content = digest" and shared: "shared_blob_path digest = Inr s"
  shows "triple (holding (store_holds env ps L) :: 'u image_world \<Rightarrow> bool) (on_files (write_blob_bytes ut i digest content))
    (\<lambda>_ w. holding (store_holds env ps L) w \<and> has_file s (iw_files w)) (holding (store_holds env ps L))"
proof (rule triple_files)
  fix w :: "'u image_world" and fs' r
  let ?A = "store_holds env ps L"
  assume pre: "holding ?A w" and run: "write_blob_bytes ut i digest content (iw_files w) = (fs', r)"
  obtain g where g: "begin_blob_write ut i digest = Inr g" using shared by (auto simp: begin_blob_write_def)
  let ?w = "set_files (put_file (bg_temporary g) content (iw_files w)) w"
  have "holding ?A ?w \<and> blob_at env (bg_temporary g) digest ?w"
    using pre content image_blobs.put_free [OF blob_entry_partial [OF g]] by (simp add: holding_def blob_at_def)
  moreover have "on_files (commit_blob g) ?w = (set_files fs' w, r)"
    using run g by (simp add: on_files_eq write_blob_bytes_def)
  ultimately show "case r of Inl e \<Rightarrow> holding ?A (set_files fs' w)
      | Inr x \<Rightarrow> holding ?A (set_files fs' w) \<and> has_file s (iw_files (set_files fs' w))"
    by (rule triple_run [OF commit_step [OF g shared]])
qed

section \<open>Resolved images\<close>

definition resolved_ok :: "'u image_env \<Rightarrow> resolved_image \<Rightarrow> bool" where
  "resolved_ok env resolved \<longleftrightarrow>
     digest_of env (as_bytes (pm_config_json (ri_pulled resolved))) = od_digest (om_config (pm_manifest (ri_pulled resolved)))"

lemma verified_digest_Inr: "verified_digest env bs h (Some d) = Inr x \<Longrightarrow> digest_of env bs = d"
  by (auto simp: verified_digest_def Let_def split: if_splits)

lemma op_bind_Inr:
  assumes "op_bind m f w = (w', Inr y)"
  obtains w1 x where "m w = (w1, Inr x)" and "f x w1 = (w', Inr y)"
  using assms by (auto simp: op_bind_def split: prod.splits sum.splits)

lemma node_config_Inr:
  "utf8_faithful env \<Longrightarrow> node_config env logical node d w = (w', Inr s) \<Longrightarrow> digest_of env (as_bytes s) = od_digest d"
  by (auto elim!: op_bind_Inr simp: node_config_def op_read_def utf8_faithful_def ok_or_def
      split: if_splits option.splits dest: verified_digest_Inr)

lemma pull_manifest_Inr:
  assumes "sdk_verifies env" and "utf8_faithful env" and "pull_manifest env reference auth os arch w = (w', Inr pulled)"
  shows "digest_of env (as_bytes (pm_config_json pulled)) = od_digest (om_config (pm_manifest pulled))"
proof -
  have "digest_of env c = od_digest d" if "read_blob env reference auth d t = (c, Inr u)" for d t c u
    using that assms(1) receive_blob_Inr [where content = "[]"]
    by (fastforce simp: read_blob_def sdk_verifies_def split: if_splits sum.splits prod.splits)
  with assms(2,3) show ?thesis
    by (auto elim!: op_bind_Inr simp: pull_manifest_def op_read_def at_tick_def utf8_faithful_def ok_or_def
        split: if_splits option.splits sum.splits prod.splits)
qed

lemma resolve_image_ok:
  assumes "sdk_verifies env" and "utf8_faithful env" and "resolve_image env job w = (w', Inr resolved)"
  shows "resolved_ok env resolved"
proof (cases "ij_source_node_id job")
  case None
  with assms(3) show ?thesis
    by (auto elim!: op_bind_Inr simp: resolve_image_def op_read_def resolved_ok_def parse_reference_def
        dest!: pull_manifest_Inr [OF assms(1,2)])
next
  case (Some node_id)
  with assms(3) show ?thesis
    by (auto elim!: op_bind_Inr simp: resolve_image_def resolve_image_via_node_def op_read_def resolved_ok_def parse_reference_def
        dest!: node_config_Inr [OF assms(2)])
qed

definition layout_complete :: "'u image_env \<Rightarrow> path \<Rightarrow> oci_image_manifest \<Rightarrow> store_files \<Rightarrow> bool" where
  "layout_complete env layout manifest fs \<longleftrightarrow>
     index_written env layout manifest fs
     \<and> list_all (\<lambda>d. case blob_path layout (od_digest d) of
          Inl _ \<Rightarrow> False
        | Inr p \<Rightarrow> (case map_of fs p of None \<Rightarrow> False | Some c \<Rightarrow> digest_of env c = od_digest d)) (om_config manifest # om_layers manifest)"

lemma store_holds_blob:
  assumes "store_holds env ps L fs l" and "p \<in> ps" and "blob_path (job_root ut i @ [''layout'']) digest = Inr p"
  shows "case map_of fs p of None \<Rightarrow> False | Some c \<Rightarrow> digest_of env c = digest"
proof -
  from assms(3) obtain n where n: "digest = ''sha256:'' @ n" and "valid_name n" "p = job_root ut i @ [''layout'', ''blobs'', ''sha256'', n]"
    by (auto simp: blob_entry_layout)
  then have entry: "blob_entry p = Some n" by simp
  from assms(1,2) obtain c where c: "map_of fs p = Some c" by (auto simp: store_holds_def dest!: has_file_map_of bspec)
  with image_blobs.verified [OF assms(1)] entry map_of_SomeD [OF c] n show ?thesis by (auto simp: blobs_ok_iff)
qed

lemma config_step:
  fixes env :: "'u image_env"
  assumes content: "digest_of env content = digest" and s: "shared_blob_path digest = Inr s"
  shows "triple (holding (store_holds env ps L) :: 'u image_world \<Rightarrow> bool)
    (\<lambda>w. if has_file s (iw_files w) then (w, Inr ())
         else op_bind (on_files (write_blob_bytes ut i digest content)) (\<lambda>_. op_read (\<lambda>_. Inr ())) w)
    (\<lambda>_ w. holding (store_holds env ps L) w \<and> has_file s (iw_files w)) (holding (store_holds env ps L))"
proof (rule triple_if)
  let ?A = "holding (store_holds env ps L) :: 'u image_world \<Rightarrow> bool"
  have "triple ?A (op_bind (on_files (write_blob_bytes ut i digest content)) (\<lambda>_. op_read (\<lambda>_. Inr ())))
      (\<lambda>_ w. ?A w \<and> has_file s (iw_files w)) ?A"
    by (rule triple_bind [OF write_config_step [OF assms]]) (auto intro: triple_read)
  then show "triple (\<lambda>w. ?A w \<and> \<not> has_file s (iw_files w)) (op_bind (on_files (write_blob_bytes ut i digest content)) (\<lambda>_. op_read (\<lambda>_. Inr ())))
      (\<lambda>_ w. ?A w \<and> has_file s (iw_files w)) ?A" by (rule triple_conseq) simp_all
qed (simp add: triple_def)

lemma layout_completeI:
  assumes p: "blob_path (job_root ut i @ [''layout'']) (od_digest (om_config manifest)) = Inr p"
    and paths: "list_all2 (\<lambda>d p. blob_path (job_root ut i @ [''layout'']) (od_digest d) = Inr p) (om_layers manifest) paths"
    and A: "store_holds env ({p} \<union> set paths) L fs l" and index: "index_written env (job_root ut i @ [''layout'']) manifest fs"
  shows "layout_complete env (job_root ut i @ [''layout'']) manifest fs
    \<and> map Inr paths = map (\<lambda>d. blob_path (job_root ut i @ [''layout'']) (od_digest d)) (om_layers manifest)"
proof
  let ?layout = "job_root ut i @ [''layout'']"
  have blob: "case blob_path ?layout (od_digest d) of Inl _ \<Rightarrow> False
      | Inr p \<Rightarrow> (case map_of fs p of None \<Rightarrow> False | Some c \<Rightarrow> digest_of env c = od_digest d)"
    if "blob_path ?layout (od_digest d) = Inr q" "q \<in> {p} \<union> set paths" for d q
    using store_holds_blob [OF A that(2,1)] that(1) by simp
  have "\<exists>q \<in> set paths. blob_path ?layout (od_digest d) = Inr q" if "d \<in> set (om_layers manifest)" for d
    using paths that by (auto simp: list_all2_conv_all_nth in_set_conv_nth)
  with blob p index show "layout_complete env ?layout manifest fs" by (fastforce simp: layout_complete_def list_all_iff)
  show "map Inr paths = map (\<lambda>d. blob_path ?layout (od_digest d)) (om_layers manifest)"
    using paths by (intro nth_equalityI) (auto simp: list_all2_conv_all_nth)
qed

text \<open>What \<open>prepare_resolved_image\<close> promises of its result.\<close>

definition prepared_ok :: "'u image_env \<Rightarrow> image_job \<Rightarrow> resolved_image \<Rightarrow> prepared_image \<Rightarrow> store_files \<Rightarrow> bool" where
  "prepared_ok env job resolved prepared fs \<longleftrightarrow>
     pi_manifest prepared = pm_manifest (ri_pulled resolved)
     \<and> pi_layout prepared = job_root (ie_uuid_text env) (ij_id job) @ [''layout'']
     \<and> layout_complete env (pi_layout prepared) (pi_manifest prepared) fs
     \<and> map Inr (pi_layer_paths prepared) = map (\<lambda>d. blob_path (pi_layout prepared) (od_digest d)) (om_layers (pi_manifest prepared))"

lemma prepare_step:
  fixes env :: "'u image_env"
  assumes sdk: "sdk_verifies env" and ok: "resolved_ok env resolved"
  shows "triple (holding (store_holds env {} L) :: 'u image_world \<Rightarrow> bool) (prepare_resolved_image env job resolved)
    (\<lambda>prepared w. holding (store_holds env {} L) w \<and> prepared_ok env job resolved prepared (iw_files w)) (holding (store_holds env {} L))"
proof -
  let ?A = "\<lambda>ps. holding (store_holds env ps L) :: 'u image_world \<Rightarrow> bool" and ?layout = "job_root (ie_uuid_text env) (ij_id job) @ [''layout'']"
  let ?manifest = "pm_manifest (ri_pulled resolved)"
  let ?result = "\<lambda>paths. \<lparr>pi_manifest = ?manifest, pi_config_json = pm_config_json (ri_pulled resolved), pi_layout = ?layout, pi_layer_paths = paths\<rparr>"
  let ?Q = "\<lambda>prepared w. ?A {} w \<and> prepared_ok env job resolved prepared (iw_files w)"
  note content = ok [unfolded resolved_ok_def]
  show ?thesis unfolding prepare_resolved_image_def Let_def
  proof (rule triple_bind [OF quiet_triple [OF quiet_read]], assumption, rule triple_result [OF triple_result], goal_cases)
    case (1 _ p s)
    show ?case
    proof (rule triple_bind [OF config_step [OF content 1(2)]], rule triple_bind [OF link_step [OF 1(2,1)]],
        rule triple_bind [OF quiet_triple [OF quiet_progress(1) store_holds_fewer]], assumption,
        rule triple_bind [OF fetch_layers_step [OF sdk]])
      fix paths
      have "triple (?A ({p} \<union> set qs)) (op_bind (on_files (write_layout env ?layout ?manifest)) (\<lambda>_. op_read (\<lambda>_. Inr (?result qs)))) ?Q (?A {})"
        if "list_all2 (\<lambda>d p. blob_path ?layout (od_digest d) = Inr p) (om_layers ?manifest) qs" for qs
        by (rule triple_bind [OF triple_error [OF write_layout_step store_holds_fewer]], assumption, rule triple_read)
          (use layout_completeI [OF 1(1) that] store_holds_fewer in \<open>auto simp: prepared_ok_def holding_def\<close>)
      then show "triple (\<lambda>w. \<exists>qs. paths = [] @ qs \<and> list_all2 (\<lambda>d p. blob_path ?layout (od_digest d) = Inr p) (om_layers ?manifest) qs
            \<and> ?A ({p} \<union> set qs) w) (op_bind (on_files (write_layout env ?layout ?manifest)) (\<lambda>_. op_read (\<lambda>_. Inr (?result paths)))) ?Q (?A {})"
        by (fastforce simp: triple_def)
    qed
  qed auto
qed

section \<open>Copying\<close>

text \<open>A pushed Blob has the content its digest says; a Blob is stored once the destination has said so or has taken it.\<close>

definition event_verified :: "'u image_env \<Rightarrow> push_event \<times> bool \<Rightarrow> bool" where
  "event_verified env ev = (case fst ev of Pushed_Blob d c \<Rightarrow> digest_of env c = d | _ \<Rightarrow> True)"

definition stored :: "string \<Rightarrow> (push_event \<times> bool) list \<Rightarrow> bool" where
  "stored d evs = list_ex (\<lambda>(ev, ok). ok \<and> (case ev of Present e \<Rightarrow> e = d | Pushed_Blob e _ \<Rightarrow> e = d | Pushed_Manifest _ \<Rightarrow> False)) evs"

definition is_manifest :: "push_event \<times> bool \<Rightarrow> bool" where
  "is_manifest ev = (case fst ev of Pushed_Manifest _ \<Rightarrow> True | _ \<Rightarrow> False)"

definition manifest_digests :: "oci_image_manifest \<Rightarrow> string list" where
  "manifest_digests m = map od_digest (om_config m # om_layers m)"

definition pushes_sound :: "'u image_env \<Rightarrow> oci_image_manifest \<Rightarrow> (push_event \<times> bool) list \<Rightarrow> bool" where
  "pushes_sound env manifest evs \<longleftrightarrow>
     list_all (event_verified env) evs
     \<and> (\<forall>pre ev post. evs = pre @ ev # post \<longrightarrow> is_manifest ev \<longrightarrow>
          fst ev = Pushed_Manifest manifest \<and> post = [] \<and> list_all (\<lambda>d. stored d pre) (manifest_digests manifest))"

definition logged ::
  "'u image_env \<Rightarrow> (push_event \<times> bool) list \<Rightarrow> string set \<Rightarrow> (push_event \<times> bool) list \<Rightarrow> bool" where
  "logged env before ds l \<longleftrightarrow>
     (\<exists>evs. l = before @ evs \<and> list_all (event_verified env) evs \<and> \<not> list_ex is_manifest evs \<and> (\<forall>d \<in> ds. stored d evs))"

definition copying :: "'u image_env \<Rightarrow> (push_event \<times> bool) list \<Rightarrow> string set \<Rightarrow> 'u image_world \<Rightarrow> bool" where
  "copying env before ds = holding (store_holds env {} (logged env before ds))"

definition copy_sound :: "'u image_env \<Rightarrow> (push_event \<times> bool) list \<Rightarrow> oci_image_manifest \<Rightarrow> 'u image_world \<Rightarrow> bool" where
  "copy_sound env before manifest w \<longleftrightarrow>
     blobs_ok env (iw_files w) \<and> (\<exists>evs. iw_pushed w = before @ evs \<and> pushes_sound env manifest evs)"

lemma logged_append:
  assumes "logged env before ds l" and "event_verified env ev" and "\<not> is_manifest ev"
  shows "logged env before ds (l @ [ev])" "stored d [ev] \<Longrightarrow> logged env before (insert d ds) (l @ [ev])"
proof -
  from assms(1) obtain evs where evs: "l = before @ evs" "list_all (event_verified env) evs" "\<not> list_ex is_manifest evs" "\<forall>d \<in> ds. stored d evs"
    unfolding logged_def by blast
  with assms(2,3) show "logged env before ds (l @ [ev])" "stored d [ev] \<Longrightarrow> logged env before (insert d ds) (l @ [ev])"
    unfolding logged_def by (intro exI [of _ "evs @ [ev]"]; auto simp: stored_def)+
qed

lemma copying_fewer: "copying env before ds w \<Longrightarrow> ds' \<subseteq> ds \<Longrightarrow> copying env before ds' w"
  by (auto simp: copying_def holding_def store_holds_def logged_def)

lemma copying_sound: "copying env before ds w \<Longrightarrow> copy_sound env before manifest w"
  by (fastforce simp: copying_def holding_def store_holds_def logged_def copy_sound_def pushes_sound_def list_ex_iff)

lemma copying_quiet: "quiet m \<Longrightarrow> triple (copying env before ds) m (\<lambda>_. copying env before ds) (copying env before {})"
  unfolding copying_def by (rule quiet_triple) (auto simp: copying_fewer [unfolded copying_def])

lemma copying_stable: "drop_stable (copying env before ds)"
  unfolding copying_def by (rule image_blobs.stable)

lemma copying_log:
  "copying env before ds w \<Longrightarrow> iw_files w' = iw_files w \<Longrightarrow> iw_pushed w' = iw_pushed w @ [ev] \<Longrightarrow> event_verified env ev \<Longrightarrow> \<not> is_manifest ev \<Longrightarrow>
     copying env before ds w' \<and> (stored d [ev] \<longrightarrow> copying env before (insert d ds) w')"
  using logged_append(1) [of env before ds "iw_pushed w" ev] logged_append(2) [of env before ds "iw_pushed w" ev d] by (auto simp: copying_def holding_def store_holds_def)

lemma exists_step:
  "triple (copying env before ds) (blob_exists env destination d)
     (\<lambda>present. copying env before (if present then insert d ds else ds)) (copying env before {})"
  unfolding triple_def
proof (intro allI impI)
  fix w assume w: "copying env before ds w"
  let ?w = "w\<lparr>iw_tick := iw_tick w + 1\<rparr>"
  have "copying env before {} ?w" using w by (auto simp: copying_def holding_def store_holds_def iw_files_def logged_def)
  moreover have "copying env before (if present then insert d ds else ds) (?w\<lparr>iw_pushed := iw_pushed w @ [(Present d, present)]\<rparr>)" for present
    using copying_log [OF w, of "?w\<lparr>iw_pushed := iw_pushed w @ [(Present d, present)]\<rparr>" "(Present d, present)" d]
    by (auto simp: iw_files_def event_verified_def is_manifest_def stored_def)
  ultimately show "case blob_exists env destination d w of (w', Inl e) \<Rightarrow> copying env before {} w'
      | (w', Inr present) \<Rightarrow> copying env before (if present then insert d ds else ds) w'"
    by (simp add: blob_exists_def Let_def split: sum.split split del: if_split)
qed

lemma push_step:
  assumes "digest_of env c = d"
  shows "triple (copying env before ds) (push env destination (Pushed_Blob d c)) (\<lambda>_. copying env before (insert d ds)) (copying env before {})"
  unfolding triple_def
proof (intro allI impI)
  fix w assume w: "copying env before ds w"
  have "copying env before {} w'" "ok \<longrightarrow> copying env before (insert d ds) w'"
    if w': "iw_files w' = iw_files w" "iw_pushed w' = iw_pushed w @ [(Pushed_Blob d c, ok)]" for w' ok
    using copying_log [OF w w', of d] copying_fewer [of env before ds w' "{}"] assms
    by (auto simp: event_verified_def is_manifest_def stored_def)
  then show "case push env destination (Pushed_Blob d c) w of (w', Inl e) \<Rightarrow> copying env before {} w' | (w', Inr x) \<Rightarrow> copying env before (insert d ds) w'"
    by (auto simp: push_def Let_def iw_files_def result_defs split: sum.split)
qed

lemma push_file_step:
  "triple (\<lambda>w. copying env before ds w \<and> blob_at env p d w) (push_file env destination p d)
     (\<lambda>_. copying env before (insert d ds)) (copying env before {})"
  unfolding triple_def
proof (intro allI impI)
  fix w assume w: "copying env before ds w \<and> blob_at env p d w"
  then obtain c where c: "map_of (iw_files w) p = Some c" "digest_of env c = d" by (auto simp: blob_at_def)
  show "case push_file env destination p d w of (w', Inl e) \<Rightarrow> copying env before {} w' | (w', Inr x) \<Rightarrow> copying env before (insert d ds) w'"
    using push_step [OF c(2)] w c(1) unfolding triple_def push_file_def by simp
qed

lemma pull_copy_step:
  assumes "sdk_verifies env" and "blob_entry p = None"
  shows "triple (copying env before ds) (pull_source_blob env source job layer p)
    (\<lambda>_ w. copying env before ds w \<and> blob_at env p (od_digest layer) w) (copying env before {})"
  unfolding copying_def
  by (rule triple_error [OF image_blobs.pull_source_step [OF assms]]) (rule copying_fewer [unfolded copying_def], auto)

lemma copy_layer_step:
  assumes "sdk_verifies env"
  shows "triple (copying env before ds) (copy_layer env job source destination layer)
    (\<lambda>_. copying env before (insert (od_digest layer) ds)) (copying env before {})"
  unfolding copy_layer_def
proof (rule triple_guard)
  fix g assume g: "begin_blob_write (ie_uuid_text env) (ij_id job) (od_digest layer) = Inr g"
  let ?d = "od_digest layer"
  note less = copying_fewer [OF _ empty_subsetI]
  show "triple (copying env before ds) (op_bind (op_read (\<lambda>_. shared_blob_path ?d)) (\<lambda>shared w.
         if has_file shared (iw_files w) then push_file env destination shared ?d w
         else if im_max_export_bytes (iw_service w) < blob_size layer then (w, Inl (BadRequest ''layer exceeds DONKEY_MAX_EXPORT_BYTES''))
         else op_bind (pull_source_blob env source job layer (bg_temporary g)) (\<lambda>_.
           op_bind (cancelled_check (ij_id job)) (\<lambda>_. push_file env destination (bg_temporary g) ?d)) w))
      (\<lambda>_. copying env before (insert ?d ds)) (copying env before {})"
  proof (rule triple_result)
    fix s assume "shared_blob_path ?d = Inr s"
    then obtain n where n: "?d = ''sha256:'' @ n" "blob_entry s = Some n" by (auto simp: blob_entry_shared)
    have shared: "blob_at env s ?d w" if "copying env before ds w" "has_file s (iw_files w)" for w
    proof -
      from that(2) obtain c where c: "map_of (iw_files w) s = Some c" by (blast dest: has_file_map_of)
      with map_of_SomeD [OF c] that(1) n show ?thesis
        by (auto simp: blob_at_def copying_def holding_def store_holds_def blobs_ok_iff)
    qed
    have quietly: "triple (\<lambda>w. copying env before ds w \<and> blob_at env (bg_temporary g) ?d w) (cancelled_check (ij_id job))
        (\<lambda>_ w. copying env before ds w \<and> blob_at env (bg_temporary g) ?d w) (copying env before {})"
      by (rule quiet_keeps [OF quiet_progress(4)]) (blast intro: less, simp add: blob_at_def copying_def holding_def)
    have pulled: "triple (copying env before ds) (op_bind (pull_source_blob env source job layer (bg_temporary g)) (\<lambda>_.
        op_bind (cancelled_check (ij_id job)) (\<lambda>_. push_file env destination (bg_temporary g) ?d)))
        (\<lambda>_. copying env before (insert ?d ds)) (copying env before {})"
      by (intro triple_bind [OF pull_copy_step [OF assms blob_entry_partial [OF g]]] triple_bind [OF quietly] push_file_step)
    show "triple (copying env before ds) (\<lambda>w. if has_file s (iw_files w) then push_file env destination s ?d w
         else if im_max_export_bytes (iw_service w) < blob_size layer then (w, Inl (BadRequest ''layer exceeds DONKEY_MAX_EXPORT_BYTES''))
         else op_bind (pull_source_blob env source job layer (bg_temporary g)) (\<lambda>_.
           op_bind (cancelled_check (ij_id job)) (\<lambda>_. push_file env destination (bg_temporary g) ?d)) w)
        (\<lambda>_. copying env before (insert ?d ds)) (copying env before {})"
    proof (intro triple_if)
      show "triple (\<lambda>w. copying env before ds w \<and> has_file s (iw_files w)) (push_file env destination s ?d)
          (\<lambda>_. copying env before (insert ?d ds)) (copying env before {})"
        by (rule triple_conseq [OF push_file_step]) (use shared in auto)
    qed (use less pulled in \<open>auto simp: triple_def\<close>)
  qed (rule less)
qed (auto intro: copying_stable copying_fewer)

lemma copy_layers_step:
  assumes sdk: "sdk_verifies env"
  shows "triple (copying env before ds) (copy_layers env job source destination tot layers progress)
    (\<lambda>_. copying env before (ds \<union> set (map od_digest layers))) (copying env before {})"
proof (induction layers arbitrary: ds progress)
  case Nil
  show ?case unfolding copy_layers.simps by (rule triple_read) simp
next
  case (Cons layer layers)
  have one: "triple (copying env before (if present then insert (od_digest layer) ds else ds))
      (if present then op_read (\<lambda>_. Inr ()) else copy_layer env job source destination layer)
      (\<lambda>_. copying env before (insert (od_digest layer) ds)) (copying env before {})" for present
    using copy_layer_step [OF sdk] by (cases present) (auto intro: triple_read)
  show ?case unfolding copy_layers.simps Let_def
    by (rule triple_bind [OF copying_quiet [OF quiet_progress(4)]], rule triple_bind [OF exists_step], rule triple_bind [OF one],
        rule triple_bind [OF copying_quiet [OF quiet_progress(1)]])
      (rule triple_conseq [OF Cons], auto)
qed

lemma manifest_step:
  assumes "set (manifest_digests manifest) \<subseteq> ds"
  shows "triple (copying env before ds) (push_manifest env destination manifest)
    (\<lambda>_ w. copy_sound env before manifest w \<and> last (iw_pushed w) = (Pushed_Manifest manifest, True) \<and> length before < length (iw_pushed w))
    (copy_sound env before manifest)"
  unfolding triple_def
proof (intro allI impI)
  fix w assume w: "copying env before ds w"
  then obtain evs where evs: "iw_pushed w = before @ evs" "list_all (event_verified env) evs" "\<not> list_ex is_manifest evs" "\<forall>d \<in> ds. stored d evs"
    and ok: "blobs_ok env (iw_files w)" unfolding copying_def holding_def store_holds_def logged_def by blast
  have "pushes_sound env manifest (evs @ [(Pushed_Manifest manifest, b)])" for b
  proof -
    have "post = [] \<and> pre = evs \<and> ev = (Pushed_Manifest manifest, b)" if "evs @ [(Pushed_Manifest manifest, b)] = pre @ ev # post" "is_manifest ev" for pre ev post
      using that evs(3) by (cases post rule: rev_cases) (auto simp: list_ex_iff)
    then show ?thesis using evs(2,4) assms unfolding pushes_sound_def
      by (auto simp: event_verified_def list_all_iff)
  qed
  then have "copy_sound env before manifest w'" if "iw_files w' = iw_files w" "iw_pushed w' = iw_pushed w @ [(Pushed_Manifest manifest, b)]" for w' b
    using that evs(1) ok by (auto simp: copy_sound_def)
  then show "case push_manifest env destination manifest w of (w', Inl e) \<Rightarrow> copy_sound env before manifest w'
      | (w', Inr x) \<Rightarrow> copy_sound env before manifest w' \<and> last (iw_pushed w') = (Pushed_Manifest manifest, True) \<and> length before < length (iw_pushed w')"
    using evs(1) by (auto simp: push_manifest_def push_def Let_def iw_files_def result_defs split: sum.split)
qed

lemma copy_to_registry_step:
  assumes sdk: "sdk_verifies env" and ok: "resolved_ok env resolved"
  shows "triple (copying env before {}) (copy_to_registry env job resolved destination auth)
    (\<lambda>_ w. copy_sound env before (pm_manifest (ri_pulled resolved)) w
       \<and> last (iw_pushed w) = (Pushed_Manifest (pm_manifest (ri_pulled resolved)), True) \<and> length before < length (iw_pushed w))
    (copy_sound env before (pm_manifest (ri_pulled resolved)))"
proof -
  let ?m = "pm_manifest (ri_pulled resolved)"
  let ?d = "od_digest (om_config ?m)" and ?ds = "set (map od_digest (om_layers ?m))"
  have one: "triple (copying env before (if present then insert ?d ({} \<union> ?ds) else {} \<union> ?ds))
      (if present then op_read (\<lambda>_. Inr ()) else push_bytes env destination (as_bytes (pm_config_json (ri_pulled resolved))) ?d)
      (\<lambda>_. copying env before (insert ?d ?ds)) (copying env before {})" for present
    using push_step [OF ok [unfolded resolved_ok_def]] unfolding push_bytes_def by (cases present) (auto intro: triple_read)
  have last: "triple (\<lambda>w. copy_sound env before ?m w \<and> last (iw_pushed w) = (Pushed_Manifest ?m, True) \<and> length before < length (iw_pushed w)) m
      (\<lambda>_ w. copy_sound env before ?m w \<and> last (iw_pushed w) = (Pushed_Manifest ?m, True) \<and> length before < length (iw_pushed w))
      (copy_sound env before ?m)" if "quiet m" for m
    by (rule quiet_keeps [OF that]) (auto simp: copy_sound_def)
  have auth: "quiet (authenticate_push env destination auth)" unfolding authenticate_push_def by (rule quiet_tick)
  have cfg: "set (manifest_digests ?m) \<subseteq> insert ?d ?ds" by (auto simp: manifest_digests_def)
  note early = triple_error [OF _ copying_sound]
  show ?thesis unfolding copy_to_registry_def Let_def
    by (rule triple_bind [OF early [OF copying_quiet [OF auth]]], assumption,
        rule triple_bind [OF early [OF copying_quiet [OF quiet_progress(1)]]], assumption,
        rule triple_bind [OF early [OF copy_layers_step [OF sdk]]], assumption,
        rule triple_bind [OF early [OF copying_quiet [OF quiet_progress(4)]]], assumption,
        rule triple_bind [OF early [OF exists_step]], assumption, rule triple_bind [OF early [OF one]], assumption,
        rule triple_bind [OF early [OF copying_quiet [OF quiet_progress(4)]]], assumption,
        rule triple_bind [OF manifest_step [OF cfg]], rule last [OF quiet_progress(1)])
qed

lemma copy_image_step:
  assumes sdk: "sdk_verifies env" and ok: "resolved_ok env resolved"
  shows "triple (copying env before {}) (copy_image env job resolved)
    (\<lambda>_ w. copy_sound env before (pm_manifest (ri_pulled resolved)) w
       \<and> last (iw_pushed w) = (Pushed_Manifest (pm_manifest (ri_pulled resolved)), True) \<and> length before < length (iw_pushed w))
    (copy_sound env before (pm_manifest (ri_pulled resolved)))"
  unfolding copy_image_def parse_reference_def
  by (rule triple_bind [OF triple_error [OF copying_quiet [OF quiet_progress(2)] copying_sound]], assumption,
      rule triple_result, rule triple_result, rule triple_result,
      rule triple_bind [OF triple_error [OF copying_quiet [OF quiet_read] copying_sound]], assumption,
      rule copy_to_registry_step [OF assms]) (auto intro: copying_sound)

text \<open>
  C8: Copying an image to another Registry never publishes a broken image. Whatever the two Registries, the network and the
  other tasks do, and wherever the copy stops: every Blob that is pushed has exactly the content of its digest; the manifest is
  pushed at most once, as the very last request, and only after the destination has taken or has reported to have every layer and the
  configuration it refers to; and a copy that succeeds has pushed it.
\<close>

theorem copy_publishes_complete_images:
  assumes "sdk_verifies env" and "utf8_faithful env" and "resolve_image env job w0 = (w1, Inr resolved)"
    and "blobs_ok env (iw_files w)" and "copy_image env job resolved w = (w', r)"
  shows "\<exists>evs. iw_pushed w' = iw_pushed w @ evs \<and> list_all (event_verified env) evs
     \<and> (\<forall>pre ev post. evs = pre @ ev # post \<longrightarrow> is_manifest ev \<longrightarrow>
          fst ev = Pushed_Manifest (pm_manifest (ri_pulled resolved)) \<and> post = []
          \<and> list_all (\<lambda>d. stored d pre) (manifest_digests (pm_manifest (ri_pulled resolved))))
     \<and> (r = Inr () \<longrightarrow> evs \<noteq> [] \<and> last evs = (Pushed_Manifest (pm_manifest (ri_pulled resolved)), True))"
proof -
  have start: "copying env (iw_pushed w) {} w" using assms(4) by (simp add: copying_def holding_def store_holds_def logged_def)
  have run: "copy_sound env (iw_pushed w) (pm_manifest (ri_pulled resolved)) w'
      \<and> (r = Inr () \<longrightarrow> last (iw_pushed w') = (Pushed_Manifest (pm_manifest (ri_pulled resolved)), True)
            \<and> length (iw_pushed w) < length (iw_pushed w'))"
    using triple_run [OF copy_image_step [OF assms(1) resolve_image_ok [OF assms(1-3)]] start assms(5)] by (cases r) auto
  then obtain evs where "iw_pushed w' = iw_pushed w @ evs" "pushes_sound env (pm_manifest (ri_pulled resolved)) evs"
    unfolding copy_sound_def by blast
  with run show ?thesis unfolding pushes_sound_def by (intro exI [of _ evs]) auto
qed

section \<open>The work of a job\<close>

definition files_ok :: "'u image_env \<Rightarrow> 'u image_world \<Rightarrow> bool" where
  "files_ok env w = blobs_ok env (iw_files w)"

lemma files_ok_holds: "files_ok env = holding (store_holds env {} (\<lambda>_. True))"
  by (simp add: fun_eq_iff files_ok_def holding_def store_holds_def)

lemma files_ok_quiet: "quiet m \<Longrightarrow> triple (files_ok env) m (\<lambda>_. files_ok env) (files_ok env)"
  unfolding files_ok_holds by (rule quiet_triple)

lemma files_ok_files:
  "(\<And>fs. blobs_ok env fs \<Longrightarrow> blobs_ok env (fst (f fs))) \<Longrightarrow> triple (files_ok env) (on_files f) (\<lambda>_. files_ok env) (files_ok env)"
  by (auto simp: triple_def on_files_eq files_ok_def split: sum.split)

lemma files_ok_files_at:
  "(\<And>t fs. blobs_ok env fs \<Longrightarrow> blobs_ok env (fst (f t fs))) \<Longrightarrow> triple (files_ok env) (on_files_at f) (\<lambda>_. files_ok env) (files_ok env)"
  by (auto simp: triple_def on_files_at_def on_files_eq files_ok_def iw_files_def set_files_def split: prod.splits sum.splits)
     (metis fst_conv)+

lemma job_file_free:
  "blob_entry (job_root ut i @ [name]) = None" "blob_entry (job_root ut i @ ''rootfs'' # p) = None"
  by (simp_all add: blob_entry_def shared_entry_def layout_entry_def is_layout_blob_def job_root_def)

lemma build_archive_ok: "blobs_ok env fs \<Longrightarrow> blob_entry output = None \<Longrightarrow> blobs_ok env (fst (build_archive env t output input fs))"
  by (auto simp: build_archive_def build_docker_archive_with_cancellation_def build_oci_archive_with_cancellation_def write_archive_def
      Let_def intro!: blobs_ok_put split: archive_input.split sum.split prod.split)

lemma export_step: "triple (files_ok env) (export_image env job prepared) (\<lambda>_. files_ok env) (files_ok env)"
  unfolding export_image_def Let_def
  by (rule triple_bind [OF files_ok_quiet [OF quiet_progress(2)]], rule triple_branch, rule files_ok_quiet [OF quiet_read],
      rule triple_bind [OF files_ok_files_at [OF build_archive_ok]], assumption, rule job_file_free(1),
      rule files_ok_quiet [OF quiet_progress(3)])

lemma convert_dir_ok:
  "blobs_ok env fs \<Longrightarrow> blobs_ok env (fst (convert_dir env layout (job_root ut i @ [''rootfs'']) t fs))"
  using job_file_free(2) [of ut i] by (auto simp: convert_dir_def blobs_ok_iff split: prod.split)

lemma extract_step: "triple (files_ok env) (extract_image env job prepared) (\<lambda>_. files_ok env) (files_ok env)"
  unfolding extract_image_def Let_def
  by (rule triple_bind [OF files_ok_quiet [OF quiet_progress(2)]], rule triple_bind [OF files_ok_files],
      simp, rule blobs_ok_subset, assumption, force,
      rule triple_bind [OF files_ok_files_at [OF convert_dir_ok]], assumption, rule files_ok_quiet [OF quiet_progress(3)])

lemma remove_storage_subset: "remove_job_storage ut j s = (s', r) \<Longrightarrow> set (im_files s') \<subseteq> set (im_files s)"
  using remove_job_storage_files [of ut j s] by (auto simp: remove_job_def)

lemma remove_expired_subset: "set (im_files (fst (remove_expired ut protected_job js s))) \<subseteq> set (im_files s)"
proof (induction ut protected_job js s rule: remove_expired.induct)
  case (2 ut protected_job j js s)
  obtain s1 r where rm: "remove_job_storage ut (ij_id j) s = (s1, r)" by fastforce
  show ?case
  proof (cases "Some (ij_id j) = protected_job")
    case False
    with 2(1) [OF False rm [symmetric]] rm remove_storage_subset [OF rm] show ?thesis by (cases r) auto
  qed (use 2(2) in simp)
qed simp

lemma remove_until_subset: "set (im_files (fst (remove_until_fits ut protected_job js s))) \<subseteq> set (im_files s)"
proof (induction ut protected_job js s rule: remove_until_fits.induct)
  case (2 ut protected_job j js s)
  obtain s1 r where rm: "remove_job_storage ut (ij_id j) s = (s1, r)" by fastforce
  note sub = remove_storage_subset [OF rm] gc_subset [of "im_files s1"]
  show ?case
  proof (cases "Some (ij_id j) = protected_job")
    case False
    with 2(2) [OF False rm [symmetric]] rm sub show ?thesis by (cases r) (auto simp: Let_def)
  qed (use 2(1) in simp)
qed simp

lemma cleanup_subset: "set (im_files (fst (cleanup_storage ut protected_job clock now s))) \<subseteq> set (im_files s)"
proof -
  have clean: "set (im_files (fst (clean_now ut protected_job now s))) \<subseteq> set (im_files s)" for s
  proof -
    obtain s1 r where rm: "remove_expired ut protected_job (expired_jobs (now - im_export_ttl s) (im_tables s)) s = (s1, r)" by fastforce
    have "set (im_files s1) \<subseteq> set (im_files s)" using remove_expired_subset rm by (metis fst_conv)
    moreover have "set (im_files (fst (remove_until_fits ut protected_job js (s1\<lparr>im_files := gc_shared_blobs (im_files s1)\<rparr>)))) \<subseteq> set (im_files s1)" for js
      using remove_until_subset [of ut protected_job js "s1\<lparr>im_files := gc_shared_blobs (im_files s1)\<rparr>"] gc_subset [of "im_files s1"] by auto
    ultimately show ?thesis using rm gc_subset [of "im_files s1"] by (cases r) (auto simp: clean_now_def Let_def)
  qed
  show ?thesis using clean [of s] clean [of "s\<lparr>im_last_cleanup := clock\<rparr>"] by (auto simp: cleanup_storage_def)
qed

lemma quota_subset: "set (im_files (fst (enforce_storage_quota ut job clock now s))) \<subseteq> set (im_files s)"
proof -
  obtain s1 r where c: "cleanup_storage ut (Some job) clock now s = (s1, r)" by fastforce
  obtain s2 r2 where rm: "remove_job_storage ut job s1 = (s2, r2)" by fastforce
  have "set (im_files s1) \<subseteq> set (im_files s)" using cleanup_subset c by (metis fst_conv)
  with c rm remove_storage_subset [OF rm] gc_subset [of "im_files s2"] show ?thesis
    by (cases r; cases r2) (auto simp: enforce_storage_quota_def)
qed

lemma quota_step:
  "triple (files_ok env) (on_service (enforce_storage_quota ut job clock now)) (\<lambda>_. files_ok env) (files_ok env)"
  unfolding triple_def
proof (intro allI impI)
  fix w assume w: "files_ok env w"
  obtain s r where q: "enforce_storage_quota ut job clock now (iw_service w) = (s, r)" by fastforce
  have "blobs_ok env (im_files s)"
    using blobs_ok_subset [OF w [unfolded files_ok_def iw_files_def] quota_subset [of ut job clock now]] q by simp
  then show "case on_service (enforce_storage_quota ut job clock now) w of (w', Inl e) \<Rightarrow> files_ok env w' | (w', Inr x) \<Rightarrow> files_ok env w'"
    using q by (simp add: on_service_def files_ok_def iw_files_def split: sum.split)
qed

lemma resolve_step:
  assumes "sdk_verifies env" and "utf8_faithful env"
  shows "triple (files_ok env) (resolve_image env job) (\<lambda>resolved w. resolved_ok env resolved \<and> files_ok env w) (files_ok env)"
  using quietD [OF quiet_resolve] resolve_image_ok [OF assms]
  by (fastforce simp: triple_def files_ok_def split: prod.split sum.split)

lemma copy_files_step:
  assumes "sdk_verifies env" and "resolved_ok env resolved"
  shows "triple (files_ok env) (copy_image env job resolved) (\<lambda>_. files_ok env) (files_ok env)"
  unfolding triple_def
proof (intro allI impI)
  fix w assume "files_ok env w"
  then have start: "copying env (iw_pushed w) {} w" by (simp add: files_ok_def copying_def holding_def store_holds_def logged_def)
  obtain w' r where c: "copy_image env job resolved w = (w', r)" by fastforce
  from triple_run [OF copy_image_step [OF assms] start c] c
  show "case copy_image env job resolved w of (w', Inl e) \<Rightarrow> files_ok env w' | (w', Inr x) \<Rightarrow> files_ok env w'"
    by (cases r) (auto simp: files_ok_def copy_sound_def)
qed

lemma export_or_extract_step:
  fixes env :: "'u image_env"
  assumes "sdk_verifies env" and "resolved_ok env resolved"
  shows "triple (files_ok env) (export_or_extract env job resolved) (\<lambda>_. files_ok env) (files_ok env)"
proof -
  have prepare: "triple (files_ok env) (prepare_resolved_image env job resolved) (\<lambda>_. files_ok env) (files_ok env)"
    unfolding files_ok_holds by (rule triple_conseq [OF prepare_step [OF assms]]) auto
  have rest: "triple (files_ok env) (case kind of Some Export \<Rightarrow> export_image env job prepared | Some Extract \<Rightarrow> extract_image env job prepared
      | _ \<Rightarrow> op_read (\<lambda>_. Inl (BadRequest ''unsupported image job kind''))) (\<lambda>_. files_ok env) (files_ok env)" for kind prepared
    using export_step extract_step files_ok_quiet [OF quiet_read] by (auto split: option.split job_kind.split)
  show ?thesis unfolding export_or_extract_def by (rule triple_bind [OF prepare rest])
qed

lemma process_job_step:
  assumes laws: "sdk_verifies env" "utf8_faithful env"
  shows "triple (files_ok env) (process_job env job clock now) (\<lambda>_. files_ok env) (files_ok env)"
proof -
  have finish: "triple (files_ok env) (op_bind (on_service (enforce_storage_quota (ie_uuid_text env) (ij_id job) clock now)) (\<lambda>_. op_read (\<lambda>_. Inr Outcome_Completed)))
      (\<lambda>_. files_ok env) (files_ok env)"
    by (rule triple_bind [OF quota_step files_ok_quiet [OF quiet_read]])
  have copy: "triple (files_ok env) (\<lambda>w. if c w then (w, Inr Outcome_Skipped) else op_bind (copy_image env job resolved)
        (\<lambda>_. op_bind (on_service (enforce_storage_quota (ie_uuid_text env) (ij_id job) clock now)) (\<lambda>_. op_read (\<lambda>_. Inr Outcome_Completed))) w)
      (\<lambda>_. files_ok env) (files_ok env)" if "resolved_ok env resolved" for resolved c
    by (rule triple_if, simp add: triple_def, rule triple_conseq [OF triple_bind [OF copy_files_step [OF laws(1) that] finish]]) auto
  show ?thesis unfolding process_job_def Let_def
    by (rule triple_bind [OF resolve_step [OF laws]], rule triple_pure, rule triple_bind [OF files_ok_quiet [OF quiet_tables]],
        rule triple_bind [OF files_ok_quiet [OF quiet_progress(4)]], rule triple_branch, erule copy,
        rule triple_bind [OF export_or_extract_step [OF laws(1)] finish])
qed

lemma cleanup_step: "triple (files_ok env) (on_service (cleanup_storage ut None clock now)) (\<lambda>_. files_ok env) (files_ok env)"
  unfolding triple_def
proof (intro allI impI)
  fix w assume w: "files_ok env w"
  obtain s r where q: "cleanup_storage ut None clock now (iw_service w) = (s, r)" by fastforce
  have "blobs_ok env (im_files s)"
    using blobs_ok_subset [OF w [unfolded files_ok_def iw_files_def] cleanup_subset [of ut None clock now]] q by simp
  then show "case on_service (cleanup_storage ut None clock now) w of (w', Inl e) \<Rightarrow> files_ok env w' | (w', Inr x) \<Rightarrow> files_ok env w'"
    using q by (simp add: on_service_def files_ok_def iw_files_def split: sum.split)
qed


end
