(* ===== verification/Image_Pipeline_Properties.thy ===== *)
theory Image_Pipeline_Properties
  imports Image_Pipeline_Proofs
begin

text \<open>
  A prepared image is complete, and a concrete job on which the properties of the image pipeline are exercised.
\<close>

section \<open>Prepared images\<close>

text \<open>
  C11: When an image has been resolved and prepared for an export or an extraction, its OCI layout is complete and right: the layers, the
  configuration and the manifest are in it, each at the path of its digest and with exactly the content of that digest, the
  index names the manifest with its length, the paths handed to the archive builder are those of the layers in their order, and
  the store is still verified. Layers that other jobs stored before are reused; nothing is taken on trust from a node.
\<close>

theorem prepared_image_complete:
  assumes "sdk_verifies env" and "utf8_faithful env" and "resolve_image env job w0 = (w1, Inr resolved)"
    and "blobs_ok env (iw_files w)" and "prepare_resolved_image env job resolved w = (w', Inr prepared)"
  shows "blobs_ok env (iw_files w')
     \<and> pi_manifest prepared = pm_manifest (ri_pulled resolved)
     \<and> pi_layout prepared = job_root (ie_uuid_text env) (ij_id job) @ [''layout'']
     \<and> layout_complete env (pi_layout prepared) (pi_manifest prepared) (iw_files w')
     \<and> map Inr (pi_layer_paths prepared) = map (\<lambda>d. blob_path (pi_layout prepared) (od_digest d)) (om_layers (pi_manifest prepared))"
proof -
  have "holding (store_holds env {} (\<lambda>_. True)) w" using assms(4) by (simp add: holding_def store_holds_def)
  from triple_run [OF prepare_step [OF assms(1) resolve_image_ok [OF assms(1-3)]] this assms(5)]
  show ?thesis by (auto simp: prepared_ok_def holding_def store_holds_def)
qed

section \<open>A concrete job\<close>

text \<open>An image with a configuration of two bytes and one layer of three; the Registries answer every request.\<close>

definition sample_name :: "nat \<Rightarrow> string" where
  "sample_name k = replicate 64 (char_of (95 + k))"

definition sample_digest :: "nat \<Rightarrow> string" where
  "sample_digest k = ''sha256:'' @ sample_name k"

definition sample_which :: "bytes \<Rightarrow> nat" where
  "sample_which bs = (if bs = [123, 125] then 2 else if bs = [1, 2, 3] then 3 else 4)"

definition sample_manifest :: oci_image_manifest where
  "sample_manifest =
     \<lparr>om_media_type = None, om_config = \<lparr>od_media_type = ''config'', od_digest = sample_digest 2, od_size = 2\<rparr>,
      om_layers = [\<lparr>od_media_type = ''layer'', od_digest = sample_digest 3, od_size = 3\<rparr>]\<rparr>"

definition sample_image_env :: "plain_url image_env" where
  "sample_image_env =
     \<lparr>ie_upstream = sample_upstream_env,
      ie_credentials = \<lparr>cn_url = plain_url_ops (\<lambda>s. Some (host_url s)), cn_url_port = (\<lambda>_. None), cn_crypto = plain_crypto,
        cn_config = for_test ''/d'', cn_cipher = Some [1]\<rparr>,
      ie_authority = (\<lambda>_. None),
      ie_reference = (\<lambda>s. Some \<lparr>ir_registry = ''registry.example'', ir_repository = s, ir_tag = None, ir_digest = None\<rparr>),
      ie_sha256_hex = (\<lambda>bs. sample_name (sample_which bs)),
      ie_manifest_json = (\<lambda>_. Inl ''unused''), ie_manifest_bytes = (\<lambda>_. [9]), ie_index_bytes = (\<lambda>_ _ n. [n]),
      ie_utf8 = (\<lambda>bs. if bs = [123, 125] then Some [CHR 0x7B, CHR 0x7D] else None),
      ie_acquire = (\<lambda>_. Inr ()),
      ie_direct_manifest = (\<lambda>_ _ _ _ _. Inr (sample_manifest, sample_digest 4, None)),
      ie_direct_blob = (\<lambda>_ _ _ d. if od_digest d = sample_digest 2 then Inr [Inr [123, 125]]
         else if od_digest d = sample_digest 3 then Inr [Inr [1], Inr [2, 3]] else Inl ''unknown''),
      ie_dest_auth = (\<lambda>_ _ _. Inr ()), ie_dest_exists = (\<lambda>_ _ _. Inr False), ie_dest_push = (\<lambda>_ _ _. Inr ()),
      ie_image_config = (\<lambda>_. Inr ()), ie_docker_tar = (\<lambda>_ _ _ _. ([[7], [8]], Inr ())), ie_tar = (\<lambda>_ _. [[7]]),
      ie_token_cancelled = (\<lambda>_ _. False), ie_render = (\<lambda>_ _ _. ([], Inr ())),
      ie_uuid_text = example_text, ie_path_text = concat, ie_clock = (\<lambda>_. 0), ie_elapsed = (\<lambda>_. 1), ie_now = (\<lambda>_. 6)\<rparr>"

lemma sample_names: "shared_blob_name (sample_digest 2) = Some (sample_name 2)" "shared_blob_name (sample_digest 3) = Some (sample_name 3)"
  "shared_blob_name (sample_digest 4) = Some (sample_name 4)" "sample_name 2 \<noteq> sample_name 3" "sample_name 2 \<noteq> sample_name 4"
  "sample_name 3 \<noteq> sample_name 4" "sample_digest 2 \<noteq> sample_digest 3"
  by code_simp+

lemma sample_digest_of: "digest_of sample_image_env bs = sample_digest (sample_which bs)"
  by (simp add: digest_of_def sample_digest_def sample_image_env_def)

lemma sample_laws: "sdk_verifies sample_image_env" "utf8_faithful sample_image_env"
proof -
  show "sdk_verifies sample_image_env" unfolding sdk_verifies_def sample_digest_of
    by (auto simp: sample_image_env_def sample_which_def split: if_splits)
  show "utf8_faithful sample_image_env" by (auto simp: utf8_faithful_def sample_image_env_def as_bytes_def split: if_splits)
qed

definition sample_image_world :: "plain_url image_world" where
  "sample_image_world =
     \<lparr>iw_service = \<lparr>im_tables = no_jobs, im_files = [], im_store = \<lparr>js_worker_id = 1, js_active_attempts = Map.empty\<rparr>,
        im_max_export_bytes = 1000, im_export_ttl = 0, im_last_cleanup = 0\<rparr>,
      iw_upstream = upstream_build (for_test ''/d'') sample_service None,
      iw_nodes = \<lparr>nt_routes = \<lparr>rt_routes = [], rt_nodes = [], rt_pulls = []\<rparr>, nt_limits = Map.empty, nt_metrics = Map.empty, nt_jobs = no_jobs\<rparr>,
      iw_node_service = sample_service, iw_credentials = [], iw_pushed = [], iw_tick = 0\<rparr>"

definition sample_job :: image_job where
  "sample_job = running_job\<lparr>ij_source_node_id := None, ij_source_credential_id := None\<rparr>"

definition sample_resolved :: resolved_image where
  "sample_resolved =
     \<lparr>ri_pulled = \<lparr>pm_manifest = sample_manifest, pm_digest = sample_digest 4, pm_config_json = [CHR 0x7B, CHR 0x7D], pm_index_digest = None\<rparr>,
      ri_source = Direct \<lparr>ir_registry = ''registry.example'', ir_repository = ij_source_ref sample_job, ir_tag = None, ir_digest = None\<rparr> Anonymous\<rparr>"

lemma sample_resolve:
  assumes "ij_source_node_id job = None" and "ij_source_credential_id job = None" and "ij_source_ref job = ij_source_ref sample_job"
  shows "resolve_image sample_image_env job w = (w\<lparr>iw_tick := iw_tick w + 2\<rparr>, Inr sample_resolved)"
  using assms by (simp add: resolve_image_def parse_reference_def source_transport_def pull_manifest_def read_blob_def op_bind_def op_read_def at_tick_def
      sample_image_env_def sample_resolved_def sample_manifest_def ok_or_def u64_saturating_add_def u64_max_def Let_def)

text \<open>A service without rows: every statement of the work of a job succeeds.\<close>

definition no_rows :: "'u image_world \<Rightarrow> bool" where
  "no_rows w \<longleftrightarrow> im_tables (iw_service w) = no_jobs \<and> js_active_attempts (im_store (iw_service w)) = Map.empty
     \<and> im_max_export_bytes (iw_service w) = 1000"

lemma no_rows_steps:
  assumes "no_rows w"
  shows "set_progress env i st c n w = (w, Inr ())" "set_stage env i st w = (w, Inr ())" "cancelled_check i w = (w, Inr ())"
  using assms by (simp_all add: no_rows_def set_progress_def set_stage_def cancelled_check_def on_service_def on_tables_def update_progress_def
      update_stage_def fenced_def update_jobs_def no_jobs_def op_read_def check_cancelled_def is_cancelled_def find_job_def)

lemma no_rows_files [simp]: "no_rows (set_files fs w) = no_rows w"
  by (simp add: no_rows_def set_files_def)

lemma no_rows_tick [simp]: "no_rows (w\<lparr>iw_tick := t\<rparr>) = no_rows w" "no_rows (w\<lparr>iw_pushed := l\<rparr>) = no_rows w"
  by (simp_all add: no_rows_def)

lemma has_file_Nil [simp]: "\<not> has_file p []"
  by (simp add: has_file_def)

lemma no_rows_max: "no_rows w \<Longrightarrow> im_max_export_bytes (iw_service w) = 1000"
  by (simp add: no_rows_def)

lemma set_files_service [simp]: "iw_tick (set_files fs w) = iw_tick w" "im_max_export_bytes (iw_service (set_files fs w)) = im_max_export_bytes (iw_service w)"
  by (simp_all add: set_files_def)

lemma iw_files_updates [simp]: "iw_files (w\<lparr>iw_tick := t\<rparr>) = iw_files w" "iw_files (w\<lparr>iw_pushed := l\<rparr>) = iw_files w"
  by (simp_all add: iw_files_def)

lemma sample_paths:
  "blob_path p (sample_digest 2) = Inr (p @ [''blobs'', ''sha256'', sample_name 2])" "blob_path p (sample_digest 3) = Inr (p @ [''blobs'', ''sha256'', sample_name 3])"
  "blob_path p (sample_digest 4) = Inr (p @ [''blobs'', ''sha256'', sample_name 4])"
  "shared_blob_path (sample_digest 2) = Inr [''blobs'', ''sha256'', sample_name 2]" "shared_blob_path (sample_digest 3) = Inr [''blobs'', ''sha256'', sample_name 3]"
  using sample_names by (simp_all add: blob_path_def shared_blob_path_def)

lemma sample_env_simps:
  "ie_uuid_text sample_image_env = example_text" "ie_manifest_bytes sample_image_env m = [9]"
  "ie_direct_blob sample_image_env t r a d = (if od_digest d = sample_digest 2 then Inr [Inr [123, 125]]
     else if od_digest d = sample_digest 3 then Inr [Inr [1], Inr [2, 3]] else Inl ''unknown'')"
  "ie_dest_auth sample_image_env t r a = Inr ()" "ie_dest_exists sample_image_env t r digest = Inr False" "ie_dest_push sample_image_env t r ev = Inr ()"
  "ie_reference sample_image_env s = Some \<lparr>ir_registry = ''registry.example'', ir_repository = s, ir_tag = None, ir_digest = None\<rparr>"
  by (simp_all add: sample_image_env_def)

lemmas sample_run = Let_def op_bind_def op_read_def sample_paths no_rows_steps no_rows_max on_files_eq begin_blob_write_def commit_blob_def
  drop_guard_def with_guard_def pull_source_blob_def pull_blob_def read_blob_def sample_env_simps sample_digest_of sample_which_def
  u64_saturating_add_def u64_max_def blob_size_def image_size_def sample_manifest_def sample_resolved_def sample_names sample_names(4-7) [symmetric] job_root_def

lemma sample_prepared:
  assumes "no_rows w" and "iw_files w = []"
  shows "is_ok (snd (prepare_resolved_image sample_image_env sample_job sample_resolved w))"
  using assms by (simp add: prepare_resolved_image_def sample_run write_blob_bytes_def link_or_copy_def write_layout_def result_defs)

lemma sample_copied:
  assumes "no_rows w" and "iw_files w = []"
  shows "snd (copy_to_registry sample_image_env job sample_resolved destination auth w) = Inr ()"
  using assms by (simp add: copy_to_registry_def sample_run authenticate_push_def at_tick_def blob_exists_def copy_layer_def push_file_def push_bytes_def
    push_manifest_def push_def)

lemma sample_world_ok: "no_rows sample_image_world" "iw_files sample_image_world = []" "blobs_ok sample_image_env (iw_files sample_image_world)"
  by (simp_all add: sample_image_world_def no_rows_def iw_files_def blobs_ok_def)

theorem prepared_image_complete_witness:
  "\<exists>w' prepared. prepare_resolved_image sample_image_env sample_job sample_resolved sample_image_world = (w', Inr prepared)
     \<and> layout_complete sample_image_env (pi_layout prepared) sample_manifest (iw_files w')"
proof -
  obtain w' prepared where run: "prepare_resolved_image sample_image_env sample_job sample_resolved sample_image_world = (w', Inr prepared)"
    using sample_prepared [OF sample_world_ok(1,2)] by (cases "prepare_resolved_image sample_image_env sample_job sample_resolved sample_image_world")
      (auto simp: result_defs split: sum.splits)
  have "resolve_image sample_image_env sample_job sample_image_world = (sample_image_world\<lparr>iw_tick := iw_tick sample_image_world + 2\<rparr>, Inr sample_resolved)"
    by (rule sample_resolve) (simp_all add: sample_job_def)
  from prepared_image_complete [OF sample_laws this sample_world_ok(3) run] run
  show ?thesis by (auto simp: sample_resolved_def)
qed


definition sample_copy :: image_job where
  "sample_copy = sample_job\<lparr>ij_kind := ''copy'', ij_destination_ref := Some ''copy/alpine'', ij_destination_credential_id := Some 3\<rparr>"

definition sample_copy_world :: "plain_url image_world" where
  "sample_copy_world = sample_image_world\<lparr>iw_credentials := [\<lparr>rc_id = 3, rc_name = ''copy'', rc_registry = ''registry.example'',
     rc_auth_mode = ''bearer'', rc_username = None, rc_secret_enc = projr (encrypt plain_crypto (Some [1]) (replicate 12 0) ''pw''),
     rc_generation = 1, rc_created_at = 0, rc_updated_at = 0\<rparr>]\<rparr>"

lemma sample_auth: "credential_auth (ie_credentials sample_image_env) (iw_credentials sample_copy_world) 3 ''registry.example'' = Inr (Bearer_Auth ''pw'')"
proof -
  have dec: "decrypt plain_crypto (Some [1]) (projr (encrypt plain_crypto (Some [1]) (replicate 12 0) ''pw'')) = Inr ''pw''" by code_simp
  have reg: "\<exists>r. normalize_registry (plain_url_ops (\<lambda>s. Some (host_url s))) (\<lambda>_. None) ''registry.example'' = Inr r"
    by (simp add: normalize_registry_def Let_def plain_url_ops_def host_url_def ok_or_def)
  then show ?thesis
    using dec by (auto simp: credential_auth_def sample_image_env_def sample_copy_world_def find_credential_def ok_or_def)
qed

lemma sample_copy_ok: "no_rows sample_copy_world" "iw_files sample_copy_world = []" "blobs_ok sample_image_env (iw_files sample_copy_world)"
  "iw_pushed sample_copy_world = []"
  by (simp_all add: sample_copy_world_def sample_image_world_def no_rows_def iw_files_def blobs_ok_def)

theorem copy_publishes_complete_images_witness:
  "\<exists>w'. copy_image sample_image_env sample_copy sample_resolved sample_copy_world = (w', Inr ())
     \<and> iw_pushed w' \<noteq> [] \<and> last (iw_pushed w') = (Pushed_Manifest sample_manifest, True)"
proof -
  obtain w' r where run: "copy_image sample_image_env sample_copy sample_resolved sample_copy_world = (w', r)" by fastforce
  have "copy_image sample_image_env sample_copy sample_resolved sample_copy_world =
      copy_to_registry sample_image_env sample_copy sample_resolved
        \<lparr>ir_registry = ''registry.example'', ir_repository = ''copy/alpine'', ir_tag = None, ir_digest = None\<rparr> (Bearer_Auth ''pw'') sample_copy_world"
    using no_rows_steps(2) [OF sample_copy_ok(1)] sample_auth
    by (simp add: copy_image_def op_bind_def op_read_def parse_reference_def ok_or_def sample_copy_def sample_env_simps)
  with run sample_copied [OF sample_copy_ok(1,2)] have r: "r = Inr ()" by (metis snd_conv)
  have "resolve_image sample_image_env sample_copy sample_copy_world = (sample_copy_world\<lparr>iw_tick := iw_tick sample_copy_world + 2\<rparr>, Inr sample_resolved)"
    by (rule sample_resolve) (simp_all add: sample_copy_def sample_job_def)
  from copy_publishes_complete_images [OF sample_laws this sample_copy_ok(3) run] r run
  show ?thesis by (auto simp: sample_resolved_def sample_copy_ok)
qed

end
