(* ===== verification/Image_Browsing.thy ===== *)
theory Image_Browsing
  imports Image_Pipeline_Properties Registry_Paths
begin

text \<open>
  What clients see of image jobs: the views of jobs and sync rules, the inspection of an image, and the browser for the files of an
  extracted image (\<^verbatim>\<open>src/src/image_tools.rs\<close>, \<^verbatim>\<open>src/src/image_tools/files.rs\<close>).

  An extracted image may contain any symbolic link, so the browser runs on a file system with links: directories, regular
  files and links below the root, and the resolution of a path with at most 40 links. The response of \<open>ServeFile\<close> to a request for a
  file is a parameter.
\<close>

section \<open>Files with links\<close>

type_synonym raw_path = "bool \<times> string list"

datatype fs_entry = Directory | Regular bytes | Symlink raw_path

record file_system =
  fs_entries :: "(path \<times> fs_entry) list"
  fs_cwd :: path

text \<open>A path is absolute or not, and what stands between its slashes; \<open>components\<close> leaves out the empty parts and the dots.\<close>

definition parse_path :: "string \<Rightarrow> raw_path" where
  "parse_path s = (starts_with ''/'' s, split_char CHR ''/'' s)"

definition no_component :: "string \<Rightarrow> bool" where
  "no_component c \<longleftrightarrow> c = [] \<or> c = ''.''"

definition join_path :: "raw_path \<Rightarrow> raw_path \<Rightarrow> raw_path" where
  "join_path a b = (if fst b then b else (fst a, snd a @ snd b))"

definition lookup_entry :: "file_system \<Rightarrow> path \<Rightarrow> fs_entry option" where
  "lookup_entry F p = (if p = [] then Some Directory else map_of (fs_entries F) p)"

function resolve_path :: "file_system \<Rightarrow> nat \<Rightarrow> path \<Rightarrow> string list \<Rightarrow> path option" where
  "resolve_path F links cur [] = Some cur"
| "resolve_path F links cur (c # rest) =
     (if no_component c then resolve_path F links cur rest
      else if c = ''..'' then resolve_path F links (butlast cur) rest
      else case lookup_entry F (cur @ [c]) of
        None \<Rightarrow> None
      | Some Directory \<Rightarrow> resolve_path F links (cur @ [c]) rest
      | Some (Regular _) \<Rightarrow> if rest = [] then Some (cur @ [c]) else None
      | Some (Symlink target) \<Rightarrow>
          (case links of
             0 \<Rightarrow> None
           | Suc n \<Rightarrow> resolve_path F n (if fst target then [] else cur) (snd target @ rest)))"
  by pat_completeness auto
termination by (relation "measures [\<lambda>(F, links, cur, cs). links, \<lambda>(F, links, cur, cs). length cs]") auto

definition LINK_LIMIT :: nat where
  "LINK_LIMIT = 40"

definition canonicalize :: "file_system \<Rightarrow> raw_path \<Rightarrow> path api_result" where
  "canonicalize F p =
     ok_or (Io ''NotFound'') (resolve_path F LINK_LIMIT (if fst p then [] else fs_cwd F) (snd p))"

section \<open>The browser\<close>

definition safe_join :: "file_system \<Rightarrow> raw_path \<Rightarrow> string \<Rightarrow> path api_result" where
  "safe_join F base relative =
     (let r = parse_path relative in
      if fst r \<or> ''..'' \<in> set (snd r) then Inl (BadRequest ''invalid image file path'')
      else
        result_bind (canonicalize F base) (\<lambda>canonical_root.
        result_bind (canonicalize F (join_path base r)) (\<lambda>canonical.
          if \<not> under canonical_root canonical then Inl Forbidden else Inr canonical)))"

record file_entry =
  fe_path :: string
  fe_name :: string
  fe_kind :: string
  fe_size :: nat

definition entry_kind :: "fs_entry \<Rightarrow> string" where
  "entry_kind x = (case x of Directory \<Rightarrow> ''directory'' | Symlink _ \<Rightarrow> ''symlink'' | Regular _ \<Rightarrow> ''file'')"

definition strip_root :: "raw_path \<Rightarrow> path \<Rightarrow> path option" where
  "strip_root base p =
     (let components = filter (Not \<circ> no_component) (snd base) in
      if fst base \<and> under components p then Some (drop (length components) p) else None)"

fun join_slash :: "path \<Rightarrow> string" where
  "join_slash [] = []"
| "join_slash [c] = c"
| "join_slash (c # cs) = c @ ''/'' @ join_slash cs"

definition dir_entries :: "file_system \<Rightarrow> path \<Rightarrow> (path \<times> fs_entry) list" where
  "dir_entries F directory = filter (\<lambda>(p, _). p \<noteq> [] \<and> butlast p = directory) (fs_entries F)"

definition by_kind_name :: "file_entry \<Rightarrow> file_entry \<Rightarrow> bool" where
  "by_kind_name a b \<longleftrightarrow> fe_kind a < fe_kind b \<or> fe_kind a = fe_kind b \<and> fe_name a \<le> fe_name b"

fun entry_views :: "(fs_entry \<Rightarrow> nat) \<Rightarrow> raw_path \<Rightarrow> (path \<times> fs_entry) list \<Rightarrow> file_entry list api_result" where
  "entry_views len base [] = Inr []"
| "entry_views len base ((p, x) # ps) =
     result_bind (ok_or (Internal ''prefix not found'') (strip_root base p)) (\<lambda>relative.
     result_bind (entry_views len base ps) (\<lambda>vs.
       Inr (\<lparr>fe_path = map (\<lambda>c. if c = CHR 0x5C then CHR ''/'' else c) (join_slash relative), fe_name = last p,
             fe_kind = entry_kind x, fe_size = len x\<rparr> # vs)))"

definition browse_list :: "file_system \<Rightarrow> (fs_entry \<Rightarrow> nat) \<Rightarrow> raw_path \<Rightarrow> string \<Rightarrow> file_entry list api_result" where
  "browse_list F len base relative =
     result_bind (safe_join F base relative) (\<lambda>directory.
       if lookup_entry F directory \<noteq> Some Directory then Inl (Io ''NotADirectory'')
       else result_bind (entry_views len base (dir_entries F directory)) (\<lambda>entries. Inr (sort_by by_kind_name entries)))"

type_synonym file_server = "bytes option \<Rightarrow> proxy_request \<Rightarrow> proxy_response"

definition attachment :: "string \<Rightarrow> string" where
  "attachment name = ''attachment; filename=\"'' @ map (\<lambda>c. if c \<in> {CHR 0x22, CHR 0x0D, CHR 0x0A} then CHR ''_'' else c) name @ [CHR 0x22]"

definition serve_path :: "file_server \<Rightarrow> bytes option \<Rightarrow> string option \<Rightarrow> proxy_request \<Rightarrow> proxy_response api_result" where
  "serve_path server content name req =
     (let r = server content req in
      case name of
        None \<Rightarrow> Inr r
      | Some n \<Rightarrow>
          if header_value_ok (attachment n) then Inr (r\<lparr>px_headers := header_insert ''content-disposition'' (attachment n) (px_headers r)\<rparr>)
          else Inl (Internal ''failed to parse header value''))"

definition serve_file :: "file_system \<Rightarrow> file_server \<Rightarrow> raw_path \<Rightarrow> string \<Rightarrow> proxy_request \<Rightarrow> proxy_response api_result" where
  "serve_file F server base relative req =
     result_bind (safe_join F base relative) (\<lambda>p.
       case lookup_entry F p of
         Some (Regular content) \<Rightarrow> serve_path server (Some content) None req
       | Some _ \<Rightarrow> Inl (BadRequest ''only regular files can be downloaded'')
       | None \<Rightarrow> Inl (Io ''NotFound''))"

section \<open>Handlers\<close>

definition completed_job :: "job_tables \<Rightarrow> uuid \<Rightarrow> image_job api_result" where
  "completed_job T i =
     result_bind (ok_or (NotFound ''image job'') (find_job i T)) (\<lambda>job.
       if ij_status job \<noteq> ''completed'' then Inl (BadRequest ''image job is not completed'') else Inr job)"

text \<open>\<open>is_file\<close> and \<open>is_dir\<close> follow links.\<close>

definition path_entry :: "file_system \<Rightarrow> raw_path \<Rightarrow> fs_entry option" where
  "path_entry F p = (case canonicalize F p of Inl _ \<Rightarrow> None | Inr q \<Rightarrow> lookup_entry F q)"

definition extracted_root :: "file_system \<Rightarrow> job_tables \<Rightarrow> uuid \<Rightarrow> raw_path api_result" where
  "extracted_root F T i =
     result_bind (completed_job T i) (\<lambda>job.
       case map_option parse_path (ij_artifact_path job) of
         None \<Rightarrow> Inl (NotFound ''extracted image'')
       | Some p \<Rightarrow> if path_entry F p = Some Directory then Inr p else Inl (NotFound ''extracted image''))"

definition download_artifact :: "file_system \<Rightarrow> file_server \<Rightarrow> job_tables \<Rightarrow> uuid \<Rightarrow> proxy_request \<Rightarrow> proxy_response api_result" where
  "download_artifact F server T i req =
     result_bind (completed_job T i) (\<lambda>job.
       case Option.bind (map_option parse_path (ij_artifact_path job)) (path_entry F) of
         Some (Regular content) \<Rightarrow> serve_path server (Some content) (ij_artifact_name job) req
       | _ \<Rightarrow> Inl (NotFound ''image artifact''))"

definition list_files :: "file_system \<Rightarrow> (fs_entry \<Rightarrow> nat) \<Rightarrow> job_tables \<Rightarrow> uuid \<Rightarrow> string \<Rightarrow> file_entry list api_result" where
  "list_files F len T i relative = result_bind (extracted_root F T i) (\<lambda>base. browse_list F len base relative)"

definition download_file :: "file_system \<Rightarrow> file_server \<Rightarrow> job_tables \<Rightarrow> uuid \<Rightarrow> string \<Rightarrow> proxy_request \<Rightarrow> proxy_response api_result" where
  "download_file F server T i relative req = result_bind (extracted_root F T i) (\<lambda>base. serve_file F server base relative req)"

section \<open>Views\<close>

record image_job_view =
  jv_id :: uuid
  jv_kind :: string
  jv_status :: string
  jv_source_ref :: string
  jv_source_node_id :: "uuid option"
  jv_source_credential_id :: "uuid option"
  jv_destination_ref :: "string option"
  jv_destination_credential_id :: "uuid option"
  jv_platform_os :: string
  jv_platform_arch :: string
  jv_output_format :: "string option"
  jv_resolved_digest :: "string option"
  jv_index_digest :: "string option"
  jv_stage :: string
  jv_progress_bytes :: int
  jv_total_bytes :: int
  jv_artifact_name :: "string option"
  jv_error :: "string option"
  jv_cancel_requested :: bool
  jv_created_at :: timestamp
  jv_updated_at :: timestamp

definition image_job_view_from :: "image_job \<Rightarrow> image_job_view" where
  "image_job_view_from job =
     \<lparr>jv_id = ij_id job, jv_kind = ij_kind job, jv_status = ij_status job, jv_source_ref = ij_source_ref job,
      jv_source_node_id = ij_source_node_id job, jv_source_credential_id = ij_source_credential_id job,
      jv_destination_ref = ij_destination_ref job, jv_destination_credential_id = ij_destination_credential_id job,
      jv_platform_os = ij_platform_os job, jv_platform_arch = ij_platform_arch job, jv_output_format = ij_output_format job,
      jv_resolved_digest = ij_resolved_digest job, jv_index_digest = ij_index_digest job, jv_stage = ij_stage job,
      jv_progress_bytes = ij_progress_bytes job, jv_total_bytes = ij_total_bytes job, jv_artifact_name = ij_artifact_name job,
      jv_error = ij_error job, jv_cancel_requested = ij_cancel_requested job, jv_created_at = ij_created_at job,
      jv_updated_at = ij_updated_at job\<rparr>"

record image_sync_rule_view =
  yv_id :: uuid
  yv_name :: string
  yv_enabled :: bool
  yv_source_ref :: string
  yv_source_node_id :: "uuid option"
  yv_source_credential_id :: "uuid option"
  yv_destination_ref :: string
  yv_destination_credential_id :: uuid
  yv_platform_os :: string
  yv_platform_arch :: string
  yv_cron :: string
  yv_timezone :: string
  yv_last_digest :: "string option"
  yv_last_run_at :: "timestamp option"
  yv_next_run_at :: "timestamp option"

definition image_sync_rule_view_from :: "image_sync_rule \<Rightarrow> image_sync_rule_view" where
  "image_sync_rule_view_from rule =
     \<lparr>yv_id = sy_id rule, yv_name = sy_name rule, yv_enabled = sy_enabled rule, yv_source_ref = sy_source_ref rule,
      yv_source_node_id = sy_source_node_id rule, yv_source_credential_id = sy_source_credential_id rule,
      yv_destination_ref = sy_destination_ref rule, yv_destination_credential_id = sy_destination_credential_id rule,
      yv_platform_os = sy_platform_os rule, yv_platform_arch = sy_platform_arch rule, yv_cron = sy_cron rule,
      yv_timezone = sy_timezone rule, yv_last_digest = sy_last_digest rule, yv_last_run_at = sy_last_run_at rule,
      yv_next_run_at = sy_next_run_at rule\<rparr>"

definition latest_first :: "image_job \<Rightarrow> image_job \<Rightarrow> bool" where
  "latest_first a b \<longleftrightarrow> ij_created_at b \<le> ij_created_at a"

definition list_jobs :: "nat \<Rightarrow> job_tables \<Rightarrow> image_job_view list" where
  "list_jobs limit T = map image_job_view_from (take (min limit 500) (sort_by latest_first (jt_jobs T)))"

definition get_job :: "uuid \<Rightarrow> job_tables \<Rightarrow> image_job_view api_result" where
  "get_job i T = result_bind (ok_or (NotFound ''image job'') (find_job i T)) (\<lambda>job. Inr (image_job_view_from job))"

definition create_job_handler ::
  "('s, 'z) job_env \<Rightarrow> (nat \<Rightarrow> job_tables \<Rightarrow> job_tables) \<Rightarrow> headers \<Rightarrow> job_input \<Rightarrow> uuid \<Rightarrow> timestamp \<Rightarrow> (job_tables, nat \<times> image_job_view) fallible" where
  "create_job_handler env other hs input new_id now =
     op_bind (create_job env other input (header_get ''idempotency-key'' hs) new_id now) (\<lambda>job. op_read (\<lambda>_. Inr (201, image_job_view_from job)))"

definition by_rule_name :: "image_sync_rule \<Rightarrow> image_sync_rule \<Rightarrow> bool" where
  "by_rule_name a b \<longleftrightarrow> sy_name a \<le> sy_name b"

definition list_rules :: "job_tables \<Rightarrow> image_sync_rule_view list" where
  "list_rules T = map image_sync_rule_view_from (sort_by by_rule_name (jt_rules T))"

section \<open>Inspection\<close>

record inspect_input =
  nq_source_ref :: string
  nq_source_node_id :: "uuid option"
  nq_source_credential_id :: "uuid option"
  nq_platform_os :: string
  nq_platform_arch :: string

text \<open>The configuration as JSON: whether it is an object, and for a key whether it is there and is a string.\<close>

record config_json =
  cj_object :: bool
  cj_string :: "string \<Rightarrow> bool option"

record image_inspection =
  nv_source_ref :: string
  nv_digest :: string
  nv_index_digest :: "string option"
  nv_total_bytes :: nat
  nv_manifest :: oci_image_manifest
  nv_config :: config_json

definition parse_inspection_config :: "(string \<Rightarrow> config_json option) \<Rightarrow> string \<Rightarrow> config_json api_result" where
  "parse_inspection_config json raw =
     result_bind (ok_or (Upstream ''invalid image config JSON'') (json raw)) (\<lambda>config.
       if \<not> cj_object config \<or> list_ex (\<lambda>key. cj_string config key = Some False) [''os'', ''architecture'']
       then Inl (Upstream ''invalid image config platform fields'') else Inr config)"

definition inspect_image ::
  "('s, 'z) job_env \<Rightarrow> 'u image_env \<Rightarrow> (string \<Rightarrow> config_json option) \<Rightarrow> inspect_input \<Rightarrow> uuid \<Rightarrow> timestamp \<Rightarrow> ('u image_world, image_inspection) fallible" where
  "inspect_image jenv env json query new_id now =
     (let input = \<lparr>ji_kind = ''extract'', ji_source_ref = nq_source_ref query, ji_source_node_id = nq_source_node_id query,
            ji_source_credential_id = nq_source_credential_id query, ji_destination_ref = None, ji_destination_credential_id = None,
            ji_platform_os = nq_platform_os query, ji_platform_arch = nq_platform_arch query, ji_output_format = None\<rparr>;
          job = pending_job new_id input Extract None now in
     op_bind (op_read (\<lambda>_. validate_job jenv input)) (\<lambda>_.
     op_bind (resolve_image env job) (\<lambda>resolved.
     op_bind (op_read (\<lambda>_. parse_inspection_config json (pm_config_json (ri_pulled resolved)))) (\<lambda>config.
       op_read (\<lambda>_. Inr \<lparr>nv_source_ref = ij_source_ref job, nv_digest = pm_digest (ri_pulled resolved),
         nv_index_digest = pm_index_digest (ri_pulled resolved), nv_total_bytes = image_size (pm_manifest (ri_pulled resolved)),
         nv_manifest = pm_manifest (ri_pulled resolved), nv_config = config\<rparr>)))))"

text \<open>An inspection leaves the files, the tables and every other Registry alone.\<close>

lemma inspect_image_quiet: "quiet (inspect_image jenv env json query new_id now)"
  unfolding inspect_image_def Let_def by (intro quiet_rules quiet_resolve)

section \<open>Confinement\<close>

definition real_path :: "file_system \<Rightarrow> path \<Rightarrow> bool" where
  "real_path F p \<longleftrightarrow>
     list_all (\<lambda>n. case lookup_entry F (take n p) of None \<Rightarrow> False | Some (Symlink _) \<Rightarrow> False | Some _ \<Rightarrow> True) [0..<Suc (length p)]"

lemma real_path_Nil: "real_path F []"
  by (simp add: real_path_def lookup_entry_def)

lemma real_path_snoc:
  "real_path F (p @ [c]) \<longleftrightarrow> real_path F p \<and> (case lookup_entry F (p @ [c]) of None \<Rightarrow> False | Some (Symlink _) \<Rightarrow> False | Some _ \<Rightarrow> True)"
  by (auto simp: real_path_def list_all_iff less_Suc_eq)

lemma real_path_butlast: "real_path F p \<Longrightarrow> real_path F (butlast p)"
  by (cases p rule: rev_cases) (auto simp: real_path_snoc real_path_Nil)

lemma resolve_path_real: "resolve_path F links cur cs = Some p \<Longrightarrow> real_path F cur \<Longrightarrow> real_path F p"
  by (induction F links cur cs rule: resolve_path.induct)
    (auto simp: real_path_snoc real_path_butlast real_path_Nil split: if_splits option.splits fs_entry.splits nat.splits)

lemma canonicalize_real: "canonicalize F q = Inr p \<Longrightarrow> real_path F (fs_cwd F) \<Longrightarrow> real_path F p"
  by (auto simp: canonicalize_def ok_or_def real_path_Nil split: if_splits option.splits dest: resolve_path_real)

lemma safe_join_confined:
  assumes "real_path F (fs_cwd F)" and "safe_join F base relative = Inr p"
  shows "\<exists>top. canonicalize F base = Inr top \<and> under top p \<and> real_path F p"
proof -
  from assms(2) obtain top where "canonicalize F base = Inr top" "under top p" and p: "canonicalize F (join_path base (parse_path relative)) = Inr p"
    by (auto simp: safe_join_def Let_def split: if_splits)
  with canonicalize_real [OF p assms(1)] show ?thesis by blast
qed

text \<open>
  C33: The browser of extracted images cannot be led out of an image, whatever symbolic links the image contains and
  whatever path a client asks for: a file that is served is a regular file that lies, after all links have been followed, below
  the real directory of the extracted image of that job, and the job has completed.
\<close>

theorem browser_confined:
  assumes "real_path F (fs_cwd F)" and "download_file F server T i relative req = Inr r"
  shows "\<exists>job artifact top p content. find_job i T = Some job \<and> ij_status job = ''completed'' \<and> ij_artifact_path job = Some artifact
     \<and> canonicalize F (parse_path artifact) = Inr top \<and> lookup_entry F top = Some Directory
     \<and> under top p \<and> real_path F p \<and> lookup_entry F p = Some (Regular content) \<and> r = server (Some content) req"
proof -
  from assms(2) obtain base where root: "extracted_root F T i = Inr base" and serve: "serve_file F server base relative req = Inr r"
    by (auto simp: download_file_def)
  from root obtain job artifact where job: "find_job i T = Some job" "ij_status job = ''completed''" "ij_artifact_path job = Some artifact"
      "base = parse_path artifact" and dir: "path_entry F base = Some Directory"
    by (auto simp: extracted_root_def completed_job_def ok_or_def split: option.splits if_splits)
  from serve obtain p where p: "safe_join F base relative = Inr p" and rest: "(case lookup_entry F p of
         Some (Regular content) \<Rightarrow> serve_path server (Some content) None req
       | Some _ \<Rightarrow> Inl (BadRequest ''only regular files can be downloaded'') | None \<Rightarrow> Inl (Io ''NotFound'')) = Inr r"
    by (auto simp: serve_file_def)
  from rest obtain content where content: "lookup_entry F p = Some (Regular content)" "r = server (Some content) req"
    by (auto simp: serve_path_def split: option.splits fs_entry.splits)
  from safe_join_confined [OF assms(1) p] obtain top where top: "canonicalize F base = Inr top" "under top p" "real_path F p" by blast
  from dir top(1) have "lookup_entry F top = Some Directory" by (simp add: path_entry_def)
  with job content top show ?thesis by blast
qed

text \<open>An image with a file, and with a link to the directory of the secrets.\<close>

definition hostile_files :: file_system where
  "hostile_files =
     \<lparr>fs_entries = [([''d''], Directory), ([''d'', ''a''], Regular [1]), ([''d'', ''out''], Symlink (True, [''secrets''])),
        ([''d'', ''up''], Symlink (False, [''..'', ''secrets''])), ([''secrets''], Directory), ([''secrets'', ''key''], Regular [9])],
      fs_cwd = []\<rparr>"

definition plain_server :: file_server where
  "plain_server content req = \<lparr>px_status = 200, px_headers = [], px_body = [Inr (case content of None \<Rightarrow> [] | Some c \<Rightarrow> c)]\<rparr>"

definition browsed_tables :: job_tables where
  "browsed_tables = no_jobs\<lparr>jt_jobs := [running_job\<lparr>ij_status := ''completed'', ij_artifact_path := Some ''/d''\<rparr>]\<rparr>"

lemma links_refused:
  "safe_join hostile_files (parse_path ''/d'') ''out/key'' = Inl Forbidden" "safe_join hostile_files (parse_path ''/d'') ''up/key'' = Inl Forbidden"
  "safe_join hostile_files (parse_path ''/d'') ''a'' = Inr [''d'', ''a'']"
  by code_simp+

theorem browser_confined_witness:
  "\<exists>r. download_file hostile_files plain_server browsed_tables 7 ''a'' \<lparr>pq_method = ''GET'', pq_uri = \<lparr>uri_path = ''/'', uri_query = None\<rparr>, pq_headers = []\<rparr> = Inr r
     \<and> (\<exists>p content. under [''d''] p \<and> lookup_entry hostile_files p = Some (Regular content) \<and> px_body r = [Inr content])"
proof -
  let ?req = "\<lparr>pq_method = ''GET'', pq_uri = \<lparr>uri_path = ''/'', uri_query = None\<rparr>, pq_headers = []\<rparr> :: proxy_request"
  have "path_entry hostile_files (parse_path ''/d'') = Some Directory" "lookup_entry hostile_files [''d'', ''a''] = Some (Regular [1])" by code_simp+
  then have "\<exists>r. download_file hostile_files plain_server browsed_tables 7 ''a'' ?req = Inr r"
    using links_refused(3) by (simp add: download_file_def extracted_root_def completed_job_def browsed_tables_def no_jobs_def running_job_def
        pending_job_def find_job_def ok_or_def serve_file_def serve_path_def)
  then obtain r where r: "download_file hostile_files plain_server browsed_tables 7 ''a'' ?req = Inr r" ..
  have cwd: "real_path hostile_files (fs_cwd hostile_files)" by (simp add: hostile_files_def real_path_Nil)
  from browser_confined [OF cwd r] obtain job artifact top p content where found: "find_job 7 browsed_tables = Some job" "ij_artifact_path job = Some artifact"
      "canonicalize hostile_files (parse_path artifact) = Inr top" "under top p" "lookup_entry hostile_files p = Some (Regular content)"
      "r = plain_server (Some content) ?req" by blast
  have "artifact = ''/d''" using found(1,2) by (auto simp: browsed_tables_def no_jobs_def find_job_def running_job_def pending_job_def)
  moreover have "canonicalize hostile_files (parse_path ''/d'') = Inr [''d'']" by code_simp
  ultimately have "top = [''d'']" using found(3) by simp
  with found r show ?thesis by (auto simp: plain_server_def)
qed

text \<open>
  The listing compares the canonical, absolute path of an entry with the root as it was configured: with a relative data directory, which is
  the default, every listing of a directory that is not empty fails.
\<close>

lemma relative_root_listing_fails:
  assumes "\<not> fst base" and "safe_join F base relative = Inr directory" and "lookup_entry F directory = Some Directory"
    and "dir_entries F directory \<noteq> []"
  shows "browse_list F len base relative = Inl (Internal ''prefix not found'')"
  using assms by (cases "dir_entries F directory") (auto simp: browse_list_def strip_root_def ok_or_def Let_def)

end
