(* ===== verification/Settings_Snapshot.thy ===== *)
theory Settings_Snapshot
  imports Runtime_Settings Node_Proofs
begin

text \<open>
  Export and import of the settings, routes and nodes of an instance (\<^verbatim>\<open>src/src/api.rs\<close>). A snapshot carries no secrets. An import
  is checked and prepared against the tables first and then written in one transaction.
\<close>

section \<open>Snapshots\<close>

record export_node =
  en_name :: string
  en_url :: string
  en_registry_route :: string
  en_enabled :: bool
  en_priority :: int
  en_max_concurrency :: nat
  en_cf_preferred :: bool
  en_connect_ip_type :: string
  en_connect_ip :: "string option"
  en_auth_mode :: string
  en_auth_username :: "string option"
  en_auth_header :: "string option"

record runtime_settings_export =
  rx_format :: string
  rx_version :: nat
  rx_settings :: "runtime_settings_input option"
  rx_registry_routes :: "registry_route_view list"
  rx_nodes :: "export_node list"

text \<open>The tables of an instance that a snapshot is about, and its node service.\<close>

record app_tables =
  at_nodes :: node_tables
  at_settings :: "(string \<times> string) list"

definition export_node_of :: "node_view \<Rightarrow> export_node" where
  "export_node_of v =
     \<lparr>en_name = nd_name (nv_node v), en_url = nd_url (nv_node v), en_registry_route = rs_key (nv_route v),
      en_enabled = nd_enabled (nv_node v), en_priority = nd_priority (nv_node v), en_max_concurrency = nv_max_concurrency v,
      en_cf_preferred = nd_cf_preferred (nv_node v), en_connect_ip_type = nd_connect_ip_type (nv_node v),
      en_connect_ip = nd_connect_ip (nv_node v), en_auth_mode = nd_auth_mode (nv_node v),
      en_auth_username = nd_auth_username (nv_node v), en_auth_header = nd_auth_header (nv_node v)\<rparr>"

definition SNAPSHOT_FORMAT :: string where
  "SNAPSHOT_FORMAT = ''donkey-runtime-settings''"

definition export_runtime ::
  "'t text_forms \<Rightarrow> 'u node_env \<Rightarrow> config \<Rightarrow> instant \<Rightarrow> app_tables \<Rightarrow> node_service \<Rightarrow> runtime_settings_export api_result \<times> node_service" where
  "export_runtime tf env config clock A S =
     (case effective_config tf config (at_settings A) of
        Inl e \<Rightarrow> (Inl e, S)
      | Inr c \<Rightarrow>
          (case list_node_views env clock (at_nodes A) S of
             (Inl e, S') \<Rightarrow> (Inl e, S')
           | (Inr vs, S') \<Rightarrow>
               (Inr \<lparr>rx_format = SNAPSHOT_FORMAT, rx_version = 1, rx_settings = Some (exported_settings c),
                     rx_registry_routes = list_routes (nt_routes (at_nodes A)), rx_nodes = map export_node_of vs\<rparr>, S')))"

section \<open>Checks\<close>

fun validate_import_routes :: "string list \<Rightarrow> registry_route_view list \<Rightarrow> string list api_result" where
  "validate_import_routes keys [] = Inr keys"
| "validate_import_routes keys (route # routes) =
     (if rr_key route \<in> set keys then Inl (BadRequest (''duplicate Registry route key '' @ [CHR 0x27] @ rr_key route @ [CHR 0x27]))
      else if trim (rr_key route) = [] \<or> trim (rr_canonical_registry route) = []
      then Inl (BadRequest ''Registry route key and canonical registry are required'')
      else validate_import_routes (rr_key route # keys) routes)"

fun validate_import_nodes :: "string list \<Rightarrow> registry_route_view list \<Rightarrow> export_node list \<Rightarrow> unit api_result" where
  "validate_import_nodes keys existing [] = Inr ()"
| "validate_import_nodes keys existing (node # nodes) =
     (if en_auth_mode node \<notin> {''none'', ''basic'', ''bearer'', ''header''}
      then Inl (BadRequest (''node '' @ [CHR 0x27] @ en_name node @ [CHR 0x27] @ '' has an invalid authentication mode''))
      else if \<not> (1 \<le> en_max_concurrency node \<and> en_max_concurrency node \<le> 64)
      then Inl (BadRequest (''node '' @ [CHR 0x27] @ en_name node @ [CHR 0x27] @ '' has an invalid concurrency limit''))
      else if en_registry_route node \<notin> set keys \<and> \<not> list_ex (\<lambda>route. rr_key route = en_registry_route node) existing
      then Inl (BadRequest (''unknown Registry route '' @ [CHR 0x27] @ en_registry_route node @ [CHR 0x27]))
      else validate_import_nodes keys existing nodes)"

definition validate_import_snapshot :: "route_tables \<Rightarrow> runtime_settings_export \<Rightarrow> unit api_result" where
  "validate_import_snapshot T export =
     result_bind (validate_import_routes [] (rx_registry_routes export)) (\<lambda>keys.
       validate_import_nodes keys (list_routes T) (rx_nodes export))"

section \<open>Preparation\<close>

record prepared_route =
  pr_model :: registry_route
  pr_exists :: bool

record prepared_node =
  pn_model :: node_model
  pn_max_concurrency :: nat
  pn_exists :: bool

text \<open>\<open>fresh n\<close> is the UUID of the n-th row of the snapshot.\<close>

definition prepare_route ::
  "authority_parser \<Rightarrow> uuid \<Rightarrow> timestamp \<Rightarrow> route_tables \<Rightarrow> registry_route_view \<Rightarrow> prepared_route api_result" where
  "prepare_route parse fresh now T route =
     result_bind (normalize_input parse \<lparr>in_key = rr_key route, in_name = rr_name route, in_canonical_registry = rr_canonical_registry route,
         in_path_prefix = rr_path_prefix route, in_repository_mode = rr_repository_mode route, in_is_default = rr_is_default route,
         in_enabled = rr_enabled route\<rparr>) (\<lambda>n.
       let existing = find (\<lambda>r. rr_key r = nr_key n) (rt_routes T) in
       Inr \<lparr>pr_model = route_of_input (case existing of None \<Rightarrow> fresh | Some r \<Rightarrow> rr_id r)
              (case existing of None \<Rightarrow> now | Some r \<Rightarrow> rr_created_at r) now n,
            pr_exists = (existing \<noteq> None)\<rparr>)"

fun prepare_routes ::
  "authority_parser \<Rightarrow> (nat \<Rightarrow> uuid) \<Rightarrow> timestamp \<Rightarrow> route_tables \<Rightarrow> nat \<Rightarrow> registry_route_view list \<Rightarrow> prepared_route list api_result" where
  "prepare_routes parse fresh now T k [] = Inr []"
| "prepare_routes parse fresh now T k (route # routes) =
     result_bind (prepare_route parse (fresh k) now T route) (\<lambda>p.
     result_bind (prepare_routes parse fresh now T (Suc k) routes) (\<lambda>ps. Inr (p # ps)))"

definition route_ids :: "route_tables \<Rightarrow> prepared_route list \<Rightarrow> string \<Rightarrow> uuid option" where
  "route_ids T ps = fold (\<lambda>p m. m(rr_key (pr_model p) \<mapsto> rr_id (pr_model p))) ps (map_of (rev (map (\<lambda>r. (rr_key r, rr_id r)) (rt_routes T))))"

definition prepare_node ::
  "'u node_env \<Rightarrow> config \<Rightarrow> (string \<Rightarrow> uuid option) \<Rightarrow> uuid \<Rightarrow> timestamp \<Rightarrow> node_tables \<Rightarrow> export_node \<Rightarrow> prepared_node api_result" where
  "prepare_node env config ids fresh now N node =
     result_bind (ok_or (BadRequest (''unknown Registry route '' @ [CHR 0x27] @ en_registry_route node @ [CHR 0x27])) (ids (en_registry_route node))) (\<lambda>route_id.
     let input = \<lparr>ni_name = en_name node, ni_url = en_url node, ni_registry_route_id = route_id, ni_enabled = en_enabled node,
           ni_priority = en_priority node, ni_max_concurrency = en_max_concurrency node, ni_cf_preferred = en_cf_preferred node,
           ni_connect_ip_type = en_connect_ip_type node, ni_connect_ip = en_connect_ip node, ni_auth_mode = ''none'',
           ni_auth_username = None, ni_auth_header = None, ni_auth_secret = None\<rparr> in
     result_bind (validate_input input) (\<lambda>_.
     result_bind (case en_connect_ip node of None \<Rightarrow> Inr () | Some target \<Rightarrow> validate_connect_target_syntax target (en_connect_ip_type node)) (\<lambda>_.
     result_bind (validate_upstream (ne_url env) (ne_lookup env) (en_url node) config) (\<lambda>validated.
     let canonical = url_as_str (ne_url env) (vu_url validated);
         existing = get_node_by_route_and_url route_id canonical N in
     result_bind (normalize_connect_ip_type (en_connect_ip_type node)) (\<lambda>connect_ip_type.
       Inr \<lparr>pn_model = \<lparr>nd_id = (case existing of None \<Rightarrow> fresh | Some n \<Rightarrow> nd_id n), nd_name = trim (en_name node), nd_url = canonical,
              nd_registry_route_id = route_id, nd_enabled = (en_enabled node \<and> en_auth_mode node = ''none''), nd_priority = en_priority node,
              nd_cf_preferred = en_cf_preferred node, nd_connect_ip_type = connect_ip_type, nd_connect_ip = en_connect_ip node,
              nd_auth_mode = en_auth_mode node, nd_auth_username = en_auth_username node, nd_auth_header = en_auth_header node,
              nd_auth_secret_enc = None, nd_created_at = (case existing of None \<Rightarrow> now | Some n \<Rightarrow> nd_created_at n), nd_updated_at = now\<rparr>,
            pn_max_concurrency = en_max_concurrency node, pn_exists = (existing \<noteq> None)\<rparr>)))))"

fun prepare_nodes ::
  "'u node_env \<Rightarrow> config \<Rightarrow> (string \<Rightarrow> uuid option) \<Rightarrow> (nat \<Rightarrow> uuid) \<Rightarrow> timestamp \<Rightarrow> node_tables \<Rightarrow> nat \<Rightarrow> export_node list
     \<Rightarrow> prepared_node list api_result" where
  "prepare_nodes env config ids fresh now N k [] = Inr []"
| "prepare_nodes env config ids fresh now N k (node # nodes) =
     result_bind (prepare_node env config ids (fresh k) now N node) (\<lambda>p.
     result_bind (prepare_nodes env config ids fresh now N (Suc k) nodes) (\<lambda>ps. Inr (p # ps)))"

section \<open>The transaction\<close>

definition db_app_error :: "db_error \<Rightarrow> app_error" where
  "db_app_error e =
     (case e of UniqueConstraintViolation \<Rightarrow> Database ''UNIQUE constraint failed'' | ForeignKeyConstraintViolation \<Rightarrow> Database ''FOREIGN KEY constraint failed''
      | OtherDbErr m \<Rightarrow> Database m)"

definition clear_defaults :: "prepared_route list \<Rightarrow> route_tables \<Rightarrow> route_tables" where
  "clear_defaults ps T =
     (if list_ex (\<lambda>p. rr_is_default (pr_model p)) ps then T\<lparr>rt_routes := map (\<lambda>r. r\<lparr>rr_is_default := False\<rparr>) (rt_routes T)\<rparr> else T)"

definition clear_prefixes :: "prepared_route list \<Rightarrow> route_tables \<Rightarrow> route_tables" where
  "clear_prefixes ps T =
     T\<lparr>rt_routes := map (\<lambda>r. if rr_id r \<in> set (map (rr_id \<circ> pr_model) ps) then r\<lparr>rr_path_prefix := None\<rparr> else r) (rt_routes T)\<rparr>"

definition write_route :: "prepared_route \<Rightarrow> route_tables \<Rightarrow> route_tables api_result" where
  "write_route p T =
     (if pr_exists p
      then (case update_route (pr_model p) T of (T', Inl e) \<Rightarrow> Inl (db_app_error e) | (T', Inr _) \<Rightarrow> Inr T')
      else (case insert_route (pr_model p) T of (T', Inl e) \<Rightarrow> Inl (db_app_error e) | (T', Inr _) \<Rightarrow> Inr T'))"

definition insert_metric :: "node_metric \<Rightarrow> node_tables \<Rightarrow> node_tables api_result" where
  "insert_metric metric N =
     (if nt_metrics N (nm_node_id metric) \<noteq> None then Inl (Database ''UNIQUE constraint failed'')
      else case upsert_metric metric N of (N', Inl e) \<Rightarrow> Inl e | (N', Inr _) \<Rightarrow> Inr N')"

definition write_node :: "prepared_node \<Rightarrow> node_tables \<Rightarrow> node_tables api_result" where
  "write_node p N =
     result_bind
       (if pn_exists p
        then (case save_node (pn_model p) N of (N', Inl e) \<Rightarrow> Inl (db_app_error e) | (N', Inr _) \<Rightarrow> Inr N')
        else (case insert_node (pn_model p) N of
                (N', Inl e) \<Rightarrow> Inl (db_app_error e)
              | (N', Inr _) \<Rightarrow> insert_metric (empty_metric (nd_id (pn_model p))) N')) (\<lambda>N1.
     case set_node_max_concurrency (nd_id (pn_model p)) (pn_max_concurrency p) N1 of (N2, Inl e) \<Rightarrow> Inl e | (N2, Inr _) \<Rightarrow> Inr N2)"

fun write_all_rows :: "('p \<Rightarrow> 't \<Rightarrow> 't api_result) \<Rightarrow> 'p list \<Rightarrow> 't \<Rightarrow> 't api_result" where
  "write_all_rows write [] T = Inr T"
| "write_all_rows write (p # ps) T = result_bind (write p T) (write_all_rows write ps)"

definition apply_prepared_snapshot ::
  "'t text_forms \<Rightarrow> prepared_route list \<Rightarrow> prepared_node list \<Rightarrow> runtime_settings_input option \<Rightarrow> app_tables \<Rightarrow> app_tables api_result" where
  "apply_prepared_snapshot tf routes nodes settings A =
     (let N = at_nodes A in
      result_bind (write_all_rows write_route routes (clear_prefixes routes (clear_defaults routes (nt_routes N)))) (\<lambda>T.
      result_bind (write_all_rows write_node nodes (N\<lparr>nt_routes := T\<rparr>)) (\<lambda>N'.
        Inr \<lparr>at_nodes = N',
             at_settings = (case settings of None \<Rightarrow> at_settings A | Some i \<Rightarrow> fold upsert_setting (runtime_setting_values tf i) [])\<rparr>)))"

definition apply_runtime_snapshot ::
  "'t text_forms \<Rightarrow> 'u node_env \<Rightarrow> authority_parser \<Rightarrow> config \<Rightarrow> (nat \<Rightarrow> uuid) \<Rightarrow> timestamp \<Rightarrow> runtime_settings_export
     \<Rightarrow> app_tables \<Rightarrow> app_tables \<times> unit api_result" where
  "apply_runtime_snapshot tf env parse config fresh now export A =
     (case result_bind (prepare_routes parse fresh now (nt_routes (at_nodes A)) 0 (rx_registry_routes export)) (\<lambda>routes.
           result_bind (prepare_nodes env config (route_ids (nt_routes (at_nodes A)) routes) fresh now (at_nodes A)
               (length (rx_registry_routes export)) (rx_nodes export)) (\<lambda>nodes.
             apply_prepared_snapshot tf routes nodes (rx_settings export) A)) of
        Inl e \<Rightarrow> (A, Inl e)
      | Inr A' \<Rightarrow> (A', Inr ()))"

text \<open>\<open>import_runtime\<close> up to the configuration it applies to the running components.\<close>

definition import_runtime ::
  "'t text_forms \<Rightarrow> 'u node_env \<Rightarrow> authority_parser \<Rightarrow> config \<Rightarrow> (nat \<Rightarrow> uuid) \<Rightarrow> timestamp \<Rightarrow> runtime_settings_export
     \<Rightarrow> app_tables \<Rightarrow> app_tables \<times> config api_result" where
  "import_runtime tf env parse config fresh now export A =
     (if rx_format export \<noteq> SNAPSHOT_FORMAT \<or> rx_version export \<noteq> 1 then (A, Inl (BadRequest ''unsupported settings export format''))
      else
        case result_bind (case rx_settings export of None \<Rightarrow> Inr () | Some i \<Rightarrow> validate_runtime_settings i) (\<lambda>_.
               validate_import_snapshot (nt_routes (at_nodes A)) export) of
          Inl e \<Rightarrow> (A, Inl e)
        | Inr _ \<Rightarrow>
            (case apply_runtime_snapshot tf env parse config fresh now export A of
               (A', Inl e) \<Rightarrow> (A', Inl e)
             | (A', Inr _) \<Rightarrow> (A', effective_config tf config (at_settings A'))))"

section \<open>An import is one transaction that brings no credentials\<close>

lemma write_all_rows_keep:
  assumes "\<And>p T T'. p \<in> set ps \<Longrightarrow> P T \<Longrightarrow> write p T = Inr T' \<Longrightarrow> P T'" and "P T" and "write_all_rows write ps T = Inr T'"
  shows "P T'"
  using assms by (induction ps arbitrary: T) (auto split: sum.splits)

definition route_id_set :: "route_tables \<Rightarrow> uuid set" where
  "route_id_set T = rr_id ` set (rt_routes T)"

text \<open>What the statements on routes keep of \<open>T0\<close>.\<close>

definition routes_extend :: "route_tables \<Rightarrow> route_tables \<Rightarrow> bool" where
  "routes_extend T0 T \<longleftrightarrow>
     no_clash (rt_routes T) \<and> route_id_set T0 \<subseteq> route_id_set T \<and> rt_nodes T = rt_nodes T0 \<and> rt_pulls T = rt_pulls T0"

lemma clear_keeps:
  assumes "no_clash (rt_routes T)"
  shows "routes_extend T (clear_prefixes ps (clear_defaults ps T))"
proof -
  have weaker: "no_clash (map f rs)" if "no_clash rs" and "\<And>r s. clashes (f r) (f s) \<Longrightarrow> clashes r s" for f rs
    using that unfolding no_clash_def sorted_wrt_map by (auto elim: sorted_wrt_mono_rel [rotated])
  have "no_clash (rt_routes (clear_defaults ps T))"
    unfolding clear_defaults_def using assms by (auto intro!: weaker simp: clashes_def)
  then have "no_clash (rt_routes (clear_prefixes ps (clear_defaults ps T)))"
    unfolding clear_prefixes_def by (auto intro!: weaker simp: clashes_def split: if_splits)
  moreover have "map rr_id (rt_routes (clear_prefixes ps (clear_defaults ps T))) = map rr_id (rt_routes T)"
    by (simp add: clear_prefixes_def clear_defaults_def)
  then have "route_id_set (clear_prefixes ps (clear_defaults ps T)) = route_id_set T"
    unfolding route_id_set_def by (metis set_map)
  ultimately show ?thesis by (simp add: routes_extend_def clear_prefixes_def clear_defaults_def)
qed

lemma write_route_keeps:
  assumes "routes_extend T0 T" and "write_route p T = Inr T'"
  shows "routes_extend T0 T'"
proof (cases "pr_exists p")
  case False
  with assms show ?thesis
    by (auto simp: write_route_def insert_route_def routes_extend_def no_clash_append route_id_set_def split: if_splits)
next
  case True
  with assms(2) obtain old where old: "find_route (rr_id (pr_model p)) T = Some old"
    and apart: "\<not> list_ex (\<lambda>s. rr_id s \<noteq> rr_id (pr_model p) \<and> clashes ((pr_model p)\<lparr>rr_created_at := rr_created_at old\<rparr>) s) (rt_routes T)"
    and T': "T' = T\<lparr>rt_routes := map (\<lambda>s. if rr_id s = rr_id (pr_model p) then (pr_model p)\<lparr>rr_created_at := rr_created_at old\<rparr> else s) (rt_routes T)\<rparr>"
    by (auto simp: write_route_def update_route_def Let_def split: option.splits if_splits)
  let ?new = "(pr_model p)\<lparr>rr_created_at := rr_created_at old\<rparr>"
  have "no_clash (rt_routes T')"
    using no_clash_replace [of "rt_routes T" ?new] assms(1) apart by (simp add: routes_extend_def T')
  moreover have "map rr_id (rt_routes T') = map rr_id (rt_routes T)" by (simp add: T')
  then have "route_id_set T' = route_id_set T" unfolding route_id_set_def by (metis set_map)
  ultimately show ?thesis using assms(1) by (simp add: routes_extend_def T')
qed


text \<open>What a snapshot may make of a node: no stored secret, enabled only without authentication, and at an upstream that was checked.\<close>

definition imported_node :: "'u node_env \<Rightarrow> config \<Rightarrow> export_node list \<Rightarrow> node_model \<Rightarrow> bool" where
  "imported_node env config nodes n \<longleftrightarrow>
     nd_auth_secret_enc n = None \<and> (nd_enabled n \<longrightarrow> nd_auth_mode n = ''none'')
     \<and> list_ex (\<lambda>m. case validate_upstream (ne_url env) (ne_lookup env) (en_url m) config of
                      Inl _ \<Rightarrow> False | Inr v \<Rightarrow> nd_url n = url_as_str (ne_url env) (vu_url v)) nodes"

lemma prepare_node_imported:
  assumes "prepare_node env config ids fresh now N node = Inr p" and "node \<in> set nodes"
  shows "imported_node env config nodes (pn_model p)"
  using assms unfolding prepare_node_def Let_def imported_node_def list_ex_iff
  by (auto simp: ok_or_def split: option.splits sum.splits if_splits intro!: bexI [of _ node])

lemma prepare_nodes_imported:
  "prepare_nodes env config ids fresh now N k ms = Inr ps \<Longrightarrow> set ms \<subseteq> set nodes \<Longrightarrow> p \<in> set ps
     \<Longrightarrow> imported_node env config nodes (pn_model p)"
  by (induction ms arbitrary: k ps) (auto dest: prepare_node_imported split: sum.splits)

text \<open>What the statements on nodes keep of the rows \<open>N0\<close>.\<close>

definition nodes_extend :: "(node_model \<Rightarrow> bool) \<Rightarrow> node_tables \<Rightarrow> node_tables \<Rightarrow> bool" where
  "nodes_extend good N0 N \<longleftrightarrow>
     apart (nt_nodes N) \<and> node_ids N0 \<subseteq> node_ids N \<and> (\<forall>n \<in> set (nt_nodes N). n \<in> set (nt_nodes N0) \<or> good n)
     \<and> list_all (\<lambda>n. has_route (nd_registry_route_id n) (nt_routes N0)) (nt_nodes N)
     \<and> rt_routes (nt_routes N) = rt_routes (nt_routes N0) \<and> rt_pulls (nt_routes N) = rt_pulls (nt_routes N0)"

lemma nodes_extend_other:
  "nt_routes N' = nt_routes N \<Longrightarrow> nodes_extend good N0 N' = nodes_extend good N0 N"
  by (simp add: nodes_extend_def node_ids_def)

lemma insert_node_extends:
  "nodes_extend good N0 N \<Longrightarrow> good n \<Longrightarrow> insert_node n N = (N', Inr n') \<Longrightarrow> nodes_extend good N0 N'"
  using find_route_has [of "nd_registry_route_id n" "nt_routes N"]
  by (auto simp: insert_node_def with_nodes_def nodes_extend_def apart_append node_ids_def has_route_def split: if_splits)

lemma save_node_extends:
  assumes "nodes_extend good N0 N" and "\<And>t. good (n\<lparr>nd_created_at := t\<rparr>)" and "save_node n N = (N', Inr n')"
  shows "nodes_extend good N0 N'"
proof -
  from assms(3) obtain old where old: "find_node (nd_id n) N = Some old"
    and free: "\<not> list_ex (\<lambda>m. nd_id m \<noteq> nd_id n \<and> node_clashes (n\<lparr>nd_created_at := nd_created_at old\<rparr>) m) (nt_nodes N)"
    and route: "find_route (nd_registry_route_id n) (nt_routes N) \<noteq> None"
    and N': "N' = with_nodes (map (\<lambda>m. if nd_id m = nd_id n then n\<lparr>nd_created_at := nd_created_at old\<rparr> else m) (nt_nodes N)) N"
    by (auto simp: save_node_def Let_def split: option.splits if_splits)
  let ?new = "n\<lparr>nd_created_at := nd_created_at old\<rparr>"
  have "apart (nt_nodes N')"
    using apart_replace [of "nt_nodes N" ?new] assms(1) free by (simp add: nodes_extend_def N' with_nodes_def)
  moreover have "map nd_id (nt_nodes N') = map nd_id (nt_nodes N)" by (simp add: N' with_nodes_def)
  then have "node_ids N' = node_ids N" unfolding node_ids_def by (metis set_map)
  moreover have "has_route (nd_registry_route_id n) (nt_routes N0)"
    using route assms(1) unfolding find_route_has by (simp add: nodes_extend_def has_route_def)
  ultimately show ?thesis using assms(1,2) by (auto simp: nodes_extend_def N' with_nodes_def list_all_iff)
qed


lemma set_limit_routes: "set_node_max_concurrency k l N = (N', r) \<Longrightarrow> nt_routes N' = nt_routes N"
  by (auto simp: set_node_max_concurrency_def split: if_splits)

lemma insert_metric_routes: "insert_metric m N = Inr N' \<Longrightarrow> nt_routes N' = nt_routes N"
  by (auto simp: insert_metric_def upsert_metric_def split: if_splits)

lemma write_node_cases:
  assumes "write_node p N = Inr N'"
  obtains (saved) N1 n where "save_node (pn_model p) N = (N1, Inr n)" and "nt_routes N' = nt_routes N1"
  | (inserted) N1 n where "insert_node (pn_model p) N = (N1, Inr n)" and "nt_routes N' = nt_routes N1"
proof (cases "pn_exists p")
  case True
  obtain N1 r where save: "save_node (pn_model p) N = (N1, r)" by (cases "save_node (pn_model p) N")
  with True assms obtain n where "r = Inr n" by (cases r) (simp_all add: write_node_def)
  moreover obtain N2 r2 where "set_node_max_concurrency (nd_id (pn_model p)) (pn_max_concurrency p) N1 = (N2, r2)"
    by (cases "set_node_max_concurrency (nd_id (pn_model p)) (pn_max_concurrency p) N1")
  ultimately show thesis
    using True assms save saved set_limit_routes by (cases r2) (simp_all add: write_node_def)
next
  case False
  obtain N1 r where ins: "insert_node (pn_model p) N = (N1, r)" by (cases "insert_node (pn_model p) N")
  with False assms obtain n where n: "r = Inr n" by (cases r) (simp_all add: write_node_def)
  with False assms ins obtain M where M: "insert_metric (empty_metric (nd_id (pn_model p))) N1 = Inr M"
    by (cases "insert_metric (empty_metric (nd_id (pn_model p))) N1") (simp_all add: write_node_def)
  moreover obtain N2 r2 where "set_node_max_concurrency (nd_id (pn_model p)) (pn_max_concurrency p) M = (N2, r2)"
    by (cases "set_node_max_concurrency (nd_id (pn_model p)) (pn_max_concurrency p) M")
  ultimately show thesis
    using False assms ins n inserted set_limit_routes insert_metric_routes [OF M] by (cases r2) (simp_all add: write_node_def)
qed

lemma write_node_extends:
  assumes "nodes_extend good N0 N" and "\<And>t. good ((pn_model p)\<lparr>nd_created_at := t\<rparr>)" and "write_node p N = Inr N'"
  shows "nodes_extend good N0 N'"
  using assms(3)
proof (cases rule: write_node_cases)
  case (saved N1 n)
  from save_node_extends [OF assms(1,2) saved(1)] show ?thesis by (simp only: nodes_extend_other [OF saved(2)])
next
  case (inserted N1 n)
  have "good (pn_model p)" using assms(2) [of "nd_created_at (pn_model p)"] by simp
  from insert_node_extends [OF assms(1) this inserted(1)] show ?thesis by (simp only: nodes_extend_other [OF inserted(2)])
qed

lemma apply_prepared_snapshot_extends:
  assumes "no_clash (rt_routes (nt_routes (at_nodes A)))" and "apart (nt_nodes (at_nodes A))"
    and "list_all (\<lambda>n. has_route (nd_registry_route_id n) (nt_routes (at_nodes A))) (nt_nodes (at_nodes A))"
    and "\<And>p t. p \<in> set nodes \<Longrightarrow> good ((pn_model p)\<lparr>nd_created_at := t\<rparr>)"
    and "apply_prepared_snapshot tf routes nodes settings A = Inr A'"
  obtains T where "routes_extend (nt_routes (at_nodes A)) T"
    and "nodes_extend good ((at_nodes A)\<lparr>nt_routes := T\<rparr>) (at_nodes A')"
    and "at_settings A' = (case settings of None \<Rightarrow> at_settings A | Some i \<Rightarrow> runtime_setting_values tf i)"
proof -
  let ?N = "at_nodes A"
  from assms(5) obtain T where T: "write_all_rows write_route routes (clear_prefixes routes (clear_defaults routes (nt_routes ?N))) = Inr T"
    and N: "write_all_rows write_node nodes (?N\<lparr>nt_routes := T\<rparr>) = Inr (at_nodes A')"
    and S: "at_settings A' = (case settings of None \<Rightarrow> at_settings A | Some i \<Rightarrow> fold upsert_setting (runtime_setting_values tf i) [])"
    unfolding apply_prepared_snapshot_def Let_def by (auto split: sum.splits)
  have routes: "routes_extend (nt_routes ?N) T"
    using clear_keeps [OF assms(1)] T by (rule write_all_rows_keep [rotated]) (rule write_route_keeps)
  have "nodes_extend good (?N\<lparr>nt_routes := T\<rparr>) (?N\<lparr>nt_routes := T\<rparr>)"
    using routes assms(2,3) by (auto simp: nodes_extend_def routes_extend_def route_id_set_def has_route_def list_all_iff)
  then have "nodes_extend good (?N\<lparr>nt_routes := T\<rparr>) (at_nodes A')"
    using N by (rule write_all_rows_keep [rotated]) (auto intro: write_node_extends assms(4))
  with routes S that show thesis
    using replace_values [of tf] by (simp add: replace_runtime_settings_def split: option.splits)
qed


text \<open>The consistency of the tables that an import relies on and keeps: keys, prefixes, URLs and ids are unique, and the nodes belong to routes.\<close>

definition tables_intact :: "app_tables \<Rightarrow> bool" where
  "tables_intact A \<longleftrightarrow>
     no_clash (rt_routes (nt_routes (at_nodes A))) \<and> apart (nt_nodes (at_nodes A))
     \<and> list_all (\<lambda>n. has_route (nd_registry_route_id n) (nt_routes (at_nodes A))) (nt_nodes (at_nodes A))"

lemma nodes_ok_intact: "nodes_ok (at_nodes A) \<Longrightarrow> tables_intact A"
  by (simp add: nodes_ok_def routes_ok_def tables_intact_def)

lemma import_runtime_cases:
  assumes "import_runtime tf env parse config fresh now export A = (A', r)"
  obtains (refused) e where "A' = A" and "r = Inl e"
  | (applied) routes nodes ids k where "prepare_nodes env config ids fresh now (at_nodes A) k (rx_nodes export) = Inr nodes"
      and "apply_prepared_snapshot tf routes nodes (rx_settings export) A = Inr A'"
      and "rx_settings export \<noteq> None \<longrightarrow> validate_runtime_settings (the (rx_settings export)) = Inr ()"
  using assms unfolding import_runtime_def apply_runtime_snapshot_def
  by (auto split: if_splits option.splits sum.splits prod.splits)


section \<open>Properties\<close>


text \<open>A mirror that needs a password is imported into a new instance: it arrives disabled.\<close>

definition sample_snapshot :: runtime_settings_export where
  "sample_snapshot =
     \<lparr>rx_format = SNAPSHOT_FORMAT, rx_version = 1, rx_settings = None, rx_registry_routes = [],
      rx_nodes = [\<lparr>en_name = ''Mirror'', en_url = ''https://mirror.example/'', en_registry_route = DOCKER_HUB_ROUTE_KEY, en_enabled = True,
        en_priority = 10, en_max_concurrency = 4, en_cf_preferred = False, en_connect_ip_type = ''ip'', en_connect_ip = None,
        en_auth_mode = ''basic'', en_auth_username = Some ''ann'', en_auth_header = None\<rparr>]\<rparr>"

definition sample_tables :: app_tables where
  "sample_tables = \<lparr>at_nodes = fresh_tables 0, at_settings = []\<rparr>"

lemma sample_intact: "tables_intact sample_tables"
  by (rule nodes_ok_intact) (simp add: sample_tables_def fresh_ok)


lemma sample_upstream:
  "\<exists>v. validate_upstream (ne_url sample_node_env) (ne_lookup sample_node_env) ''https://mirror.example/'' (for_test ''d'') = Inr v"
  by (simp add: validate_upstream_def validate_url_def sample_node_env_def plain_url_ops_def Let_def to_ascii_lowercase_def for_test_def ok_or_def)


abbreviation sample_fresh :: "nat \<Rightarrow> uuid" where
  "sample_fresh n \<equiv> 7 + n"

abbreviation sample_prepared :: "prepared_node list api_result" where
  "sample_prepared \<equiv> prepare_nodes sample_node_env (for_test ''d'') (route_ids (seeded 0) []) sample_fresh 0 (fresh_tables 0) 0 (rx_nodes sample_snapshot)"

lemma sample_prepares:
  "\<exists>p. sample_prepared = Inr [p] \<and> \<not> pn_exists p \<and> nd_id (pn_model p) = 7 \<and> nd_registry_route_id (pn_model p) = DOCKER_HUB_ROUTE_ID
     \<and> pn_max_concurrency p = 4"
proof -
  obtain v where "validate_upstream (ne_url sample_node_env) (ne_lookup sample_node_env) ''https://mirror.example/'' (for_test ''d'') = Inr v"
    using sample_upstream by blast
  moreover have "route_ids (seeded 0) [] DOCKER_HUB_ROUTE_KEY = Some DOCKER_HUB_ROUTE_ID"
    by (simp add: route_ids_def seeded_rows builtin_defs)
  moreover have "get_node_by_route_and_url k u (fresh_tables 0) = None" for k u
    by (simp add: get_node_by_route_and_url_def fresh_tables_def seeded_rows)
  moreover have "trim ''Mirror'' = ''Mirror''" by code_simp
  ultimately show ?thesis
    by (simp add: sample_snapshot_def prepare_node_def ok_or_def Let_def validate_input_def normalize_connect_ip_type_def
      normalized_auth_mode_def)
qed

lemma sample_import_adds:
  "nt_nodes (at_nodes (fst (import_runtime sample_forms sample_node_env (\<lambda>_. None) (for_test ''d'') sample_fresh 0 sample_snapshot sample_tables))) \<noteq> []"
proof -
  obtain p where p: "sample_prepared = Inr [p]" "\<not> pn_exists p" "nd_id (pn_model p) = 7"
    "nd_registry_route_id (pn_model p) = DOCKER_HUB_ROUTE_ID" "pn_max_concurrency p = 4" using sample_prepares by blast
  have "validate_import_snapshot (seeded 0) sample_snapshot = Inr ()"
    by (simp add: validate_import_snapshot_def sample_snapshot_def list_routes_def seeded_rows route_view_def docker_hub_route_def)
  moreover obtain N where "write_node p ((fresh_tables 0)\<lparr>nt_routes := seeded 0\<rparr>) = Inr N" and "nt_nodes N = [pn_model p]"
    using p(2-5) by (simp add: write_node_def insert_node_def fresh_tables_def seeded_rows find_route_def docker_hub_route_def with_nodes_def
      insert_metric_def upsert_metric_def empty_metric_def find_node_def set_node_max_concurrency_def)
  moreover have "nt_routes (fresh_tables 0) = seeded 0" "at_nodes sample_tables = fresh_tables 0"
    by (simp_all add: fresh_tables_def sample_tables_def)
  moreover have "rx_registry_routes sample_snapshot = []" "rx_settings sample_snapshot = None" "rx_format sample_snapshot = SNAPSHOT_FORMAT"
    "rx_version sample_snapshot = 1" by (simp_all add: sample_snapshot_def)
  moreover have "clear_prefixes [] (clear_defaults [] T) = T" for T by (simp add: clear_prefixes_def clear_defaults_def)
  ultimately show ?thesis
    using p(1) by (simp add: import_runtime_def apply_runtime_snapshot_def apply_prepared_snapshot_def Let_def)
qed



text \<open>
  A default route that is not in the snapshot loses its flag when the snapshot brings another default, and gets no prefix: no
  request reaches it any more, although every service operation keeps a route without prefix the default one.
\<close>

definition other_default :: registry_route where
  "other_default = (ghcr_route 0)\<lparr>rr_path_prefix := None, rr_is_default := True\<rparr>"

lemma stranded_default:
  "apply_prepared_snapshot tf [\<lparr>pr_model = other_default, pr_exists = True\<rparr>] [] None sample_tables
   = Inr (sample_tables\<lparr>at_nodes := (fresh_tables 0)\<lparr>nt_routes := (seeded 0)\<lparr>rt_routes := [(docker_hub_route 0)\<lparr>rr_is_default := False\<rparr>, other_default]\<rparr>\<rparr>\<rparr>)"
  "\<not> default_exact ((docker_hub_route 0)\<lparr>rr_is_default := False\<rparr>)"
  by (simp_all add: apply_prepared_snapshot_def sample_tables_def fresh_tables_def seeded_rows clear_prefixes_def clear_defaults_def write_route_def
      update_route_def find_route_def clashes_def other_default_def builtin_defs default_exact_def Let_def)

end
