(* ===== verification/Schema_Migrations.thy ===== *)
theory Schema_Migrations
  imports Registry_Routes Credentials
begin

text \<open>
  The start of the database, \<^verbatim>\<open>src/src/db.rs\<close>: an incompatible schema is refused, the tables are created, and the pending migrations are applied
  in one transaction, each recorded with a checksum in the table \<open>donkey_schema_migrations\<close>. SQLite itself is a parameter: a statement
  takes a database to a database or fails. So are the texts of the migrations and of the \<open>CREATE TABLE\<close> statements that sea-orm derives from the entities.
\<close>

section \<open>Migrations and their table\<close>

record migration =
  mg_version :: int
  mg_name :: string
  mg_statements :: "string list"

record 's sqlite =
  sq_execute :: "string \<Rightarrow> 's \<Rightarrow> db_error + 's"
  sq_has_table :: "string \<Rightarrow> 's \<Rightarrow> bool"
  sq_table_info :: "string \<Rightarrow> 's \<Rightarrow> string list"
  sq_sha256_hex :: "bytes \<Rightarrow> string"

record applied_migration =
  am_version :: int
  am_name :: string
  am_checksum :: string

text \<open>The database, with the migration table apart: it may be missing, or lack the column \<open>checksum\<close>.\<close>

record 's migrated_db =
  md_schema :: 's
  md_applied :: "applied_migration list option"
  md_has_checksum :: bool

definition migration_checksum :: "'s sqlite \<Rightarrow> migration \<Rightarrow> string" where
  "migration_checksum env m =
     sq_sha256_hex env (as_bytes (mg_name m) @ concat (map (\<lambda>s. 0 # as_bytes s) (mg_statements m)))"

fun execute_all :: "'s sqlite \<Rightarrow> string list \<Rightarrow> 's \<Rightarrow> db_error + 's" where
  "execute_all env [] s = Inr s"
| "execute_all env (statement # statements) s = result_bind (sq_execute env statement s) (execute_all env statements)"

definition apply_migration :: "'s sqlite \<Rightarrow> migration \<Rightarrow> 's \<Rightarrow> db_error + 's" where
  "apply_migration env m s =
     (if mg_version m = 11 \<and> ''connect_ip_type'' \<in> set (sq_table_info env ''nodes'' s) then Inr s
      else execute_all env (mg_statements m) s)"

section \<open>Applying what is pending\<close>

text \<open>\<open>CREATE TABLE IF NOT EXISTS\<close>, and the column that older versions of the table lack.\<close>

definition migration_table :: "'s migrated_db \<Rightarrow> 's migrated_db" where
  "migration_table D =
     (let D1 = (case md_applied D of None \<Rightarrow> D\<lparr>md_applied := Some [], md_has_checksum := False\<rparr> | Some _ \<Rightarrow> D) in
      if md_has_checksum D1 then D1
      else D1\<lparr>md_applied := map_option (map (\<lambda>r. r\<lparr>am_checksum := ''''\<rparr>)) (md_applied D1), md_has_checksum := True\<rparr>)"

definition rows_of :: "'s migrated_db \<Rightarrow> applied_migration list" where
  "rows_of D = (case md_applied D of None \<Rightarrow> [] | Some rows \<Rightarrow> rows)"

definition latest_known :: "migration list \<Rightarrow> int" where
  "latest_known ms = (if ms = [] then 0 else Max (set (map mg_version ms)))"

definition record_migration :: "'s sqlite \<Rightarrow> migration \<Rightarrow> 's migrated_db \<Rightarrow> db_error + 's migrated_db" where
  "record_migration env m D =
     (if list_ex (\<lambda>r. am_version r = mg_version m) (rows_of D) then Inl UniqueConstraintViolation
      else Inr (D\<lparr>md_applied := Some (rows_of D @ [\<lparr>am_version = mg_version m, am_name = mg_name m, am_checksum = migration_checksum env m\<rparr>])\<rparr>))"

fun apply_each :: "'s sqlite \<Rightarrow> applied_migration list \<Rightarrow> migration list \<Rightarrow> 's migrated_db \<Rightarrow> db_error + 's migrated_db" where
  "apply_each env applied_versions [] D = Inr D"
| "apply_each env applied_versions (m # ms) D =
     (case find (\<lambda>r. am_version r = mg_version m) applied_versions of
        Some r \<Rightarrow>
          if am_checksum r \<noteq> '''' \<and> am_checksum r \<noteq> migration_checksum env m
          then Inl (OtherDbErr (''migration '' @ int_text (mg_version m) @ '' checksum mismatch''))
          else apply_each env applied_versions ms D
      | None \<Rightarrow>
          result_bind (apply_migration env m (md_schema D)) (\<lambda>s.
          result_bind (record_migration env m (D\<lparr>md_schema := s\<rparr>)) (\<lambda>D'.
            apply_each env applied_versions ms D')))"

definition apply_pending_migrations :: "'s sqlite \<Rightarrow> migration list \<Rightarrow> 's migrated_db \<Rightarrow> db_error + 's migrated_db" where
  "apply_pending_migrations env ms D =
     (let D1 = migration_table D;
          applied_versions = sort_key am_version (rows_of D1)
      in case find (\<lambda>r. latest_known ms < am_version r) applied_versions of
           Some r \<Rightarrow> Inl (OtherDbErr (''database schema version '' @ int_text (am_version r) @ '' is newer than this binary supports''))
         | None \<Rightarrow> apply_each env applied_versions ms D1)"

definition apply_migrations :: "'s sqlite \<Rightarrow> migration list \<Rightarrow> 's migrated_db \<Rightarrow> 's migrated_db \<times> (db_error + unit)" where
  "apply_migrations env ms D =
     (case apply_pending_migrations env ms D of Inl e \<Rightarrow> (D, Inl e) | Inr D' \<Rightarrow> (D', Inr ()))"

section \<open>Opening the database\<close>

definition reject_legacy_node_schema :: "'s sqlite \<Rightarrow> 's \<Rightarrow> db_error + unit" where
  "reject_legacy_node_schema env s =
     (if \<not> sq_has_table env ''nodes'' s then Inr ()
      else if ''registry_route_id'' \<in> set (sq_table_info env ''nodes'' s) then Inr ()
      else Inl (OtherDbErr ''existing nodes schema is incompatible; delete and recreate the unused Donkey database''))"

text \<open>
  \<open>connect\<close> up to the seeding of the built-in routes. The \<open>CREATE TABLE IF NOT EXISTS\<close> statements are executed one by one, outside of a transaction.
\<close>

fun create_tables :: "'s sqlite \<Rightarrow> string list \<Rightarrow> 's migrated_db \<Rightarrow> 's migrated_db \<times> (db_error + unit)" where
  "create_tables env [] D = (D, Inr ())"
| "create_tables env (statement # statements) D =
     (case sq_execute env statement (md_schema D) of
        Inl e \<Rightarrow> (D, Inl e)
      | Inr s \<Rightarrow> create_tables env statements (D\<lparr>md_schema := s\<rparr>))"

definition connect_schema ::
  "'s sqlite \<Rightarrow> string list \<Rightarrow> migration list \<Rightarrow> 's migrated_db \<Rightarrow> 's migrated_db \<times> (db_error + unit)" where
  "connect_schema env tables ms D =
     (case reject_legacy_node_schema env (md_schema D) of
        Inl e \<Rightarrow> (D, Inl e)
      | Inr _ \<Rightarrow>
          (case create_tables env (''PRAGMA journal_mode=WAL;'' # tables) D of
             (D1, Inl e) \<Rightarrow> (D1, Inl e)
           | (D1, Inr _) \<Rightarrow> apply_migrations env ms D1))"

section \<open>Lemmas\<close>

text \<open>The row that stands for a migration: none, or one with no checksum or with the checksum of the migration.\<close>

definition settled :: "'s sqlite \<Rightarrow> applied_migration list \<Rightarrow> migration \<Rightarrow> bool" where
  "settled env rows m \<longleftrightarrow>
     (\<exists>r \<in> set rows. am_version r = mg_version m)
     \<and> (\<forall>r \<in> set rows. am_version r = mg_version m \<longrightarrow> am_checksum r = '''' \<or> am_checksum r = migration_checksum env m)"

lemma apply_each_settled:
  assumes "\<forall>m \<in> set ms. settled env rows m"
  shows "apply_each env rows ms D = Inr D"
  using assms
proof (induction ms)
  case (Cons m ms)
  then obtain r where r: "find (\<lambda>r. am_version r = mg_version m) rows = Some r"
    using find_None_iff [of "\<lambda>r. am_version r = mg_version m" rows] unfolding settled_def by fastforce
  then have "r \<in> set rows" "am_version r = mg_version m" by (auto simp: find_Some_iff)
  with Cons r show ?case unfolding settled_def by auto
qed simp


text \<open>The migration table as the transaction leaves it: a table with checksums and one row per version.\<close>

definition table_ok :: "'s migrated_db \<Rightarrow> bool" where
  "table_ok D \<longleftrightarrow> md_applied D \<noteq> None \<and> md_has_checksum D \<and> distinct (map am_version (rows_of D))"

lemma migration_table_ok: "distinct (map am_version (rows_of D)) \<Longrightarrow> table_ok (migration_table D)"
  by (auto simp: table_ok_def migration_table_def rows_of_def Let_def comp_def split: option.splits)

lemma migration_table_id: "table_ok D \<Longrightarrow> migration_table D = D"
  by (auto simp: table_ok_def migration_table_def)

lemma settled_unique:
  assumes "distinct (map am_version rows)" and "r \<in> set rows" and "am_version r = mg_version m"
    and "am_checksum r = '''' \<or> am_checksum r = migration_checksum env m"
  shows "settled env rows m"
  using assms unfolding settled_def by (metis distinct_map inj_on_eq_iff)

lemma record_migration_rows:
  assumes "record_migration env m (D\<lparr>md_schema := s\<rparr>) = Inr D1" and "table_ok D"
  shows "table_ok D1"
    and "rows_of D1 = rows_of D @ [\<lparr>am_version = mg_version m, am_name = mg_name m, am_checksum = migration_checksum env m\<rparr>]"
  using assms by (auto simp: record_migration_def table_ok_def rows_of_def list_ex_iff split: if_splits) blast

lemma apply_each_rows:
  assumes "apply_each env seen ms D = Inr D'" and "table_ok D" and "set seen \<subseteq> set (rows_of D)"
  shows "table_ok D' \<and> set (rows_of D) \<subseteq> set (rows_of D') \<and> (\<forall>m \<in> set ms. settled env (rows_of D') m)
    \<and> am_version ` set (rows_of D') \<subseteq> am_version ` set (rows_of D) \<union> mg_version ` set ms"
  using assms
proof (induction ms arbitrary: D)
  case (Cons m ms)
  show ?case
  proof (cases "find (\<lambda>r. am_version r = mg_version m) seen")
    case (Some r)
    then have r: "r \<in> set seen" "am_version r = mg_version m" by (auto simp: find_Some_iff)
    with Some Cons.prems(1) have sum: "am_checksum r = '''' \<or> am_checksum r = migration_checksum env m"
      and rest: "apply_each env seen ms D = Inr D'" by (auto split: if_splits)
    note IH = Cons.IH [OF rest Cons.prems(2,3)]
    have "settled env (rows_of D') m"
      using IH Cons.prems(3) r sum by (intro settled_unique [of _ r]) (auto simp: table_ok_def)
    with IH show ?thesis by auto
  next
    case None
    with Cons.prems(1) obtain s D1 where D1: "record_migration env m (D\<lparr>md_schema := s\<rparr>) = Inr D1"
      and rest: "apply_each env seen ms D1 = Inr D'" by auto
    note rows = record_migration_rows [OF D1 Cons.prems(2)]
    have IH: "table_ok D' \<and> set (rows_of D1) \<subseteq> set (rows_of D') \<and> (\<forall>m \<in> set ms. settled env (rows_of D') m)
      \<and> am_version ` set (rows_of D') \<subseteq> am_version ` set (rows_of D1) \<union> mg_version ` set ms"
      using Cons.prems(3) rows by (intro Cons.IH [OF rest]) auto
    then have "settled env (rows_of D') m"
      using rows(2) by (intro settled_unique [of _ "\<lparr>am_version = mg_version m, am_name = mg_name m, am_checksum = migration_checksum env m\<rparr>"])
        (auto simp: table_ok_def)
    with IH rows(2) show ?thesis by auto
  qed
qed simp

lemma latest_known_ge: "m \<in> set ms \<Longrightarrow> mg_version m \<le> latest_known ms"
  by (auto simp: latest_known_def intro: Max_ge)

lemma pending_outcome:
  assumes "apply_pending_migrations env ms D = Inr D'" and "distinct (map am_version (rows_of D))"
  shows "table_ok D' \<and> (\<forall>m \<in> set ms. settled env (rows_of D') m) \<and> (\<forall>r \<in> set (rows_of D'). am_version r \<le> latest_known ms)"
proof -
  let ?D1 = "migration_table D"
  from assms(1) have none: "find (\<lambda>r. latest_known ms < am_version r) (sort_key am_version (rows_of ?D1)) = None"
    and each: "apply_each env (sort_key am_version (rows_of ?D1)) ms ?D1 = Inr D'"
    unfolding apply_pending_migrations_def Let_def by (auto split: option.splits)
  from none have old: "am_version ` set (rows_of ?D1) \<subseteq> {..latest_known ms}" by (auto simp: find_None_iff not_less)
  have new: "mg_version ` set ms \<subseteq> {..latest_known ms}" using latest_known_ge by auto
  have out: "table_ok D' \<and> set (rows_of ?D1) \<subseteq> set (rows_of D') \<and> (\<forall>m \<in> set ms. settled env (rows_of D') m)
    \<and> am_version ` set (rows_of D') \<subseteq> am_version ` set (rows_of ?D1) \<union> mg_version ` set ms"
    by (rule apply_each_rows [OF each migration_table_ok [OF assms(2)]]) simp
  then have "am_version ` set (rows_of D') \<subseteq> {..latest_known ms}" using old new by blast
  with out show ?thesis by auto
qed

lemma pending_settled:
  assumes "table_ok D" and "\<forall>m \<in> set ms. settled env (rows_of D) m" and "\<forall>r \<in> set (rows_of D). am_version r \<le> latest_known ms"
  shows "apply_pending_migrations env ms D = Inr D"
proof -
  have "find (\<lambda>r. latest_known ms < am_version r) (sort_key am_version (rows_of D)) = None"
    using assms(3) by (auto simp: find_None_iff not_less)
  moreover have "\<forall>m \<in> set ms. settled env (sort_key am_version (rows_of D)) m" using assms(2) by (simp add: settled_def)
  ultimately show ?thesis
    using apply_each_settled by (simp add: apply_pending_migrations_def migration_table_id [OF assms(1)])
qed


section \<open>Properties\<close>

text \<open>
  C35: Migrations are applied once and as a whole. If one of them fails, if an applied one has been changed since, or if the database is newer than the
  binary, the database stays as it was. If they succeed, each is recorded once, with nothing newer than the binary, and a later start of the same binary executes no migration statement
  at all: it succeeds and leaves the database as it is even where every statement would fail.
\<close>

theorem migrations_applied_once:
  assumes "distinct (map am_version (rows_of D))" and "apply_migrations env ms D = (D', r)"
  shows "case r of
      Inl _ \<Rightarrow> D' = D
    | Inr _ \<Rightarrow>
        distinct (map am_version (rows_of D')) \<and> mg_version ` set ms \<subseteq> am_version ` set (rows_of D')
        \<and> (\<forall>row \<in> set (rows_of D'). am_version row \<le> latest_known ms)
        \<and> apply_migrations (env\<lparr>sq_execute := other\<rparr>) ms D' = (D', Inr ())"
proof (cases "apply_pending_migrations env ms D")
  case (Inr D1)
  note out = pending_outcome [OF Inr assms(1)]
  have "settled (env\<lparr>sq_execute := other\<rparr>) rows m = settled env rows m" for rows m
    by (simp add: settled_def migration_checksum_def)
  with out have "apply_pending_migrations (env\<lparr>sq_execute := other\<rparr>) ms D1 = Inr D1" by (intro pending_settled) simp_all
  moreover have "mg_version ` set ms \<subseteq> am_version ` set (rows_of D1)"
    using out unfolding settled_def image_subset_iff by (metis image_eqI)
  ultimately show ?thesis using assms(2) Inr out by (auto simp: apply_migrations_def table_ok_def)
qed (use assms(2) in \<open>auto simp: apply_migrations_def\<close>)

text \<open>A database that has its first migration and gets the second one; statements are logged.\<close>

definition logging_sqlite :: "string list sqlite" where
  "logging_sqlite = \<lparr>sq_execute = (\<lambda>s log. Inr (log @ [s])), sq_has_table = (\<lambda>_ _. True), sq_table_info = (\<lambda>_ _. []), sq_sha256_hex = (\<lambda>_. ''ab'')\<rparr>"

definition two_migrations :: "migration list" where
  "two_migrations = [\<lparr>mg_version = 1, mg_name = ''a'', mg_statements = [''x'']\<rparr>, \<lparr>mg_version = 2, mg_name = ''b'', mg_statements = [''y'', ''z'']\<rparr>]"

definition migrated_once :: "string list migrated_db" where
  "migrated_once = \<lparr>md_schema = [''x''], md_applied = Some [\<lparr>am_version = 1, am_name = ''a'', am_checksum = ''''\<rparr>], md_has_checksum = True\<rparr>"

lemma migrations_applied_once_witness:
  "md_schema (fst (apply_migrations logging_sqlite two_migrations migrated_once)) = [''x'', ''y'', ''z'']
   \<and> apply_migrations (logging_sqlite\<lparr>sq_execute := \<lambda>s _. Inl (OtherDbErr s)\<rparr>) two_migrations
       (fst (apply_migrations logging_sqlite two_migrations migrated_once))
     = (fst (apply_migrations logging_sqlite two_migrations migrated_once), Inr ())"
proof -
  have run: "apply_migrations logging_sqlite two_migrations migrated_once
    = (migrated_once\<lparr>md_schema := [''x'', ''y'', ''z''], md_applied := Some (rows_of migrated_once @ [\<lparr>am_version = 2, am_name = ''b'', am_checksum = ''ab''\<rparr>])\<rparr>, Inr ())"
    by (simp add: apply_migrations_def apply_pending_migrations_def migration_table_def rows_of_def latest_known_def record_migration_def apply_migration_def
        migration_checksum_def migrated_once_def two_migrations_def logging_sqlite_def)
  have "distinct (map am_version (rows_of migrated_once))" by (simp add: migrated_once_def rows_of_def)
  from migrations_applied_once [OF this run, of "\<lambda>s _. Inl (OtherDbErr s)"] run show ?thesis by simp
qed

end
